(* ===== verification/Relay_Prelude.thy ===== *)
theory Relay_Prelude
  imports Main "HOL-Library.Word" "HOL-Library.Sublist"
begin

section \<open>Prelude: the fragment of Go and of SQL the relay server uses\<close>

text \<open>
  What every component theory shares.
  \<^item> Go's byte strings (\<^typ>\<open>string\<close>, one \<^typ>\<open>char\<close> per byte) with the functions of package
    \<^verbatim>\<open>strings\<close> the sources call: \<open>TrimSpace\<close>, \<open>Fields\<close>, \<open>Split\<close>, \<open>HasPrefix\<close>, \<open>HasSuffix\<close>,
    \<open>EqualFold\<close>, \<open>ToLower\<close>, at byte level and with the non-ASCII white space of
    \<^verbatim>\<open>unicode.IsSpace\<close> spelled out in UTF-8;
  \<^item> the results of fallible calls as \<open>'e + 'a\<close> with \<open>Inl\<close> for the error;
  \<^item> instants (\<open>time.Time\<close>) as \<^typ>\<open>int\<close> nanoseconds since year 1, so that Go's zero time is 0;
  \<^item> the process's randomness (\<open>crypto/rand\<close>) as an explicit byte source;
  \<^item> database tables as lists of rows, with the row-level meaning of the SQL the sources send.
\<close>

named_theorems go_simps \<open>equations of the modelled Go library functions\<close>
named_theorems sql_simps \<open>equations of the modelled SQL statements\<close>

type_synonym byte = "8 word"
type_synonym u64 = "64 word"
type_synonym time = int
type_synonym duration = int

subsection \<open>Durations and instants\<close>

definition nanosecond :: duration where "nanosecond = 1"
definition microsecond :: duration where "microsecond = 1000"
definition millisecond :: duration where "millisecond = 1000000"
definition second :: duration where "second = 1000000000"
definition minute :: duration where "minute = 60 * second"
definition hour :: duration where "hour = 60 * minute"

lemmas duration_defs [go_simps] =
  nanosecond_def microsecond_def millisecond_def second_def minute_def hour_def

text \<open>\<open>t.IsZero()\<close>, \<open>t.After(u)\<close>, and what a \<^verbatim>\<open>timestamptz\<close> column keeps of an instant: microseconds.\<close>

definition is_zero_time :: "time \<Rightarrow> bool" where
  "is_zero_time t \<longleftrightarrow> t = 0"

definition after :: "time \<Rightarrow> time \<Rightarrow> bool" where
  "after t u \<longleftrightarrow> u < t"

definition pg_time :: "time \<Rightarrow> time" where
  "pg_time t = t - t mod microsecond"

lemma pg_time_le [simp]: "pg_time t \<le> t"
  by (simp add: pg_time_def microsecond_def)

lemma pg_time_alt: "pg_time t = microsecond * (t div microsecond)"
  by (simp add: pg_time_def minus_mod_eq_mult_div)

lemma pg_time_gt: "t - microsecond < pg_time t"
  using pos_mod_bound [of microsecond t] by (simp add: pg_time_def microsecond_def)

lemma pg_time_idem [simp]: "pg_time (pg_time t) = pg_time t"
  by (simp add: pg_time_alt microsecond_def)

lemma pg_time_mono: "t \<le> u \<Longrightarrow> pg_time t \<le> pg_time u"
  by (simp add: pg_time_alt microsecond_def zdiv_mono1)

subsection \<open>Strings\<close>

definition has_prefix :: "string \<Rightarrow> string \<Rightarrow> bool" where
  "has_prefix s p \<longleftrightarrow> take (length p) s = p"

definition has_suffix :: "string \<Rightarrow> string \<Rightarrow> bool" where
  "has_suffix s p \<longleftrightarrow> length p \<le> length s \<and> drop (length s - length p) s = p"

lemma has_prefix_append [simp]: "has_prefix (p @ s) p"
  by (simp add: has_prefix_def)

lemma has_prefix_iff: "has_prefix s p \<longleftrightarrow> (\<exists>t. s = p @ t)"
  unfolding has_prefix_def by (metis append_eq_conv_conj append_take_drop_id)

lemma has_suffix_iff: "has_suffix s p \<longleftrightarrow> (\<exists>t. s = t @ p)"
  unfolding has_suffix_def
  by (metis append_take_drop_id diff_diff_cancel diff_le_self length_append length_drop
      le_add2 add_diff_cancel_right' append_eq_conv_conj)

text \<open>
  The runes of \<open>unicode.IsSpace\<close>: six ASCII characters, U+0085, U+00A0, and the space
  separators U+1680, U+2000 to U+200A, U+2028, U+2029, U+202F, U+205F and U+3000.
\<close>

definition byte_string :: "nat list \<Rightarrow> string" where
  "byte_string ns = map char_of ns"

definition ascii_spaces :: "string list" where
  "ascii_spaces = map (\<lambda>n. [char_of n]) [9::nat, 10, 11, 12, 13, 32]"

definition wide_spaces :: "string list" where
  "wide_spaces = map byte_string
     ([[0xC2, 0x85], [0xC2, 0xA0], [0xE1, 0x9A, 0x80]]
      @ map (\<lambda>k. [0xE2, 0x80, k]) [0x80, 0x81, 0x82, 0x83, 0x84, 0x85, 0x86, 0x87, 0x88, 0x89, 0x8A]
      @ [[0xE2, 0x80, 0xA8], [0xE2, 0x80, 0xA9], [0xE2, 0x80, 0xAF], [0xE2, 0x81, 0x9F],
         [0xE3, 0x80, 0x80]])"

definition space_runes :: "string list" where
  "space_runes = ascii_spaces @ wide_spaces"

text \<open>The length of the rune of \<open>rs\<close> that \<open>s\<close> starts with, 0 for none.\<close>

fun leading :: "string list \<Rightarrow> string \<Rightarrow> nat" where
  "leading [] s = 0"
| "leading (r # rs) s = (if r \<noteq> [] \<and> has_prefix s r then length r else leading rs s)"

lemma leading_le: "leading rs s \<le> length s"
  by (induction rs) (auto simp: has_prefix_def, metis length_take min.cobounded1)

function trim_left :: "string list \<Rightarrow> string \<Rightarrow> string" where
  "trim_left rs s = (if leading rs s = 0 then s else trim_left rs (drop (leading rs s) s))"
  by pat_completeness auto
termination
proof (relation "measure (\<lambda>(rs, s). length s)", goal_cases)
  case (2 rs s)
  then show ?case using leading_le [of rs s] by auto
qed simp

declare trim_left.simps [simp del]

definition trim_space :: "string \<Rightarrow> string" where
  "trim_space s = rev (trim_left (map rev space_runes) (rev (trim_left space_runes s)))"

lemma trim_left_stop: "leading rs s = 0 \<Longrightarrow> trim_left rs s = s"
  by (simp add: trim_left.simps)

lemma leading_trim_left [simp]: "leading rs (trim_left rs s) = 0"
proof (induction rs s rule: trim_left.induct)
  case (1 rs s)
  then show ?case by (cases "leading rs s = 0") (simp_all add: trim_left.simps [of rs s])
qed

lemma trim_left_suffix: "\<exists>p. s = p @ trim_left rs s"
proof (induction rs s rule: trim_left.induct)
  case (1 rs s)
  show ?case
  proof (cases "leading rs s = 0")
    case False
    with 1 obtain p where "drop (leading rs s) s = p @ trim_left rs (drop (leading rs s) s)"
      by blast
    then have "s = (take (leading rs s) s @ p) @ trim_left rs (drop (leading rs s) s)"
      by (metis append.assoc append_take_drop_id)
    with False show ?thesis by (metis trim_left.simps)
  qed (simp add: trim_left_stop)
qed

lemma length_trim_left: "length (trim_left rs s) \<le> length s"
  using trim_left_suffix [of s rs] by (metis length_append le_add2)

lemma length_trim_space: "length (trim_space s) \<le> length s"
  unfolding trim_space_def length_rev
  by (metis length_rev length_trim_left order_trans)

lemma trim_space_Nil [simp]: "trim_space [] = []"
  by (metis length_0_conv length_trim_space le_zero_eq list.size(3))

text \<open>A string whose first and last bytes belong to no white-space rune is its own trimming.\<close>

definition space_bytes :: "char list" where
  "space_bytes = concat space_runes"

definition plain_ends :: "string \<Rightarrow> bool" where
  "plain_ends s \<longleftrightarrow> s \<noteq> [] \<longrightarrow> hd s \<notin> set space_bytes \<and> last s \<notin> set space_bytes"

lemma leading_zeroI: "(\<And>r. r \<in> set rs \<Longrightarrow> r \<noteq> [] \<Longrightarrow> \<not> has_prefix s r) \<Longrightarrow> leading rs s = 0"
  by (induction rs) auto

lemma leading_plain:
  assumes "s = [] \<or> hd s \<notin> \<Union> (set ` set rs)"
  shows "leading rs s = 0"
proof (rule leading_zeroI)
  fix r assume r: "r \<in> set rs" "r \<noteq> []"
  show "\<not> has_prefix s r"
  proof
    assume "has_prefix s r"
    then obtain t where "s = r @ t" by (auto simp: has_prefix_iff)
    with r have "s \<noteq> []" "hd s \<in> set r" by (auto simp: hd_append)
    with r assms show False by auto
  qed
qed

lemma trim_space_plain: "plain_ends s \<Longrightarrow> trim_space s = s"
proof (cases "s = []")
  case False
  assume "plain_ends s"
  with False have h: "hd s \<notin> set space_bytes" and l: "last s \<notin> set space_bytes"
    by (auto simp: plain_ends_def)
  have "leading space_runes s = 0"
    using h by (intro leading_plain) (auto simp: space_bytes_def)
  moreover have "leading (map rev space_runes) (rev s) = 0"
    using l False by (intro leading_plain) (auto simp: space_bytes_def hd_rev)
  ultimately show ?thesis by (simp add: trim_space_def trim_left_stop)
qed simp

text \<open>The bytes of white-space runes are ASCII controls, the blank, or not ASCII.\<close>

lemma graphic_not_space [simp]:
  assumes "33 \<le> (of_char c :: nat)" "(of_char c :: nat) \<le> 127"
  shows "c \<notin> set space_bytes"
proof
  assume "c \<in> set space_bytes"
  moreover have "list_all (\<lambda>c. (of_char c :: nat) < 33 \<or> 127 < (of_char c :: nat)) space_bytes"
    by (simp add: space_bytes_def space_runes_def ascii_spaces_def wide_spaces_def byte_string_def)
  ultimately show False using assms by (auto simp: list_all_iff)
qed

text \<open>\<open>strings.Split\<close> with a one-byte separator: always at least one part.\<close>

fun split_on :: "char \<Rightarrow> string \<Rightarrow> string list" where
  "split_on c [] = [[]]"
| "split_on c (x # xs) =
     (if x = c then [] # split_on c xs
      else case split_on c xs of [] \<Rightarrow> [[x]] | p # ps \<Rightarrow> (x # p) # ps)"

lemma split_on_nonempty [simp]: "split_on c s \<noteq> []"
  by (induction s) (auto split: list.splits)

lemma split_on_free: "c \<notin> set s \<Longrightarrow> split_on c s = [s]"
  by (induction s) auto

lemma split_on_append: "c \<notin> set s \<Longrightarrow> split_on c (s @ c # t) = s # split_on c t"
  by (induction s) auto

lemma split_on_join: "concat (map (\<lambda>p. p @ [c]) (split_on c s)) = s @ [c]"
  by (induction s) (auto split: list.splits)

text \<open>\<open>strings.Fields\<close>: the maximal runs of non-space runes.\<close>

function fields_from :: "string \<Rightarrow> string \<Rightarrow> string list" where
  "fields_from acc [] = (if acc = [] then [] else [rev acc])"
| "fields_from acc (x # xs) =
     (let n = leading space_runes (x # xs) in
      if n = 0 then fields_from (x # acc) xs
      else (if acc = [] then [] else [rev acc]) @ fields_from [] (drop n (x # xs)))"
  by pat_completeness auto
termination
proof (relation "measure (\<lambda>(acc, s). length s)", goal_cases)
  case (3 acc x xs n)
  then show ?case by (cases n) auto
qed auto

definition str_fields :: "string \<Rightarrow> string list" where
  "str_fields s = fields_from [] s"

text \<open>
  Case folding as \<open>strings.EqualFold\<close> and the field matching of \<open>encoding/json\<close> do it against
  ASCII names: ASCII letters, and the two non-ASCII runes that fold to ASCII ones (U+017F to S,
  U+212A to K).
\<close>

definition upper_char :: "char \<Rightarrow> char" where
  "upper_char c = (let n = of_char c :: nat in if 97 \<le> n \<and> n \<le> 122 then char_of (n - 32) else c)"

definition lower_char :: "char \<Rightarrow> char" where
  "lower_char c = (let n = of_char c :: nat in if 65 \<le> n \<and> n \<le> 90 then char_of (n + 32) else c)"

fun fold_name :: "string \<Rightarrow> string" where
  "fold_name [] = []"
| "fold_name (a # b # c # s) =
     (if a = CHR 0xC5 \<and> b = CHR 0xBF then CHR ''S'' # fold_name (c # s)
      else if a = CHR 0xE2 \<and> b = CHR 0x84 \<and> c = CHR 0xAA then CHR ''K'' # fold_name s
      else upper_char a # fold_name (b # c # s))"
| "fold_name [a, b] =
     (if a = CHR 0xC5 \<and> b = CHR 0xBF then [CHR ''S''] else [upper_char a, upper_char b])"
| "fold_name [a] = [upper_char a]"

definition equal_fold :: "string \<Rightarrow> string \<Rightarrow> bool" where
  "equal_fold s t \<longleftrightarrow> fold_name s = fold_name t"

lemma equal_fold_refl [simp]: "equal_fold s s"
  by (simp add: equal_fold_def)

definition to_lower :: "string \<Rightarrow> string" where
  "to_lower s = map lower_char s"

end
