(* ===== verification/Go_Time.thy ===== *)
theory Go_Time
  imports Relay_Prelude
begin

section \<open>The Go library: RFC 3339 timestamps\<close>

text \<open>
  The two directions of \<open>time.RFC3339Nano\<close> the sources use: \<open>t.UTC().Format\<close> and the strict parser
  behind \<open>time.Parse\<close> and the JSON decoding of \<open>time.Time\<close>. An instant counts nanoseconds from
  Go's zero time, 1 January of year 1, so the proleptic Gregorian calendar is plain floor
  arithmetic. The main result is the round trip for the years a four-digit year can write.
\<close>

subsection \<open>The calendar\<close>

definition days_before_year :: "int \<Rightarrow> int" where
  "days_before_year y = 365 * (y - 1) + (y - 1) div 4 - (y - 1) div 100 + (y - 1) div 400"

definition is_leap :: "int \<Rightarrow> bool" where
  "is_leap y \<longleftrightarrow> y mod 4 = 0 \<and> (y mod 100 \<noteq> 0 \<or> y mod 400 = 0)"

definition month_lengths :: "int \<Rightarrow> int list" where
  "month_lengths y = [31, if is_leap y then 29 else 28, 31, 30, 31, 30, 31, 31, 30, 31, 30, 31]"

definition year_of_day :: "int \<Rightarrow> int" where
  "year_of_day d =
     (let y = (400 * d) div 146097 + 1 in
      if days_before_year (y + 1) \<le> d then y + 1
      else if d < days_before_year y then y - 1 else y)"

text \<open>The index of the month an ordinal day falls in, and its day of the month from 0.\<close>

fun month_split :: "int list \<Rightarrow> int \<Rightarrow> nat \<times> int" where
  "month_split [] d = (0, d)"
| "month_split (l # ls) d =
     (if d < l then (0, d) else let (m, r) = month_split ls (d - l) in (Suc m, r))"

definition days_of_civil :: "int \<Rightarrow> nat \<Rightarrow> int \<Rightarrow> int" where
  "days_of_civil y m d = days_before_year y + sum_list (take (m - 1) (month_lengths y)) + d - 1"

subsection \<open>Decimal digits\<close>

definition digit_char :: "int \<Rightarrow> char" where
  "digit_char n = char_of (nat (48 + n mod 10))"

definition char_digit :: "char \<Rightarrow> int" where
  "char_digit c = int (of_char c) - 48"

definition is_digit :: "char \<Rightarrow> bool" where
  "is_digit c \<longleftrightarrow> (48 :: nat) \<le> of_char c \<and> of_char c \<le> (57 :: nat)"

fun pad_digits :: "nat \<Rightarrow> int \<Rightarrow> string" where
  "pad_digits 0 n = []"
| "pad_digits (Suc w) n = pad_digits w (n div 10) @ [digit_char n]"

definition digits_value :: "string \<Rightarrow> int" where
  "digits_value s = foldl (\<lambda>a c. 10 * a + char_digit c) 0 s"

definition parse_digits :: "string \<Rightarrow> int option" where
  "parse_digits s = (if s \<noteq> [] \<and> list_all is_digit s then Some (digits_value s) else None)"

lemma digit_char_ok [simp]: "is_digit (digit_char n)" "char_digit (digit_char n) = n mod 10"
proof -
  have "0 \<le> n mod 10" "n mod 10 < 10" by simp_all
  then have "nat (48 + n mod 10) < 256" "int (nat (48 + n mod 10)) = 48 + n mod 10" by simp_all
  then have "(of_char (digit_char n) :: nat) = nat (48 + n mod 10)"
    by (simp add: digit_char_def)
  then show "is_digit (digit_char n)" "char_digit (digit_char n) = n mod 10"
    using \<open>0 \<le> n mod 10\<close> \<open>n mod 10 < 10\<close> by (auto simp: is_digit_def char_digit_def nat_le_iff le_nat_iff)
qed

lemma length_pad_digits [simp]: "length (pad_digits w n) = w"
  by (induction w arbitrary: n) auto

lemma pad_digits_digits [simp]: "list_all is_digit (pad_digits w n)"
  by (induction w arbitrary: n) auto

lemma digits_value_pad: "0 \<le> n \<Longrightarrow> n < 10 ^ w \<Longrightarrow> digits_value (pad_digits w n) = n"
proof (induction w arbitrary: n)
  case (Suc w)
  have "n div 10 < 10 ^ w" using Suc.prems by (simp add: div_less_iff_less_mult)
  then have "digits_value (pad_digits w (n div 10)) = n div 10" using Suc by simp
  then show ?case by (simp add: digits_value_def)
qed (simp add: digits_value_def)

lemma parse_pad: "0 < w \<Longrightarrow> 0 \<le> n \<Longrightarrow> n < 10 ^ w \<Longrightarrow> parse_digits (pad_digits w n) = Some n"
  using digits_value_pad [of n w] length_pad_digits [of w n]
  by (auto simp: parse_digits_def simp del: length_pad_digits)

subsection \<open>Writing and reading a timestamp\<close>

definition strip_zeros :: "string \<Rightarrow> string" where
  "strip_zeros s = rev (dropWhile (\<lambda>c. c = CHR ''0'') (rev s))"

definition format_fraction :: "int \<Rightarrow> string" where
  "format_fraction ns = (if ns = 0 then [] else CHR ''.'' # strip_zeros (pad_digits 9 ns))"

definition format_rfc3339nano :: "time \<Rightarrow> string" where
  "format_rfc3339nano t =
     (let secs = t div second; ns = t mod second; day = secs div 86400; sod = secs mod 86400;
          y = year_of_day day;
          (m, d) = month_split (month_lengths y) (day - days_before_year y) in
      pad_digits 4 y @ ''-'' @ pad_digits 2 (int m + 1) @ ''-'' @ pad_digits 2 (d + 1) @ ''T''
      @ pad_digits 2 (sod div 3600) @ '':'' @ pad_digits 2 (sod mod 3600 div 60) @ '':''
      @ pad_digits 2 (sod mod 60) @ format_fraction ns @ ''Z'')"

definition part :: "string \<Rightarrow> nat \<Rightarrow> nat \<Rightarrow> string" where
  "part s i n = take n (drop i s)"

text \<open>\<open>parseUint(s, lo, hi)\<close> on a fixed-width field.\<close>

definition ranged :: "string \<Rightarrow> int \<Rightarrow> int \<Rightarrow> int option" where
  "ranged s lo hi =
     (case parse_digits s of Some n \<Rightarrow> if lo \<le> n \<and> n \<le> hi then Some n else None | None \<Rightarrow> None)"

text \<open>A fraction: at least one digit, the first nine counted.\<close>

definition parse_fraction :: "string \<Rightarrow> int \<times> string" where
  "parse_fraction s =
     (case s of
        c # r \<Rightarrow>
          (let f = takeWhile is_digit r in
           if c = CHR ''.'' \<and> f \<noteq> [] then (digits_value (take 9 (f @ replicate 9 (CHR ''0''))), drop (length f) r)
           else (0, s))
      | [] \<Rightarrow> (0, s))"

text \<open>The offset in seconds of the zone suffix.\<close>

definition parse_zone :: "string \<Rightarrow> int option" where
  "parse_zone s =
     (if s = ''Z'' then Some 0
      else if length s \<noteq> 6 \<or> s ! 3 \<noteq> CHR '':'' \<or> s ! 0 \<notin> {CHR ''+'', CHR ''-''} then None
      else case (ranged (part s 1 2) 0 23, ranged (part s 4 2) 0 59) of
        (Some h, Some m) \<Rightarrow> Some ((if s ! 0 = CHR ''-'' then -1 else 1) * (3600 * h + 60 * m))
      | _ \<Rightarrow> None)"

definition parse_rfc3339 :: "string \<Rightarrow> time option" where
  "parse_rfc3339 s =
     (if length s < 20 \<or> s ! 4 \<noteq> CHR ''-'' \<or> s ! 7 \<noteq> CHR ''-'' \<or> s ! 10 \<noteq> CHR ''T''
         \<or> s ! 13 \<noteq> CHR '':'' \<or> s ! 16 \<noteq> CHR '':'' then None
      else case (ranged (part s 0 4) 0 9999, ranged (part s 5 2) 1 12) of
        (Some y, Some m) \<Rightarrow>
          (case (ranged (part s 8 2) 1 (month_lengths y ! (nat m - 1)), ranged (part s 11 2) 0 23,
                 ranged (part s 14 2) 0 59, ranged (part s 17 2) 0 59) of
             (Some d, Some h, Some mi, Some sec) \<Rightarrow>
               (let (ns, rest) = parse_fraction (drop 19 s) in
                case parse_zone rest of
                  Some off \<Rightarrow>
                    Some (((days_of_civil y (nat m) d) * 86400 + 3600 * h + 60 * mi + sec - off) * second + ns)
                | None \<Rightarrow> None)
           | _ \<Rightarrow> None)
      | _ \<Rightarrow> None)"

subsection \<open>The round trip\<close>

definition writable_time :: "time \<Rightarrow> bool" where
  "writable_time t \<longleftrightarrow> days_before_year 0 * 86400 * second \<le> t \<and> t < days_before_year 10000 * 86400 * second"

lemma div_pred:
  assumes "0 < (k :: int)"
  shows "y div k = (y - 1) div k + (if y mod k = 0 then 1 else 0)"
proof -
  define q r where "q = y div k" and "r = y mod k"
  have y: "y = k * q + r" "0 \<le> r" "r < k" using assms by (simp_all add: q_def r_def)
  show ?thesis
  proof (cases "r = 0")
    case True
    then have "(y - 1) div k = q - 1"
      using y assms by (intro int_div_pos_eq [where r = "k - 1"]) (auto simp: algebra_simps)
    with True show ?thesis by (simp add: q_def r_def)
  next
    case False
    then have "(y - 1) div k = q"
      using y by (intro int_div_pos_eq [where r = "r - 1"]) auto
    with False show ?thesis by (simp add: q_def r_def)
  qed
qed

lemma days_before_year_Suc: "days_before_year (y + 1) = days_before_year y + (if is_leap y then 366 else 365)"
proof -
  have m: "100 dvd y \<Longrightarrow> 4 dvd y" "400 dvd y \<Longrightarrow> 100 dvd y"
    by (rule dvd_trans [of 4 100 y], simp, assumption) (rule dvd_trans [of 100 400 y], simp, assumption)
  have s: "y div 4 = (y - 1) div 4 + (if 4 dvd y then 1 else 0)"
    "y div 100 = (y - 1) div 100 + (if 100 dvd y then 1 else 0)"
    "y div 400 = (y - 1) div 400 + (if 400 dvd y then 1 else 0)"
    by (simp_all only: div_pred [of 4 y] div_pred [of 100 y] div_pred [of 400 y] mod_eq_0_iff_dvd)
  have cases: "365 * y + (a + (if p then 1 else 0)) - (b + (if q then 1 else 0)) + (c + (if r then 1 else 0)) =
      365 * (y - 1) + a - b + c + (if p \<and> (\<not> q \<or> r) then 366 else 365)"
    if "q \<Longrightarrow> p" "r \<Longrightarrow> q" for p q r and a b c :: int
    using that by (cases p; cases q; cases r) simp_all
  show ?thesis
    unfolding days_before_year_def is_leap_def mod_eq_0_iff_dvd add_diff_cancel_right' s
    by (rule cases) (rule m, assumption)+
qed

lemma days_before_year_estimate:
  "146097 * k - 800 < 400 * days_before_year (k + 1)" "400 * days_before_year (k + 1) < 146097 * k + 800"
proof -
  have d: "m * (k div m) \<le> k" "k < m * (k div m) + m" if "0 < m" for m
    using mult_div_mod_eq [of m k] pos_mod_sign [OF that, of k] pos_mod_bound [OF that, of k] by linarith+
  define a b c where "a = k div 4" and "b = k div 100" and "c = k div 400"
  have "4 * a \<le> k" "k < 4 * a + 4" "100 * b \<le> k" "k < 100 * b + 100" "400 * c \<le> k" "k < 400 * c + 400"
    unfolding a_def b_def c_def by (rule d; rule zero_less_numeral)+
  then have "146097 * k - 800 < 400 * (365 * k + a - b + c) \<and> 400 * (365 * k + a - b + c) < 146097 * k + 800"
    by simp
  then show "146097 * k - 800 < 400 * days_before_year (k + 1)" "400 * days_before_year (k + 1) < 146097 * k + 800"
    unfolding days_before_year_def add_diff_cancel_right' a_def b_def c_def by blast+
qed

lemma year_of_day_bounds:
  "days_before_year (year_of_day d) \<le> d \<and> d < days_before_year (year_of_day d + 1)"
proof -
  define n where "n = (400 * d) div 146097"
  have n: "146097 * n \<le> 400 * d" "400 * d < 146097 * n + 146097"
    using mult_div_mod_eq [of 146097 "400 * d"] pos_mod_sign [of 146097 "400 * d"] pos_mod_bound [of 146097 "400 * d"]
    unfolding n_def [symmetric] by linarith+
  note e = days_before_year_estimate
  show ?thesis
    using e [of n] e [of "n - 1"] e [of "n + 1"] e [of "n + 2"] n
    unfolding year_of_day_def Let_def n_def [symmetric] by (auto simp: algebra_simps)
qed

lemma days_before_year_mono: "a \<le> b \<Longrightarrow> days_before_year a \<le> days_before_year b"
proof (induction "nat (b - a)" arbitrary: b)
  case (Suc n)
  then have "days_before_year a \<le> days_before_year (b - 1)" by simp
  also have "\<dots> \<le> days_before_year b"
    using days_before_year_Suc [of "b - 1"] by (auto split: if_splits)
  finally show ?case .
qed simp

lemma month_split_ok:
  assumes "month_split ls d = (m, r)" "0 \<le> d" "d < sum_list ls"
  shows "m < length ls \<and> 0 \<le> r \<and> r < ls ! m \<and> d = sum_list (take m ls) + r"
  using assms
proof (induction ls arbitrary: d m r)
  case (Cons l ls)
  show ?case
  proof (cases "d < l")
    case False
    obtain m' r' where s: "month_split ls (d - l) = (m', r')" by fastforce
    then have "m' < length ls \<and> 0 \<le> r' \<and> r' < ls ! m' \<and> d - l = sum_list (take m' ls) + r'"
      using Cons.IH [OF s] Cons.prems False by simp
    moreover have "m = Suc m'" "r = r'" using Cons.prems(1) False s by simp_all
    ultimately show ?thesis by simp
  qed (use Cons.prems in auto)
qed simp

lemma sum_month_lengths: "sum_list (month_lengths y) = days_before_year (y + 1) - days_before_year y"
  by (simp add: days_before_year_Suc month_lengths_def)

lemma month_length_le: "m < 12 \<Longrightarrow> month_lengths y ! m \<le> 31"
  by (auto simp: month_lengths_def less_Suc_eq numeral_eq_Suc)

lemma strip_zeros_split: "\<exists>n. s = strip_zeros s @ replicate n (CHR ''0'')"
proof -
  have "rev s = takeWhile (\<lambda>c. c = CHR ''0'') (rev s) @ dropWhile (\<lambda>c. c = CHR ''0'') (rev s)" by simp
  moreover have "takeWhile (\<lambda>c. c = CHR ''0'') (rev s) =
      replicate (length (takeWhile (\<lambda>c. c = CHR ''0'') (rev s))) (CHR ''0'')"
    by (intro replicate_eqI) (auto dest: set_takeWhileD)
  ultimately show ?thesis unfolding strip_zeros_def by (metis rev_append rev_replicate rev_rev_ident)
qed

lemma digits_value_zeros: "digits_value (replicate n (CHR ''0'')) = 0"
  by (induction n) (simp_all add: digits_value_def char_digit_def)

lemma parse_fraction_format:
  assumes "0 \<le> ns" "ns < second"
  shows "parse_fraction (format_fraction ns @ ''Z'') = (ns, ''Z'')"
proof (cases "ns = 0")
  case False
  let ?p = "pad_digits 9 ns"
  obtain n where n: "?p = strip_zeros ?p @ replicate n (CHR ''0'')" using strip_zeros_split by blast
  have val: "digits_value ?p = ns" using assms by (intro digits_value_pad) (simp_all add: second_def)
  have digits: "list_all is_digit (strip_zeros ?p)" using pad_digits_digits [of 9 ns] n by (metis list_all_append)
  have ne: "strip_zeros ?p \<noteq> []" using n val False digits_value_zeros by (metis append_Nil)
  have "length (strip_zeros ?p) + n = 9" using arg_cong [OF n, of length] by simp
  then have "take 9 (strip_zeros ?p @ replicate 9 (CHR ''0'')) = ?p"
    by (subst n) (simp add: min_def)
  moreover have "takeWhile is_digit (strip_zeros ?p @ ''Z'') = strip_zeros ?p"
    using digits by (simp add: takeWhile_append2 list_all_iff is_digit_def)
  ultimately show ?thesis using False ne val by (simp add: parse_fraction_def format_fraction_def)
qed (simp add: parse_fraction_def format_fraction_def)

lemma ranged_pad:
  "0 < w \<Longrightarrow> 0 \<le> n \<Longrightarrow> n < 10 ^ w \<Longrightarrow> lo \<le> n \<Longrightarrow> n \<le> hi \<Longrightarrow> ranged (pad_digits w n) lo hi = Some n"
  by (simp add: ranged_def parse_pad)

lemma parse_fields:
  assumes "length Y = 4" "length M = 2" "length D = 2" "length h = 2" "length mi = 2" "length sc = 2" "rest \<noteq> []"
  defines "s \<equiv> Y @ ''-'' @ M @ ''-'' @ D @ ''T'' @ h @ '':'' @ mi @ '':'' @ sc @ rest"
  shows "\<not> length s < 20" "s ! 4 = CHR ''-''" "s ! 7 = CHR ''-''" "s ! 10 = CHR ''T''" "s ! 13 = CHR '':''"
    "s ! 16 = CHR '':''" "part s 0 4 = Y" "part s 5 2 = M" "part s 8 2 = D" "part s 11 2 = h"
    "part s 14 2 = mi" "part s 17 2 = sc" "drop 19 s = rest"
  using assms by (auto simp: part_def nth_append numeral_eq_Suc Suc_le_eq)

text \<open>Every writable instant is read back from its own timestamp.\<close>

lemma parse_format_rfc3339:
  assumes "writable_time t"
  shows "parse_rfc3339 (format_rfc3339nano t) = Some t"
proof -
  define secs ns where "secs = t div second" and "ns = t mod second"
  define day sod where "day = secs div 86400" and "sod = secs mod 86400"
  define y where "y = year_of_day day"
  obtain m d where md: "month_split (month_lengths y) (day - days_before_year y) = (m, d)" by fastforce
  have ns: "0 \<le> ns" "ns < second" and t: "t = secs * second + ns"
    by (simp_all add: ns_def secs_def second_def)
  have sod: "0 \<le> sod" "sod < 86400" and secs: "secs = day * 86400 + sod"
    by (simp_all add: sod_def day_def)
  have yb: "days_before_year y \<le> day" "day < days_before_year (y + 1)"
    using year_of_day_bounds by (simp_all add: y_def)
  have "days_before_year 0 * 86400 * second \<le> t" "t < days_before_year 10000 * 86400 * second"
    using assms by (simp_all add: writable_time_def)
  then have "days_before_year 0 \<le> day" "day < days_before_year 10000"
    using ns sod unfolding t secs second_def by (simp_all add: days_before_year_def)
  then have "\<not> y + 1 \<le> 0" "\<not> 10000 \<le> y"
    using yb days_before_year_mono [of "y + 1" 0] days_before_year_mono [of 10000 y] by linarith+
  then have y: "0 \<le> y" "y \<le> 9999" by simp_all
  have "0 \<le> day - days_before_year y" "day - days_before_year y < sum_list (month_lengths y)"
    using yb by (simp_all add: sum_month_lengths)
  from month_split_ok [OF md this] have m: "m < 12" "0 \<le> d" "d < month_lengths y ! m"
    and day: "day = days_before_year y + sum_list (take m (month_lengths y)) + d"
    by (simp_all add: month_lengths_def)
  have d: "d + 1 \<le> 31" using m month_length_le [of m y] by simp
  have civil: "days_of_civil y (Suc m) (d + 1) = day" by (simp add: days_of_civil_def day)
  have "sod div 3600 < 24" "sod mod 3600 div 60 < 60" using sod by (simp_all add: div_less_iff_less_mult)
  moreover have "3600 * (sod div 3600) + (60 * (sod mod 3600 div 60) + sod mod 3600 mod 60) = sod"
    unfolding mult_div_mod_eq ..
  moreover have "sod mod 3600 mod 60 = sod mod 60" by (rule mod_mod_cancel) simp
  ultimately have hms: "sod div 3600 \<le> 23" "sod mod 3600 div 60 \<le> 59"
    "3600 * (sod div 3600) + 60 * (sod mod 3600 div 60) + sod mod 60 = sod" by simp_all
  define h mi sc where "h = sod div 3600" and "mi = sod mod 3600 div 60" and "sc = sod mod 60"
  have b: "0 \<le> h" "h \<le> 23" "0 \<le> mi" "mi \<le> 59" "0 \<le> sc" "sc < 60" "3600 * h + 60 * mi + sc = sod"
    using hms sod by (simp_all add: h_def mi_def sc_def pos_imp_zdiv_nonneg_iff)
  let ?f = "pad_digits 4 y @ ''-'' @ pad_digits 2 (int m + 1) @ ''-'' @ pad_digits 2 (d + 1) @ ''T''
      @ pad_digits 2 h @ '':'' @ pad_digits 2 mi @ '':'' @ pad_digits 2 sc @ format_fraction ns @ ''Z''"
  have fmt: "format_rfc3339nano t = ?f"
    unfolding format_rfc3339nano_def Let_def secs_def [symmetric] ns_def [symmetric] day_def [symmetric]
      sod_def [symmetric] y_def [symmetric] md h_def mi_def sc_def by simp
  note pf = parse_fields [of "pad_digits 4 y" "pad_digits 2 (int m + 1)" "pad_digits 2 (d + 1)"
      "pad_digits 2 h" "pad_digits 2 mi" "pad_digits 2 sc" "format_fraction ns @ ''Z''"]
  have rp: "ranged (pad_digits 4 y) 0 9999 = Some y" "ranged (pad_digits 2 (int m + 1)) 1 12 = Some (int m + 1)"
    "ranged (pad_digits 2 (d + 1)) 1 (month_lengths y ! m) = Some (d + 1)"
    "ranged (pad_digits 2 h) 0 23 = Some h" "ranged (pad_digits 2 mi) 0 59 = Some mi"
    "ranged (pad_digits 2 sc) 0 59 = Some sc"
    by (rule ranged_pad; use y m d b in simp)+
  have z: "parse_zone ''Z'' = Some 0" by (simp add: parse_zone_def)
  have mn: "nat (int m + 1) = Suc m" by (simp add: nat_add_distrib)
  have "parse_rfc3339 ?f = Some ((day * 86400 + 3600 * h + 60 * mi + sc - 0) * second + ns)"
    unfolding parse_rfc3339_def
    by (simp add: pf rp mn del: append.simps append_assoc)
      (simp add: mn parse_fraction_format [OF ns] z civil)
  also have "day * 86400 + 3600 * h + 60 * mi + sc - 0 = secs" using b(7) secs by simp
  finally show ?thesis using fmt t by simp
qed

end
