(* ===== verification/Go_Json.thy ===== *)
theory Go_Json
  imports Go_Time
begin

section \<open>The Go library: JSON\<close>

text \<open>
  \<open>encoding/json\<close> at the level of the value tree: what \<open>json.Unmarshal\<close> makes of a value when it
  fills a Go struct, and the trees \<open>json.Marshal\<close> writes. A struct decoder matches member names up
  to case folding, lets a later duplicate overwrite an earlier one, leaves a field alone on \<open>null\<close>,
  and goes on after a type mismatch, reporting it at the end; \<open>DisallowUnknownFields\<close> is the flag
  \<open>strict\<close>. An object keeps the order and the duplicates of its text. A number is an integer
  literal or any other literal, kept as text.
\<close>

datatype json =
    JNull
  | JBool bool
  | JNum int
  | JReal string
  | JStr string
  | JArr "json list"
  | JObj "(string \<times> json) list"

text \<open>A decoder fills a value and says whether it met no error.\<close>

type_synonym 'a decoder = "json \<Rightarrow> 'a \<Rightarrow> 'a \<times> bool"

definition int64_ok :: "int \<Rightarrow> bool" where
  "int64_ok n \<longleftrightarrow> - (2 ^ 63) \<le> n \<and> n < 2 ^ 63"

definition dec_str :: "(string \<Rightarrow> 'a \<Rightarrow> 'a) \<Rightarrow> 'a decoder" where
  "dec_str put j v = (case j of JStr s \<Rightarrow> (put s v, True) | JNull \<Rightarrow> (v, True) | _ \<Rightarrow> (v, False))"

definition dec_bool :: "(bool \<Rightarrow> 'a \<Rightarrow> 'a) \<Rightarrow> 'a decoder" where
  "dec_bool put j v = (case j of JBool b \<Rightarrow> (put b v, True) | JNull \<Rightarrow> (v, True) | _ \<Rightarrow> (v, False))"

definition dec_int :: "(int \<Rightarrow> 'a \<Rightarrow> 'a) \<Rightarrow> 'a decoder" where
  "dec_int put j v =
     (case j of JNum n \<Rightarrow> if int64_ok n then (put n v, True) else (v, False)
      | JNull \<Rightarrow> (v, True) | _ \<Rightarrow> (v, False))"

definition dec_time :: "(time \<Rightarrow> 'a \<Rightarrow> 'a) \<Rightarrow> 'a decoder" where
  "dec_time put j v =
     (case j of
        JStr s \<Rightarrow> (case parse_rfc3339 s of Some t \<Rightarrow> (put t v, True) | None \<Rightarrow> (v, False))
      | JNull \<Rightarrow> (v, True) | _ \<Rightarrow> (v, False))"

text \<open>\<open>json.RawMessage\<close> takes every value as it is, \<open>null\<close> included.\<close>

definition dec_raw :: "(json \<Rightarrow> 'a \<Rightarrow> 'a) \<Rightarrow> 'a decoder" where
  "dec_raw put j v = (put j v, True)"

text \<open>A pointer field: \<open>null\<close> makes it nil, anything else decodes into a fresh or present target.\<close>

definition dec_ptr :: "('a \<Rightarrow> 'b option) \<Rightarrow> ('b option \<Rightarrow> 'a \<Rightarrow> 'a) \<Rightarrow> 'b \<Rightarrow> 'b decoder \<Rightarrow> 'a decoder" where
  "dec_ptr get put zero d j v =
     (case j of
        JNull \<Rightarrow> (put None v, True)
      | _ \<Rightarrow> (let (b, ok) = d j (case get v of Some b \<Rightarrow> b | None \<Rightarrow> zero) in (put (Some b) v, ok)))"

text \<open>A slice field: \<open>null\<close> makes it nil, an array decodes element by element.\<close>

definition dec_slice :: "('b list option \<Rightarrow> 'a \<Rightarrow> 'a) \<Rightarrow> 'b \<Rightarrow> 'b decoder \<Rightarrow> 'a decoder" where
  "dec_slice put zero d j v =
     (case j of
        JArr js \<Rightarrow> (let rs = map (\<lambda>x. d x zero) js in (put (Some (map fst rs)) v, list_all snd rs))
      | JNull \<Rightarrow> (put None v, True) | _ \<Rightarrow> (v, False))"

text \<open>The same where nothing distinguishes a nil slice from an empty one.\<close>

definition dec_arr :: "('b list \<Rightarrow> 'a \<Rightarrow> 'a) \<Rightarrow> 'b \<Rightarrow> 'b decoder \<Rightarrow> 'a decoder" where
  "dec_arr put = dec_slice (\<lambda>xs. put (case xs of None \<Rightarrow> [] | Some l \<Rightarrow> l))"

text \<open>A field whose type is a struct: decodes in place.\<close>

definition dec_sub :: "('a \<Rightarrow> 'b) \<Rightarrow> ('b \<Rightarrow> 'a \<Rightarrow> 'a) \<Rightarrow> 'b decoder \<Rightarrow> 'a decoder" where
  "dec_sub get put d j v = (let (b, ok) = d j (get v) in (put b v, ok))"

text \<open>Elements of basic type.\<close>

definition elem_str :: "string decoder" where
  "elem_str = dec_str (\<lambda>s _. s)"

fun dec_members :: "bool \<Rightarrow> (string \<times> 'a decoder) list \<Rightarrow> (string \<times> json) list \<Rightarrow> 'a \<Rightarrow> 'a \<times> bool" where
  "dec_members strict schema [] v = (v, True)"
| "dec_members strict schema ((k, j) # rest) v =
     (case find (\<lambda>(name, _). equal_fold name k) schema of
        Some (_, d) \<Rightarrow>
          (let (v1, ok1) = d j v; (v2, ok2) = dec_members strict schema rest v1 in (v2, ok1 \<and> ok2))
      | None \<Rightarrow> (let (v2, ok2) = dec_members strict schema rest v in (v2, \<not> strict \<and> ok2)))"

definition dec_struct :: "bool \<Rightarrow> (string \<times> 'a decoder) list \<Rightarrow> 'a decoder" where
  "dec_struct strict schema j v =
     (case j of JObj ms \<Rightarrow> dec_members strict schema ms v | JNull \<Rightarrow> (v, True) | _ \<Rightarrow> (v, False))"

text \<open>The result of an \<open>Unmarshal\<close> whose error the caller checks.\<close>

definition decoded :: "'a \<times> bool \<Rightarrow> 'a option" where
  "decoded r = (if snd r then Some (fst r) else None)"

lemma decoded_simps [simp]: "decoded (v, True) = Some v" "decoded (v, False) = None"
  by (simp_all add: decoded_def)

text \<open>Writing: \<open>omitempty\<close> drops a member with its zero value.\<close>

definition member :: "string \<Rightarrow> json \<Rightarrow> (string \<times> json) list" where
  "member k j = [(k, j)]"

definition omit_if :: "bool \<Rightarrow> string \<Rightarrow> json \<Rightarrow> (string \<times> json) list" where
  "omit_if zero k j = (if zero then [] else [(k, j)])"

definition time_json :: "time \<Rightarrow> json" where
  "time_json t = JStr (format_rfc3339nano t)"

definition opt_json :: "('a \<Rightarrow> json) \<Rightarrow> 'a option \<Rightarrow> json" where
  "opt_json f x = (case x of None \<Rightarrow> JNull | Some a \<Rightarrow> f a)"

text \<open>\<open>map[string]any\<close>: the members a JSON object leaves in a Go map, later duplicates winning.\<close>

fun object_map :: "(string \<times> json) list \<Rightarrow> (string \<times> json) list" where
  "object_map [] = []"
| "object_map ((k, j) # rest) = (if k \<in> fst ` set rest then object_map rest else (k, j) # object_map rest)"

definition set_member :: "string \<Rightarrow> json \<Rightarrow> (string \<times> json) list \<Rightarrow> (string \<times> json) list" where
  "set_member k j m = filter (\<lambda>(k', _). k' \<noteq> k) m @ [(k, j)]"

lemma map_of_object_map: "map_of (object_map m) k = map_of (rev m) k"
proof (induction m rule: object_map.induct)
  case (2 k' j rest)
  show ?case
  proof (cases "k' \<in> fst ` set rest")
    case True
    then obtain v where "map_of (rev rest) k' = Some v"
      by (metis map_of_eq_None_iff not_None_eq set_rev)
    with True 2 show ?thesis by (auto simp: map_add_def split: option.splits)
  next
    case False
    then have "map_of (rev rest) k' = None" by (simp add: map_of_eq_None_iff)
    with False 2 show ?thesis by (auto simp: map_add_def split: option.splits)
  qed
qed simp

lemma distinct_object_map: "distinct (map fst (object_map m))"
proof -
  have "fst ` set (object_map m) \<subseteq> fst ` set m" for m :: "(string \<times> json) list"
    by (induction m rule: object_map.induct) auto
  then show ?thesis by (induction m rule: object_map.induct) auto
qed

lemma set_member_lookup [simp]: "map_of (set_member k j m) k' = (if k' = k then Some j else map_of m k')"
  by (induction m) (auto simp: set_member_def)

end
