(* ===== verification/Relay_Tables.thy ===== *)
theory Relay_Tables
  imports Relay_Prelude
begin

section \<open>Tables, statements and transactions\<close>

text \<open>
  The sources keep their durable state in PostgreSQL and change it by SQL statements and
  transactions. A table is the list of its rows; a statement is a function on the tables; a
  transaction is a sequence of statements that stops at the first error and is then rolled back.
  What PostgreSQL and the network may do to a call is an argument of the model: for the \<open>n\<close>-th
  round trip of a call, \<open>flt n\<close> says whether it went through, never reached the server, or was
  carried out while its reply was lost. Row locks (\<^verbatim>\<open>FOR UPDATE\<close>, advisory locks) make every
  modelled transaction atomic with respect to the others.
\<close>

subsection \<open>Rows\<close>

definition sql_update :: "('r \<Rightarrow> bool) \<Rightarrow> ('r \<Rightarrow> 'r) \<Rightarrow> 'r list \<Rightarrow> 'r list" where
  "sql_update P f t = map (\<lambda>r. if P r then f r else r) t"

definition affected :: "('r \<Rightarrow> bool) \<Rightarrow> 'r list \<Rightarrow> nat" where
  "affected P t = length (filter P t)"

definition sql_exists :: "('r \<Rightarrow> bool) \<Rightarrow> 'r list \<Rightarrow> bool" where
  "sql_exists P t = list_ex P t"

definition sql_insert :: "('r \<Rightarrow> 'k) \<Rightarrow> 'r \<Rightarrow> 'r list \<Rightarrow> 'r list option" where
  "sql_insert key r t = (if list_ex (\<lambda>q. key q = key r) t then None else Some (t @ [r]))"

definition by_key :: "('r \<Rightarrow> 'k) \<Rightarrow> 'k \<Rightarrow> 'r list \<Rightarrow> 'r option" where
  "by_key key k t = find (\<lambda>r. key r = k) t"

definition coalesce :: "'a option \<Rightarrow> 'a \<Rightarrow> 'a option" where
  "coalesce x d = (case x of None \<Rightarrow> Some d | Some v \<Rightarrow> Some v)"

text \<open>\<open>COALESCE(column, '')\<close> and \<open>NULLIF(value, '')\<close>.\<close>

definition or_empty :: "string option \<Rightarrow> string" where
  "or_empty x = (case x of None \<Rightarrow> [] | Some v \<Rightarrow> v)"

definition nullif_empty :: "string \<Rightarrow> string option" where
  "nullif_empty s = (if s = [] then None else Some s)"

lemma coalesce_simps [simp]: "coalesce None d = Some d" "coalesce (Some v) d = Some v"
  by (simp_all add: coalesce_def)

lemma coalesce_not_None [simp]: "coalesce x d \<noteq> None"
  by (cases x) simp_all

lemma coalesce_ex [simp]: "\<exists>y. coalesce x d = Some y"
  by (cases x) simp_all

lemma or_empty_nullif [simp]: "or_empty (nullif_empty s) = s"
  by (simp add: or_empty_def nullif_empty_def)

lemma length_sql_update [simp]: "length (sql_update P f t) = length t"
  by (simp add: sql_update_def)

lemma sql_update_Nil [simp]: "sql_update P f [] = []"
  by (simp add: sql_update_def)

lemma sql_update_Cons [simp]:
  "sql_update P f (r # t) = (if P r then f r else r) # sql_update P f t"
  by (simp add: sql_update_def)

lemma sql_update_append [simp]: "sql_update P f (t @ u) = sql_update P f t @ sql_update P f u"
  by (simp add: sql_update_def)

lemma set_sql_update: "set (sql_update P f t) = (\<lambda>r. if P r then f r else r) ` set t"
  by (simp add: sql_update_def)

lemma in_sql_updateE:
  assumes "q \<in> set (sql_update P f t)"
  obtains r where "r \<in> set t" "P r" "q = f r" | "q \<in> set t" "\<not> P q"
  using assms by (auto simp: set_sql_update split: if_splits)

lemma in_sql_updateI: "r \<in> set t \<Longrightarrow> P r \<Longrightarrow> f r \<in> set (sql_update P f t)"
  unfolding sql_update_def by force

lemma in_sql_update_keep: "r \<in> set t \<Longrightarrow> \<not> P r \<Longrightarrow> r \<in> set (sql_update P f t)"
  unfolding sql_update_def by force

lemma sql_update_skip: "(\<And>r. r \<in> set t \<Longrightarrow> \<not> P r) \<Longrightarrow> sql_update P f t = t"
  by (induction t) auto

text \<open>An update that keeps a column keeps the list of its values, so also its uniqueness.\<close>

lemma map_sql_update [simp]: "(\<And>r. c (f r) = c r) \<Longrightarrow> map c (sql_update P f t) = map c t"
  by (simp add: sql_update_def)

lemma image_sql_update [simp]:
  "(\<And>r. c (f r) = c r) \<Longrightarrow> c ` set (sql_update P f t) = c ` set t"
  using map_sql_update [of c f P t] by (metis set_map)

lemma key_image_iff: "key r \<in> key ` set t \<longleftrightarrow> list_ex (\<lambda>q. key q = key r) t"
  by (induction t) (auto simp: eq_commute)

lemma sql_insert_Some:
  "sql_insert key r t = Some t' \<longleftrightarrow> key r \<notin> key ` set t \<and> t' = t @ [r]"
  by (auto simp: sql_insert_def key_image_iff)

lemma sql_insert_distinct:
  "sql_insert key r t = Some t' \<Longrightarrow> distinct (map key t) \<Longrightarrow> distinct (map key t')"
  by (auto simp: sql_insert_Some)

lemma sql_insert_None: "sql_insert key r t = None \<longleftrightarrow> key r \<in> key ` set t"
  by (auto simp: sql_insert_def key_image_iff)

lemma by_key_SomeD: "by_key key k t = Some r \<Longrightarrow> r \<in> set t \<and> key r = k"
  unfolding by_key_def by (auto simp: find_Some_iff)

lemma by_key_None: "by_key key k t = None \<longleftrightarrow> k \<notin> key ` set t"
  by (auto simp: by_key_def find_None_iff)

lemma by_key_Some_iff:
  "distinct (map key t) \<Longrightarrow> by_key key k t = Some r \<longleftrightarrow> r \<in> set t \<and> key r = k"
  by (induction t) (auto simp: by_key_def image_iff)

lemma by_key_Nil [simp]: "by_key key k [] = None"
  by (simp add: by_key_def)

lemma by_key_Cons [simp]:
  "by_key key k (r # t) = (if key r = k then Some r else by_key key k t)"
  by (simp add: by_key_def)

lemma by_key_append:
  "by_key key k (t @ u) = (case by_key key k t of None \<Rightarrow> by_key key k u | Some r \<Rightarrow> Some r)"
  by (induction t) auto

lemma by_key_sql_update:
  assumes "\<And>r. key (f r) = key r"
  shows "by_key key k (sql_update P f t) =
    map_option (\<lambda>r. if P r then f r else r) (by_key key k t)"
  using assms by (induction t) auto

lemma unique_row:
  "distinct (map key t) \<Longrightarrow> r \<in> set t \<Longrightarrow> q \<in> set t \<Longrightarrow> key r = key q \<Longrightarrow> r = q"
  by (induction t) (auto simp: image_iff)

lemma find_unique:
  assumes "x \<in> set xs" "P x" "\<And>y. y \<in> set xs \<Longrightarrow> P y \<Longrightarrow> y = x"
  shows "find P xs = Some x"
proof (cases "find P xs")
  case None
  then show ?thesis using assms(1,2) by (simp add: find_None_iff)
next
  case (Some y)
  then have "y \<in> set xs" "P y" by (auto simp: find_Some_iff)
  with Some assms(3) show ?thesis by blast
qed

lemma find_append: "find P (t @ u) = (case find P t of None \<Rightarrow> find P u | Some r \<Rightarrow> Some r)"
  by (induction t) auto

lemma find_sql_update:
  assumes "\<And>r. Q (if P r then f r else r) = Q r"
  shows "find Q (sql_update P f t) = map_option (\<lambda>r. if P r then f r else r) (find Q t)"
  by (induction t) (use assms in auto)

subsection \<open>Round trips and transactions\<close>

datatype wire = Delivered | Dropped | ReplyLost

type_synonym faults = "nat \<Rightarrow> wire"

definition no_faults :: faults where
  "no_faults = (\<lambda>_. Delivered)"

lemma no_faults_apply [simp]: "no_faults n = Delivered"
  by (simp add: no_faults_def)

type_synonym ('db, 'e, 'a) tx = "faults \<Rightarrow> nat \<times> 'db \<Rightarrow> 'e + 'a \<times> nat \<times> 'db"

definition tx_return :: "'a \<Rightarrow> ('db, 'e, 'a) tx" where
  "tx_return a = (\<lambda>flt (n, db). Inr (a, n, db))"

definition tx_fail :: "'e \<Rightarrow> ('db, 'e, 'a) tx" where
  "tx_fail e = (\<lambda>flt s. Inl e)"

definition tx_bind :: "('db, 'e, 'a) tx \<Rightarrow> ('a \<Rightarrow> ('db, 'e, 'b) tx) \<Rightarrow> ('db, 'e, 'b) tx" where
  "tx_bind m k = (\<lambda>flt s. case m flt s of Inl e \<Rightarrow> Inl e | Inr (a, n, db) \<Rightarrow> k a flt (n, db))"

text \<open>One statement: a round trip that fails with \<open>err\<close> when it does not come back.\<close>

definition tx_stmt :: "'e \<Rightarrow> ('db \<Rightarrow> 'e + 'a \<times> 'db) \<Rightarrow> ('db, 'e, 'a) tx" where
  "tx_stmt err g = (\<lambda>flt (n, db).
     if flt n \<noteq> Delivered then Inl err
     else case g db of Inl e \<Rightarrow> Inl e | Inr (a, db') \<Rightarrow> Inr (a, Suc n, db'))"

definition tx_query :: "'e \<Rightarrow> ('db \<Rightarrow> 'a) \<Rightarrow> ('db, 'e, 'a) tx" where
  "tx_query err q = tx_stmt err (\<lambda>db. Inr (q db, db))"

definition tx_exec :: "'e \<Rightarrow> ('db \<Rightarrow> 'db) \<Rightarrow> ('db, 'e, unit) tx" where
  "tx_exec err f = tx_stmt err (\<lambda>db. Inr ((), f db))"

text \<open>An \<open>INSERT\<close> that a constraint may refuse.\<close>

definition tx_insert :: "'e \<Rightarrow> ('db \<Rightarrow> 'db option) \<Rightarrow> ('db, 'e, unit) tx" where
  "tx_insert err f =
     tx_stmt err (\<lambda>db. case f db of None \<Rightarrow> Inl err | Some db' \<Rightarrow> Inr ((), db'))"

text \<open>
  \<open>Begin\<close>, the body, \<open>Commit\<close>, and the deferred \<open>Rollback\<close> on every early return. A commit whose
  reply is lost took place although the caller sees an error.
\<close>

definition run_tx :: "'e \<Rightarrow> faults \<Rightarrow> ('db, 'e, 'a) tx \<Rightarrow> 'db \<Rightarrow> ('e + 'a) \<times> 'db" where
  "run_tx err flt body db =
     (if flt 0 \<noteq> Delivered then (Inl err, db)
      else case body flt (Suc 0, db) of
          Inl e \<Rightarrow> (Inl e, db)
        | Inr (a, n, db') \<Rightarrow>
            (case flt n of
               Delivered \<Rightarrow> (Inr a, db')
             | Dropped \<Rightarrow> (Inl err, db)
             | ReplyLost \<Rightarrow> (Inl err, db')))"

lemmas tx_defs = tx_return_def tx_fail_def tx_bind_def tx_stmt_def tx_query_def tx_exec_def
  tx_insert_def

subsection \<open>A logic for transaction bodies\<close>

definition tx_hoare :: "('db \<Rightarrow> bool) \<Rightarrow> ('db, 'e, 'a) tx \<Rightarrow> ('a \<Rightarrow> 'db \<Rightarrow> bool) \<Rightarrow> bool" where
  "tx_hoare P m Q \<longleftrightarrow>
     (\<forall>flt n db a n' db'. P db \<longrightarrow> m flt (n, db) = Inr (a, n', db') \<longrightarrow> Q a db')"

named_theorems tx_rules \<open>rules of the logic of transaction bodies\<close>

lemma tx_hoare_return [tx_rules]: "(\<And>db. P db \<Longrightarrow> Q a db) \<Longrightarrow> tx_hoare P (tx_return a) Q"
  by (simp add: tx_hoare_def tx_return_def)

lemma tx_hoare_fail [tx_rules]: "tx_hoare P (tx_fail e) Q"
  by (simp add: tx_hoare_def tx_fail_def)

lemma tx_hoare_bind [tx_rules]:
  assumes "tx_hoare P m R" and "\<And>a. tx_hoare (R a) (k a) Q"
  shows "tx_hoare P (tx_bind m k) Q"
  unfolding tx_hoare_def tx_bind_def
proof (intro allI impI)
  fix flt n db b n' db'
  assume P: "P db" and run: "(case m flt (n, db) of Inl e \<Rightarrow> Inl e
      | Inr (a, n, db) \<Rightarrow> k a flt (n, db)) = Inr (b, n', db')"
  then obtain a n1 db1 where "m flt (n, db) = Inr (a, n1, db1)" "k a flt (n1, db1) = Inr (b, n', db')"
    by (auto split: sum.splits)
  with P assms show "Q b db'" unfolding tx_hoare_def by blast
qed

lemma tx_hoare_stmt [tx_rules]:
  "(\<And>db a db'. P db \<Longrightarrow> g db = Inr (a, db') \<Longrightarrow> Q a db') \<Longrightarrow> tx_hoare P (tx_stmt err g) Q"
  unfolding tx_hoare_def tx_stmt_def by (auto split: if_splits sum.splits)

lemma tx_hoare_query [tx_rules]:
  "(\<And>db. P db \<Longrightarrow> Q (q db) db) \<Longrightarrow> tx_hoare P (tx_query err q) Q"
  unfolding tx_query_def by (rule tx_hoare_stmt) auto

lemma tx_hoare_exec [tx_rules]:
  "(\<And>db. P db \<Longrightarrow> Q () (f db)) \<Longrightarrow> tx_hoare P (tx_exec err f) Q"
  unfolding tx_exec_def by (rule tx_hoare_stmt) auto

lemma tx_hoare_insert [tx_rules]:
  "(\<And>db db'. P db \<Longrightarrow> f db = Some db' \<Longrightarrow> Q () db') \<Longrightarrow> tx_hoare P (tx_insert err f) Q"
  unfolding tx_insert_def by (rule tx_hoare_stmt) (auto split: option.splits)

lemma tx_hoare_if [tx_rules]:
  "(c \<Longrightarrow> tx_hoare P m Q) \<Longrightarrow> (\<not> c \<Longrightarrow> tx_hoare P m' Q) \<Longrightarrow> tx_hoare P (if c then m else m') Q"
  by simp

lemma tx_hoare_weaken: "tx_hoare P m Q \<Longrightarrow> (\<And>db. P' db \<Longrightarrow> P db) \<Longrightarrow> (\<And>a db. Q a db \<Longrightarrow> Q' a db) \<Longrightarrow>
    tx_hoare P' m Q'"
  unfolding tx_hoare_def by blast

text \<open>Whatever happens on the wire, the caller's database is the old one or the committed one.\<close>

lemma run_tx_cases:
  assumes "run_tx err flt body db = (r, db')"
  obtains (old) e where "r = Inl e" "db' = db"
  | (lost) a n where "body flt (Suc 0, db) = Inr (a, n, db')" "r = Inl err"
  | (committed) a n where "body flt (Suc 0, db) = Inr (a, n, db')" "r = Inr a"
  using assms unfolding run_tx_def
  by (auto split: if_splits sum.splits wire.splits prod.splits)

lemma run_tx_InrD:
  "run_tx err flt body db = (Inr a, db') \<Longrightarrow> \<exists>n. body flt (Suc 0, db) = Inr (a, n, db')"
  by (erule run_tx_cases) auto

lemma run_tx_hoare:
  assumes "tx_hoare I body (\<lambda>_. I)" and "I db"
  shows "I (snd (run_tx err flt body db))"
proof (cases "run_tx err flt body db")
  case (Pair r db')
  from Pair have "I db'"
    using assms by (cases rule: run_tx_cases) (auto simp: tx_hoare_def)
  with Pair show ?thesis by simp
qed

lemma run_tx_post:
  assumes "tx_hoare P body Q" and "P db" and "run_tx err flt body db = (Inr a, db')"
  shows "Q a db'"
  using assms run_tx_InrD unfolding tx_hoare_def by metis

text \<open>With no faults a body runs through; these equations evaluate it.\<close>

lemma tx_stmt_no_faults [simp]:
  "tx_stmt err g no_faults (n, db) =
     (case g db of Inl e \<Rightarrow> Inl e | Inr (a, db') \<Rightarrow> Inr (a, Suc n, db'))"
  by (simp add: tx_stmt_def)

lemma tx_query_no_faults [simp]: "tx_query err q no_faults (n, db) = Inr (q db, Suc n, db)"
  by (simp add: tx_query_def)

lemma tx_exec_no_faults [simp]: "tx_exec err f no_faults (n, db) = Inr ((), Suc n, f db)"
  by (simp add: tx_exec_def)

lemma tx_insert_no_faults [simp]:
  "tx_insert err f no_faults (n, db) =
     (case f db of None \<Rightarrow> Inl err | Some db' \<Rightarrow> Inr ((), Suc n, db'))"
  by (auto simp: tx_insert_def split: option.splits)

lemma tx_return_apply [simp]: "tx_return a flt (n, db) = Inr (a, n, db)"
  by (simp add: tx_return_def)

lemma tx_fail_apply [simp]: "tx_fail e flt s = Inl e"
  by (simp add: tx_fail_def)

lemma tx_bind_apply [simp]:
  "tx_bind m k flt s = (case m flt s of Inl e \<Rightarrow> Inl e | Inr (a, n, db) \<Rightarrow> k a flt (n, db))"
  by (simp add: tx_bind_def)

lemma run_tx_no_faults [simp]:
  "run_tx err no_faults body db =
     (case body no_faults (Suc 0, db) of Inl e \<Rightarrow> (Inl e, db) | Inr (a, n, db') \<Rightarrow> (Inr a, db'))"
  by (simp add: run_tx_def split: sum.splits)

subsection \<open>The random source\<close>

text \<open>\<open>rand.Read\<close> fills its buffer from the process's random source and does not fail.\<close>

record entropy =
  source :: "nat \<Rightarrow> byte"
  drawn :: nat

definition rand_read :: "nat \<Rightarrow> entropy \<Rightarrow> byte list \<times> entropy" where
  "rand_read n e =
     (map (\<lambda>i. source e (drawn e + i)) [0..<n], e\<lparr>drawn := drawn e + n\<rparr>)"

lemma length_rand_read [simp]: "length (fst (rand_read n e)) = n"
  by (simp add: rand_read_def)

subsection \<open>Tables that only grow\<close>

text \<open>
  Every row of \<open>t\<close> lives on in \<open>t'\<close> as a row related to it by \<open>R\<close>. Appending rows and updating
  them within a reflexive \<open>R\<close> are such evolutions; they compose when \<open>R\<close> is transitive.
\<close>

definition evolves :: "('r \<Rightarrow> 'r \<Rightarrow> bool) \<Rightarrow> 'r list \<Rightarrow> 'r list \<Rightarrow> bool" where
  "evolves R t t' \<longleftrightarrow> (\<forall>r \<in> set t. \<exists>r' \<in> set t'. R r r')"

lemma evolves_refl [simp]: "(\<And>r. R r r) \<Longrightarrow> evolves R t t"
  by (auto simp: evolves_def)

lemma evolves_append [simp]: "(\<And>r. R r r) \<Longrightarrow> evolves R t (t @ u)"
  by (auto simp: evolves_def)

lemma evolves_update [simp]:
  "(\<And>r. R r r) \<Longrightarrow> (\<And>r. P r \<Longrightarrow> R r (f r)) \<Longrightarrow> evolves R t (sql_update P f t)"
  unfolding evolves_def sql_update_def by (simp add: Ball_def Bex_def image_iff) metis

lemma evolves_trans:
  "evolves R t t' \<Longrightarrow> evolves R t' t'' \<Longrightarrow> (\<And>a b c. R a b \<Longrightarrow> R b c \<Longrightarrow> R a c) \<Longrightarrow> evolves R t t''"
  unfolding evolves_def by metis

lemma evolvesE:
  assumes "evolves R t t'" "r \<in> set t"
  obtains r' where "r' \<in> set t'" "R r r'"
  using assms by (auto simp: evolves_def)

end
