(* ===== verification/Protocol.thy ===== *)
theory Protocol
  imports Go_Json Relay_Tables
begin

section \<open>The message protocol\<close>

text \<open>
  \<^verbatim>\<open>internal/protocol/message.go\<close>: the message envelope that apps, the agent and the relay exchange,
  its validation, its construction, the role table of message types, the canonical sender of a
  role, and the payloads the relay itself reads or writes. A message on the wire is its JSON tree.
\<close>

subsection \<open>Message types and roles\<close>

definition SpecVersion :: string where "SpecVersion = ''2.0''"

definition TypeAgentHello :: string where "TypeAgentHello = ''agent.hello''"
definition TypeAgentStatus :: string where "TypeAgentStatus = ''agent.status''"
definition TypeAgentCapabilities :: string where "TypeAgentCapabilities = ''agent.capabilities''"
definition TypeExecutionProfileList :: string where "TypeExecutionProfileList = ''execution.profile.list''"
definition TypeExecutionProfileSnapshot :: string where "TypeExecutionProfileSnapshot = ''execution.profile.snapshot''"
definition TypeProjectList :: string where "TypeProjectList = ''project.list''"
definition TypeProjectSnapshot :: string where "TypeProjectSnapshot = ''project.snapshot''"
definition TypeThreadList :: string where "TypeThreadList = ''thread.list''"
definition TypeThreadSnapshot :: string where "TypeThreadSnapshot = ''thread.snapshot''"
definition TypeThreadRead :: string where "TypeThreadRead = ''thread.read''"
definition TypeThreadDetail :: string where "TypeThreadDetail = ''thread.detail''"
definition TypeSourceRead :: string where "TypeSourceRead = ''source.read''"
definition TypeSourceSnapshot :: string where "TypeSourceSnapshot = ''source.snapshot''"
definition TypeSourceReadFailed :: string where "TypeSourceReadFailed = ''source.read.failed''"
definition TypeTurnStart :: string where "TypeTurnStart = ''turn.start''"
definition TypeTurnStarted :: string where "TypeTurnStarted = ''turn.started''"
definition TypeTurnOutput :: string where "TypeTurnOutput = ''turn.output''"
definition TypeTurnItemStarted :: string where "TypeTurnItemStarted = ''turn.item.started''"
definition TypeTurnItemDelta :: string where "TypeTurnItemDelta = ''turn.item.delta''"
definition TypeTurnItemDone :: string where "TypeTurnItemDone = ''turn.item.completed''"
definition TypeTurnSnapshot :: string where "TypeTurnSnapshot = ''turn.snapshot''"
definition TypeTurnInterrupt :: string where "TypeTurnInterrupt = ''turn.interrupt''"
definition TypeTurnInterrupted :: string where "TypeTurnInterrupted = ''turn.interrupted''"
definition TypeTurnCompleted :: string where "TypeTurnCompleted = ''turn.completed''"
definition TypeTurnFailed :: string where "TypeTurnFailed = ''turn.failed''"
definition TypeTurnRejected :: string where "TypeTurnRejected = ''turn.rejected''"
definition TypeTurnAcknowledged :: string where "TypeTurnAcknowledged = ''turn.acknowledged''"
definition TypeRunAccepted :: string where "TypeRunAccepted = ''run.accepted''"
definition TypeRuntimeReceivedAck :: string where "TypeRuntimeReceivedAck = ''runtime.received_ack''"
definition TypeRuntimeDurableAck :: string where "TypeRuntimeDurableAck = ''runtime.durable_ack''"
definition TypeBootstrapStart :: string where "TypeBootstrapStart = ''bootstrap.start''"
definition TypeBootstrapBatch :: string where "TypeBootstrapBatch = ''bootstrap.batch''"
definition TypeBootstrapDurableAck :: string where "TypeBootstrapDurableAck = ''bootstrap.durable_ack''"

lemmas type_defs = TypeAgentHello_def TypeAgentStatus_def TypeAgentCapabilities_def
  TypeExecutionProfileList_def TypeExecutionProfileSnapshot_def TypeProjectList_def
  TypeProjectSnapshot_def TypeThreadList_def TypeThreadSnapshot_def TypeThreadRead_def
  TypeThreadDetail_def TypeSourceRead_def TypeSourceSnapshot_def TypeSourceReadFailed_def
  TypeTurnStart_def TypeTurnStarted_def TypeTurnOutput_def TypeTurnItemStarted_def
  TypeTurnItemDelta_def TypeTurnItemDone_def TypeTurnSnapshot_def TypeTurnInterrupt_def
  TypeTurnInterrupted_def TypeTurnCompleted_def TypeTurnFailed_def TypeTurnRejected_def
  TypeTurnAcknowledged_def TypeRunAccepted_def TypeRuntimeReceivedAck_def TypeRuntimeDurableAck_def
  TypeBootstrapStart_def TypeBootstrapBatch_def TypeBootstrapDurableAck_def

definition RoleApp :: string where "RoleApp = ''app''"
definition RoleAgent :: string where "RoleAgent = ''agent''"

lemmas role_defs = RoleApp_def RoleAgent_def

definition app_types :: "string list" where
  "app_types = [TypeExecutionProfileList, TypeProjectList, TypeThreadList, TypeThreadRead, TypeTurnStart,
     TypeTurnInterrupt, TypeTurnAcknowledged, TypeRuntimeReceivedAck, TypeRuntimeDurableAck,
     TypeBootstrapStart, TypeBootstrapDurableAck]"

definition agent_types :: "string list" where
  "agent_types = [TypeAgentHello, TypeAgentStatus, TypeAgentCapabilities, TypeExecutionProfileSnapshot,
     TypeProjectSnapshot, TypeThreadSnapshot, TypeThreadDetail, TypeSourceSnapshot, TypeSourceReadFailed,
     TypeRunAccepted, TypeBootstrapBatch, TypeTurnStarted, TypeTurnOutput, TypeTurnItemStarted,
     TypeTurnItemDelta, TypeTurnItemDone, TypeTurnSnapshot, TypeTurnInterrupted, TypeTurnCompleted,
     TypeTurnFailed, TypeTurnRejected]"

definition AllowedFrom :: "string \<Rightarrow> string \<Rightarrow> bool" where
  "AllowedFrom role messageType =
     (if role = RoleApp then messageType \<in> set app_types
      else if role = RoleAgent then messageType \<in> set agent_types
      else False)"

record sender =
  se_kind :: string
  se_id :: string

definition CanonicalSender :: "string \<Rightarrow> sender" where
  "CanonicalSender role =
     (if role = RoleAgent then \<lparr>se_kind = ''device'', se_id = ''local-mac''\<rparr>
      else \<lparr>se_kind = ''user'', se_id = ''local-user''\<rparr>)"

subsection \<open>Messages\<close>

record message =
  m_spec_version :: string
  m_message_id :: string
  m_type :: string
  m_occurred_at :: time
  m_trace_id :: string
  m_sender :: sender
  m_payload :: "json option"
  m_agent_sequence :: int

datatype protocol_error =
    ErrDecodeMessage
  | ErrSpecVersion string
  | ErrMessageID
  | ErrType
  | ErrOccurredAt
  | ErrTraceID
  | ErrSender
  | ErrPayload
  | ErrDecodePayload string

definition Validate :: "message \<Rightarrow> protocol_error option" where
  "Validate m =
     (if m_spec_version m \<noteq> SpecVersion then Some (ErrSpecVersion (m_spec_version m))
      else if m_message_id m = [] then Some ErrMessageID
      else if m_type m = [] then Some ErrType
      else if is_zero_time (m_occurred_at m) then Some ErrOccurredAt
      else if m_trace_id m = [] then Some ErrTraceID
      else if se_kind (m_sender m) = [] \<or> se_id (m_sender m) = [] then Some ErrSender
      else if m_payload m = None then Some ErrPayload
      else None)"

definition zero_sender :: sender where
  "zero_sender = \<lparr>se_kind = [], se_id = []\<rparr>"

definition zero_message :: message where
  "zero_message = \<lparr>m_spec_version = [], m_message_id = [], m_type = [], m_occurred_at = 0,
     m_trace_id = [], m_sender = zero_sender, m_payload = None, m_agent_sequence = 0\<rparr>"

definition sender_schema :: "(string \<times> sender decoder) list" where
  "sender_schema =
     [(''kind'', dec_str (\<lambda>s v. v\<lparr>se_kind := s\<rparr>)), (''id'', dec_str (\<lambda>s v. v\<lparr>se_id := s\<rparr>))]"

definition message_schema :: "(string \<times> message decoder) list" where
  "message_schema =
     [(''spec_version'', dec_str (\<lambda>s v. v\<lparr>m_spec_version := s\<rparr>)),
      (''message_id'', dec_str (\<lambda>s v. v\<lparr>m_message_id := s\<rparr>)),
      (''type'', dec_str (\<lambda>s v. v\<lparr>m_type := s\<rparr>)),
      (''occurred_at'', dec_time (\<lambda>t v. v\<lparr>m_occurred_at := t\<rparr>)),
      (''trace_id'', dec_str (\<lambda>s v. v\<lparr>m_trace_id := s\<rparr>)),
      (''sender'', dec_sub m_sender (\<lambda>s v. v\<lparr>m_sender := s\<rparr>) (dec_struct False sender_schema)),
      (''payload'', dec_raw (\<lambda>j v. v\<lparr>m_payload := Some j\<rparr>)),
      (''agent_sequence'', dec_int (\<lambda>n v. v\<lparr>m_agent_sequence := n\<rparr>))]"

text \<open>\<open>Decode\<close> of a frame; \<open>None\<close> is a frame that is not JSON.\<close>

definition Decode :: "json option \<Rightarrow> protocol_error + message" where
  "Decode data =
     (case data of
        None \<Rightarrow> Inl ErrDecodeMessage
      | Some j \<Rightarrow>
          (case decoded (dec_struct False message_schema j zero_message) of
             None \<Rightarrow> Inl ErrDecodeMessage
           | Some m \<Rightarrow> (case Validate m of Some e \<Rightarrow> Inl e | None \<Rightarrow> Inr m)))"

text \<open>The tree \<open>json.Marshal\<close> writes for a message.\<close>

definition message_json :: "message \<Rightarrow> json" where
  "message_json m = JObj
     (member ''spec_version'' (JStr (m_spec_version m)) @ member ''message_id'' (JStr (m_message_id m))
      @ member ''type'' (JStr (m_type m)) @ member ''occurred_at'' (time_json (m_occurred_at m))
      @ member ''trace_id'' (JStr (m_trace_id m))
      @ member ''sender'' (JObj [(''kind'', JStr (se_kind (m_sender m))), (''id'', JStr (se_id (m_sender m)))])
      @ member ''payload'' (opt_json (\<lambda>j. j) (m_payload m))
      @ omit_if (m_agent_sequence m = 0) ''agent_sequence'' (JNum (m_agent_sequence m)))"

text \<open>\<open>PayloadAs\<close>: the filled value comes back even with an error.\<close>

definition PayloadAs :: "(string \<times> 'a decoder) list \<Rightarrow> 'a \<Rightarrow> message \<Rightarrow> 'a \<times> bool" where
  "PayloadAs schema zero m =
     (case m_payload m of None \<Rightarrow> (zero, False) | Some j \<Rightarrow> dec_struct False schema j zero)"

subsection \<open>Identifiers and construction\<close>

definition hex_digit :: "nat \<Rightarrow> char" where
  "hex_digit n = (if n < 10 then char_of (48 + n) else char_of (87 + n))"

definition hex_encode :: "byte list \<Rightarrow> string" where
  "hex_encode bs = concat (map (\<lambda>b. [hex_digit (unat b div 16), hex_digit (unat b mod 16)]) bs)"

definition NewID :: "entropy \<Rightarrow> string \<times> entropy" where
  "NewID e =
     (let (bs, e') = rand_read 16 e;
          b6 = or (and (bs ! 6) 0x0f) 0x40;
          b8 = or (and (bs ! 8) 0x3f) 0x80 in
      (hex_encode (bs[6 := b6, 8 := b8]), e'))"

definition NewMessage :: "time \<Rightarrow> string \<Rightarrow> string \<Rightarrow> sender \<Rightarrow> json \<Rightarrow> entropy \<Rightarrow> (message \<times> protocol_error option) \<times> entropy" where
  "NewMessage now messageType traceID sndr payload e =
     (let (trace, e1) = (if traceID = [] then NewID e else (traceID, e));
          (mid, e2) = NewID e1;
          m = \<lparr>m_spec_version = SpecVersion, m_message_id = mid, m_type = messageType, m_occurred_at = now,
               m_trace_id = trace, m_sender = sndr, m_payload = Some payload, m_agent_sequence = 0\<rparr> in
      ((m, Validate m), e2))"

subsection \<open>Facts about identifiers\<close>

lemma length_hex_encode [simp]: "length (hex_encode bs) = 2 * length bs"
  by (induction bs) (simp_all add: hex_encode_def)

lemma length_NewID [simp]: "length (fst (NewID e)) = 32"
  by (simp add: NewID_def Let_def split_beta)

lemma NewID_nonempty [simp]: "fst (NewID e) \<noteq> []"
  using length_NewID [of e] by (metis list.size(3) zero_neq_numeral)

lemma hex_encode_nth:
  "i < length bs \<Longrightarrow> hex_encode bs ! (2 * i) = hex_digit (unat (bs ! i) div 16)"
proof (induction bs arbitrary: i)
  case (Cons b bs)
  then show ?case by (cases i) (simp_all add: hex_encode_def)
qed simp

text \<open>The version nibble of a version 4 UUID.\<close>

lemma version_byte: "unat (or (and (b :: byte) 0x0f) 0x40) div 16 = 4"
proof -
  have "drop_bit 4 (or (and b 0x0f) 0x40) = 4"
    by (rule bit_word_eqI) (auto simp: bit_simps)
  then have "unat (drop_bit 4 (or (and b 0x0f) 0x40)) = 4" by simp
  then show ?thesis by (simp add: drop_bit_eq_div unat_div)
qed

lemma NewID_version: "fst (NewID e) ! 12 = CHR ''4''"
proof -
  let ?bs = "(fst (rand_read 16 e))[6 := or (and (fst (rand_read 16 e) ! 6) 0x0f) 0x40,
    8 := or (and (fst (rand_read 16 e) ! 8) 0x3f) 0x80]"
  have "hex_encode ?bs ! (2 * 6) = hex_digit 4"
    by (subst hex_encode_nth) (simp_all add: version_byte)
  moreover have "hex_digit 4 = CHR ''4''" by code_simp
  ultimately show ?thesis by (simp add: NewID_def Let_def split_beta)
qed

subsection \<open>Facts about messages\<close>

lemma app_agent_disjoint: "set app_types \<inter> set agent_types = {}"
  by (simp add: app_types_def agent_types_def type_defs)

lemma Validate_None:
  "Validate m = None \<longleftrightarrow> m_spec_version m = SpecVersion \<and> m_message_id m \<noteq> [] \<and> m_type m \<noteq> [] \<and>
     m_occurred_at m \<noteq> 0 \<and> m_trace_id m \<noteq> [] \<and> se_kind (m_sender m) \<noteq> [] \<and> se_id (m_sender m) \<noteq> [] \<and>
     m_payload m \<noteq> None"
  by (auto simp: Validate_def is_zero_time_def)

text \<open>\<open>NewMessage\<close> reports an error only for an empty type, a zero clock or an incomplete sender.\<close>

lemma NewMessage_valid:
  assumes "messageType \<noteq> []" "now \<noteq> 0" "se_kind sndr \<noteq> []" "se_id sndr \<noteq> []"
  shows "snd (fst (NewMessage now messageType traceID sndr payload e)) = None"
  using assms by (auto simp: NewMessage_def Let_def split_beta Validate_None)

lemma NewMessage_fields:
  assumes "NewMessage now messageType traceID sndr payload e = ((m, err), e')"
  shows "m_type m = messageType" "m_sender m = sndr" "m_payload m = Some payload" "m_occurred_at m = now"
    "traceID \<noteq> [] \<Longrightarrow> m_trace_id m = traceID" "m_agent_sequence m = 0" "err = Validate m"
    "m_spec_version m = SpecVersion" "m_message_id m \<noteq> []" "m_trace_id m \<noteq> []"
  using assms by (auto simp: NewMessage_def Let_def split_beta split: if_splits)

lemma fold_envelope [simp]:
  "fold_name ''spec_version'' = ''SPEC_VERSION''" "fold_name ''message_id'' = ''MESSAGE_ID''"
  "fold_name ''type'' = ''TYPE''" "fold_name ''occurred_at'' = ''OCCURRED_AT''"
  "fold_name ''trace_id'' = ''TRACE_ID''" "fold_name ''sender'' = ''SENDER''"
  "fold_name ''payload'' = ''PAYLOAD''" "fold_name ''agent_sequence'' = ''AGENT_SEQUENCE''"
  "fold_name ''kind'' = ''KIND''" "fold_name ''id'' = ''ID''"
  by code_simp+

lemma Decode_message_json:
  assumes "Validate m = None" "writable_time (m_occurred_at m)" "int64_ok (m_agent_sequence m)"
  shows "Decode (Some (message_json m)) = Inr m"
proof -
  from assms(1) obtain p where p: "m_payload m = Some p" by (auto simp: Validate_None)
  have "dec_struct False message_schema (message_json m) zero_message = (m, True)"
    using assms(2,3) p
    by (simp add: dec_struct_def message_json_def message_schema_def member_def omit_if_def equal_fold_def
        dec_str_def dec_time_def dec_sub_def dec_raw_def dec_int_def time_json_def opt_json_def sender_schema_def
        parse_format_rfc3339 zero_message_def zero_sender_def)
  with assms(1) show ?thesis by (simp add: Decode_def)
qed

end
