(* ===== verification/Payloads.thy ===== *)
theory Payloads
  imports Protocol
begin

section \<open>The payloads the relay reads and writes\<close>

text \<open>
  The payload structs of \<^verbatim>\<open>internal/protocol/message.go\<close> that the relay's own code decodes, encodes or
  both: each as a record with its zero value, its decoder and its encoder, in the field order and
  with the \<open>omitempty\<close> options of the struct tags.
\<close>

subsection \<open>Status, rejection, acknowledgement\<close>

record agent_status_payload =
  as_status :: string
  as_project_id :: string
  as_thread_id :: string
  as_turn_id :: string

definition agent_status_json :: "agent_status_payload \<Rightarrow> json" where
  "agent_status_json p = JObj
     (member ''status'' (JStr (as_status p))
      @ omit_if (as_project_id p = []) ''project_id'' (JStr (as_project_id p))
      @ omit_if (as_thread_id p = []) ''thread_id'' (JStr (as_thread_id p))
      @ omit_if (as_turn_id p = []) ''turn_id'' (JStr (as_turn_id p)))"

text \<open>The execution context of a rejection is nil in every message the relay writes.\<close>

record turn_rejected_payload =
  rj_code :: string
  rj_message :: string
  rj_required_capabilities :: "string list"
  rj_recovery_action :: string

definition turn_rejected_json :: "turn_rejected_payload \<Rightarrow> json" where
  "turn_rejected_json p = JObj
     (member ''code'' (JStr (rj_code p)) @ member ''message'' (JStr (rj_message p))
      @ omit_if (rj_required_capabilities p = []) ''required_capabilities'' (JArr (map JStr (rj_required_capabilities p)))
      @ omit_if (rj_recovery_action p = []) ''recovery_action'' (JStr (rj_recovery_action p)))"

record turn_acknowledged_payload =
  ta_turn_id :: string
  ta_status :: string

definition turn_acknowledged_zero :: turn_acknowledged_payload where
  "turn_acknowledged_zero = \<lparr>ta_turn_id = [], ta_status = []\<rparr>"

definition turn_acknowledged_schema :: "(string \<times> turn_acknowledged_payload decoder) list" where
  "turn_acknowledged_schema =
     [(''turn_id'', dec_str (\<lambda>s v. v\<lparr>ta_turn_id := s\<rparr>)), (''status'', dec_str (\<lambda>s v. v\<lparr>ta_status := s\<rparr>))]"

subsection \<open>Commands and their acknowledgements\<close>

record run_accepted_payload =
  ra_command_id :: string
  ra_run_id :: string

definition run_accepted_zero :: run_accepted_payload where
  "run_accepted_zero = \<lparr>ra_command_id = [], ra_run_id = []\<rparr>"

definition run_accepted_schema :: "(string \<times> run_accepted_payload decoder) list" where
  "run_accepted_schema =
     [(''command_id'', dec_str (\<lambda>s v. v\<lparr>ra_command_id := s\<rparr>)), (''run_id'', dec_str (\<lambda>s v. v\<lparr>ra_run_id := s\<rparr>))]"

definition runtime_ack_json :: "string \<Rightarrow> int \<Rightarrow> json" where
  "runtime_ack_json run_id sequence = JObj [(''run_id'', JStr run_id), (''agent_sequence'', JNum sequence)]"

definition bootstrap_ack_json :: "string \<Rightarrow> int \<Rightarrow> string \<Rightarrow> json" where
  "bootstrap_ack_json sync_id batch_no checksum =
     JObj [(''sync_id'', JStr sync_id), (''batch_no'', JNum batch_no), (''checksum'', JStr checksum)]"

record turn_start_payload =
  ts_command_id :: string
  ts_run_id :: string
  ts_project_id :: string
  ts_thread_id :: string
  ts_prompt :: string
  ts_permission_profile_id :: string

definition turn_start_zero :: turn_start_payload where
  "turn_start_zero = \<lparr>ts_command_id = [], ts_run_id = [], ts_project_id = [], ts_thread_id = [],
     ts_prompt = [], ts_permission_profile_id = []\<rparr>"

definition turn_start_schema :: "(string \<times> turn_start_payload decoder) list" where
  "turn_start_schema =
     [(''command_id'', dec_str (\<lambda>s v. v\<lparr>ts_command_id := s\<rparr>)),
      (''run_id'', dec_str (\<lambda>s v. v\<lparr>ts_run_id := s\<rparr>)),
      (''project_id'', dec_str (\<lambda>s v. v\<lparr>ts_project_id := s\<rparr>)),
      (''thread_id'', dec_str (\<lambda>s v. v\<lparr>ts_thread_id := s\<rparr>)),
      (''prompt'', dec_str (\<lambda>s v. v\<lparr>ts_prompt := s\<rparr>)),
      (''permission_profile_id'', dec_str (\<lambda>s v. v\<lparr>ts_permission_profile_id := s\<rparr>))]"

definition turn_start_json :: "turn_start_payload \<Rightarrow> json" where
  "turn_start_json p = JObj
     (member ''command_id'' (JStr (ts_command_id p)) @ member ''run_id'' (JStr (ts_run_id p))
      @ member ''project_id'' (JStr (ts_project_id p))
      @ omit_if (ts_thread_id p = []) ''thread_id'' (JStr (ts_thread_id p))
      @ member ''prompt'' (JStr (ts_prompt p))
      @ omit_if (ts_permission_profile_id p = []) ''permission_profile_id'' (JStr (ts_permission_profile_id p)))"

record turn_interrupt_payload =
  ti_thread_id :: string
  ti_turn_id :: string

definition turn_interrupt_zero :: turn_interrupt_payload where
  "turn_interrupt_zero = \<lparr>ti_thread_id = [], ti_turn_id = []\<rparr>"

definition turn_interrupt_schema :: "(string \<times> turn_interrupt_payload decoder) list" where
  "turn_interrupt_schema =
     [(''thread_id'', dec_str (\<lambda>s v. v\<lparr>ti_thread_id := s\<rparr>)), (''turn_id'', dec_str (\<lambda>s v. v\<lparr>ti_turn_id := s\<rparr>))]"

definition turn_interrupt_json :: "turn_interrupt_payload \<Rightarrow> json" where
  "turn_interrupt_json p = JObj [(''thread_id'', JStr (ti_thread_id p)), (''turn_id'', JStr (ti_turn_id p))]"

record bootstrap_start_payload =
  bs_command_id :: string
  bs_sync_id :: string

definition bootstrap_start_zero :: bootstrap_start_payload where
  "bootstrap_start_zero = \<lparr>bs_command_id = [], bs_sync_id = []\<rparr>"

definition bootstrap_start_schema :: "(string \<times> bootstrap_start_payload decoder) list" where
  "bootstrap_start_schema =
     [(''command_id'', dec_str (\<lambda>s v. v\<lparr>bs_command_id := s\<rparr>)), (''sync_id'', dec_str (\<lambda>s v. v\<lparr>bs_sync_id := s\<rparr>))]"

definition bootstrap_start_json :: "bootstrap_start_payload \<Rightarrow> json" where
  "bootstrap_start_json p = JObj [(''command_id'', JStr (bs_command_id p)), (''sync_id'', JStr (bs_sync_id p))]"

subsection \<open>Source snapshots and execution profiles\<close>

record source_read_payload =
  sr_project_id :: string
  sr_path :: string
  sr_focus_line :: int
  sr_context_lines :: int

definition source_read_json :: "source_read_payload \<Rightarrow> json" where
  "source_read_json p = JObj
     (member ''project_id'' (JStr (sr_project_id p)) @ member ''path'' (JStr (sr_path p))
      @ omit_if (sr_focus_line p = 0) ''focus_line'' (JNum (sr_focus_line p))
      @ omit_if (sr_context_lines p = 0) ''context_lines'' (JNum (sr_context_lines p)))"

record source_snapshot_payload =
  ss_project_id :: string
  ss_path :: string
  ss_content :: string
  ss_start_line :: int
  ss_end_line :: int
  ss_total_lines :: int
  ss_focus_line :: int
  ss_truncated :: bool
  ss_sha256 :: string
  ss_modified_at :: time

definition source_snapshot_zero :: source_snapshot_payload where
  "source_snapshot_zero = \<lparr>ss_project_id = [], ss_path = [], ss_content = [], ss_start_line = 0,
     ss_end_line = 0, ss_total_lines = 0, ss_focus_line = 0, ss_truncated = False, ss_sha256 = [],
     ss_modified_at = 0\<rparr>"

definition source_snapshot_schema :: "(string \<times> source_snapshot_payload decoder) list" where
  "source_snapshot_schema =
     [(''project_id'', dec_str (\<lambda>s v. v\<lparr>ss_project_id := s\<rparr>)),
      (''path'', dec_str (\<lambda>s v. v\<lparr>ss_path := s\<rparr>)),
      (''content'', dec_str (\<lambda>s v. v\<lparr>ss_content := s\<rparr>)),
      (''start_line'', dec_int (\<lambda>n v. v\<lparr>ss_start_line := n\<rparr>)),
      (''end_line'', dec_int (\<lambda>n v. v\<lparr>ss_end_line := n\<rparr>)),
      (''total_lines'', dec_int (\<lambda>n v. v\<lparr>ss_total_lines := n\<rparr>)),
      (''focus_line'', dec_int (\<lambda>n v. v\<lparr>ss_focus_line := n\<rparr>)),
      (''truncated'', dec_bool (\<lambda>b v. v\<lparr>ss_truncated := b\<rparr>)),
      (''sha256'', dec_str (\<lambda>s v. v\<lparr>ss_sha256 := s\<rparr>)),
      (''modified_at'', dec_time (\<lambda>t v. v\<lparr>ss_modified_at := t\<rparr>))]"

definition source_snapshot_json :: "source_snapshot_payload \<Rightarrow> json" where
  "source_snapshot_json p = JObj
     (member ''project_id'' (JStr (ss_project_id p)) @ member ''path'' (JStr (ss_path p))
      @ member ''content'' (JStr (ss_content p)) @ member ''start_line'' (JNum (ss_start_line p))
      @ member ''end_line'' (JNum (ss_end_line p)) @ member ''total_lines'' (JNum (ss_total_lines p))
      @ omit_if (ss_focus_line p = 0) ''focus_line'' (JNum (ss_focus_line p))
      @ member ''truncated'' (JBool (ss_truncated p)) @ member ''sha256'' (JStr (ss_sha256 p))
      @ member ''modified_at'' (time_json (ss_modified_at p)))"

record source_read_failed_payload =
  sf_code :: string
  sf_message :: string

definition source_read_failed_zero :: source_read_failed_payload where
  "source_read_failed_zero = \<lparr>sf_code = [], sf_message = []\<rparr>"

definition source_read_failed_schema :: "(string \<times> source_read_failed_payload decoder) list" where
  "source_read_failed_schema =
     [(''code'', dec_str (\<lambda>s v. v\<lparr>sf_code := s\<rparr>)), (''message'', dec_str (\<lambda>s v. v\<lparr>sf_message := s\<rparr>))]"

record execution_profile =
  ep_id :: string
  ep_description :: string
  ep_allowed :: bool

record execution_profile_snapshot_payload =
  ps_project_id :: string
  ps_default_profile_id :: string
  ps_profiles :: "execution_profile list option"

definition execution_profile_list_json :: "string \<Rightarrow> json" where
  "execution_profile_list_json project_id = JObj [(''project_id'', JStr project_id)]"

definition execution_profile_zero :: execution_profile where
  "execution_profile_zero = \<lparr>ep_id = [], ep_description = [], ep_allowed = False\<rparr>"

definition execution_profile_schema :: "(string \<times> execution_profile decoder) list" where
  "execution_profile_schema =
     [(''id'', dec_str (\<lambda>s v. v\<lparr>ep_id := s\<rparr>)), (''description'', dec_str (\<lambda>s v. v\<lparr>ep_description := s\<rparr>)),
      (''allowed'', dec_bool (\<lambda>b v. v\<lparr>ep_allowed := b\<rparr>))]"

definition execution_profile_json :: "execution_profile \<Rightarrow> json" where
  "execution_profile_json p = JObj
     (member ''id'' (JStr (ep_id p)) @ omit_if (ep_description p = []) ''description'' (JStr (ep_description p))
      @ member ''allowed'' (JBool (ep_allowed p)))"

definition profile_snapshot_zero :: execution_profile_snapshot_payload where
  "profile_snapshot_zero = \<lparr>ps_project_id = [], ps_default_profile_id = [], ps_profiles = None\<rparr>"

definition profile_snapshot_schema :: "(string \<times> execution_profile_snapshot_payload decoder) list" where
  "profile_snapshot_schema =
     [(''project_id'', dec_str (\<lambda>s v. v\<lparr>ps_project_id := s\<rparr>)),
      (''default_profile_id'', dec_str (\<lambda>s v. v\<lparr>ps_default_profile_id := s\<rparr>)),
      (''profiles'', dec_slice (\<lambda>xs v. v\<lparr>ps_profiles := xs\<rparr>) execution_profile_zero
         (dec_struct False execution_profile_schema))]"

definition profile_snapshot_json :: "execution_profile_snapshot_payload \<Rightarrow> json" where
  "profile_snapshot_json p = JObj
     [(''project_id'', JStr (ps_project_id p)), (''default_profile_id'', JStr (ps_default_profile_id p)),
      (''profiles'', opt_json (\<lambda>ps. JArr (map execution_profile_json ps)) (ps_profiles p))]"

subsection \<open>Projects and imported threads\<close>

record protocol_project =
  pj_id :: string
  pj_name :: string
  pj_path :: string
  pj_thread_count :: int
  pj_updated_at :: "time option"

definition protocol_project_zero :: protocol_project where
  "protocol_project_zero = \<lparr>pj_id = [], pj_name = [], pj_path = [], pj_thread_count = 0, pj_updated_at = None\<rparr>"

definition protocol_project_schema :: "(string \<times> protocol_project decoder) list" where
  "protocol_project_schema =
     [(''id'', dec_str (\<lambda>s v. v\<lparr>pj_id := s\<rparr>)), (''name'', dec_str (\<lambda>s v. v\<lparr>pj_name := s\<rparr>)),
      (''path'', dec_str (\<lambda>s v. v\<lparr>pj_path := s\<rparr>)), (''thread_count'', dec_int (\<lambda>n v. v\<lparr>pj_thread_count := n\<rparr>)),
      (''updated_at'', dec_ptr pj_updated_at (\<lambda>t v. v\<lparr>pj_updated_at := t\<rparr>) 0 (dec_time (\<lambda>t _. t)))]"

definition project_snapshot_schema :: "(string \<times> protocol_project list decoder) list" where
  "project_snapshot_schema =
     [(''projects'', dec_arr (\<lambda>xs _. xs) protocol_project_zero (dec_struct False protocol_project_schema))]"

record thread_file_change =
  fc_path :: string
  fc_kind :: string
  fc_diff :: string

definition file_change_zero :: thread_file_change where
  "file_change_zero = \<lparr>fc_path = [], fc_kind = [], fc_diff = []\<rparr>"

definition file_change_schema :: "(string \<times> thread_file_change decoder) list" where
  "file_change_schema =
     [(''path'', dec_str (\<lambda>s v. v\<lparr>fc_path := s\<rparr>)), (''kind'', dec_str (\<lambda>s v. v\<lparr>fc_kind := s\<rparr>)),
      (''diff'', dec_str (\<lambda>s v. v\<lparr>fc_diff := s\<rparr>))]"

definition file_change_json :: "thread_file_change \<Rightarrow> json" where
  "file_change_json c = JObj
     (member ''path'' (JStr (fc_path c)) @ member ''kind'' (JStr (fc_kind c))
      @ omit_if (fc_diff c = []) ''diff'' (JStr (fc_diff c)))"

record thread_history_item =
  hit_id :: string
  hit_type :: string
  hit_role :: string
  hit_phase :: string
  hit_status :: string
  hit_text :: string
  hit_name :: string
  hit_command :: string
  hit_cwd :: string
  hit_output :: string
  hit_path :: string
  hit_query :: string
  hit_exit_code :: "int option"
  hit_duration_ms :: "int option"
  hit_changes :: "thread_file_change list"
  hit_truncated :: bool

definition history_item_zero :: thread_history_item where
  "history_item_zero = \<lparr>hit_id = [], hit_type = [], hit_role = [], hit_phase = [], hit_status = [],
     hit_text = [], hit_name = [], hit_command = [], hit_cwd = [], hit_output = [], hit_path = [],
     hit_query = [], hit_exit_code = None, hit_duration_ms = None, hit_changes = [], hit_truncated = False\<rparr>"

definition history_item_schema :: "(string \<times> thread_history_item decoder) list" where
  "history_item_schema =
     [(''id'', dec_str (\<lambda>s v. v\<lparr>hit_id := s\<rparr>)), (''type'', dec_str (\<lambda>s v. v\<lparr>hit_type := s\<rparr>)),
      (''role'', dec_str (\<lambda>s v. v\<lparr>hit_role := s\<rparr>)), (''phase'', dec_str (\<lambda>s v. v\<lparr>hit_phase := s\<rparr>)),
      (''status'', dec_str (\<lambda>s v. v\<lparr>hit_status := s\<rparr>)), (''text'', dec_str (\<lambda>s v. v\<lparr>hit_text := s\<rparr>)),
      (''name'', dec_str (\<lambda>s v. v\<lparr>hit_name := s\<rparr>)), (''command'', dec_str (\<lambda>s v. v\<lparr>hit_command := s\<rparr>)),
      (''cwd'', dec_str (\<lambda>s v. v\<lparr>hit_cwd := s\<rparr>)), (''output'', dec_str (\<lambda>s v. v\<lparr>hit_output := s\<rparr>)),
      (''path'', dec_str (\<lambda>s v. v\<lparr>hit_path := s\<rparr>)), (''query'', dec_str (\<lambda>s v. v\<lparr>hit_query := s\<rparr>)),
      (''exit_code'', dec_ptr hit_exit_code (\<lambda>n v. v\<lparr>hit_exit_code := n\<rparr>) 0 (dec_int (\<lambda>n _. n))),
      (''duration_ms'', dec_ptr hit_duration_ms (\<lambda>n v. v\<lparr>hit_duration_ms := n\<rparr>) 0 (dec_int (\<lambda>n _. n))),
      (''changes'', dec_arr (\<lambda>xs v. v\<lparr>hit_changes := xs\<rparr>) file_change_zero (dec_struct False file_change_schema)),
      (''truncated'', dec_bool (\<lambda>b v. v\<lparr>hit_truncated := b\<rparr>))]"

definition history_item_json :: "thread_history_item \<Rightarrow> json" where
  "history_item_json i = JObj
     (member ''id'' (JStr (hit_id i)) @ member ''type'' (JStr (hit_type i))
      @ omit_if (hit_role i = []) ''role'' (JStr (hit_role i))
      @ omit_if (hit_phase i = []) ''phase'' (JStr (hit_phase i))
      @ omit_if (hit_status i = []) ''status'' (JStr (hit_status i))
      @ omit_if (hit_text i = []) ''text'' (JStr (hit_text i))
      @ omit_if (hit_name i = []) ''name'' (JStr (hit_name i))
      @ omit_if (hit_command i = []) ''command'' (JStr (hit_command i))
      @ omit_if (hit_cwd i = []) ''cwd'' (JStr (hit_cwd i))
      @ omit_if (hit_output i = []) ''output'' (JStr (hit_output i))
      @ omit_if (hit_path i = []) ''path'' (JStr (hit_path i))
      @ omit_if (hit_query i = []) ''query'' (JStr (hit_query i))
      @ omit_if (hit_exit_code i = None) ''exit_code'' (opt_json JNum (hit_exit_code i))
      @ omit_if (hit_duration_ms i = None) ''duration_ms'' (opt_json JNum (hit_duration_ms i))
      @ omit_if (hit_changes i = []) ''changes'' (JArr (map file_change_json (hit_changes i)))
      @ member ''truncated'' (JBool (hit_truncated i)))"

record thread_history_turn =
  ht_id :: string
  ht_status :: string
  ht_started_at :: "time option"
  ht_completed_at :: "time option"
  ht_duration_ms :: "int option"
  ht_error :: string
  ht_items :: "thread_history_item list"
  ht_truncated :: bool

definition history_turn_zero :: thread_history_turn where
  "history_turn_zero = \<lparr>ht_id = [], ht_status = [], ht_started_at = None, ht_completed_at = None,
     ht_duration_ms = None, ht_error = [], ht_items = [], ht_truncated = False\<rparr>"

definition history_turn_schema :: "(string \<times> thread_history_turn decoder) list" where
  "history_turn_schema =
     [(''id'', dec_str (\<lambda>s v. v\<lparr>ht_id := s\<rparr>)), (''status'', dec_str (\<lambda>s v. v\<lparr>ht_status := s\<rparr>)),
      (''started_at'', dec_ptr ht_started_at (\<lambda>t v. v\<lparr>ht_started_at := t\<rparr>) 0 (dec_time (\<lambda>t _. t))),
      (''completed_at'', dec_ptr ht_completed_at (\<lambda>t v. v\<lparr>ht_completed_at := t\<rparr>) 0 (dec_time (\<lambda>t _. t))),
      (''duration_ms'', dec_ptr ht_duration_ms (\<lambda>n v. v\<lparr>ht_duration_ms := n\<rparr>) 0 (dec_int (\<lambda>n _. n))),
      (''error'', dec_str (\<lambda>s v. v\<lparr>ht_error := s\<rparr>)),
      (''items'', dec_arr (\<lambda>xs v. v\<lparr>ht_items := xs\<rparr>) history_item_zero (dec_struct False history_item_schema)),
      (''truncated'', dec_bool (\<lambda>b v. v\<lparr>ht_truncated := b\<rparr>))]"

record thread_detail =
  td_id :: string
  td_project_id :: string
  td_title :: string
  td_preview :: string
  td_status :: string
  td_source :: string
  td_created_at :: time
  td_updated_at :: time
  td_turns :: "thread_history_turn list"

definition thread_detail_zero :: thread_detail where
  "thread_detail_zero = \<lparr>td_id = [], td_project_id = [], td_title = [], td_preview = [], td_status = [],
     td_source = [], td_created_at = 0, td_updated_at = 0, td_turns = []\<rparr>"

definition thread_detail_schema :: "(string \<times> thread_detail decoder) list" where
  "thread_detail_schema =
     [(''id'', dec_str (\<lambda>s v. v\<lparr>td_id := s\<rparr>)), (''project_id'', dec_str (\<lambda>s v. v\<lparr>td_project_id := s\<rparr>)),
      (''title'', dec_str (\<lambda>s v. v\<lparr>td_title := s\<rparr>)), (''preview'', dec_str (\<lambda>s v. v\<lparr>td_preview := s\<rparr>)),
      (''status'', dec_str (\<lambda>s v. v\<lparr>td_status := s\<rparr>)), (''source'', dec_str (\<lambda>s v. v\<lparr>td_source := s\<rparr>)),
      (''created_at'', dec_time (\<lambda>t v. v\<lparr>td_created_at := t\<rparr>)),
      (''updated_at'', dec_time (\<lambda>t v. v\<lparr>td_updated_at := t\<rparr>)),
      (''turns'', dec_arr (\<lambda>xs v. v\<lparr>td_turns := xs\<rparr>) history_turn_zero (dec_struct False history_turn_schema))]"

record bootstrap_batch_payload =
  bp_command_id :: string
  bp_sync_id :: string
  bp_snapshot_id :: string
  bp_batch_no :: int
  bp_checksum :: string
  bp_total_sessions :: int
  bp_processed_sessions :: int
  bp_reconciliation_safe :: bool
  bp_project :: "protocol_project option"
  bp_thread :: "thread_detail option"
  bp_done :: bool

definition bootstrap_batch_zero :: bootstrap_batch_payload where
  "bootstrap_batch_zero = \<lparr>bp_command_id = [], bp_sync_id = [], bp_snapshot_id = [], bp_batch_no = 0,
     bp_checksum = [], bp_total_sessions = 0, bp_processed_sessions = 0, bp_reconciliation_safe = False,
     bp_project = None, bp_thread = None, bp_done = False\<rparr>"

definition bootstrap_batch_schema :: "(string \<times> bootstrap_batch_payload decoder) list" where
  "bootstrap_batch_schema =
     [(''command_id'', dec_str (\<lambda>s v. v\<lparr>bp_command_id := s\<rparr>)), (''sync_id'', dec_str (\<lambda>s v. v\<lparr>bp_sync_id := s\<rparr>)),
      (''snapshot_id'', dec_str (\<lambda>s v. v\<lparr>bp_snapshot_id := s\<rparr>)), (''batch_no'', dec_int (\<lambda>n v. v\<lparr>bp_batch_no := n\<rparr>)),
      (''checksum'', dec_str (\<lambda>s v. v\<lparr>bp_checksum := s\<rparr>)),
      (''total_sessions'', dec_int (\<lambda>n v. v\<lparr>bp_total_sessions := n\<rparr>)),
      (''processed_sessions'', dec_int (\<lambda>n v. v\<lparr>bp_processed_sessions := n\<rparr>)),
      (''reconciliation_safe'', dec_bool (\<lambda>b v. v\<lparr>bp_reconciliation_safe := b\<rparr>)),
      (''project'', dec_ptr bp_project (\<lambda>p v. v\<lparr>bp_project := p\<rparr>) protocol_project_zero
         (dec_struct False protocol_project_schema)),
      (''thread'', dec_ptr bp_thread (\<lambda>t v. v\<lparr>bp_thread := t\<rparr>) thread_detail_zero
         (dec_struct False thread_detail_schema)),
      (''done'', dec_bool (\<lambda>b v. v\<lparr>bp_done := b\<rparr>))]"

end
