(* ===== verification/Hub.thy ===== *)
theory Hub
  imports Payloads
begin

section \<open>The hub: which connection plays which role\<close>

text \<open>
  \<^verbatim>\<open>internal/hub/registry.go\<close>. A peer is known to the registry by its connection id and its role; the
  registry holds at most one peer per role, the last hello, status and capabilities messages of the
  present agent, and the last turn acknowledgement. Every method runs under the registry's lock, so
  each is one atomic step on the record. \<open>Peer\<close>, \<open>Snapshot\<close> and \<open>CloseAll\<close> are named after their
  receiver.
\<close>

record peer_ref =
  pe_id :: u64
  pe_role :: string

record registry =
  rg_app :: "peer_ref option"
  rg_agent :: "peer_ref option"
  rg_hello :: "message option"
  rg_status :: "message option"
  rg_capabilities :: "message option"
  rg_turn_ack :: turn_acknowledged_payload

definition NewRegistry :: registry where
  "NewRegistry = \<lparr>rg_app = None, rg_agent = None, rg_hello = None, rg_status = None,
     rg_capabilities = None, rg_turn_ack = turn_acknowledged_zero\<rparr>"

definition Replace :: "peer_ref \<Rightarrow> registry \<Rightarrow> peer_ref option \<times> registry" where
  "Replace peer r =
     (if pe_role peer = RoleApp then (rg_app r, r\<lparr>rg_app := Some peer\<rparr>)
      else if pe_role peer = RoleAgent then
        (rg_agent r, r\<lparr>rg_agent := Some peer, rg_hello := None, rg_status := None, rg_capabilities := None\<rparr>)
      else (None, r))"

definition Remove :: "peer_ref \<Rightarrow> registry \<Rightarrow> bool \<times> registry" where
  "Remove peer r =
     (if pe_role peer = RoleApp then
        (case rg_app r of
           None \<Rightarrow> (False, r)
         | Some p \<Rightarrow> if pe_id p \<noteq> pe_id peer then (False, r) else (True, r\<lparr>rg_app := None\<rparr>))
      else if pe_role peer = RoleAgent then
        (case rg_agent r of
           None \<Rightarrow> (False, r)
         | Some p \<Rightarrow>
             if pe_id p \<noteq> pe_id peer then (False, r)
             else (True, r\<lparr>rg_agent := None, rg_hello := None, rg_status := None, rg_capabilities := None\<rparr>))
      else (False, r))"

definition registry_Peer :: "string \<Rightarrow> registry \<Rightarrow> peer_ref option" where
  "registry_Peer role r =
     (if role = RoleAgent then rg_agent r else if role = RoleApp then rg_app r else None)"

definition RememberAgentState :: "message \<Rightarrow> registry \<Rightarrow> registry" where
  "RememberAgentState m r =
     (if m_type m = TypeAgentHello then r\<lparr>rg_hello := Some m\<rparr>
      else if m_type m = TypeAgentStatus then r\<lparr>rg_status := Some m\<rparr>
      else if m_type m = TypeAgentCapabilities then r\<lparr>rg_capabilities := Some m\<rparr>
      else r)"

definition RememberAppState :: "message \<Rightarrow> registry \<Rightarrow> registry" where
  "RememberAppState m r =
     (if m_type m \<noteq> TypeTurnAcknowledged then r
      else let (payload, ok) = PayloadAs turn_acknowledged_schema turn_acknowledged_zero m in
        if \<not> ok \<or> ta_turn_id payload = [] then r else r\<lparr>rg_turn_ack := payload\<rparr>)"

definition AgentState :: "registry \<Rightarrow> message list" where
  "AgentState r =
     (case rg_hello r of Some m \<Rightarrow> [m] | None \<Rightarrow> []) @
     (case rg_status r of Some m \<Rightarrow> [m] | None \<Rightarrow> []) @
     (case rg_capabilities r of Some m \<Rightarrow> [m] | None \<Rightarrow> [])"

record hub_snapshot =
  sn_app_connected :: bool
  sn_agent_connected :: bool
  sn_app_connection_id :: u64
  sn_last_turn_acknowledged :: string
  sn_last_turn_acknowledged_status :: string

definition registry_Snapshot :: "registry \<Rightarrow> hub_snapshot" where
  "registry_Snapshot r =
     \<lparr>sn_app_connected = rg_app r \<noteq> None, sn_agent_connected = rg_agent r \<noteq> None,
      sn_app_connection_id = (case rg_app r of Some p \<Rightarrow> pe_id p | None \<Rightarrow> 0),
      sn_last_turn_acknowledged = ta_turn_id (rg_turn_ack r),
      sn_last_turn_acknowledged_status = ta_status (rg_turn_ack r)\<rparr>"

text \<open>The peers to close, the app first, and the cleared registry.\<close>

definition registry_CloseAll :: "registry \<Rightarrow> peer_ref list \<times> registry" where
  "registry_CloseAll r =
     ((case rg_app r of Some p \<Rightarrow> [p] | None \<Rightarrow> []) @ (case rg_agent r of Some p \<Rightarrow> [p] | None \<Rightarrow> []),
      r\<lparr>rg_app := None, rg_agent := None, rg_hello := None, rg_status := None, rg_capabilities := None\<rparr>)"

subsection \<open>The invariant\<close>

text \<open>
  Slots hold peers of their role; remembered messages have their type; agent state is remembered
  only while an agent is connected.
\<close>

definition wf_registry :: "registry \<Rightarrow> bool" where
  "wf_registry r \<longleftrightarrow>
     (\<forall>p. rg_app r = Some p \<longrightarrow> pe_role p = RoleApp) \<and>
     (\<forall>p. rg_agent r = Some p \<longrightarrow> pe_role p = RoleAgent) \<and>
     (\<forall>m. rg_hello r = Some m \<longrightarrow> m_type m = TypeAgentHello) \<and>
     (\<forall>m. rg_status r = Some m \<longrightarrow> m_type m = TypeAgentStatus) \<and>
     (\<forall>m. rg_capabilities r = Some m \<longrightarrow> m_type m = TypeAgentCapabilities)"

lemma role_neq [simp]: "RoleApp \<noteq> RoleAgent" "RoleAgent \<noteq> RoleApp"
  by (simp_all add: role_defs)

lemma wf_NewRegistry: "wf_registry NewRegistry"
  by (simp add: wf_registry_def NewRegistry_def)

lemma wf_Replace: "wf_registry r \<Longrightarrow> wf_registry (snd (Replace peer r))"
  by (auto simp: Replace_def wf_registry_def)

lemma Remove_cases:
  "snd (Remove peer r) = r \<or> snd (Remove peer r) = r\<lparr>rg_app := None\<rparr> \<or>
   snd (Remove peer r) = r\<lparr>rg_agent := None, rg_hello := None, rg_status := None, rg_capabilities := None\<rparr>"
  unfolding Remove_def by (simp split: option.split)

lemma wf_Remove:
  assumes "wf_registry r"
  shows "wf_registry (snd (Remove peer r))"
  using Remove_cases [of peer r] assms by (elim disjE) (simp_all add: wf_registry_def)

lemma wf_RememberAgentState: "wf_registry r \<Longrightarrow> wf_registry (RememberAgentState m r)"
  unfolding RememberAgentState_def by (simp add: wf_registry_def)

lemma RememberAppState_cases: "RememberAppState m r = r \<or> (\<exists>p. RememberAppState m r = r\<lparr>rg_turn_ack := p\<rparr>)"
  by (cases "PayloadAs turn_acknowledged_schema turn_acknowledged_zero m") (auto simp: RememberAppState_def)

lemma wf_RememberAppState:
  assumes "wf_registry r"
  shows "wf_registry (RememberAppState m r)"
  using RememberAppState_cases [of m r] assms by (elim disjE exE) (simp_all add: wf_registry_def)

lemma wf_CloseAll: "wf_registry r \<Longrightarrow> wf_registry (snd (registry_CloseAll r))"
  by (auto simp: registry_CloseAll_def wf_registry_def)

lemmas wf_registry_ops = wf_NewRegistry wf_Replace wf_Remove wf_RememberAgentState
  wf_RememberAppState wf_CloseAll

lemma Remember_peers [simp]:
  "registry_Peer role (RememberAgentState m r) = registry_Peer role r"
  "registry_Peer role (RememberAppState m r) = registry_Peer role r"
proof -
  show "registry_Peer role (RememberAgentState m r) = registry_Peer role r"
    by (simp add: registry_Peer_def RememberAgentState_def)
  show "registry_Peer role (RememberAppState m r) = registry_Peer role r"
    using RememberAppState_cases [of m r] by (elim disjE exE) (simp_all add: registry_Peer_def)
qed

lemma registry_Peer_role:
  "wf_registry r \<Longrightarrow> registry_Peer role r = Some p \<Longrightarrow> pe_role p = role"
  by (auto simp: registry_Peer_def wf_registry_def split: if_splits)

lemma AgentState_types: "wf_registry r \<Longrightarrow> m \<in> set (AgentState r) \<Longrightarrow> m_type m \<in> set agent_types"
  by (auto simp: AgentState_def wf_registry_def agent_types_def split: option.splits)

subsection \<open>Slots as a map from roles\<close>

text \<open>
  What the router relies on: the registry is a map from roles to peers that \<open>Replace\<close> updates and
  returns the displaced peer of, and from which \<open>Remove\<close> deletes only the very connection it is
  given, so that a late disconnect never evicts its successor.
\<close>

locale role_slots =
  fixes slot :: "string \<Rightarrow> 'r \<Rightarrow> peer_ref option"
    and put :: "peer_ref \<Rightarrow> 'r \<Rightarrow> peer_ref option \<times> 'r"
    and drop_peer :: "peer_ref \<Rightarrow> 'r \<Rightarrow> bool \<times> 'r"
    and roles :: "string set"
  assumes slot_put: "pe_role p \<in> roles \<Longrightarrow> put p r = (old, r') \<Longrightarrow>
      old = slot (pe_role p) r \<and> slot role r' = (if role = pe_role p then Some p else slot role r)"
    and slot_drop: "pe_role p \<in> roles \<Longrightarrow> drop_peer p r = (ok, r') \<Longrightarrow>
      ok = (\<exists>q. slot (pe_role p) r = Some q \<and> pe_id q = pe_id p) \<and>
      slot role r' = (if ok \<and> role = pe_role p then None else slot role r)"
begin

text \<open>A connection that was replaced cannot remove its successor.\<close>

lemma late_drop:
  assumes "pe_role p \<in> roles" "pe_role q = pe_role p" "pe_id q \<noteq> pe_id p"
    "put q r = (old, r1)" "drop_peer p r1 = (ok, r2)"
  shows "\<not> ok \<and> slot (pe_role q) r2 = Some q"
  using assms slot_put [of q r old r1] slot_drop [of p r1 ok r2] by auto

lemma put_drop:
  assumes "pe_role p \<in> roles" "put p r = (old, r1)" "drop_peer p r1 = (ok, r2)"
  shows "ok \<and> slot (pe_role p) r2 = None"
  using assms slot_put [of p r old r1] slot_drop [of p r1 ok r2] by auto

end

interpretation hub: role_slots registry_Peer Replace Remove "{RoleApp, RoleAgent}"
  by unfold_locales
    (auto simp: Replace_def Remove_def registry_Peer_def split: if_splits option.splits)

text \<open>
  Property C26. A newer connection of a role takes the slot and the displaced one is handed back;
  when the displaced connection's own disconnect arrives later, it changes nothing.
\<close>

theorem late_disconnect_keeps_successor:
  assumes "pe_role p \<in> {RoleApp, RoleAgent}" "pe_role q = pe_role p" "pe_id q \<noteq> pe_id p"
    and "registry_Peer (pe_role p) r = Some p"
    and "Replace q r = (old, r1)" "Remove p r1 = (ok, r2)"
  shows "old = Some p \<and> \<not> ok \<and> registry_Peer (pe_role q) r2 = Some q"
proof -
  have "old = Some p" using hub.slot_put [of q r old r1] assms by auto
  moreover have "\<not> ok \<and> registry_Peer (pe_role q) r2 = Some q" using assms by (intro hub.late_drop) auto
  ultimately show ?thesis by blast
qed

theorem late_disconnect_keeps_successor_witness:
  "let p = \<lparr>pe_id = 1, pe_role = ''agent''\<rparr>; q = \<lparr>pe_id = 2, pe_role = ''agent''\<rparr>;
       r = snd (Replace p NewRegistry); (old, r1) = Replace q r; (ok, r2) = Remove p r1 in
   old = Some p \<and> \<not> ok \<and> registry_Peer ''agent'' r2 = Some q"
proof -
  let ?p = "\<lparr>pe_id = 1, pe_role = ''agent''\<rparr>" and ?q = "\<lparr>pe_id = 2, pe_role = ''agent''\<rparr>"
  let ?r = "snd (Replace ?p NewRegistry)"
  obtain old r1 where a: "Replace ?q ?r = (old, r1)" by (meson surj_pair)
  obtain ok r2 where b: "Remove ?p r1 = (ok, r2)" by (meson surj_pair)
  have "registry_Peer ''agent'' ?r = Some ?p"
    by (simp add: Replace_def NewRegistry_def registry_Peer_def role_defs)
  with late_disconnect_keeps_successor [OF _ _ _ _ a b] a b show ?thesis
    by (simp add: role_defs)
qed

end
