(* ===== verification/Peers.thy ===== *)
theory Peers
  imports Hub
begin

section \<open>WebSocket connections\<close>

text \<open>
  The peers of \<^verbatim>\<open>internal/websocket/handler.go\<close>. A connection has a bounded outbound queue, the reason
  it was closed for once its context is cancelled, and the messages its writer put on the
  wire. The process's connections, its connection counter, its random source and a tick counter
  form the \<open>world\<close>. The environment supplies what the program does not determine: at each tick the
  clock reading, and which case a \<open>select\<close> takes when two are ready (a queue with room on a
  cancelled connection).
\<close>

record conn =
  cn_role :: string
  cn_queue :: "message list"
  cn_cap :: nat
  cn_reason :: "string option"
  cn_written :: "message list"

text \<open>The context is cancelled by the first \<open>Close\<close> and by nothing else.\<close>

definition cn_done :: "conn \<Rightarrow> bool" where
  "cn_done c \<longleftrightarrow> cn_reason c \<noteq> None"

record world =
  wd_conns :: "u64 \<Rightarrow> conn option"
  wd_next :: u64
  wd_rnd :: entropy
  wd_tick :: nat

record env =
  ev_pick :: "nat \<Rightarrow> bool"
  ev_clock :: "nat \<Rightarrow> time"

datatype send_error = ErrSendQueueFull | ErrCanceled

definition upd_conn :: "u64 \<Rightarrow> conn \<Rightarrow> world \<Rightarrow> world" where
  "upd_conn i c w = w\<lparr>wd_conns := (wd_conns w)(i := Some c)\<rparr>"

definition tick :: "world \<Rightarrow> world" where
  "tick w = w\<lparr>wd_tick := wd_tick w + 1\<rparr>"

text \<open>The \<open>select\<close> of \<open>Send\<close>: enqueue, report the cancelled context, or report a full queue.\<close>

definition peer_Send :: "env \<Rightarrow> peer_ref \<Rightarrow> message \<Rightarrow> world \<Rightarrow> (send_error + unit) \<times> world" where
  "peer_Send ev p m w =
     (case wd_conns w (pe_id p) of
        None \<Rightarrow> (Inl ErrCanceled, tick w)
      | Some c \<Rightarrow>
          (let room = length (cn_queue c) < cn_cap c in
           if room \<and> (\<not> cn_done c \<or> ev_pick ev (wd_tick w)) then
             (Inr (), tick (upd_conn (pe_id p) (c\<lparr>cn_queue := cn_queue c @ [m]\<rparr>) w))
           else if cn_done c then (Inl ErrCanceled, tick w)
           else (Inl ErrSendQueueFull, tick w)))"

text \<open>\<open>closeOnce\<close>: only the first call counts.\<close>

definition peer_Close :: "peer_ref \<Rightarrow> string \<Rightarrow> world \<Rightarrow> world" where
  "peer_Close p reason w =
     (case wd_conns w (pe_id p) of
        None \<Rightarrow> w
      | Some c \<Rightarrow>
          if cn_reason c \<noteq> None then w
          else upd_conn (pe_id p) (c\<lparr>cn_reason := Some reason\<rparr>) w)"

text \<open>\<open>protocol.NewMessage\<close> on the process's clock and random source.\<close>

definition new_message :: "env \<Rightarrow> string \<Rightarrow> string \<Rightarrow> sender \<Rightarrow> json \<Rightarrow> world \<Rightarrow> (message \<times> protocol_error option) \<times> world" where
  "new_message ev messageType traceID sndr payload w =
     (let (r, e) = NewMessage (ev_clock ev (wd_tick w)) messageType traceID sndr payload (wd_rnd w) in
      (r, tick (w\<lparr>wd_rnd := e\<rparr>)))"

text \<open>Accepting a connection: the next id, an empty queue of the configured size.\<close>

definition accept_peer :: "nat \<Rightarrow> string \<Rightarrow> world \<Rightarrow> peer_ref \<times> world" where
  "accept_peer queueSize role w =
     (let i = wd_next w + 1 in
      (\<lparr>pe_id = i, pe_role = role\<rparr>,
       upd_conn i \<lparr>cn_role = role, cn_queue = [], cn_cap = queueSize,
                   cn_reason = None, cn_written = []\<rparr> (w\<lparr>wd_next := i\<rparr>)))"

text \<open>
  One iteration of \<open>writeLoop\<close>, by the case its \<open>select\<close> takes: a queued message (whose write may
  fail), a ping (that may fail), or the cancelled context. \<open>wire_size\<close> is the length of the
  marshalled message; a message whose timestamp JSON cannot express is dropped, as is one over the
  limit. The result says whether the loop goes on.
\<close>

datatype write_event = WMessage bool | WPing bool | WDone

definition write_step :: "(message \<Rightarrow> int) \<Rightarrow> int \<Rightarrow> write_event \<Rightarrow> peer_ref \<Rightarrow> world \<Rightarrow> bool \<times> world" where
  "write_step wire_size maxMessageBytes event p w =
     (case wd_conns w (pe_id p) of
        None \<Rightarrow> (False, w)
      | Some c \<Rightarrow>
          (case event of
             WMessage ok \<Rightarrow>
               (case cn_queue c of
                  [] \<Rightarrow> (True, w)
                | m # rest \<Rightarrow>
                    (let w1 = upd_conn (pe_id p) (c\<lparr>cn_queue := rest\<rparr>) w in
                     if \<not> writable_time (m_occurred_at m) \<or> maxMessageBytes < wire_size m then (True, w1)
                     else if ok then
                       (True, upd_conn (pe_id p) (c\<lparr>cn_queue := rest, cn_written := cn_written c @ [m]\<rparr>) w)
                     else (False, peer_Close p ''write failed'' w1)))
           | WPing ok \<Rightarrow> if ok then (True, w) else (False, peer_Close p ''ping failed'' w)
           | WDone \<Rightarrow> if cn_done c then (False, w) else (True, w)))"

subsection \<open>What the callers see\<close>

definition inbox :: "world \<Rightarrow> u64 \<Rightarrow> message list" where
  "inbox w i = (case wd_conns w i of Some c \<Rightarrow> cn_queue c | None \<Rightarrow> [])"

definition shut :: "world \<Rightarrow> u64 \<Rightarrow> bool" where
  "shut w i = (case wd_conns w i of Some c \<Rightarrow> cn_done c | None \<Rightarrow> True)"

text \<open>No queue exceeds its capacity.\<close>

definition wf_conn :: "conn \<Rightarrow> bool" where
  "wf_conn c \<longleftrightarrow> length (cn_queue c) \<le> cn_cap c"

definition wf_world :: "world \<Rightarrow> bool" where
  "wf_world w \<longleftrightarrow> (\<forall>i c. wd_conns w i = Some c \<longrightarrow> wf_conn c)"

lemma tick_simps [simp]:
  "wd_conns (tick w) = wd_conns w" "wd_next (tick w) = wd_next w" "wd_rnd (tick w) = wd_rnd w"
  by (simp_all add: tick_def)

lemma upd_conn_simps [simp]:
  "wd_conns (upd_conn i c w) = (wd_conns w)(i := Some c)" "wd_next (upd_conn i c w) = wd_next w"
  "wd_rnd (upd_conn i c w) = wd_rnd w"
  by (simp_all add: upd_conn_def)

lemma wf_upd_conn: "wf_world w \<Longrightarrow> wf_conn c \<Longrightarrow> wf_world (upd_conn i c w)"
  by (simp add: wf_world_def)

lemma wf_tick [simp]: "wf_world (tick w) = wf_world w"
  by (simp add: wf_world_def)

lemma wf_peer_Send: "wf_world w \<Longrightarrow> wf_world (snd (peer_Send ev p m w))"
  unfolding peer_Send_def Let_def
  by (auto split: option.split intro!: wf_upd_conn simp: wf_world_def wf_conn_def)

lemma wf_peer_Close: "wf_world w \<Longrightarrow> wf_world (peer_Close p reason w)"
  unfolding peer_Close_def by (auto split: option.split intro!: wf_upd_conn simp: wf_world_def wf_conn_def)

lemma new_message_conns [simp]: "wd_conns (snd (new_message ev ty trace s j w)) = wd_conns w"
  by (simp add: new_message_def split_beta)

lemma wf_new_message [simp]: "wf_world (snd (new_message ev ty trace s j w)) = wf_world w"
  by (simp add: wf_world_def)

lemma wf_accept_peer: "wf_world w \<Longrightarrow> wf_world (snd (accept_peer n role w))"
  by (auto simp: accept_peer_def Let_def wf_world_def wf_conn_def)

lemma wf_worldD: "wf_world w \<Longrightarrow> wd_conns w i = Some c \<Longrightarrow> wf_conn c"
  by (simp add: wf_world_def)

lemma wf_conn_pop:
  "wf_conn c \<Longrightarrow> cn_queue c = m # rest \<Longrightarrow> wf_conn (c\<lparr>cn_queue := rest\<rparr>)"
  "wf_conn c \<Longrightarrow> cn_queue c = m # rest \<Longrightarrow> wf_conn (c\<lparr>cn_queue := rest, cn_written := ms\<rparr>)"
  by (simp_all add: wf_conn_def)

lemma wf_write_step: "wf_world w \<Longrightarrow> wf_world (snd (write_step sz maxb event p w))"
  unfolding write_step_def Let_def
  by (auto split: option.split write_event.split list.split
      intro!: wf_upd_conn wf_peer_Close wf_conn_pop dest: wf_worldD)

lemmas wf_world_ops = wf_peer_Send wf_peer_Close wf_accept_peer wf_write_step

subsection \<open>The peer interface\<close>

text \<open>
  \<open>hub.Peer\<close> as the router and the gateways use it: a successful \<open>Send\<close> appends to exactly one
  inbox, a failed one changes none, \<open>Close\<close> shuts exactly one connection and loses nothing queued.
\<close>

locale peer_transport =
  fixes send :: "peer_ref \<Rightarrow> message \<Rightarrow> 'w \<Rightarrow> (send_error + unit) \<times> 'w"
    and close :: "peer_ref \<Rightarrow> string \<Rightarrow> 'w \<Rightarrow> 'w"
    and box :: "'w \<Rightarrow> u64 \<Rightarrow> message list"
    and closed :: "'w \<Rightarrow> u64 \<Rightarrow> bool"
  assumes send_ok: "send p m w = (Inr (), w') \<Longrightarrow> box w' = (box w)(pe_id p := box w (pe_id p) @ [m])"
    and send_err: "send p m w = (Inl e, w') \<Longrightarrow> box w' = box w"
    and send_closed: "send p m w = (r, w') \<Longrightarrow> closed w' = closed w"
    and close_box: "box (close p reason w) = box w"
    and close_closed: "closed (close p reason w) = (closed w)(pe_id p := True)"
begin

text \<open>Send, and close the peer when that fails: the relay's way to drop a slow connection.\<close>

lemma send_or_close:
  assumes "send p m w = (r, w1)"
    and "w' = (case r of Inl _ \<Rightarrow> close p reason w1 | Inr _ \<Rightarrow> w1)"
  shows "r = Inr () \<and> box w' = (box w)(pe_id p := box w (pe_id p) @ [m]) \<and> closed w' = closed w \<or>
    (\<exists>e. r = Inl e) \<and> box w' = box w \<and> closed w' = (closed w)(pe_id p := True)"
  using assms send_ok send_err send_closed close_box close_closed by (cases r) auto

text \<open>Whatever happens to one peer, the others notice nothing.\<close>

lemma send_or_close_other:
  assumes "send p m w = (r, w1)" "w' = (case r of Inl _ \<Rightarrow> close p reason w1 | Inr _ \<Rightarrow> w1)" "i \<noteq> pe_id p"
  shows "box w' i = box w i" "closed w' i = closed w i"
  using send_or_close [OF assms(1,2)] assms(3) by auto

end

lemma peer_Send_cases:
  assumes "peer_Send ev p m w = (r, w')"
  obtains (queued) c where "r = Inr ()" "wd_conns w (pe_id p) = Some c" "length (cn_queue c) < cn_cap c"
      "w' = tick (upd_conn (pe_id p) (c\<lparr>cn_queue := cn_queue c @ [m]\<rparr>) w)"
    | (refused) e where "r = Inl e" "w' = tick w"
  using assms unfolding peer_Send_def Let_def by (auto split: option.splits if_splits)

lemma peer_Close_cases:
  obtains (unchanged) "peer_Close p reason w = w" "shut w (pe_id p)"
    | (closed) c where "wd_conns w (pe_id p) = Some c"
      "peer_Close p reason w = upd_conn (pe_id p) (c\<lparr>cn_reason := Some reason\<rparr>) w"
proof (cases "wd_conns w (pe_id p)")
  case (Some c)
  then show ?thesis
    using that by (cases "cn_reason c = None") (auto simp: peer_Close_def shut_def cn_done_def)
qed (use that in \<open>auto simp: peer_Close_def shut_def\<close>)

lemma inbox_upd [simp]: "inbox (upd_conn i c w) = (inbox w)(i := cn_queue c)"
  by (auto simp: inbox_def fun_eq_iff)

lemma inbox_tick [simp]: "inbox (tick w) = inbox w" "shut (tick w) = shut w"
  by (auto simp: inbox_def shut_def fun_eq_iff)

lemma shut_upd [simp]: "shut (upd_conn i c w) = (shut w)(i := cn_done c)"
  by (auto simp: shut_def fun_eq_iff)

interpretation ws: peer_transport "peer_Send ev" peer_Close inbox shut for ev
proof (unfold_locales, goal_cases)
  case (1 p m w w')
  then show ?case by (cases rule: peer_Send_cases) (auto simp: inbox_def fun_eq_iff)
next
  case (2 p m w e w')
  then show ?case by (cases rule: peer_Send_cases) auto
next
  case (3 p m w r w')
  then show ?case by (cases rule: peer_Send_cases) (auto simp: shut_def cn_done_def fun_eq_iff)
next
  case (4 p reason w)
  show ?case by (rule peer_Close_cases [of p reason w]) (auto simp: inbox_def fun_eq_iff)
next
  case (5 p reason w)
  show ?case by (rule peer_Close_cases [of p reason w]) (auto simp: shut_def cn_done_def fun_eq_iff)
qed

end
