(* ===== verification/Router.thy ===== *)
theory Router
  imports Peers
begin

section \<open>The router\<close>

text \<open>
  \<^verbatim>\<open>internal/router/router.go\<close> and the connection life cycle of \<^verbatim>\<open>internal/websocket/handler.go\<close>. The
  router pairs the app and the agent connection: it replaces older connections, tells an app that
  the agent is offline or replays the agent's last state to it, checks each message against the
  role table, stamps the canonical sender and forwards. An observer (the Runtime coordinator) sees
  the agent's connections and messages first and may consume a message; it runs on its own state
  \<open>'r\<close> and on the world. \<open>relay_step\<close> is the transition system of all connections.
\<close>

record 'r observer =
  ob_connected :: "peer_ref \<Rightarrow> world \<times> 'r \<Rightarrow> world \<times> 'r"
  ob_disconnected :: "peer_ref \<Rightarrow> world \<times> 'r \<Rightarrow> world \<times> 'r"
  ob_message :: "peer_ref \<Rightarrow> message \<Rightarrow> world \<times> 'r \<Rightarrow> bool \<times> world \<times> 'r"
  ob_forwarded :: "(peer_ref \<Rightarrow> message \<Rightarrow> world \<times> 'r \<Rightarrow> world \<times> 'r) option"

record 'r relay =
  rl_reg :: registry
  rl_world :: world
  rl_rt :: 'r

definition relay_sender :: sender where
  "relay_sender = \<lparr>se_kind = ''relay'', se_id = ''local-relay''\<rparr>"

definition router_Reject :: "env \<Rightarrow> peer_ref \<Rightarrow> string \<Rightarrow> string \<Rightarrow> string \<Rightarrow> world \<Rightarrow> world" where
  "router_Reject ev peer traceID code text w =
     (let ((rejection, err), w1) = new_message ev TypeTurnRejected traceID relay_sender
            (turn_rejected_json \<lparr>rj_code = code, rj_message = text, rj_required_capabilities = [],
               rj_recovery_action = []\<rparr>) w in
      if err \<noteq> None then w1
      else case peer_Send ev peer rejection w1 of
        (Inl _, w2) \<Rightarrow> peer_Close peer ''send queue full'' w2
      | (Inr _, w2) \<Rightarrow> w2)"

definition sendAgentOffline :: "env \<Rightarrow> peer_ref \<Rightarrow> string \<Rightarrow> world \<Rightarrow> world" where
  "sendAgentOffline ev peer traceID w =
     (let ((notice, err), w1) = new_message ev TypeAgentStatus traceID relay_sender
            (agent_status_json \<lparr>as_status = ''offline'', as_project_id = [], as_thread_id = [], as_turn_id = []\<rparr>) w in
      if err \<noteq> None then w1
      else case peer_Send ev peer notice w1 of
        (Inl _, w2) \<Rightarrow> peer_Close peer ''send queue full'' w2
      | (Inr _, w2) \<Rightarrow> w2)"

text \<open>The replay loop of \<open>Connect\<close>: stops and closes at the first message that does not fit.\<close>

fun replay :: "env \<Rightarrow> peer_ref \<Rightarrow> message list \<Rightarrow> world \<Rightarrow> world" where
  "replay ev peer [] w = w"
| "replay ev peer (m # ms) w =
     (case peer_Send ev peer m w of
        (Inl _, w1) \<Rightarrow> peer_Close peer ''send queue full'' w1
      | (Inr _, w1) \<Rightarrow> replay ev peer ms w1)"

definition Connect :: "env \<Rightarrow> 'r observer option \<Rightarrow> peer_ref \<Rightarrow> 'r relay \<Rightarrow> 'r relay" where
  "Connect ev obs peer s =
     (let (old, reg) = Replace peer (rl_reg s);
          w1 = (case old of Some q \<Rightarrow> peer_Close q ''replaced by a newer connection'' (rl_world s)
                | None \<Rightarrow> rl_world s);
          (w2, rt) = (case obs of
              Some ob \<Rightarrow> if pe_role peer = RoleAgent then ob_connected ob peer (w1, rl_rt s) else (w1, rl_rt s)
            | None \<Rightarrow> (w1, rl_rt s));
          w3 = (if pe_role peer \<noteq> RoleApp then w2
                else if registry_Peer RoleAgent reg = None then sendAgentOffline ev peer ''agent'' w2
                else replay ev peer (AgentState reg) w2) in
      \<lparr>rl_reg = reg, rl_world = w3, rl_rt = rt\<rparr>)"

definition Disconnect :: "env \<Rightarrow> 'r observer option \<Rightarrow> peer_ref \<Rightarrow> 'r relay \<Rightarrow> 'r relay" where
  "Disconnect ev obs peer s =
     (let (removed, reg) = Remove peer (rl_reg s) in
      if \<not> removed then s
      else if pe_role peer = RoleAgent then
        (let (w1, rt) = (case obs of
               Some ob \<Rightarrow> ob_disconnected ob peer (rl_world s, rl_rt s) | None \<Rightarrow> (rl_world s, rl_rt s));
             w2 = (case registry_Peer RoleApp reg of
               Some app \<Rightarrow> sendAgentOffline ev app ''agent'' w1 | None \<Rightarrow> w1) in
         \<lparr>rl_reg = reg, rl_world = w2, rl_rt = rt\<rparr>)
      else s\<lparr>rl_reg := reg\<rparr>)"

text \<open>The part of \<open>Handle\<close> after the observer let the message pass.\<close>

definition forward :: "env \<Rightarrow> 'r observer option \<Rightarrow> peer_ref \<Rightarrow> message \<Rightarrow> 'r relay \<Rightarrow> 'r relay" where
  "forward ev obs peer m s =
     (let fromAgent = (pe_role peer = RoleAgent);
          reg = (if fromAgent then RememberAgentState m (rl_reg s) else RememberAppState m (rl_reg s));
          targetRole = (if fromAgent then RoleApp else RoleAgent);
          s1 = s\<lparr>rl_reg := reg\<rparr> in
      case registry_Peer targetRole reg of
        None \<Rightarrow>
          if pe_role peer = RoleApp \<and> m_type m \<noteq> TypeTurnAcknowledged then
            s1\<lparr>rl_world := router_Reject ev peer (m_trace_id m) ''AGENT_OFFLINE'' ''Mac Agent is not connected'' (rl_world s1)\<rparr>
          else s1
      | Some target \<Rightarrow>
          (case peer_Send ev target m (rl_world s1) of
             (Inl _, w1) \<Rightarrow>
               (let w2 = peer_Close target ''send queue full'' w1 in
                s1\<lparr>rl_world :=
                  (if pe_role peer = RoleApp then
                     router_Reject ev peer (m_trace_id m) ''INTERNAL_ERROR'' ''Mac Agent connection is unavailable'' w2
                   else w2)\<rparr>)
           | (Inr _, w1) \<Rightarrow>
               (case obs of
                  Some ob \<Rightarrow>
                    (case ob_forwarded ob of
                       Some fwd \<Rightarrow>
                         if fromAgent then
                           (let (w2, rt) = fwd peer m (w1, rl_rt s1) in s1\<lparr>rl_world := w2, rl_rt := rt\<rparr>)
                         else s1\<lparr>rl_world := w1\<rparr>
                     | None \<Rightarrow> s1\<lparr>rl_world := w1\<rparr>)
                | None \<Rightarrow> s1\<lparr>rl_world := w1\<rparr>)))"

definition Handle :: "env \<Rightarrow> 'r observer option \<Rightarrow> peer_ref \<Rightarrow> message \<Rightarrow> 'r relay \<Rightarrow> 'r relay" where
  "Handle ev obs peer m0 s =
     (if \<not> AllowedFrom (pe_role peer) (m_type m0) then
        s\<lparr>rl_world := router_Reject ev peer (m_trace_id m0) ''MESSAGE_INVALID''
             ''message type is not allowed from this connection'' (rl_world s)\<rparr>
      else
        (let m = m0\<lparr>m_sender := CanonicalSender (pe_role peer)\<rparr>;
             (consumed, s1) = (case obs of
                Some ob \<Rightarrow>
                  if pe_role peer = RoleAgent then
                    (let (b, w1, rt) = ob_message ob peer m (rl_world s, rl_rt s) in
                     (b, s\<lparr>rl_world := w1, rl_rt := rt\<rparr>))
                  else (False, s)
              | None \<Rightarrow> (False, s)) in
         if consumed then s1 else forward ev obs peer m s1))"

subsection \<open>The life of a connection\<close>

text \<open>A frame the connection's read loop gets: binary, or text that is JSON or not.\<close>

datatype frame = Binary | Text "json option"

definition ServeRole_open :: "env \<Rightarrow> 'r observer option \<Rightarrow> nat \<Rightarrow> string \<Rightarrow> 'r relay \<Rightarrow> peer_ref \<times> 'r relay" where
  "ServeRole_open ev obs queueSize role s =
     (let (peer, w) = accept_peer queueSize role (rl_world s) in
      (peer, Connect ev obs peer (s\<lparr>rl_world := w\<rparr>)))"

text \<open>\<open>describe\<close> is the text of a decoding error.\<close>

definition ServeRole_frame :: "env \<Rightarrow> 'r observer option \<Rightarrow> (protocol_error \<Rightarrow> string) \<Rightarrow> peer_ref \<Rightarrow> frame \<Rightarrow>
    'r relay \<Rightarrow> 'r relay" where
  "ServeRole_frame ev obs describe peer fr s =
     (case fr of
        Binary \<Rightarrow> s\<lparr>rl_world := router_Reject ev peer ''message'' ''MESSAGE_INVALID''
                     ''only WebSocket text messages are supported'' (rl_world s)\<rparr>
      | Text data \<Rightarrow>
          (case Decode data of
             Inl err \<Rightarrow> s\<lparr>rl_world := router_Reject ev peer ''message'' ''MESSAGE_INVALID'' (describe err) (rl_world s)\<rparr>
           | Inr m \<Rightarrow> Handle ev obs peer m s))"

definition ServeRole_end :: "env \<Rightarrow> 'r observer option \<Rightarrow> peer_ref \<Rightarrow> 'r relay \<Rightarrow> 'r relay" where
  "ServeRole_end ev obs peer s =
     Disconnect ev obs peer (s\<lparr>rl_world := peer_Close peer ''connection ended'' (rl_world s)\<rparr>)"

definition close_all :: "string \<Rightarrow> 'r relay \<Rightarrow> 'r relay" where
  "close_all reason s =
     (let (peers, reg) = registry_CloseAll (rl_reg s) in
      s\<lparr>rl_reg := reg, rl_world := fold (\<lambda>p. peer_Close p reason) peers (rl_world s)\<rparr>)"

subsection \<open>Provenance of queued messages\<close>

text \<open>
  A message in the queue of an app connection is the relay's own, or an agent message under the
  agent's canonical sender; and the other way round for the agent.
\<close>

definition legit :: "string \<Rightarrow> message \<Rightarrow> bool" where
  "legit role m \<longleftrightarrow> se_kind (m_sender m) = ''relay'' \<or>
     (role = RoleApp \<and> m_type m \<in> set agent_types \<and> m_sender m = CanonicalSender RoleAgent) \<or>
     (role = RoleAgent \<and> m_type m \<in> set app_types \<and> m_sender m = CanonicalSender RoleApp)"

definition outgoing :: "conn \<Rightarrow> message set" where
  "outgoing c = set (cn_queue c) \<union> set (cn_written c)"

definition legit_world :: "world \<Rightarrow> bool" where
  "legit_world w \<longleftrightarrow> (\<forall>i c. wd_conns w i = Some c \<longrightarrow> (\<forall>m \<in> outgoing c. legit (cn_role c) m))"

definition peer_ok :: "world \<Rightarrow> peer_ref \<Rightarrow> bool" where
  "peer_ok w p \<longleftrightarrow> (\<exists>c. wd_conns w (pe_id p) = Some c \<and> cn_role c = pe_role p)"

text \<open>A change of the world that keeps connections, roles and capacities and adds only legitimate messages.\<close>

definition good_conn :: "conn \<Rightarrow> conn \<Rightarrow> bool" where
  "good_conn c c' \<longleftrightarrow> cn_role c' = cn_role c \<and> cn_cap c' = cn_cap c \<and> (wf_conn c \<longrightarrow> wf_conn c') \<and>
     (cn_done c \<longrightarrow> cn_done c') \<and> (\<forall>m \<in> outgoing c'. m \<in> outgoing c \<or> legit (cn_role c) m)"

definition good :: "world \<Rightarrow> world \<Rightarrow> bool" where
  "good w w' \<longleftrightarrow> wd_next w' = wd_next w \<and> (\<forall>i. rel_option good_conn (wd_conns w i) (wd_conns w' i))"

lemma good_conn_refl [simp]: "good_conn c c"
  by (simp add: good_conn_def)

lemma good_conn_trans: "good_conn a b \<Longrightarrow> good_conn b c \<Longrightarrow> good_conn a c"
  by (auto simp: good_conn_def)

lemma good_refl [simp]: "good w w"
  by (simp add: good_def option.rel_refl)

lemma good_trans:
  assumes "good a b" "good b c"
  shows "good a c"
proof -
  have "rel_option good_conn (wd_conns a i) (wd_conns c i)" for i
    using assms good_conn_trans by (auto simp: good_def option_rel_Some1 option_rel_Some2 dest!: spec [of _ i] elim!: option.rel_cases)
  then show ?thesis using assms by (simp add: good_def)
qed

lemma good_tick [simp]: "good w (tick w') = good w w'"
  by (simp add: good_def)

lemma good_conns: "wd_conns w' = wd_conns w \<Longrightarrow> wd_next w' = wd_next w \<Longrightarrow> good w w'"
  by (simp add: good_def option.rel_refl)

lemma good_upd: "wd_conns w i = Some c \<Longrightarrow> good_conn c c' \<Longrightarrow> good w (upd_conn i c' w)"
  by (simp add: good_def option.rel_refl)

lemma peer_ok_good: "good w w' \<Longrightarrow> peer_ok w p \<Longrightarrow> peer_ok w' p"
  by (fastforce simp: good_def peer_ok_def good_conn_def option_rel_Some1 dest!: spec [of _ "pe_id p"])

lemma legit_world_good:
  assumes "good w w'" "legit_world w"
  shows "legit_world w'"
  unfolding legit_world_def
proof (intro allI impI ballI)
  fix i c' m assume "wd_conns w' i = Some c'" and m: "m \<in> outgoing c'"
  then obtain c where "wd_conns w i = Some c" "good_conn c c'"
    using assms(1) by (auto simp: good_def option_rel_Some2 dest!: spec [of _ i])
  with m assms(2) show "legit (cn_role c') m" by (auto simp: good_conn_def legit_world_def)
qed

lemma wf_world_good:
  assumes "good w w'" "wf_world w"
  shows "wf_world w'"
  unfolding wf_world_def
proof (intro allI impI)
  fix i c' assume "wd_conns w' i = Some c'"
  then obtain c where "wd_conns w i = Some c" "good_conn c c'"
    using assms(1) by (auto simp: good_def option_rel_Some2 dest!: spec [of _ i])
  with assms(2) show "wf_conn c'" by (auto simp: good_conn_def wf_world_def)
qed

lemma good_peer_Send:
  assumes "peer_ok w p" "legit (pe_role p) m"
  shows "good w (snd (peer_Send ev p m w))"
proof (cases "peer_Send ev p m w")
  case (Pair r w')
  then show ?thesis
  proof (cases rule: peer_Send_cases)
    case (queued c)
    then have "good_conn c (c\<lparr>cn_queue := cn_queue c @ [m]\<rparr>)"
      using assms by (auto simp: good_conn_def peer_ok_def outgoing_def wf_conn_def cn_done_def)
    with queued Pair show ?thesis by (simp add: good_upd)
  qed (use Pair in simp)
qed

lemma good_peer_Close: "good w (peer_Close p reason w)"
  by (rule peer_Close_cases [of p reason w])
    (auto intro!: good_upd simp: good_conn_def outgoing_def wf_conn_def cn_done_def)

lemma good_new_message: "good w (snd (new_message ev ty trace s j w))"
  by (rule good_conns) (simp_all add: new_message_def split_beta)

lemma good_write_step: "good w (snd (write_step sz maxb event p w))"
proof (cases "wd_conns w (pe_id p)")
  case (Some c)
  have pop: "good w (upd_conn (pe_id p) (c\<lparr>cn_queue := rest\<rparr>) w)"
    "good w (upd_conn (pe_id p) (c\<lparr>cn_queue := rest, cn_written := cn_written c @ [m]\<rparr>) w)"
    if "cn_queue c = m # rest" for m rest
    using that Some by (auto intro!: good_upd simp: good_conn_def outgoing_def wf_conn_def cn_done_def)
  show ?thesis
    using Some pop good_peer_Close good_trans
    by (auto simp: write_step_def Let_def split: write_event.split list.split)
qed (simp add: write_step_def)

lemma new_message_fields:
  assumes "new_message ev ty trace s j w = ((m, err), w')"
  shows "m_type m = ty" "m_sender m = s" "m_payload m = Some j" "trace \<noteq> [] \<Longrightarrow> m_trace_id m = trace"
    "err = Validate m"
proof -
  obtain e where "NewMessage (ev_clock ev (wd_tick w)) ty trace s j (wd_rnd w) = ((m, err), e)"
    using assms by (auto simp: new_message_def Let_def split: prod.splits)
  from NewMessage_fields [OF this]
  show "m_type m = ty" "m_sender m = s" "m_payload m = Some j" "trace \<noteq> [] \<Longrightarrow> m_trace_id m = trace"
    "err = Validate m" by simp_all
qed

lemma new_message_legit:
  assumes "new_message ev ty trace s j w = ((m, err), w')" "se_kind s = ''relay''"
  shows "legit role m"
  using new_message_fields(2) [OF assms(1)] assms(2) by (simp add: legit_def)

text \<open>Send a message of the relay's own, closing the peer when that fails.\<close>

lemma good_send_or_close:
  assumes "peer_ok w p" "legit (pe_role p) m"
  shows "good w (case peer_Send ev p m w of (Inl _, w2) \<Rightarrow> peer_Close p reason w2 | (Inr _, w2) \<Rightarrow> w2)"
  using good_peer_Send [OF assms, of ev] good_trans good_peer_Close
  by (auto split: prod.splits sum.splits)

lemma good_own_message:
  assumes "peer_ok w p" "se_kind s = ''relay''"
  shows "good w (let ((m, err), w1) = new_message ev ty trace s j w in
      if err \<noteq> None then w1
      else case peer_Send ev p m w1 of (Inl _, w2) \<Rightarrow> peer_Close p reason w2 | (Inr _, w2) \<Rightarrow> w2)"
proof -
  obtain m err w1 where n: "new_message ev ty trace s j w = ((m, err), w1)" by (metis surj_pair)
  then have "good w w1" using good_new_message [of w ev ty trace s j] by simp
  then show ?thesis
    using n good_send_or_close [OF peer_ok_good [OF \<open>good w w1\<close> assms(1)] new_message_legit [OF n assms(2)]]
      good_trans by (auto simp: Let_def)
qed

lemma good_Reject: "peer_ok w p \<Longrightarrow> good w (router_Reject ev p trace code text w)"
  unfolding router_Reject_def by (rule good_own_message) (simp_all add: relay_sender_def)

lemma good_sendAgentOffline: "peer_ok w p \<Longrightarrow> good w (sendAgentOffline ev p trace w)"
  unfolding sendAgentOffline_def by (rule good_own_message) (simp_all add: relay_sender_def)

lemma good_replay:
  "peer_ok w p \<Longrightarrow> \<forall>m \<in> set ms. legit (pe_role p) m \<Longrightarrow> good w (replay ev p ms w)"
proof (induction ms arbitrary: w)
  case (Cons m ms)
  obtain r w1 where s: "peer_Send ev p m w = (r, w1)" by fastforce
  then have "good w w1" using good_peer_Send [OF Cons.prems(1)] Cons.prems(2) by (metis list.set_intros(1) snd_conv)
  then show ?case
    using s Cons.IH [OF peer_ok_good [OF \<open>good w w1\<close> Cons.prems(1)]] Cons.prems(2) good_trans good_peer_Close
    by (auto split: sum.split)
qed simp

subsection \<open>The relay as a transition system\<close>

definition relay_inv :: "'r relay \<Rightarrow> bool" where
  "relay_inv s \<longleftrightarrow> wf_world (rl_world s) \<and> legit_world (rl_world s) \<and> wf_registry (rl_reg s) \<and>
     (\<forall>role p. registry_Peer role (rl_reg s) = Some p \<longrightarrow> peer_ok (rl_world s) p) \<and>
     (\<forall>m \<in> set (AgentState (rl_reg s)). legit RoleApp m)"

text \<open>
  The steps of the connections, of their writers, of shutdown, and the observer's own background
  steps \<open>bg\<close>. Connections are numbered by a 64-bit counter; \<open>opened\<close> covers the run up to the point
  where the counter would return to the id of a connection it has numbered before.
\<close>

inductive relay_step ::
    "env \<Rightarrow> 'r observer option \<Rightarrow> (registry \<Rightarrow> world \<times> 'r \<Rightarrow> world \<times> 'r \<Rightarrow> bool) \<Rightarrow> nat \<Rightarrow>
     'r relay \<Rightarrow> 'r relay \<Rightarrow> bool"
  for ev :: env and obs :: "'r observer option"
    and bg :: "registry \<Rightarrow> world \<times> 'r \<Rightarrow> world \<times> 'r \<Rightarrow> bool" and queueSize :: nat where
  opened: "role \<in> {RoleApp, RoleAgent} \<Longrightarrow> wd_conns (rl_world s) (wd_next (rl_world s) + 1) = None \<Longrightarrow>
    relay_step ev obs bg queueSize s (snd (ServeRole_open ev obs queueSize role s))"
| framed: "peer_ok (rl_world s) p \<Longrightarrow>
    relay_step ev obs bg queueSize s (ServeRole_frame ev obs describe p fr s)"
| ended: "peer_ok (rl_world s) p \<Longrightarrow> relay_step ev obs bg queueSize s (ServeRole_end ev obs p s)"
| written: "relay_step ev obs bg queueSize s
    (s\<lparr>rl_world := snd (write_step sz maxb event p (rl_world s))\<rparr>)"
| closing: "relay_step ev obs bg queueSize s (close_all reason s)"
| background: "bg (rl_reg s) (rl_world s, rl_rt s) (w, rt) \<Longrightarrow>
    relay_step ev obs bg queueSize s (s\<lparr>rl_world := w, rl_rt := rt\<rparr>)"

inductive relay_steps ::
    "env \<Rightarrow> 'r observer option \<Rightarrow> (registry \<Rightarrow> world \<times> 'r \<Rightarrow> world \<times> 'r \<Rightarrow> bool) \<Rightarrow> nat \<Rightarrow>
     'r relay \<Rightarrow> 'r relay \<Rightarrow> bool"
  for ev :: env and obs :: "'r observer option"
    and bg :: "registry \<Rightarrow> world \<times> 'r \<Rightarrow> world \<times> 'r \<Rightarrow> bool" and queueSize :: nat where
  none: "relay_steps ev obs bg queueSize s s"
| more: "relay_steps ev obs bg queueSize s s' \<Longrightarrow> relay_step ev obs bg queueSize s' s'' \<Longrightarrow>
    relay_steps ev obs bg queueSize s s''"

lemma relay_inv_step:
  assumes "relay_inv s" "good (rl_world s) (rl_world s')" "wf_registry (rl_reg s')"
    "\<And>role p. registry_Peer role (rl_reg s') = Some p \<Longrightarrow>
       registry_Peer role (rl_reg s) = Some p \<or> peer_ok (rl_world s) p"
    "\<And>m. m \<in> set (AgentState (rl_reg s')) \<Longrightarrow> m \<in> set (AgentState (rl_reg s)) \<or> legit RoleApp m"
  shows "relay_inv s'"
  using assms wf_world_good [OF assms(2)] legit_world_good [OF assms(2)] peer_ok_good [OF assms(2)]
  unfolding relay_inv_def by blast

lemma relay_inv_good:
  assumes "relay_inv s" "good (rl_world s) (rl_world s')" "rl_reg s' = rl_reg s"
  shows "relay_inv s'"
  by (rule relay_inv_step [OF assms(1,2)]) (use assms in \<open>auto simp: relay_inv_def\<close>)

lemma AgentState_subset:
  "set (AgentState (snd (Replace p r))) \<subseteq> set (AgentState r)"
  "set (AgentState (snd (Remove p r))) \<subseteq> set (AgentState r)"
  "set (AgentState (RememberAppState m r)) = set (AgentState r)"
  "set (AgentState (RememberAgentState m r)) \<subseteq> insert m (set (AgentState r))"
  "AgentState (snd (registry_CloseAll r)) = []"
proof -
  show "set (AgentState (snd (Replace p r))) \<subseteq> set (AgentState r)"
    by (auto simp: AgentState_def Replace_def)
  show "set (AgentState (snd (Remove p r))) \<subseteq> set (AgentState r)"
    using Remove_cases [of p r] by (elim disjE) (simp_all add: AgentState_def)
  show "set (AgentState (RememberAppState m r)) = set (AgentState r)"
    using RememberAppState_cases [of m r] by (elim disjE exE) (simp_all add: AgentState_def)
  show "set (AgentState (RememberAgentState m r)) \<subseteq> insert m (set (AgentState r))"
    by (auto simp: AgentState_def RememberAgentState_def split: option.split)
  show "AgentState (snd (registry_CloseAll r)) = []"
    by (simp add: AgentState_def registry_CloseAll_def)
qed

lemma Remove_Peer: "registry_Peer role (snd (Remove p r)) = Some q \<Longrightarrow> registry_Peer role r = Some q"
  using Remove_cases [of p r] by (elim disjE) (simp_all add: registry_Peer_def split: if_splits)

lemma Replace_Peer:
  "registry_Peer role (snd (Replace p r)) = Some q \<Longrightarrow> q = p \<or> registry_Peer role r = Some q"
  by (auto simp: registry_Peer_def Replace_def split: if_splits)

lemma accept_inv:
  assumes "relay_inv s" "wd_conns (rl_world s) (wd_next (rl_world s) + 1) = None"
    "accept_peer n role (rl_world s) = (p, w)"
  shows "relay_inv (s\<lparr>rl_world := w\<rparr>)" "peer_ok w p"
proof -
  let ?i = "wd_next (rl_world s) + 1"
  define c where "c = \<lparr>cn_role = role, cn_queue = [], cn_cap = n, cn_reason = None, cn_written = []\<rparr>"
  have w: "wd_conns w = (wd_conns (rl_world s))(?i := Some c)" "p = \<lparr>pe_id = ?i, pe_role = role\<rparr>"
    using assms(3) by (auto simp: accept_peer_def Let_def c_def)
  then show "peer_ok w p" by (simp add: peer_ok_def c_def)
  have "wf_world w" "legit_world w"
    using assms(1) w(1) by (auto simp: relay_inv_def wf_world_def legit_world_def c_def wf_conn_def outgoing_def)
  moreover have "peer_ok w q" if "peer_ok (rl_world s) q" for q
    using that w(1) assms(2) by (auto simp: peer_ok_def)
  ultimately show "relay_inv (s\<lparr>rl_world := w\<rparr>)" using assms(1) by (simp add: relay_inv_def)
qed

lemma reject_inv:
  "relay_inv s \<Longrightarrow> peer_ok (rl_world s) p \<Longrightarrow>
   relay_inv (s\<lparr>rl_world := router_Reject ev p trace code text (rl_world s)\<rparr>)"
  by (rule relay_inv_good) (simp_all add: good_Reject)

lemma good_close_fold: "good w (fold (\<lambda>p. peer_Close p reason) ps w)"
  by (induction ps arbitrary: w) (auto intro: good_trans good_peer_Close)

text \<open>
  What the router asks of an observer: it keeps to the world's rules (it sends only messages of the
  relay's own, and to the agent it is told about).
\<close>

locale agent_observer =
  fixes obs :: "'r observer option"
    and bg :: "registry \<Rightarrow> world \<times> 'r \<Rightarrow> world \<times> 'r \<Rightarrow> bool"
  assumes connected_good: "obs = Some ob \<Longrightarrow> peer_ok w p \<Longrightarrow> good w (fst (ob_connected ob p (w, r)))"
    and disconnected_good: "obs = Some ob \<Longrightarrow> good w (fst (ob_disconnected ob p (w, r)))"
    and message_good: "obs = Some ob \<Longrightarrow> peer_ok w p \<Longrightarrow> good w (fst (snd (ob_message ob p m (w, r))))"
    and forwarded_good: "obs = Some ob \<Longrightarrow> ob_forwarded ob = Some fwd \<Longrightarrow> peer_ok w p \<Longrightarrow>
      good w (fst (fwd p m (w, r)))"
    and background_good: "bg reg (w, r) (w', r') \<Longrightarrow>
      (\<And>role p. registry_Peer role reg = Some p \<Longrightarrow> peer_ok w p) \<Longrightarrow> good w w'"
begin

lemma Connect_inv:
  assumes "relay_inv s" "peer_ok (rl_world s) p"
  shows "relay_inv (Connect ev obs p s)"
proof -
  obtain old reg where rep: "Replace p (rl_reg s) = (old, reg)" by fastforce
  define w1 where "w1 = (case old of Some q \<Rightarrow> peer_Close q ''replaced by a newer connection'' (rl_world s)
    | None \<Rightarrow> rl_world s)"
  have g1: "good (rl_world s) w1" using good_peer_Close by (auto simp: w1_def split: option.split)
  obtain w2 rt where ob: "(case obs of
        Some ob \<Rightarrow> if pe_role p = RoleAgent then ob_connected ob p (w1, rl_rt s) else (w1, rl_rt s)
      | None \<Rightarrow> (w1, rl_rt s)) = (w2, rt)" by fastforce
  have "good w1 w2"
    using connected_good [of _ w1 p "rl_rt s"] peer_ok_good [OF g1 assms(2)] ob
    by (auto split: option.splits if_splits)
  then have g2: "good (rl_world s) w2" using g1 good_trans by blast
  note ok2 = peer_ok_good [OF g2 assms(2)]
  have as: "set (AgentState reg) \<subseteq> set (AgentState (rl_reg s))"
    using AgentState_subset(1) [of p "rl_reg s"] rep by simp
  define w3 where "w3 = (if pe_role p \<noteq> RoleApp then w2
      else if registry_Peer RoleAgent reg = None then sendAgentOffline ev p ''agent'' w2
      else replay ev p (AgentState reg) w2)"
  have "\<forall>m \<in> set (AgentState reg). legit RoleApp m" using as assms(1) by (auto simp: relay_inv_def)
  then have "good w2 w3"
    using good_sendAgentOffline [OF ok2] good_replay [OF ok2, of "AgentState reg"] by (simp add: w3_def)
  then have g3: "good (rl_world s) w3" using g2 good_trans by blast
  have "Connect ev obs p s = \<lparr>rl_reg = reg, rl_world = w3, rl_rt = rt\<rparr>"
    unfolding Connect_def rep Let_def prod.case w1_def [symmetric] ob w3_def ..
  moreover have "wf_registry reg" using wf_Replace [of "rl_reg s" p] assms(1) rep by (simp add: relay_inv_def)
  ultimately show ?thesis
    using relay_inv_step [OF assms(1), of "Connect ev obs p s"] g3 as assms(2) rep
      Replace_Peer [of _ p "rl_reg s"] by fastforce
qed

lemma Disconnect_inv:
  assumes "relay_inv s"
  shows "relay_inv (Disconnect ev obs p s)"
proof -
  obtain removed reg where rem: "Remove p (rl_reg s) = (removed, reg)" by fastforce
  have reg: "wf_registry reg" "set (AgentState reg) \<subseteq> set (AgentState (rl_reg s))"
    "registry_Peer role reg = Some q \<Longrightarrow> registry_Peer role (rl_reg s) = Some q" for role q
    using wf_Remove [of "rl_reg s" p] assms AgentState_subset(2) [of p "rl_reg s"]
      Remove_Peer [of role p "rl_reg s" q] rem by (simp_all add: relay_inv_def)
  obtain w1 rt where ob: "(case obs of
      Some ob \<Rightarrow> ob_disconnected ob p (rl_world s, rl_rt s) | None \<Rightarrow> (rl_world s, rl_rt s)) = (w1, rt)" by fastforce
  have g1: "good (rl_world s) w1"
    using disconnected_good [of _ "rl_world s" p "rl_rt s"] ob by (auto split: option.splits)
  define w2 where "w2 = (case registry_Peer RoleApp reg of
      Some app \<Rightarrow> sendAgentOffline ev app ''agent'' w1 | None \<Rightarrow> w1)"
  have "peer_ok w1 app" if "registry_Peer RoleApp reg = Some app" for app
    using that reg(3) [OF that] assms peer_ok_good [OF g1, of app] unfolding relay_inv_def by blast
  then have "good w1 w2" using good_sendAgentOffline by (auto simp: w2_def split: option.split)
  then have g2: "good (rl_world s) w2" using g1 good_trans by blast
  have "Disconnect ev obs p s = (if \<not> removed then s
      else if pe_role p = RoleAgent then \<lparr>rl_reg = reg, rl_world = w2, rl_rt = rt\<rparr> else s\<lparr>rl_reg := reg\<rparr>)"
    unfolding Disconnect_def rem Let_def prod.case ob w2_def ..
  moreover have "relay_inv \<lparr>rl_reg = reg, rl_world = w2, rl_rt = rt\<rparr>" "relay_inv (s\<lparr>rl_reg := reg\<rparr>)"
    using relay_inv_step [OF assms, of "\<lparr>rl_reg = reg, rl_world = w2, rl_rt = rt\<rparr>"]
      relay_inv_step [OF assms, of "s\<lparr>rl_reg := reg\<rparr>"] g2 reg by auto
  ultimately show ?thesis using assms by simp
qed

lemma forward_inv:
  assumes "relay_inv s" "peer_ok (rl_world s) p" "pe_role p \<in> {RoleApp, RoleAgent}"
    "AllowedFrom (pe_role p) (m_type m)" "m_sender m = CanonicalSender (pe_role p)"
  shows "relay_inv (forward ev obs p m s)"
proof -
  define reg where "reg = (if pe_role p = RoleAgent then RememberAgentState m (rl_reg s) else RememberAppState m (rl_reg s))"
  define target where "target = (if pe_role p = RoleAgent then RoleApp else RoleAgent)"
  let ?s = "s\<lparr>rl_reg := reg\<rparr>"
  have leg: "legit target m"
    using assms(3-5) by (auto simp: legit_def target_def AllowedFrom_def)
  have "relay_inv ?s"
  proof (rule relay_inv_step [OF assms(1)])
    show "wf_registry (rl_reg ?s)"
      using assms(1) by (simp add: relay_inv_def reg_def wf_registry_ops)
    show "registry_Peer role (rl_reg ?s) = Some q \<Longrightarrow>
        registry_Peer role (rl_reg s) = Some q \<or> peer_ok (rl_world s) q" for role q
      by (simp add: reg_def split: if_splits)
    show "m' \<in> set (AgentState (rl_reg ?s)) \<Longrightarrow> m' \<in> set (AgentState (rl_reg s)) \<or> legit RoleApp m'" for m'
      using AgentState_subset(3,4) [of m "rl_reg s"] leg by (auto simp: reg_def target_def split: if_splits)
  qed simp
  then have inv: "relay_inv ?s" .
  have tgt: "peer_ok (rl_world s) t \<and> pe_role t = target" if "registry_Peer target reg = Some t" for t
    using that inv registry_Peer_role [of reg target t] by (auto simp: relay_inv_def)
  have send: "good (rl_world s) w1" if "registry_Peer target reg = Some t" "peer_Send ev t m (rl_world s) = (r, w1)" for t r w1
    using that tgt [OF that(1)] leg good_peer_Send [of "rl_world s" t m ev] by simp
  have keep: "relay_inv (?s\<lparr>rl_world := w\<rparr>)" "relay_inv (?s\<lparr>rl_world := w, rl_rt := rt\<rparr>)"
    if "good (rl_world s) w" for w rt
    using that by (auto intro: relay_inv_good [OF inv])
  show ?thesis
  proof (cases "registry_Peer target reg")
    case None
    then show ?thesis
      unfolding forward_def Let_def reg_def [symmetric] target_def [symmetric]
      using inv keep(1) good_Reject [OF assms(2)] by auto
  next
    case (Some t)
    obtain r w1 where snd: "peer_Send ev t m (rl_world s) = (r, w1)" by fastforce
    note g1 = send [OF Some snd]
    show ?thesis
    proof (cases r)
      case (Inl e)
      define w2 where "w2 = peer_Close t ''send queue full'' w1"
      have g2: "good (rl_world s) w2" using g1 good_peer_Close good_trans by (auto simp: w2_def)
      have "good (rl_world s) (router_Reject ev p trace code msg w2)" for trace code msg
        using good_trans [OF g2 good_Reject [OF peer_ok_good [OF g2 assms(2)]]] .
      then show ?thesis
        unfolding forward_def Let_def reg_def [symmetric] target_def [symmetric]
        using keep(1) g2 by (auto simp: Some snd Inl w2_def [symmetric])
    next
      case (Inr u)
      have "good (rl_world s) (fst (fwd p m (w1, rl_rt s)))" if "obs = Some ob" "ob_forwarded ob = Some fwd" for ob fwd
        using good_trans [OF g1 forwarded_good [OF that peer_ok_good [OF g1 assms(2)]]] .
      then show ?thesis
        unfolding forward_def Let_def reg_def [symmetric] target_def [symmetric]
        using keep g1 by (auto simp: Some snd Inr split_beta split: option.split)
    qed
  qed
qed

lemma Handle_inv:
  assumes "relay_inv s" "peer_ok (rl_world s) p"
  shows "relay_inv (Handle ev obs p m s)"
proof (cases "AllowedFrom (pe_role p) (m_type m)")
  case False
  then show ?thesis
    using reject_inv [OF assms] by (simp add: Handle_def)
next
  case True
  then have role: "pe_role p \<in> {RoleApp, RoleAgent}" by (auto simp: AllowedFrom_def split: if_splits)
  let ?m = "m\<lparr>m_sender := CanonicalSender (pe_role p)\<rparr>"
  note fwd = forward_inv [where p = p and m = ?m, OF _ _ role, simplified, OF _ _ True]
  show ?thesis
  proof (cases "obs = None \<or> pe_role p \<noteq> RoleAgent")
    case True
    then have "Handle ev obs p m s = forward ev obs p ?m s"
      using \<open>AllowedFrom _ _\<close> by (auto simp: Handle_def Let_def split: option.split)
    then show ?thesis using fwd assms by simp
  next
    case False
    then obtain ob where ob: "obs = Some ob" and agent: "pe_role p = RoleAgent" by auto
    obtain b w1 rt where om: "ob_message ob p ?m (rl_world s, rl_rt s) = (b, w1, rt)" by (metis prod_cases3)
    have g: "good (rl_world s) w1" using message_good [OF ob assms(2), of ?m "rl_rt s"] om by simp
    let ?s1 = "s\<lparr>rl_world := w1, rl_rt := rt\<rparr>"
    have i1: "relay_inv ?s1" using g relay_inv_good [OF assms(1), of ?s1] by simp
    have "Handle ev obs p m s = (if b then ?s1 else forward ev obs p ?m ?s1)"
      using \<open>AllowedFrom _ _\<close> ob agent om by (simp add: Handle_def Let_def)
    then show ?thesis using i1 fwd [OF i1] peer_ok_good [OF g assms(2)] by simp
  qed
qed

lemma step_inv:
  assumes "relay_step ev obs bg n s s'" "relay_inv s"
  shows "relay_inv s'"
  using assms
proof (induction rule: relay_step.induct)
  case (opened role s)
  obtain p w where acc: "accept_peer n role (rl_world s) = (p, w)" by fastforce
  have "relay_inv (s\<lparr>rl_world := w\<rparr>)" "peer_ok w p"
    using accept_inv [OF opened.prems opened.hyps(2) acc] by simp_all
  then show ?case unfolding ServeRole_open_def acc by (simp add: Connect_inv)
next
  case (framed s p describe fr)
  then show ?case
    using reject_inv [OF framed.prems framed.hyps] Handle_inv [OF framed.prems framed.hyps]
    by (auto simp: ServeRole_frame_def split: frame.split sum.split)
next
  case (ended s p)
  then show ?case
    unfolding ServeRole_end_def by (intro Disconnect_inv relay_inv_good [OF ended.prems]) (simp_all add: good_peer_Close)
next
  case (written s sz maxb event p)
  then show ?case by (intro relay_inv_good [OF written.prems]) (simp_all add: good_write_step)
next
  case (closing s reason)
  obtain peers reg where c: "registry_CloseAll (rl_reg s) = (peers, reg)" by fastforce
  then have "wf_registry reg" "AgentState reg = []" "registry_Peer role reg = None" for role
    using wf_CloseAll [of "rl_reg s"] closing.prems AgentState_subset(5) [of "rl_reg s"]
    by (auto simp: relay_inv_def registry_CloseAll_def registry_Peer_def)
  then show ?case
    unfolding close_all_def c by (intro relay_inv_step [OF closing.prems]) (simp_all add: good_close_fold)
next
  case (background s w rt)
  have "good (rl_world s) w"
    by (rule background_good [OF background.hyps]) (use background.prems in \<open>auto simp: relay_inv_def\<close>)
  then show ?case by (intro relay_inv_good [OF background.prems]) simp_all
qed

lemma steps_inv: "relay_steps ev obs bg n s s' \<Longrightarrow> relay_inv s \<Longrightarrow> relay_inv s'"
  by (induction rule: relay_steps.induct) (auto intro: step_inv)

end

text \<open>A relay without Runtime has no observer (\<open>server.New\<close>).\<close>

interpretation bare: agent_observer None "\<lambda>_ _ _. False"
  by unfold_locales simp_all

subsection \<open>Delivery\<close>

definition told :: "peer_ref \<Rightarrow> string \<Rightarrow> string \<Rightarrow> string \<Rightarrow> world \<Rightarrow> world \<Rightarrow> bool" where
  "told p trace code msg w w' \<longleftrightarrow>
     (\<exists>rej. m_type rej = TypeTurnRejected \<and> m_trace_id rej = trace
        \<and> m_payload rej = Some (JObj [(''code'', JStr code), (''message'', JStr msg)])
        \<and> inbox w' = (inbox w)(pe_id p := inbox w (pe_id p) @ [rej]))
     \<or> inbox w' = inbox w \<and> shut w' (pe_id p)"

lemma Reject_delivers:
  assumes "trace \<noteq> []" "\<forall>n. ev_clock ev n \<noteq> 0"
  shows "told p trace code msg w (router_Reject ev p trace code msg w)"
    and "shut w i \<Longrightarrow> shut (router_Reject ev p trace code msg w) i"
proof -
  let ?j = "turn_rejected_json \<lparr>rj_code = code, rj_message = msg, rj_required_capabilities = [], rj_recovery_action = []\<rparr>"
  obtain rej err w1 where n: "new_message ev TypeTurnRejected trace relay_sender ?j w = ((rej, err), w1)"
    by (metis surj_pair)
  note f = new_message_fields [OF n]
  have err: "err = None"
    using n NewMessage_valid [of TypeTurnRejected "ev_clock ev (wd_tick w)" relay_sender trace ?j "wd_rnd w"] assms(2)
    by (auto simp: new_message_def relay_sender_def type_defs Let_def split: prod.splits)
  have w1: "inbox w1 = inbox w" "shut w1 = shut w"
    using new_message_conns [of ev TypeTurnRejected trace relay_sender ?j w] n by (simp_all add: inbox_def shut_def fun_eq_iff)
  obtain r w2 where s: "peer_Send ev p rej w1 = (r, w2)" by fastforce
  have "router_Reject ev p trace code msg w = (case r of Inl _ \<Rightarrow> peer_Close p ''send queue full'' w2 | Inr _ \<Rightarrow> w2)"
    by (simp add: router_Reject_def n err s split: sum.split)
  note sent = ws.send_or_close [OF s this]
  have "m_payload rej = Some (JObj [(''code'', JStr code), (''message'', JStr msg)])"
    using f(3) by (simp add: turn_rejected_json_def member_def omit_if_def)
  then show "told p trace code msg w (router_Reject ev p trace code msg w)"
    using sent f(1) f(4) [OF assms(1)] w1 unfolding told_def by auto
  show "shut w i \<Longrightarrow> shut (router_Reject ev p trace code msg w) i" using sent w1 by auto
qed

lemma forward_app:
  fixes s :: "'r relay" and obs :: "'r observer option"
  assumes "pe_role p = RoleApp" "m_trace_id m \<noteq> []" "\<forall>n. ev_clock ev n \<noteq> 0"
  defines "w \<equiv> rl_world s" and "w' \<equiv> rl_world (forward ev obs p m s)"
  shows "registry_Peer RoleAgent (rl_reg s) = None \<Longrightarrow>
      if m_type m = TypeTurnAcknowledged then w' = w else told p (m_trace_id m) ''AGENT_OFFLINE'' ''Mac Agent is not connected'' w w'"
    and "registry_Peer RoleAgent (rl_reg s) = Some agent \<Longrightarrow> fst (peer_Send ev agent m w) = Inr () \<Longrightarrow>
      inbox w' = (inbox w)(pe_id agent := inbox w (pe_id agent) @ [m]) \<and> shut w' = shut w"
    and "registry_Peer RoleAgent (rl_reg s) = Some agent \<Longrightarrow> fst (peer_Send ev agent m w) \<noteq> Inr () \<Longrightarrow>
      shut w' (pe_id agent) \<and> told p (m_trace_id m) ''INTERNAL_ERROR'' ''Mac Agent connection is unavailable'' w w'"
proof -
  assume none: "registry_Peer RoleAgent (rl_reg s) = None"
  have "w' = (if m_type m = TypeTurnAcknowledged then w
      else router_Reject ev p (m_trace_id m) ''AGENT_OFFLINE'' ''Mac Agent is not connected'' w)"
    using none assms(1) by (simp add: forward_def w'_def w_def Let_def)
  then show "if m_type m = TypeTurnAcknowledged then w' = w
      else told p (m_trace_id m) ''AGENT_OFFLINE'' ''Mac Agent is not connected'' w w'"
    using Reject_delivers(1) [OF assms(2,3)] by simp
next
  assume agent: "registry_Peer RoleAgent (rl_reg s) = Some agent" and sent: "fst (peer_Send ev agent m w) = Inr ()"
  then obtain w1 where s: "peer_Send ev agent m w = (Inr (), w1)" by (metis prod.collapse)
  then have "w' = w1" using agent assms(1) by (simp add: forward_def w'_def w_def Let_def split: option.split)
  then show "inbox w' = (inbox w)(pe_id agent := inbox w (pe_id agent) @ [m]) \<and> shut w' = shut w"
    using ws.send_ok [OF s] ws.send_closed [OF s] by simp
next
  assume agent: "registry_Peer RoleAgent (rl_reg s) = Some agent" and sent: "fst (peer_Send ev agent m w) \<noteq> Inr ()"
  then obtain e w1 where s: "peer_Send ev agent m w = (Inl e, w1)" by (metis prod.collapse sum.exhaust unit.exhaust)
  define w2 where "w2 = peer_Close agent ''send queue full'' w1"
  have w2: "inbox w2 = inbox w" "shut w2 (pe_id agent)"
    using ws.send_err [OF s] ws.close_box ws.close_closed by (simp_all add: w2_def)
  have "w' = router_Reject ev p (m_trace_id m) ''INTERNAL_ERROR'' ''Mac Agent connection is unavailable'' w2"
    using agent s assms(1) by (simp add: forward_def w'_def w_def w2_def Let_def)
  then show "shut w' (pe_id agent) \<and> told p (m_trace_id m) ''INTERNAL_ERROR'' ''Mac Agent connection is unavailable'' w w'"
    using Reject_delivers [OF assms(2,3), where w = w2] w2 by (simp add: told_def)
qed

lemma peer_Send_room:
  assumes "wd_conns w (pe_id p) = Some c" "cn_reason c = None" "length (cn_queue c) < cn_cap c"
  shows "peer_Send ev p m w = (Inr (), tick (upd_conn (pe_id p) (c\<lparr>cn_queue := cn_queue c @ [m]\<rparr>) w))"
  using assms by (simp add: peer_Send_def cn_done_def)

lemma peer_Send_full:
  assumes "wd_conns w (pe_id p) = Some c" "cn_cap c \<le> length (cn_queue c)"
  shows "fst (peer_Send ev p m w) \<noteq> Inr ()"
  using assms by (simp add: peer_Send_def Let_def)


definition demo_env :: env where
  "demo_env = \<lparr>ev_pick = (\<lambda>_. False), ev_clock = (\<lambda>n. second * (int n + 1))\<rparr>"

definition demo_world :: world where
  "demo_world = \<lparr>wd_conns = (\<lambda>_. None), wd_next = 0, wd_rnd = \<lparr>source = (\<lambda>n. of_nat n), drawn = 0\<rparr>, wd_tick = 0\<rparr>"

definition demo_relay :: "unit relay" where
  "demo_relay = \<lparr>rl_reg = NewRegistry, rl_world = demo_world, rl_rt = ()\<rparr>"

definition demo_message :: message where
  "demo_message = \<lparr>m_spec_version = SpecVersion, m_message_id = ''m1'', m_type = TypeProjectList,
     m_occurred_at = second, m_trace_id = ''t1'', m_sender = zero_sender, m_payload = Some (JObj []),
     m_agent_sequence = 0\<rparr>"

lemma demo_clock: "\<forall>n. ev_clock demo_env n \<noteq> 0"
  by (simp add: demo_env_def second_def)

definition demo_pair_relay :: "unit relay" where
  "demo_pair_relay = snd (ServeRole_open demo_env None 4 RoleApp (snd (ServeRole_open demo_env None 4 RoleAgent demo_relay)))"

lemma demo_pair_agent:
  "registry_Peer RoleAgent (rl_reg demo_pair_relay) = Some \<lparr>pe_id = 1, pe_role = RoleAgent\<rparr>"
  "wd_conns (rl_world demo_pair_relay) 1 = Some \<lparr>cn_role = RoleAgent, cn_queue = [], cn_cap = 4, cn_reason = None, cn_written = []\<rparr>"
  "inbox (rl_world demo_pair_relay) 1 = []"
  by (simp_all add: demo_pair_relay_def ServeRole_open_def accept_peer_def Let_def demo_relay_def demo_world_def inbox_def
      Connect_def Replace_def registry_Peer_def NewRegistry_def AgentState_def role_defs)


lemma replay_fits:
  assumes "wd_conns w (pe_id p) = Some c" "cn_reason c = None" "length (cn_queue c) + length ms \<le> cn_cap c"
  shows "inbox (replay ev p ms w) (pe_id p) = cn_queue c @ ms"
  using assms
proof (induction ms arbitrary: w c)
  case Nil
  then show ?case by (simp add: inbox_def)
next
  case (Cons m ms)
  let ?c = "c\<lparr>cn_queue := cn_queue c @ [m]\<rparr>"
  have "inbox (replay ev p ms (tick (upd_conn (pe_id p) ?c w))) (pe_id p) = cn_queue ?c @ ms"
    using Cons.prems by (intro Cons.IH) simp_all
  then show ?case using Cons.prems peer_Send_room [of w p c ev m] by simp
qed

lemma offline_fits:
  assumes "wd_conns w (pe_id p) = Some c" "cn_reason c = None" "length (cn_queue c) < cn_cap c"
    "trace \<noteq> []" "\<forall>n. ev_clock ev n \<noteq> 0"
  shows "\<exists>m. m_type m = TypeAgentStatus \<and> m_payload m = Some (JObj [(''status'', JStr ''offline'')]) \<and>
    inbox (sendAgentOffline ev p trace w) (pe_id p) = cn_queue c @ [m]"
proof -
  let ?j = "agent_status_json \<lparr>as_status = ''offline'', as_project_id = [], as_thread_id = [], as_turn_id = []\<rparr>"
  obtain m err w1 where n: "new_message ev TypeAgentStatus trace relay_sender ?j w = ((m, err), w1)" by (metis surj_pair)
  have err: "err = None"
    using n NewMessage_valid [of TypeAgentStatus "ev_clock ev (wd_tick w)" relay_sender trace ?j "wd_rnd w"] assms(5)
    by (auto simp: new_message_def relay_sender_def type_defs Let_def split: prod.splits)
  have "wd_conns w1 = wd_conns w" using new_message_conns [of ev TypeAgentStatus trace relay_sender ?j w] n by simp
  then have "inbox (sendAgentOffline ev p trace w) (pe_id p) = cn_queue c @ [m]"
    using peer_Send_room [of w1 p c ev m] assms(1-3) by (simp add: sendAgentOffline_def n err)
  then show ?thesis
    using new_message_fields(1,3) [OF n] by (auto simp: agent_status_json_def member_def omit_if_def)
qed

text \<open>
  A connecting app learns the agent's state first: with room for three messages it
  receives exactly the agent's last hello, status and capabilities, in this order, when an agent is
  connected, and exactly one offline status otherwise.
\<close>

theorem app_connect_learns_agent_state:
  assumes "relay_inv s" "wd_conns (rl_world s) (wd_next (rl_world s) + 1) = None" "3 \<le> queueSize"
    and "\<forall>n. ev_clock ev n \<noteq> 0" and "ServeRole_open ev obs queueSize RoleApp s = (p, s')"
  shows "(registry_Peer RoleAgent (rl_reg s) \<noteq> None \<longrightarrow> inbox (rl_world s') (pe_id p) = AgentState (rl_reg s)) \<and>
    (registry_Peer RoleAgent (rl_reg s) = None \<longrightarrow>
      (\<exists>m. m_type m = TypeAgentStatus \<and> m_payload m = Some (JObj [(''status'', JStr ''offline'')]) \<and>
        inbox (rl_world s') (pe_id p) = [m]))"
proof -
  let ?i = "wd_next (rl_world s) + 1"
  define c where "c = \<lparr>cn_role = RoleApp, cn_queue = [], cn_cap = queueSize, cn_reason = None, cn_written = []\<rparr>"
  obtain w where acc: "accept_peer queueSize RoleApp (rl_world s) = (p, w)"
    using assms(5) by (auto simp: ServeRole_open_def Let_def split: prod.splits)
  then have w: "wd_conns w ?i = Some c" and p: "pe_id p = ?i" "pe_role p = RoleApp"
    by (auto simp: accept_peer_def Let_def c_def)
  obtain old reg where rep: "Replace p (rl_reg s) = (old, reg)" by fastforce
  have reg: "registry_Peer RoleAgent reg = registry_Peer RoleAgent (rl_reg s)" "AgentState reg = AgentState (rl_reg s)"
    and old: "old = registry_Peer RoleApp (rl_reg s)"
    using rep p(2) by (auto simp: Replace_def registry_Peer_def AgentState_def)
  define w1 where "w1 = (case old of Some q \<Rightarrow> peer_Close q ''replaced by a newer connection'' w | None \<Rightarrow> w)"
  have "pe_id q \<noteq> ?i" if "old = Some q" for q
  proof -
    have "peer_ok (rl_world s) q" using that assms(1) old unfolding relay_inv_def by metis
    then show ?thesis using assms(2) by (auto simp: peer_ok_def)
  qed
  then have w1: "wd_conns w1 ?i = Some c"
    using w by (auto simp: w1_def peer_Close_def split: option.split)
  have s': "rl_world s' = (if registry_Peer RoleAgent reg = None then sendAgentOffline ev p ''agent'' w1
      else replay ev p (AgentState reg) w1)"
    using assms(5) acc rep p(2) by (auto simp: ServeRole_open_def Connect_def w1_def Let_def split: option.split)
  have "length (AgentState reg) \<le> 3" by (simp add: AgentState_def split: option.split)
  then have "inbox (replay ev p (AgentState reg) w1) ?i = AgentState reg"
    using replay_fits [of w1 p c "AgentState reg" ev] w1 p assms(3) by (simp add: c_def)
  moreover have "\<exists>m. m_type m = TypeAgentStatus \<and> m_payload m = Some (JObj [(''status'', JStr ''offline'')]) \<and>
      inbox (sendAgentOffline ev p ''agent'' w1) ?i = [m]"
    using offline_fits [of w1 p c "''agent''" ev] w1 p assms(3,4) by (simp add: c_def)
  ultimately show ?thesis using s' reg p by simp
qed

lemma demo_relay_inv: "relay_inv demo_relay"
  using wf_NewRegistry
  by (simp add: relay_inv_def demo_relay_def demo_world_def wf_world_def legit_world_def
      registry_Peer_def NewRegistry_def AgentState_def)

theorem app_connect_learns_agent_state_witness:
  "let (p, s) = ServeRole_open demo_env None 4 RoleApp demo_relay in
   \<exists>m. m_type m = TypeAgentStatus \<and> inbox (rl_world s) (pe_id p) = [m]"
proof -
  obtain p s where o: "ServeRole_open demo_env None 4 RoleApp demo_relay = (p, s)" by fastforce
  have "wd_conns (rl_world demo_relay) (wd_next (rl_world demo_relay) + 1) = None"
    "registry_Peer RoleAgent (rl_reg demo_relay) = None"
    by (simp_all add: demo_relay_def demo_world_def registry_Peer_def NewRegistry_def)
  with app_connect_learns_agent_state [OF demo_relay_inv _ _ demo_clock o] o show ?thesis by auto
qed

end
