(* ===== verification/Gateways.thy ===== *)
theory Gateways
  imports Router
begin

section \<open>Request gateways to the agent\<close>

text \<open>
  \<^verbatim>\<open>internal/runtime/source.go\<close> and \<^verbatim>\<open>internal/runtime/execution_profiles.go\<close>: HTTP requests that are
  answered by the agent. A gateway keeps a table from trace ids to waiting requests; a waiter is a
  channel of capacity one, empty or holding its result. A request is split where it blocks: its
  first half registers the waiter and sends the question, its second half takes the result or gives
  up with its context's error; both remove the waiter. Trace ids are 122 random bits, so a new one
  does not meet a pending one.
\<close>

subsection \<open>Tables of waiters\<close>

type_synonym 'r waiters = "(string \<times> 'r option) list"

definition waiting :: "string \<Rightarrow> 'r waiters \<Rightarrow> 'r option option" where
  "waiting t ws = map_of ws t"

definition drop_waiter :: "string \<Rightarrow> 'r waiters \<Rightarrow> 'r waiters" where
  "drop_waiter t ws = filter (\<lambda>(k, _). k \<noteq> t) ws"

definition add_waiter :: "string \<Rightarrow> 'r waiters \<Rightarrow> 'r waiters" where
  "add_waiter t ws = drop_waiter t ws @ [(t, None)]"

text \<open>The non-blocking send \<open>select { case waiter <- r: default: }\<close>.\<close>

definition offer_result :: "'r \<Rightarrow> 'r option \<Rightarrow> 'r option" where
  "offer_result r slot = (case slot of None \<Rightarrow> Some r | Some q \<Rightarrow> Some q)"

definition reply_waiter :: "string \<Rightarrow> 'r \<Rightarrow> 'r waiters \<Rightarrow> 'r waiters" where
  "reply_waiter t r ws = map (\<lambda>(k, slot). (k, if k = t then offer_result r slot else slot)) ws"

definition fail_waiters :: "'r \<Rightarrow> 'r waiters \<Rightarrow> 'r waiters" where
  "fail_waiters r ws = map (\<lambda>(k, slot). (k, offer_result r slot)) ws"

lemma waiting_add [simp]: "waiting t (add_waiter t' ws) = (if t = t' then Some None else waiting t ws)"
proof -
  have "map_of (filter (\<lambda>(k, _). k \<noteq> t') ws) t = (if t = t' then None else map_of ws t)"
    by (induction ws) auto
  then show ?thesis by (auto simp: waiting_def add_waiter_def drop_waiter_def map_add_def split: option.split)
qed

lemma waiting_drop [simp]: "waiting t (drop_waiter t' ws) = (if t = t' then None else waiting t ws)"
  unfolding waiting_def drop_waiter_def by (induction ws) auto

lemma waiting_reply [simp]:
  "waiting t (reply_waiter t' r ws) = (if t = t' then map_option (offer_result r) (waiting t ws) else waiting t ws)"
  unfolding waiting_def reply_waiter_def by (induction ws) auto

lemma waiting_fail [simp]: "waiting t (fail_waiters r ws) = map_option (offer_result r) (waiting t ws)"
  unfolding waiting_def fail_waiters_def by (induction ws) auto

lemma offer_result_some [simp]: "offer_result r slot \<noteq> None"
  by (simp add: offer_result_def split: option.split)

lemma table_lengths [simp]:
  "length (reply_waiter t r ws) = length ws" "length (fail_waiters r ws) = length ws"
  "length (drop_waiter t ws) \<le> length ws" "length (add_waiter t ws) \<le> Suc (length ws)"
  by (simp_all add: reply_waiter_def fail_waiters_def drop_waiter_def add_waiter_def)

subsection \<open>The source gateway\<close>

datatype ctx_error = DeadlineExceeded | Canceled

datatype source_error =
    ErrSourceAgentOffline
  | ErrSourceUnavailable
  | ErrSourceBusy
  | SourceRemoteError string string
  | SourceCtx ctx_error

type_synonym source_result = "source_error + source_snapshot_payload"

definition maxPendingSourceReads :: nat where
  "maxPendingSourceReads = 16"

definition run_server :: sender where
  "run_server = \<lparr>se_kind = ''relay'', se_id = ''run-server''\<rparr>"

text \<open>\<open>NewID\<close> on the process's random source.\<close>

definition draw_id :: "world \<Rightarrow> string \<times> world" where
  "draw_id w = (let (i, e) = NewID (wd_rnd w) in (i, w\<lparr>wd_rnd := e\<rparr>))"

definition Read_begin :: "env \<Rightarrow> registry \<Rightarrow> source_read_payload \<Rightarrow> world \<times> source_result waiters \<Rightarrow>
    (source_error + string) \<times> world \<times> source_result waiters" where
  "Read_begin ev reg request st =
     (let (w, g) = st in
      case registry_Peer RoleAgent reg of
        None \<Rightarrow> (Inl ErrSourceAgentOffline, w, g)
      | Some peer \<Rightarrow>
          (let (traceID, w1) = draw_id w in
           if maxPendingSourceReads \<le> length g then (Inl ErrSourceBusy, w1, g)
           else
             (let g1 = add_waiter traceID g;
                  ((m, err), w2) = new_message ev TypeSourceRead traceID run_server (source_read_json request) w1 in
              if err \<noteq> None then (Inl ErrSourceUnavailable, w2, drop_waiter traceID g1)
              else case peer_Send ev peer m w2 of
                (Inl _, w3) \<Rightarrow> (Inl ErrSourceUnavailable, w3, drop_waiter traceID g1)
              | (Inr _, w3) \<Rightarrow> (Inr traceID, w3, g1))))"

text \<open>The two ways out of the final \<open>select\<close>.\<close>

definition Read_receive :: "string \<Rightarrow> 'r waiters \<Rightarrow> 'r option \<times> 'r waiters" where
  "Read_receive traceID g =
     (case waiting traceID g of
        Some (Some r) \<Rightarrow> (Some r, drop_waiter traceID g)
      | _ \<Rightarrow> (None, g))"

definition Read_giveup :: "ctx_error \<Rightarrow> string \<Rightarrow> source_result waiters \<Rightarrow> source_result \<times> source_result waiters" where
  "Read_giveup err traceID g = (Inl (SourceCtx err), drop_waiter traceID g)"

definition source_outcome :: "message \<Rightarrow> source_result" where
  "source_outcome m =
     (if m_type m = TypeSourceSnapshot then
        (case decoded (PayloadAs source_snapshot_schema source_snapshot_zero m) of
           None \<Rightarrow> Inl ErrSourceUnavailable | Some p \<Rightarrow> Inr p)
      else
        (case decoded (PayloadAs source_read_failed_schema source_read_failed_zero m) of
           None \<Rightarrow> Inl ErrSourceUnavailable
         | Some p \<Rightarrow> Inl (SourceRemoteError (sf_code p) (sf_message p))))"

definition source_Handle :: "message \<Rightarrow> source_result waiters \<Rightarrow> bool \<times> source_result waiters" where
  "source_Handle m g =
     (if m_type m \<noteq> TypeSourceSnapshot \<and> m_type m \<noteq> TypeSourceReadFailed then (False, g)
      else (True, reply_waiter (m_trace_id m) (source_outcome m) g))"

definition source_FailPending :: "source_error \<Rightarrow> source_result waiters \<Rightarrow> source_result waiters" where
  "source_FailPending err g = fail_waiters (Inl err) g"

subsection \<open>The execution profile gateway\<close>

datatype profile_error =
    ErrExecutionProfilesAgentOffline
  | ErrExecutionProfilesUnavailable
  | ErrExecutionProfilesBusy
  | ProfileCtx ctx_error

type_synonym profile_result = "profile_error + execution_profile_snapshot_payload"

definition maxPendingExecutionProfileRequests :: nat where
  "maxPendingExecutionProfileRequests = 16"

definition List_begin :: "env \<Rightarrow> registry \<Rightarrow> string \<Rightarrow> world \<times> profile_result waiters \<Rightarrow>
    (profile_error + string) \<times> world \<times> profile_result waiters" where
  "List_begin ev reg projectID st =
     (let (w, g) = st in
      case registry_Peer RoleAgent reg of
        None \<Rightarrow> (Inl ErrExecutionProfilesAgentOffline, w, g)
      | Some peer \<Rightarrow>
          (let (traceID, w1) = draw_id w in
           if maxPendingExecutionProfileRequests \<le> length g then (Inl ErrExecutionProfilesBusy, w1, g)
           else
             (let g1 = add_waiter traceID g;
                  ((m, err), w2) = new_message ev TypeExecutionProfileList traceID run_server
                    (execution_profile_list_json projectID) w1 in
              if err \<noteq> None then (Inl ErrExecutionProfilesUnavailable, w2, drop_waiter traceID g1)
              else case peer_Send ev peer m w2 of
                (Inl _, w3) \<Rightarrow> (Inl ErrExecutionProfilesUnavailable, w3, drop_waiter traceID g1)
              | (Inr _, w3) \<Rightarrow> (Inr traceID, w3, g1))))"

definition List_giveup :: "ctx_error \<Rightarrow> string \<Rightarrow> profile_result waiters \<Rightarrow> profile_result \<times> profile_result waiters" where
  "List_giveup err traceID g = (Inl (ProfileCtx err), drop_waiter traceID g)"

definition profiles_Handle :: "message \<Rightarrow> profile_result waiters \<Rightarrow> bool \<times> profile_result waiters" where
  "profiles_Handle m g =
     (if m_type m \<noteq> TypeExecutionProfileSnapshot then (False, g)
      else case waiting (m_trace_id m) g of
        None \<Rightarrow> (False, g)
      | Some _ \<Rightarrow>
          (let result = (case decoded (PayloadAs profile_snapshot_schema profile_snapshot_zero m) of
                 None \<Rightarrow> Inl ErrExecutionProfilesUnavailable | Some p \<Rightarrow> Inr p) in
           (True, reply_waiter (m_trace_id m) result g)))"

definition profiles_FailPending :: "profile_error \<Rightarrow> profile_result waiters \<Rightarrow> profile_result waiters" where
  "profiles_FailPending err g = fail_waiters (Inl err) g"

subsection \<open>The contract of a gateway\<close>

text \<open>
  The life of a gateway's table: requests start, each in the world and with the registry of its own moment (they are part
  of \<open>'q\<close>), the agent's messages arrive, all waiters are failed when the agent goes, a waiter takes its result, a waiter gives up.
\<close>

inductive gateway_step ::
    "('q \<Rightarrow> world \<times> 'r waiters \<Rightarrow> ('e + string) \<times> world \<times> 'r waiters) \<Rightarrow>
     (message \<Rightarrow> 'r waiters \<Rightarrow> bool \<times> 'r waiters) \<Rightarrow> ('e \<Rightarrow> 'r waiters \<Rightarrow> 'r waiters) \<Rightarrow>
     'r waiters \<Rightarrow> 'r waiters \<Rightarrow> bool"
  for start :: "'q \<Rightarrow> world \<times> 'r waiters \<Rightarrow> ('e + string) \<times> world \<times> 'r waiters"
    and handle :: "message \<Rightarrow> 'r waiters \<Rightarrow> bool \<times> 'r waiters"
    and fail_all :: "'e \<Rightarrow> 'r waiters \<Rightarrow> 'r waiters" where
  started: "start q (w, g) = (res, w', g') \<Longrightarrow> gateway_step start handle fail_all g g'"
| answered: "gateway_step start handle fail_all g (snd (handle m g))"
| failed: "gateway_step start handle fail_all g (fail_all err g)"
| received: "gateway_step start handle fail_all g (snd (Read_receive t g))"
| gave_up: "gateway_step start handle fail_all g (drop_waiter t g)"

inductive gateway_steps ::
    "('q \<Rightarrow> world \<times> 'r waiters \<Rightarrow> ('e + string) \<times> world \<times> 'r waiters) \<Rightarrow>
     (message \<Rightarrow> 'r waiters \<Rightarrow> bool \<times> 'r waiters) \<Rightarrow> ('e \<Rightarrow> 'r waiters \<Rightarrow> 'r waiters) \<Rightarrow>
     'r waiters \<Rightarrow> 'r waiters \<Rightarrow> bool"
  for start :: "'q \<Rightarrow> world \<times> 'r waiters \<Rightarrow> ('e + string) \<times> world \<times> 'r waiters"
    and handle :: "message \<Rightarrow> 'r waiters \<Rightarrow> bool \<times> 'r waiters"
    and fail_all :: "'e \<Rightarrow> 'r waiters \<Rightarrow> 'r waiters" where
  none: "gateway_steps start handle fail_all g g"
| more: "gateway_steps start handle fail_all g g' \<Longrightarrow> gateway_step start handle fail_all g' g'' \<Longrightarrow>
    gateway_steps start handle fail_all g g''"

locale gateway =
  fixes start :: "'q \<Rightarrow> world \<times> 'r waiters \<Rightarrow> ('e + string) \<times> world \<times> 'r waiters"
    and handle :: "message \<Rightarrow> 'r waiters \<Rightarrow> bool \<times> 'r waiters"
    and fail_all :: "'e \<Rightarrow> 'r waiters \<Rightarrow> 'r waiters"
    and failure :: "'e \<Rightarrow> 'r"
    and cap :: nat
  assumes start_ok: "start q (w, g) = (Inr t, w', g') \<Longrightarrow> g' = add_waiter t g \<and> length g < cap"
    and start_err: "start q (w, g) = (Inl e, w', g') \<Longrightarrow> length g' \<le> length g"
    and handle_one: "handle m g = (b, g') \<Longrightarrow> g' = g \<or> (\<exists>r. g' = reply_waiter (m_trace_id m) r g)"
    and fail_every: "fail_all e g = fail_waiters (failure e) g"
begin

lemma step_bounded:
  "gateway_step start handle fail_all g g' \<Longrightarrow> length g \<le> cap \<Longrightarrow> length g' \<le> cap"
proof (induction rule: gateway_step.induct)
  case (started q w g res w' g')
  show ?case
  proof (cases res)
    case (Inl e)
    then show ?thesis using start_err [of q w g e w' g'] started by simp
  next
    case (Inr t)
    then have "g' = add_waiter t g" "length g < cap" using start_ok [of q w g t w' g'] started by simp_all
    then show ?thesis using table_lengths(4) [of t g] by (metis Suc_leI le_trans)
  qed
next
  case (answered g m)
  then show ?case using handle_one [of m g "fst (handle m g)" "snd (handle m g)"] by (auto split: prod.splits)
next
  case (received g t)
  then show ?case using le_trans [OF table_lengths(3)] by (auto simp: Read_receive_def split: option.split)
next
  case (gave_up g t)
  then show ?case using le_trans [OF table_lengths(3)] by blast
qed (simp add: fail_every)

lemma bounded: "gateway_steps start handle fail_all [] g \<Longrightarrow> length g \<le> cap"
proof -
  have "gateway_steps start handle fail_all g0 g \<Longrightarrow> length g0 \<le> cap \<Longrightarrow> length g \<le> cap" for g0
    by (induction rule: gateway_steps.induct) (auto intro: step_bounded)
  then show "gateway_steps start handle fail_all [] g \<Longrightarrow> length g \<le> cap" by simp
qed

text \<open>An answer reaches the request it is for and no other.\<close>

lemma handle_other: "handle m g = (b, g') \<Longrightarrow> t \<noteq> m_trace_id m \<Longrightarrow> waiting t g' = waiting t g"
  using handle_one [of m g b g'] by auto

text \<open>A failed table leaves nobody waiting; what was already answered stays.\<close>

lemma fail_receive:
  assumes "waiting t g = Some slot"
  shows "fst (Read_receive t (fail_all e g)) = Some (case slot of None \<Rightarrow> failure e | Some r \<Rightarrow> r)"
  using assms by (cases slot) (simp_all add: fail_every Read_receive_def offer_result_def)

end

lemma Read_begin_cases:
  assumes "Read_begin ev reg q (w, g) = (res, w', g')"
  obtains (refused) e where "res = Inl e" "length g' \<le> length g"
    | (asked) t peer m w2 where "res = Inr t" "g' = add_waiter t g" "length g < maxPendingSourceReads"
      "registry_Peer RoleAgent reg = Some peer" "m_type m = TypeSourceRead" "m_trace_id m = t"
      "m_payload m = Some (source_read_json q)" "inbox w2 = inbox w" "peer_Send ev peer m w2 = (Inr (), w')"
proof (cases "registry_Peer RoleAgent reg")
  case None
  then show ?thesis using assms that(1) by (auto simp: Read_begin_def)
next
  case (Some peer)
  obtain t w1 where d: "draw_id w = (t, w1)" by fastforce
  then have t: "t \<noteq> []" "wd_conns w1 = wd_conns w"
    by (auto simp: draw_id_def Let_def split: prod.splits) (metis NewID_nonempty fst_conv)
  obtain m err w2 where n: "new_message ev TypeSourceRead t run_server (source_read_json q) w1 = ((m, err), w2)"
    by (metis surj_pair)
  obtain r w3 where s: "peer_Send ev peer m w2 = (r, w3)" by fastforce
  have dropped: "length (drop_waiter t (add_waiter t g)) \<le> length g"
    by (simp add: add_waiter_def drop_waiter_def)
  have box: "inbox w2 = inbox w"
    using new_message_conns [of ev TypeSourceRead t run_server "source_read_json q" w1] n t(2)
    by (simp add: inbox_def fun_eq_iff)
  show ?thesis
  proof (cases "maxPendingSourceReads \<le> length g \<or> err \<noteq> None \<or> (\<exists>e. r = Inl e)")
    case True
    then show ?thesis
      using assms that(1) Some d n s dropped by (auto simp: Read_begin_def Let_def split: if_splits)
  next
    case False
    then have "r = Inr ()" by (cases r) auto
    with False have "res = Inr t" "g' = add_waiter t g" "w' = w3"
      using assms Some d n s by (auto simp: Read_begin_def Let_def)
    then show ?thesis
      using that(2) [of t peer m w2] False Some new_message_fields [OF n] t(1) s \<open>r = Inr ()\<close> box by simp
  qed
qed

definition read_start :: "env \<times> registry \<times> source_read_payload \<Rightarrow> world \<times> source_result waiters \<Rightarrow>
    (source_error + string) \<times> world \<times> source_result waiters" where
  "read_start = (\<lambda>(ev, reg, q). Read_begin ev reg q)"

interpretation source: gateway read_start source_Handle source_FailPending "\<lambda>e. Inl e" maxPendingSourceReads
proof (unfold_locales, goal_cases)
  case (1 q w g t w' g')
  then show ?case by (auto simp: read_start_def split: prod.splits elim: Read_begin_cases)
next
  case (2 q w g e w' g')
  then show ?case by (auto simp: read_start_def split: prod.splits elim: Read_begin_cases)
next
  case (3 m g b g')
  then show ?case by (auto simp: source_Handle_def split: if_splits)
qed (simp add: source_FailPending_def)

lemma List_begin_cases:
  assumes "List_begin ev reg q (w, g) = (res, w', g')"
  obtains (refused) e where "res = Inl e" "length g' \<le> length g"
    | (asked) t where "res = Inr t" "g' = add_waiter t g" "length g < maxPendingExecutionProfileRequests"
proof (cases "registry_Peer RoleAgent reg")
  case None
  then show ?thesis using assms that(1) by (auto simp: List_begin_def)
next
  case (Some peer)
  obtain t w1 where d: "draw_id w = (t, w1)" by fastforce
  obtain m err w2 where n: "new_message ev TypeExecutionProfileList t run_server (execution_profile_list_json q) w1 = ((m, err), w2)"
    by (metis surj_pair)
  obtain r w3 where s: "peer_Send ev peer m w2 = (r, w3)" by fastforce
  have dropped: "length (drop_waiter t (add_waiter t g)) \<le> length g"
    by (simp add: add_waiter_def drop_waiter_def)
  show ?thesis
  proof (cases "maxPendingExecutionProfileRequests \<le> length g \<or> err \<noteq> None \<or> (\<exists>e. r = Inl e)")
    case True
    then show ?thesis
      using assms that(1) Some d n s dropped by (auto simp: List_begin_def Let_def split: if_splits)
  next
    case False
    then have "r = Inr ()" by (cases r) auto
    with False have "res = Inr t" "g' = add_waiter t g"
      using assms Some d n s by (auto simp: List_begin_def Let_def)
    then show ?thesis using that(2) False by simp
  qed
qed

definition list_start :: "env \<times> registry \<times> string \<Rightarrow> world \<times> profile_result waiters \<Rightarrow>
    (profile_error + string) \<times> world \<times> profile_result waiters" where
  "list_start = (\<lambda>(ev, reg, q). List_begin ev reg q)"

interpretation profiles: gateway list_start profiles_Handle profiles_FailPending "\<lambda>e. Inl e" maxPendingExecutionProfileRequests
proof (unfold_locales, goal_cases)
  case (1 q w g t w' g')
  then show ?case by (auto simp: list_start_def split: prod.splits elim: List_begin_cases)
next
  case (2 q w g e w' g')
  then show ?case by (auto simp: list_start_def split: prod.splits elim: List_begin_cases)
next
  case (3 m g b g')
  then show ?case by (auto simp: profiles_Handle_def Let_def split: if_splits option.splits)
qed (simp add: profiles_FailPending_def)

subsection \<open>Properties\<close>

text \<open>A request that finds the table full.\<close>

lemma draw_id_conns: "wd_conns (snd (draw_id w)) = wd_conns w"
  by (simp add: draw_id_def Let_def split_beta)

lemma Read_begin_full:
  assumes "registry_Peer RoleAgent reg = Some peer" "maxPendingSourceReads \<le> length g"
  shows "\<exists>w'. Read_begin ev reg q (w, g) = (Inl ErrSourceBusy, w', g) \<and> inbox w' = inbox w"
  using assms draw_id_conns [of w] by (auto simp: Read_begin_def Let_def split_beta inbox_def)

lemma List_begin_full:
  assumes "registry_Peer RoleAgent reg = Some peer" "maxPendingExecutionProfileRequests \<le> length g"
  shows "\<exists>w'. List_begin ev reg q (w, g) = (Inl ErrExecutionProfilesBusy, w', g) \<and> inbox w' = inbox w"
  using assms draw_id_conns [of w] by (auto simp: List_begin_def Let_def split_beta inbox_def)

text \<open>
  Property C27. The requests that wait for the agent are bounded. No sequence of requests, answers, failures and timeouts, whatever agents
  connect and go meanwhile, lets either gateway hold more than sixteen pending requests; and with sixteen pending, a
  further request to a connected agent is refused as busy, without a message to the agent and without a change
  of the table.
\<close>

theorem gateways_bounded:
  assumes "gateway_steps (\<lambda>(ev, reg, q). Read_begin ev reg q) source_Handle source_FailPending [] g"
    and "gateway_steps (\<lambda>(ev, reg, q). List_begin ev reg q) profiles_Handle profiles_FailPending [] h"
    and "registry_Peer RoleAgent reg = Some agent"
  shows "length g \<le> 16 \<and> length h \<le> 16
    \<and> (length g = 16 \<longrightarrow> (\<exists>w'. Read_begin ev reg q (w, g) = (Inl ErrSourceBusy, w', g) \<and> inbox w' = inbox w))
    \<and> (length h = 16 \<longrightarrow> (\<exists>w'. List_begin ev reg p (w, h) = (Inl ErrExecutionProfilesBusy, w', h) \<and> inbox w' = inbox w))"
  using source.bounded [unfolded read_start_def, OF assms(1)] profiles.bounded [unfolded list_start_def, OF assms(2)]
    Read_begin_full [OF assms(3), of g ev q w] List_begin_full [OF assms(3), of h ev p w]
  by (simp add: maxPendingSourceReads_def maxPendingExecutionProfileRequests_def)

text \<open>
  Property C28. A source request asks the agent and is answered by it. When the request waits, the
  agent's queue holds the question under the request's trace id; the agent's reply for that trace id is
  what the request then returns: the snapshot, the agent's error code and message, or that the source is unavailable when the
  payload of the reply cannot be decoded. The table is left without the request and with all
  others as they were.
\<close>

theorem source_read_answered:
  assumes "Read_begin ev reg q (w, g) = (Inr t, w', g1)"
    and "m_type m = TypeSourceSnapshot \<or> m_type m = TypeSourceReadFailed" "m_trace_id m = t"
    and "source_Handle m g1 = (consumed, g2)" "Read_receive t g2 = (result, g3)"
  shows "consumed \<and> waiting t g3 = None \<and>
    (case (m_type m = TypeSourceSnapshot, decoded (PayloadAs source_snapshot_schema source_snapshot_zero m),
           decoded (PayloadAs source_read_failed_schema source_read_failed_zero m)) of
       (True, Some snap, _) \<Rightarrow> result = Some (Inr snap)
     | (False, _, Some p) \<Rightarrow> result = Some (Inl (SourceRemoteError (sf_code p) (sf_message p)))
     | _ \<Rightarrow> result = Some (Inl ErrSourceUnavailable)) \<and>
    (\<forall>t'. t' \<noteq> t \<longrightarrow> waiting t' g3 = waiting t' g) \<and>
    (\<exists>agent question. registry_Peer RoleAgent reg = Some agent \<and> m_type question = TypeSourceRead \<and>
       m_trace_id question = t \<and> m_payload question = Some (source_read_json q) \<and>
       inbox w' = (inbox w)(pe_id agent := inbox w (pe_id agent) @ [question]))"
  using assms(1)
proof (cases rule: Read_begin_cases)
  case (asked t0 agent question w2)
  have g2: "consumed" "g2 = reply_waiter t (source_outcome m) (add_waiter t g)"
    using assms(2-4) asked by (auto simp: source_Handle_def)
  then have "waiting t g2 = Some (Some (source_outcome m))" by (simp add: offer_result_def)
  then have "result = Some (source_outcome m)" "g3 = drop_waiter t g2"
    using assms(5) by (simp_all add: Read_receive_def)
  moreover have "inbox w' = (inbox w)(pe_id agent := inbox w (pe_id agent) @ [question])"
    using ws.send_ok [OF asked(9)] asked(8) by simp
  ultimately show ?thesis using g2 asked by (auto simp: source_outcome_def split: option.split)
qed simp

text \<open>What a pending request of either gateway takes once all have been failed.\<close>

lemmas failed_requests = source.fail_receive profiles.fail_receive

subsection \<open>A concrete request\<close>

definition demo_agent :: peer_ref where
  "demo_agent = \<lparr>pe_id = 1, pe_role = RoleAgent\<rparr>"

definition demo_agent_relay :: "unit relay" where
  "demo_agent_relay = snd (ServeRole_open demo_env None 4 RoleAgent demo_relay)"

definition demo_source_request :: source_read_payload where
  "demo_source_request = \<lparr>sr_project_id = ''p'', sr_path = ''main.go'', sr_focus_line = 0, sr_context_lines = 200\<rparr>"

lemma demo_agent_registered:
  "registry_Peer RoleAgent (rl_reg demo_agent_relay) = Some demo_agent"
  "wd_conns (rl_world demo_agent_relay) 1 =
     Some \<lparr>cn_role = RoleAgent, cn_queue = [], cn_cap = 4, cn_reason = None, cn_written = []\<rparr>"
  by (simp_all add: demo_agent_relay_def ServeRole_open_def accept_peer_def Let_def demo_relay_def demo_world_def
      Connect_def Replace_def registry_Peer_def NewRegistry_def demo_agent_def)

lemma demo_Read:
  "\<exists>t w'. Read_begin demo_env (rl_reg demo_agent_relay) demo_source_request (rl_world demo_agent_relay, []) =
     (Inr t, w', [(t, None)])"
proof -
  obtain t w1 where d: "draw_id (rl_world demo_agent_relay) = (t, w1)" by fastforce
  then have c1: "wd_conns w1 = wd_conns (rl_world demo_agent_relay)"
    by (auto simp: draw_id_def Let_def split: prod.splits)
  obtain m err w2 where n: "new_message demo_env TypeSourceRead t run_server (source_read_json demo_source_request) w1 = ((m, err), w2)"
    by (metis surj_pair)
  have err: "err = None"
    using n NewMessage_valid [of TypeSourceRead "ev_clock demo_env (wd_tick w1)" run_server t
        "source_read_json demo_source_request" "wd_rnd w1"] demo_clock
    by (auto simp: new_message_def run_server_def type_defs Let_def split: prod.splits)
  have c2: "wd_conns w2 = wd_conns w1"
    using new_message_conns [of demo_env TypeSourceRead t run_server "source_read_json demo_source_request" w1] n by simp
  have "\<exists>w3. peer_Send demo_env demo_agent m w2 = (Inr (), w3)"
    using peer_Send_room [of w2 demo_agent _ demo_env m] demo_agent_registered(2) c1 c2
    by (simp add: demo_agent_def)
  then show ?thesis
    using demo_agent_registered(1) d n err
    by (auto simp: Read_begin_def Let_def maxPendingSourceReads_def add_waiter_def drop_waiter_def)
qed

lemma demo_List:
  "\<exists>t w'. List_begin demo_env (rl_reg demo_agent_relay) ''p'' (rl_world demo_agent_relay, []) = (Inr t, w', [(t, None)])"
proof -
  obtain t w1 where d: "draw_id (rl_world demo_agent_relay) = (t, w1)" by fastforce
  then have c1: "wd_conns w1 = wd_conns (rl_world demo_agent_relay)" using draw_id_conns [of "rl_world demo_agent_relay"] by simp
  obtain m err w2 where n: "new_message demo_env TypeExecutionProfileList t run_server (execution_profile_list_json ''p'') w1 = ((m, err), w2)"
    by (metis surj_pair)
  have err: "err = None"
    using n NewMessage_valid [of TypeExecutionProfileList "ev_clock demo_env (wd_tick w1)" run_server t
        "execution_profile_list_json ''p''" "wd_rnd w1"] demo_clock
    by (auto simp: new_message_def run_server_def type_defs Let_def split: prod.splits)
  have c2: "wd_conns w2 = wd_conns w1"
    using new_message_conns [of demo_env TypeExecutionProfileList t run_server "execution_profile_list_json ''p''" w1] n by simp
  have "\<exists>w3. peer_Send demo_env demo_agent m w2 = (Inr (), w3)"
    using peer_Send_room [of w2 demo_agent _ demo_env m] demo_agent_registered(2) c1 c2 by (simp add: demo_agent_def)
  then show ?thesis
    using demo_agent_registered(1) d n err
    by (auto simp: List_begin_def Let_def maxPendingExecutionProfileRequests_def add_waiter_def drop_waiter_def)
qed

text \<open>One request of each gateway to the connected agent, and one more to nobody.\<close>

theorem gateways_bounded_witness:
  "\<exists>t u. gateway_steps (\<lambda>(ev, reg, q). Read_begin ev reg q) source_Handle source_FailPending [] [(t, None)]
     \<and> gateway_steps (\<lambda>(ev, reg, q). List_begin ev reg q) profiles_Handle profiles_FailPending [] [(u, None)]
     \<and> length [(t, None :: source_result option)] \<le> 16 \<and> length [(u, None :: profile_result option)] \<le> 16"
proof -
  obtain t w' where r: "Read_begin demo_env (rl_reg demo_agent_relay) demo_source_request (rl_world demo_agent_relay, []) =
     (Inr t, w', [(t, None)])" using demo_Read by blast
  obtain u w2 where l: "List_begin demo_env (rl_reg demo_agent_relay) ''p'' (rl_world demo_agent_relay, []) = (Inr u, w2, [(u, None)])"
    using demo_List by blast
  have "gateway_step (\<lambda>(ev, reg, q). Read_begin ev reg q) source_Handle source_FailPending [] [(t, None)]"
    using r by (intro gateway_step.started [of _ "(demo_env, rl_reg demo_agent_relay, demo_source_request)"]) simp
  moreover have "gateway_step (\<lambda>(ev, reg, q). Read_begin ev reg q) source_Handle source_FailPending [(t, None)] [(t, None)]"
    by (intro gateway_step.started [of _ "(demo_env, NewRegistry, demo_source_request)" w' _ "Inl ErrSourceAgentOffline" w'])
      (simp add: Read_begin_def registry_Peer_def NewRegistry_def)
  ultimately have source: "gateway_steps (\<lambda>(ev, reg, q). Read_begin ev reg q) source_Handle source_FailPending [] [(t, None)]"
    using gateway_steps.none gateway_steps.more by meson
  have "gateway_step (\<lambda>(ev, reg, q). List_begin ev reg q) profiles_Handle profiles_FailPending [] [(u, None)]"
    using l by (intro gateway_step.started [of _ "(demo_env, rl_reg demo_agent_relay, ''p'')"]) simp
  then have profiles: "gateway_steps (\<lambda>(ev, reg, q). List_begin ev reg q) profiles_Handle profiles_FailPending [] [(u, None)]"
    using gateway_steps.none gateway_steps.more by meson
  show ?thesis using source profiles gateways_bounded [OF source profiles demo_agent_registered(1)] by blast
qed

definition demo_snapshot :: "string \<Rightarrow> message" where
  "demo_snapshot t = \<lparr>m_spec_version = SpecVersion, m_message_id = ''m2'', m_type = TypeSourceSnapshot,
     m_occurred_at = second, m_trace_id = t, m_sender = CanonicalSender RoleAgent,
     m_payload = Some (JObj [(''content'', JStr ''package main'')]), m_agent_sequence = 0\<rparr>"

definition demo_failure :: "string \<Rightarrow> message" where
  "demo_failure t = (demo_snapshot t)\<lparr>m_type := TypeSourceReadFailed, m_payload := Some (JObj [(''code'', JStr ''denied'')])\<rparr>"

theorem source_read_answered_witness:
  "\<exists>t w' g1. Read_begin demo_env (rl_reg demo_agent_relay) demo_source_request (rl_world demo_agent_relay, []) =
      (Inr t, w', g1) \<and>
    fst (Read_receive t (snd (source_Handle (demo_snapshot t) g1))) =
      Some (Inr (source_snapshot_zero\<lparr>ss_content := ''package main''\<rparr>)) \<and>
    fst (Read_receive t (snd (source_Handle (demo_failure t) g1))) = Some (Inl (SourceRemoteError ''denied'' []))"
proof -
  obtain t w' where r: "Read_begin demo_env (rl_reg demo_agent_relay) demo_source_request (rl_world demo_agent_relay, []) =
     (Inr t, w', [(t, None)])" using demo_Read by blast
  have f: "fold_name ''content'' = ''CONTENT''" "fold_name ''project_id'' = ''PROJECT_ID''" "fold_name ''path'' = ''PATH''"
    "fold_name ''code'' = ''CODE''" by code_simp+
  have d: "decoded (PayloadAs source_snapshot_schema source_snapshot_zero (demo_snapshot t)) =
      Some (source_snapshot_zero\<lparr>ss_content := ''package main''\<rparr>)"
    by (simp add: PayloadAs_def demo_snapshot_def dec_struct_def source_snapshot_schema_def equal_fold_def f dec_str_def)
  have d': "decoded (PayloadAs source_read_failed_schema source_read_failed_zero (demo_failure t)) =
      Some (source_read_failed_zero\<lparr>sf_code := ''denied''\<rparr>)"
    by (simp add: PayloadAs_def demo_failure_def dec_struct_def source_read_failed_schema_def equal_fold_def f dec_str_def)
  have z: "sf_message source_read_failed_zero = []" by (simp add: source_read_failed_zero_def)
  obtain b g2 where h: "source_Handle (demo_snapshot t) [(t, None)] = (b, g2)" by fastforce
  obtain res g3 where v: "Read_receive t g2 = (res, g3)" by fastforce
  obtain b' g2' where h': "source_Handle (demo_failure t) [(t, None)] = (b', g2')" by fastforce
  obtain res' g3' where v': "Read_receive t g2' = (res', g3')" by fastforce
  have ty: "m_type (demo_snapshot t) = TypeSourceSnapshot" "m_type (demo_failure t) = TypeSourceReadFailed"
    "m_trace_id (demo_snapshot t) = t" "m_trace_id (demo_failure t) = t" "TypeSourceReadFailed \<noteq> TypeSourceSnapshot"
    by (simp_all add: demo_snapshot_def demo_failure_def type_defs)
  show ?thesis using source_read_answered [OF r _ _ h v] source_read_answered [OF r _ _ h' v'] r h v h' v' ty d d' z by simp
qed

end
