(* ===== verification/Go_Strconv.thy ===== *)
theory Go_Strconv
  imports Go_Json
begin

section \<open>The Go library: integers as text\<close>

text \<open>
  \<^verbatim>\<open>strconv.FormatInt\<close>, \<^verbatim>\<open>strconv.ParseInt\<close> and \<^verbatim>\<open>strconv.Atoi\<close> in base 10 and 64 bits, with the
  value a failed parse leaves behind, which one caller uses.
\<close>

fun nat_digits :: "nat \<Rightarrow> string" where
  "nat_digits n = (if n < 10 then [digit_char (int n)] else nat_digits (n div 10) @ [digit_char (int n)])"

declare nat_digits.simps [simp del]

definition FormatInt :: "int \<Rightarrow> string" where
  "FormatInt n = (if n < 0 then CHR ''-'' # nat_digits (nat (- n)) else nat_digits (nat n))"

text \<open>The sign and the digits after it.\<close>

definition split_sign :: "string \<Rightarrow> bool \<times> string" where
  "split_sign s =
     (case s of
        [] \<Rightarrow> (False, [])
      | c # rest \<Rightarrow> if c = CHR ''-'' then (True, rest) else if c = CHR ''+'' then (False, rest) else (False, s))"

text \<open>A syntax error leaves 0, a value out of range the bound it passes; the flag says that there is no error.\<close>

definition ParseInt :: "string \<Rightarrow> int \<times> bool" where
  "ParseInt s =
     (let (neg, ds) = split_sign s in
      case parse_digits ds of
        None \<Rightarrow> (0, False)
      | Some n \<Rightarrow>
          (let v = (if neg then - n else n) in
           if int64_ok v then (v, True) else (if neg then - (2 ^ 63) else 2 ^ 63 - 1, False)))"

definition Atoi :: "string \<Rightarrow> int option" where
  "Atoi s = decoded (ParseInt s)"

lemma nat_digits_digits [simp]: "list_all is_digit (nat_digits n)" "nat_digits n \<noteq> []"
  by (induction n rule: nat_digits.induct; subst nat_digits.simps; simp)+

lemma digits_value_nat [simp]: "digits_value (nat_digits n) = int n"
proof (induction n rule: nat_digits.induct)
  case (1 n)
  show ?case
  proof (cases "n < 10")
    case True
    then show ?thesis by (subst nat_digits.simps) (simp add: digits_value_def)
  next
    case False
    have "digits_value (nat_digits n) = 10 * digits_value (nat_digits (n div 10)) + int n mod 10"
      using False by (subst nat_digits.simps) (simp add: digits_value_def)
    then show ?thesis using 1 False by (simp add: zdiv_int)
  qed
qed

lemma sign_no_digit: "is_digit c \<Longrightarrow> c \<noteq> CHR ''-'' \<and> c \<noteq> CHR ''+''"
  by (auto simp: is_digit_def)

lemma ParseInt_FormatInt [simp]:
  assumes "int64_ok n"
  shows "ParseInt (FormatInt n) = (n, True)"
proof -
  have p: "parse_digits (nat_digits k) = Some (int k)" for k by (simp add: parse_digits_def)
  have "split_sign (nat_digits k) = (False, nat_digits k)" for k
    using nat_digits_digits [of k] sign_no_digit by (cases "nat_digits k") (auto simp: split_sign_def)
  then show ?thesis using assms p by (auto simp: FormatInt_def ParseInt_def) (simp_all add: split_sign_def p)
qed

lemma FormatInt_inject: "int64_ok m \<Longrightarrow> int64_ok n \<Longrightarrow> FormatInt m = FormatInt n \<Longrightarrow> m = n"
  by (metis ParseInt_FormatInt Pair_inject)

lemma ParseInt_ok: "ParseInt s = (n, True) \<Longrightarrow> int64_ok n"
  by (auto simp: ParseInt_def Let_def split: prod.splits option.splits if_splits)

lemma FormatInt_chars: "0 \<le> n \<Longrightarrow> list_all is_digit (FormatInt n)"
  by (simp add: FormatInt_def)

end
