(* ===== verification/Runtime_Tables.thy ===== *)
theory Runtime_Tables
  imports Protocol
begin

section \<open>The runtime store: tables and their schema\<close>

text \<open>
  The rows of the seven tables of \<^verbatim>\<open>internal/runtime/migrations\<close>, the constraints declared
  there, and the structs of \<^verbatim>\<open>internal/runtime/types.go\<close> that the store returns. A statement
  that would break a constraint is refused, so every statement that changes a table goes through
  \<open>tx_change\<close>. The column \<^verbatim>\<open>schema_version\<close> is 1 in every row and never read. Statements
  PostgreSQL refuses for a reason the tables do not show (a NUL byte in a text, a deadlock, an
  exhausted \<^verbatim>\<open>bigint\<close>) are \<^const>\<open>Dropped\<close> round trips.

  Two services of PostgreSQL stay parameters (record \<open>pgsql\<close>): the normal form \<^verbatim>\<open>jsonb\<close> gives a
  JSON value, and the collation that orders texts.
\<close>

record pgsql =
  pg_jsonb :: "json \<Rightarrow> json"
  pg_le :: "string \<Rightarrow> string \<Rightarrow> bool"

datatype rt_error =
    ErrNotFound
  | ErrIdempotencyConflict
  | ErrDatabase
  | ErrPageLimit
  | ErrBatchOrder int int

subsection \<open>Rows\<close>

record project_row =
  prj_id :: string
  prj_name :: string
  prj_seen :: "string option"
  prj_archived :: "time option"
  prj_created :: time
  prj_updated :: time

record session_row =
  ses_id :: string
  ses_project :: string
  ses_thread :: "string option"
  ses_title :: "string option"
  ses_last :: int
  ses_key :: "string option"
  ses_hash :: "string option"
  ses_created :: time
  ses_updated :: time
  ses_seen :: "string option"
  ses_archived :: "time option"

record run_row =
  rn_id :: string
  rn_session :: string
  rn_turn :: "string option"
  rn_status :: string
  rn_version :: int
  rn_key :: "string option"
  rn_hash :: "string option"
  rn_prompt :: "string option"
  rn_cancel :: "time option"
  rn_persisted :: int
  rn_final :: "int option"
  rn_error_code :: "string option"
  rn_error_message :: "string option"
  rn_created :: time
  rn_started :: "time option"
  rn_finished :: "time option"
  rn_updated :: time
  rn_profile :: "string option"

record session_event_row =
  sev_session :: string
  sev_seq :: int
  sev_type :: string
  sev_payload :: json
  sev_created :: time

record run_event_row =
  rev_run :: string
  rev_seq :: int
  rev_type :: string
  rev_payload :: json
  rev_occurred :: time
  rev_persisted :: time

record command_row =
  out_id :: string
  out_type :: string
  out_resource :: string
  out_payload :: json
  out_status :: string
  out_attempts :: int
  out_next :: time
  out_claimed_by :: "string option"
  out_expires :: "time option"
  out_delivered :: "time option"
  out_error :: "string option"
  out_created :: time

record sync_row =
  job_id :: string
  job_status :: string
  job_key :: string
  job_snapshot :: "string option"
  job_last :: int
  job_checksum :: "string option"
  job_items :: int
  job_error_code :: "string option"
  job_error_message :: "string option"
  job_created :: time
  job_updated :: time
  job_total :: int
  job_processed :: int
  job_archived_sessions :: int
  job_archived_projects :: int
  job_reconciled :: bool

record rt_db =
  projects :: "project_row list"
  sessions :: "session_row list"
  runs :: "run_row list"
  session_events :: "session_event_row list"
  run_events :: "run_event_row list"
  command_outbox :: "command_row list"
  sync_jobs :: "sync_row list"

definition empty_db :: rt_db where
  "empty_db = \<lparr>projects = [], sessions = [], runs = [], session_events = [], run_events = [],
     command_outbox = [], sync_jobs = []\<rparr>"

subsection \<open>Constraints\<close>

definition run_statuses :: "string list" where
  "run_statuses = [''queued'', ''dispatching'', ''accepted'', ''running'', ''waiting_agent'', ''recovering'',
     ''finalizing'', ''completed'', ''failed'', ''canceled'']"

definition event_types :: "string list" where
  "event_types = [''run.created'', ''run.status.changed'', ''run.completed'']"

definition command_types :: "string list" where
  "command_types = [''run.start'', ''run.cancel'', ''bootstrap.start'']"

definition command_statuses :: "string list" where
  "command_statuses = [''pending'', ''claimed'', ''delivered'', ''dead'']"

definition job_statuses :: "string list" where
  "job_statuses = [''queued'', ''running'', ''completed'', ''failed'']"

text \<open>The values of a partial unique index: those of the rows that have one.\<close>

definition present :: "('r \<Rightarrow> 'v option) \<Rightarrow> 'r list \<Rightarrow> 'v list" where
  "present c t = List.map_filter c t"

definition rn_scoped_key :: "run_row \<Rightarrow> (string \<times> string) option" where
  "rn_scoped_key r = map_option (Pair (rn_session r)) (rn_key r)"

definition job_active :: "sync_row \<Rightarrow> bool" where
  "job_active j \<longleftrightarrow> job_status j = ''queued'' \<or> job_status j = ''running''"

definition projects_ok :: "rt_db \<Rightarrow> bool" where
  "projects_ok db \<longleftrightarrow> distinct (map prj_id (projects db))"

definition sessions_ok :: "rt_db \<Rightarrow> bool" where
  "sessions_ok db \<longleftrightarrow>
     distinct (map ses_id (sessions db)) \<and> distinct (present ses_thread (sessions db))
     \<and> distinct (present ses_key (sessions db))
     \<and> (\<forall>s \<in> set (sessions db). ses_project s \<in> prj_id ` set (projects db) \<and> 0 \<le> ses_last s
          \<and> (ses_key s = None \<longleftrightarrow> ses_hash s = None))"

definition runs_ok :: "rt_db \<Rightarrow> bool" where
  "runs_ok db \<longleftrightarrow>
     distinct (map rn_id (runs db)) \<and> distinct (present rn_turn (runs db))
     \<and> distinct (present rn_scoped_key (runs db))
     \<and> (\<forall>r \<in> set (runs db). rn_session r \<in> ses_id ` set (sessions db) \<and> rn_status r \<in> set run_statuses
          \<and> 0 < rn_version r \<and> 0 \<le> rn_persisted r \<and> (\<forall>n. rn_final r = Some n \<longrightarrow> 0 < n)
          \<and> (rn_key r = None \<longleftrightarrow> rn_hash r = None))"

definition session_events_ok :: "rt_db \<Rightarrow> bool" where
  "session_events_ok db \<longleftrightarrow>
     distinct (map (\<lambda>e. (sev_session e, sev_seq e)) (session_events db))
     \<and> (\<forall>e \<in> set (session_events db). sev_session e \<in> ses_id ` set (sessions db) \<and> 0 < sev_seq e
          \<and> sev_type e \<in> set event_types)"

definition run_events_ok :: "rt_db \<Rightarrow> bool" where
  "run_events_ok db \<longleftrightarrow>
     distinct (map (\<lambda>e. (rev_run e, rev_seq e)) (run_events db))
     \<and> (\<forall>e \<in> set (run_events db). rev_run e \<in> rn_id ` set (runs db) \<and> 0 < rev_seq e)"

definition outbox_ok :: "rt_db \<Rightarrow> bool" where
  "outbox_ok db \<longleftrightarrow>
     distinct (map out_id (command_outbox db))
     \<and> distinct (map (\<lambda>c. (out_type c, out_resource c)) (command_outbox db))
     \<and> (\<forall>c \<in> set (command_outbox db). out_type c \<in> set command_types \<and> out_status c \<in> set command_statuses
          \<and> 0 \<le> out_attempts c \<and> (out_status c = ''delivered'' \<longrightarrow> out_delivered c \<noteq> None))"

definition sync_jobs_ok :: "rt_db \<Rightarrow> bool" where
  "sync_jobs_ok db \<longleftrightarrow>
     distinct (map job_id (sync_jobs db)) \<and> distinct (map job_key (sync_jobs db))
     \<and> length (filter job_active (sync_jobs db)) \<le> 1
     \<and> (\<forall>j \<in> set (sync_jobs db). job_status j \<in> set job_statuses \<and> - 1 \<le> job_last j \<and> 0 \<le> job_items j
          \<and> 0 \<le> job_total j \<and> 0 \<le> job_processed j \<and> 0 \<le> job_archived_sessions j
          \<and> 0 \<le> job_archived_projects j)"

definition rt_schema :: "rt_db \<Rightarrow> bool" where
  "rt_schema db \<longleftrightarrow> projects_ok db \<and> sessions_ok db \<and> runs_ok db \<and> session_events_ok db
     \<and> run_events_ok db \<and> outbox_ok db \<and> sync_jobs_ok db"

lemmas schema_defs = rt_schema_def projects_ok_def sessions_ok_def runs_ok_def session_events_ok_def
  run_events_ok_def outbox_ok_def sync_jobs_ok_def

lemma present_simps [simp]:
  "present c [] = []"
  "present c (r # t) = (case c r of None \<Rightarrow> present c t | Some v \<Rightarrow> v # present c t)"
  by (auto simp: present_def List.map_filter_def split: option.splits)

lemma present_append [simp]: "present c (t @ u) = present c t @ present c u"
  by (simp add: present_def List.map_filter_def)

lemma set_present: "set (present c t) = {v. \<exists>r \<in> set t. c r = Some v}"
  by (induction t) (auto split: option.splits)

lemma present_sql_update [simp]:
  "(\<And>r. c (f r) = c r) \<Longrightarrow> present c (sql_update P f t) = present c t"
  by (induction t) (auto split: option.splits)

lemma present_unique:
  assumes "distinct (present c t)" "r \<in> set t" "q \<in> set t" "c r = Some v" "c q = Some v"
  shows "r = q"
  using assms by (induction t) (auto simp: set_present split: option.splits)

lemma find_present_unique:
  "distinct (present c t) \<Longrightarrow> r \<in> set t \<Longrightarrow> c r = Some v \<Longrightarrow> find (\<lambda>q. c q = Some v) t = Some r"
  by (induction t) (auto simp: set_present split: option.splits)

lemma empty_db_schema [simp]: "rt_schema empty_db"
  by (simp add: schema_defs empty_db_def)

subsection \<open>Statements\<close>

text \<open>A statement that changes the tables and returns a value, and one that returns none.\<close>

definition tx_change_ret :: "(rt_db \<Rightarrow> rt_db) \<Rightarrow> (rt_db \<Rightarrow> 'a) \<Rightarrow> (rt_db, rt_error, 'a) tx" where
  "tx_change_ret f ret =
     tx_stmt ErrDatabase (\<lambda>db. if rt_schema (f db) then Inr (ret (f db), f db) else Inl ErrDatabase)"

definition tx_change :: "(rt_db \<Rightarrow> rt_db) \<Rightarrow> (rt_db, rt_error, unit) tx" where
  "tx_change f = tx_change_ret f (\<lambda>_. ())"

definition tx_rt_query :: "(rt_db \<Rightarrow> 'a) \<Rightarrow> (rt_db, rt_error, 'a) tx" where
  "tx_rt_query q = tx_query ErrDatabase q"

text \<open>A query for one row, with the error its absence stands for.\<close>

definition tx_one :: "rt_error \<Rightarrow> (rt_db \<Rightarrow> 'a option) \<Rightarrow> (rt_db, rt_error, 'a) tx" where
  "tx_one missing q = tx_bind (tx_rt_query q) (\<lambda>x. case x of None \<Rightarrow> tx_fail missing | Some a \<Rightarrow> tx_return a)"

text \<open>A statement outside a transaction: it is carried out although its reply may be lost.\<close>

definition autocommit :: "wire \<Rightarrow> (rt_db \<Rightarrow> rt_db) \<Rightarrow> rt_db \<Rightarrow> (rt_error + unit) \<times> rt_db" where
  "autocommit w f db =
     (case w of
        Dropped \<Rightarrow> (Inl ErrDatabase, db)
      | Delivered \<Rightarrow> (if rt_schema (f db) then (Inr (), f db) else (Inl ErrDatabase, db))
      | ReplyLost \<Rightarrow> (Inl ErrDatabase, if rt_schema (f db) then f db else db))"

text \<open>A query outside a transaction.\<close>

definition pool_query :: "wire \<Rightarrow> (rt_db \<Rightarrow> rt_error + 'a) \<Rightarrow> rt_db \<Rightarrow> rt_error + 'a" where
  "pool_query w q db = (if w = Delivered then q db else Inl ErrDatabase)"

lemma tx_hoare_change_ret [tx_rules]:
  "(\<And>db. P db \<Longrightarrow> rt_schema (f db) \<Longrightarrow> Q (ret (f db)) (f db)) \<Longrightarrow> tx_hoare P (tx_change_ret f ret) Q"
  unfolding tx_change_ret_def by (rule tx_hoare_stmt) (auto split: if_splits)

lemma tx_hoare_change [tx_rules]:
  "(\<And>db. P db \<Longrightarrow> rt_schema (f db) \<Longrightarrow> Q () (f db)) \<Longrightarrow> tx_hoare P (tx_change f) Q"
  unfolding tx_change_def by (rule tx_hoare_change_ret) simp

lemma tx_hoare_rt_query [tx_rules]:
  "(\<And>db. P db \<Longrightarrow> Q (q db) db) \<Longrightarrow> tx_hoare P (tx_rt_query q) Q"
  unfolding tx_rt_query_def by (rule tx_hoare_query) simp

lemma tx_hoare_one [tx_rules]:
  "(\<And>db a. P db \<Longrightarrow> q db = Some a \<Longrightarrow> Q a db) \<Longrightarrow> tx_hoare P (tx_one e q) Q"
  unfolding tx_one_def
  by (rule tx_hoare_bind [where R = "\<lambda>x db. P db \<and> q db = x"])
    (auto intro!: tx_rules split: option.splits)

lemma tx_change_ret_no_faults [simp]:
  "tx_change_ret f ret no_faults (n, db) =
     (if rt_schema (f db) then Inr (ret (f db), Suc n, f db) else Inl ErrDatabase)"
  by (simp add: tx_change_ret_def)

lemma tx_change_no_faults [simp]:
  "tx_change f no_faults (n, db) = (if rt_schema (f db) then Inr ((), Suc n, f db) else Inl ErrDatabase)"
  by (simp add: tx_change_def)

lemma tx_rt_query_no_faults [simp]: "tx_rt_query q no_faults (n, db) = Inr (q db, Suc n, db)"
  by (simp add: tx_rt_query_def)

lemma tx_one_no_faults [simp]:
  "tx_one e q no_faults (n, db) = (case q db of None \<Rightarrow> Inl e | Some a \<Rightarrow> Inr (a, Suc n, db))"
  by (simp add: tx_one_def split: option.splits)

lemma autocommit_cases:
  "autocommit w f db = (r, db') \<Longrightarrow> db' = db \<or> db' = f db \<and> rt_schema (f db)"
  by (auto simp: autocommit_def split: wire.splits if_splits)

end
