(* ===== verification/Runtime_Store.thy ===== *)
theory Runtime_Store
  imports Runtime_Tables
begin

section \<open>The runtime store: projects, sessions, runs and the command outbox\<close>

text \<open>
  The methods of \<open>PostgresStore\<close> (\<^verbatim>\<open>internal/runtime/postgres.go\<close>) except the bootstrap
  import, which has its own theory. A method that uses several connections of the pool is a sequence
  of phases; record \<open>rt_call\<close> says for the \<open>k\<close>-th phase which round trips were lost, what \<^verbatim>\<open>now()\<close>
  was, and what other connections did to the tables before it. A transaction is one atomic step: the
  sources lock the rows they read before they write (\<^verbatim>\<open>FOR UPDATE\<close>) or change them by
  self-contained updates. Identifiers are drawn from the random source when the call starts;
  the code draws them when it reaches the insert.
\<close>

record rt_call =
  rc_flt :: "nat \<Rightarrow> faults"
  rc_now :: "nat \<Rightarrow> time"
  rc_itf :: "nat \<Rightarrow> rt_db \<Rightarrow> rt_db"
  rc_clock :: time

definition newID :: "string \<Rightarrow> entropy \<Rightarrow> string \<times> entropy" where
  "newID pre e = (let (bs, e') = rand_read 16 e in (pre @ ''_'' @ hex_encode bs, e'))"

subsection \<open>What the store returns\<close>

record project =
  project_ID :: string
  project_DisplayName :: string

record session =
  session_ID :: string
  session_ProjectID :: string
  session_CodexThreadID :: string
  session_Title :: string
  session_LastSessionSequence :: int
  session_LatestRunStatus :: string
  session_CreatedAt :: time
  session_UpdatedAt :: time

record session_event =
  sevent_Sequence :: int
  sevent_Type :: string
  sevent_Payload :: json
  sevent_CreatedAt :: time

record run_event =
  revent_Sequence :: int
  revent_Type :: string
  revent_Payload :: json
  revent_OccurredAt :: time

record run =
  run_ID :: string
  run_SessionID :: string
  run_CodexTurnID :: string
  run_Status :: string
  run_StateVersion :: int
  run_Prompt :: string
  run_PermissionProfileID :: string
  run_CancelRequestedAt :: "time option"
  run_PersistedThroughSequence :: int
  run_FinalSequence :: "int option"
  run_ErrorCode :: string
  run_ErrorMessage :: string
  run_CreatedAt :: time
  run_StartedAt :: "time option"
  run_FinishedAt :: "time option"
  run_UpdatedAt :: time
  run_Events :: "run_event list"

record command =
  command_ID :: string
  command_Type :: string
  command_ResourceID :: string
  command_Payload :: json

definition session_of :: "session_row \<Rightarrow> session" where
  "session_of s = \<lparr>session_ID = ses_id s, session_ProjectID = ses_project s,
     session_CodexThreadID = or_empty (ses_thread s), session_Title = or_empty (ses_title s),
     session_LastSessionSequence = ses_last s, session_LatestRunStatus = [],
     session_CreatedAt = ses_created s, session_UpdatedAt = ses_updated s\<rparr>"

definition scanRun :: "run_row \<Rightarrow> run" where
  "scanRun r = \<lparr>run_ID = rn_id r, run_SessionID = rn_session r, run_CodexTurnID = or_empty (rn_turn r),
     run_Status = rn_status r, run_StateVersion = rn_version r, run_Prompt = or_empty (rn_prompt r),
     run_PermissionProfileID = or_empty (rn_profile r), run_CancelRequestedAt = rn_cancel r,
     run_PersistedThroughSequence = rn_persisted r, run_FinalSequence = rn_final r,
     run_ErrorCode = or_empty (rn_error_code r), run_ErrorMessage = or_empty (rn_error_message r),
     run_CreatedAt = rn_created r, run_StartedAt = rn_started r, run_FinishedAt = rn_finished r,
     run_UpdatedAt = rn_updated r, run_Events = []\<rparr>"

definition session_event_of :: "session_event_row \<Rightarrow> session_event" where
  "session_event_of e = \<lparr>sevent_Sequence = sev_seq e, sevent_Type = sev_type e,
     sevent_Payload = sev_payload e, sevent_CreatedAt = sev_created e\<rparr>"

definition run_event_of :: "run_event_row \<Rightarrow> run_event" where
  "run_event_of e = \<lparr>revent_Sequence = rev_seq e, revent_Type = rev_type e,
     revent_Payload = rev_payload e, revent_OccurredAt = rev_occurred e\<rparr>"

definition command_of :: "command_row \<Rightarrow> command" where
  "command_of c = \<lparr>command_ID = out_id c, command_Type = out_type c, command_ResourceID = out_resource c,
     command_Payload = out_payload c\<rparr>"

subsection \<open>Sorting\<close>

fun insort_by :: "('a \<Rightarrow> 'a \<Rightarrow> bool) \<Rightarrow> 'a \<Rightarrow> 'a list \<Rightarrow> 'a list" where
  "insort_by le x [] = [x]"
| "insort_by le x (y # ys) = (if le x y then x # y # ys else y # insort_by le x ys)"

definition order_by :: "('a \<Rightarrow> 'a \<Rightarrow> bool) \<Rightarrow> 'a list \<Rightarrow> 'a list" where
  "order_by le xs = foldr (insort_by le) xs []"

lemma set_insort_by [simp]: "set (insort_by le x xs) = insert x (set xs)"
  by (induction xs) auto

lemma set_order_by [simp]: "set (order_by le xs) = set xs"
  by (induction xs) (auto simp: order_by_def)

lemma length_insort_by [simp]: "length (insort_by le x xs) = Suc (length xs)"
  by (induction xs) auto

lemma length_order_by [simp]: "length (order_by le xs) = length xs"
  by (induction xs) (auto simp: order_by_def)

lemma sorted_order_by:
  assumes total: "\<And>a b. le a b \<or> le b a" and trans: "\<And>a b c. le a b \<Longrightarrow> le b c \<Longrightarrow> le a c"
  shows "sorted_wrt le (order_by le xs)"
proof -
  have ins: "sorted_wrt le ys \<Longrightarrow> sorted_wrt le (insort_by le x ys)" for x ys
    by (induction ys) (use total trans in \<open>auto\<close>)
  show ?thesis by (induction xs) (auto simp: order_by_def ins)
qed

subsection \<open>Projects\<close>

definition upsert_project :: "time \<Rightarrow> string \<Rightarrow> string \<Rightarrow> rt_db \<Rightarrow> rt_db" where
  "upsert_project now pid name db =
     (if sql_exists (\<lambda>p. prj_id p = pid) (projects db) then
        db\<lparr>projects := sql_update (\<lambda>p. prj_id p = pid)
             (\<lambda>p. p\<lparr>prj_name := name, prj_archived := None, prj_updated := now\<rparr>) (projects db)\<rparr>
      else
        db\<lparr>projects := projects db @ [\<lparr>prj_id = pid, prj_name = name, prj_seen = None, prj_archived = None,
             prj_created = now, prj_updated = now\<rparr>]\<rparr>)"

fun upsert_each :: "time \<Rightarrow> project list \<Rightarrow> (rt_db, rt_error, unit) tx" where
  "upsert_each now [] = tx_return ()"
| "upsert_each now (p # ps) =
     (if trim_space (project_ID p) = [] \<or> trim_space (project_DisplayName p) = [] then upsert_each now ps
      else tx_bind (tx_change (upsert_project now (project_ID p) (project_DisplayName p)))
             (\<lambda>_. upsert_each now ps))"

definition UpsertProjects :: "rt_call \<Rightarrow> project list \<Rightarrow> rt_db \<Rightarrow> (rt_error + unit) \<times> rt_db" where
  "UpsertProjects rc ps db =
     (if ps = [] then (Inr (), db)
      else run_tx ErrDatabase (rc_flt rc 0) (upsert_each (rc_now rc 0) ps) (rc_itf rc 0 db))"

definition ListProjects :: "pgsql \<Rightarrow> wire \<Rightarrow> rt_db \<Rightarrow> rt_error + project list" where
  "ListProjects pg w = pool_query w (\<lambda>db. Inr
     (map (\<lambda>p. \<lparr>project_ID = prj_id p, project_DisplayName = prj_name p\<rparr>)
       (order_by (\<lambda>p q. if prj_name p = prj_name q then pg_le pg (prj_id p) (prj_id q) else pg_le pg (prj_name p) (prj_name q))
         (filter (\<lambda>p. prj_archived p = None) (projects db)))))"

subsection \<open>Sessions\<close>

text \<open>The rows of \<^verbatim>\<open>sessions s JOIN projects p\<close> with neither archived.\<close>

definition visible :: "rt_db \<Rightarrow> session_row \<Rightarrow> bool" where
  "visible db s \<longleftrightarrow> ses_archived s = None
     \<and> sql_exists (\<lambda>p. prj_id p = ses_project s \<and> prj_archived p = None) (projects db)"

definition sessionByKey :: "string \<Rightarrow> rt_db \<Rightarrow> rt_error + session \<times> string option" where
  "sessionByKey key db =
     (case find (\<lambda>s. ses_key s = Some key \<and> visible db s) (sessions db) of
        None \<Rightarrow> Inl ErrNotFound
      | Some s \<Rightarrow> Inr (session_of s, ses_hash s))"

definition insert_session :: "time \<Rightarrow> string \<Rightarrow> string \<Rightarrow> string \<Rightarrow> string \<Rightarrow> string \<Rightarrow> rt_db \<Rightarrow> rt_db" where
  "insert_session now sid projectID title key hash db =
     (if \<not> sql_exists (\<lambda>p. prj_id p = projectID \<and> prj_archived p = None) (projects db)
         \<or> sql_exists (\<lambda>s. ses_id s = sid \<or> ses_key s = Some key) (sessions db) then db
      else db\<lparr>sessions := sessions db @
        [\<lparr>ses_id = sid, ses_project = projectID, ses_thread = None, ses_title = Some title, ses_last = 0,
          ses_key = Some key, ses_hash = Some hash, ses_created = now, ses_updated = now, ses_seen = None,
          ses_archived = None\<rparr>]\<rparr>)"

text \<open>\<^verbatim>\<open>RETURNING\<close>: the new row, none when nothing was inserted.\<close>

definition inserted_session :: "rt_db \<Rightarrow> rt_db \<Rightarrow> session option" where
  "inserted_session db db' =
     (if length (sessions db') = length (sessions db) then None else Some (session_of (last (sessions db'))))"

definition keyed_result :: "string \<Rightarrow> session \<times> string option \<Rightarrow> rt_error + session \<times> bool" where
  "keyed_result hash existing =
     (if Some hash \<noteq> snd existing then Inl ErrIdempotencyConflict else Inr (fst existing, False))"

definition CreateSession :: "rt_call \<Rightarrow> entropy \<Rightarrow> string \<Rightarrow> string \<Rightarrow> string \<Rightarrow> string \<Rightarrow> rt_db \<Rightarrow>
    (rt_error + session \<times> bool) \<times> entropy \<times> rt_db" where
  "CreateSession rc e projectID title key hash db =
     (let db0 = rc_itf rc 0 db in
      case pool_query (rc_flt rc 0 0) (sessionByKey key) db0 of
        Inr existing \<Rightarrow> (keyed_result hash existing, e, db0)
      | Inl err \<Rightarrow>
          if err \<noteq> ErrNotFound then (Inl err, e, db0)
          else
            (let (sid, e1) = newID ''session'' e;
                 db1 = rc_itf rc 1 db0;
                 (r, db2) = autocommit (rc_flt rc 1 0) (insert_session (rc_now rc 1) sid projectID title key hash) db1 in
             case r of
               Inl err \<Rightarrow> (Inl err, e1, db2)
             | Inr _ \<Rightarrow>
                 (case inserted_session db1 db2 of
                    Some item \<Rightarrow> (Inr (item, True), e1, db2)
                  | None \<Rightarrow>
                      (let db3 = rc_itf rc 2 db2 in
                       case pool_query (rc_flt rc 2 0) (sessionByKey key) db3 of
                         Inl err \<Rightarrow> (Inl err, e1, db3)
                       | Inr existing \<Rightarrow> (keyed_result hash existing, e1, db3)))))"

definition latest_status :: "pgsql \<Rightarrow> rt_db \<Rightarrow> string \<Rightarrow> string" where
  "latest_status pg db sid =
     (case order_by (\<lambda>r q. rn_created q < rn_created r \<or> rn_created q = rn_created r \<and> pg_le pg (rn_id q) (rn_id r))
             (filter (\<lambda>r. rn_session r = sid) (runs db)) of
        [] \<Rightarrow> []
      | r # _ \<Rightarrow> rn_status r)"

definition ListSessions :: "pgsql \<Rightarrow> wire \<Rightarrow> string \<Rightarrow> rt_db \<Rightarrow> rt_error + session list" where
  "ListSessions pg w projectID = pool_query w (\<lambda>db. Inr
     (map (\<lambda>s. (session_of s)\<lparr>session_LatestRunStatus := latest_status pg db (ses_id s)\<rparr>)
       (order_by (\<lambda>s q. ses_updated q < ses_updated s \<or> ses_updated q = ses_updated s \<and> pg_le pg (ses_id q) (ses_id s))
         (filter (\<lambda>s. visible db s \<and> (projectID = [] \<or> ses_project s = projectID)) (sessions db)))))"

definition GetSession :: "wire \<Rightarrow> string \<Rightarrow> rt_db \<Rightarrow> rt_error + session" where
  "GetSession w sid = pool_query w (\<lambda>db.
     case find (\<lambda>s. ses_id s = sid \<and> visible db s) (sessions db) of
       None \<Rightarrow> Inl ErrNotFound
     | Some s \<Rightarrow> Inr (session_of s))"

subsection \<open>Reading runs and events\<close>

definition run_by_id :: "string \<Rightarrow> rt_db \<Rightarrow> rt_error + run" where
  "run_by_id rid db =
     (case by_key rn_id rid (runs db) of None \<Rightarrow> Inl ErrNotFound | Some r \<Rightarrow> Inr (scanRun r))"

definition run_events_after :: "string \<Rightarrow> int \<Rightarrow> rt_db \<Rightarrow> run_event list" where
  "run_events_after rid after_seq db =
     map run_event_of (sort_key rev_seq (filter (\<lambda>e. rev_run e = rid \<and> after_seq < rev_seq e) (run_events db)))"

definition session_events_after :: "string \<Rightarrow> int \<Rightarrow> rt_db \<Rightarrow> session_event list" where
  "session_events_after sid after_seq db =
     map session_event_of
       (sort_key sev_seq (filter (\<lambda>e. sev_session e = sid \<and> after_seq < sev_seq e) (session_events db)))"

definition ListRunEvents :: "wire \<Rightarrow> string \<Rightarrow> int \<Rightarrow> rt_db \<Rightarrow> rt_error + run_event list" where
  "ListRunEvents w rid after_seq = pool_query w (\<lambda>db. Inr (run_events_after rid after_seq db))"

definition ListSessionEvents :: "wire \<Rightarrow> string \<Rightarrow> int \<Rightarrow> rt_db \<Rightarrow> rt_error + session_event list" where
  "ListSessionEvents w sid after_seq = pool_query w (\<lambda>db. Inr (session_events_after sid after_seq db))"

text \<open>The query asks for one row more than the page; the extra row says that there are more.\<close>

definition ListRunEventsPage :: "wire \<Rightarrow> string \<Rightarrow> int \<Rightarrow> int \<Rightarrow> rt_db \<Rightarrow> rt_error + run_event list \<times> bool" where
  "ListRunEventsPage w rid after_seq limit db =
     (if limit < 1 then Inl ErrPageLimit
      else pool_query w (\<lambda>db.
        (let result = take (nat (limit + 1)) (run_events_after rid after_seq db);
             hasMore = limit < int (length result) in
         Inr (if hasMore then take (nat limit) result else result, hasMore))) db)"

definition ListSessionEventsPage :: "wire \<Rightarrow> string \<Rightarrow> int \<Rightarrow> int \<Rightarrow> rt_db \<Rightarrow> rt_error + session_event list \<times> bool" where
  "ListSessionEventsPage w sid after_seq limit db =
     (if limit < 1 then Inl ErrPageLimit
      else pool_query w (\<lambda>db.
        (let result = take (nat (limit + 1)) (session_events_after sid after_seq db);
             hasMore = limit < int (length result) in
         Inr (if hasMore then take (nat limit) result else result, hasMore))) db)"

definition ListRuns :: "pgsql \<Rightarrow> wire \<Rightarrow> string \<Rightarrow> rt_db \<Rightarrow> rt_error + run list" where
  "ListRuns pg w sid = pool_query w (\<lambda>db. Inr
     (map scanRun
       (order_by (\<lambda>r q. rn_created r < rn_created q \<or> rn_created r = rn_created q \<and> pg_le pg (rn_id r) (rn_id q))
         (filter (\<lambda>r. rn_session r = sid) (runs db)))))"

text \<open>\<open>GetRun\<close> uses phase \<open>k\<close> for the run and the next one for its events.\<close>

definition GetRun :: "rt_call \<Rightarrow> nat \<Rightarrow> string \<Rightarrow> bool \<Rightarrow> rt_db \<Rightarrow> (rt_error + run) \<times> rt_db" where
  "GetRun rc k rid withEvents db =
     (let db1 = rc_itf rc k db in
      case pool_query (rc_flt rc k 0) (run_by_id rid) db1 of
        Inl err \<Rightarrow> (Inl err, db1)
      | Inr item \<Rightarrow>
          if withEvents then
            (let db2 = rc_itf rc (Suc k) db1 in
             case ListRunEvents (rc_flt rc (Suc k) 0) rid 0 db2 of
               Inl err \<Rightarrow> (Inl err, db2)
             | Inr evs \<Rightarrow> (Inr (item\<lparr>run_Events := evs\<rparr>), db2))
          else (Inr item, db1))"

subsection \<open>Creating runs\<close>

text \<open>\<^verbatim>\<open>UPDATE sessions SET last_session_sequence=last_session_sequence+1 ... RETURNING\<close>.\<close>

definition bump_session :: "time \<Rightarrow> string \<Rightarrow> rt_db \<Rightarrow> rt_db" where
  "bump_session now sid db = db\<lparr>sessions := sql_update (\<lambda>s. ses_id s = sid)
     (\<lambda>s. s\<lparr>ses_last := ses_last s + 1, ses_updated := now\<rparr>) (sessions db)\<rparr>"

definition next_sequence :: "time \<Rightarrow> string \<Rightarrow> (rt_db, rt_error, int) tx" where
  "next_sequence now sid =
     tx_bind (tx_change_ret (bump_session now sid) (\<lambda>db. map_option ses_last (by_key ses_id sid (sessions db))))
       (\<lambda>x. case x of None \<Rightarrow> tx_fail ErrDatabase | Some n \<Rightarrow> tx_return n)"

definition add_session_event :: "pgsql \<Rightarrow> time \<Rightarrow> string \<Rightarrow> int \<Rightarrow> string \<Rightarrow> json \<Rightarrow> rt_db \<Rightarrow> rt_db" where
  "add_session_event pg now sid n ty payload db =
     db\<lparr>session_events := session_events db @ [\<lparr>sev_session = sid, sev_seq = n, sev_type = ty,
          sev_payload = pg_jsonb pg payload, sev_created = now\<rparr>]\<rparr>"

definition new_command :: "pgsql \<Rightarrow> time \<Rightarrow> string \<Rightarrow> string \<Rightarrow> string \<Rightarrow> json \<Rightarrow> command_row" where
  "new_command pg now cid ty res payload =
     \<lparr>out_id = cid, out_type = ty, out_resource = res, out_payload = pg_jsonb pg payload, out_status = ''pending'',
      out_attempts = 0, out_next = now, out_claimed_by = None, out_expires = None, out_delivered = None,
      out_error = None, out_created = now\<rparr>"

definition add_command :: "command_row \<Rightarrow> rt_db \<Rightarrow> rt_db" where
  "add_command c db = db\<lparr>command_outbox := command_outbox db @ [c]\<rparr>"

text \<open>Payloads: \<open>json.Marshal\<close> of a Go map writes its members in the order of the keys.\<close>

definition run_created_payload :: "string \<Rightarrow> string \<Rightarrow> time \<Rightarrow> json" where
  "run_created_payload sid rid created = JObj
     [(''occurred_at'', time_json created), (''run_id'', JStr rid), (''schema_version'', JNum 1),
      (''session_id'', JStr sid), (''status'', JStr ''queued'')]"

definition run_status_payload :: "string \<Rightarrow> string \<Rightarrow> string \<Rightarrow> json" where
  "run_status_payload sid rid status = JObj
     [(''run_id'', JStr rid), (''schema_version'', JNum 1), (''session_id'', JStr sid), (''status'', JStr status)]"

definition runStartCommandPayload :: "string \<Rightarrow> string \<Rightarrow> string \<Rightarrow> string \<Rightarrow> string \<Rightarrow> string \<Rightarrow> json" where
  "runStartCommandPayload commandID runID projectID threadID prompt permissionProfileID = JObj
     [(''command_id'', JStr commandID), (''permission_profile_id'', JStr permissionProfileID),
      (''project_id'', JStr projectID), (''prompt'', JStr prompt), (''run_id'', JStr runID),
      (''thread_id'', JStr threadID)]"

definition queued_run :: "time \<Rightarrow> string \<Rightarrow> string \<Rightarrow> string \<Rightarrow> string \<Rightarrow> string \<Rightarrow> string \<Rightarrow> run_row" where
  "queued_run now rid sid prompt profile key hash =
     \<lparr>rn_id = rid, rn_session = sid, rn_turn = None, rn_status = ''queued'', rn_version = 1, rn_key = Some key,
      rn_hash = Some hash, rn_prompt = Some prompt, rn_cancel = None, rn_persisted = 0, rn_final = None,
      rn_error_code = None, rn_error_message = None, rn_created = now, rn_started = None, rn_finished = None,
      rn_updated = now, rn_profile = nullif_empty profile\<rparr>"

definition run_by_key :: "string \<Rightarrow> string \<Rightarrow> rt_db \<Rightarrow> run_row option" where
  "run_by_key sid key db = find (\<lambda>r. rn_session r = sid \<and> rn_key r = Some key) (runs db)"

definition add_run :: "run_row \<Rightarrow> rt_db \<Rightarrow> rt_db" where
  "add_run r db = db\<lparr>runs := runs db @ [r]\<rparr>"

text \<open>The transaction of \<open>CreateRun\<close>: \<open>Inl\<close> the run another call created meanwhile, \<open>Inr\<close> the new one.\<close>

definition create_run_body :: "pgsql \<Rightarrow> time \<Rightarrow> string \<Rightarrow> string \<Rightarrow> string \<Rightarrow> string \<Rightarrow> string \<Rightarrow> string \<Rightarrow> string \<Rightarrow>
    (rt_db, rt_error, string + run \<times> int) tx" where
  "create_run_body pg now runID commandID sessionID prompt profile key hash =
     tx_bind (tx_one ErrNotFound (\<lambda>db. find (\<lambda>s. ses_id s = sessionID \<and> visible db s) (sessions db))) (\<lambda>s.
     tx_bind (tx_rt_query (run_by_key sessionID key)) (\<lambda>existing.
     case existing of
       Some r \<Rightarrow>
         if rn_hash r \<noteq> Some hash then tx_fail ErrIdempotencyConflict else tx_return (Inl (rn_id r))
     | None \<Rightarrow>
         tx_bind (tx_change (add_run (queued_run now runID sessionID prompt profile key hash))) (\<lambda>_.
         tx_bind (next_sequence now sessionID) (\<lambda>n.
         tx_bind (tx_change (add_session_event pg now sessionID n ''run.created''
                    (run_created_payload sessionID runID now))) (\<lambda>_.
         tx_bind (tx_change (add_command (new_command pg now commandID ''run.start'' runID
                    (runStartCommandPayload commandID runID (ses_project s) (or_empty (ses_thread s)) prompt profile)))) (\<lambda>_.
         tx_return (Inr (scanRun (queued_run now runID sessionID prompt profile key hash), n))))))))"

definition CreateRun :: "pgsql \<Rightarrow> rt_call \<Rightarrow> entropy \<Rightarrow> string \<Rightarrow> string \<Rightarrow> string \<Rightarrow> string \<Rightarrow> string \<Rightarrow> rt_db \<Rightarrow>
    (rt_error + run \<times> int \<times> bool) \<times> entropy \<times> rt_db" where
  "CreateRun pg rc e sessionID prompt profile key hash db =
     (let db0 = rc_itf rc 0 db;
          repeated = (\<lambda>k rid db. let (r, db') = GetRun rc k rid False db in
             (case r of Inl err \<Rightarrow> Inl err | Inr item \<Rightarrow> Inr (item, 0, False), db')) in
      case pool_query (rc_flt rc 0 0) (\<lambda>db. Inr (run_by_key sessionID key db)) db0 of
        Inl err \<Rightarrow> (Inl err, e, db0)
      | Inr (Some r) \<Rightarrow>
          (let db1 = rc_itf rc 1 db0 in
           case pool_query (rc_flt rc 1 0)
                  (\<lambda>db. case by_key rn_id (rn_id r) (runs db) of None \<Rightarrow> Inl ErrDatabase | Some q \<Rightarrow> Inr (rn_hash q)) db1 of
             Inl err \<Rightarrow> (Inl err, e, db1)
           | Inr storedHash \<Rightarrow>
               if storedHash \<noteq> Some hash then (Inl ErrIdempotencyConflict, e, db1)
               else (let (res, db2) = repeated 2 (rn_id r) db1 in (res, e, db2)))
      | Inr None \<Rightarrow>
          (let (runID, e1) = newID ''run'' e;
               (commandID, e2) = newID ''cmd'' e1;
               (res, db1) = run_tx ErrDatabase (rc_flt rc 1)
                 (create_run_body pg (rc_now rc 1) runID commandID sessionID prompt profile key hash) (rc_itf rc 1 db0) in
           case res of
             Inl err \<Rightarrow> (Inl err, e2, db1)
           | Inr (Inl rid) \<Rightarrow> (let (res, db2) = repeated 2 rid db1 in (res, e2, db2))
           | Inr (Inr (item, n)) \<Rightarrow> (Inr (item, n, True), e2, db1)))"

subsection \<open>Canceling\<close>

definition isTerminal :: "string \<Rightarrow> bool" where
  "isTerminal status \<longleftrightarrow> status = ''completed'' \<or> status = ''failed'' \<or> status = ''canceled''"

definition cancel_payload :: "string \<Rightarrow> string \<Rightarrow> string \<Rightarrow> json" where
  "cancel_payload rid threadID turnID =
     JObj [(''run_id'', JStr rid), (''thread_id'', JStr threadID), (''turn_id'', JStr turnID)]"

text \<open>\<^verbatim>\<open>ON CONFLICT(command_type,resource_id) DO NOTHING\<close>.\<close>

definition add_command_once :: "command_row \<Rightarrow> rt_db \<Rightarrow> rt_db" where
  "add_command_once c db =
     (if sql_exists (\<lambda>q. out_type q = out_type c \<and> out_resource q = out_resource c) (command_outbox db) then db
      else add_command c db)"

definition mark_cancel :: "time \<Rightarrow> string \<Rightarrow> rt_db \<Rightarrow> rt_db" where
  "mark_cancel t rid db = db\<lparr>runs := sql_update (\<lambda>r. rn_id r = rid)
     (\<lambda>r. r\<lparr>rn_cancel := Some (pg_time t), rn_version := rn_version r + 1, rn_updated := pg_time t\<rparr>) (runs db)\<rparr>"

text \<open>\<open>Some\<close> is the run as it was, when there is nothing to cancel; \<open>None\<close> asks to read it again.\<close>

definition cancel_body :: "pgsql \<Rightarrow> time \<Rightarrow> time \<Rightarrow> string \<Rightarrow> string \<Rightarrow> (rt_db, rt_error, run option) tx" where
  "cancel_body pg now clock commandID rid =
     tx_bind (tx_one ErrNotFound (\<lambda>db. by_key rn_id rid (runs db))) (\<lambda>r.
     if rn_cancel r \<noteq> None \<or> isTerminal (rn_status r) then tx_return (Some (scanRun r))
     else
       tx_bind (tx_one ErrDatabase (\<lambda>db. case by_key rn_id rid (runs db) of
           None \<Rightarrow> None
         | Some q \<Rightarrow> map_option (\<lambda>s. (or_empty (ses_thread s), or_empty (rn_turn q)))
             (by_key ses_id (rn_session q) (sessions db)))) (\<lambda>(threadID, turnID).
       tx_bind (tx_change (mark_cancel clock rid)) (\<lambda>_.
       tx_bind (tx_change (add_command_once
         (new_command pg now commandID ''run.cancel'' rid (cancel_payload rid threadID turnID)))) (\<lambda>_.
       tx_return None))))"

definition RequestCancel :: "pgsql \<Rightarrow> rt_call \<Rightarrow> entropy \<Rightarrow> string \<Rightarrow> rt_db \<Rightarrow> (rt_error + run) \<times> entropy \<times> rt_db" where
  "RequestCancel pg rc e rid db =
     (let (commandID, e1) = newID ''cmd'' e;
          (res, db1) = run_tx ErrDatabase (rc_flt rc 0)
            (cancel_body pg (rc_now rc 0) (rc_clock rc) commandID rid) (rc_itf rc 0 db) in
      case res of
        Inl err \<Rightarrow> (Inl err, e1, db1)
      | Inr (Some item) \<Rightarrow> (Inr item, e1, db1)
      | Inr None \<Rightarrow> (let (r, db2) = GetRun rc 1 rid False db1 in (r, e1, db2)))"

subsection \<open>The command outbox\<close>

text \<open>A command may be claimed when it is due and pending, or when its claim has run out.\<close>

definition claimable :: "time \<Rightarrow> command_row \<Rightarrow> bool" where
  "claimable now c \<longleftrightarrow>
     (out_status c = ''pending''
      \<or> out_status c = ''claimed'' \<and> (case out_expires c of Some t \<Rightarrow> t < now | None \<Rightarrow> False))
     \<and> out_next c \<le> now"

definition claim_command :: "time \<Rightarrow> string \<Rightarrow> string \<Rightarrow> rt_db \<Rightarrow> rt_db" where
  "claim_command now worker cid db = db\<lparr>command_outbox := sql_update (\<lambda>c. out_id c = cid)
     (\<lambda>c. c\<lparr>out_status := ''claimed'', out_claimed_by := Some worker, out_expires := Some (now + 15 * second),
            out_attempts := out_attempts c + 1\<rparr>) (command_outbox db)\<rparr>"

definition dispatch_run :: "time \<Rightarrow> string \<Rightarrow> rt_db \<Rightarrow> rt_db" where
  "dispatch_run now rid db = db\<lparr>runs := sql_update
     (\<lambda>r. rn_id r = rid \<and> (rn_status r = ''queued'' \<or> rn_status r = ''waiting_agent''))
     (\<lambda>r. r\<lparr>rn_status := ''dispatching'', rn_version := rn_version r + 1, rn_updated := now\<rparr>) (runs db)\<rparr>"

text \<open>
  The code ignores the error of the second statement; the transaction is then aborted and its commit
  fails, so the outcome is that of an error.
\<close>

fun claim_each :: "time \<Rightarrow> string \<Rightarrow> command list \<Rightarrow> (rt_db, rt_error, unit) tx" where
  "claim_each now worker [] = tx_return ()"
| "claim_each now worker (c # cs) =
     tx_bind (tx_change (claim_command now worker (command_ID c))) (\<lambda>_.
     tx_bind (if command_Type c = ''run.start'' then tx_change (dispatch_run now (command_ResourceID c)) else tx_return ())
       (\<lambda>_. claim_each now worker cs))"

text \<open>\<open>locked\<close> are the commands whose rows other transactions hold: \<^verbatim>\<open>SKIP LOCKED\<close> passes them over.\<close>

definition due_commands :: "time \<Rightarrow> (string \<Rightarrow> bool) \<Rightarrow> nat \<Rightarrow> rt_db \<Rightarrow> command list" where
  "due_commands now locked limit db = map command_of (take limit
     (sort_key out_created (filter (\<lambda>c. claimable now c \<and> \<not> locked (out_id c)) (command_outbox db))))"

definition claim_body :: "time \<Rightarrow> (string \<Rightarrow> bool) \<Rightarrow> string \<Rightarrow> nat \<Rightarrow> (rt_db, rt_error, command list) tx" where
  "claim_body now locked worker limit =
     tx_bind (tx_rt_query (due_commands now locked limit)) (\<lambda>cs.
     tx_bind (claim_each now worker cs) (\<lambda>_. tx_return cs))"

definition ClaimCommands :: "rt_call \<Rightarrow> (string \<Rightarrow> bool) \<Rightarrow> string \<Rightarrow> int \<Rightarrow> rt_db \<Rightarrow> (rt_error + command list) \<times> rt_db" where
  "ClaimCommands rc locked worker limit db =
     (let limit' = (if limit < 1 then 16 else limit) in
      run_tx ErrDatabase (rc_flt rc 0) (claim_body (rc_now rc 0) locked worker (nat limit')) (rc_itf rc 0 db))"

definition deliver_command :: "time \<Rightarrow> string \<Rightarrow> rt_db \<Rightarrow> rt_db" where
  "deliver_command now cid db = db\<lparr>command_outbox := sql_update (\<lambda>c. out_id c = cid)
     (\<lambda>c. c\<lparr>out_status := ''delivered'', out_delivered := Some now, out_claimed_by := None, out_expires := None\<rparr>)
     (command_outbox db)\<rparr>"

definition release_command :: "time \<Rightarrow> string \<Rightarrow> string \<Rightarrow> rt_db \<Rightarrow> rt_db" where
  "release_command now cid code db = db\<lparr>command_outbox := sql_update (\<lambda>c. out_id c = cid)
     (\<lambda>c. c\<lparr>out_status := ''pending'', out_error := Some code, out_next := now + second, out_claimed_by := None,
            out_expires := None\<rparr>) (command_outbox db)\<rparr>"

definition MarkCommandDelivered :: "rt_call \<Rightarrow> string \<Rightarrow> rt_db \<Rightarrow> (rt_error + unit) \<times> rt_db" where
  "MarkCommandDelivered rc cid db =
     autocommit (rc_flt rc 0 0) (deliver_command (rc_now rc 0) cid) (rc_itf rc 0 db)"

definition ReleaseCommand :: "rt_call \<Rightarrow> string \<Rightarrow> string \<Rightarrow> rt_db \<Rightarrow> (rt_error + unit) \<times> rt_db" where
  "ReleaseCommand rc cid code db =
     autocommit (rc_flt rc 0 0) (release_command (rc_now rc 0) cid code) (rc_itf rc 0 db)"

subsection \<open>Events of the agent\<close>

definition statusForEvent :: "string \<Rightarrow> string \<times> bool" where
  "statusForEvent event =
     (if event = ''run.accepted'' then (''accepted'', False)
      else if event = ''turn.started'' then (''running'', False)
      else if event = ''turn.completed'' then (''completed'', True)
      else if event = ''turn.failed'' then (''failed'', True)
      else if event = ''turn.interrupted'' then (''canceled'', True)
      else ([], False))"

text \<open>The anonymous struct into which a \<^verbatim>\<open>turn.started\<close> payload is read; a decoding error is ignored.\<close>

definition started_schema :: "(string \<times> (string \<times> string) decoder) list" where
  "started_schema =
     [(''thread_id'', dec_str (\<lambda>s v. (s, snd v))), (''turn_id'', dec_str (\<lambda>s v. (fst v, s)))]"

definition started_ids :: "json \<Rightarrow> string \<times> string" where
  "started_ids payload = fst (dec_struct False started_schema payload ([], []))"

text \<open>\<^verbatim>\<open>INSERT ... ON CONFLICT DO NOTHING\<close> and the number of rows it inserted.\<close>

definition has_event :: "string \<Rightarrow> int \<Rightarrow> rt_db \<Rightarrow> bool" where
  "has_event rid n db \<longleftrightarrow> sql_exists (\<lambda>e. rev_run e = rid \<and> rev_seq e = n) (run_events db)"

definition add_run_event :: "run_event_row \<Rightarrow> rt_db \<Rightarrow> rt_db" where
  "add_run_event e db = db\<lparr>run_events := run_events db @ [e]\<rparr>"

definition insert_run_event :: "run_event_row \<Rightarrow> (rt_db, rt_error, nat) tx" where
  "insert_run_event ev = tx_stmt ErrDatabase (\<lambda>db.
     if has_event (rev_run ev) (rev_seq ev) db then Inr (0, db)
     else if rt_schema (add_run_event ev db) then Inr (1, add_run_event ev db) else Inl ErrDatabase)"

definition bind_thread :: "time \<Rightarrow> string \<Rightarrow> string \<Rightarrow> rt_db \<Rightarrow> rt_db" where
  "bind_thread now rid threadID db = db\<lparr>sessions := sql_update
     (\<lambda>s. Some (ses_id s) = map_option rn_session (by_key rn_id rid (runs db)))
     (\<lambda>s. s\<lparr>ses_thread := coalesce (ses_thread s) threadID, ses_updated := now\<rparr>) (sessions db)\<rparr>"

definition event_on_run :: "time \<Rightarrow> int \<Rightarrow> string \<Rightarrow> json \<Rightarrow> run_row \<Rightarrow> run_row" where
  "event_on_run now n eventType payload r =
     (let (status, terminal) = statusForEvent eventType;
          r1 = r\<lparr>rn_persisted := max (rn_persisted r) n, rn_updated := now\<rparr>;
          r2 = (if status \<noteq> [] then r1\<lparr>rn_status := status, rn_version := rn_version r1 + 1\<rparr> else r1);
          r3 = (if eventType = ''turn.started''
                then r2\<lparr>rn_turn := Some (snd (started_ids payload)), rn_started := coalesce (rn_started r2) now\<rparr> else r2) in
      if terminal then r3\<lparr>rn_final := Some n, rn_finished := Some now\<rparr> else r3)"

definition apply_event :: "time \<Rightarrow> string \<Rightarrow> int \<Rightarrow> string \<Rightarrow> json \<Rightarrow> rt_db \<Rightarrow> rt_db" where
  "apply_event now rid n eventType payload db =
     db\<lparr>runs := sql_update (\<lambda>r. rn_id r = rid) (event_on_run now n eventType payload) (runs db)\<rparr>"

definition session_event_type :: "string \<Rightarrow> string" where
  "session_event_type status = (if status = ''completed'' then ''run.completed'' else ''run.status.changed'')"

text \<open>\<open>False\<close>: the event was there already.\<close>

definition append_body :: "pgsql \<Rightarrow> time \<Rightarrow> time \<Rightarrow> string \<Rightarrow> int \<Rightarrow> string \<Rightarrow> json \<Rightarrow> (rt_db, rt_error, bool) tx" where
  "append_body pg now occurred rid n eventType payload =
     tx_bind (insert_run_event \<lparr>rev_run = rid, rev_seq = n, rev_type = eventType, rev_payload = pg_jsonb pg payload,
                rev_occurred = pg_time occurred, rev_persisted = now\<rparr>) (\<lambda>inserted.
     if inserted = 0 then tx_return False
     else
       tx_bind (if eventType = ''turn.started'' then tx_change (bind_thread now rid (fst (started_ids payload)))
                else tx_return ()) (\<lambda>_.
       tx_bind (tx_change (apply_event now rid n eventType payload)) (\<lambda>_.
       tx_bind (tx_one ErrDatabase (\<lambda>db. map_option rn_session (by_key rn_id rid (runs db)))) (\<lambda>sid.
       tx_bind (if fst (statusForEvent eventType) \<noteq> [] then
                  tx_bind (next_sequence now sid) (\<lambda>m.
                    tx_change (add_session_event pg now sid m (session_event_type (fst (statusForEvent eventType)))
                      (run_status_payload sid rid (fst (statusForEvent eventType)))))
                else tx_return ()) (\<lambda>_.
       tx_return True)))))"

definition AppendAgentEvent :: "pgsql \<Rightarrow> rt_call \<Rightarrow> string \<Rightarrow> int \<Rightarrow> string \<Rightarrow> json \<Rightarrow> string \<Rightarrow> rt_db \<Rightarrow>
    (rt_error + run) \<times> rt_db" where
  "AppendAgentEvent pg rc rid n eventType payload occurred db =
     (let when = (case parse_rfc3339 occurred of Some t \<Rightarrow> t | None \<Rightarrow> rc_clock rc);
          (res, db1) = run_tx ErrDatabase (rc_flt rc 0)
            (append_body pg (rc_now rc 0) when rid n eventType payload) (rc_itf rc 0 db) in
      case res of
        Inl err \<Rightarrow> (Inl err, db1)
      | Inr _ \<Rightarrow> GetRun rc 1 rid False db1)"

end
