(* ===== verification/Redis_Broker.thy ===== *)
theory Redis_Broker
  imports Go_Strconv Runtime_Store
begin

section \<open>The Redis broker\<close>

text \<open>
  \<^verbatim>\<open>internal/runtime/redis.go\<close>. The go-redis client is a parameter (record \<open>redis\<close>): the commands
  the broker uses, on a client state \<open>'k\<close>. Only \<open>AppendRunEvent\<close> writes the streams of run events, so
  an entry of such a stream has exactly the four fields it writes; the payload field is the tree of
  its text (the code compares texts, which may differ in white space for the same tree). What the properties use of the commands is stated in \<open>stream_laws\<close>, after the
  documentation of XADD and XRANGE. Other theories see the broker through the Go interface
  \<open>Broker\<close> (record \<open>broker\<close>), which \<open>RedisBroker\<close> implements.
\<close>

record stream_values =
  sv_event_type :: string
  sv_occurred_at :: string
  sv_payload :: json
  sv_schema_version :: string

datatype redis_error = RedisNil | RedisError string

datatype wait_outcome = Notified | SubscriptionClosed | WaitCancelled

record 'k redis =
  rd_clock :: "'k \<Rightarrow> time"
  rd_Ping :: "'k \<Rightarrow> (redis_error + unit) \<times> 'k"
  rd_XAdd :: "string \<Rightarrow> string \<Rightarrow> stream_values \<Rightarrow> 'k \<Rightarrow> (redis_error + unit) \<times> 'k"
  rd_XRange :: "string \<Rightarrow> string \<Rightarrow> string \<Rightarrow> 'k \<Rightarrow> (redis_error + (string \<times> stream_values) list) \<times> 'k"
  rd_XRangeN :: "string \<Rightarrow> string \<Rightarrow> string \<Rightarrow> nat \<Rightarrow> 'k \<Rightarrow> (redis_error + (string \<times> stream_values) list) \<times> 'k"
  rd_Get :: "string \<Rightarrow> 'k \<Rightarrow> (redis_error + string) \<times> 'k"
  rd_Set :: "string \<Rightarrow> string \<Rightarrow> duration \<Rightarrow> 'k \<Rightarrow> (redis_error + unit) \<times> 'k"
  rd_Del :: "string \<Rightarrow> 'k \<Rightarrow> (redis_error + unit) \<times> 'k"
  rd_Publish :: "string \<Rightarrow> string \<Rightarrow> 'k \<Rightarrow> (redis_error + unit) \<times> 'k"
  rd_Subscribe :: "string \<Rightarrow> 'k \<Rightarrow> (redis_error + unit) \<times> 'k"
  rd_Await :: "string \<Rightarrow> 'k \<Rightarrow> wait_outcome \<times> 'k"

datatype broker_error =
    BrokerRedis redis_error
  | BrokerConflict string int
  | BrokerBadID string
  | BrokerBadTime string
  | BrokerClosed
  | BrokerCtx

text \<open>The interface \<open>Broker\<close>; the methods of \<open>pollWaiter\<close> and \<open>runNotifier\<close> are optional.\<close>

record 'k broker =
  br_Health :: "'k \<Rightarrow> (broker_error + unit) \<times> 'k"
  br_AppendRunEvent :: "string \<Rightarrow> run_event \<Rightarrow> 'k \<Rightarrow> (broker_error + unit) \<times> 'k"
  br_ReadRunEvents :: "string \<Rightarrow> int \<Rightarrow> 'k \<Rightarrow> (broker_error + run_event list) \<times> 'k"
  br_NotifySession :: "string \<Rightarrow> 'k \<Rightarrow> (broker_error + unit) \<times> 'k"
  br_NotifyRun :: "(string \<Rightarrow> 'k \<Rightarrow> (broker_error + unit) \<times> 'k) option"
  br_SetAgentPresence :: "bool \<Rightarrow> 'k \<Rightarrow> (broker_error + unit) \<times> 'k"
  br_AgentPresence :: "'k \<Rightarrow> (bool \<times> time \<times> broker_error option) \<times> 'k"
  br_WaitForRun :: "(string \<Rightarrow> 'k \<Rightarrow> (broker_error + unit) \<times> 'k) option"
  br_WaitForSession :: "(string \<Rightarrow> 'k \<Rightarrow> (broker_error + unit) \<times> 'k) option"

definition redis_text :: "redis_error \<Rightarrow> string" where
  "redis_text err = (case err of RedisNil \<Rightarrow> ''redis: nil'' | RedisError s \<Rightarrow> s)"

definition lift_redis :: "(redis_error + 'a) \<times> 'k \<Rightarrow> (broker_error + 'a) \<times> 'k" where
  "lift_redis r = (case fst r of Inl e \<Rightarrow> Inl (BrokerRedis e) | Inr a \<Rightarrow> Inr a, snd r)"

fun str_contains :: "string \<Rightarrow> string \<Rightarrow> bool" where
  "str_contains s [] \<longleftrightarrow> True"
| "str_contains [] sub \<longleftrightarrow> False"
| "str_contains (c # cs) sub \<longleftrightarrow> has_prefix (c # cs) sub \<or> str_contains cs sub"

subsection \<open>The stream of a run\<close>

definition runStream :: "string \<Rightarrow> string" where
  "runStream runID = ''runtime:result:run:'' @ runID"

definition stream_id :: "int \<Rightarrow> string" where
  "stream_id n = FormatInt n @ ''-0''"

definition event_values :: "run_event \<Rightarrow> stream_values" where
  "event_values e = \<lparr>sv_event_type = revent_Type e, sv_occurred_at = format_rfc3339nano (revent_OccurredAt e),
     sv_payload = revent_Payload e, sv_schema_version = ''1''\<rparr>"

definition redis_AppendRunEvent :: "'k redis \<Rightarrow> string \<Rightarrow> run_event \<Rightarrow> 'k \<Rightarrow> (broker_error + unit) \<times> 'k" where
  "redis_AppendRunEvent rd runID event k =
     (let sid = stream_id (revent_Sequence event); values = event_values event in
      case rd_XAdd rd (runStream runID) sid values k of
        (Inr _, k1) \<Rightarrow> (Inr (), k1)
      | (Inl err, k1) \<Rightarrow>
          if \<not> str_contains (redis_text err) ''equal or smaller'' then (Inl (BrokerRedis err), k1)
          else
            (case rd_XRangeN rd (runStream runID) sid sid 1 k1 of
               (Inl _, k2) \<Rightarrow> (Inl (BrokerRedis err), k2)
             | (Inr existing, k2) \<Rightarrow>
                 if length existing \<noteq> 1 then (Inl (BrokerRedis err), k2)
                 else if snd (hd existing) \<noteq> values then (Inl (BrokerConflict runID (revent_Sequence event)), k2)
                 else (Inr (), k2)))"

definition id_part :: "string \<Rightarrow> string" where
  "id_part sid = takeWhile (\<lambda>c. c \<noteq> CHR ''-'') sid"

definition entry_event :: "string \<times> stream_values \<Rightarrow> run_event" where
  "entry_event item =
     \<lparr>revent_Sequence = fst (ParseInt (id_part (fst item))), revent_Type = sv_event_type (snd item),
      revent_Payload = sv_payload (snd item),
      revent_OccurredAt = (case parse_rfc3339 (sv_occurred_at (snd item)) of Some t \<Rightarrow> t | None \<Rightarrow> 0)\<rparr>"

fun read_items :: "(string \<times> stream_values) list \<Rightarrow> broker_error + run_event list" where
  "read_items [] = Inr []"
| "read_items (item # items) =
     (if \<not> snd (ParseInt (id_part (fst item))) then Inl (BrokerBadID (fst item))
      else case read_items items of Inl err \<Rightarrow> Inl err | Inr es \<Rightarrow> Inr (entry_event item # es))"

definition redis_ReadRunEvents :: "'k redis \<Rightarrow> string \<Rightarrow> int \<Rightarrow> 'k \<Rightarrow> (broker_error + run_event list) \<times> 'k" where
  "redis_ReadRunEvents rd runID after_seq k =
     (case rd_XRange rd (runStream runID) (''('' @ stream_id after_seq) ''+'' k of
        (Inl err, k1) \<Rightarrow> if err = RedisNil then (Inr [], k1) else (Inl (BrokerRedis err), k1)
      | (Inr items, k1) \<Rightarrow> (read_items items, k1))"

subsection \<open>Notifications\<close>

definition channelVersionKey :: "string \<Rightarrow> string" where
  "channelVersionKey channel = channel @ '':version''"

definition unix_nano :: "time \<Rightarrow> int" where
  "unix_nano t = t - 62135596800 * second"

definition redis_notify :: "'k redis \<Rightarrow> string \<Rightarrow> string \<Rightarrow> 'k \<Rightarrow> (broker_error + unit) \<times> 'k" where
  "redis_notify rd kind resourceID k =
     (let channel = ''runtime:notify:'' @ kind @ '':'' @ resourceID in
      case rd_Set rd (channelVersionKey channel) (FormatInt (unix_nano (rd_clock rd k))) hour k of
        (Inl err, k1) \<Rightarrow> (Inl (BrokerRedis err), k1)
      | (Inr _, k1) \<Rightarrow> lift_redis (rd_Publish rd channel ''changed'' k1))"

definition redis_NotifySession :: "'k redis \<Rightarrow> string \<Rightarrow> 'k \<Rightarrow> (broker_error + unit) \<times> 'k" where
  "redis_NotifySession rd sessionID = redis_notify rd ''session'' sessionID"

definition redis_NotifyRun :: "'k redis \<Rightarrow> string \<Rightarrow> 'k \<Rightarrow> (broker_error + unit) \<times> 'k" where
  "redis_NotifyRun rd runID = redis_notify rd ''run'' runID"

text \<open>The value of a \<open>Get\<close> whose error is ignored.\<close>

definition got :: "(redis_error + string) \<times> 'k \<Rightarrow> string \<times> 'k" where
  "got r = (case fst r of Inl _ \<Rightarrow> [] | Inr s \<Rightarrow> s, snd r)"

text \<open>The version is read before and after subscribing; only when it is the same the call waits for a message.\<close>

definition waitForNotification :: "'k redis \<Rightarrow> string \<Rightarrow> 'k \<Rightarrow> (broker_error + unit) \<times> 'k" where
  "waitForNotification rd channel k =
     (let (prev, k1) = got (rd_Get rd (channelVersionKey channel) k) in
      case rd_Subscribe rd channel k1 of
        (Inl err, k2) \<Rightarrow> (Inl (BrokerRedis err), k2)
      | (Inr _, k2) \<Rightarrow>
          (let (cur, k3) = got (rd_Get rd (channelVersionKey channel) k2) in
           if cur \<noteq> prev then (Inr (), k3)
           else case rd_Await rd channel k3 of
             (WaitCancelled, k4) \<Rightarrow> (Inl BrokerCtx, k4)
           | (SubscriptionClosed, k4) \<Rightarrow> (Inl BrokerClosed, k4)
           | (Notified, k4) \<Rightarrow> (Inr (), k4)))"

definition redis_WaitForRun :: "'k redis \<Rightarrow> string \<Rightarrow> 'k \<Rightarrow> (broker_error + unit) \<times> 'k" where
  "redis_WaitForRun rd runID = waitForNotification rd (''runtime:notify:run:'' @ runID)"

definition redis_WaitForSession :: "'k redis \<Rightarrow> string \<Rightarrow> 'k \<Rightarrow> (broker_error + unit) \<times> 'k" where
  "redis_WaitForSession rd sessionID = waitForNotification rd (''runtime:notify:session:'' @ sessionID)"

subsection \<open>Presence of the agent\<close>

definition presence_key :: string where
  "presence_key = ''runtime:presence:agent''"

definition redis_SetAgentPresence :: "'k redis \<Rightarrow> bool \<Rightarrow> 'k \<Rightarrow> (broker_error + unit) \<times> 'k" where
  "redis_SetAgentPresence rd online k =
     lift_redis (if \<not> online then rd_Del rd presence_key k
       else rd_Set rd presence_key (format_rfc3339nano (rd_clock rd k)) (45 * second) k)"

definition redis_AgentPresence :: "'k redis \<Rightarrow> 'k \<Rightarrow> (bool \<times> time \<times> broker_error option) \<times> 'k" where
  "redis_AgentPresence rd k =
     (case rd_Get rd presence_key k of
        (Inl err, k1) \<Rightarrow>
          (if err = RedisNil then (False, 0, None) else (False, 0, Some (BrokerRedis err)), k1)
      | (Inr value, k1) \<Rightarrow>
          (case parse_rfc3339 value of
             Some t \<Rightarrow> (True, t, None) | None \<Rightarrow> (True, 0, Some (BrokerBadTime value)), k1))"

definition RedisBroker :: "'k redis \<Rightarrow> 'k broker" where
  "RedisBroker rd = \<lparr>br_Health = (\<lambda>k. lift_redis (rd_Ping rd k)), br_AppendRunEvent = redis_AppendRunEvent rd,
     br_ReadRunEvents = redis_ReadRunEvents rd, br_NotifySession = redis_NotifySession rd,
     br_NotifyRun = Some (redis_NotifyRun rd), br_SetAgentPresence = redis_SetAgentPresence rd,
     br_AgentPresence = redis_AgentPresence rd, br_WaitForRun = Some (redis_WaitForRun rd),
     br_WaitForSession = Some (redis_WaitForSession rd)\<rparr>"

subsection \<open>The live log of a run\<close>

text \<open>
  \<open>st k key\<close> is the content of stream \<open>key\<close>. XADD with an explicit identifier appends exactly when
  the identifier is above all present ones; a client error may hide that it did (the reply was lost,
  or the client repeated the command). XRANGE answers with the entries of the range in stream order.
\<close>

definition seq_ok :: "int \<Rightarrow> bool" where
  "seq_ok n \<longleftrightarrow> 0 \<le> n \<and> int64_ok n"

definition stream_laws :: "'k redis \<Rightarrow> ('k \<Rightarrow> string \<Rightarrow> (string \<times> stream_values) list) \<Rightarrow> bool" where
  "stream_laws rd st \<longleftrightarrow>
     (\<forall>key n v k r k'. seq_ok n \<longrightarrow> rd_XAdd rd key (stream_id n) v k = (r, k') \<longrightarrow>
        st k' = st k \<and> r \<noteq> Inr () \<or>
        st k' = (st k)(key := st k key @ [(stream_id n, v)])
          \<and> (\<forall>m u. seq_ok m \<longrightarrow> (stream_id m, u) \<in> set (st k key) \<longrightarrow> m < n)) \<and>
     (\<forall>key i k r k'. rd_XRangeN rd key i i 1 k = (r, k') \<longrightarrow>
        st k' = st k \<and> (\<forall>es. r = Inr es \<longrightarrow> es = take 1 (filter (\<lambda>e. fst e = i) (st k key)))) \<and>
     (\<forall>key n k r k'. seq_ok n \<longrightarrow> rd_XRange rd key (''('' @ stream_id n) ''+'' k = (r, k') \<longrightarrow>
        st k' = st k \<and>
        (\<forall>es. r = Inr es \<longrightarrow> es = filter (\<lambda>e. n < fst (ParseInt (id_part (fst e)))) (st k key)) \<and>
        (r = Inl RedisNil \<longrightarrow> st k key = []))"

definition storable :: "run_event \<Rightarrow> bool" where
  "storable e \<longleftrightarrow> seq_ok (revent_Sequence e) \<and> writable_time (revent_OccurredAt e)"

definition live_log :: "('k \<Rightarrow> string \<Rightarrow> (string \<times> stream_values) list) \<Rightarrow> string \<Rightarrow> 'k \<Rightarrow> run_event list" where
  "live_log st runID k = map entry_event (st k (runStream runID))"

definition event_entry :: "run_event \<Rightarrow> string \<times> stream_values" where
  "event_entry e = (stream_id (revent_Sequence e), event_values e)"

definition live_ok :: "('k \<Rightarrow> string \<Rightarrow> (string \<times> stream_values) list) \<Rightarrow> 'k \<Rightarrow> bool" where
  "live_ok st k \<longleftrightarrow> (\<forall>runID. \<exists>es. st k (runStream runID) = map event_entry es \<and> list_all storable es \<and>
     sorted_wrt (\<lambda>a b. revent_Sequence a < revent_Sequence b) es)"

lemma xadd_law:
  assumes "stream_laws rd st" "seq_ok n" "rd_XAdd rd key (stream_id n) v k = (r, k')"
  shows "st k' = st k \<and> r \<noteq> Inr () \<or> st k' = (st k)(key := st k key @ [(stream_id n, v)])
    \<and> (\<forall>m u. seq_ok m \<longrightarrow> (stream_id m, u) \<in> set (st k key) \<longrightarrow> m < n)"
  using assms(1) [unfolded stream_laws_def, THEN conjunct1, rule_format, OF assms(2,3)] .

lemma xrange_n_law:
  assumes "stream_laws rd st" "rd_XRangeN rd key i i 1 k = (r, k')"
  shows "st k' = st k \<and> (\<forall>es. r = Inr es \<longrightarrow> es = take 1 (filter (\<lambda>e. fst e = i) (st k key)))"
  using assms(1) [unfolded stream_laws_def, THEN conjunct2, THEN conjunct1, rule_format, OF assms(2)] by blast

lemma xrange_law:
  assumes "stream_laws rd st" "seq_ok n" "rd_XRange rd key (''('' @ stream_id n) ''+'' k = (r, k')"
  shows "st k' = st k \<and> (\<forall>es. r = Inr es \<longrightarrow> es = filter (\<lambda>e. n < fst (ParseInt (id_part (fst e)))) (st k key)) \<and>
    (r = Inl RedisNil \<longrightarrow> st k key = [])"
  using assms(1) [unfolded stream_laws_def, THEN conjunct2, THEN conjunct2, rule_format, OF assms(2,3)] by blast

lemma id_part_stream_id: "0 \<le> n \<Longrightarrow> id_part (stream_id n) = FormatInt n"
proof -
  assume "0 \<le> n"
  then have "\<forall>c \<in> set (FormatInt n). c \<noteq> CHR ''-''"
    using FormatInt_chars [of n] sign_no_digit by (auto simp: list_all_iff)
  then show ?thesis by (simp add: id_part_def stream_id_def takeWhile_append2)
qed

lemma ParseInt_entry: "storable e \<Longrightarrow> ParseInt (id_part (stream_id (revent_Sequence e))) = (revent_Sequence e, True)"
  by (simp add: id_part_stream_id storable_def seq_ok_def)

lemma entry_event_entry: "storable e \<Longrightarrow> entry_event (event_entry e) = e"
  by (simp add: entry_event_def event_entry_def event_values_def ParseInt_entry)
    (simp add: storable_def parse_format_rfc3339)

lemma stream_id_inject: "storable a \<Longrightarrow> storable b \<Longrightarrow> stream_id (revent_Sequence a) = stream_id (revent_Sequence b) \<Longrightarrow>
    revent_Sequence a = revent_Sequence b"
  using ParseInt_entry by (metis fst_conv)

lemma read_items_entries: "list_all storable es \<Longrightarrow> read_items (map event_entry es) = Inr es"
proof (induction es)
  case (Cons e es)
  then show ?case using entry_event_entry [of e] ParseInt_entry [of e] by (simp add: event_entry_def)
qed simp

lemma live_log_entries: "list_all storable es \<Longrightarrow> st k (runStream runID) = map event_entry es \<Longrightarrow> live_log st runID k = es"
  by (simp add: live_log_def comp_def entry_event_entry list_all_iff map_idI)

lemma runStream_inject [simp]: "runStream a = runStream b \<longleftrightarrow> a = b"
  by (simp add: runStream_def)

lemma live_ok_add:
  assumes ok: "live_ok st k" and e: "storable e"
    and st': "st k' = (st k)(runStream runID := st k (runStream runID) @ [event_entry e])"
    and top: "\<And>m u. seq_ok m \<Longrightarrow> (stream_id m, u) \<in> set (st k (runStream runID)) \<Longrightarrow> m < revent_Sequence e"
  shows "live_ok st k'" "live_log st runID k' = live_log st runID k @ [e]"
    "runID' \<noteq> runID \<Longrightarrow> live_log st runID' k' = live_log st runID' k"
proof -
  obtain es where es: "st k (runStream runID) = map event_entry es" "list_all storable es"
    "sorted_wrt (\<lambda>a b. revent_Sequence a < revent_Sequence b) es"
    using ok unfolding live_ok_def by blast
  have "revent_Sequence a < revent_Sequence e" if "a \<in> set es" for a
    using top [of "revent_Sequence a" "event_values a"] that es(1,2)
    by (auto simp: event_entry_def list_all_iff storable_def)
  with es e have new: "list_all storable (es @ [e])" "sorted_wrt (\<lambda>a b. revent_Sequence a < revent_Sequence b) (es @ [e])"
    by (auto simp: sorted_wrt_append)
  have st_new: "st k' (runStream runID) = map event_entry (es @ [e])" using st' es(1) by simp
  show "live_ok st k'"
    unfolding live_ok_def
  proof
    fix other
    show "\<exists>es. st k' (runStream other) = map event_entry es \<and> list_all storable es \<and>
        sorted_wrt (\<lambda>a b. revent_Sequence a < revent_Sequence b) es"
    proof (cases "other = runID")
      case True
      then show ?thesis using st_new new by blast
    next
      case False
      then have "st k' (runStream other) = st k (runStream other)" using st' by simp
      then show ?thesis using ok unfolding live_ok_def by metis
    qed
  qed
  show "live_log st runID k' = live_log st runID k @ [e]"
    using live_log_entries [where st = st, OF new(1) st_new] live_log_entries [where st = st, OF es(2,1)] by simp
  show "runID' \<noteq> runID \<Longrightarrow> live_log st runID' k' = live_log st runID' k"
    using st' by (simp add: live_log_def)
qed

lemma live_log_unique:
  assumes "live_ok st k" "storable e" "filter (\<lambda>x. fst x = stream_id (revent_Sequence e)) (st k (runStream runID)) = x # xs"
    "snd x = event_values e"
  shows "e \<in> set (live_log st runID k)"
proof -
  obtain es where es: "st k (runStream runID) = map event_entry es" "list_all storable es"
    using assms(1) unfolding live_ok_def by blast
  have "x \<in> set (st k (runStream runID))" "fst x = stream_id (revent_Sequence e)"
    using assms(3) by (metis (mono_tags, lifting) list.set_intros(1) mem_Collect_eq set_filter)+
  then have "event_entry e \<in> set (st k (runStream runID))" using assms(4) by (metis event_entry_def prod.collapse)
  then show ?thesis using entry_event_entry [OF assms(2)] unfolding live_log_def by (metis image_eqI list.set_map)
qed

lemma append_live_cases:
  assumes laws: "stream_laws rd st" and e: "storable e"
    and ap: "redis_AppendRunEvent rd runID e k = (r, k')"
  obtains (kept) "st k' = st k" "r \<noteq> Inr ()"
  | (found) "st k' = st k" "\<exists>x xs. filter (\<lambda>x. fst x = stream_id (revent_Sequence e)) (st k (runStream runID)) = x # xs \<and> snd x = event_values e"
  | (added) "st k' = (st k)(runStream runID := st k (runStream runID) @ [event_entry e])"
      "\<And>m u. seq_ok m \<Longrightarrow> (stream_id m, u) \<in> set (st k (runStream runID)) \<Longrightarrow> m < revent_Sequence e"
proof -
  let ?key = "runStream runID" and ?i = "stream_id (revent_Sequence e)"
  obtain r1 k1 where x: "rd_XAdd rd ?key ?i (event_values e) k = (r1, k1)" by fastforce
  have s: "seq_ok (revent_Sequence e)" using e by (simp add: storable_def)
  have xadd: "st k1 = st k \<and> r1 \<noteq> Inr () \<or> st k1 = (st k)(?key := st k ?key @ [event_entry e]) \<and>
      (\<forall>m u. seq_ok m \<longrightarrow> (stream_id m, u) \<in> set (st k ?key) \<longrightarrow> m < revent_Sequence e)"
    using xadd_law [OF laws s x] unfolding event_entry_def .
  have rng: "st k2 = st k1 \<and> (\<forall>es. q = Inr es \<longrightarrow> es = take 1 (filter (\<lambda>x. fst x = ?i) (st k1 ?key)))"
    if "rd_XRangeN rd ?key ?i ?i 1 k1 = (q, k2)" for q k2
    using xrange_n_law [OF laws that] .
  have st': "st k' = st k1"
    using ap x rng by (auto simp: redis_AppendRunEvent_def Let_def split: sum.splits if_splits prod.splits)
  have ok: "r1 = Inr () \<or> (\<exists>x xs. filter (\<lambda>x. fst x = ?i) (st k1 ?key) = x # xs \<and> snd x = event_values e)" if "r = Inr ()"
  proof (cases r1)
    case (Inl err)
    obtain q k2 where q: "rd_XRangeN rd ?key ?i ?i 1 k1 = (q, k2)" by fastforce
    with ap x Inl that obtain es where es: "q = Inr es" "length es = 1" "snd (hd es) = event_values e"
      by (auto simp: redis_AppendRunEvent_def Let_def split: sum.splits if_splits)
    then have "es = take 1 (filter (\<lambda>x. fst x = ?i) (st k1 ?key))" using rng [OF q] by blast
    with es(2,3) show ?thesis by (cases "filter (\<lambda>x. fst x = ?i) (st k1 ?key)") auto
  qed simp
  show thesis
  proof (cases "st k1 = st k \<and> r1 \<noteq> Inr ()")
    case True
    with ok st' kept found show ?thesis by metis
  next
    case False
    with xadd st' added show ?thesis by metis
  qed
qed

text \<open>
  Property C40. The live log of a run is append-only and faithful, whatever round trips to Redis are
  lost: recording an event leaves the log of its run as it was or adds the event at the end, above
  all earlier sequence numbers, and touches no other run; when it reports success the event is in the
  log, also when it was there before with the same content; and reading after a cursor answers with
  exactly the events above it, as they were recorded.
\<close>

theorem live_log_faithful:
  assumes "stream_laws rd st" "live_ok st k" "storable e"
    and "redis_AppendRunEvent rd runID e k = (r, k')"
  shows "live_ok st k' \<and> (live_log st runID k' = live_log st runID k \<or> live_log st runID k' = live_log st runID k @ [e]) \<and>
    (\<forall>other. other \<noteq> runID \<longrightarrow> live_log st other k' = live_log st other k) \<and>
    (r = Inr () \<longrightarrow> e \<in> set (live_log st runID k')) \<and>
    sorted_wrt (\<lambda>a b. revent_Sequence a < revent_Sequence b) (live_log st runID k') \<and>
    (\<forall>c es k''. seq_ok c \<longrightarrow> redis_ReadRunEvents rd runID c k' = (Inr es, k'') \<longrightarrow>
       es = filter (\<lambda>x. c < revent_Sequence x) (live_log st runID k'))"
proof -
  have log: "live_ok st k' \<and> (live_log st runID k' = live_log st runID k \<or> live_log st runID k' = live_log st runID k @ [e]) \<and>
    (\<forall>other. other \<noteq> runID \<longrightarrow> live_log st other k' = live_log st other k) \<and> (r = Inr () \<longrightarrow> e \<in> set (live_log st runID k'))"
    using assms(1,3,4)
  proof (cases rule: append_live_cases)
    case kept
    then show ?thesis using assms(2) by (simp add: live_ok_def live_log_def)
  next
    case found
    then have "live_ok st k'" using assms(2) by (simp add: live_ok_def)
    moreover have "e \<in> set (live_log st runID k')"
      using found live_log_unique [OF assms(2,3)] by (auto simp: live_log_def)
    ultimately show ?thesis using found(1) by (simp add: live_log_def)
  next
    case added
    then show ?thesis using live_ok_add [OF assms(2,3) added] by simp
  qed
  then obtain es where es: "st k' (runStream runID) = map event_entry es" "list_all storable es"
    "sorted_wrt (\<lambda>a b. revent_Sequence a < revent_Sequence b) es" unfolding live_ok_def by blast
  have ll: "live_log st runID k' = es" using live_log_entries [where st = st, OF es(2,1)] .
  have "res = filter (\<lambda>x. c < revent_Sequence x) es" if "seq_ok c" "redis_ReadRunEvents rd runID c k' = (Inr res, k'')" for c res k''
  proof -
    obtain q k3 where q: "rd_XRange rd (runStream runID) (''('' @ stream_id c) ''+'' k' = (q, k3)" by fastforce
    have "(\<forall>xs. q = Inr xs \<longrightarrow> xs = filter (\<lambda>x. c < fst (ParseInt (id_part (fst x)))) (map event_entry es)) \<and>
        (q = Inl RedisNil \<longrightarrow> es = [])"
      using xrange_law [OF assms(1) that(1) q] es(1) by simp
    moreover have "filter (\<lambda>x. c < fst (ParseInt (id_part (fst x)))) (map event_entry es) =
        map event_entry (filter (\<lambda>x. c < revent_Sequence x) es)"
      using es(2) by (induction es) (auto simp: event_entry_def ParseInt_entry)
    moreover have "list_all storable (filter (\<lambda>x. c < revent_Sequence x) es)" using es(2) by (auto simp: list_all_iff)
    ultimately show ?thesis
      using that(2) q read_items_entries by (auto simp: redis_ReadRunEvents_def split: sum.splits if_splits)
  qed
  then show ?thesis using log ll es(3) by blast
qed

text \<open>A Redis that keeps its streams in memory; its clock stands still.\<close>

definition mem_redis :: "(string \<Rightarrow> (string \<times> stream_values) list) redis" where
  "mem_redis = \<lparr>rd_clock = (\<lambda>_. second), rd_Ping = (\<lambda>k. (Inr (), k)),
     rd_XAdd = (\<lambda>key i v k.
       if list_all (\<lambda>e. fst (ParseInt (id_part (fst e))) < fst (ParseInt (id_part i))) (k key)
       then (Inr (), k(key := k key @ [(i, v)]))
       else (Inl (RedisError ''The ID specified in XADD is equal or smaller than the target stream top item''), k)),
     rd_XRange = (\<lambda>key i _ k. (Inr (filter (\<lambda>e. fst (ParseInt (id_part (tl i))) < fst (ParseInt (id_part (fst e)))) (k key)), k)),
     rd_XRangeN = (\<lambda>key i _ n k. (Inr (take n (filter (\<lambda>e. fst e = i) (k key))), k)),
     rd_Get = (\<lambda>_ k. (Inl RedisNil, k)), rd_Set = (\<lambda>_ _ _ k. (Inr (), k)), rd_Del = (\<lambda>_ k. (Inr (), k)),
     rd_Publish = (\<lambda>_ _ k. (Inr (), k)), rd_Subscribe = (\<lambda>_ k. (Inr (), k)), rd_Await = (\<lambda>_ k. (Notified, k))\<rparr>"

definition demo_revent :: run_event where
  "demo_revent = \<lparr>revent_Sequence = 1, revent_Type = ''turn.started'', revent_Payload = JObj [], revent_OccurredAt = second\<rparr>"

lemma mem_redis_laws: "stream_laws mem_redis (\<lambda>k. k)"
proof -
  have p: "fst (ParseInt (id_part (stream_id n))) = n" if "seq_ok n" for n
    using that by (simp add: seq_ok_def id_part_stream_id)
  have add: "rd_XAdd mem_redis key (stream_id n) v k = (r, k') \<Longrightarrow> k' = k \<and> r \<noteq> Inr () \<or>
      k' = k(key := k key @ [(stream_id n, v)]) \<and> (\<forall>m u. seq_ok m \<longrightarrow> (stream_id m, u) \<in> set (k key) \<longrightarrow> m < n)"
    if "seq_ok n" for key n v k r k'
    using that by (auto simp: mem_redis_def list_all_iff p split: if_splits)
  have range: "rd_XRange mem_redis key (''('' @ stream_id n) ''+'' k = (r, k') \<Longrightarrow> k' = k \<and>
      (\<forall>es. r = Inr es \<longrightarrow> es = filter (\<lambda>e. n < fst (ParseInt (id_part (fst e)))) (k key)) \<and> (r = Inl RedisNil \<longrightarrow> k key = [])"
    if "seq_ok n" for key n k r k'
    using that by (auto simp: mem_redis_def p)
  have one: "rd_XRangeN mem_redis key i i 1 k = (r, k') \<Longrightarrow>
      k' = k \<and> (\<forall>es. r = Inr es \<longrightarrow> es = take 1 (filter (\<lambda>e. fst e = i) (k key)))" for key i k r k'
    by (auto simp: mem_redis_def)
  show ?thesis
    unfolding stream_laws_def
    by (rule conjI; (rule conjI)?; (rule allI | rule impI)+; (rule add | rule one | rule range); assumption)
qed

theorem live_log_faithful_witness:
  "storable demo_revent \<and> redis_AppendRunEvent mem_redis ''r'' demo_revent (\<lambda>_. []) =
      (Inr (), (\<lambda>_. [])(runStream ''r'' := [event_entry demo_revent])) \<and>
    demo_revent \<in> set (live_log (\<lambda>k. k) ''r'' ((\<lambda>_. [])(runStream ''r'' := [event_entry demo_revent])))"
proof -
  have s: "storable demo_revent"
    by (simp add: storable_def seq_ok_def int64_ok_def demo_revent_def writable_time_def second_def days_before_year_def)
  have a: "redis_AppendRunEvent mem_redis ''r'' demo_revent (\<lambda>_. []) =
      (Inr (), (\<lambda>_. [])(runStream ''r'' := [event_entry demo_revent]))"
    by (simp add: redis_AppendRunEvent_def mem_redis_def event_entry_def Let_def)
  have "live_ok (\<lambda>k. k) (\<lambda>_. [])" by (simp add: live_ok_def)
  from live_log_faithful [OF mem_redis_laws this s a] s a show ?thesis by blast
qed

end
