(* ===== verification/Go_Any.thy ===== *)
theory Go_Any
  imports Go_Json
begin

section \<open>The Go library: JSON values of type \<open>any\<close>\<close>

text \<open>
  \<open>json.Unmarshal\<close> into an \<open>any\<close> turns every number into a \<open>float64\<close> and every object into a map, and
  \<open>reflect.DeepEqual\<close> compares the results. A number literal is \<open>m * 10 ^ k\<close>; its \<open>float64\<close> is the
  nearest multiple of the spacing at its magnitude, ties to even, here counted in units of \<open>2 ^ -1074\<close>, the
  smallest subnormal; a literal beyond the largest finite value makes \<open>Unmarshal\<close> fail.
\<close>

definition digit_value :: "char \<Rightarrow> int" where
  "digit_value c = int (of_char c :: nat) - 48"

definition is_dec :: "char \<Rightarrow> bool" where
  "is_dec c \<longleftrightarrow> 0 \<le> digit_value c \<and> digit_value c \<le> 9"

definition digits_int :: "string \<Rightarrow> int" where
  "digits_int s = foldl (\<lambda>n c. 10 * n + digit_value c) 0 s"

definition signed_digits :: "string \<Rightarrow> int" where
  "signed_digits s =
     (case s of
        [] \<Rightarrow> 0
      | c # t \<Rightarrow> if c = CHR ''-'' then - digits_int t else if c = CHR ''+'' then digits_int t else digits_int s)"

text \<open>Mantissa and decimal exponent of a literal with a fraction or an exponent.\<close>

definition literal_parts :: "string \<Rightarrow> int \<times> int" where
  "literal_parts s =
     (let neg = (s \<noteq> [] \<and> hd s = CHR ''-'');
          s1 = (if neg then tl s else s);
          ip = takeWhile is_dec s1;
          r1 = dropWhile is_dec s1;
          dot = (r1 \<noteq> [] \<and> hd r1 = CHR ''.'');
          fp = (if dot then takeWhile is_dec (tl r1) else []);
          r2 = (if dot then dropWhile is_dec (tl r1) else r1);
          ex = (if r2 = [] then 0 else signed_digits (tl r2));
          m = digits_int (ip @ fp) in
      (if neg then - m else m, ex - int (length fp)))"

fun bit_length :: "nat \<Rightarrow> nat" where
  "bit_length n = (if n = 0 then 0 else Suc (bit_length (n div 2)))"

declare bit_length.simps [simp del]

definition half_even :: "int \<Rightarrow> int \<Rightarrow> int" where
  "half_even a d =
     (let q = a div d; r = a mod d in if 2 * r < d \<or> 2 * r = d \<and> even q then q else q + 1)"

definition float64 :: "int \<times> int \<Rightarrow> int option" where
  "float64 mk =
     (let (m, k) = mk;
          a = abs m * 10 ^ nat k * 2 ^ 1074;
          b = 10 ^ nat (- k);
          g = 2 ^ (bit_length (nat (a div b)) - 53);
          v = half_even a (b * g) * g in
      if v < 2 ^ (1024 + 1074) then Some (sgn m * v) else None)"

definition number_value :: "json \<Rightarrow> int option" where
  "number_value j = (case j of JNum n \<Rightarrow> float64 (n, 0) | JReal s \<Rightarrow> float64 (literal_parts s) | _ \<Rightarrow> None)"

fun any_ok :: "json \<Rightarrow> bool" where
  "any_ok (JNum n) \<longleftrightarrow> number_value (JNum n) \<noteq> None"
| "any_ok (JReal s) \<longleftrightarrow> number_value (JReal s) \<noteq> None"
| "any_ok (JArr js) \<longleftrightarrow> list_all any_ok js"
| "any_ok (JObj ms) \<longleftrightarrow> list_all (\<lambda>m. any_ok (snd m)) ms"
| "any_ok _ \<longleftrightarrow> True"

lemma object_map_sub: "set (object_map m) \<subseteq> set m"
  by (induction m rule: object_map.induct) auto

lemma json_member_size: "x \<in> set ms \<Longrightarrow> size (snd x) < Suc (size_list (size_prod (\<lambda>_. 0) size) ms)"
  using size_list_estimation' [of x ms "size (snd x)" "size_prod (\<lambda>_. 0) size"]
  by (simp add: size_prod_simp)

function any_equal :: "json \<Rightarrow> json \<Rightarrow> bool" where
  "any_equal a b =
     (case a of
        JNull \<Rightarrow> b = JNull
      | JBool x \<Rightarrow> b = JBool x
      | JStr s \<Rightarrow> b = JStr s
      | JNum n \<Rightarrow> (case b of JNum _ \<Rightarrow> True | JReal _ \<Rightarrow> True | _ \<Rightarrow> False) \<and> number_value a = number_value b
      | JReal n \<Rightarrow> (case b of JNum _ \<Rightarrow> True | JReal _ \<Rightarrow> True | _ \<Rightarrow> False) \<and> number_value a = number_value b
      | JArr xs \<Rightarrow>
          (case b of
             JArr ys \<Rightarrow> length xs = length ys \<and> (\<forall>p \<in> set (zip xs ys). any_equal (fst p) (snd p))
           | _ \<Rightarrow> False)
      | JObj m \<Rightarrow>
          (case b of
             JObj n \<Rightarrow>
               fst ` set m = fst ` set n
               \<and> (\<forall>p \<in> set (object_map m). case map_of (object_map n) (fst p) of
                    None \<Rightarrow> False | Some w \<Rightarrow> any_equal (snd p) w)
           | _ \<Rightarrow> False))"
  by pat_completeness auto
termination
proof (relation "measure (\<lambda>(a, b). size a)", goal_cases)
  case (2 a b xs ys p)
  then have "fst p \<in> set xs" by (metis in_set_zipE prod.collapse)
  then have "size (fst p) \<le> size_list size xs" by (simp add: size_list_estimation')
  with 2 show ?case by (cases p) simp
next
  case (3 a b m n p w)
  then have "p \<in> set m" using object_map_sub by blast
  with 3 show ?case using json_member_size [of p m] by simp
qed simp

declare any_equal.simps [simp del]

lemma any_equal_refl: "any_equal a a"
proof (induction a)
  case (JArr xs)
  have "any_equal (fst p) (snd p)" if "p \<in> set (zip xs xs)" for p
    using that JArr by (auto simp: zip_same_conv_map)
  then show ?case by (simp add: any_equal.simps [of "JArr xs"])
next
  case (JObj m)
  have "case map_of (object_map m) (fst p) of None \<Rightarrow> False | Some w \<Rightarrow> any_equal (snd p) w"
    if "p \<in> set (object_map m)" for p
  proof -
    have "map_of (object_map m) (fst p) = Some (snd p)"
      using that distinct_object_map by simp
    moreover have "any_equal (snd p) (snd p)"
      using JObj that object_map_sub [of m] by (metis (no_types) snds.intros subsetD prod.collapse)
    ultimately show ?thesis by simp
  qed
  then show ?case by (simp add: any_equal.simps [of "JObj m"])
qed (simp_all add: any_equal.simps)

definition jsonPayloadEqual :: "json \<Rightarrow> json \<Rightarrow> bool" where
  "jsonPayloadEqual left right \<longleftrightarrow> any_ok left \<and> any_ok right \<and> any_equal left right"

end
