(* ===== verification/Runtime_Bootstrap.thy ===== *)
theory Runtime_Bootstrap
  imports Runtime_Store Go_Any
begin

section \<open>The runtime store: bootstrap synchronisation\<close>

text \<open>
  The synchronisation jobs and the import of the agent's history in numbered batches:
  \<open>CreateSyncJob\<close>, \<open>GetSyncJob\<close> and \<open>ApplyBootstrapBatch\<close> of \<^verbatim>\<open>internal/runtime/postgres.go\<close>. The
  transaction that applies a batch is composed of the import of one project, one session and one
  run, the reconciliation at the end of a snapshot, and the update of the job.
\<close>

subsection \<open>Data\<close>

record sync_job =
  sync_ID :: string
  sync_Status :: string
  sync_SnapshotID :: string
  sync_LastCommittedBatchNo :: int
  sync_ItemCount :: int
  sync_TotalSessions :: int
  sync_ProcessedSessions :: int
  sync_ArchivedSessions :: int
  sync_ArchivedProjects :: int
  sync_ReconciliationApplied :: bool
  sync_ErrorCode :: string
  sync_ErrorMessage :: string
  sync_CreatedAt :: time
  sync_UpdatedAt :: time

record bootstrap_project =
  bpj_ID :: string
  bpj_Name :: string

record bootstrap_session =
  bss_ID :: string
  bss_ProjectID :: string
  bss_CodexThreadID :: string
  bss_Title :: string

record bootstrap_event =
  bev_Sequence :: int
  bev_Type :: string
  bev_Payload :: json
  bev_OccurredAt :: time

record bootstrap_run =
  brn_ID :: string
  brn_SessionID :: string
  brn_CodexTurnID :: string
  brn_Status :: string
  brn_Prompt :: string
  brn_StartedAt :: "time option"
  brn_FinishedAt :: "time option"
  brn_Events :: "bootstrap_event list"

record bootstrap_batch =
  bb_CommandID :: string
  bb_SyncID :: string
  bb_SnapshotID :: string
  bb_BatchNo :: int
  bb_Checksum :: string
  bb_TotalSessions :: int
  bb_ProcessedSessions :: int
  bb_ReconciliationSafe :: bool
  bb_Projects :: "bootstrap_project list"
  bb_Sessions :: "bootstrap_session list"
  bb_Runs :: "bootstrap_run list"
  bb_Done :: bool

definition sync_of :: "sync_row \<Rightarrow> sync_job" where
  "sync_of j = \<lparr>sync_ID = job_id j, sync_Status = job_status j, sync_SnapshotID = or_empty (job_snapshot j),
     sync_LastCommittedBatchNo = job_last j, sync_ItemCount = job_items j, sync_TotalSessions = job_total j,
     sync_ProcessedSessions = job_processed j, sync_ArchivedSessions = job_archived_sessions j,
     sync_ArchivedProjects = job_archived_projects j, sync_ReconciliationApplied = job_reconciled j,
     sync_ErrorCode = or_empty (job_error_code j), sync_ErrorMessage = or_empty (job_error_message j),
     sync_CreatedAt = job_created j, sync_UpdatedAt = job_updated j\<rparr>"

subsection \<open>Jobs\<close>

definition new_job :: "time \<Rightarrow> string \<Rightarrow> string \<Rightarrow> sync_row" where
  "new_job now jid key = \<lparr>job_id = jid, job_status = ''queued'', job_key = key, job_snapshot = None, job_last = - 1,
     job_checksum = None, job_items = 0, job_error_code = None, job_error_message = None, job_created = now,
     job_updated = now, job_total = 0, job_processed = 0, job_archived_sessions = 0, job_archived_projects = 0,
     job_reconciled = False\<rparr>"

definition add_job :: "sync_row \<Rightarrow> rt_db \<Rightarrow> rt_db" where
  "add_job j db = db\<lparr>sync_jobs := sync_jobs db @ [j]\<rparr>"

definition bootstrap_start_command :: "string \<Rightarrow> string \<Rightarrow> json" where
  "bootstrap_start_command jid cid = JObj [(''command_id'', JStr cid), (''sync_id'', JStr jid)]"

text \<open>\<open>Some\<close> is a job that was there already. The first statement takes the advisory lock.\<close>

definition sync_body :: "pgsql \<Rightarrow> time \<Rightarrow> string \<Rightarrow> string \<Rightarrow> string \<Rightarrow> (rt_db, rt_error, sync_job option) tx" where
  "sync_body pg now jid cid key =
     tx_bind (tx_rt_query (\<lambda>_. ())) (\<lambda>_.
     tx_bind (tx_rt_query (\<lambda>db. by_key job_key key (sync_jobs db))) (\<lambda>same.
     case same of
       Some j \<Rightarrow> tx_return (Some (sync_of j))
     | None \<Rightarrow>
         tx_bind (tx_rt_query (\<lambda>db. find job_active (sync_jobs db))) (\<lambda>active.
         case active of
           Some j \<Rightarrow> tx_return (Some (sync_of j))
         | None \<Rightarrow>
             tx_bind (tx_change (add_job (new_job now jid key))) (\<lambda>_.
             tx_bind (tx_change (add_command (new_command pg now cid ''bootstrap.start'' jid
                        (bootstrap_start_command jid cid)))) (\<lambda>_.
             tx_return None)))))"

definition GetSyncJob :: "wire \<Rightarrow> string \<Rightarrow> rt_db \<Rightarrow> rt_error + sync_job" where
  "GetSyncJob w jid = pool_query w (\<lambda>db.
     case by_key job_id jid (sync_jobs db) of None \<Rightarrow> Inl ErrNotFound | Some j \<Rightarrow> Inr (sync_of j))"

definition CreateSyncJob :: "pgsql \<Rightarrow> rt_call \<Rightarrow> entropy \<Rightarrow> string \<Rightarrow> rt_db \<Rightarrow>
    (rt_error + sync_job \<times> bool) \<times> entropy \<times> rt_db" where
  "CreateSyncJob pg rc e key db =
     (let (jid, e1) = newID ''sync'' e;
          (cid, e2) = newID ''cmd'' e1;
          (res, db1) = run_tx ErrDatabase (rc_flt rc 0) (sync_body pg (rc_now rc 0) jid cid key) (rc_itf rc 0 db) in
      case res of
        Inl err \<Rightarrow> (Inl err, e2, db1)
      | Inr (Some j) \<Rightarrow> (Inr (j, False), e2, db1)
      | Inr None \<Rightarrow>
          (let db2 = rc_itf rc 1 db1 in
           (case GetSyncJob (rc_flt rc 1 0) jid db2 of Inl err \<Rightarrow> Inl err | Inr j \<Rightarrow> Inr (j, True), e2, db2)))"

subsection \<open>Importing projects and sessions\<close>

definition import_project :: "time \<Rightarrow> string \<Rightarrow> bootstrap_project \<Rightarrow> rt_db \<Rightarrow> rt_db" where
  "import_project now snap p db =
     (if sql_exists (\<lambda>q. prj_id q = bpj_ID p) (projects db) then
        db\<lparr>projects := sql_update (\<lambda>q. prj_id q = bpj_ID p)
             (\<lambda>q. q\<lparr>prj_name := bpj_Name p, prj_seen := Some snap, prj_archived := None, prj_updated := now\<rparr>) (projects db)\<rparr>
      else
        db\<lparr>projects := projects db @ [\<lparr>prj_id = bpj_ID p, prj_name = bpj_Name p, prj_seen = Some snap,
             prj_archived = None, prj_created = now, prj_updated = now\<rparr>]\<rparr>)"

fun import_projects :: "time \<Rightarrow> string \<Rightarrow> bootstrap_project list \<Rightarrow> (rt_db, rt_error, unit) tx" where
  "import_projects now snap [] = tx_return ()"
| "import_projects now snap (p # ps) =
     tx_bind (tx_change (import_project now snap p)) (\<lambda>_. import_projects now snap ps)"

definition insert_imported_session :: "time \<Rightarrow> bootstrap_session \<Rightarrow> rt_db \<Rightarrow> rt_db" where
  "insert_imported_session now v db =
     (if sql_exists (\<lambda>s. ses_id s = bss_ID v \<or> ses_thread s = Some (bss_CodexThreadID v)) (sessions db) then db
      else db\<lparr>sessions := sessions db @
        [\<lparr>ses_id = bss_ID v, ses_project = bss_ProjectID v, ses_thread = Some (bss_CodexThreadID v),
          ses_title = Some (bss_Title v), ses_last = 0, ses_key = None, ses_hash = None, ses_created = now,
          ses_updated = now, ses_seen = None, ses_archived = None\<rparr>]\<rparr>)"

text \<open>\<^verbatim>\<open>WHERE session_id=$1 OR codex_thread_id=$2 ORDER BY (session_id=$1) DESC LIMIT 1\<close>.\<close>

definition stored_session :: "bootstrap_session \<Rightarrow> rt_db \<Rightarrow> string option" where
  "stored_session v db =
     (case by_key ses_id (bss_ID v) (sessions db) of
        Some s \<Rightarrow> Some (ses_id s)
      | None \<Rightarrow> map_option ses_id (find (\<lambda>s. ses_thread s = Some (bss_CodexThreadID v)) (sessions db)))"

definition refresh_session :: "string \<Rightarrow> string \<Rightarrow> bootstrap_session \<Rightarrow> rt_db \<Rightarrow> rt_db" where
  "refresh_session snap sid v db = db\<lparr>sessions := sql_update (\<lambda>s. ses_id s = sid)
     (\<lambda>s. s\<lparr>ses_project := bss_ProjectID v, ses_title := Some (bss_Title v), ses_seen := Some snap,
            ses_archived := None\<rparr>) (sessions db)\<rparr>"

definition import_session :: "time \<Rightarrow> string \<Rightarrow> bootstrap_session \<Rightarrow> (rt_db, rt_error, string) tx" where
  "import_session now snap v =
     tx_bind (tx_change (insert_imported_session now v)) (\<lambda>_.
     tx_bind (if bss_CodexThreadID v \<noteq> [] then tx_one ErrDatabase (stored_session v) else tx_return (bss_ID v)) (\<lambda>sid.
     tx_bind (tx_change (refresh_session snap sid v)) (\<lambda>_. tx_return sid)))"

text \<open>The Go map from imported to stored session identifiers, later entries first.\<close>

fun import_sessions :: "time \<Rightarrow> string \<Rightarrow> bootstrap_session list \<Rightarrow> (string \<times> string) list \<Rightarrow>
    (rt_db, rt_error, (string \<times> string) list) tx" where
  "import_sessions now snap [] ids = tx_return ids"
| "import_sessions now snap (v # vs) ids =
     tx_bind (import_session now snap v) (\<lambda>sid. import_sessions now snap vs ((bss_ID v, sid) # ids))"

subsection \<open>Importing runs\<close>

definition normalizeImportedStatus :: "string \<Rightarrow> string \<times> bool" where
  "normalizeImportedStatus v =
     (if v = ''completed'' then (''completed'', True)
      else if v = ''failed'' then (''failed'', True)
      else if v = ''interrupted'' \<or> v = ''canceled'' \<or> v = ''cancelled'' then (''canceled'', True)
      else ([], False))"

definition sameOptionalTime :: "time option \<Rightarrow> time option \<Rightarrow> bool" where
  "sameOptionalTime left right =
     (case (left, right) of
        (Some a, Some b) \<Rightarrow> pg_time a = pg_time b
      | (None, None) \<Rightarrow> True
      | _ \<Rightarrow> False)"

definition stored_events :: "string \<Rightarrow> rt_db \<Rightarrow> run_event_row list" where
  "stored_events rid db = sort_key rev_seq (filter (\<lambda>e. rev_run e = rid) (run_events db))"

definition imported_event_matches :: "run_event_row \<Rightarrow> bootstrap_event \<Rightarrow> bool" where
  "imported_event_matches e want \<longleftrightarrow> rev_seq e = bev_Sequence want \<and> rev_type e = bev_Type want
     \<and> pg_time (rev_occurred e) = pg_time (bev_OccurredAt want) \<and> jsonPayloadEqual (rev_payload e) (bev_Payload want)"

fun importedEventsMatch :: "run_event_row list \<Rightarrow> bootstrap_event list \<Rightarrow> bool" where
  "importedEventsMatch [] want \<longleftrightarrow> want = []"
| "importedEventsMatch (e # es) [] \<longleftrightarrow> False"
| "importedEventsMatch (e # es) (w # ws) \<longleftrightarrow> imported_event_matches e w \<and> importedEventsMatch es ws"

text \<open>\<^verbatim>\<open>WHERE run_id=$1 OR codex_turn_id=$2 ORDER BY (run_id=$1) DESC LIMIT 1\<close>, or by \<^verbatim>\<open>run_id\<close> alone.\<close>

definition stored_run :: "bootstrap_run \<Rightarrow> rt_db \<Rightarrow> run_row option" where
  "stored_run r db =
     (case by_key rn_id (brn_ID r) (runs db) of
        Some q \<Rightarrow> Some q
      | None \<Rightarrow>
          if brn_CodexTurnID r \<noteq> [] then find (\<lambda>q. rn_turn q = Some (brn_CodexTurnID r)) (runs db) else None)"

definition run_changed :: "string \<Rightarrow> string \<Rightarrow> bootstrap_run \<Rightarrow> run_row \<Rightarrow> bool \<Rightarrow> bool" where
  "run_changed sid status r q eventsMatch \<longleftrightarrow>
     rn_session q \<noteq> sid \<or> rn_status q \<noteq> status \<or> or_empty (rn_prompt q) \<noteq> brn_Prompt r
     \<or> \<not> sameOptionalTime (rn_started q) (brn_StartedAt r) \<or> \<not> sameOptionalTime (rn_finished q) (brn_FinishedAt r)
     \<or> rn_persisted q \<noteq> int (length (brn_Events r)) \<or> rn_final q \<noteq> Some (int (length (brn_Events r)))
     \<or> \<not> eventsMatch"

definition overwrite_run :: "time \<Rightarrow> string \<Rightarrow> string \<Rightarrow> bootstrap_run \<Rightarrow> string \<Rightarrow> rt_db \<Rightarrow> rt_db" where
  "overwrite_run now sid status r rid db = db\<lparr>runs := sql_update (\<lambda>q. rn_id q = rid)
     (\<lambda>q. q\<lparr>rn_session := sid, rn_turn := nullif_empty (brn_CodexTurnID r), rn_status := status,
            rn_version := rn_version q + 1, rn_prompt := Some (brn_Prompt r), rn_cancel := None,
            rn_persisted := int (length (brn_Events r)), rn_final := Some (int (length (brn_Events r))),
            rn_error_code := None, rn_error_message := None,
            rn_created := (case brn_StartedAt r of Some t \<Rightarrow> pg_time t | None \<Rightarrow> rn_created q),
            rn_started := map_option pg_time (brn_StartedAt r), rn_finished := map_option pg_time (brn_FinishedAt r),
            rn_updated := now\<rparr>) (runs db)\<rparr>"

definition imported_run :: "time \<Rightarrow> string \<Rightarrow> string \<Rightarrow> bootstrap_run \<Rightarrow> run_row" where
  "imported_run now sid status r =
     \<lparr>rn_id = brn_ID r, rn_session = sid, rn_turn = nullif_empty (brn_CodexTurnID r), rn_status = status, rn_version = 1,
      rn_key = None, rn_hash = None, rn_prompt = Some (brn_Prompt r), rn_cancel = None,
      rn_persisted = int (length (brn_Events r)), rn_final = Some (int (length (brn_Events r))),
      rn_error_code = None, rn_error_message = None,
      rn_created = (case brn_StartedAt r of Some t \<Rightarrow> pg_time t | None \<Rightarrow> now),
      rn_started = map_option pg_time (brn_StartedAt r), rn_finished = map_option pg_time (brn_FinishedAt r),
      rn_updated = now, rn_profile = None\<rparr>"

definition delete_events :: "string \<Rightarrow> rt_db \<Rightarrow> rt_db" where
  "delete_events rid db = db\<lparr>run_events := filter (\<lambda>e. rev_run e \<noteq> rid) (run_events db)\<rparr>"

definition imported_event :: "pgsql \<Rightarrow> time \<Rightarrow> string \<Rightarrow> bootstrap_event \<Rightarrow> run_event_row" where
  "imported_event pg now rid e = \<lparr>rev_run = rid, rev_seq = bev_Sequence e, rev_type = bev_Type e,
     rev_payload = pg_jsonb pg (bev_Payload e), rev_occurred = pg_time (bev_OccurredAt e), rev_persisted = now\<rparr>"

fun insert_events :: "pgsql \<Rightarrow> time \<Rightarrow> string \<Rightarrow> bootstrap_event list \<Rightarrow> (rt_db, rt_error, unit) tx" where
  "insert_events pg now rid [] = tx_return ()"
| "insert_events pg now rid (e # es) =
     tx_bind (tx_change (add_run_event (imported_event pg now rid e))) (\<lambda>_. insert_events pg now rid es)"

definition write_run :: "time \<Rightarrow> string \<Rightarrow> string \<Rightarrow> bootstrap_run \<Rightarrow> run_row option \<Rightarrow> (rt_db, rt_error, unit) tx" where
  "write_run now sid status r found =
     (case found of
        Some q \<Rightarrow> tx_bind (tx_change (overwrite_run now sid status r (rn_id q))) (\<lambda>_. tx_change (delete_events (rn_id q)))
      | None \<Rightarrow> tx_change (add_run (imported_run now sid status r)))"

text \<open>One run of a batch; the result is 1 when it counts as an imported item.\<close>

definition import_run :: "pgsql \<Rightarrow> time \<Rightarrow> (string \<times> string) list \<Rightarrow> bootstrap_run \<Rightarrow> (rt_db, rt_error, int) tx" where
  "import_run pg now ids r =
     (let (status, terminal) = normalizeImportedStatus (brn_Status r);
          sid = (case map_of ids (brn_SessionID r) of Some s \<Rightarrow> s | None \<Rightarrow> brn_SessionID r) in
      if \<not> terminal then tx_return 0
      else
        tx_bind (tx_rt_query (stored_run r)) (\<lambda>found.
        tx_bind (case found of
            None \<Rightarrow> tx_return True
          | Some q \<Rightarrow> tx_bind (tx_rt_query (stored_events (rn_id q)))
              (\<lambda>es. tx_return (run_changed sid status r q (importedEventsMatch es (brn_Events r))))) (\<lambda>changed.
        if \<not> changed then tx_return 1
        else
          (let rid = (case found of Some q \<Rightarrow> rn_id q | None \<Rightarrow> brn_ID r) in
           tx_bind (write_run now sid status r found) (\<lambda>_.
           tx_bind (insert_events pg now rid (brn_Events r)) (\<lambda>_.
           tx_bind (next_sequence now sid) (\<lambda>n.
           tx_bind (tx_change (add_session_event pg now sid n (session_event_type status) (run_status_payload sid rid status))) (\<lambda>_.
           tx_return 1))))))))"

fun import_runs :: "pgsql \<Rightarrow> time \<Rightarrow> (string \<times> string) list \<Rightarrow> bootstrap_run list \<Rightarrow> (rt_db, rt_error, int) tx" where
  "import_runs pg now ids [] = tx_return 0"
| "import_runs pg now ids (r # rs) =
     tx_bind (import_run pg now ids r) (\<lambda>a. tx_bind (import_runs pg now ids rs) (\<lambda>b. tx_return (a + b)))"

subsection \<open>Reconciliation\<close>

definition open_statuses :: "string list" where
  "open_statuses = [''queued'', ''dispatching'', ''accepted'', ''running'', ''waiting_agent'', ''recovering'', ''finalizing'']"

definition has_open_run :: "rt_db \<Rightarrow> string \<Rightarrow> bool" where
  "has_open_run db sid \<longleftrightarrow> sql_exists (\<lambda>r. rn_session r = sid \<and> rn_status r \<in> set open_statuses) (runs db)"

text \<open>Not touched since the job began: \<^verbatim>\<open>updated_at <= (SELECT created_at FROM sync_jobs WHERE sync_id=$1)\<close>.\<close>

definition before_job :: "rt_db \<Rightarrow> string \<Rightarrow> time \<Rightarrow> bool" where
  "before_job db jid t \<longleftrightarrow> (case by_key job_id jid (sync_jobs db) of Some j \<Rightarrow> t \<le> job_created j | None \<Rightarrow> False)"

definition stale_session :: "string \<Rightarrow> string \<Rightarrow> rt_db \<Rightarrow> session_row \<Rightarrow> bool" where
  "stale_session jid snap db s \<longleftrightarrow> ses_thread s \<noteq> None \<and> ses_archived s = None \<and> ses_seen s \<noteq> Some snap
     \<and> before_job db jid (ses_updated s) \<and> \<not> has_open_run db (ses_id s)"

definition stale_project :: "string \<Rightarrow> string \<Rightarrow> rt_db \<Rightarrow> project_row \<Rightarrow> bool" where
  "stale_project jid snap db p \<longleftrightarrow> prj_archived p = None \<and> prj_seen p \<noteq> Some snap
     \<and> before_job db jid (prj_updated p)
     \<and> \<not> sql_exists (\<lambda>s. ses_project s = prj_id p \<and> has_open_run db (ses_id s)) (sessions db)"

definition archive_sessions :: "time \<Rightarrow> string \<Rightarrow> string \<Rightarrow> rt_db \<Rightarrow> rt_db" where
  "archive_sessions now jid snap db =
     db\<lparr>sessions := sql_update (stale_session jid snap db) (\<lambda>s. s\<lparr>ses_archived := Some now\<rparr>) (sessions db)\<rparr>"

definition archive_projects :: "time \<Rightarrow> string \<Rightarrow> string \<Rightarrow> rt_db \<Rightarrow> rt_db" where
  "archive_projects now jid snap db =
     db\<lparr>projects := sql_update (stale_project jid snap db) (\<lambda>p. p\<lparr>prj_archived := Some now, prj_updated := now\<rparr>) (projects db)\<rparr>"

text \<open>An update that reports how many rows it changed.\<close>

definition tx_counted :: "(rt_db \<Rightarrow> rt_db) \<Rightarrow> (rt_db \<Rightarrow> nat) \<Rightarrow> (rt_db, rt_error, int) tx" where
  "tx_counted f count = tx_stmt ErrDatabase (\<lambda>db.
     if rt_schema (f db) then Inr (int (count db), f db) else Inl ErrDatabase)"

definition reconcile :: "time \<Rightarrow> bootstrap_batch \<Rightarrow> (rt_db, rt_error, int \<times> int) tx" where
  "reconcile now b =
     (if bb_Done b \<and> bb_ReconciliationSafe b \<and> bb_SnapshotID b \<noteq> [] then
        tx_bind (tx_counted (archive_sessions now (bb_SyncID b) (bb_SnapshotID b))
           (\<lambda>db. affected (stale_session (bb_SyncID b) (bb_SnapshotID b) db) (sessions db))) (\<lambda>ns.
        tx_bind (tx_counted (archive_projects now (bb_SyncID b) (bb_SnapshotID b))
           (\<lambda>db. affected (stale_project (bb_SyncID b) (bb_SnapshotID b) db) (projects db))) (\<lambda>np.
        tx_return (ns, np)))
      else tx_return (0, 0))"

subsection \<open>Applying a batch\<close>

definition advance_job :: "time \<Rightarrow> bootstrap_batch \<Rightarrow> int \<Rightarrow> int \<Rightarrow> int \<Rightarrow> rt_db \<Rightarrow> rt_db" where
  "advance_job now b count ns np db = db\<lparr>sync_jobs := sql_update (\<lambda>j. job_id j = bb_SyncID b)
     (\<lambda>j. j\<lparr>job_status := (if bb_Done b then ''completed'' else ''running''), job_snapshot := Some (bb_SnapshotID b),
            job_last := bb_BatchNo b, job_checksum := Some (bb_Checksum b), job_items := job_items j + count,
            job_total := max (job_total j) (bb_TotalSessions b),
            job_processed := max (job_processed j) (bb_ProcessedSessions b),
            job_archived_sessions := job_archived_sessions j + ns,
            job_archived_projects := job_archived_projects j + np,
            job_reconciled := (job_reconciled j \<or> bb_Done b \<and> bb_ReconciliationSafe b), job_updated := now\<rparr>)
     (sync_jobs db)\<rparr>"

definition deliver_bootstrap :: "time \<Rightarrow> bootstrap_batch \<Rightarrow> rt_db \<Rightarrow> rt_db" where
  "deliver_bootstrap now b db = db\<lparr>command_outbox := sql_update
     (\<lambda>c. out_id c = bb_CommandID b \<and> out_type c = ''bootstrap.start'' \<and> out_resource c = bb_SyncID b)
     (\<lambda>c. c\<lparr>out_status := ''delivered'', out_delivered := coalesce (out_delivered c) now, out_claimed_by := None,
            out_expires := None\<rparr>) (command_outbox db)\<rparr>"

text \<open>The part of the transaction that writes: everything after the two checks of the batch number.\<close>

definition import_batch :: "pgsql \<Rightarrow> time \<Rightarrow> bootstrap_batch \<Rightarrow> (rt_db, rt_error, unit) tx" where
  "import_batch pg now b =
     tx_bind (import_projects now (bb_SnapshotID b) (bb_Projects b)) (\<lambda>_.
     tx_bind (import_sessions now (bb_SnapshotID b) (bb_Sessions b) []) (\<lambda>ids.
     tx_bind (import_runs pg now ids (bb_Runs b)) (\<lambda>count.
     tx_bind (reconcile now b) (\<lambda>(ns, np).
     tx_bind (tx_change (advance_job now b count ns np)) (\<lambda>_.
     if bb_Done b \<and> bb_CommandID b \<noteq> [] then tx_change (deliver_bootstrap now b) else tx_return ())))))"

definition batch_body :: "pgsql \<Rightarrow> time \<Rightarrow> bootstrap_batch \<Rightarrow> (rt_db, rt_error, unit) tx" where
  "batch_body pg now b =
     tx_bind (tx_one ErrNotFound (\<lambda>db. by_key job_id (bb_SyncID b) (sync_jobs db))) (\<lambda>j.
     if bb_BatchNo b = job_last j \<and> bb_Checksum b = or_empty (job_checksum j) then tx_return ()
     else if bb_BatchNo b \<noteq> job_last j + 1 then tx_fail (ErrBatchOrder (bb_BatchNo b) (job_last j))
     else import_batch pg now b)"

definition ApplyBootstrapBatch :: "pgsql \<Rightarrow> rt_call \<Rightarrow> bootstrap_batch \<Rightarrow> rt_db \<Rightarrow> (rt_error + sync_job) \<times> rt_db" where
  "ApplyBootstrapBatch pg rc b db =
     (let (res, db1) = run_tx ErrDatabase (rc_flt rc 0) (batch_body pg (rc_now rc 0) b) (rc_itf rc 0 db) in
      case res of
        Inl err \<Rightarrow> (Inl err, db1)
      | Inr _ \<Rightarrow> (let db2 = rc_itf rc 1 db1 in (GetSyncJob (rc_flt rc 1 0) (bb_SyncID b) db2, db2)))"

end
