(* ===== verification/Runtime_Invariant.thy ===== *)
theory Runtime_Invariant
  imports Runtime_Bootstrap
begin

section \<open>Invariants of the runtime store\<close>

text \<open>
  What the transactions of the store keep beyond the constraints of the schema, whatever is lost on
  the wire and whatever the calls are interleaved with:
  \<^item> \<open>feed_inv\<close>: the events of a session are numbered 1, 2, 3, ... without gaps, in the order in
    which they were stored, up to \<^verbatim>\<open>last_session_sequence\<close>;
  \<^item> \<open>outbox_inv\<close>: every run a client asked for has its start command in the outbox, every
    cancellation its cancel command, every synchronisation job its bootstrap command, and no
    command is about something that does not exist;
  \<^item> \<open>log_inv\<close>: \<^verbatim>\<open>persisted_through_sequence\<close> is the highest stored event number of a run, and a
    terminal run has a final event, which is stored.
\<close>

subsection \<open>Bodies that keep a property at every statement\<close>

named_theorems keep \<open>rules for bodies that keep one property at every statement\<close>

lemma keep_bind [keep]:
  "tx_hoare P m (\<lambda>_. P) \<Longrightarrow> (\<And>a. tx_hoare P (k a) (\<lambda>_. P)) \<Longrightarrow> tx_hoare P (tx_bind m k) (\<lambda>_. P)"
  by (rule tx_hoare_bind)

lemma keep_return [keep]: "tx_hoare P (tx_return a) (\<lambda>_. P)"
  by (rule tx_hoare_return)

lemma keep_fail [keep]: "tx_hoare P (tx_fail e) Q"
  by (rule tx_hoare_fail)

lemma keep_query [keep]: "tx_hoare P (tx_rt_query q) (\<lambda>_. P)"
  by (rule tx_hoare_rt_query)

lemma keep_one [keep]: "tx_hoare P (tx_one e q) (\<lambda>_. P)"
  by (rule tx_hoare_one)

lemma keep_if [keep]:
  "(c \<Longrightarrow> tx_hoare P m Q) \<Longrightarrow> (\<not> c \<Longrightarrow> tx_hoare P m' Q) \<Longrightarrow> tx_hoare P (if c then m else m') Q"
  by simp

lemma keep_option [keep]:
  "(x = None \<Longrightarrow> tx_hoare P m Q) \<Longrightarrow> (\<And>a. x = Some a \<Longrightarrow> tx_hoare P (k a) Q) \<Longrightarrow>
     tx_hoare P (case x of None \<Rightarrow> m | Some a \<Rightarrow> k a) Q"
  by (simp split: option.split)

lemma keep_prod [keep]:
  "(\<And>a b. x = (a, b) \<Longrightarrow> tx_hoare P (k a b) Q) \<Longrightarrow> tx_hoare P (case x of (a, b) \<Rightarrow> k a b) Q"
  by (simp split: prod.split)

lemma keep_let [keep]: "(\<And>x. x = v \<Longrightarrow> tx_hoare P (k x) Q) \<Longrightarrow> tx_hoare P (Let v k) Q"
  by (simp add: Let_def)

lemma keep_run_tx:
  assumes "tx_hoare P body (\<lambda>_. P)" "P db" "run_tx err flt body db = (r, db')"
  shows "P db'"
  using assms(3)
proof (cases rule: run_tx_cases)
  case (lost a n)
  then show ?thesis using assms(1,2) by (metis tx_hoare_def)
next
  case (committed a n)
  then show ?thesis using assms(1,2) by (metis tx_hoare_def)
qed (use assms in simp)

lemma keep_counted:
  "(\<And>db. P db \<Longrightarrow> rt_schema (f db) \<Longrightarrow> P (f db)) \<Longrightarrow> tx_hoare P (tx_counted f count) (\<lambda>_. P)"
  unfolding tx_counted_def by (rule tx_hoare_stmt) (auto split: if_splits)

text \<open>What the statements change.\<close>

lemmas statement_defs = upsert_project_def insert_session_def bump_session_def add_session_event_def
  add_command_def add_run_def add_command_once_def mark_cancel_def claim_command_def dispatch_run_def
  deliver_command_def release_command_def add_run_event_def bind_thread_def apply_event_def add_job_def
  import_project_def insert_imported_session_def refresh_session_def overwrite_run_def delete_events_def
  archive_sessions_def archive_projects_def advance_job_def deliver_bootstrap_def

lemma event_on_run_simps [simp]:
  "rn_id (event_on_run now n ty p r) = rn_id r"
  "rn_session (event_on_run now n ty p r) = rn_session r"
  "rn_key (event_on_run now n ty p r) = rn_key r"
  "rn_hash (event_on_run now n ty p r) = rn_hash r"
  "rn_cancel (event_on_run now n ty p r) = rn_cancel r"
  "rn_prompt (event_on_run now n ty p r) = rn_prompt r"
  "rn_persisted (event_on_run now n ty p r) = max (rn_persisted r) n"
  by (simp_all add: event_on_run_def Let_def split: prod.split)

subsection \<open>The session feed\<close>

definition feed_seqs :: "rt_db \<Rightarrow> string \<Rightarrow> int list" where
  "feed_seqs db sid = map sev_seq (filter (\<lambda>e. sev_session e = sid) (session_events db))"

definition feed_inv :: "rt_db \<Rightarrow> bool" where
  "feed_inv db \<longleftrightarrow> rt_schema db \<and> (\<forall>s \<in> set (sessions db). feed_seqs db (ses_id s) = [1..ses_last s])"

text \<open>Between taking the next number \<open>n\<close> of a session and storing the event with that number.\<close>

definition feed_gap :: "string \<Rightarrow> int \<Rightarrow> rt_db \<Rightarrow> bool" where
  "feed_gap sid n db \<longleftrightarrow> rt_schema db
     \<and> (\<forall>s \<in> set (sessions db). feed_seqs db (ses_id s) =
          (if ses_id s = sid then [1..ses_last s - 1] else [1..ses_last s]))
     \<and> (\<exists>s \<in> set (sessions db). ses_id s = sid \<and> ses_last s = n)"

definition heads :: "rt_db \<Rightarrow> (string \<times> int) set" where
  "heads db = (\<lambda>s. (ses_id s, ses_last s)) ` set (sessions db)"

lemma feed_inv_heads:
  "feed_inv db \<longleftrightarrow> rt_schema db \<and> (\<forall>(sid, n) \<in> heads db. feed_seqs db sid = [1..n])"
  by (auto simp: feed_inv_def heads_def)

lemma feed_inv_keep:
  assumes "feed_inv db" "rt_schema db'" "session_events db' = session_events db" "heads db' = heads db"
  shows "feed_inv db'"
proof -
  have "feed_seqs db' = feed_seqs db" using assms(3) by (simp add: fun_eq_iff feed_seqs_def)
  with assms show ?thesis by (simp add: feed_inv_heads)
qed

lemma feed_inv_new_session:
  assumes I: "feed_inv db" and S: "rt_schema db'" and "session_events db' = session_events db"
    and "sessions db' = sessions db @ [s]" "ses_last s = 0"
  shows "feed_inv db'"
proof -
  have fresh: "ses_id s \<notin> ses_id ` set (sessions db)"
    using S assms(4) by (simp add: rt_schema_def sessions_ok_def)
  have "\<forall>e \<in> set (session_events db). sev_session e \<in> ses_id ` set (sessions db)"
    using I by (simp add: feed_inv_def rt_schema_def session_events_ok_def)
  with fresh have "feed_seqs db (ses_id s) = []"
    unfolding feed_seqs_def by (simp add: filter_empty_conv) metis
  moreover have "feed_seqs db' = feed_seqs db" using assms(3) by (simp add: fun_eq_iff feed_seqs_def)
  ultimately show ?thesis using I S assms(4,5) by (simp add: feed_inv_def)
qed

lemma upto_step: "0 \<le> n \<Longrightarrow> [1..n] @ [n + 1] = [1..n + 1]" for n :: int
  by (simp add: upto_rec2 [of 1 "n + 1"])

lemma next_sequence_gap:
  "tx_hoare feed_inv (next_sequence now sid) (feed_gap sid)"
  unfolding next_sequence_def
proof (rule tx_hoare_bind [where R = "\<lambda>x db. \<forall>n. x = Some n \<longrightarrow> feed_gap sid n db"])
  show "tx_hoare feed_inv (tx_change_ret (bump_session now sid) (\<lambda>db. map_option ses_last (by_key ses_id sid (sessions db))))
     (\<lambda>x db. \<forall>n. x = Some n \<longrightarrow> feed_gap sid n db)"
  proof (rule tx_hoare_change_ret, intro allI impI)
    fix db n
    let ?db = "bump_session now sid db"
    assume I: "feed_inv db" and S: "rt_schema ?db"
      and n: "map_option ses_last (by_key ses_id sid (sessions ?db)) = Some n"
    then obtain s where "s \<in> set (sessions ?db)" "ses_id s = sid" "ses_last s = n"
      by (auto dest: by_key_SomeD)
    moreover have "feed_seqs ?db = feed_seqs db"
      by (simp add: fun_eq_iff feed_seqs_def bump_session_def)
    moreover have "feed_seqs db (ses_id q) = (if ses_id q = sid then [1..ses_last q - 1] else [1..ses_last q])"
      if "q \<in> set (sessions ?db)" for q
    proof -
      from that have "q \<in> set (sql_update (\<lambda>s. ses_id s = sid)
          (\<lambda>s. s\<lparr>ses_last := ses_last s + 1, ses_updated := now\<rparr>) (sessions db))"
        by (simp add: bump_session_def)
      then show ?thesis by (rule in_sql_updateE) (use I in \<open>auto simp: feed_inv_def\<close>)
    qed
    ultimately show "feed_gap sid n ?db" using S unfolding feed_gap_def by metis
  qed
qed (auto intro!: tx_rules split: option.splits)

lemma feed_gap_close:
  assumes "feed_gap sid n db" "rt_schema (add_session_event pg now sid n ty p db)"
  shows "feed_inv (add_session_event pg now sid n ty p db)"
proof -
  let ?db = "add_session_event pg now sid n ty p db"
  obtain s where s: "s \<in> set (sessions db)" "ses_id s = sid" "ses_last s = n"
    using assms(1) by (auto simp: feed_gap_def)
  have pos: "0 < n" using assms(2) by (auto simp: rt_schema_def session_events_ok_def add_session_event_def)
  have uniq: "distinct (map ses_id (sessions db))"
    using assms(1) by (simp add: feed_gap_def rt_schema_def sessions_ok_def)
  have seqs: "feed_seqs ?db x = feed_seqs db x @ (if x = sid then [n] else [])" for x
    by (simp add: feed_seqs_def add_session_event_def)
  have "feed_seqs ?db (ses_id q) = [1..ses_last q]" if q: "q \<in> set (sessions db)" for q
  proof (cases "ses_id q = sid")
    case True
    then have "q = s" using uniq q s by (metis unique_row)
    then show ?thesis using assms(1) q s pos upto_step [of "n - 1"] by (auto simp: feed_gap_def seqs)
  next
    case False
    then show ?thesis using assms(1) q by (auto simp: feed_gap_def seqs)
  qed
  then show ?thesis using assms(2) by (simp add: feed_inv_def) (simp add: add_session_event_def)
qed

lemma announce_feed:
  "tx_hoare feed_inv (tx_bind (next_sequence now sid) (\<lambda>n. tx_change (add_session_event pg now sid n ty p))) (\<lambda>_. feed_inv)"
  by (rule tx_hoare_bind [OF next_sequence_gap]) (auto intro: tx_hoare_change feed_gap_close)

lemma feed_frame:
  assumes "\<And>db. heads (f db) = heads db" "\<And>db. session_events (f db) = session_events db"
  shows "tx_hoare feed_inv (tx_change f) (\<lambda>_. feed_inv)"
  by (rule tx_hoare_change) (rule feed_inv_keep, use assms in auto)

lemma heads_cong: "sessions db' = sessions db \<Longrightarrow> heads db' = heads db"
  by (simp add: heads_def)

named_theorems feed_keep \<open>statements that keep the session feed\<close>

lemma feed_keep_statements [feed_keep]:
  "tx_hoare feed_inv (tx_change (upsert_project now pid name)) (\<lambda>_. feed_inv)"
  "tx_hoare feed_inv (tx_change (add_run r)) (\<lambda>_. feed_inv)"
  "tx_hoare feed_inv (tx_change (add_command c)) (\<lambda>_. feed_inv)"
  "tx_hoare feed_inv (tx_change (add_command_once c)) (\<lambda>_. feed_inv)"
  "tx_hoare feed_inv (tx_change (mark_cancel t rid)) (\<lambda>_. feed_inv)"
  "tx_hoare feed_inv (tx_change (claim_command now w cid)) (\<lambda>_. feed_inv)"
  "tx_hoare feed_inv (tx_change (dispatch_run now rid)) (\<lambda>_. feed_inv)"
  "tx_hoare feed_inv (tx_change (bind_thread now rid th)) (\<lambda>_. feed_inv)"
  "tx_hoare feed_inv (tx_change (apply_event now rid n ty p)) (\<lambda>_. feed_inv)"
  "tx_hoare feed_inv (tx_change (add_job j)) (\<lambda>_. feed_inv)"
  "tx_hoare feed_inv (tx_change (import_project now snap bp)) (\<lambda>_. feed_inv)"
  "tx_hoare feed_inv (tx_change (refresh_session snap sid v)) (\<lambda>_. feed_inv)"
  "tx_hoare feed_inv (tx_change (overwrite_run now sid st br rid)) (\<lambda>_. feed_inv)"
  "tx_hoare feed_inv (tx_change (delete_events rid)) (\<lambda>_. feed_inv)"
  "tx_hoare feed_inv (tx_change (add_run_event ev)) (\<lambda>_. feed_inv)"
  "tx_hoare feed_inv (tx_change (advance_job now b k ns np)) (\<lambda>_. feed_inv)"
  "tx_hoare feed_inv (tx_change (deliver_bootstrap now b)) (\<lambda>_. feed_inv)"
  by (rule feed_frame; simp add: statement_defs heads_def)+

lemma feed_keep_insert_event [feed_keep]: "tx_hoare feed_inv (insert_run_event ev) (\<lambda>_. feed_inv)"
  unfolding insert_run_event_def
  by (rule tx_hoare_stmt)
    (auto elim!: feed_inv_keep simp: heads_def add_run_event_def split: if_splits)

lemma feed_keep_archive [feed_keep]:
  "tx_hoare feed_inv (tx_counted (archive_sessions now jid snap) k) (\<lambda>_. feed_inv)"
  "tx_hoare feed_inv (tx_counted (archive_projects now jid snap) k') (\<lambda>_. feed_inv)"
  by (rule keep_counted, erule feed_inv_keep, assumption,
      simp_all add: archive_sessions_def archive_projects_def heads_def)+

lemma feed_keep_import_session [feed_keep]:
  "tx_hoare feed_inv (tx_change (insert_imported_session now v)) (\<lambda>_. feed_inv)"
proof (rule tx_hoare_change)
  fix db assume I: "feed_inv db" "rt_schema (insert_imported_session now v db)"
  show "feed_inv (insert_imported_session now v db)"
  proof (cases "insert_imported_session now v db = db")
    case False
    then show ?thesis using I
      by (intro feed_inv_new_session [OF I]) (auto simp: insert_imported_session_def split: if_splits)
  qed (use I in simp)
qed

lemma feed_insert_session:
  "feed_inv db \<Longrightarrow> rt_schema (insert_session now sid pid title key hash db) \<Longrightarrow>
     feed_inv (insert_session now sid pid title key hash db)"
  by (cases "insert_session now sid pid title key hash db = db", simp)
    (rule feed_inv_new_session, auto simp: insert_session_def split: if_splits)

lemmas feed_rules = keep feed_keep

lemma upsert_each_feed: "tx_hoare feed_inv (upsert_each now ps) (\<lambda>_. feed_inv)"
  by (induction ps) (simp_all only: upsert_each.simps, (intro feed_rules | assumption)+)

lemma claim_each_feed: "tx_hoare feed_inv (claim_each now w cs) (\<lambda>_. feed_inv)"
  by (induction cs) (simp_all only: claim_each.simps, (intro feed_rules | assumption)+)

lemma claim_body_feed: "tx_hoare feed_inv (claim_body now locked w limit) (\<lambda>_. feed_inv)"
  unfolding claim_body_def by (intro feed_rules claim_each_feed)

lemma cancel_body_feed: "tx_hoare feed_inv (cancel_body pg now clock cid rid) (\<lambda>_. feed_inv)"
  unfolding cancel_body_def by (intro feed_rules)

lemma sync_body_feed: "tx_hoare feed_inv (sync_body pg now jid cid key) (\<lambda>_. feed_inv)"
  unfolding sync_body_def by (intro feed_rules)

lemma announce_then_feed:
  assumes "\<And>n. tx_hoare feed_inv (k n) Q"
  shows "tx_hoare feed_inv (tx_bind (next_sequence now sid) (\<lambda>n.
     tx_bind (tx_change (add_session_event pg now sid n ty p)) (\<lambda>_. k n))) Q"
  by (rule tx_hoare_bind [OF next_sequence_gap], rule tx_hoare_bind [OF _ assms])
    (auto intro: tx_hoare_change feed_gap_close)

lemma create_run_body_feed:
  "tx_hoare feed_inv (create_run_body pg now rid cid sid prompt profile key hash) (\<lambda>_. feed_inv)"
  unfolding create_run_body_def
  by (intro announce_then_feed feed_rules)

lemma append_body_feed: "tx_hoare feed_inv (append_body pg now t rid n ty p) (\<lambda>_. feed_inv)"
  unfolding append_body_def by (intro announce_feed feed_rules)

text \<open>The import of a batch.\<close>

lemma import_projects_feed: "tx_hoare feed_inv (import_projects now snap ps) (\<lambda>_. feed_inv)"
  by (induction ps) (simp_all only: import_projects.simps, (intro feed_rules | assumption)+)

lemma import_session_feed: "tx_hoare feed_inv (import_session now snap v) (\<lambda>_. feed_inv)"
  unfolding import_session_def by (intro feed_rules)

lemma import_sessions_feed: "tx_hoare feed_inv (import_sessions now snap vs ids) (\<lambda>_. feed_inv)"
  by (induction vs arbitrary: ids)
    (simp_all only: import_sessions.simps, (intro feed_rules import_session_feed | assumption)+)

lemma insert_events_feed: "tx_hoare feed_inv (insert_events pg now rid es) (\<lambda>_. feed_inv)"
  by (induction es) (simp_all only: insert_events.simps, (intro feed_rules | assumption)+)

lemma import_run_feed: "tx_hoare feed_inv (import_run pg now ids r) (\<lambda>_. feed_inv)"
  unfolding import_run_def write_run_def by (intro announce_then_feed insert_events_feed feed_rules)

lemma import_runs_feed: "tx_hoare feed_inv (import_runs pg now ids rs) (\<lambda>_. feed_inv)"
  by (induction rs) (simp_all only: import_runs.simps, (intro feed_rules import_run_feed | assumption)+)

lemma batch_body_feed: "tx_hoare feed_inv (batch_body pg now b) (\<lambda>_. feed_inv)"
  unfolding batch_body_def import_batch_def reconcile_def
  by (intro feed_rules import_projects_feed import_sessions_feed import_runs_feed)

subsection \<open>The outbox\<close>

definition needed :: "rt_db \<Rightarrow> (string \<times> string) set" where
  "needed db = Pair ''run.start'' ` rn_id ` {r \<in> set (runs db). rn_key r \<noteq> None}
     \<union> Pair ''run.cancel'' ` rn_id ` {r \<in> set (runs db). rn_cancel r \<noteq> None}
     \<union> Pair ''bootstrap.start'' ` job_id ` set (sync_jobs db)"

definition issued :: "rt_db \<Rightarrow> (string \<times> string) set" where
  "issued db = (\<lambda>c. (out_type c, out_resource c)) ` set (command_outbox db)"

definition subjects :: "rt_db \<Rightarrow> (string \<times> string) set" where
  "subjects db = {''run.start'', ''run.cancel''} \<times> rn_id ` set (runs db)
     \<union> {''bootstrap.start''} \<times> job_id ` set (sync_jobs db)"

text \<open>\<open>X\<close> are the commands a transaction still owes.\<close>

definition outbox_inv :: "(string \<times> string) set \<Rightarrow> rt_db \<Rightarrow> bool" where
  "outbox_inv X db \<longleftrightarrow> rt_schema db \<and> needed db \<subseteq> issued db \<union> X \<and> issued db \<union> X \<subseteq> subjects db"

lemma outbox_frame:
  assumes "\<And>db. needed (f db) \<subseteq> needed db" "\<And>db. issued (f db) = issued db" "\<And>db. subjects db \<subseteq> subjects (f db)"
  shows "tx_hoare (outbox_inv X) (tx_change f) (\<lambda>_. outbox_inv X)"
proof (rule tx_hoare_change)
  fix db assume "outbox_inv X db" "rt_schema (f db)"
  then show "outbox_inv X (f db)"
    using assms [of db] unfolding outbox_inv_def by blast
qed

lemma outbox_frame_eq:
  assumes "\<And>db. needed (f db) = needed db" "\<And>db. issued (f db) = issued db" "\<And>db. subjects (f db) = subjects db"
  shows "tx_hoare (outbox_inv X) (tx_change f) (\<lambda>_. outbox_inv X)"
  by (rule outbox_frame) (simp_all add: assms)

lemma image_sql_update_sub:
  "(\<And>r. P r \<Longrightarrow> c (f r) = c r) \<Longrightarrow> (\<And>r. P r \<Longrightarrow> Q (f r) \<Longrightarrow> Q r) \<Longrightarrow>
     c ` {r \<in> set (sql_update P f t). Q r} \<subseteq> c ` {r \<in> set t. Q r}"
proof
  fix x
  assume keep: "\<And>r. P r \<Longrightarrow> c (f r) = c r" "\<And>r. P r \<Longrightarrow> Q (f r) \<Longrightarrow> Q r"
    and "x \<in> c ` {r \<in> set (sql_update P f t). Q r}"
  then obtain r where r: "r \<in> set (sql_update P f t)" "Q r" "x = c r" by blast
  from r(1) show "x \<in> c ` {r \<in> set t. Q r}"
    by (rule in_sql_updateE) (use r keep in blast)+
qed

lemma needed_cong:
  "runs db' = runs db \<Longrightarrow> sync_jobs db' = sync_jobs db \<Longrightarrow> needed db' = needed db"
  "runs db' = runs db \<Longrightarrow> sync_jobs db' = sync_jobs db \<Longrightarrow> subjects db' = subjects db"
  "command_outbox db' = command_outbox db \<Longrightarrow> issued db' = issued db"
  by (simp_all add: needed_def subjects_def issued_def)

lemma needed_runs_update:
  assumes "\<And>r. rn_id (f r) = rn_id r" "\<And>r. rn_key (f r) = rn_key r"
    and "\<And>r. rn_cancel r = None \<Longrightarrow> rn_cancel (f r) = None"
  shows "needed (db\<lparr>runs := sql_update P f (runs db)\<rparr>) \<subseteq> needed db"
    and "subjects (db\<lparr>runs := sql_update P f (runs db)\<rparr>) = subjects db"
proof -
  have "rn_id ` {r \<in> set (sql_update P f (runs db)). rn_key r \<noteq> None} \<subseteq> rn_id ` {r \<in> set (runs db). rn_key r \<noteq> None}"
    using assms by (intro image_sql_update_sub) auto
  moreover have "rn_id ` {r \<in> set (sql_update P f (runs db)). rn_cancel r \<noteq> None} \<subseteq> rn_id ` {r \<in> set (runs db). rn_cancel r \<noteq> None}"
    by (intro image_sql_update_sub) (rule assms(1), erule contrapos_nn, erule assms(3))
  ultimately show "needed (db\<lparr>runs := sql_update P f (runs db)\<rparr>) \<subseteq> needed db"
    unfolding needed_def by (intro Un_mono [OF Un_mono [OF image_mono image_mono]]) simp_all
  show "subjects (db\<lparr>runs := sql_update P f (runs db)\<rparr>) = subjects db"
    using assms(1) by (simp add: subjects_def)
qed

named_theorems outbox_keep \<open>statements that keep the outbox invariant\<close>

lemma outbox_keep_frames [outbox_keep]:
  "tx_hoare (outbox_inv X) (tx_change (upsert_project now pid name)) (\<lambda>_. outbox_inv X)"
  "tx_hoare (outbox_inv X) (tx_change (bump_session now sid)) (\<lambda>_. outbox_inv X)"
  "tx_hoare (outbox_inv X) (tx_change (add_session_event pg now sid n ty p)) (\<lambda>_. outbox_inv X)"
  "tx_hoare (outbox_inv X) (tx_change (claim_command now w cid)) (\<lambda>_. outbox_inv X)"
  "tx_hoare (outbox_inv X) (tx_change (bind_thread now rid th)) (\<lambda>_. outbox_inv X)"
  "tx_hoare (outbox_inv X) (tx_change (import_project now snap bp)) (\<lambda>_. outbox_inv X)"
  "tx_hoare (outbox_inv X) (tx_change (insert_imported_session now v)) (\<lambda>_. outbox_inv X)"
  "tx_hoare (outbox_inv X) (tx_change (refresh_session snap sid v)) (\<lambda>_. outbox_inv X)"
  "tx_hoare (outbox_inv X) (tx_change (delete_events rid)) (\<lambda>_. outbox_inv X)"
  "tx_hoare (outbox_inv X) (tx_change (add_run_event ev)) (\<lambda>_. outbox_inv X)"
  "tx_hoare (outbox_inv X) (tx_change (deliver_bootstrap now b)) (\<lambda>_. outbox_inv X)"
  by (rule outbox_frame_eq; simp add: statement_defs needed_def issued_def subjects_def)+

lemma outbox_keep_runs [outbox_keep]:
  "tx_hoare (outbox_inv X) (tx_change (dispatch_run now rid)) (\<lambda>_. outbox_inv X)"
  "tx_hoare (outbox_inv X) (tx_change (apply_event now rid n ty p)) (\<lambda>_. outbox_inv X)"
  "tx_hoare (outbox_inv X) (tx_change (overwrite_run now sid st br rid)) (\<lambda>_. outbox_inv X)"
  unfolding dispatch_run_def apply_event_def overwrite_run_def
  by (rule outbox_frame; simp add: needed_runs_update issued_def)+

lemma outbox_keep_jobs [outbox_keep]:
  "tx_hoare (outbox_inv X) (tx_change (advance_job now b k ns np)) (\<lambda>_. outbox_inv X)"
  by (rule outbox_frame_eq; simp add: advance_job_def needed_def issued_def subjects_def)

lemma outbox_keep_archive [outbox_keep]:
  "tx_hoare (outbox_inv X) (tx_counted (archive_sessions now jid snap) k) (\<lambda>_. outbox_inv X)"
  "tx_hoare (outbox_inv X) (tx_counted (archive_projects now jid snap) k') (\<lambda>_. outbox_inv X)"
  by (rule keep_counted; simp add: outbox_inv_def archive_sessions_def archive_projects_def
      needed_def issued_def subjects_def)+

lemma outbox_keep_next [outbox_keep]:
  "tx_hoare (outbox_inv X) (next_sequence now sid) (\<lambda>_. outbox_inv X)"
  unfolding next_sequence_def
  by (intro keep tx_hoare_change_ret)
    (simp add: outbox_inv_def bump_session_def needed_def issued_def subjects_def)

lemma outbox_keep_insert_event [outbox_keep]:
  "tx_hoare (outbox_inv X) (insert_run_event ev) (\<lambda>_. outbox_inv X)"
  unfolding insert_run_event_def
  by (rule tx_hoare_stmt)
    (auto simp: outbox_inv_def add_run_event_def needed_def issued_def subjects_def split: if_splits)

lemma rows_append: "{q \<in> set (t @ [r]). Q q} = (if Q r then insert r {q \<in> set t. Q q} else {q \<in> set t. Q q})"
  by auto

lemma needed_add_run:
  "rn_cancel r = None \<Longrightarrow>
     needed (add_run r db) = (if rn_key r \<noteq> None then insert (''run.start'', rn_id r) (needed db) else needed db)"
  "subjects (add_run r db) = insert (''run.start'', rn_id r) (insert (''run.cancel'', rn_id r) (subjects db))"
  "issued (add_run r db) = issued db"
proof -
  show "needed (add_run r db) = (if rn_key r \<noteq> None then insert (''run.start'', rn_id r) (needed db) else needed db)"
    if "rn_cancel r = None"
    using that unfolding needed_def add_run_def by (simp add: rows_append del: not_None_eq set_append)
qed (simp_all add: subjects_def issued_def add_run_def Times_insert_right)

lemma outbox_owe_run:
  "rn_id r = rid \<Longrightarrow> rn_cancel r = None \<Longrightarrow>
     tx_hoare (outbox_inv {}) (tx_change (add_run r)) (\<lambda>_. outbox_inv {(''run.start'', rid)})"
  by (rule tx_hoare_change) (auto simp: outbox_inv_def needed_add_run)

lemma outbox_keep_imported_run [outbox_keep]:
  "tx_hoare (outbox_inv X) (tx_change (add_run (imported_run now sid st br))) (\<lambda>_. outbox_inv X)"
  by (rule outbox_frame) (auto simp: needed_add_run imported_run_def)

lemma needed_add_job:
  "needed (add_job j db) = insert (''bootstrap.start'', job_id j) (needed db)"
  "subjects (add_job j db) = insert (''bootstrap.start'', job_id j) (subjects db)"
  "issued (add_job j db) = issued db"
  by (simp_all add: needed_def subjects_def issued_def add_job_def insert_Times_insert)

lemma outbox_owe_job:
  "tx_hoare (outbox_inv {}) (tx_change (add_job (new_job now jid key))) (\<lambda>_. outbox_inv {(''bootstrap.start'', jid)})"
  by (rule tx_hoare_change) (auto simp: outbox_inv_def needed_add_job new_job_def)

lemma Un_insert_mono: "A' \<subseteq> A \<Longrightarrow> B' \<subseteq> insert x B \<Longrightarrow> A' \<union> B' \<union> C \<subseteq> insert x (A \<union> B \<union> C)"
  by blast

lemma needed_mark_cancel:
  "needed (mark_cancel t rid db) \<subseteq> insert (''run.cancel'', rid) (needed db)"
  "subjects (mark_cancel t rid db) = subjects db"
  "issued (mark_cancel t rid db) = issued db"
proof -
  have keys: "rn_id ` {r \<in> set (runs (mark_cancel t rid db)). rn_key r \<noteq> None} \<subseteq> rn_id ` {r \<in> set (runs db). rn_key r \<noteq> None}"
    unfolding mark_cancel_def by (simp del: not_None_eq, rule image_sql_update_sub) simp_all
  have cancels: "rn_id ` {r \<in> set (runs (mark_cancel t rid db)). rn_cancel r \<noteq> None}
      \<subseteq> insert rid (rn_id ` {r \<in> set (runs db). rn_cancel r \<noteq> None})"
    unfolding mark_cancel_def by (auto elim!: in_sql_updateE)
  have jobs: "sync_jobs (mark_cancel t rid db) = sync_jobs db" by (simp add: mark_cancel_def)
  show "needed (mark_cancel t rid db) \<subseteq> insert (''run.cancel'', rid) (needed db)"
    unfolding needed_def jobs
    by (rule Un_insert_mono [OF image_mono [OF keys]]) (use image_mono [OF cancels] in \<open>simp only: image_insert\<close>)
  show "subjects (mark_cancel t rid db) = subjects db"
    unfolding subjects_def by (simp add: mark_cancel_def)
  show "issued (mark_cancel t rid db) = issued db" by (simp add: issued_def mark_cancel_def)
qed

lemma outbox_owe_cancel:
  "tx_hoare (\<lambda>db. outbox_inv {} db \<and> rid \<in> rn_id ` set (runs db)) (tx_change (mark_cancel t rid))
     (\<lambda>_. outbox_inv {(''run.cancel'', rid)})"
proof (rule tx_hoare_change)
  fix db
  assume P: "outbox_inv {} db \<and> rid \<in> rn_id ` set (runs db)" and S: "rt_schema (mark_cancel t rid db)"
  then have "(''run.cancel'', rid) \<in> subjects db" by (simp add: subjects_def)
  then show "outbox_inv {(''run.cancel'', rid)} (mark_cancel t rid db)"
    using P S needed_mark_cancel [of t rid db] unfolding outbox_inv_def by auto
qed

text \<open>Storing the owed command.\<close>

lemma outbox_pay:
  assumes "(out_type c, out_resource c) = x"
  shows "tx_hoare (outbox_inv {x}) (tx_change (add_command c)) (\<lambda>_. outbox_inv {})"
    and "tx_hoare (outbox_inv {x}) (tx_change (add_command_once c)) (\<lambda>_. outbox_inv {})"
proof -
  have same: "needed (add_command c db) = needed db" "subjects (add_command c db) = subjects db"
    "issued (add_command c db) = insert x (issued db)" for db
    using assms by (simp_all add: add_command_def needed_def subjects_def issued_def)
  show "tx_hoare (outbox_inv {x}) (tx_change (add_command c)) (\<lambda>_. outbox_inv {})"
    by (rule tx_hoare_change) (auto simp: outbox_inv_def same)
  show "tx_hoare (outbox_inv {x}) (tx_change (add_command_once c)) (\<lambda>_. outbox_inv {})"
  proof (rule tx_hoare_change)
    fix db assume I: "outbox_inv {x} db" and S: "rt_schema (add_command_once c db)"
    show "outbox_inv {} (add_command_once c db)"
    proof (cases "add_command_once c db = db")
      case True
      have "db\<lparr>command_outbox := command_outbox db @ [c]\<rparr> \<noteq> db"
        by (metis append_self_conv not_Cons_self2 rt_db.select_convs(6) rt_db.surjective rt_db.update_convs(6))
      with True obtain q where "q \<in> set (command_outbox db)" "out_type q = out_type c" "out_resource q = out_resource c"
        by (auto simp: add_command_once_def add_command_def sql_exists_def list_ex_iff split: if_splits)
      then have "x \<in> issued db" unfolding issued_def using assms by (metis (mono_tags) image_eqI)
      with I True show ?thesis by (auto simp: outbox_inv_def)
    next
      case False
      then have "add_command_once c db = add_command c db" by (simp add: add_command_once_def split: if_splits)
      with I S show ?thesis by (auto simp: outbox_inv_def same)
    qed
  qed
qed

lemmas outbox_rules = keep outbox_keep

lemma upsert_each_outbox: "tx_hoare (outbox_inv {}) (upsert_each now ps) (\<lambda>_. outbox_inv {})"
  by (induction ps) (simp_all only: upsert_each.simps, (intro outbox_rules | assumption)+)

lemma claim_each_outbox: "tx_hoare (outbox_inv {}) (claim_each now w cs) (\<lambda>_. outbox_inv {})"
  by (induction cs) (simp_all only: claim_each.simps, (intro outbox_rules | assumption)+)

lemma claim_body_outbox: "tx_hoare (outbox_inv {}) (claim_body now locked w limit) (\<lambda>_. outbox_inv {})"
  unfolding claim_body_def by (intro outbox_rules claim_each_outbox)

lemma create_run_body_outbox:
  "tx_hoare (outbox_inv {}) (create_run_body pg now rid cid sid prompt profile key hash) (\<lambda>_. outbox_inv {})"
  unfolding create_run_body_def
proof (rule keep_bind [OF keep_one], rule keep_bind [OF keep_query], rule keep_option, goal_cases)
  case (1 s existing)
  have owe: "tx_hoare (outbox_inv {}) (tx_change (add_run (queued_run now rid sid prompt profile key hash)))
     (\<lambda>_. outbox_inv {(''run.start'', rid)})"
    by (rule outbox_owe_run) (simp_all add: queued_run_def)
  show ?case
    by (rule tx_hoare_bind [OF owe], rule tx_hoare_bind [OF outbox_keep_next],
      rule tx_hoare_bind [OF outbox_keep_frames(3)], rule tx_hoare_bind [OF outbox_pay(1)])
      (simp add: new_command_def, rule keep_return)
qed (intro keep)

lemma append_body_outbox: "tx_hoare (outbox_inv {}) (append_body pg now t rid n ty p) (\<lambda>_. outbox_inv {})"
  unfolding append_body_def by (intro outbox_rules)

lemma cancel_body_outbox: "tx_hoare (outbox_inv {}) (cancel_body pg now clock cid rid) (\<lambda>_. outbox_inv {})"
  unfolding cancel_body_def
proof (rule tx_hoare_bind [where R = "\<lambda>_ db. outbox_inv {} db \<and> rid \<in> rn_id ` set (runs db)"], goal_cases)
  case 1
  show ?case by (rule tx_hoare_one) (auto dest: by_key_SomeD)
next
  case (2 r)
  show ?case
    by (rule keep_if, rule tx_hoare_return, simp, rule tx_hoare_bind [OF keep_one], rule keep_prod,
      rule tx_hoare_bind [OF outbox_owe_cancel], rule tx_hoare_bind [OF outbox_pay(2)], simp add: new_command_def,
      rule keep_return)
qed

lemma sync_body_outbox: "tx_hoare (outbox_inv {}) (sync_body pg now jid cid key) (\<lambda>_. outbox_inv {})"
  unfolding sync_body_def
proof (rule keep_bind [OF keep_query], rule keep_bind [OF keep_query], rule keep_option,
    rule keep_bind [OF keep_query], rule keep_option, goal_cases)
  case (1 u same active)
  show ?case
    by (rule tx_hoare_bind [OF outbox_owe_job], rule tx_hoare_bind [OF outbox_pay(1)]) (simp add: new_command_def,
      rule keep_return)
qed (intro keep)+

text \<open>The import of a batch.\<close>

lemma import_projects_outbox: "tx_hoare (outbox_inv {}) (import_projects now snap ps) (\<lambda>_. outbox_inv {})"
  by (induction ps) (simp_all only: import_projects.simps, (intro outbox_rules | assumption)+)

lemma import_session_outbox: "tx_hoare (outbox_inv {}) (import_session now snap v) (\<lambda>_. outbox_inv {})"
  unfolding import_session_def by (intro outbox_rules)

lemma import_sessions_outbox: "tx_hoare (outbox_inv {}) (import_sessions now snap vs ids) (\<lambda>_. outbox_inv {})"
  by (induction vs arbitrary: ids)
    (simp_all only: import_sessions.simps, (intro outbox_rules import_session_outbox | assumption)+)

lemma insert_events_outbox: "tx_hoare (outbox_inv {}) (insert_events pg now rid es) (\<lambda>_. outbox_inv {})"
  by (induction es) (simp_all only: insert_events.simps, (intro outbox_rules | assumption)+)

lemma import_run_outbox: "tx_hoare (outbox_inv {}) (import_run pg now ids r) (\<lambda>_. outbox_inv {})"
  unfolding import_run_def write_run_def by (intro insert_events_outbox outbox_rules)

lemma import_runs_outbox: "tx_hoare (outbox_inv {}) (import_runs pg now ids rs) (\<lambda>_. outbox_inv {})"
  by (induction rs) (simp_all only: import_runs.simps, (intro outbox_rules import_run_outbox | assumption)+)

lemma batch_body_outbox: "tx_hoare (outbox_inv {}) (batch_body pg now b) (\<lambda>_. outbox_inv {})"
  unfolding batch_body_def import_batch_def reconcile_def
  by (intro outbox_rules import_projects_outbox import_sessions_outbox import_runs_outbox)

end
