(* ===== verification/Runtime_Log.thy ===== *)
theory Runtime_Log
  imports Runtime_Invariant
begin

section \<open>The event log of a run\<close>

text \<open>
  The invariant \<open>log_inv\<close> of the stored agent events: \<^verbatim>\<open>persisted_through_sequence\<close> is the highest stored
  event number of a run, the final event of a run is stored, and a run with a terminal
  status has one. The import of a batch rewrites a run and its events in several statements; it
  relies on the numbering 1, 2, 3, ... that the coordinator gives imported events.
\<close>

definition log_ok :: "rt_db \<Rightarrow> run_row \<Rightarrow> bool" where
  "log_ok db r \<longleftrightarrow>
     (\<forall>e \<in> set (run_events db). rev_run e = rn_id r \<longrightarrow> rev_seq e \<le> rn_persisted r)
     \<and> (rn_persisted r \<noteq> 0 \<longrightarrow> has_event (rn_id r) (rn_persisted r) db)
     \<and> (\<forall>n. rn_final r = Some n \<longrightarrow> has_event (rn_id r) n db)
     \<and> (isTerminal (rn_status r) \<longrightarrow> rn_final r \<noteq> None)"

text \<open>\<open>X\<close> are the runs a transaction is still rewriting.\<close>

definition log_inv :: "string set \<Rightarrow> rt_db \<Rightarrow> bool" where
  "log_inv X db \<longleftrightarrow> rt_schema db \<and> (\<forall>r \<in> set (runs db). rn_id r \<notin> X \<longrightarrow> log_ok db r)"

lemma has_event_iff: "has_event rid n db \<longleftrightarrow> (\<exists>e \<in> set (run_events db). rev_run e = rid \<and> rev_seq e = n)"
  by (simp add: has_event_def sql_exists_def list_ex_iff)

lemma log_ok_cong:
  assumes "run_events db' = run_events db" "rn_id r' = rn_id r" "rn_persisted r' = rn_persisted r"
    "rn_final r' = rn_final r" "isTerminal (rn_status r') \<Longrightarrow> isTerminal (rn_status r)" "log_ok db r"
  shows "log_ok db' r'"
  using assms unfolding log_ok_def has_event_def by auto

lemma log_frame:
  assumes "\<And>db. run_events (f db) = run_events db"
    and "\<And>db q. q \<in> set (runs (f db)) \<Longrightarrow> \<exists>r \<in> set (runs db). rn_id q = rn_id r \<and> rn_persisted q = rn_persisted r
          \<and> rn_final q = rn_final r \<and> (isTerminal (rn_status q) \<longrightarrow> isTerminal (rn_status r))"
  shows "tx_hoare (log_inv X) (tx_change f) (\<lambda>_. log_inv X)"
proof (rule tx_hoare_change)
  fix db assume I: "log_inv X db" and S: "rt_schema (f db)"
  have "log_ok (f db) q" if q: "q \<in> set (runs (f db))" "rn_id q \<notin> X" for q
  proof -
    obtain r where "r \<in> set (runs db)" "rn_id q = rn_id r" "rn_persisted q = rn_persisted r"
      "rn_final q = rn_final r" "isTerminal (rn_status q) \<longrightarrow> isTerminal (rn_status r)"
      using assms(2) q by blast
    then show ?thesis using I q(2) assms(1) by (intro log_ok_cong [of "f db" db q r]) (auto simp: log_inv_def)
  qed
  with S show "log_inv X (f db)" by (simp add: log_inv_def)
qed

lemma log_frame_eq:
  assumes "\<And>db. run_events (f db) = run_events db" "\<And>db. runs (f db) = runs db"
  shows "tx_hoare (log_inv X) (tx_change f) (\<lambda>_. log_inv X)"
  by (rule log_frame) (auto simp: assms)

named_theorems log_keep \<open>statements that keep the event log invariant\<close>

lemma log_keep_frames [log_keep]:
  "tx_hoare (log_inv X) (tx_change (upsert_project now pid name)) (\<lambda>_. log_inv X)"
  "tx_hoare (log_inv X) (tx_change (add_session_event pg now sid n ty p)) (\<lambda>_. log_inv X)"
  "tx_hoare (log_inv X) (tx_change (add_command c)) (\<lambda>_. log_inv X)"
  "tx_hoare (log_inv X) (tx_change (add_command_once c)) (\<lambda>_. log_inv X)"
  "tx_hoare (log_inv X) (tx_change (claim_command now w cid)) (\<lambda>_. log_inv X)"
  "tx_hoare (log_inv X) (tx_change (bind_thread now rid th)) (\<lambda>_. log_inv X)"
  "tx_hoare (log_inv X) (tx_change (add_job j)) (\<lambda>_. log_inv X)"
  "tx_hoare (log_inv X) (tx_change (import_project now snap bp)) (\<lambda>_. log_inv X)"
  "tx_hoare (log_inv X) (tx_change (insert_imported_session now v)) (\<lambda>_. log_inv X)"
  "tx_hoare (log_inv X) (tx_change (refresh_session snap sid v)) (\<lambda>_. log_inv X)"
  "tx_hoare (log_inv X) (tx_change (advance_job now b k ns np)) (\<lambda>_. log_inv X)"
  "tx_hoare (log_inv X) (tx_change (deliver_bootstrap now b)) (\<lambda>_. log_inv X)"
  by (rule log_frame_eq; simp add: statement_defs)+

lemma log_keep_runs [log_keep]:
  "tx_hoare (log_inv X) (tx_change (mark_cancel t rid)) (\<lambda>_. log_inv X)"
  "tx_hoare (log_inv X) (tx_change (dispatch_run now rid)) (\<lambda>_. log_inv X)"
  by (rule log_frame, simp add: mark_cancel_def dispatch_run_def,
      auto simp: mark_cancel_def dispatch_run_def isTerminal_def elim!: in_sql_updateE)+

lemma log_keep_archive [log_keep]:
  "tx_hoare (log_inv X) (tx_counted (archive_sessions now jid snap) k) (\<lambda>_. log_inv X)"
  "tx_hoare (log_inv X) (tx_counted (archive_projects now jid snap) k') (\<lambda>_. log_inv X)"
  by (rule keep_counted; simp add: log_inv_def archive_sessions_def archive_projects_def log_ok_def has_event_def)+

lemma log_keep_next [log_keep]: "tx_hoare (log_inv X) (next_sequence now sid) (\<lambda>_. log_inv X)"
  unfolding next_sequence_def
  by (intro keep tx_hoare_change_ret) (simp add: log_inv_def bump_session_def log_ok_def has_event_def)

text \<open>A new run has no events: they would refer to a run that does not exist.\<close>

lemma fresh_run_events:
  assumes "rt_schema db" "rn_id r \<notin> rn_id ` set (runs db)"
  shows "\<forall>e \<in> set (run_events db). rev_run e \<noteq> rn_id r"
  using assms unfolding rt_schema_def run_events_ok_def by metis

lemma add_run_fresh: "rt_schema (add_run r db) \<Longrightarrow> rn_id r \<notin> rn_id ` set (runs db)"
  by (simp add: rt_schema_def runs_ok_def add_run_def)

lemma log_keep_queued [log_keep]:
  "tx_hoare (log_inv X) (tx_change (add_run (queued_run now rid sid prompt profile key hash))) (\<lambda>_. log_inv X)"
proof (rule tx_hoare_change)
  fix db
  let ?r = "queued_run now rid sid prompt profile key hash"
  assume I: "log_inv X db" and S: "rt_schema (add_run ?r db)"
  have "\<forall>e \<in> set (run_events db). rev_run e \<noteq> rn_id ?r"
    using I add_run_fresh [OF S] by (intro fresh_run_events) (simp_all add: log_inv_def)
  then have "log_ok db ?r" by (simp add: log_ok_def queued_run_def isTerminal_def)
  moreover have "log_ok (add_run ?r db) q = log_ok db q" for q
    by (simp add: log_ok_def has_event_def add_run_def)
  ultimately show "log_inv X (add_run ?r db)" using I S by (auto simp: log_inv_def) (auto simp: add_run_def)
qed

lemmas log_rules = keep log_keep

subsection \<open>Appending an event\<close>

text \<open>Between storing event \<open>n\<close> of run \<open>rid\<close> and updating the run.\<close>

definition log_pending :: "string \<Rightarrow> int \<Rightarrow> rt_db \<Rightarrow> bool" where
  "log_pending rid n db \<longleftrightarrow> log_inv {rid} db \<and> 0 < n \<and> has_event rid n db
     \<and> (\<forall>r \<in> set (runs db). rn_id r = rid \<longrightarrow>
          (\<forall>e \<in> set (run_events db). rev_run e = rid \<longrightarrow> rev_seq e \<le> max (rn_persisted r) n)
          \<and> (rn_persisted r \<noteq> 0 \<longrightarrow> has_event rid (rn_persisted r) db) \<and> 0 \<le> rn_persisted r
          \<and> (\<forall>m. rn_final r = Some m \<longrightarrow> has_event rid m db)
          \<and> (isTerminal (rn_status r) \<longrightarrow> rn_final r \<noteq> None))"

lemma has_event_add: "has_event rid n (add_run_event e db) \<longleftrightarrow> has_event rid n db \<or> rev_run e = rid \<and> rev_seq e = n"
  by (auto simp: has_event_iff add_run_event_def)

lemma log_pending_insert:
  assumes "rev_run ev = rid" "rev_seq ev = n"
  shows "tx_hoare (log_inv {}) (insert_run_event ev) (\<lambda>k db. if k = 0 then log_inv {} db else log_pending rid n db)"
  unfolding insert_run_event_def
proof (rule tx_hoare_stmt)
  fix db db' and a :: nat
  assume I: "log_inv {} db"
    and step: "(if has_event (rev_run ev) (rev_seq ev) db then Inr (0, db)
       else if rt_schema (add_run_event ev db) then Inr (1, add_run_event ev db) else Inl ErrDatabase) = Inr (a, db')"
  show "if a = 0 then log_inv {} db' else log_pending rid n db'"
  proof (cases "has_event (rev_run ev) (rev_seq ev) db")
    case False
    with step have db': "a = 1" "db' = add_run_event ev db" and S: "rt_schema db'" by (auto split: if_splits)
    have pos: "0 < n" using S db'(2) assms(2) by (simp add: rt_schema_def run_events_ok_def add_run_event_def)
    have nonneg: "\<forall>r \<in> set (runs db). 0 \<le> rn_persisted r"
      using I by (simp add: log_inv_def rt_schema_def runs_ok_def)
    have ok: "log_ok db r" if "r \<in> set (runs db)" for r using I that by (simp add: log_inv_def)
    have runs: "runs db' = runs db" "set (run_events db') = insert ev (set (run_events db))"
      using db'(2) by (simp_all add: add_run_event_def)
    have others: "log_ok db' r" if "r \<in> set (runs db)" "rn_id r \<noteq> rid" for r
      using ok [OF that(1)] that(2) assms unfolding log_ok_def db'(2) has_event_add runs(2) [unfolded db'(2)] by auto
    have this_run: "(\<forall>e \<in> set (run_events db'). rev_run e = rid \<longrightarrow> rev_seq e \<le> max (rn_persisted r) n)
          \<and> (rn_persisted r \<noteq> 0 \<longrightarrow> has_event rid (rn_persisted r) db') \<and> 0 \<le> rn_persisted r
          \<and> (\<forall>m. rn_final r = Some m \<longrightarrow> has_event rid m db')
          \<and> (isTerminal (rn_status r) \<longrightarrow> rn_final r \<noteq> None)" if "r \<in> set (runs db)" "rn_id r = rid" for r
    proof (intro conjI ballI impI)
      fix e assume "e \<in> set (run_events db')" "rev_run e = rid"
      then show "rev_seq e \<le> max (rn_persisted r) n"
        using ok [OF that(1)] that(2) assms(2) runs(2) unfolding log_ok_def by fastforce
    qed (use ok [OF that(1)] that nonneg in \<open>auto simp: log_ok_def db'(2) has_event_add\<close>)
    have "has_event rid n db'" using assms by (simp add: db'(2) has_event_add)
    then have "log_pending rid n db'"
      unfolding log_pending_def log_inv_def runs(1) using S pos others this_run by simp
    then show ?thesis using db'(1) by simp
  qed (use step I in simp)
qed

lemma log_pending_bind: "tx_hoare (log_pending rid n) (tx_change (bind_thread now rid' th)) (\<lambda>_. log_pending rid n)"
  by (rule tx_hoare_change)
    (simp add: log_pending_def log_inv_def bind_thread_def log_ok_def has_event_def)

lemma log_pending_apply:
  "tx_hoare (log_pending rid n) (tx_change (apply_event now rid n ty p)) (\<lambda>_. log_inv {})"
proof (rule tx_hoare_change)
  fix db
  let ?db = "apply_event now rid n ty p db"
  assume P: "log_pending rid n db" and S: "rt_schema ?db"
  have he: "has_event i m ?db = has_event i m db" for i m by (simp add: has_event_def apply_event_def)
  have evs: "run_events ?db = run_events db" by (simp add: apply_event_def)
  have "log_ok ?db q" if "q \<in> set (runs ?db)" for q
  proof -
    from that have "q \<in> set (sql_update (\<lambda>r. rn_id r = rid) (event_on_run now n ty p) (runs db))"
      by (simp add: apply_event_def)
    then show ?thesis
    proof (cases rule: in_sql_updateE)
      case (1 r)
      have fin: "rn_final q = Some n \<and> snd (statusForEvent ty) \<or> rn_final q = rn_final r \<and> \<not> snd (statusForEvent ty)"
        using 1 by (auto simp: event_on_run_def Let_def split: prod.split)
      have st: "isTerminal (rn_status q) \<Longrightarrow> snd (statusForEvent ty) \<or> isTerminal (rn_status r)"
        using 1 by (auto simp: event_on_run_def Let_def statusForEvent_def isTerminal_def split: if_splits)
      have id: "rn_id q = rid" "rn_persisted q = max (rn_persisted r) n" using 1 by simp_all
      show ?thesis
        unfolding log_ok_def he evs id using P 1(1,2) fin st
        by (auto simp: log_pending_def max_def)
    next
      case 2
      then show ?thesis using P by (auto simp: log_pending_def log_inv_def log_ok_def he evs)
    qed
  qed
  then show "log_inv {} ?db" using S by (simp add: log_inv_def)
qed

lemma append_body_log: "tx_hoare (log_inv {}) (append_body pg now t rid n ty p) (\<lambda>_. log_inv {})"
  unfolding append_body_def
proof (rule tx_hoare_bind [OF log_pending_insert [of _ rid n]], goal_cases)
  case (3 k)
  show ?case
  proof (cases "k = 0")
    case False
    have bound: "tx_hoare (log_pending rid n)
        (if ty = ''turn.started'' then tx_change (bind_thread now rid (fst (started_ids p))) else tx_return ())
        (\<lambda>_. log_pending rid n)"
      by (simp add: log_pending_bind keep_return)
    show ?thesis using False
      by (simp only: False if_False) (rule tx_hoare_bind [OF bound], rule tx_hoare_bind [OF log_pending_apply], intro log_rules)
  qed (simp add: keep_return)
qed simp_all

subsection \<open>The other transactions\<close>

lemma upsert_each_log: "tx_hoare (log_inv X) (upsert_each now ps) (\<lambda>_. log_inv X)"
  by (induction ps) (simp_all only: upsert_each.simps, (intro log_rules | assumption)+)

lemma claim_each_log: "tx_hoare (log_inv X) (claim_each now w cs) (\<lambda>_. log_inv X)"
  by (induction cs) (simp_all only: claim_each.simps, (intro log_rules | assumption)+)

lemma claim_body_log: "tx_hoare (log_inv X) (claim_body now locked w limit) (\<lambda>_. log_inv X)"
  unfolding claim_body_def by (intro log_rules claim_each_log)

lemma create_run_body_log:
  "tx_hoare (log_inv X) (create_run_body pg now rid cid sid prompt profile key hash) (\<lambda>_. log_inv X)"
  unfolding create_run_body_def by (intro log_rules)

lemma cancel_body_log: "tx_hoare (log_inv X) (cancel_body pg now clock cid rid) (\<lambda>_. log_inv X)"
  unfolding cancel_body_def by (intro log_rules)

lemma sync_body_log: "tx_hoare (log_inv X) (sync_body pg now jid cid key) (\<lambda>_. log_inv X)"
  unfolding sync_body_def by (intro log_rules)

subsection \<open>Importing a run\<close>

text \<open>
  While the events of run \<open>rid\<close> are stored one by one: the run claims \<open>N\<close> events, those
  numbered \<open>E\<close> are there.
\<close>

definition loading :: "string \<Rightarrow> int \<Rightarrow> int set \<Rightarrow> rt_db \<Rightarrow> bool" where
  "loading rid N E db \<longleftrightarrow> log_inv {rid} db
     \<and> (\<forall>r \<in> set (runs db). rn_id r = rid \<longrightarrow> rn_persisted r = N \<and> rn_final r = Some N)
     \<and> {n. has_event rid n db} = E"

lemma loading_done:
  assumes "loading rid N {1..N} db"
  shows "log_inv {} db"
proof -
  have S: "rt_schema db" using assms by (simp add: loading_def log_inv_def)
  have "log_ok db r" if r: "r \<in> set (runs db)" "rn_id r = rid" for r
  proof -
    have N: "rn_persisted r = N" "rn_final r = Some N" using assms r by (auto simp: loading_def)
    then have "0 < N" using S r by (auto simp: rt_schema_def runs_ok_def)
    moreover have "has_event rid n db \<longleftrightarrow> 1 \<le> n \<and> n \<le> N" for n using assms by (auto simp: loading_def)
    ultimately show ?thesis using N r(2) by (auto simp: log_ok_def has_event_iff)
  qed
  then show ?thesis using assms S by (auto simp: loading_def log_inv_def)
qed

lemma loading_event:
  "tx_hoare (loading rid N E) (tx_change (add_run_event (imported_event pg now rid e)))
     (\<lambda>_. loading rid N (insert (bev_Sequence e) E))"
proof (rule tx_hoare_change)
  fix db
  let ?ev = "imported_event pg now rid e"
  assume L: "loading rid N E db" and S: "rt_schema (add_run_event ?ev db)"
  have ev: "rev_run ?ev = rid" "rev_seq ?ev = bev_Sequence e" by (simp_all add: imported_event_def)
  have runs: "runs (add_run_event ?ev db) = runs db" "set (run_events (add_run_event ?ev db)) = insert ?ev (set (run_events db))"
    by (simp_all add: add_run_event_def)
  have "log_ok (add_run_event ?ev db) r" if "log_ok db r" "rn_id r \<noteq> rid" for r
    using that ev unfolding log_ok_def has_event_add runs(2) by auto
  then show "loading rid N (insert (bev_Sequence e) E) (add_run_event ?ev db)"
    using L S ev unfolding loading_def log_inv_def runs(1) by (auto simp: has_event_add)
qed

lemma loading_events:
  "tx_hoare (loading rid N E) (insert_events pg now rid es) (\<lambda>_. loading rid N (E \<union> bev_Sequence ` set es))"
proof (induction es arbitrary: E)
  case Nil
  then show ?case by (simp add: keep_return)
next
  case (Cons e es)
  have "insert (bev_Sequence e) E \<union> bev_Sequence ` set es = E \<union> bev_Sequence ` set (e # es)" by auto
  with Cons [of "insert (bev_Sequence e) E"] show ?case
    by (simp only: insert_events.simps) (rule tx_hoare_bind [OF loading_event], simp)
qed

lemma write_run_loading:
  assumes "N = int (length (brn_Events r))"
    and "rid = (case found of Some q \<Rightarrow> rn_id q | None \<Rightarrow> brn_ID r)"
  shows "tx_hoare (log_inv {}) (write_run now sid st r found) (\<lambda>_. loading rid N {})"
proof (cases found)
  case None
  have "tx_hoare (log_inv {}) (tx_change (add_run (imported_run now sid st r))) (\<lambda>_. loading rid N {})"
  proof (rule tx_hoare_change)
    fix db
    let ?r = "imported_run now sid st r"
    assume I: "log_inv {} db" and S: "rt_schema (add_run ?r db)"
    have r: "rn_id ?r = rid" "rn_persisted ?r = N" "rn_final ?r = Some N"
      using assms None by (simp_all add: imported_run_def)
    have fresh: "rn_id ?r \<notin> rn_id ` set (runs db)" using S by (rule add_run_fresh)
    have none: "\<forall>e \<in> set (run_events db). rev_run e \<noteq> rn_id ?r"
      using I fresh by (intro fresh_run_events) (simp_all add: log_inv_def)
    have ok: "log_ok (add_run ?r db) q = log_ok db q" for q
      by (simp add: log_ok_def has_event_def add_run_def)
    have "has_event rid n (add_run ?r db) \<longleftrightarrow> False" for n
      using none r(1) by (auto simp: has_event_iff add_run_def)
    then show "loading rid N {} (add_run ?r db)"
      using I S r fresh unfolding loading_def log_inv_def ok by (auto simp: add_run_def image_iff)
  qed
  with None show ?thesis by (simp add: write_run_def)
next
  case (Some q)
  then have rid: "rid = rn_id q" using assms(2) by simp
  have over: "tx_hoare (log_inv {}) (tx_change (overwrite_run now sid st r rid))
     (\<lambda>_ db. log_inv {rid} db \<and> (\<forall>q \<in> set (runs db). rn_id q = rid \<longrightarrow> rn_persisted q = N \<and> rn_final q = Some N))"
  proof (rule tx_hoare_change)
    fix db
    let ?db = "overwrite_run now sid st r rid db"
    assume I: "log_inv {} db" and S: "rt_schema ?db"
    have ok: "log_ok ?db x = log_ok db x" for x by (simp add: log_ok_def has_event_def overwrite_run_def)
    have "(rn_id x \<noteq> rid \<longrightarrow> x \<in> set (runs db)) \<and> (rn_id x = rid \<longrightarrow> rn_persisted x = N \<and> rn_final x = Some N)"
      if "x \<in> set (runs ?db)" for x
      using that assms(1) by (auto simp: overwrite_run_def elim!: in_sql_updateE)
    then show "log_inv {rid} ?db \<and> (\<forall>q \<in> set (runs ?db). rn_id q = rid \<longrightarrow> rn_persisted q = N \<and> rn_final q = Some N)"
      using I S unfolding log_inv_def ok by blast
  qed
  have wipe: "tx_hoare (\<lambda>db. log_inv {rid} db \<and> (\<forall>q \<in> set (runs db). rn_id q = rid \<longrightarrow> rn_persisted q = N \<and> rn_final q = Some N))
     (tx_change (delete_events rid)) (\<lambda>_. loading rid N {})"
  proof (rule tx_hoare_change)
    fix db
    let ?db = "delete_events rid db"
    assume P: "log_inv {rid} db \<and> (\<forall>q \<in> set (runs db). rn_id q = rid \<longrightarrow> rn_persisted q = N \<and> rn_final q = Some N)"
      and S: "rt_schema ?db"
    have he: "has_event i n ?db \<longleftrightarrow> i \<noteq> rid \<and> has_event i n db" for i n
      by (auto simp: has_event_iff delete_events_def)
    have "log_ok ?db x" if "log_ok db x" "rn_id x \<noteq> rid" for x
      using that unfolding log_ok_def he by (auto simp: delete_events_def)
    then show "loading rid N {} ?db"
      using P S unfolding loading_def log_inv_def he by (auto simp: delete_events_def)
  qed
  show ?thesis using Some rid by (simp add: write_run_def) (rule tx_hoare_bind [OF over wipe, unfolded rid])
qed

text \<open>The numbering the coordinator gives imported events.\<close>

definition numbered :: "bootstrap_run \<Rightarrow> bool" where
  "numbered r \<longleftrightarrow> map bev_Sequence (brn_Events r) = [1..int (length (brn_Events r))]"

lemma import_run_log:
  assumes "numbered r"
  shows "tx_hoare (log_inv {}) (import_run pg now ids r) (\<lambda>_. log_inv {})"
proof -
  let ?N = "int (length (brn_Events r))"
  have seqs: "{} \<union> bev_Sequence ` set (brn_Events r) = {1..?N}"
    using assms by (metis Un_empty_left numbered_def set_map set_upto)
  have store: "tx_hoare (loading rid ?N {}) (insert_events pg now rid (brn_Events r)) (\<lambda>_. log_inv {})" for rid
    by (rule tx_hoare_weaken [OF loading_events]) (auto intro: loading_done simp: seqs [simplified])
  have rewrote: "tx_hoare (log_inv {}) (tx_bind (write_run now sid st r found) (\<lambda>_.
       tx_bind (insert_events pg now (case found of None \<Rightarrow> brn_ID r | Some q \<Rightarrow> rn_id q) (brn_Events r)) k)) (\<lambda>_. log_inv {})"
    if "\<And>a. tx_hoare (log_inv {}) (k a) (\<lambda>_. log_inv {})" for k :: "unit \<Rightarrow> (rt_db, rt_error, int) tx" and sid st found
    by (rule tx_hoare_bind [OF write_run_loading [OF refl refl]], rule tx_hoare_bind [OF store that])
  show ?thesis unfolding import_run_def Let_def [of "case _ of None \<Rightarrow> brn_ID r | Some q \<Rightarrow> rn_id q"]
    by (intro rewrote log_rules)
qed

lemma import_runs_log:
  assumes "\<forall>r \<in> set rs. numbered r"
  shows "tx_hoare (log_inv {}) (import_runs pg now ids rs) (\<lambda>_. log_inv {})"
  using assms
proof (induction rs)
  case (Cons r rs)
  then show ?case by (simp only: import_runs.simps) (intro log_rules import_run_log, simp_all)
qed (simp add: keep_return)

lemma import_projects_log: "tx_hoare (log_inv X) (import_projects now snap ps) (\<lambda>_. log_inv X)"
  by (induction ps) (simp_all only: import_projects.simps, (intro log_rules | assumption)+)

lemma import_sessions_log: "tx_hoare (log_inv X) (import_sessions now snap vs ids) (\<lambda>_. log_inv X)"
  by (induction vs arbitrary: ids)
    (simp_all only: import_sessions.simps import_session_def, (intro log_rules | assumption)+)

lemma batch_body_log:
  "\<forall>r \<in> set (bb_Runs b). numbered r \<Longrightarrow> tx_hoare (log_inv {}) (batch_body pg now b) (\<lambda>_. log_inv {})"
  unfolding batch_body_def import_batch_def reconcile_def
  by (intro log_rules import_projects_log import_sessions_log import_runs_log)

end
