(* ===== verification/Runtime_Steps.thy ===== *)
theory Runtime_Steps
  imports Runtime_Log
begin

section \<open>Reachable states of the runtime store\<close>

text \<open>
  Every transaction and every stand-alone statement of the store is one step; calls of any number
  of server goroutines are interleavings of these steps, under any faults. \<open>rt_step True\<close> has all of
  them, \<open>rt_step False\<close> leaves out the import of batches, the only step that moves or rewrites runs.
  The invariants of the previous theories hold in every reachable state, and outside imp the runs
  (with their idempotency keys), the agent events and the session events only grow at the end of
  their tables.
\<close>

inductive rt_step :: "bool \<Rightarrow> pgsql \<Rightarrow> rt_db \<Rightarrow> rt_db \<Rightarrow> bool" for imp :: bool and pg :: pgsql where
  step_upsert: "run_tx ErrDatabase flt (upsert_each now ps) db = (r, db') \<Longrightarrow> rt_step imp pg db db'"
| step_session: "autocommit w (insert_session now sid pid title key hash) db = (r, db') \<Longrightarrow> rt_step imp pg db db'"
| step_run: "run_tx ErrDatabase flt (create_run_body pg now rid cid sid prompt profile key hash) db = (r', db')
     \<Longrightarrow> rt_step imp pg db db'"
| step_cancel: "run_tx ErrDatabase flt (cancel_body pg now clock cid rid) db = (r'', db') \<Longrightarrow> rt_step imp pg db db'"
| step_claim: "run_tx ErrDatabase flt (claim_body now locked worker limit) db = (cs, db') \<Longrightarrow> rt_step imp pg db db'"
| step_deliver: "autocommit w (deliver_command now cid) db = (r, db') \<Longrightarrow> rt_step imp pg db db'"
| step_release: "autocommit w (release_command now cid code) db = (r, db') \<Longrightarrow> rt_step imp pg db db'"
| step_append: "run_tx ErrDatabase flt (append_body pg now t rid n ty p) db = (b, db') \<Longrightarrow> rt_step imp pg db db'"
| step_sync: "run_tx ErrDatabase flt (sync_body pg now jid cid key) db = (j, db') \<Longrightarrow> rt_step imp pg db db'"
| step_import: "imp \<Longrightarrow> \<forall>r \<in> set (bb_Runs batch). numbered r \<Longrightarrow>
     run_tx ErrDatabase flt (batch_body pg now batch) db = (r, db') \<Longrightarrow> rt_step imp pg db db'"

abbreviation rt_steps :: "bool \<Rightarrow> pgsql \<Rightarrow> rt_db \<Rightarrow> rt_db \<Rightarrow> bool" where
  "rt_steps imp pg \<equiv> (rt_step imp pg)\<^sup>*\<^sup>*"

text \<open>The other connections take steps of the store, too.\<close>

definition calm :: "bool \<Rightarrow> pgsql \<Rightarrow> rt_call \<Rightarrow> bool" where
  "calm imp pg rc \<longleftrightarrow> (\<forall>k db. rt_steps imp pg db (rc_itf rc k db))"

subsection \<open>The invariants hold in every reachable state\<close>

definition rt_inv :: "rt_db \<Rightarrow> bool" where
  "rt_inv db \<longleftrightarrow> feed_inv db \<and> outbox_inv {} db \<and> log_inv {} db"

lemma rt_inv_schema: "rt_inv db \<Longrightarrow> rt_schema db"
  by (simp add: rt_inv_def feed_inv_def)

lemma keep_autocommit:
  assumes "P db" "rt_schema (f db) \<Longrightarrow> P (f db)" "autocommit w f db = (r, db')"
  shows "P db'"
  using assms autocommit_cases [OF assms(3)] by auto

lemma rt_inv_statements:
  assumes "rt_inv db"
  shows "rt_schema (insert_session now sid pid title key hash db) \<Longrightarrow> rt_inv (insert_session now sid pid title key hash db)"
    and "rt_schema (deliver_command now cid db) \<Longrightarrow> rt_inv (deliver_command now cid db)"
    and "rt_schema (release_command now cid code db) \<Longrightarrow> rt_inv (release_command now cid code db)"
proof -
  show "rt_inv (insert_session now sid pid title key hash db)" if "rt_schema (insert_session now sid pid title key hash db)"
    using assms that feed_insert_session unfolding rt_inv_def
    by (auto simp: outbox_inv_def log_inv_def log_ok_def has_event_def needed_def issued_def subjects_def insert_session_def)
  show "rt_inv (deliver_command now cid db)" if "rt_schema (deliver_command now cid db)"
    using assms that feed_inv_keep [of db "deliver_command now cid db"] unfolding rt_inv_def
    by (simp add: outbox_inv_def log_inv_def log_ok_def has_event_def needed_def issued_def subjects_def deliver_command_def heads_def)
  show "rt_inv (release_command now cid code db)" if "rt_schema (release_command now cid code db)"
    using assms that feed_inv_keep [of db "release_command now cid code db"] unfolding rt_inv_def
    by (simp add: outbox_inv_def log_inv_def log_ok_def has_event_def needed_def issued_def subjects_def release_command_def heads_def)
qed

lemma keep_rt_inv:
  assumes "tx_hoare feed_inv body (\<lambda>_. feed_inv)" "tx_hoare (outbox_inv {}) body (\<lambda>_. outbox_inv {})"
    and "tx_hoare (log_inv {}) body (\<lambda>_. log_inv {})" "rt_inv db" "run_tx err flt body db = (r, db')"
  shows "rt_inv db'"
  using keep_run_tx [OF assms(1) _ assms(5)] keep_run_tx [OF assms(2) _ assms(5)]
    keep_run_tx [OF assms(3) _ assms(5)] assms(4) by (simp add: rt_inv_def)

lemma rt_step_inv: "rt_step imp pg db db' \<Longrightarrow> rt_inv db \<Longrightarrow> rt_inv db'"
proof (induction rule: rt_step.induct)
  case step_upsert
  then show ?case using keep_rt_inv [OF upsert_each_feed upsert_each_outbox upsert_each_log] by blast
next
  case step_session
  then show ?case using keep_autocommit [of rt_inv] rt_inv_statements(1) by blast
next
  case step_run
  then show ?case using keep_rt_inv [OF create_run_body_feed create_run_body_outbox create_run_body_log] by blast
next
  case step_cancel
  then show ?case using keep_rt_inv [OF cancel_body_feed cancel_body_outbox cancel_body_log] by blast
next
  case step_claim
  then show ?case using keep_rt_inv [OF claim_body_feed claim_body_outbox claim_body_log] by blast
next
  case step_deliver
  then show ?case using keep_autocommit [of rt_inv] rt_inv_statements(2) by blast
next
  case step_release
  then show ?case using keep_autocommit [of rt_inv] rt_inv_statements(3) by blast
next
  case step_append
  then show ?case using keep_rt_inv [OF append_body_feed append_body_outbox append_body_log] by blast
next
  case step_sync
  then show ?case using keep_rt_inv [OF sync_body_feed sync_body_outbox sync_body_log] by blast
next
  case step_import
  then show ?case using keep_rt_inv [OF batch_body_feed batch_body_outbox batch_body_log] by blast
qed

lemma rt_steps_inv: "rt_steps imp pg db db' \<Longrightarrow> rt_inv db \<Longrightarrow> rt_inv db'"
  by (induction rule: rtranclp_induct) (auto intro: rt_step_inv)

lemma rt_inv_empty [simp]: "rt_inv empty_db"
proof -
  have "rt_schema empty_db" by simp
  then show ?thesis
    by (simp add: rt_inv_def feed_inv_def outbox_inv_def log_inv_def needed_def issued_def subjects_def)
      (simp add: empty_db_def)
qed

lemma reachable_inv: "rt_steps imp pg empty_db db \<Longrightarrow> rt_inv db"
  using rt_steps_inv [OF _ rt_inv_empty] .

lemma calm_inv: "calm imp pg rc \<Longrightarrow> rt_inv db \<Longrightarrow> rt_inv (rc_itf rc k db)"
  unfolding calm_def using rt_steps_inv by blast

subsection \<open>Tables that only grow\<close>

definition idents :: "rt_db \<Rightarrow> (string \<times> string \<times> string option \<times> string option) list" where
  "idents db = map (\<lambda>r. (rn_id r, rn_session r, rn_key r, rn_hash r)) (runs db)"

definition grown :: "rt_db \<Rightarrow> rt_db \<Rightarrow> bool" where
  "grown db0 db \<longleftrightarrow> prefix (idents db0) (idents db) \<and> prefix (run_events db0) (run_events db)
     \<and> prefix (session_events db0) (session_events db)"

lemma grown_refl [simp]: "grown db db"
  by (simp add: grown_def)

lemma grown_trans: "grown a b \<Longrightarrow> grown b c \<Longrightarrow> grown a c"
  unfolding grown_def by (meson prefix_order.trans)

lemma grown_frame:
  assumes "\<And>db. grown db (f db)"
  shows "tx_hoare (grown db0) (tx_change f) (\<lambda>_. grown db0)"
  by (rule tx_hoare_change) (use assms grown_trans in blast)

named_theorems grow \<open>statements that only append to the logs\<close>

lemma grow_statements [grow]:
  "tx_hoare (grown db0) (tx_change (upsert_project now pid name)) (\<lambda>_. grown db0)"
  "tx_hoare (grown db0) (tx_change (add_run r)) (\<lambda>_. grown db0)"
  "tx_hoare (grown db0) (tx_change (add_session_event pg now sid n ty p)) (\<lambda>_. grown db0)"
  "tx_hoare (grown db0) (tx_change (add_command c)) (\<lambda>_. grown db0)"
  "tx_hoare (grown db0) (tx_change (add_command_once c)) (\<lambda>_. grown db0)"
  "tx_hoare (grown db0) (tx_change (mark_cancel t rid)) (\<lambda>_. grown db0)"
  "tx_hoare (grown db0) (tx_change (claim_command now w cid)) (\<lambda>_. grown db0)"
  "tx_hoare (grown db0) (tx_change (dispatch_run now rid)) (\<lambda>_. grown db0)"
  "tx_hoare (grown db0) (tx_change (bind_thread now rid th)) (\<lambda>_. grown db0)"
  "tx_hoare (grown db0) (tx_change (apply_event now rid n ty p)) (\<lambda>_. grown db0)"
  "tx_hoare (grown db0) (tx_change (add_job j)) (\<lambda>_. grown db0)"
  by (rule grown_frame; simp add: grown_def idents_def statement_defs)+

lemma grow_next [grow]: "tx_hoare (grown db0) (next_sequence now sid) (\<lambda>_. grown db0)"
  unfolding next_sequence_def
  by (intro keep tx_hoare_change_ret) (simp add: grown_def idents_def bump_session_def)

lemma grow_insert_event [grow]: "tx_hoare (grown db0) (insert_run_event ev) (\<lambda>_. grown db0)"
  unfolding insert_run_event_def
  by (rule tx_hoare_stmt) (auto simp: grown_def idents_def add_run_event_def split: if_splits)

lemmas grow_rules = keep grow

lemma grow_upsert: "tx_hoare (grown db0) (upsert_each now ps) (\<lambda>_. grown db0)"
  by (induction ps) (simp_all only: upsert_each.simps, (intro grow_rules | assumption)+)

lemma grow_claim_each: "tx_hoare (grown db0) (claim_each now w cs) (\<lambda>_. grown db0)"
  by (induction cs) (simp_all only: claim_each.simps, (intro grow_rules | assumption)+)

lemma grow_bodies:
  "tx_hoare (grown db0) (claim_body now locked w limit) (\<lambda>_. grown db0)"
  "tx_hoare (grown db0) (create_run_body pg now rid cid sid prompt profile key hash) (\<lambda>_. grown db0)"
  "tx_hoare (grown db0) (cancel_body pg now clock cid rid) (\<lambda>_. grown db0)"
  "tx_hoare (grown db0) (append_body pg now t rid n ty p) (\<lambda>_. grown db0)"
  "tx_hoare (grown db0) (sync_body pg now jid cid key) (\<lambda>_. grown db0)"
  unfolding claim_body_def create_run_body_def cancel_body_def append_body_def sync_body_def
  by (intro grow_claim_each grow_rules)+

lemma rt_step_grown: "rt_step False pg db db' \<Longrightarrow> grown db db'"
proof (induction rule: rt_step.induct)
  case step_upsert
  then show ?case using keep_run_tx [OF grow_upsert grown_refl] by blast
next
  case step_session
  then show ?case
    by (auto dest!: autocommit_cases simp: grown_def idents_def insert_session_def)
next
  case step_run
  then show ?case using keep_run_tx [OF grow_bodies(2) grown_refl] by blast
next
  case step_cancel
  then show ?case using keep_run_tx [OF grow_bodies(3) grown_refl] by blast
next
  case step_claim
  then show ?case using keep_run_tx [OF grow_bodies(1) grown_refl] by blast
next
  case step_deliver
  then show ?case by (auto dest!: autocommit_cases simp: grown_def idents_def deliver_command_def)
next
  case step_release
  then show ?case by (auto dest!: autocommit_cases simp: grown_def idents_def release_command_def)
next
  case step_append
  then show ?case using keep_run_tx [OF grow_bodies(4) grown_refl] by blast
next
  case step_sync
  then show ?case using keep_run_tx [OF grow_bodies(5) grown_refl] by blast
qed simp

lemma rt_steps_grown: "rt_steps False pg db db' \<Longrightarrow> grown db db'"
  by (induction rule: rtranclp_induct) (auto intro: rt_step_grown grown_trans)

lemma calm_grown: "calm False pg rc \<Longrightarrow> grown db (rc_itf rc k db)"
  unfolding calm_def using rt_steps_grown by blast

lemma calm_steps: "calm imp pg rc \<Longrightarrow> rt_steps imp pg db (rc_itf rc k db)"
  by (simp add: calm_def)

end
