(* ===== verification/Runtime_Properties.thy ===== *)
theory Runtime_Properties
  imports Runtime_Steps
begin

section \<open>Correctness of the runtime store\<close>

text \<open>
  The properties clients of the store rely on: repeated requests with one idempotency key, repeated
  agent events, the session feed as an append-only log that is read by cursor, pages, the outbox
  and the claims on it, and the numbered batches of the bootstrap import.
\<close>

subsection \<open>Calls as sequences of steps\<close>

lemma GetRun_steps: "calm imp pg rc \<Longrightarrow> GetRun rc k rid evs db = (res, db') \<Longrightarrow> rt_steps imp pg db db'"
proof -
  assume c: "calm imp pg rc" and g: "GetRun rc k rid evs db = (res, db')"
  have "db' = rc_itf rc k db \<or> db' = rc_itf rc (Suc k) (rc_itf rc k db)"
    using g by (auto simp: GetRun_def Let_def split: sum.splits if_splits)
  then show ?thesis using calm_steps [OF c] by (metis rtranclp_trans)
qed

lemma CreateRun_steps:
  assumes c: "calm imp pg rc" and run: "CreateRun pg rc e sid prompt profile key hash db = (res, e', db')"
  shows "rt_steps imp pg db db'"
proof -
  let ?db0 = "rc_itf rc 0 db" and ?db1 = "rc_itf rc 1 (rc_itf rc 0 db)"
  have s0: "rt_steps imp pg db ?db0" and s1: "rt_steps imp pg db ?db1"
    using calm_steps [OF c] by (blast, metis rtranclp_trans)
  obtain rid e1 where i1: "newID ''run'' e = (rid, e1)" by (meson surj_pair)
  obtain cid e2 where i2: "newID ''cmd'' e1 = (cid, e2)" by (meson surj_pair)
  obtain tres db2 where tx: "run_tx ErrDatabase (rc_flt rc 1)
      (create_run_body pg (rc_now rc 1) rid cid sid prompt profile key hash) ?db1 = (tres, db2)" by (meson surj_pair)
  have s2: "rt_steps imp pg db db2" using s1 step_run [OF tx] by (meson rtranclp.rtrancl_into_rtrancl)
  have "db' = ?db0 \<or> db' = ?db1 \<or> db' = db2 \<or> (\<exists>r r'. GetRun rc 2 r False ?db1 = (r', db'))
      \<or> (\<exists>r r'. GetRun rc 2 r False db2 = (r', db'))"
    using run i1 i2 tx unfolding CreateRun_def Let_def
    by (simp split: sum.splits option.splits if_splits prod.splits) blast+
  then show ?thesis using s0 s1 s2 GetRun_steps [OF c] by (metis rtranclp_trans)
qed

subsection \<open>Idempotent creation of runs\<close>

text \<open>The run a session's idempotency key stands for, with the hash of its request.\<close>

definition keyed :: "string \<Rightarrow> string \<Rightarrow> string \<Rightarrow> string option \<Rightarrow> rt_db \<Rightarrow> bool" where
  "keyed sid key rid hash db \<longleftrightarrow> (\<exists>r. run_by_key sid key db = Some r \<and> rn_id r = rid \<and> rn_hash r = hash)"

lemma find_map_eq: "map_option f (find (\<lambda>x. P (f x)) xs) = find P (map f xs)"
  by (induction xs) auto

lemma keyed_idents:
  "keyed sid key rid hash db \<longleftrightarrow> find (\<lambda>(i, s, k, h). s = sid \<and> k = Some key) (idents db) = Some (rid, sid, Some key, hash)"
proof -
  let ?f = "\<lambda>r. (rn_id r, rn_session r, rn_key r, rn_hash r)"
  have "find (\<lambda>(i, s, k, h). s = sid \<and> k = Some key) (idents db) = map_option ?f (run_by_key sid key db)"
    unfolding run_by_key_def idents_def
    using find_map_eq [of ?f "\<lambda>(i, s, k, h). s = sid \<and> k = Some key" "runs db"] by simp
  then show ?thesis unfolding keyed_def by (auto simp: run_by_key_def find_Some_iff)
qed

lemma keyed_grown: "keyed sid key rid hash db \<Longrightarrow> grown db db' \<Longrightarrow> keyed sid key rid hash db'"
  unfolding keyed_idents grown_def prefix_def by (auto simp: find_append)

lemma keyed_unique: "keyed sid key rid hash db \<Longrightarrow> keyed sid key rid' hash' db \<Longrightarrow> rid = rid' \<and> hash = hash'"
  by (auto simp: keyed_def)

text \<open>
  The identifier, the key and the request hash of a run never change, not even by an import, which may move the run to another
  session; and no run is deleted.
\<close>

definition marks :: "rt_db \<Rightarrow> (string \<times> string option \<times> string option) list" where
  "marks db = map (\<lambda>r. (rn_id r, rn_key r, rn_hash r)) (runs db)"

lemma marks_frame:
  assumes "\<And>db. prefix (marks db) (marks (f db))"
  shows "tx_hoare (\<lambda>db. prefix m (marks db)) (tx_change f) (\<lambda>_ db. prefix m (marks db))"
  by (rule tx_hoare_change) (use assms prefix_order.trans in blast)

named_theorems marks_keep \<open>statements that keep identifiers, keys and hashes\<close>

lemma marks_statements [marks_keep]:
  "tx_hoare (\<lambda>db. prefix m (marks db)) (tx_change (upsert_project now pid name)) (\<lambda>_ db. prefix m (marks db))"
  "tx_hoare (\<lambda>db. prefix m (marks db)) (tx_change (add_run r)) (\<lambda>_ db. prefix m (marks db))"
  "tx_hoare (\<lambda>db. prefix m (marks db)) (tx_change (add_session_event pg now sid n ty p)) (\<lambda>_ db. prefix m (marks db))"
  "tx_hoare (\<lambda>db. prefix m (marks db)) (tx_change (add_command c)) (\<lambda>_ db. prefix m (marks db))"
  "tx_hoare (\<lambda>db. prefix m (marks db)) (tx_change (add_command_once c)) (\<lambda>_ db. prefix m (marks db))"
  "tx_hoare (\<lambda>db. prefix m (marks db)) (tx_change (mark_cancel t rid)) (\<lambda>_ db. prefix m (marks db))"
  "tx_hoare (\<lambda>db. prefix m (marks db)) (tx_change (claim_command now w cid)) (\<lambda>_ db. prefix m (marks db))"
  "tx_hoare (\<lambda>db. prefix m (marks db)) (tx_change (dispatch_run now rid)) (\<lambda>_ db. prefix m (marks db))"
  "tx_hoare (\<lambda>db. prefix m (marks db)) (tx_change (bind_thread now rid th)) (\<lambda>_ db. prefix m (marks db))"
  "tx_hoare (\<lambda>db. prefix m (marks db)) (tx_change (apply_event now rid n ty p)) (\<lambda>_ db. prefix m (marks db))"
  "tx_hoare (\<lambda>db. prefix m (marks db)) (tx_change (add_job j)) (\<lambda>_ db. prefix m (marks db))"
  "tx_hoare (\<lambda>db. prefix m (marks db)) (tx_change (import_project now snap bp)) (\<lambda>_ db. prefix m (marks db))"
  "tx_hoare (\<lambda>db. prefix m (marks db)) (tx_change (insert_imported_session now v)) (\<lambda>_ db. prefix m (marks db))"
  "tx_hoare (\<lambda>db. prefix m (marks db)) (tx_change (refresh_session snap sid v)) (\<lambda>_ db. prefix m (marks db))"
  "tx_hoare (\<lambda>db. prefix m (marks db)) (tx_change (overwrite_run now sid st br rid)) (\<lambda>_ db. prefix m (marks db))"
  "tx_hoare (\<lambda>db. prefix m (marks db)) (tx_change (delete_events rid)) (\<lambda>_ db. prefix m (marks db))"
  "tx_hoare (\<lambda>db. prefix m (marks db)) (tx_change (add_run_event ev)) (\<lambda>_ db. prefix m (marks db))"
  "tx_hoare (\<lambda>db. prefix m (marks db)) (tx_change (advance_job now b k ns np)) (\<lambda>_ db. prefix m (marks db))"
  "tx_hoare (\<lambda>db. prefix m (marks db)) (tx_change (deliver_bootstrap now b)) (\<lambda>_ db. prefix m (marks db))"
  by (rule marks_frame; simp add: marks_def statement_defs)+

lemma marks_counted [marks_keep]:
  "tx_hoare (\<lambda>db. prefix m (marks db)) (tx_counted (archive_sessions now jid snap) count) (\<lambda>_ db. prefix m (marks db))"
  "tx_hoare (\<lambda>db. prefix m (marks db)) (tx_counted (archive_projects now jid snap) count') (\<lambda>_ db. prefix m (marks db))"
  by (rule keep_counted; simp add: marks_def archive_sessions_def archive_projects_def)+

lemma marks_next [marks_keep]:
  "tx_hoare (\<lambda>db. prefix m (marks db)) (next_sequence now sid) (\<lambda>_ db. prefix m (marks db))"
  unfolding next_sequence_def by (intro keep tx_hoare_change_ret) (simp add: marks_def bump_session_def)

lemma marks_insert_event [marks_keep]:
  "tx_hoare (\<lambda>db. prefix m (marks db)) (insert_run_event ev) (\<lambda>_ db. prefix m (marks db))"
  unfolding insert_run_event_def by (rule tx_hoare_stmt) (auto simp: marks_def add_run_event_def split: if_splits)

lemmas marks_rules = keep marks_keep

lemma marks_upsert: "tx_hoare (\<lambda>db. prefix m (marks db)) (upsert_each now ps) (\<lambda>_ db. prefix m (marks db))"
  by (induction ps) (simp_all only: upsert_each.simps, (intro marks_rules | assumption)+)

lemma marks_claim_each: "tx_hoare (\<lambda>db. prefix m (marks db)) (claim_each now w cs) (\<lambda>_ db. prefix m (marks db))"
  by (induction cs) (simp_all only: claim_each.simps, (intro marks_rules | assumption)+)

lemma marks_bodies:
  "tx_hoare (\<lambda>db. prefix m (marks db)) (claim_body now locked w limit) (\<lambda>_ db. prefix m (marks db))"
  "tx_hoare (\<lambda>db. prefix m (marks db)) (create_run_body pg now rid cid sid prompt profile key hash) (\<lambda>_ db. prefix m (marks db))"
  "tx_hoare (\<lambda>db. prefix m (marks db)) (cancel_body pg now clock cid rid) (\<lambda>_ db. prefix m (marks db))"
  "tx_hoare (\<lambda>db. prefix m (marks db)) (append_body pg now t rid n ty p) (\<lambda>_ db. prefix m (marks db))"
  "tx_hoare (\<lambda>db. prefix m (marks db)) (sync_body pg now jid cid key) (\<lambda>_ db. prefix m (marks db))"
  unfolding claim_body_def create_run_body_def cancel_body_def append_body_def sync_body_def
  by (intro marks_claim_each marks_rules)+

lemma marks_import: "tx_hoare (\<lambda>db. prefix m (marks db)) (batch_body pg now b) (\<lambda>_ db. prefix m (marks db))"
proof -
  let ?P = "\<lambda>db. prefix m (marks db)"
  have projects: "tx_hoare ?P (import_projects now snap ps) (\<lambda>_. ?P)" for snap ps
    by (induction ps) (simp_all only: import_projects.simps, (intro marks_rules | assumption)+)
  have session: "tx_hoare ?P (import_session now snap v) (\<lambda>_. ?P)" for snap v
    unfolding import_session_def by (intro marks_rules)
  have sessions: "tx_hoare ?P (import_sessions now snap vs ids) (\<lambda>_. ?P)" for snap vs ids
    by (induction vs arbitrary: ids) (simp_all only: import_sessions.simps, (intro marks_rules session | assumption)+)
  have events: "tx_hoare ?P (insert_events pg now rid es) (\<lambda>_. ?P)" for rid es
    by (induction es) (simp_all only: insert_events.simps, (intro marks_rules | assumption)+)
  have run: "tx_hoare ?P (import_run pg now ids r) (\<lambda>_. ?P)" for ids r
    unfolding import_run_def write_run_def by (intro events marks_rules)
  have runs: "tx_hoare ?P (import_runs pg now ids rs) (\<lambda>_. ?P)" for ids rs
    by (induction rs) (simp_all only: import_runs.simps, (intro marks_rules run | assumption)+)
  show ?thesis unfolding batch_body_def import_batch_def reconcile_def by (intro marks_rules projects sessions runs)
qed

lemma rt_step_marks: "rt_step imp pg db db' \<Longrightarrow> prefix (marks db) (marks db')"
proof (induction rule: rt_step.induct)
  case step_upsert
  show ?case by (rule keep_run_tx [OF marks_upsert prefix_order.refl step_upsert])
next
  case step_session
  then show ?case by (auto dest!: autocommit_cases simp: marks_def insert_session_def)
next
  case step_run
  show ?case by (rule keep_run_tx [OF marks_bodies(2) prefix_order.refl step_run])
next
  case step_cancel
  show ?case by (rule keep_run_tx [OF marks_bodies(3) prefix_order.refl step_cancel])
next
  case step_claim
  show ?case by (rule keep_run_tx [OF marks_bodies(1) prefix_order.refl step_claim])
next
  case step_deliver
  then show ?case by (auto dest!: autocommit_cases simp: marks_def deliver_command_def)
next
  case step_release
  then show ?case by (auto dest!: autocommit_cases simp: marks_def release_command_def)
next
  case step_append
  show ?case by (rule keep_run_tx [OF marks_bodies(4) prefix_order.refl step_append])
next
  case step_sync
  show ?case by (rule keep_run_tx [OF marks_bodies(5) prefix_order.refl step_sync])
next
  case step_import
  show ?case by (rule keep_run_tx [OF marks_import prefix_order.refl step_import(3)])
qed

lemma rt_steps_marks: "rt_steps imp pg db db' \<Longrightarrow> x \<in> set (marks db) \<Longrightarrow> x \<in> set (marks db')"
proof (induction rule: rtranclp_induct)
  case (step y z)
  then show ?case using set_mono_prefix [OF rt_step_marks [OF step(2)]] by blast
qed

lemma calm_marks: "calm imp pg rc \<Longrightarrow> x \<in> set (marks db) \<Longrightarrow> x \<in> set (marks (rc_itf rc k db))"
  using rt_steps_marks [OF calm_steps] .

lemma marked_row:
  assumes "rt_schema db" "(rid, k, h) \<in> set (marks db)"
  obtains q where "by_key rn_id rid (runs db) = Some q" "rn_id q = rid" "rn_key q = k" "rn_hash q = h"
proof -
  obtain q where q: "q \<in> set (runs db)" "rn_id q = rid" "rn_key q = k" "rn_hash q = h" using assms(2) by (auto simp: marks_def)
  moreover have "distinct (map rn_id (runs db))" using assms(1) by (simp add: rt_schema_def runs_ok_def)
  ultimately have "by_key rn_id rid (runs db) = Some q" by (metis by_key_Some_iff)
  then show thesis using q(2-4) by (rule that)
qed

lemma keyed_marks: "keyed sid key rid hash db \<Longrightarrow> (rid, Some key, hash) \<in> set (marks db)"
  by (force simp: keyed_def run_by_key_def marks_def find_Some_iff)

lemma GetRun_marked:
  assumes c: "calm imp pg rc" and inv: "rt_inv db" and m: "(rid, k, h) \<in> set (marks db)"
    and get: "GetRun rc i rid False db = (res, db')"
  shows "res = Inl ErrDatabase \<and> rc_flt rc i 0 \<noteq> Delivered \<or> (\<exists>item. res = Inr item \<and> run_ID item = rid)"
    and "db' = rc_itf rc i db"
proof -
  obtain q where "by_key rn_id rid (runs (rc_itf rc i db)) = Some q" "rn_id q = rid"
    using marked_row [OF rt_inv_schema [OF calm_inv [OF c inv]] calm_marks [OF c m]] by metis
  then have "GetRun rc i rid False db =
      (if rc_flt rc i 0 = Delivered then Inr (scanRun q) else Inl ErrDatabase, rc_itf rc i db)" "run_ID (scanRun q) = rid"
    by (simp_all add: GetRun_def Let_def pool_query_def run_by_id_def scanRun_def)
  then show "res = Inl ErrDatabase \<and> rc_flt rc i 0 \<noteq> Delivered \<or> (\<exists>item. res = Inr item \<and> run_ID item = rid)"
    and "db' = rc_itf rc i db"
    using get by (auto split: if_splits)
qed

text \<open>A call whose key is taken.\<close>

lemma CreateRun_found:
  assumes "run_by_key sid key (rc_itf rc 0 db) = Some r"
    and "by_key rn_id (rn_id r) (runs (rc_itf rc 1 (rc_itf rc 0 db))) = Some q"
    and "GetRun rc 2 (rn_id r) False (rc_itf rc 1 (rc_itf rc 0 db)) = (gr, gdb)"
  shows "CreateRun pg rc e sid prompt profile key hash db =
     (if rc_flt rc 0 0 \<noteq> Delivered then (Inl ErrDatabase, e, rc_itf rc 0 db)
      else if rc_flt rc 1 0 \<noteq> Delivered then (Inl ErrDatabase, e, rc_itf rc 1 (rc_itf rc 0 db))
      else if rn_hash q \<noteq> Some hash then (Inl ErrIdempotencyConflict, e, rc_itf rc 1 (rc_itf rc 0 db))
      else (case gr of Inl err \<Rightarrow> Inl err | Inr item \<Rightarrow> Inr (item, 0, False), e, gdb))"
  using assms by (simp add: CreateRun_def Let_def pool_query_def)

text \<open>The states a call that writes nothing may end in: what the other connections made of the tables at its reads.\<close>

definition only_read :: "rt_call \<Rightarrow> rt_db \<Rightarrow> rt_db \<Rightarrow> bool" where
  "only_read rc db db' \<longleftrightarrow> db' \<in> {rc_itf rc 0 db, rc_itf rc 1 (rc_itf rc 0 db), rc_itf rc 2 (rc_itf rc 1 (rc_itf rc 0 db))}"

lemma CreateRun_repeat:
  assumes c: "calm imp pg rc" and inv: "rt_inv db" and m: "(rid, Some key, Some stored) \<in> set (marks db)"
    and here: "\<forall>q \<in> set (runs (rc_itf rc 0 db)). rn_id q = rid \<longrightarrow> rn_session q = sid"
    and run: "CreateRun pg rc e sid prompt profile key hash db = (res, e', db')"
  shows "(res = Inl ErrDatabase \<and> (\<exists>k n. rc_flt rc k n \<noteq> Delivered)
     \<or> (if stored = hash then \<exists>item. res = Inr (item, 0, False) \<and> run_ID item = rid
        else res = Inl ErrIdempotencyConflict)) \<and> only_read rc db db'"
proof -
  let ?db0 = "rc_itf rc 0 db" and ?db1 = "rc_itf rc 1 (rc_itf rc 0 db)"
  have inv0: "rt_inv ?db0" and inv1: "rt_inv ?db1" using calm_inv [OF c] inv by auto
  have m0: "(rid, Some key, Some stored) \<in> set (marks ?db0)" and m1: "(rid, Some key, Some stored) \<in> set (marks ?db1)"
    using calm_marks [OF c] m by blast+
  obtain r where r: "r \<in> set (runs ?db0)" "rn_id r = rid" "rn_key r = Some key" using m0 by (auto simp: marks_def)
  then have own: "rn_scoped_key r = Some (sid, key)" using here by (simp add: rn_scoped_key_def)
  have "distinct (present rn_scoped_key (runs ?db0))" using rt_inv_schema [OF inv0] by (simp add: rt_schema_def runs_ok_def)
  from find_present_unique [OF this r(1) own] have "find (\<lambda>q. rn_scoped_key q = Some (sid, key)) (runs ?db0) = Some r" .
  moreover have "(\<lambda>q. rn_scoped_key q = Some (sid, key)) = (\<lambda>q. rn_session q = sid \<and> rn_key q = Some key)"
    by (auto simp: rn_scoped_key_def fun_eq_iff)
  ultimately have found: "run_by_key sid key ?db0 = Some r" by (simp add: run_by_key_def)
  obtain q where q: "by_key rn_id rid (runs ?db1) = Some q" "rn_hash q = Some stored"
    using marked_row [OF rt_inv_schema [OF inv1] m1] by metis
  obtain gr gdb where g: "GetRun rc 2 rid False ?db1 = (gr, gdb)" by (meson surj_pair)
  note got = GetRun_marked [OF c inv1 m1 g]
  show ?thesis
    using run got q(2) unfolding CreateRun_found [OF found, unfolded r(2), OF q(1) g] only_read_def
    by (auto split: if_splits)
qed

subsubsection \<open>What a successful call leaves behind\<close>

lemma keyed_keep:
  assumes "\<And>db. grown db (f db)"
  shows "tx_hoare (keyed sid key rid hash) (tx_change f) (\<lambda>_. keyed sid key rid hash)"
  by (rule tx_hoare_change) (use assms keyed_grown in blast)

lemma keyed_next: "tx_hoare (keyed sid key rid hash) (next_sequence now sid') (\<lambda>_. keyed sid key rid hash)"
  unfolding next_sequence_def
  by (intro keep tx_hoare_change_ret)
    (erule keyed_grown, simp add: grown_def idents_def bump_session_def)

lemma keyed_new_run:
  "tx_hoare (\<lambda>db. run_by_key sid key db = None) (tx_change (add_run (queued_run now rid sid prompt profile key hash)))
     (\<lambda>_. keyed sid key rid (Some hash))"
  by (rule tx_hoare_change)
    (simp add: keyed_def run_by_key_def add_run_def find_append queued_run_def)

lemma create_run_body_keyed:
  "tx_hoare (\<lambda>_. True) (create_run_body pg now rid cid sid prompt profile key hash)
     (\<lambda>res. keyed sid key (case res of Inl i \<Rightarrow> i | Inr (item, n) \<Rightarrow> run_ID item) (Some hash))"
  unfolding create_run_body_def
proof (rule tx_hoare_bind [OF keep_one], rule tx_hoare_bind [where R = "\<lambda>x db. run_by_key sid key db = x"], goal_cases)
  case 1
  show ?case by (rule tx_hoare_rt_query) simp
next
  case (2 s x)
  show ?case
  proof (cases x)
    case None
    have fin: "tx_hoare (keyed sid key rid (Some hash))
        (tx_return (Inr (scanRun (queued_run now rid sid prompt profile key hash), n)))
        (\<lambda>res. keyed sid key (case res of Inl i \<Rightarrow> i | Inr (item, n) \<Rightarrow> run_ID item) (Some hash))" for n :: int
      by (rule tx_hoare_return) (simp add: scanRun_def queued_run_def)
    show ?thesis unfolding None option.case
      by (rule tx_hoare_bind [OF keyed_new_run], rule tx_hoare_bind [OF keyed_next],
          rule tx_hoare_bind [OF keyed_keep], simp add: grown_def idents_def add_session_event_def,
          rule tx_hoare_bind [OF keyed_keep], simp add: grown_def idents_def add_command_def, rule fin)
  next
    case (Some r)
    then show ?thesis by (auto intro!: tx_rules simp: keyed_def)
  qed
qed

lemma CreateRun_marked:
  assumes c: "calm imp pg rc" and inv: "rt_inv db"
    and run: "CreateRun pg rc e sid prompt profile key hash db = (Inr (item, n, created), e', db')"
  shows "(run_ID item, Some key, Some hash) \<in> set (marks db')"
proof (cases "run_by_key sid key (rc_itf rc 0 db)")
  case (Some r)
  let ?db0 = "rc_itf rc 0 db" and ?db1 = "rc_itf rc 1 (rc_itf rc 0 db)"
  have inv1: "rt_inv ?db1" using calm_inv [OF c] inv by blast
  have "(rn_id r, Some key, rn_hash r) \<in> set (marks ?db0)" using Some by (intro keyed_marks) (auto simp: keyed_def)
  then have m1: "(rn_id r, Some key, rn_hash r) \<in> set (marks ?db1)" by (rule calm_marks [OF c])
  obtain q where q: "by_key rn_id (rn_id r) (runs ?db1) = Some q" "rn_hash q = rn_hash r"
    using marked_row [OF rt_inv_schema [OF inv1] m1] by metis
  obtain gr gdb where g: "GetRun rc 2 (rn_id r) False ?db1 = (gr, gdb)" by (meson surj_pair)
  have "rn_hash r = Some hash" "gr = Inr item" "gdb = db'"
    using run q(2) unfolding CreateRun_found [OF Some q(1) g] by (auto split: sum.splits if_splits)
  then show ?thesis using GetRun_marked [OF c inv1 m1 g] calm_marks [OF c m1, of 2] by auto
next
  case None
  let ?db1 = "rc_itf rc 1 (rc_itf rc 0 db)"
  obtain rid e1 where i1: "newID ''run'' e = (rid, e1)" by (meson surj_pair)
  obtain cid e2 where i2: "newID ''cmd'' e1 = (cid, e2)" by (meson surj_pair)
  obtain tres db2 where tx: "run_tx ErrDatabase (rc_flt rc 1)
      (create_run_body pg (rc_now rc 1) rid cid sid prompt profile key hash) ?db1 = (tres, db2)" by (meson surj_pair)
  have inv2: "rt_inv db2" using rt_step_inv [OF step_run [OF tx]] calm_inv [OF c] inv by blast
  consider i where "tres = Inr (Inl i)" "GetRun rc 2 i False db2 = (Inr item, db')"
    | "tres = Inr (Inr (item, n))" "db' = db2"
    using run None i1 i2 tx unfolding CreateRun_def Let_def
    by (auto simp: pool_query_def split: sum.splits if_splits prod.splits)
  then show ?thesis
  proof cases
    case 1
    then have "keyed sid key i (Some hash) db2"
      using run_tx_post [OF create_run_body_keyed _ tx [unfolded 1(1)]] by simp
    then have m: "(i, Some key, Some hash) \<in> set (marks db2)" by (rule keyed_marks)
    from GetRun_marked [OF c inv2 m 1(2)] show ?thesis using calm_marks [OF c m, of 2] by auto
  next
    case 2
    then show ?thesis using keyed_marks run_tx_post [OF create_run_body_keyed _ tx [unfolded 2(1)]] by simp
  qed
qed

text \<open>
  Property C5. \<open>CreateRun\<close> is idempotent in the session and the idempotency key. Once a call has answered with a run, take any
  later call with this key, whatever its prompt and whatever calls, imports included, other connections make before, between and
  during the two. As long as no import has moved that run to another session, the later call answers with the same run when its request hash is the
  same, and reports a conflict when it differs; it writes nothing, so it creates neither a run nor a command. The only other
  outcome is a database error, and only when one of its round trips was lost.
\<close>

theorem create_run_idempotent:
  assumes "rt_steps True pg empty_db db" "calm True pg rc" "calm True pg rc'"
    and "CreateRun pg rc e sid prompt profile key hash db = (Inr (item, n, created), e1, db1)"
    and "rt_steps True pg db1 db2"
    and "\<forall>q \<in> set (runs (rc_itf rc' 0 db2)). rn_id q = run_ID item \<longrightarrow> rn_session q = sid"
    and "CreateRun pg rc' e' sid prompt' profile' key hash' db2 = (res, e2, db3)"
  shows "(res = Inl ErrDatabase \<and> (\<exists>k i. rc_flt rc' k i \<noteq> Delivered)
    \<or> (if hash' = hash then \<exists>item'. res = Inr (item', 0, False) \<and> run_ID item' = run_ID item
       else res = Inl ErrIdempotencyConflict))
    \<and> db3 \<in> {rc_itf rc' 0 db2, rc_itf rc' 1 (rc_itf rc' 0 db2), rc_itf rc' 2 (rc_itf rc' 1 (rc_itf rc' 0 db2))}"
proof -
  have inv: "rt_inv db" using reachable_inv [OF assms(1)] .
  have "(run_ID item, Some key, Some hash) \<in> set (marks db1)" using CreateRun_marked [OF assms(2) inv assms(4)] .
  then have m: "(run_ID item, Some key, Some hash) \<in> set (marks db2)" using rt_steps_marks [OF assms(5)] by blast
  have "rt_inv db2"
    using rt_steps_inv [OF assms(5)] rt_steps_inv [OF CreateRun_steps [OF assms(2,4)] inv] by blast
  from CreateRun_repeat [OF assms(3) this m assms(6,7)] show ?thesis unfolding only_read_def by auto
qed

subsubsection \<open>What a new run does to the tables\<close>

definition quiet :: "rt_call \<Rightarrow> bool" where
  "quiet rc \<longleftrightarrow> (\<forall>k. rc_flt rc k = no_faults) \<and> (\<forall>k db. rc_itf rc k db = db)"

lemma quiet_simps [simp]:
  "quiet rc \<Longrightarrow> rc_flt rc k = no_faults" "quiet rc \<Longrightarrow> rc_itf rc k db = db"
  by (simp_all add: quiet_def)

lemma quiet_calm: "quiet rc \<Longrightarrow> calm imp pg rc"
  by (simp add: calm_def)

lemma schema_add_run:
  assumes "rt_schema db" "rn_id r \<notin> rn_id ` set (runs db)" "rn_session r \<in> ses_id ` set (sessions db)"
    and "rn_turn r = None" "rn_key r = Some key" "run_by_key (rn_session r) key db = None"
    and "rn_status r \<in> set run_statuses" "0 < rn_version r" "0 \<le> rn_persisted r" "rn_final r = None" "rn_hash r \<noteq> None"
  shows "rt_schema (add_run r db)"
proof -
  have "(rn_session r, key) \<notin> set (present rn_scoped_key (runs db))"
    using assms(6) by (auto simp: set_present rn_scoped_key_def run_by_key_def find_None_iff)
  then show ?thesis using assms
    by (auto simp: rt_schema_def projects_ok_def sessions_ok_def runs_ok_def session_events_ok_def run_events_ok_def
        outbox_ok_def sync_jobs_ok_def add_run_def rn_scoped_key_def)
qed

lemma schema_bump:
  assumes "rt_schema db"
  shows "rt_schema (bump_session now sid db)"
proof -
  have "sessions_ok (bump_session now sid db)"
    using assms unfolding rt_schema_def sessions_ok_def bump_session_def by (auto elim!: in_sql_updateE)
  then show ?thesis using assms
    by (simp add: rt_schema_def projects_ok_def runs_ok_def session_events_ok_def run_events_ok_def
        outbox_ok_def sync_jobs_ok_def bump_session_def)
qed

lemma schema_add_session_event:
  assumes "rt_schema db" "sid \<in> ses_id ` set (sessions db)" "0 < n" "n \<notin> set (feed_seqs db sid)" "ty \<in> set event_types"
  shows "rt_schema (add_session_event pg now sid n ty p db)"
proof -
  have "(sid, n) \<notin> (\<lambda>e. (sev_session e, sev_seq e)) ` set (session_events db)"
    using assms(4) by (auto simp: feed_seqs_def)
  then show ?thesis using assms
    by (simp add: rt_schema_def projects_ok_def sessions_ok_def runs_ok_def session_events_ok_def run_events_ok_def
        outbox_ok_def sync_jobs_ok_def add_session_event_def)
qed

lemma schema_add_command:
  assumes "rt_schema db" "cid \<notin> out_id ` set (command_outbox db)" "(ty, res) \<notin> issued db" "ty \<in> set command_types"
  shows "rt_schema (add_command (new_command pg now cid ty res p) db)"
  using assms
  by (simp add: rt_schema_def projects_ok_def sessions_ok_def runs_ok_def session_events_ok_def run_events_ok_def
      outbox_ok_def sync_jobs_ok_def add_command_def new_command_def command_statuses_def issued_def)

text \<open>The tables after a new run: the run, the next event of its session, and the start command.\<close>

definition with_run :: "pgsql \<Rightarrow> time \<Rightarrow> string \<Rightarrow> string \<Rightarrow> session_row \<Rightarrow> string \<Rightarrow> string \<Rightarrow> string \<Rightarrow> string \<Rightarrow> rt_db \<Rightarrow> rt_db" where
  "with_run pg now rid cid s prompt profile key hash db =
     (let r = queued_run now rid (ses_id s) prompt profile key hash in
      add_command (new_command pg now cid ''run.start'' rid
          (runStartCommandPayload cid rid (ses_project s) (or_empty (ses_thread s)) prompt profile))
        (add_session_event pg now (ses_id s) (ses_last s + 1) ''run.created'' (run_created_payload (ses_id s) rid now)
          (bump_session now (ses_id s) (add_run r db))))"

lemma create_run_body_runs:
  assumes inv: "rt_inv db" and s: "s \<in> set (sessions db)" "visible db s" and key: "run_by_key (ses_id s) key db = None"
    and fresh: "rid \<notin> rn_id ` set (runs db)" "cid \<notin> out_id ` set (command_outbox db)"
  shows "\<exists>k. create_run_body pg now rid cid (ses_id s) prompt profile key hash no_faults (m, db) =
    Inr (Inr (scanRun (queued_run now rid (ses_id s) prompt profile key hash), ses_last s + 1), k,
         with_run pg now rid cid s prompt profile key hash db)"
proof -
  let ?sid = "ses_id s" and ?r = "queued_run now rid (ses_id s) prompt profile key hash"
  let ?db1 = "add_run ?r db"
  let ?db2 = "bump_session now ?sid ?db1"
  let ?db3 = "add_session_event pg now ?sid (ses_last s + 1) ''run.created'' (run_created_payload ?sid rid now) ?db2"
  have S: "rt_schema db" using inv by (rule rt_inv_schema)
  have uniq: "distinct (map ses_id (sessions db))" using S by (simp add: rt_schema_def sessions_ok_def)
  have found: "find (\<lambda>q. ses_id q = ?sid \<and> visible db q) (sessions db) = Some s"
  proof -
    have "q = s" if "q \<in> set (sessions db)" "ses_id q = ?sid" for q
      using unique_row [OF uniq that(1) s(1) that(2)] .
    then show ?thesis using s by (intro find_unique) auto
  qed
  have S1: "rt_schema ?db1"
    using S fresh(1) s(1) key by (intro schema_add_run [where key = key]) (simp_all add: queued_run_def run_statuses_def)
  have S2: "rt_schema ?db2" using S1 by (rule schema_bump)
  have row: "by_key ses_id ?sid (sessions ?db2) = Some (s\<lparr>ses_last := ses_last s + 1, ses_updated := now\<rparr>)"
    using by_key_Some_iff [OF uniq, of ?sid s] s(1) by (simp add: bump_session_def add_run_def by_key_sql_update)
  have pos: "0 \<le> ses_last s" using S s(1) by (auto simp: rt_schema_def sessions_ok_def)
  have "feed_seqs ?db2 ?sid = [1..ses_last s]"
    using inv s(1) by (simp add: rt_inv_def feed_inv_def feed_seqs_def bump_session_def add_run_def)
  then have S3: "rt_schema ?db3"
    using S2 s(1) pos by (intro schema_add_session_event) (simp_all add: event_types_def bump_session_def add_run_def)
  have "(''run.start'', rid) \<notin> issued db"
    using inv fresh(1) unfolding rt_inv_def outbox_inv_def subjects_def by auto
  then have S4: "rt_schema (with_run pg now rid cid s prompt profile key hash db)"
    using S3 fresh(2) unfolding with_run_def Let_def
    by (intro schema_add_command)
      (simp_all add: command_types_def issued_def add_session_event_def bump_session_def add_run_def)
  show ?thesis
    unfolding create_run_body_def next_sequence_def
    using S1 S2 S3 S4 row by (simp add: found key with_run_def Let_def)
qed

lemma CreateRun_new:
  assumes "rt_inv db" "quiet rc"
    and "s \<in> set (sessions db)" "visible db s" "run_by_key (ses_id s) key db = None"
    and "newID ''run'' e = (rid, e1)" "newID ''cmd'' e1 = (cid, e2)"
    and "rid \<notin> rn_id ` set (runs db)" "cid \<notin> out_id ` set (command_outbox db)"
  shows "CreateRun pg rc e (ses_id s) prompt profile key hash db =
    (Inr (scanRun (queued_run (rc_now rc 1) rid (ses_id s) prompt profile key hash), ses_last s + 1, True), e2,
     with_run pg (rc_now rc 1) rid cid s prompt profile key hash db)"
proof -
  obtain k where "create_run_body pg (rc_now rc 1) rid cid (ses_id s) prompt profile key hash no_faults (Suc 0, db) =
    Inr (Inr (scanRun (queued_run (rc_now rc 1) rid (ses_id s) prompt profile key hash), ses_last s + 1), k,
         with_run pg (rc_now rc 1) rid cid s prompt profile key hash db)"
    using create_run_body_runs [OF assms(1,3,4,5,8,9)] by blast
  then show ?thesis using assms(2,5,6,7)
    by (simp add: CreateRun_def Let_def pool_query_def)
qed

text \<open>
  Property C33. A new run takes effect as a whole. With a visible session, an unused key and fresh identifiers, and no other connection or
  lost round trip, the call answers with the queued run and the session's next sequence number, and the tables gain exactly: the
  run with the prompt, the profile, the key and the hash; the \<^verbatim>\<open>run.created\<close> entry of the session's feed with that number,
  to which the session's counter moves; and the pending \<^verbatim>\<open>run.start\<close> command, due at once, whose payload carries the
  prompt, the profile, the project and the thread of the session to the agent. All rows are spelled out.
\<close>

theorem create_run_effect:
  assumes "rt_steps True pg empty_db db" "quiet rc"
    and "s \<in> set (sessions db)" "visible db s" "run_by_key (ses_id s) key db = None"
    and "newID ''run'' e = (rid, e1)" "newID ''cmd'' e1 = (cid, e2)"
    and "rid \<notin> rn_id ` set (runs db)" "cid \<notin> out_id ` set (command_outbox db)" "now = rc_now rc 1"
  shows "CreateRun pg rc e (ses_id s) prompt profile key hash db =
    (Inr (\<lparr>run_ID = rid, run_SessionID = ses_id s, run_CodexTurnID = [], run_Status = ''queued'', run_StateVersion = 1,
           run_Prompt = prompt, run_PermissionProfileID = profile, run_CancelRequestedAt = None,
           run_PersistedThroughSequence = 0, run_FinalSequence = None, run_ErrorCode = [], run_ErrorMessage = [],
           run_CreatedAt = now, run_StartedAt = None, run_FinishedAt = None, run_UpdatedAt = now, run_Events = []\<rparr>, ses_last s + 1, True), e2,
     db\<lparr>sessions := map (\<lambda>q. if ses_id q = ses_id s then q\<lparr>ses_last := ses_last q + 1, ses_updated := now\<rparr> else q) (sessions db),
        runs := runs db @ [\<lparr>rn_id = rid, rn_session = ses_id s, rn_turn = None, rn_status = ''queued'', rn_version = 1,
          rn_key = Some key, rn_hash = Some hash, rn_prompt = Some prompt, rn_cancel = None, rn_persisted = 0, rn_final = None,
          rn_error_code = None, rn_error_message = None, rn_created = now, rn_started = None, rn_finished = None, rn_updated = now,
          rn_profile = (if profile = [] then None else Some profile)\<rparr>],
        session_events := session_events db @ [\<lparr>sev_session = ses_id s, sev_seq = ses_last s + 1, sev_type = ''run.created'',
          sev_payload = pg_jsonb pg (JObj [(''occurred_at'', time_json now), (''run_id'', JStr rid), (''schema_version'', JNum 1),
            (''session_id'', JStr (ses_id s)), (''status'', JStr ''queued'')]), sev_created = now\<rparr>],
        command_outbox := command_outbox db @ [\<lparr>out_id = cid, out_type = ''run.start'', out_resource = rid,
          out_payload = pg_jsonb pg (JObj [(''command_id'', JStr cid), (''permission_profile_id'', JStr profile),
            (''project_id'', JStr (ses_project s)), (''prompt'', JStr prompt), (''run_id'', JStr rid),
            (''thread_id'', JStr (case ses_thread s of Some t \<Rightarrow> t | None \<Rightarrow> []))]),
          out_status = ''pending'', out_attempts = 0, out_next = now, out_claimed_by = None, out_expires = None,
          out_delivered = None, out_error = None, out_created = now\<rparr>]\<rparr>)"
  unfolding assms(10) CreateRun_new [OF reachable_inv [OF assms(1)] assms(2-9)]
  by (simp add: scanRun_def queued_run_def with_run_def Let_def add_command_def add_session_event_def bump_session_def add_run_def
      new_command_def runStartCommandPayload_def run_created_payload_def sql_update_def or_empty_def nullif_empty_def split: option.split)

subsection \<open>A concrete store\<close>

definition demo_pg :: pgsql where
  "demo_pg = \<lparr>pg_jsonb = (\<lambda>j. j), pg_le = (\<lambda>_ _. True)\<rparr>"

definition demo_call :: rt_call where
  "demo_call = \<lparr>rc_flt = (\<lambda>_. no_faults), rc_now = (\<lambda>_. 1000), rc_itf = (\<lambda>_ db. db), rc_clock = 1000\<rparr>"

definition demo_store :: rt_db where
  "demo_store = insert_session 1000 ''s'' ''p'' ''title'' ''k0'' ''h0'' (upsert_project 1000 ''p'' ''name'' empty_db)"

definition demo_zeros :: entropy where
  "demo_zeros = \<lparr>source = (\<lambda>_. 0), drawn = 0\<rparr>"

definition demo_hex :: string where
  "demo_hex = hex_encode (replicate 16 0)"

lemma demo_quiet [simp]: "quiet demo_call"
  by (simp add: quiet_def demo_call_def)

lemma demo_call_simps [simp]: "rc_now demo_call k = 1000" "rc_clock demo_call = 1000"
  by (simp_all add: demo_call_def)

lemma demo_newID: "newID pre (demo_zeros\<lparr>drawn := n\<rparr>) = (pre @ ''_'' @ demo_hex, demo_zeros\<lparr>drawn := n + 16\<rparr>)"
proof -
  have "map (\<lambda>i. 0) [0..<16] = replicate 16 (0 :: byte)" by (simp add: map_replicate_const)
  then show ?thesis by (simp add: newID_def rand_read_def demo_hex_def demo_zeros_def)
qed

lemma demo_zeros_drawn: "demo_zeros = demo_zeros\<lparr>drawn := 0\<rparr>"
  by (simp add: demo_zeros_def)

definition demo_session :: session_row where
  "demo_session = \<lparr>ses_id = ''s'', ses_project = ''p'', ses_thread = None, ses_title = Some ''title'', ses_last = 0,
     ses_key = Some ''k0'', ses_hash = Some ''h0'', ses_created = 1000, ses_updated = 1000, ses_seen = None,
     ses_archived = None\<rparr>"

lemma demo_store_simps [simp]:
  "projects demo_store = [\<lparr>prj_id = ''p'', prj_name = ''name'', prj_seen = None, prj_archived = None,
     prj_created = 1000, prj_updated = 1000\<rparr>]"
  "sessions demo_store = [demo_session]" "runs demo_store = []" "session_events demo_store = []"
  "run_events demo_store = []" "command_outbox demo_store = []" "sync_jobs demo_store = []"
  by (simp_all add: demo_store_def insert_session_def upsert_project_def empty_db_def sql_exists_def demo_session_def)

lemma demo_names: "trim_space ''p'' \<noteq> []" "trim_space ''name'' \<noteq> []"
  by (simp_all add: trim_space_plain plain_ends_def)

lemma demo_reachable: "rt_steps imp pg empty_db demo_store"
proof -
  have "rt_schema (upsert_project 1000 ''p'' ''name'' empty_db)"
    by (simp add: schema_defs upsert_project_def empty_db_def sql_exists_def)
  then have "run_tx ErrDatabase no_faults (upsert_each 1000 [\<lparr>project_ID = ''p'', project_DisplayName = ''name''\<rparr>]) empty_db =
      (Inr (), upsert_project 1000 ''p'' ''name'' empty_db)"
    using demo_names by simp
  then have "rt_step imp pg empty_db (upsert_project 1000 ''p'' ''name'' empty_db)" by (rule step_upsert)
  moreover have "rt_schema demo_store"
    by (simp add: schema_defs demo_session_def)
  then have "autocommit Delivered (insert_session 1000 ''s'' ''p'' ''title'' ''k0'' ''h0'')
      (upsert_project 1000 ''p'' ''name'' empty_db) = (Inr (), demo_store)"
    by (simp add: autocommit_def demo_store_def [symmetric])
  then have "rt_step imp pg (upsert_project 1000 ''p'' ''name'' empty_db) demo_store" by (rule step_session)
  ultimately show ?thesis by (meson converse_rtranclp_into_rtranclp r_into_rtranclp)
qed

lemma demo_visible: "demo_session \<in> set (sessions demo_store)" "visible demo_store demo_session"
  "run_by_key (ses_id demo_session) key demo_store = None"
  by (simp_all add: visible_def sql_exists_def demo_session_def run_by_key_def)

definition demo_rid :: string where
  "demo_rid = ''run_'' @ demo_hex"

lemma demo_run_ids:
  "newID ''run'' demo_zeros = (demo_rid, demo_zeros\<lparr>drawn := 16\<rparr>)"
  "newID ''cmd'' (demo_zeros\<lparr>drawn := 16\<rparr>) = (''cmd_'' @ demo_hex, demo_zeros\<lparr>drawn := 32\<rparr>)"
  using demo_newID [of "''run''" 0] demo_newID [of "''cmd''" 16] demo_zeros_drawn
  by (simp_all add: demo_rid_def)

definition demo_run :: run_row where
  "demo_run = queued_run 1000 demo_rid (ses_id demo_session) ''hello'' [] ''k'' ''h''"

definition demo_running :: rt_db where
  "demo_running = with_run demo_pg 1000 demo_rid (''cmd_'' @ demo_hex) demo_session ''hello'' [] ''k'' ''h'' demo_store"

theorem create_run_effect_witness:
  "\<exists>item db. CreateRun demo_pg demo_call demo_zeros (ses_id demo_session) ''hello'' [] ''k'' ''h'' demo_store = (Inr (item, 1, True), demo_zeros\<lparr>drawn := 32\<rparr>, db)
     \<and> map out_status (command_outbox db) = [''pending''] \<and> map rn_prompt (runs db) = [Some ''hello'']"
  using create_run_effect [OF demo_reachable demo_quiet demo_visible(1,2) demo_visible(3) [of "''k''"] demo_run_ids _ _ refl,
      of demo_pg "''hello''" "[]" "''h''"]
  by (simp add: demo_session_def)

theorem create_run_idempotent_witness:
  "\<exists>item. fst (CreateRun demo_pg demo_call demo_zeros ''s'' ''hello'' [] ''k'' ''h'' demo_store) = Inr (item, 1, True)
     \<and> (\<exists>item'. fst (CreateRun demo_pg demo_call demo_zeros ''s'' ''again'' [] ''k'' ''h'' demo_running) = Inr (item', 0, False)
          \<and> run_ID item' = run_ID item)"
proof -
  have first: "CreateRun demo_pg demo_call demo_zeros ''s'' ''hello'' [] ''k'' ''h'' demo_store =
      (Inr (scanRun demo_run, 1, True), demo_zeros\<lparr>drawn := 32\<rparr>, demo_running)"
    using CreateRun_new [OF reachable_inv [OF demo_reachable] demo_quiet demo_visible(1,2) demo_visible(3) [of "''k''"] demo_run_ids,
        of demo_pg "''hello''" "[]" "''h''"]
    by (simp add: demo_run_def demo_running_def) (simp add: demo_session_def)
  obtain res e2 db3 where again: "CreateRun demo_pg demo_call demo_zeros ''s'' ''again'' [] ''k'' ''h'' demo_running = (res, e2, db3)"
    by (metis prod_cases3)
  have "\<forall>q \<in> set (runs (rc_itf demo_call 0 demo_running)). rn_id q = run_ID (scanRun demo_run) \<longrightarrow> rn_session q = ''s''"
    by (simp add: demo_running_def with_run_def Let_def add_command_def add_session_event_def bump_session_def add_run_def
        queued_run_def demo_session_def)
  from create_run_idempotent [OF demo_reachable quiet_calm [OF demo_quiet] quiet_calm [OF demo_quiet] first _ this again]
  show ?thesis using first again by (simp add: demo_call_def)
qed

subsection \<open>Agent events\<close>

text \<open>No other connection touches the tables during the call.\<close>

definition alone :: "rt_call \<Rightarrow> bool" where
  "alone rc \<longleftrightarrow> (\<forall>k db. rc_itf rc k db = db)"

lemma has_event_grown: "has_event rid n db \<Longrightarrow> grown db db' \<Longrightarrow> has_event rid n db'"
  by (auto simp: has_event_iff grown_def prefix_def)

lemma has_event_keep:
  "(\<And>db. run_events (f db) = run_events db) \<Longrightarrow> tx_hoare (has_event rid n) (tx_change f) (\<lambda>_. has_event rid n)"
  by (rule tx_hoare_change) (simp add: has_event_def)

lemma has_event_next: "tx_hoare (has_event rid n) (next_sequence now sid) (\<lambda>_. has_event rid n)"
  unfolding next_sequence_def
  by (intro keep tx_hoare_change_ret) (simp add: has_event_def bump_session_def)

lemma append_body_has_event:
  "tx_hoare (\<lambda>_. True) (append_body pg now t rid n ty p) (\<lambda>_. has_event rid n)"
  unfolding append_body_def
proof (rule tx_hoare_bind [where R = "\<lambda>_. has_event rid n"], goal_cases)
  case 1
  show ?case unfolding insert_run_event_def
    by (rule tx_hoare_stmt) (auto simp: has_event_add split: if_splits)
next
  case (2 k)
  show ?case
    by (intro keep has_event_next has_event_keep) (simp_all add: bind_thread_def apply_event_def add_session_event_def)
qed

lemma AppendAgentEvent_steps:
  assumes "calm imp pg rc" "AppendAgentEvent pg rc rid n ty p t db = (res, db')"
  shows "rt_steps imp pg db db'"
proof -
  let ?when = "case parse_rfc3339 t of Some t \<Rightarrow> t | None \<Rightarrow> rc_clock rc"
  obtain b db1 where tx: "run_tx ErrDatabase (rc_flt rc 0) (append_body pg (rc_now rc 0) ?when rid n ty p) (rc_itf rc 0 db) = (b, db1)"
    by (meson surj_pair)
  have s1: "rt_steps imp pg db db1"
    using calm_steps [OF assms(1)] step_append [OF tx] by (meson rtranclp.rtrancl_into_rtrancl)
  have "db' = db1 \<or> (\<exists>r. GetRun rc 1 rid False db1 = (r, db'))"
    using assms(2) tx by (auto simp: AppendAgentEvent_def Let_def split: sum.splits)
  then show ?thesis using s1 GetRun_steps [OF assms(1)] by (metis rtranclp_trans)
qed

lemma AppendAgentEvent_stored:
  assumes "calm False pg rc" "AppendAgentEvent pg rc rid n ty p t db = (Inr item, db')"
  shows "has_event rid n db'"
proof -
  let ?when = "case parse_rfc3339 t of Some t \<Rightarrow> t | None \<Rightarrow> rc_clock rc"
  obtain b db1 where tx: "run_tx ErrDatabase (rc_flt rc 0) (append_body pg (rc_now rc 0) ?when rid n ty p) (rc_itf rc 0 db) = (b, db1)"
    by (meson surj_pair)
  then obtain c where "b = Inr c" and get: "GetRun rc 1 rid False db1 = (Inr item, db')"
    using assms(2) by (cases b) (auto simp: AppendAgentEvent_def Let_def)
  then have "has_event rid n db1" using run_tx_post [OF append_body_has_event _ tx [unfolded \<open>b = Inr c\<close>]] by simp
  then show ?thesis using has_event_grown rt_steps_grown [OF GetRun_steps [OF assms(1) get]] by blast
qed

lemma append_body_duplicate:
  assumes "has_event rid n db" "append_body pg now t rid n ty p flt (m, db) = Inr (b, k, db')"
  shows "db' = db" "b = False"
  using assms by (auto simp: append_body_def insert_run_event_def tx_stmt_def split: if_splits)

lemma event_run_exists:
  assumes "rt_schema db" "has_event rid n db"
  obtains r where "by_key rn_id rid (runs db) = Some r"
  using assms unfolding has_event_iff rt_schema_def run_events_ok_def by (metis by_key_None not_Some_eq)

text \<open>
  Property C31. An agent event is stored once. When the agent sends an event again that was acknowledged (the same run and sequence
  number, whatever its type and content), the repeated call writes nothing, whatever calls of other connections, bootstrap imports
  excepted, came before and come during it; the answer is the run as it is stored then, or a database error when a round
  trip was lost. An import may replace the log of a run, and so remove the event.
\<close>

theorem append_event_idempotent:
  assumes "rt_steps True pg empty_db db" "calm False pg rc" "calm False pg rc'"
    and "AppendAgentEvent pg rc rid n ty p t db = (Inr item, db1)"
    and "rt_steps False pg db1 db2"
    and "AppendAgentEvent pg rc' rid n ty' p' t' db2 = (res, db3)"
  shows "db3 \<in> {rc_itf rc' 0 db2, rc_itf rc' 1 (rc_itf rc' 0 db2)} \<and> (res = Inl ErrDatabase \<and> (\<exists>k i. rc_flt rc' k i \<noteq> Delivered)
    \<or> (\<exists>r. by_key rn_id rid (runs db3) = Some r \<and> res = Inr (scanRun r)))"
proof -
  let ?db = "rc_itf rc' 0 db2"
  have inv2: "rt_inv db2"
    using rt_steps_inv [OF assms(5)] rt_steps_inv [OF AppendAgentEvent_steps [OF assms(2,4)]] reachable_inv [OF assms(1)] by blast
  then have inv: "rt_inv (rc_itf rc' 1 ?db)" using calm_inv [OF assms(3)] by blast
  have ev: "has_event rid n ?db"
    using has_event_grown [OF has_event_grown [OF AppendAgentEvent_stored [OF assms(2,4)] rt_steps_grown [OF assms(5)]] calm_grown [OF assms(3)]] .
  obtain r where r: "by_key rn_id rid (runs (rc_itf rc' 1 ?db)) = Some r"
    using event_run_exists [OF rt_inv_schema [OF inv] has_event_grown [OF ev calm_grown [OF assms(3)]]] .
  let ?when = "case parse_rfc3339 t' of Some t \<Rightarrow> t | None \<Rightarrow> rc_clock rc'"
  let ?body = "append_body pg (rc_now rc' 0) ?when rid n ty' p'"
  obtain b db4 where tx: "run_tx ErrDatabase (rc_flt rc' 0) ?body ?db = (b, db4)" by (meson surj_pair)
  then have "db4 = ?db" by (cases rule: run_tx_cases) (use append_body_duplicate [OF ev] in blast)+
  have fault: "b = Inl x \<Longrightarrow> x = ErrDatabase \<and> (\<exists>k i. rc_flt rc' k i \<noteq> Delivered)" for x
    using tx ev unfolding run_tx_def append_body_def insert_run_event_def tx_stmt_def
    by (auto split: if_splits wire.splits) (metis wire.distinct(1) wire.distinct(3))+
  show ?thesis
  proof (cases b)
    case (Inl x)
    then show ?thesis using assms(6) tx fault \<open>db4 = ?db\<close> by (auto simp: AppendAgentEvent_def Let_def)
  next
    case (Inr c)
    then have "GetRun rc' 1 rid False ?db = (res, db3)"
      using assms(6) tx \<open>db4 = ?db\<close> by (auto simp: AppendAgentEvent_def Let_def)
    then show ?thesis using r by (auto simp: GetRun_def Let_def pool_query_def run_by_id_def split: if_splits)
  qed
qed

lemma demo_create: "rt_steps imp demo_pg demo_store demo_running"
proof -
  have "CreateRun demo_pg demo_call demo_zeros (ses_id demo_session) ''hello'' [] ''k'' ''h'' demo_store =
    (Inr (scanRun demo_run, ses_last demo_session + 1, True), demo_zeros\<lparr>drawn := 32\<rparr>, demo_running)"
    using CreateRun_new [OF reachable_inv [OF demo_reachable] demo_quiet demo_visible(1,2) demo_visible(3) [of "''k''"] demo_run_ids,
        of demo_pg "''hello''" "[]" "''h''"]
    by (simp add: demo_run_def demo_running_def)
  from CreateRun_steps [OF quiet_calm [OF demo_quiet] this] show ?thesis .
qed

lemma demo_running_reachable: "rt_steps imp demo_pg empty_db demo_running"
  using demo_reachable demo_create by (metis rtranclp_trans)

definition demo_event :: "int \<Rightarrow> string \<Rightarrow> run_event_row" where
  "demo_event n ty = \<lparr>rev_run = demo_rid, rev_seq = n, rev_type = ty, rev_payload = JNull,
     rev_occurred = pg_time (case parse_rfc3339 [] of Some t \<Rightarrow> t | None \<Rightarrow> rc_clock demo_call), rev_persisted = 1000\<rparr>"

definition demo_logged :: rt_db where
  "demo_logged = apply_event 1000 demo_rid 1 ''turn.output'' JNull (add_run_event (demo_event 1 ''turn.output'') demo_running)"

lemma demo_running_simps [simp]:
  "projects demo_running = projects demo_store" "runs demo_running = [demo_run]" "run_events demo_running = []"
  "sync_jobs demo_running = []"
  by (simp_all add: demo_running_def with_run_def Let_def add_command_def add_session_event_def bump_session_def
      add_run_def demo_run_def)

lemma demo_run_id [simp]: "rn_id demo_run = demo_rid"
  by (simp add: demo_run_def queued_run_def)

lemma demo_logged_schema:
  "rt_schema (add_run_event (demo_event 1 ''turn.output'') demo_running)" "rt_schema demo_logged"
proof -
  have S: "rt_schema demo_running" by (rule rt_inv_schema [OF reachable_inv [OF demo_running_reachable [of True]]])
  then show 1: "rt_schema (add_run_event (demo_event 1 ''turn.output'') demo_running)"
    by (simp add: schema_defs add_run_event_def demo_event_def)
  have st: "statusForEvent ''turn.output'' = ([], False)" by (simp add: statusForEvent_def)
  show "rt_schema demo_logged"
    using 1 unfolding demo_logged_def
    by (simp add: schema_defs apply_event_def add_run_event_def event_on_run_def st rn_scoped_key_def)
qed

lemma demo_append:
  "\<exists>item. AppendAgentEvent demo_pg demo_call demo_rid 1 ''turn.output'' JNull [] demo_running = (Inr item, demo_logged)"
proof -
  have st: "statusForEvent ''turn.output'' = ([], False)" by (simp add: statusForEvent_def)
  have ev: "\<lparr>rev_run = demo_rid, rev_seq = 1, rev_type = ''turn.output'', rev_payload = JNull,
     rev_occurred = pg_time (case parse_rfc3339 [] of Some t \<Rightarrow> t | None \<Rightarrow> rc_clock demo_call), rev_persisted = 1000\<rparr> =
     demo_event 1 ''turn.output''" by (simp add: demo_event_def)
  have none: "\<not> has_event demo_rid 1 demo_running" by (simp add: has_event_iff)
  have "by_key rn_id demo_rid (runs demo_logged) \<noteq> None"
    by (simp add: demo_logged_def apply_event_def add_run_event_def)
  then obtain r where r: "by_key rn_id demo_rid (runs demo_logged) = Some r" by blast
  have "append_body demo_pg 1000 (case parse_rfc3339 [] of Some t \<Rightarrow> t | None \<Rightarrow> rc_clock demo_call) demo_rid 1 ''turn.output'' JNull no_faults
      (Suc 0, demo_running) = Inr (True, 4, demo_logged)"
    using demo_logged_schema r none
    by (simp add: append_body_def insert_run_event_def ev demo_pg_def st demo_logged_def [symmetric])
      (simp add: demo_event_def)
  then show ?thesis
    using r by (simp add: AppendAgentEvent_def GetRun_def pool_query_def run_by_id_def)
qed

theorem append_event_idempotent_witness:
  "\<exists>item. AppendAgentEvent demo_pg demo_call demo_rid 1 ''turn.output'' JNull [] demo_running = (Inr item, demo_logged)
     \<and> snd (AppendAgentEvent demo_pg demo_call demo_rid 1 ''turn.completed'' JNull [] demo_logged) = demo_logged"
proof -
  obtain item where first: "AppendAgentEvent demo_pg demo_call demo_rid 1 ''turn.output'' JNull [] demo_running = (Inr item, demo_logged)"
    using demo_append by blast
  obtain res db3 where again: "AppendAgentEvent demo_pg demo_call demo_rid 1 ''turn.completed'' JNull [] demo_logged = (res, db3)"
    by (meson surj_pair)
  have "db3 = demo_logged"
    using append_event_idempotent [OF demo_running_reachable quiet_calm [OF demo_quiet] quiet_calm [OF demo_quiet] first _ again] by simp
  with first again show ?thesis by simp
qed

end
