(* ===== verification/Runtime_Outbox.thy ===== *)
theory Runtime_Outbox
  imports Runtime_Properties
begin

section \<open>The command outbox and the state of runs\<close>

text \<open>
  The commands the agent must get: one per run, cancellation and synchronisation job, claimed by one
  worker at a time; cancellation; and what an agent event does to its run.
\<close>

subsection \<open>Exactly one command\<close>

definition commands_for :: "string \<Rightarrow> string \<Rightarrow> rt_db \<Rightarrow> command_row list" where
  "commands_for ty res db = filter (\<lambda>c. out_type c = ty \<and> out_resource c = res) (command_outbox db)"

lemma one_command:
  assumes "rt_schema db" "(ty, res) \<in> issued db"
  shows "length (commands_for ty res db) = 1"
proof -
  obtain c where c: "c \<in> set (command_outbox db)" "out_type c = ty" "out_resource c = res"
    using assms(2) by (auto simp: issued_def)
  have d: "distinct (map (\<lambda>c. (out_type c, out_resource c)) (command_outbox db))"
    using assms(1) by (simp add: rt_schema_def outbox_ok_def)
  have "distinct (command_outbox db)" using d by (simp add: distinct_map)
  then have "distinct (commands_for ty res db)" by (simp add: commands_for_def)
  moreover have "set (commands_for ty res db) = {c}"
  proof
    show "set (commands_for ty res db) \<subseteq> {c}"
    proof
      fix q assume "q \<in> set (commands_for ty res db)"
      then have "q \<in> set (command_outbox db)" "(out_type q, out_resource q) = (out_type c, out_resource c)"
        using c(2,3) by (simp_all add: commands_for_def)
      then show "q \<in> {c}" using unique_row [OF d _ c(1)] by simp
    qed
  qed (use c in \<open>simp add: commands_for_def\<close>)
  ultimately show ?thesis using distinct_card [of "commands_for ty res db"] by simp
qed

lemma needed_start: "r \<in> set (runs db) \<Longrightarrow> rn_key r \<noteq> None \<Longrightarrow> (''run.start'', rn_id r) \<in> needed db"
  unfolding needed_def by (intro UnI1 imageI) simp

lemma needed_cancel: "r \<in> set (runs db) \<Longrightarrow> rn_cancel r \<noteq> None \<Longrightarrow> (''run.cancel'', rn_id r) \<in> needed db"
  unfolding needed_def by (rule UnI1, rule UnI2) (intro imageI, simp)

lemma needed_job: "j \<in> set (sync_jobs db) \<Longrightarrow> (''bootstrap.start'', job_id j) \<in> needed db"
  unfolding needed_def by (intro UnI2 imageI) simp

text \<open>
  Property C7. In every reachable state, after any interleaving of calls with any lost round trips,
  every run a client created has exactly one start command in the outbox, every run whose cancellation
  was requested exactly one cancel command, every synchronisation job exactly one bootstrap
  command, and every command is about a run or job that exists.
\<close>

theorem outbox_exactly_once:
  assumes "rt_steps True pg empty_db db"
  shows "(\<forall>r \<in> set (runs db). rn_key r \<noteq> None \<longrightarrow> length (commands_for ''run.start'' (rn_id r) db) = 1)
    \<and> (\<forall>r \<in> set (runs db). rn_cancel r \<noteq> None \<longrightarrow> length (commands_for ''run.cancel'' (rn_id r) db) = 1)
    \<and> (\<forall>j \<in> set (sync_jobs db). length (commands_for ''bootstrap.start'' (job_id j) db) = 1)
    \<and> (\<forall>c \<in> set (command_outbox db).
         if out_type c = ''bootstrap.start'' then out_resource c \<in> job_id ` set (sync_jobs db)
         else out_resource c \<in> rn_id ` set (runs db))"
proof -
  have inv: "rt_schema db" "needed db \<subseteq> issued db" "issued db \<subseteq> subjects db"
    using reachable_inv [OF assms] by (auto simp: rt_inv_def outbox_inv_def)
  note one = one_command [OF inv(1) subsetD [OF inv(2)]]
  have "if out_type c = ''bootstrap.start'' then out_resource c \<in> job_id ` set (sync_jobs db)
         else out_resource c \<in> rn_id ` set (runs db)" if "c \<in> set (command_outbox db)" for c
  proof -
    have "(out_type c, out_resource c) \<in> subjects db" using inv(3) that by (auto simp: issued_def)
    then show ?thesis unfolding subjects_def by auto
  qed
  then show ?thesis using one [OF needed_start] one [OF needed_cancel] one [OF needed_job] by blast
qed

theorem outbox_exactly_once_witness:
  "length (commands_for ''run.start'' demo_rid demo_running) = 1"
proof -
  have "rn_key demo_run \<noteq> None" by (simp add: demo_run_def queued_run_def)
  then show ?thesis using outbox_exactly_once [OF demo_running_reachable [of True]] by auto
qed

text \<open>
  In every reachable state \<^verbatim>\<open>persisted_through_sequence\<close> of a run is the highest number
  of its stored events (0 when it has none), and a run with a terminal status has a final event,
  which is stored.
\<close>

theorem run_log_invariant:
  assumes "rt_steps True pg empty_db db" "r \<in> set (runs db)"
  shows "rn_persisted r = Max (insert 0 (rev_seq ` {e \<in> set (run_events db). rev_run e = rn_id r}))
    \<and> (isTerminal (rn_status r) \<longrightarrow> (\<exists>n. rn_final r = Some n \<and> has_event (rn_id r) n db))"
proof -
  let ?S = "insert 0 (rev_seq ` {e \<in> set (run_events db). rev_run e = rn_id r})"
  have inv: "rt_inv db" using reachable_inv [OF assms(1)] .
  have ok: "log_ok db r" using inv assms(2) by (simp add: rt_inv_def log_inv_def)
  have nonneg: "0 \<le> rn_persisted r" using rt_inv_schema [OF inv] assms(2) by (simp add: rt_schema_def runs_ok_def)
  have "rn_persisted r \<in> ?S"
  proof (cases "rn_persisted r = 0")
    case False
    then obtain e where "e \<in> set (run_events db)" "rev_run e = rn_id r" "rev_seq e = rn_persisted r"
      using ok unfolding log_ok_def has_event_iff by blast
    then show ?thesis by (metis (mono_tags, lifting) CollectI image_eqI insertCI)
  qed simp
  moreover have "\<forall>n \<in> ?S. n \<le> rn_persisted r" using ok nonneg by (auto simp: log_ok_def)
  ultimately have "Max ?S = rn_persisted r" by (intro Max_eqI) auto
  then show ?thesis using ok by (auto simp: log_ok_def)
qed

theorem run_log_invariant_witness:
  "rn_persisted demo_run = Max (insert 0 (rev_seq ` {e \<in> set (run_events demo_running). rev_run e = rn_id demo_run}))"
  using run_log_invariant [OF demo_running_reachable [of True], of demo_run] by simp

subsection \<open>Claims\<close>

text \<open>The commands numbered in \<open>D\<close> are claimed until 15 seconds after \<open>now\<close>.\<close>

definition held :: "time \<Rightarrow> string set \<Rightarrow> rt_db \<Rightarrow> bool" where
  "held now D db \<longleftrightarrow> (\<forall>c \<in> set (command_outbox db). out_id c \<in> D \<longrightarrow>
     out_status c = ''claimed'' \<and> out_expires c = Some (now + 15 * second))"

lemma held_claim:
  "tx_hoare (held now D) (tx_change (claim_command now w cid)) (\<lambda>_. held now (insert cid D))"
  by (rule tx_hoare_change) (auto simp: held_def claim_command_def elim!: in_sql_updateE)

lemma held_dispatch: "tx_hoare (held now D) (tx_change (dispatch_run now' rid)) (\<lambda>_. held now D)"
  by (rule tx_hoare_change) (simp add: held_def dispatch_run_def)

lemma held_each:
  "tx_hoare (held now D) (claim_each now w cs) (\<lambda>_. held now (D \<union> command_ID ` set cs))"
proof (induction cs arbitrary: D)
  case (Cons c cs)
  have "insert (command_ID c) D \<union> command_ID ` set cs = D \<union> command_ID ` set (c # cs)" by auto
  with Cons [of "insert (command_ID c) D"] show ?case
    by (simp only: claim_each.simps)
      (rule tx_hoare_bind [OF held_claim], rule tx_hoare_bind [where R = "\<lambda>_. held now (insert (command_ID c) D)"],
        auto intro: held_dispatch keep_return)
qed (simp add: keep_return)

lemma claim_body_held:
  "tx_hoare (\<lambda>_. True) (claim_body now locked w limit) (\<lambda>cs. held now (command_ID ` set cs))"
  unfolding claim_body_def
  by (rule tx_hoare_bind [where R = "\<lambda>_. held now {}"], rule tx_hoare_rt_query, simp add: held_def,
      rule tx_hoare_bind [OF held_each], rule tx_hoare_return, simp)

lemma claim_body_due:
  "claim_body now locked w limit flt (m, db) = Inr (cs, k, db') \<Longrightarrow> cs = due_commands now locked limit db"
  by (auto simp: claim_body_def tx_rt_query_def tx_query_def tx_stmt_def split: if_splits sum.splits)

lemma ClaimCommands_due:
  assumes "ClaimCommands rc locked w limit db = (Inr cs, db')"
  shows "cs = due_commands (rc_now rc 0) locked (nat (if limit < 1 then 16 else limit)) (rc_itf rc 0 db)"
  using run_tx_InrD [OF assms [unfolded ClaimCommands_def Let_def]] claim_body_due by blast

lemma due_command:
  assumes "x \<in> set (due_commands now locked limit db)"
  obtains c where "c \<in> set (command_outbox db)" "claimable now c" "x = command_of c"
  using assms by (auto simp: due_commands_def dest!: in_set_takeD)

text \<open>Without lost round trips a claim succeeds.\<close>

lemma schema_claim: "rt_schema db \<Longrightarrow> rt_schema (claim_command now w cid db)"
proof -
  assume S: "rt_schema db"
  then have "outbox_ok (claim_command now w cid db)"
    unfolding rt_schema_def outbox_ok_def claim_command_def
    by (auto simp: command_statuses_def elim!: in_sql_updateE)
  with S show ?thesis
    by (simp add: rt_schema_def projects_ok_def sessions_ok_def runs_ok_def session_events_ok_def run_events_ok_def
        sync_jobs_ok_def claim_command_def)
qed

lemma runs_ok_update:
  assumes "runs_ok db" "\<And>r. rn_id (f r) = rn_id r" "\<And>r. rn_turn (f r) = rn_turn r"
    and "\<And>r. rn_session (f r) = rn_session r" "\<And>r. rn_key (f r) = rn_key r" "\<And>r. rn_hash (f r) = rn_hash r"
    and "\<And>r. rn_persisted (f r) = rn_persisted r" "\<And>r. rn_final (f r) = rn_final r"
    and "\<And>r. rn_version (f r) = rn_version r + 1" "\<And>r. rn_status r \<in> set run_statuses \<Longrightarrow> rn_status (f r) \<in> set run_statuses"
  shows "runs_ok (db\<lparr>runs := sql_update P f (runs db)\<rparr>)"
proof -
  have "rn_scoped_key (f r) = rn_scoped_key r" for r by (simp add: rn_scoped_key_def assms)
  moreover have "rn_session q \<in> ses_id ` set (sessions db) \<and> rn_status q \<in> set run_statuses
          \<and> 0 < rn_version q \<and> 0 \<le> rn_persisted q \<and> (\<forall>n. rn_final q = Some n \<longrightarrow> 0 < n)
          \<and> (rn_key q = None \<longleftrightarrow> rn_hash q = None)" if "q \<in> set (sql_update P f (runs db))" for q
    using that by (rule in_sql_updateE) (use assms in \<open>auto simp: runs_ok_def\<close>)
  ultimately show ?thesis using assms(1,2,3) by (simp add: runs_ok_def)
qed

lemma schema_run_update:
  assumes "rt_schema db" "runs_ok (db\<lparr>runs := sql_update P f (runs db)\<rparr>)" "\<And>r. rn_id (f r) = rn_id r"
  shows "rt_schema (db\<lparr>runs := sql_update P f (runs db)\<rparr>)"
  using assms
  by (simp add: rt_schema_def projects_ok_def sessions_ok_def session_events_ok_def run_events_ok_def outbox_ok_def sync_jobs_ok_def)

lemma schema_dispatch: "rt_schema db \<Longrightarrow> rt_schema (dispatch_run now rid db)"
  unfolding dispatch_run_def
  by (rule schema_run_update, assumption, rule runs_ok_update) (simp_all add: rt_schema_def run_statuses_def)

lemma schema_mark_cancel: "rt_schema db \<Longrightarrow> rt_schema (mark_cancel t rid db)"
  unfolding mark_cancel_def
  by (rule schema_run_update, assumption, rule runs_ok_update) (simp_all add: rt_schema_def)

lemma claim_each_runs:
  "rt_schema db \<Longrightarrow> \<exists>k db'. claim_each now w cs no_faults (m, db) = Inr ((), k, db') \<and> rt_schema db'"
proof (induction cs arbitrary: db m)
  case (Cons c cs)
  have S: "rt_schema (claim_command now w (command_ID c) db)" using Cons.prems by (rule schema_claim)
  show ?case
  proof (cases "command_Type c = ''run.start''")
    case True
    then show ?thesis using S schema_dispatch [OF S] Cons.IH [OF schema_dispatch [OF S]] by (simp del: no_faults_apply)
  next
    case False
    then show ?thesis using S Cons.IH [OF S] by (simp del: no_faults_apply)
  qed
qed simp

lemma ClaimCommands_runs:
  assumes "rt_schema db" "quiet rc"
  shows "\<exists>db'. ClaimCommands rc locked w limit db =
      (Inr (due_commands (rc_now rc 0) locked (nat (if limit < 1 then 16 else limit)) db), db') \<and> rt_schema db'"
  using claim_each_runs [OF assms(1)] assms(2)
  by (auto simp: ClaimCommands_def claim_body_def Let_def split: sum.splits) (metis sum.inject(2) prod.inject sum.distinct(1))+

text \<open>
  Between two claims: the commands \<open>D\<close> stay delivered, or claimed until \<open>T\<close> at least, as long as none of them is
  released. Nobody deletes a command, and a second row with the identifier of one is refused.
\<close>

definition taken :: "time \<Rightarrow> string set \<Rightarrow> rt_db \<Rightarrow> bool" where
  "taken T D db \<longleftrightarrow> D \<subseteq> out_id ` set (command_outbox db)
     \<and> (\<forall>c \<in> set (command_outbox db). out_id c \<in> D \<longrightarrow>
          out_status c = ''delivered'' \<or> out_status c = ''claimed'' \<and> (\<exists>t. out_expires c = Some t \<and> T \<le> t))"

lemma taken_frame:
  assumes "\<And>db. command_outbox (f db) = command_outbox db"
  shows "tx_hoare (taken T D) (tx_change f) (\<lambda>_. taken T D)"
  by (rule tx_hoare_change) (simp add: taken_def assms)

lemma taken_update:
  assumes "taken T D db" "\<And>c. out_id (f c) = out_id c"
    and "\<And>c. c \<in> set (command_outbox db) \<Longrightarrow> P c \<Longrightarrow> out_id c \<in> D \<Longrightarrow>
      out_status (f c) = ''delivered'' \<or> out_status (f c) = ''claimed'' \<and> (\<exists>t. out_expires (f c) = Some t \<and> T \<le> t)"
  shows "taken T D (db\<lparr>command_outbox := sql_update P f (command_outbox db)\<rparr>)"
proof -
  let ?t = "command_outbox db"
  have "map out_id (sql_update P f ?t) = map out_id ?t" by (simp add: sql_update_def assms(2))
  then have "out_id ` set (sql_update P f ?t) = out_id ` set ?t" by (metis list.set_map)
  moreover have "out_status c = ''delivered'' \<or> out_status c = ''claimed'' \<and> (\<exists>t. out_expires c = Some t \<and> T \<le> t)"
    if c: "c \<in> set (sql_update P f ?t)" "out_id c \<in> D" for c
    using c(1)
  proof (rule in_sql_updateE)
    fix r assume "r \<in> set ?t" "P r" "c = f r"
    then show ?thesis using assms(3) [of r] c(2) assms(2) by simp
  next
    assume "c \<in> set ?t"
    then show ?thesis using assms(1) c(2) by (simp add: taken_def)
  qed
  ultimately show ?thesis using assms(1) by (simp add: taken_def)
qed

lemma taken_add:
  "tx_hoare (taken T D) (tx_change (add_command c)) (\<lambda>_. taken T D)"
  "tx_hoare (taken T D) (tx_change (add_command_once c)) (\<lambda>_. taken T D)"
proof -
  have one: "taken T D (add_command c db)" if "taken T D db" "rt_schema (add_command c db)" for db
  proof -
    have "out_id c \<notin> out_id ` set (command_outbox db)"
      using that(2) by (auto simp: rt_schema_def outbox_ok_def add_command_def)
    then show ?thesis using that(1) by (auto simp: taken_def add_command_def)
  qed
  show "tx_hoare (taken T D) (tx_change (add_command c)) (\<lambda>_. taken T D)"
    by (rule tx_hoare_change) (rule one)
  show "tx_hoare (taken T D) (tx_change (add_command_once c)) (\<lambda>_. taken T D)"
    by (rule tx_hoare_change) (use one in \<open>auto simp: add_command_once_def\<close>)
qed

named_theorems taken_keep \<open>statements that release no command\<close>

lemma taken_statements [taken_keep]:
  "tx_hoare (taken T D) (tx_change (upsert_project now pid name)) (\<lambda>_. taken T D)"
  "tx_hoare (taken T D) (tx_change (add_run r)) (\<lambda>_. taken T D)"
  "tx_hoare (taken T D) (tx_change (add_session_event pg now sid n ty p)) (\<lambda>_. taken T D)"
  "tx_hoare (taken T D) (tx_change (mark_cancel t rid)) (\<lambda>_. taken T D)"
  "tx_hoare (taken T D) (tx_change (dispatch_run now rid)) (\<lambda>_. taken T D)"
  "tx_hoare (taken T D) (tx_change (bind_thread now rid th)) (\<lambda>_. taken T D)"
  "tx_hoare (taken T D) (tx_change (apply_event now rid n ty p)) (\<lambda>_. taken T D)"
  "tx_hoare (taken T D) (tx_change (add_job j)) (\<lambda>_. taken T D)"
  "tx_hoare (taken T D) (tx_change (import_project now snap bp)) (\<lambda>_. taken T D)"
  "tx_hoare (taken T D) (tx_change (insert_imported_session now v)) (\<lambda>_. taken T D)"
  "tx_hoare (taken T D) (tx_change (refresh_session snap sid v)) (\<lambda>_. taken T D)"
  "tx_hoare (taken T D) (tx_change (overwrite_run now sid st br rid)) (\<lambda>_. taken T D)"
  "tx_hoare (taken T D) (tx_change (delete_events rid)) (\<lambda>_. taken T D)"
  "tx_hoare (taken T D) (tx_change (add_run_event ev)) (\<lambda>_. taken T D)"
  "tx_hoare (taken T D) (tx_change (advance_job now b k ns np)) (\<lambda>_. taken T D)"
  by (rule taken_frame; simp add: statement_defs)+

lemma taken_others [taken_keep]:
  "tx_hoare (taken T D) (tx_counted (archive_sessions now jid snap) count) (\<lambda>_. taken T D)"
  "tx_hoare (taken T D) (tx_counted (archive_projects now jid snap) count') (\<lambda>_. taken T D)"
  "tx_hoare (taken T D) (next_sequence now sid) (\<lambda>_. taken T D)"
  "tx_hoare (taken T D) (insert_run_event ev) (\<lambda>_. taken T D)"
  "tx_hoare (taken T D) (tx_change (deliver_bootstrap now b)) (\<lambda>_. taken T D)"
proof -
  show "tx_hoare (taken T D) (tx_counted (archive_sessions now jid snap) count) (\<lambda>_. taken T D)"
    "tx_hoare (taken T D) (tx_counted (archive_projects now jid snap) count') (\<lambda>_. taken T D)"
    by (rule keep_counted; simp add: taken_def archive_sessions_def archive_projects_def)+
  show "tx_hoare (taken T D) (next_sequence now sid) (\<lambda>_. taken T D)"
    unfolding next_sequence_def by (intro keep tx_hoare_change_ret) (simp add: taken_def bump_session_def)
  show "tx_hoare (taken T D) (insert_run_event ev) (\<lambda>_. taken T D)"
    unfolding insert_run_event_def by (rule tx_hoare_stmt) (auto simp: taken_def add_run_event_def split: if_splits)
  show "tx_hoare (taken T D) (tx_change (deliver_bootstrap now b)) (\<lambda>_. taken T D)"
    by (rule tx_hoare_change) (simp add: deliver_bootstrap_def taken_update)
qed

lemmas taken_rules = keep taken_keep taken_add

lemma taken_claim_each:
  assumes "\<And>c. c \<in> set cs \<Longrightarrow> command_ID c \<in> D \<Longrightarrow> T \<le> now + 15 * second"
  shows "tx_hoare (taken T D) (claim_each now w cs) (\<lambda>_. taken T D)"
  using assms
proof (induction cs)
  case (Cons c cs)
  have "tx_hoare (taken T D) (tx_change (claim_command now w (command_ID c))) (\<lambda>_. taken T D)"
    by (rule tx_hoare_change) (unfold claim_command_def, rule taken_update, use Cons.prems in auto)
  moreover have "tx_hoare (taken T D) (claim_each now w cs) (\<lambda>_. taken T D)"
    by (rule Cons.IH) (meson Cons.prems list.set_intros(2))
  ultimately show ?case by (simp only: claim_each.simps) (intro keep_bind taken_rules)
qed (simp add: keep_return)

lemma taken_claim: "tx_hoare (taken T D) (claim_body now locked w limit) (\<lambda>_. taken T D)"
  unfolding claim_body_def
proof (rule tx_hoare_bind [where R = "\<lambda>cs db. taken T D db \<and> cs = due_commands now locked limit db"], goal_cases)
  case 1
  show ?case by (rule tx_hoare_rt_query) simp
next
  case (2 cs)
  show ?case
  proof (cases "\<exists>db. taken T D db \<and> cs = due_commands now locked limit db")
    case True
    then obtain db where db: "taken T D db" "cs = due_commands now locked limit db" by blast
    have "T \<le> now + 15 * second" if x: "x \<in> set cs" "command_ID x \<in> D" for x
    proof -
      obtain c where c: "c \<in> set (command_outbox db)" "claimable now c" "x = command_of c"
        using due_command x(1) unfolding db(2) by blast
      then have "out_id c \<in> D" using x(2) by (simp add: command_of_def)
      then show ?thesis using c db(1) by (auto simp: taken_def claimable_def second_def)
    qed
    then have "tx_hoare (taken T D) (tx_bind (claim_each now w cs) (\<lambda>_. tx_return cs)) (\<lambda>_. taken T D)"
      by (intro keep_bind taken_claim_each keep_return)
    then show ?thesis by (rule tx_hoare_weaken) simp_all
  next
    case False
    then show ?thesis unfolding tx_hoare_def by blast
  qed
qed

lemma taken_bodies:
  "tx_hoare (taken T D) (upsert_each now ps) (\<lambda>_. taken T D)"
  "tx_hoare (taken T D) (create_run_body pg now rid cid sid prompt profile key hash) (\<lambda>_. taken T D)"
  "tx_hoare (taken T D) (cancel_body pg now clock cid rid) (\<lambda>_. taken T D)"
  "tx_hoare (taken T D) (append_body pg now t rid n ty p) (\<lambda>_. taken T D)"
  "tx_hoare (taken T D) (sync_body pg now jid cid key) (\<lambda>_. taken T D)"
proof -
  show "tx_hoare (taken T D) (upsert_each now ps) (\<lambda>_. taken T D)"
    by (induction ps) (simp_all only: upsert_each.simps, (intro taken_rules | assumption)+)
  show "tx_hoare (taken T D) (create_run_body pg now rid cid sid prompt profile key hash) (\<lambda>_. taken T D)"
    "tx_hoare (taken T D) (cancel_body pg now clock cid rid) (\<lambda>_. taken T D)"
    "tx_hoare (taken T D) (append_body pg now t rid n ty p) (\<lambda>_. taken T D)"
    "tx_hoare (taken T D) (sync_body pg now jid cid key) (\<lambda>_. taken T D)"
    unfolding create_run_body_def cancel_body_def append_body_def sync_body_def by (intro taken_rules)+
qed

lemma taken_import: "tx_hoare (taken T D) (batch_body pg now b) (\<lambda>_. taken T D)"
proof -
  have projects: "tx_hoare (taken T D) (import_projects now snap ps) (\<lambda>_. taken T D)" for snap ps
    by (induction ps) (simp_all only: import_projects.simps, (intro taken_rules | assumption)+)
  have session: "tx_hoare (taken T D) (import_session now snap v) (\<lambda>_. taken T D)" for snap v
    unfolding import_session_def by (intro taken_rules)
  have sessions: "tx_hoare (taken T D) (import_sessions now snap vs ids) (\<lambda>_. taken T D)" for snap vs ids
    by (induction vs arbitrary: ids) (simp_all only: import_sessions.simps, (intro taken_rules session | assumption)+)
  have events: "tx_hoare (taken T D) (insert_events pg now rid es) (\<lambda>_. taken T D)" for rid es
    by (induction es) (simp_all only: insert_events.simps, (intro taken_rules | assumption)+)
  have run: "tx_hoare (taken T D) (import_run pg now ids r) (\<lambda>_. taken T D)" for ids r
    unfolding import_run_def write_run_def by (intro events taken_rules)
  have runs: "tx_hoare (taken T D) (import_runs pg now ids rs) (\<lambda>_. taken T D)" for ids rs
    by (induction rs) (simp_all only: import_runs.simps, (intro taken_rules run | assumption)+)
  show ?thesis unfolding batch_body_def import_batch_def reconcile_def by (intro taken_rules projects sessions runs)
qed

text \<open>A step of the store, imports included, after which none of the commands \<open>D\<close> is pending: \<open>ReleaseCommand\<close> is what makes one so.\<close>

definition unreleased :: "pgsql \<Rightarrow> string set \<Rightarrow> rt_db \<Rightarrow> rt_db \<Rightarrow> bool" where
  "unreleased pg D db db' \<longleftrightarrow> rt_step True pg db db' \<and> (\<forall>c \<in> set (command_outbox db'). out_id c \<in> D \<longrightarrow> out_status c \<noteq> ''pending'')"

lemma step_taken_or_release:
  assumes "rt_step True pg db db'" "taken T D db"
  shows "taken T D db' \<or> (\<exists>w now cid code r. autocommit w (release_command now cid code) db = (r, db') \<and> cid \<in> D
    \<and> (\<exists>c \<in> set (command_outbox db'). out_id c = cid \<and> out_status c = ''pending''))"
  using assms
proof (induction rule: rt_step.induct)
  case (step_session w now sid pid title key hash db r db')
  have "command_outbox db' = command_outbox db"
    using autocommit_cases [OF step_session.hyps] by (auto simp: insert_session_def)
  then show ?case using step_session.prems by (simp add: taken_def)
next
  case (step_deliver w now cid db r db')
  have "taken T D (deliver_command now cid db)"
    unfolding deliver_command_def using step_deliver.prems by (rule taken_update) simp_all
  then show ?case using step_deliver autocommit_cases [OF step_deliver.hyps] by auto
next
  case (step_release w now cid code db r db')
  show ?case
  proof (cases "cid \<in> D \<and> db' = release_command now cid code db")
    case True
    then obtain c where "c \<in> set (command_outbox db)" "out_id c = cid" using step_release.prems by (auto simp: taken_def)
    then have "c\<lparr>out_status := ''pending'', out_error := Some code, out_next := now + second, out_claimed_by := None,
        out_expires := None\<rparr> \<in> set (command_outbox db')"
      using True by (force simp: release_command_def sql_update_def)
    then have "\<exists>c \<in> set (command_outbox db'). out_id c = cid \<and> out_status c = ''pending''"
      by (rule rev_bexI) (simp add: \<open>out_id c = cid\<close>)
    then show ?thesis using True step_release.hyps by blast
  next
    case False
    have "taken T D (release_command now cid code db)" if "cid \<notin> D"
      unfolding release_command_def using step_release.prems by (rule taken_update) (use that in auto)
    then show ?thesis using False step_release.prems autocommit_cases [OF step_release.hyps] by auto
  qed
next
  case step_upsert
  show ?case by (rule disjI1, rule keep_run_tx [OF taken_bodies(1) step_upsert(2,1)])
next
  case step_run
  show ?case by (rule disjI1, rule keep_run_tx [OF taken_bodies(2) step_run(2,1)])
next
  case step_cancel
  show ?case by (rule disjI1, rule keep_run_tx [OF taken_bodies(3) step_cancel(2,1)])
next
  case step_append
  show ?case by (rule disjI1, rule keep_run_tx [OF taken_bodies(4) step_append(2,1)])
next
  case step_sync
  show ?case by (rule disjI1, rule keep_run_tx [OF taken_bodies(5) step_sync(2,1)])
next
  case step_claim
  show ?case by (rule disjI1, rule keep_run_tx [OF taken_claim step_claim(2,1)])
next
  case step_import
  show ?case by (rule disjI1, rule keep_run_tx [OF taken_import step_import(4,3)])
qed

lemma unreleased_taken: "(unreleased pg D)\<^sup>*\<^sup>* db db' \<Longrightarrow> taken T D db \<Longrightarrow> taken T D db'"
proof (induction rule: rtranclp_induct)
  case (step db1 db2)
  then show ?case using step_taken_or_release [of pg db1 db2 T D] unfolding unreleased_def by blast
qed

lemma released_next:
  "c \<in> set (command_outbox (release_command now cid code db)) \<Longrightarrow> out_id c = cid \<Longrightarrow> out_next c = now + second"
  unfolding release_command_def by (simp, erule in_sql_updateE) simp_all

lemma claim_body_taken:
  assumes "run_tx err flt (claim_body now locked w limit) db = (Inr cs, db1)"
  shows "taken (now + 15 * second) (command_ID ` set cs) db1"
proof -
  have each: "tx_hoare (\<lambda>db. D \<subseteq> out_id ` set (command_outbox db)) (claim_each now w cs) (\<lambda>_ db. D \<subseteq> out_id ` set (command_outbox db))"
    for D cs
  proof (induction cs)
    case (Cons c cs)
    have ids: "map out_id (command_outbox (claim_command now w (command_ID c) db)) = map out_id (command_outbox db)" for db
      by (simp add: claim_command_def sql_update_def)
    have "out_id ` set (command_outbox (claim_command now w (command_ID c) db)) = out_id ` set (command_outbox db)" for db
      using ids [of db] by (metis list.set_map)
    then have "tx_hoare (\<lambda>db. D \<subseteq> out_id ` set (command_outbox db)) (tx_change (claim_command now w (command_ID c)))
        (\<lambda>_ db. D \<subseteq> out_id ` set (command_outbox db))" by (intro tx_hoare_change) simp
    moreover have "tx_hoare (\<lambda>db. D \<subseteq> out_id ` set (command_outbox db)) (tx_change (dispatch_run now rid))
        (\<lambda>_ db. D \<subseteq> out_id ` set (command_outbox db))" for rid
      by (rule tx_hoare_change) (simp add: dispatch_run_def)
    ultimately show ?case using Cons by (simp only: claim_each.simps) (intro keep | assumption)+
  qed (simp add: keep_return)
  have "tx_hoare (\<lambda>_. True) (claim_body now locked w limit) (\<lambda>cs db. command_ID ` set cs \<subseteq> out_id ` set (command_outbox db))"
    unfolding claim_body_def
  proof (rule tx_hoare_bind [where R = "\<lambda>cs db. command_ID ` set cs \<subseteq> out_id ` set (command_outbox db)"], goal_cases)
    case 1
    show ?case by (rule tx_hoare_rt_query) (auto simp: due_commands_def command_of_def dest!: in_set_takeD)
  next
    case (2 cs)
    show ?case by (rule tx_hoare_bind [OF each]) (rule tx_hoare_return, assumption)
  qed
  from run_tx_post [OF this _ assms] run_tx_post [OF claim_body_held _ assms] show ?thesis
    by (simp add: taken_def held_def)
qed

text \<open>
  Property C34. A claim hands out only commands that are due, at most as many as asked for (16 when no positive number is
  asked for), and each to one worker at a time. Whatever steps of the store follow, imports and the claims and deliveries of other
  workers included, a second claim at most 15 seconds after the first returns none of its commands, unless the command
  was released meanwhile. The only step that releases one is that of \<open>ReleaseCommand\<close>, and a released command is due one second
  later.
\<close>

theorem claims_exclusive:
  assumes "ClaimCommands rc locked worker limit db = (Inr cs, db1)"
    and "(unreleased pg (command_ID ` set cs))\<^sup>*\<^sup>* db1 (rc_itf rc' 0 db2)"
    and "ClaimCommands rc' locked' worker' limit' db2 = (Inr cs', db3)"
    and "rc_now rc' 0 \<le> rc_now rc 0 + 15 * second"
  shows "int (length cs) \<le> (if limit < 1 then 16 else limit)
    \<and> (\<forall>x \<in> set cs. \<exists>c \<in> set (command_outbox (rc_itf rc 0 db)). x = command_of c \<and> out_next c \<le> rc_now rc 0
         \<and> (out_status c = ''pending'' \<or> out_status c = ''claimed'' \<and> (\<exists>t < rc_now rc 0. out_expires c = Some t)))
    \<and> command_ID ` set cs \<inter> command_ID ` set cs' = {}
    \<and> (\<forall>db4 c. rt_step True pg (rc_itf rc' 0 db2) db4 \<and> c \<in> set (command_outbox db4) \<and> out_id c \<in> command_ID ` set cs
         \<and> out_status c = ''pending'' \<longrightarrow>
         (\<exists>w now cid code r. cid \<in> command_ID ` set cs \<and> autocommit w (release_command now cid code) (rc_itf rc' 0 db2) = (r, db4)
            \<and> (\<forall>c \<in> set (command_outbox db4). out_id c = cid \<longrightarrow> out_next c = now + second)))"
proof -
  let ?D = "command_ID ` set cs" and ?T = "rc_now rc 0 + 15 * second"
  note due = ClaimCommands_due [OF assms(1)]
  have t: "taken ?T ?D (rc_itf rc' 0 db2)"
    using unreleased_taken [OF assms(2)] claim_body_taken [OF assms(1) [unfolded ClaimCommands_def Let_def]] by simp
  have few: "int (length cs) \<le> (if limit < 1 then 16 else limit)" unfolding due by (auto simp: due_commands_def)
  have ready: "\<exists>c \<in> set (command_outbox (rc_itf rc 0 db)). x = command_of c \<and> out_next c \<le> rc_now rc 0
         \<and> (out_status c = ''pending'' \<or> out_status c = ''claimed'' \<and> (\<exists>t < rc_now rc 0. out_expires c = Some t))" if "x \<in> set cs" for x
  proof -
    obtain c where "c \<in> set (command_outbox (rc_itf rc 0 db))" "claimable (rc_now rc 0) c" "x = command_of c"
      using due_command \<open>x \<in> set cs\<close> unfolding due by blast
    then show ?thesis by (intro bexI [where x = c]) (auto simp: claimable_def split: option.splits)
  qed
  have "x \<notin> ?D" if x: "x \<in> command_ID ` set cs'" for x
  proof
    assume "x \<in> ?D"
    obtain y where y: "y \<in> set cs'" "x = command_ID y" using x by blast
    then obtain c where c: "c \<in> set (command_outbox (rc_itf rc' 0 db2))" "claimable (rc_now rc' 0) c" "y = command_of c"
      using due_command unfolding ClaimCommands_due [OF assms(3)] by blast
    then have "out_id c \<in> ?D" using y \<open>x \<in> ?D\<close> by (simp add: command_of_def)
    then show False using t c assms(4) by (auto simp: taken_def claimable_def)
  qed
  then have apart: "?D \<inter> command_ID ` set cs' = {}" by blast
  have released: "\<exists>w now cid code r. cid \<in> ?D \<and> autocommit w (release_command now cid code) (rc_itf rc' 0 db2) = (r, db4)
      \<and> (\<forall>c \<in> set (command_outbox db4). out_id c = cid \<longrightarrow> out_next c = now + second)"
    if s: "rt_step True pg (rc_itf rc' 0 db2) db4" "c \<in> set (command_outbox db4)" "out_id c \<in> ?D" "out_status c = ''pending''" for db4 c
  proof -
    have "\<not> taken ?T ?D db4" using s(2-4) by (auto simp: taken_def)
    then obtain w now cid code r where rel: "autocommit w (release_command now cid code) (rc_itf rc' 0 db2) = (r, db4)" "cid \<in> ?D"
      using step_taken_or_release [OF s(1) t] by blast
    have "db4 \<noteq> rc_itf rc' 0 db2" using t \<open>\<not> taken ?T ?D db4\<close> by blast
    then have "db4 = release_command now cid code (rc_itf rc' 0 db2)" using autocommit_cases [OF rel(1)] by auto
    then have "\<forall>c \<in> set (command_outbox db4). out_id c = cid \<longrightarrow> out_next c = now + second"
      using released_next by simp
    then show ?thesis using rel by blast
  qed
  show ?thesis
    by (intro conjI ballI allI impI, rule few, erule ready, rule apart, (elim conjE)?, rule released)
qed

theorem claims_exclusive_witness:
  "\<exists>cs db1 cs' db2. ClaimCommands demo_call (\<lambda>_. False) ''w'' 16 demo_running = (Inr cs, db1)
     \<and> ClaimCommands demo_call (\<lambda>_. False) ''v'' 16 db1 = (Inr cs', db2)
     \<and> length cs = 1 \<and> command_ID ` set cs \<inter> command_ID ` set cs' = {}"
proof -
  have S: "rt_schema demo_running" by (rule rt_inv_schema [OF reachable_inv [OF demo_running_reachable [of True]]])
  obtain db1 where one: "ClaimCommands demo_call (\<lambda>_. False) ''w'' 16 demo_running =
      (Inr (due_commands 1000 (\<lambda>_. False) 16 demo_running), db1)" "rt_schema db1"
    using ClaimCommands_runs [OF S demo_quiet, of "\<lambda>_. False" "''w''" 16] by auto
  obtain cs' db2 where two: "ClaimCommands demo_call (\<lambda>_. False) ''v'' 16 db1 = (Inr cs', db2)"
    using ClaimCommands_runs [OF one(2) demo_quiet] by blast
  have "length (due_commands 1000 (\<lambda>_. False) 16 demo_running) = 1"
    by (simp add: due_commands_def demo_running_def with_run_def Let_def add_command_def add_session_event_def
        bump_session_def add_run_def claimable_def new_command_def)
  moreover have "(unreleased demo_pg D)\<^sup>*\<^sup>* db1 (rc_itf demo_call 0 db1)" for D by simp
  ultimately show ?thesis
    using claims_exclusive [OF one(1) _ two] one(1) two by (simp add: second_def)
qed

subsection \<open>What an agent event does\<close>

text \<open>The three tables an event touches besides \<^verbatim>\<open>sessions\<close>.\<close>

definition shows_tables :: "run_row list \<Rightarrow> run_event_row list \<Rightarrow> session_event_row list \<Rightarrow> rt_db \<Rightarrow> bool" where
  "shows_tables rs es vs db \<longleftrightarrow> runs db = rs \<and> run_events db = es \<and> session_events db = vs"

definition event_row :: "pgsql \<Rightarrow> time \<Rightarrow> time \<Rightarrow> string \<Rightarrow> int \<Rightarrow> string \<Rightarrow> json \<Rightarrow> run_event_row" where
  "event_row pg now t rid n ty p = \<lparr>rev_run = rid, rev_seq = n, rev_type = ty, rev_payload = pg_jsonb pg p,
     rev_occurred = pg_time t, rev_persisted = now\<rparr>"

lemma shows_next: "tx_hoare (shows_tables rs es vs) (next_sequence now sid) (\<lambda>_. shows_tables rs es vs)"
  unfolding next_sequence_def
  by (intro keep tx_hoare_change_ret) (simp add: shows_tables_def bump_session_def)

definition announces :: "pgsql \<Rightarrow> time \<Rightarrow> string \<Rightarrow> string \<Rightarrow> string \<Rightarrow> session_event_row list \<Rightarrow> bool" where
  "announces pg now sid rid status vs \<longleftrightarrow>
     (if status = [] then vs = []
      else \<exists>m. vs = [\<lparr>sev_session = sid, sev_seq = m, sev_type = session_event_type status,
                sev_payload = pg_jsonb pg (run_status_payload sid rid status), sev_created = now\<rparr>])"

lemma append_body_effect:
  assumes new: "\<not> has_event rid n db" and r: "by_key rn_id rid (runs db) = Some r"
  shows "tx_hoare (\<lambda>x. x = db) (append_body pg now t rid n ty p) (\<lambda>_ x. \<exists>vs.
     shows_tables (sql_update (\<lambda>q. rn_id q = rid) (event_on_run now n ty p) (runs db))
       (run_events db @ [event_row pg now t rid n ty p]) (session_events db @ vs) x
     \<and> announces pg now (rn_session r) rid (fst (statusForEvent ty)) vs)"
proof -
  let ?rs = "sql_update (\<lambda>q. rn_id q = rid) (event_on_run now n ty p) (runs db)"
  let ?es = "run_events db @ [event_row pg now t rid n ty p]" and ?vs = "session_events db"
  let ?st = "fst (statusForEvent ty)"
  have ins: "tx_hoare (\<lambda>x. x = db) (insert_run_event (event_row pg now t rid n ty p))
      (\<lambda>k x. k \<noteq> 0 \<and> shows_tables (runs db) ?es ?vs x)"
    unfolding insert_run_event_def
    by (rule tx_hoare_stmt) (use new in \<open>auto simp: event_row_def add_run_event_def shows_tables_def split: if_splits\<close>)
  have bound: "tx_hoare (\<lambda>x. k \<noteq> 0 \<and> shows_tables (runs db) ?es ?vs x)
      (if ty = ''turn.started'' then tx_change (bind_thread now rid (fst (started_ids p))) else tx_return ())
      (\<lambda>_. shows_tables (runs db) ?es ?vs)" for k :: nat
    by (auto intro!: tx_rules simp: shows_tables_def bind_thread_def)
  have applied: "tx_hoare (shows_tables (runs db) ?es ?vs) (tx_change (apply_event now rid n ty p)) (\<lambda>_. shows_tables ?rs ?es ?vs)"
    by (rule tx_hoare_change) (simp add: shows_tables_def apply_event_def)
  have sess: "tx_hoare (shows_tables ?rs ?es ?vs) (tx_one ErrDatabase (\<lambda>db. map_option rn_session (by_key rn_id rid (runs db))))
      (\<lambda>sid x. sid = rn_session r \<and> shows_tables ?rs ?es ?vs x)"
    by (rule tx_hoare_one) (use r in \<open>auto simp: shows_tables_def by_key_sql_update\<close>)
  have told: "tx_hoare (\<lambda>x. sid = rn_session r \<and> shows_tables ?rs ?es ?vs x)
      (if ?st \<noteq> [] then tx_bind (next_sequence now sid) (\<lambda>m.
          tx_change (add_session_event pg now sid m (session_event_type ?st) (run_status_payload sid rid ?st)))
       else tx_return ())
      (\<lambda>_ x. \<exists>vs. shows_tables ?rs ?es (?vs @ vs) x \<and> announces pg now (rn_session r) rid ?st vs)" for sid
  proof (cases "sid = rn_session r")
    case True
    have yes: "tx_hoare (shows_tables ?rs ?es ?vs) (tx_bind (next_sequence now sid) (\<lambda>m.
          tx_change (add_session_event pg now sid m (session_event_type ?st) (run_status_payload sid rid ?st))))
      (\<lambda>_ x. \<exists>vs. shows_tables ?rs ?es (?vs @ vs) x \<and> announces pg now (rn_session r) rid ?st vs)" if "?st \<noteq> []"
      by (rule tx_hoare_bind [OF shows_next], rule tx_hoare_change)
        (use that True in \<open>auto simp: shows_tables_def announces_def add_session_event_def\<close>)
    have no: "tx_hoare (shows_tables ?rs ?es ?vs) (tx_return ())
      (\<lambda>_ x. \<exists>vs. shows_tables ?rs ?es (?vs @ vs) x \<and> announces pg now (rn_session r) rid ?st vs)" if "?st = []"
      by (rule tx_hoare_return) (use that in \<open>auto simp: announces_def\<close>)
    show ?thesis
      by (rule tx_hoare_weaken [where P = "shows_tables ?rs ?es ?vs"], rule keep_if)
        (erule yes, rule no, simp_all)
  qed (simp add: tx_hoare_def)
  show ?thesis
    unfolding append_body_def event_row_def [symmetric]
  proof (rule tx_hoare_bind [OF ins], goal_cases)
    case (1 k)
    show ?case
      by (rule keep_if, simp add: tx_hoare_def, rule tx_hoare_bind [OF bound], rule tx_hoare_bind [OF applied],
          rule tx_hoare_bind [OF sess], rule tx_hoare_bind [OF told], rule tx_hoare_return, assumption)
  qed
qed

lemma AppendAgentEvent_new:
  assumes "AppendAgentEvent pg rc rid n ty p t db = (Inr item, db')" "alone rc"
    and "\<not> has_event rid n db" "by_key rn_id rid (runs db) = Some r"
  shows "item = scanRun (event_on_run (rc_now rc 0) n ty p r)
    \<and> runs db' = sql_update (\<lambda>q. rn_id q = rid) (event_on_run (rc_now rc 0) n ty p) (runs db)
    \<and> run_events db' = run_events db @
        [event_row pg (rc_now rc 0) (case parse_rfc3339 t of Some t \<Rightarrow> t | None \<Rightarrow> rc_clock rc) rid n ty p]
    \<and> (\<exists>vs. session_events db' = session_events db @ vs
         \<and> announces pg (rc_now rc 0) (rn_session r) rid (fst (statusForEvent ty)) vs)"
proof -
  let ?when = "case parse_rfc3339 t of Some t \<Rightarrow> t | None \<Rightarrow> rc_clock rc"
  obtain b db1 where tx: "run_tx ErrDatabase (rc_flt rc 0) (append_body pg (rc_now rc 0) ?when rid n ty p) db = (b, db1)"
    by (meson surj_pair)
  then obtain c where c: "b = Inr c" and get: "GetRun rc 1 rid False db1 = (Inr item, db')"
    using assms(1,2) by (cases b) (auto simp: AppendAgentEvent_def alone_def Let_def)
  have db': "db' = db1" "run_by_id rid db1 = Inr item"
    using get assms(2) by (auto simp: GetRun_def alone_def pool_query_def split: sum.splits if_splits)
  obtain vs where tables: "shows_tables (sql_update (\<lambda>q. rn_id q = rid) (event_on_run (rc_now rc 0) n ty p) (runs db))
       (run_events db @ [event_row pg (rc_now rc 0) ?when rid n ty p]) (session_events db @ vs) db1"
    "announces pg (rc_now rc 0) (rn_session r) rid (fst (statusForEvent ty)) vs"
    using run_tx_post [OF append_body_effect [OF assms(3,4)] refl tx [unfolded c]] by blast
  have rid: "rn_id r = rid" using by_key_SomeD [OF assms(4)] by simp
  have "by_key rn_id rid (runs db1) = Some (event_on_run (rc_now rc 0) n ty p r)"
    using tables(1) assms(4) rid by (simp add: shows_tables_def by_key_sql_update)
  then have "item = scanRun (event_on_run (rc_now rc 0) n ty p r)" using db'(2) by (simp add: run_by_id_def)
  then show ?thesis using tables db'(1) by (auto simp: shows_tables_def)
qed

text \<open>
  The events that move a run and the status each of them gives it, and what an event of any type does to the row of its run,
  stated apart from the code's own functions. A payload of \<^verbatim>\<open>turn.started\<close> names the turn.
\<close>

definition status_table :: "(string \<times> string) list" where
  "status_table =
     [(''run.accepted'', ''accepted''), (''turn.started'', ''running''), (''turn.completed'', ''completed''),
      (''turn.failed'', ''failed''), (''turn.interrupted'', ''canceled'')]"

definition after_event :: "time \<Rightarrow> int \<Rightarrow> string \<Rightarrow> string \<Rightarrow> run_row \<Rightarrow> run_row" where
  "after_event now n ty turn r = r\<lparr>
     rn_persisted := max (rn_persisted r) n, rn_updated := now,
     rn_status := (case map_of status_table ty of Some st \<Rightarrow> st | None \<Rightarrow> rn_status r),
     rn_version := (if ty \<in> fst ` set status_table then rn_version r + 1 else rn_version r),
     rn_turn := (if ty = ''turn.started'' then Some turn else rn_turn r),
     rn_started := (if ty = ''turn.started'' \<and> rn_started r = None then Some now else rn_started r),
     rn_final := (if ty \<in> {''turn.completed'', ''turn.failed'', ''turn.interrupted''} then Some n else rn_final r),
     rn_finished := (if ty \<in> {''turn.completed'', ''turn.failed'', ''turn.interrupted''} then Some now else rn_finished r)\<rparr>"

lemma event_on_run_table: "event_on_run now n ty p = after_event now n ty (snd (started_ids p))"
proof (rule ext)
  fix r
  show "event_on_run now n ty p r = after_event now n ty (snd (started_ids p)) r"
    by (cases "ty = ''run.accepted''"; cases "ty = ''turn.started''"; cases "ty = ''turn.completed''"; cases "ty = ''turn.failed''";
      cases "ty = ''turn.interrupted''")
      (simp_all add: event_on_run_def after_event_def status_table_def statusForEvent_def coalesce_def split: option.split)
qed

lemma statusForEvent_table: "fst (statusForEvent ty) = (case map_of status_table ty of Some st \<Rightarrow> st | None \<Rightarrow> [])"
  by (simp add: statusForEvent_def status_table_def)

lemma status_table_rows:
  assumes "map_of status_table ty = Some st"
  shows "st \<noteq> [] \<and> (st = ''completed'' \<longleftrightarrow> ty = ''turn.completed'')"
proof -
  have "st = (if ty = ''run.accepted'' then ''accepted'' else if ty = ''turn.started'' then ''running''
      else if ty = ''turn.completed'' then ''completed'' else if ty = ''turn.failed'' then ''failed'' else ''canceled'')"
    using assms by (simp add: status_table_def split: if_splits)
  then show ?thesis using assms by (cases "ty = ''run.accepted''"; cases "ty = ''turn.started''"; cases "ty = ''turn.completed''"; cases "ty = ''turn.failed''";
      cases "ty = ''turn.interrupted''") (simp_all add: status_table_def)
qed

text \<open>
  Property C32. What a new agent event does, when no other connection interferes. It is stored at the end of the log with its type, its
  payload and its time. Its run, and no other, is changed as the table above says: acceptance, start, completion, failure and
  interruption set the status accepted, running, completed, failed and canceled and raise the version; a start sets the turn of its
  payload and, the first time, the start time; the last three set the final sequence and the end time; every event raises
  the highest stored sequence. Each event of these five types, and of no other, adds one entry to the feed of the run's
  session, with the new status (which may be the old one). The answer is the run after the event.
\<close>

theorem append_event_effect:
  assumes "AppendAgentEvent pg rc rid n ty p t db = (Inr item, db')" "alone rc"
    and "\<not> has_event rid n db" "by_key rn_id rid (runs db) = Some r"
  shows "item = scanRun (after_event (rc_now rc 0) n ty (snd (started_ids p)) r)
    \<and> runs db' = map (\<lambda>q. if rn_id q = rid then after_event (rc_now rc 0) n ty (snd (started_ids p)) q else q) (runs db)
    \<and> (\<forall>thread turn. p = JObj [(''thread_id'', JStr thread), (''turn_id'', JStr turn)] \<longrightarrow> snd (started_ids p) = turn)
    \<and> run_events db' = run_events db @ [\<lparr>rev_run = rid, rev_seq = n, rev_type = ty, rev_payload = pg_jsonb pg p,
         rev_occurred = pg_time (case parse_rfc3339 t of Some t \<Rightarrow> t | None \<Rightarrow> rc_clock rc), rev_persisted = rc_now rc 0\<rparr>]
    \<and> (\<exists>m. session_events db' = session_events db @
         (case map_of status_table ty of
            None \<Rightarrow> []
          | Some st \<Rightarrow> [\<lparr>sev_session = rn_session r, sev_seq = m,
              sev_type = (if ty = ''turn.completed'' then ''run.completed'' else ''run.status.changed''),
              sev_payload = pg_jsonb pg (JObj [(''run_id'', JStr rid), (''schema_version'', JNum 1),
                (''session_id'', JStr (rn_session r)), (''status'', JStr st)]), sev_created = rc_now rc 0\<rparr>]))"
proof -
  have "fold_name ''thread_id'' = ''THREAD_ID''" "fold_name ''turn_id'' = ''TURN_ID''" by code_simp+
  then have ids: "snd (started_ids (JObj [(''thread_id'', JStr thread), (''turn_id'', JStr turn)])) = turn" for thread turn
    by (simp add: started_ids_def dec_struct_def started_schema_def dec_str_def equal_fold_def)
  note new = AppendAgentEvent_new [OF assms, unfolded event_on_run_table]
  obtain vs where vs: "session_events db' = session_events db @ vs"
    "announces pg (rc_now rc 0) (rn_session r) rid (fst (statusForEvent ty)) vs" using new by blast
  have "\<exists>m. session_events db' = session_events db @
         (case map_of status_table ty of
            None \<Rightarrow> []
          | Some st \<Rightarrow> [\<lparr>sev_session = rn_session r, sev_seq = m,
              sev_type = (if ty = ''turn.completed'' then ''run.completed'' else ''run.status.changed''),
              sev_payload = pg_jsonb pg (JObj [(''run_id'', JStr rid), (''schema_version'', JNum 1),
                (''session_id'', JStr (rn_session r)), (''status'', JStr st)]), sev_created = rc_now rc 0\<rparr>])"
  proof (cases "map_of status_table ty")
    case None
    then show ?thesis using vs by (simp add: announces_def statusForEvent_table)
  next
    case (Some st)
    then show ?thesis using vs status_table_rows [OF Some]
      by (auto simp: announces_def statusForEvent_table session_event_type_def run_status_payload_def)
  qed
  then show ?thesis using new ids by (simp add: sql_update_def event_row_def)
qed

theorem append_event_effect_witness:
  "\<exists>item. AppendAgentEvent demo_pg demo_call demo_rid 1 ''turn.output'' JNull [] demo_running = (Inr item, demo_logged)
     \<and> run_Status item = ''queued'' \<and> session_events demo_logged = session_events demo_running"
proof -
  obtain item where "AppendAgentEvent demo_pg demo_call demo_rid 1 ''turn.output'' JNull [] demo_running = (Inr item, demo_logged)"
    using demo_append by blast
  moreover have "alone demo_call" by (simp add: alone_def demo_call_def)
  moreover have "map_of status_table ''turn.output'' = None" by (simp add: status_table_def)
  moreover have "run_Status (scanRun (after_event 1000 1 ''turn.output'' turn demo_run)) = ''queued''" for turn
    by (simp add: scanRun_def after_event_def status_table_def demo_run_def queued_run_def)
  ultimately show ?thesis
    using append_event_effect [of demo_pg demo_call demo_rid 1 "''turn.output''" JNull "[]" demo_running item demo_logged demo_run]
    by (simp add: has_event_iff)
qed


text \<open>
  A consequence that the sources do not intend: the status follows the last event that arrives,
  so a \<^verbatim>\<open>turn.started\<close> that arrives after the run has ended opens the run again while its
  final sequence stays.
\<close>

lemma late_start_reopens:
  assumes "AppendAgentEvent pg rc rid n ''turn.started'' p t db = (Inr item, db')" "alone rc"
    and "\<not> has_event rid n db" "by_key rn_id rid (runs db) = Some r" "rn_status r = ''completed''"
  shows "run_Status item = ''running'' \<and> run_FinalSequence item = rn_final r"
  using AppendAgentEvent_new [OF assms(1-4)]
  by (simp add: scanRun_def event_on_run_def statusForEvent_def)

subsection \<open>Cancellation\<close>

lemma cancel_body_runs:
  assumes inv: "rt_inv db" and r: "by_key rn_id rid (runs db) = Some r" and cid: "cid \<notin> out_id ` set (command_outbox db)"
    and live: "rn_cancel r = None" "\<not> isTerminal (rn_status r)"
  shows "\<exists>k s. by_key ses_id (rn_session r) (sessions db) = Some s \<and>
     cancel_body pg now clock cid rid no_faults (m, db) = Inr (None, k,
       add_command_once (new_command pg now cid ''run.cancel'' rid
         (cancel_payload rid (or_empty (ses_thread s)) (or_empty (rn_turn r)))) (mark_cancel clock rid db))"
proof -
  have S: "rt_schema db" using inv by (rule rt_inv_schema)
  have "rn_session r \<in> ses_id ` set (sessions db)"
    using S by_key_SomeD [OF r] by (auto simp: rt_schema_def runs_ok_def)
  then obtain s where s: "by_key ses_id (rn_session r) (sessions db) = Some s"
    using by_key_None [of ses_id "rn_session r" "sessions db"] by auto
  let ?c = "new_command pg now cid ''run.cancel'' rid (cancel_payload rid (or_empty (ses_thread s)) (or_empty (rn_turn r)))"
  have S1: "rt_schema (mark_cancel clock rid db)" using S by (rule schema_mark_cancel)
  have outbox: "command_outbox (mark_cancel clock rid db) = command_outbox db" by (simp add: mark_cancel_def)
  have S2: "rt_schema (add_command_once ?c (mark_cancel clock rid db))"
  proof (cases "(''run.cancel'', rid) \<in> issued db")
    case True
    then obtain q where "q \<in> set (command_outbox db)" "out_type q = ''run.cancel''" "out_resource q = rid"
      by (auto simp: issued_def)
    then have "add_command_once ?c (mark_cancel clock rid db) = mark_cancel clock rid db"
      by (auto simp: add_command_once_def sql_exists_def list_ex_iff new_command_def outbox)
    with S1 show ?thesis by simp
  next
    case False
    then have "rt_schema (add_command ?c (mark_cancel clock rid db))"
      using S1 cid by (intro schema_add_command) (simp_all add: outbox issued_def command_types_def)
    with S1 show ?thesis by (simp add: add_command_once_def)
  qed
  show ?thesis using r s live S1 S2 by (simp add: cancel_body_def)
qed

text \<open>
  Property C38. A cancel request on a run that is completed, failed or canceled, or was canceled before, changes nothing and answers
  with the run as it is. On any other run it records the time of the request in that run only, raises its version, and puts
  one pending cancel command with the thread and the turn of the run into the outbox, unless there is already a cancel command
  for the run (an import can rewrite the row of a run that was canceled); nothing else changes, and the answer is
  the run with its status kept. The call is alone and loses no round trip.
\<close>

theorem request_cancel_effect:
  assumes "rt_steps True pg empty_db db" "quiet rc" "by_key rn_id rid (runs db) = Some r"
    and "newID ''cmd'' e = (cid, e1)" "cid \<notin> out_id ` set (command_outbox db)"
  shows "if rn_cancel r \<noteq> None \<or> rn_status r \<in> {''completed'', ''failed'', ''canceled''}
    then RequestCancel pg rc e rid db = (Inr (scanRun r), e1, db)
    else \<exists>s item. by_key ses_id (rn_session r) (sessions db) = Some s
      \<and> RequestCancel pg rc e rid db = (Inr item, e1,
          db\<lparr>runs := map (\<lambda>q. if rn_id q = rid then q\<lparr>rn_cancel := Some (pg_time (rc_clock rc)), rn_version := rn_version q + 1,
                 rn_updated := pg_time (rc_clock rc)\<rparr> else q) (runs db),
             command_outbox := command_outbox db @
               (if \<exists>c \<in> set (command_outbox db). out_type c = ''run.cancel'' \<and> out_resource c = rid then []
                else [\<lparr>out_id = cid, out_type = ''run.cancel'', out_resource = rid,
                  out_payload = pg_jsonb pg (JObj [(''run_id'', JStr rid),
                    (''thread_id'', JStr (case ses_thread s of Some t \<Rightarrow> t | None \<Rightarrow> [])),
                    (''turn_id'', JStr (case rn_turn r of Some t \<Rightarrow> t | None \<Rightarrow> []))]),
                  out_status = ''pending'', out_attempts = 0, out_next = rc_now rc 0, out_claimed_by = None, out_expires = None,
                  out_delivered = None, out_error = None, out_created = rc_now rc 0\<rparr>])\<rparr>)
      \<and> run_CancelRequestedAt item = Some (pg_time (rc_clock rc)) \<and> run_Status item = rn_status r"
proof (cases "rn_cancel r \<noteq> None \<or> isTerminal (rn_status r)")
  case True
  then show ?thesis using assms(2-4) by (auto simp: RequestCancel_def cancel_body_def isTerminal_def)
next
  case False
  then have live: "\<not> (rn_cancel r \<noteq> None \<or> rn_status r \<in> {''completed'', ''failed'', ''canceled''})" by (simp add: isTerminal_def)
  obtain k s where s: "by_key ses_id (rn_session r) (sessions db) = Some s"
    and run: "cancel_body pg (rc_now rc 0) (rc_clock rc) cid rid no_faults (Suc 0, db) = Inr (None, k,
       add_command_once (new_command pg (rc_now rc 0) cid ''run.cancel'' rid
         (cancel_payload rid (or_empty (ses_thread s)) (or_empty (rn_turn r)))) (mark_cancel (rc_clock rc) rid db))"
    using cancel_body_runs [OF reachable_inv [OF assms(1)] assms(3,5)] False by blast
  let ?db = "add_command_once (new_command pg (rc_now rc 0) cid ''run.cancel'' rid
         (cancel_payload rid (or_empty (ses_thread s)) (or_empty (rn_turn r)))) (mark_cancel (rc_clock rc) rid db)"
  have "by_key rn_id rid (runs ?db) = Some (r\<lparr>rn_cancel := Some (pg_time (rc_clock rc)),
      rn_version := rn_version r + 1, rn_updated := pg_time (rc_clock rc)\<rparr>)"
    using assms(3) by_key_SomeD [OF assms(3)]
    by (simp add: add_command_once_def add_command_def mark_cancel_def by_key_sql_update)
  then obtain item where item: "RequestCancel pg rc e rid db = (Inr item, e1, ?db)"
      "run_CancelRequestedAt item = Some (pg_time (rc_clock rc))" "run_Status item = rn_status r"
    using run False assms(2,4) by (simp add: RequestCancel_def GetRun_def pool_query_def run_by_id_def scanRun_def)
  have eq: "?db = db\<lparr>runs := map (\<lambda>q. if rn_id q = rid then q\<lparr>rn_cancel := Some (pg_time (rc_clock rc)),
         rn_version := rn_version q + 1, rn_updated := pg_time (rc_clock rc)\<rparr> else q) (runs db),
       command_outbox := command_outbox db @
         (if \<exists>c \<in> set (command_outbox db). out_type c = ''run.cancel'' \<and> out_resource c = rid then []
          else [\<lparr>out_id = cid, out_type = ''run.cancel'', out_resource = rid,
            out_payload = pg_jsonb pg (JObj [(''run_id'', JStr rid), (''thread_id'', JStr (case ses_thread s of Some t \<Rightarrow> t | None \<Rightarrow> [])),
              (''turn_id'', JStr (case rn_turn r of Some t \<Rightarrow> t | None \<Rightarrow> []))]),
            out_status = ''pending'', out_attempts = 0, out_next = rc_now rc 0, out_claimed_by = None, out_expires = None,
            out_delivered = None, out_error = None, out_created = rc_now rc 0\<rparr>])\<rparr>"
    by (cases "\<exists>c \<in> set (command_outbox db). out_type c = ''run.cancel'' \<and> out_resource c = rid")
      (simp_all add: add_command_once_def add_command_def mark_cancel_def new_command_def cancel_payload_def sql_update_def
        sql_exists_def list_ex_iff or_empty_def)
  show ?thesis unfolding if_not_P [OF live] using s item(1) [unfolded eq] item(2,3) by (intro exI conjI)
qed

theorem request_cancel_effect_witness:
  "\<exists>item e1 db. RequestCancel demo_pg demo_call (demo_zeros\<lparr>source := (\<lambda>_. 1)\<rparr>) demo_rid demo_running = (Inr item, e1, db)
     \<and> run_CancelRequestedAt item = Some (pg_time 1000)"
proof -
  obtain cid e1 where i: "newID ''cmd'' (demo_zeros\<lparr>source := (\<lambda>_. 1)\<rparr>) = (cid, e1)" by (meson surj_pair)
  have "hex_encode (replicate (Suc n) (1 :: byte)) \<noteq> hex_encode (replicate (Suc n) 0)" for n
    by (simp add: hex_encode_def hex_digit_def)
  from this [of 15] have "hex_encode (replicate 16 (1 :: byte)) \<noteq> demo_hex" by (simp add: demo_hex_def)
  moreover have "cid = ''cmd_'' @ hex_encode (replicate 16 1)"
    using i by (auto simp: newID_def rand_read_def demo_zeros_def map_replicate_const)
  ultimately have fresh: "cid \<notin> out_id ` set (command_outbox demo_running)"
    by (simp add: demo_running_def with_run_def Let_def add_command_def add_session_event_def
        bump_session_def add_run_def new_command_def)
  have "\<not> (rn_cancel demo_run \<noteq> None \<or> rn_status demo_run \<in> {''completed'', ''failed'', ''canceled''})"
    by (simp add: demo_run_def queued_run_def)
  moreover have "by_key rn_id demo_rid (runs demo_running) = Some demo_run" by simp
  note request_cancel_effect [OF demo_running_reachable [of True] demo_quiet this i fresh]
  ultimately obtain item db where "RequestCancel demo_pg demo_call (demo_zeros\<lparr>source := (\<lambda>_. 1)\<rparr>) demo_rid demo_running = (Inr item, e1, db)"
      "run_CancelRequestedAt item = Some (pg_time (rc_clock demo_call))"
    by (simp only: if_False) blast
  then show ?thesis by auto
qed

end
