(* ===== verification/Runtime_Sync.thy ===== *)
theory Runtime_Sync
  imports Runtime_Outbox
begin

section \<open>Bootstrap synchronisation is orderly\<close>

text \<open>
  One job at a time, batches in the order of their numbers and each applied once, and an import that
  never hides a session in which something is still going on.
\<close>

subsection \<open>Jobs\<close>

text \<open>
  Property C37. A request for a synchronisation starts a new job only when no job has its key and
  none is queued or running; otherwise it changes nothing and answers with the job that has the key
  or, failing that, with the active one.
\<close>

theorem sync_job_single:
  assumes "rt_steps True pg empty_db db" "alone rc"
    and "CreateSyncJob pg rc e key db = (Inr (job, created), e', db')"
  shows "if created then by_key job_key key (sync_jobs db) = None \<and> \<not> list_ex job_active (sync_jobs db)
           \<and> (\<exists>j. sync_jobs db' = sync_jobs db @ [j] \<and> job_key j = key \<and> job_active j \<and> job = sync_of j)
         else db' = db \<and> (case by_key job_key key (sync_jobs db) of
             Some j \<Rightarrow> job = sync_of j
           | None \<Rightarrow> \<exists>j \<in> set (sync_jobs db). job_active j \<and> job = sync_of j)"
proof -
  have S: "rt_schema db" using rt_inv_schema [OF reachable_inv [OF assms(1)]] .
  obtain jid e1 where i1: "newID ''sync'' e = (jid, e1)" by (meson surj_pair)
  obtain cid e2 where i2: "newID ''cmd'' e1 = (cid, e2)" by (meson surj_pair)
  obtain b db1 where tx: "run_tx ErrDatabase (rc_flt rc 0) (sync_body pg (rc_now rc 0) jid cid key) db = (b, db1)"
    by (meson surj_pair)
  then obtain c where c: "b = Inr c" using assms(2,3) i1 i2
    by (cases b) (auto simp: CreateSyncJob_def alone_def Let_def)
  obtain k where body: "sync_body pg (rc_now rc 0) jid cid key (rc_flt rc 0) (Suc 0, db) = Inr (c, k, db1)"
    using run_tx_InrD [OF tx [unfolded c]] by blast
  show ?thesis
  proof (cases c)
    case (Some j)
    then have res: "job = j" "\<not> created" "db' = db1"
      using assms(2,3) i1 i2 tx c by (auto simp: CreateSyncJob_def alone_def Let_def)
    have "db1 = db \<and> (case by_key job_key key (sync_jobs db) of
         Some q \<Rightarrow> j = sync_of q | None \<Rightarrow> \<exists>q \<in> set (sync_jobs db). job_active q \<and> j = sync_of q)"
      using body Some by (auto simp: sync_body_def tx_rt_query_def tx_query_def tx_stmt_def tx_change_def tx_change_ret_def
          find_Some_iff split: if_splits option.splits)
    with res show ?thesis by (cases "by_key job_key key (sync_jobs db)") simp_all
  next
    case None
    have body': "by_key job_key key (sync_jobs db) = None" "find job_active (sync_jobs db) = None"
      "sync_jobs db1 = sync_jobs db @ [new_job (rc_now rc 0) jid key]" "rt_schema db1"
      using body None by (auto simp: sync_body_def tx_rt_query_def tx_query_def tx_stmt_def tx_change_def tx_change_ret_def
          add_job_def add_command_def split: if_splits option.splits)
    have created: "created" and got: "GetSyncJob (rc_flt rc 1 0) jid db1 = Inr job" and db': "db' = db1"
      using assms(2,3) i1 i2 tx c None
      by (auto simp: CreateSyncJob_def alone_def Let_def split: sum.splits)
    have "by_key job_id jid (sync_jobs db1) = Some (new_job (rc_now rc 0) jid key)"
      using body'(3,4) by_key_Some_iff [of job_id "sync_jobs db1" jid "new_job (rc_now rc 0) jid key"]
      by (auto simp: rt_schema_def sync_jobs_ok_def new_job_def)
    then have "job = sync_of (new_job (rc_now rc 0) jid key)"
      using got by (auto simp: GetSyncJob_def pool_query_def split: if_splits)
    moreover have "\<not> list_ex job_active (sync_jobs db)"
      using body'(2) by (auto simp: find_None_iff list_ex_iff)
    ultimately show ?thesis using created body' db' by (auto simp: new_job_def job_active_def)
  qed
qed

definition demo_jid :: string where
  "demo_jid = ''sync_'' @ demo_hex"

definition demo_syncing :: rt_db where
  "demo_syncing = add_command (new_command demo_pg 1000 (''cmd_'' @ demo_hex) ''bootstrap.start'' demo_jid
     (bootstrap_start_command demo_jid (''cmd_'' @ demo_hex))) (add_job (new_job 1000 demo_jid ''key'') demo_store)"

lemma demo_sync:
  "CreateSyncJob demo_pg demo_call demo_zeros ''key'' demo_store =
     (Inr (sync_of (new_job 1000 demo_jid ''key''), True), demo_zeros\<lparr>drawn := 32\<rparr>, demo_syncing)"
proof -
  have ids: "newID ''sync'' demo_zeros = (demo_jid, demo_zeros\<lparr>drawn := 16\<rparr>)"
    using demo_newID [of "''sync''" 0] demo_zeros_drawn by (simp add: demo_jid_def)
  have "rt_schema demo_store" by (rule rt_inv_schema [OF reachable_inv [OF demo_reachable [of True demo_pg]]])
  then have S1: "rt_schema (add_job (new_job 1000 demo_jid ''key'') demo_store)"
    by (simp add: schema_defs add_job_def new_job_def job_statuses_def)
  then have S2: "rt_schema demo_syncing" unfolding demo_syncing_def
    by (intro schema_add_command) (simp_all add: add_job_def issued_def command_types_def)
  have "sync_body demo_pg 1000 demo_jid (''cmd_'' @ demo_hex) ''key'' no_faults (Suc 0, demo_store) = Inr (None, 6, demo_syncing)"
    using S1 S2 by (simp add: sync_body_def demo_syncing_def)
  then show ?thesis
    by (simp add: CreateSyncJob_def ids demo_run_ids(2) GetSyncJob_def pool_query_def)
      (simp add: demo_syncing_def add_job_def add_command_def new_job_def)
qed

theorem sync_job_single_witness:
  "\<exists>j. sync_jobs demo_syncing = sync_jobs demo_store @ [j] \<and> job_key j = ''key'' \<and> job_active j"
proof -
  have "alone demo_call" by (simp add: alone_def demo_call_def)
  from sync_job_single [OF demo_reachable [of True demo_pg] this demo_sync] show ?thesis by auto
qed

subsection \<open>Batches\<close>

text \<open>The job of a batch as the import leaves it.\<close>

definition advanced :: "bootstrap_batch \<Rightarrow> rt_db \<Rightarrow> bool" where
  "advanced b db \<longleftrightarrow> (\<exists>j. by_key job_id (bb_SyncID b) (sync_jobs db) = Some j \<and> job_last j = bb_BatchNo b
     \<and> or_empty (job_checksum j) = bb_Checksum b)"

definition has_job :: "bootstrap_batch \<Rightarrow> rt_db \<Rightarrow> bool" where
  "has_job b db \<longleftrightarrow> by_key job_id (bb_SyncID b) (sync_jobs db) \<noteq> None"

lemma has_job_frame:
  "(\<And>db. sync_jobs (f db) = sync_jobs db) \<Longrightarrow> tx_hoare (has_job b) (tx_change f) (\<lambda>_. has_job b)"
  by (rule tx_hoare_change) (simp add: has_job_def)

lemma has_job_next: "tx_hoare (has_job b) (next_sequence now sid) (\<lambda>_. has_job b)"
  unfolding next_sequence_def
  by (intro keep tx_hoare_change_ret) (simp add: has_job_def bump_session_def)

lemma has_job_counted:
  "(\<And>db. sync_jobs (f db) = sync_jobs db) \<Longrightarrow> tx_hoare (has_job b) (tx_counted f k) (\<lambda>_. has_job b)"
  by (rule keep_counted) (simp add: has_job_def)

lemma has_job_projects: "tx_hoare (has_job b) (import_projects now snap ps) (\<lambda>_. has_job b)"
  by (induction ps)
    (simp_all only: import_projects.simps, (intro keep has_job_frame | assumption | simp add: import_project_def)+)

lemma has_job_sessions: "tx_hoare (has_job b) (import_sessions now snap vs ids) (\<lambda>_. has_job b)"
  by (induction vs arbitrary: ids)
    (simp_all only: import_sessions.simps import_session_def,
      (intro keep has_job_frame | assumption | simp add: insert_imported_session_def refresh_session_def)+)

lemma has_job_events: "tx_hoare (has_job b) (insert_events pg now rid es) (\<lambda>_. has_job b)"
  by (induction es)
    (simp_all only: insert_events.simps, (intro keep has_job_frame | assumption | simp add: add_run_event_def)+)

lemma has_job_runs: "tx_hoare (has_job b) (import_runs pg now ids rs) (\<lambda>_. has_job b)"
proof (induction rs)
  case (Cons r rs)
  have "tx_hoare (has_job b) (import_run pg now ids r) (\<lambda>_. has_job b)"
    unfolding import_run_def write_run_def
    by (intro has_job_events has_job_next keep has_job_frame)
      (simp_all add: overwrite_run_def delete_events_def add_run_def add_session_event_def)
  with Cons show ?case by (simp only: import_runs.simps) (intro keep)
qed (simp add: keep_return)

lemma import_batch_advances: "tx_hoare (has_job b) (import_batch pg now b) (\<lambda>_. advanced b)"
proof -
  have rec: "tx_hoare (has_job b) (reconcile now b) (\<lambda>_. has_job b)"
    unfolding reconcile_def
    by (intro keep has_job_counted) (simp_all add: archive_sessions_def archive_projects_def)
  have adv: "tx_hoare (has_job b) (tx_change (advance_job now b k ns np)) (\<lambda>_. advanced b)" for k ns np
  proof (rule tx_hoare_change)
    fix db assume "has_job b db"
    then obtain q where q: "by_key job_id (bb_SyncID b) (sync_jobs db) = Some q" by (auto simp: has_job_def)
    then show "advanced b (advance_job now b k ns np db)"
      using by_key_SomeD [OF q] by (simp add: advanced_def advance_job_def by_key_sql_update or_empty_def)
  qed
  have del: "tx_hoare (advanced b) (tx_change (deliver_bootstrap now b)) (\<lambda>_. advanced b)"
    by (rule tx_hoare_change) (simp add: advanced_def deliver_bootstrap_def)
  show ?thesis unfolding import_batch_def
    by (rule tx_hoare_bind [OF has_job_projects], rule tx_hoare_bind [OF has_job_sessions],
        rule tx_hoare_bind [OF has_job_runs], rule tx_hoare_bind [OF rec], rule keep_prod,
        rule tx_hoare_bind [OF adv], rule keep_if, rule del, rule keep_return)
qed

lemma batch_body_advances: "tx_hoare (\<lambda>_. True) (batch_body pg now b) (\<lambda>_. advanced b)"
  unfolding batch_body_def
proof (rule tx_hoare_bind [where R = "\<lambda>j db. by_key job_id (bb_SyncID b) (sync_jobs db) = Some j"], goal_cases)
  case 1
  show ?case by (rule tx_hoare_one) simp
next
  case (2 j)
  have "tx_hoare (\<lambda>db. by_key job_id (bb_SyncID b) (sync_jobs db) = Some j) (import_batch pg now b) (\<lambda>_. advanced b)"
    by (rule tx_hoare_weaken [OF import_batch_advances]) (auto simp: has_job_def)
  then show ?case by (auto intro!: tx_rules simp: advanced_def)
qed

lemma batch_body_replay:
  assumes "by_key job_id (bb_SyncID b) (sync_jobs db) = Some j" "bb_BatchNo b = job_last j"
    "bb_Checksum b = or_empty (job_checksum j)"
  shows "batch_body pg now b flt (m, db) = Inr (u, k, db') \<Longrightarrow> db' = db"
    and "batch_body pg now b flt (m, db) = Inl err \<Longrightarrow> err = ErrDatabase \<and> flt m \<noteq> Delivered"
  using assms by (auto simp: batch_body_def tx_one_def tx_rt_query_def tx_query_def tx_stmt_def split: if_splits)

text \<open>
  Property C35. Batches are applied in the order of their numbers and once: a batch changes the
  tables only when it is the next after the last committed one; a batch that was answered with
  success may be sent again any number of times: the tables stay as they are and the answer is the same
  job, or a database error when a round trip was lost.
\<close>

theorem batches_in_order:
  assumes "ApplyBootstrapBatch pg rc b db = (res, db1)" "alone rc"
    and "by_key job_id (bb_SyncID b) (sync_jobs db) = Some j"
  shows "(db1 \<noteq> db \<longrightarrow> bb_BatchNo b = job_last j + 1)
    \<and> (\<forall>job. res = Inr job \<longrightarrow> (\<forall>rc' res' db2. alone rc' \<longrightarrow> ApplyBootstrapBatch pg rc' b db1 = (res', db2) \<longrightarrow>
         db2 = db1 \<and> (res' = Inr job \<or> res' = Inl ErrDatabase \<and> (\<exists>k i. rc_flt rc' k i \<noteq> Delivered))))"
proof -
  obtain u db0 where tx: "run_tx ErrDatabase (rc_flt rc 0) (batch_body pg (rc_now rc 0) b) db = (u, db0)"
    by (meson surj_pair)
  have db1: "db1 = db0" using assms(1,2) tx by (auto simp: ApplyBootstrapBatch_def alone_def Let_def split: sum.splits)
  have nxt: "bb_BatchNo b = job_last j + 1" if "db1 \<noteq> db"
  proof (rule ccontr)
    assume no: "bb_BatchNo b \<noteq> job_last j + 1"
    have "db0 = db"
      using tx
    proof (cases rule: run_tx_cases)
      case (lost a n)
      with no assms(3) show ?thesis
        by (auto simp: batch_body_def tx_one_def tx_rt_query_def tx_query_def tx_stmt_def split: if_splits)
    next
      case (committed a n)
      with no assms(3) show ?thesis
        by (auto simp: batch_body_def tx_one_def tx_rt_query_def tx_query_def tx_stmt_def split: if_splits)
    qed simp
    with that db1 show False by simp
  qed
  have rep: "db2 = db1 \<and> (res' = Inr job \<or> res' = Inl ErrDatabase \<and> (\<exists>k i. rc_flt rc' k i \<noteq> Delivered))"
    if res: "res = Inr job" and rc': "alone rc'" and again: "ApplyBootstrapBatch pg rc' b db1 = (res', db2)"
    for job rc' res' db2
  proof -
    obtain v where "u = Inr v" using assms(1,2) tx res by (cases u) (auto simp: ApplyBootstrapBatch_def alone_def Let_def)
    then have "advanced b db1" using run_tx_post [OF batch_body_advances _ tx [unfolded \<open>u = Inr v\<close>]] db1 by simp
    then obtain q where q: "by_key job_id (bb_SyncID b) (sync_jobs db1) = Some q" "bb_BatchNo b = job_last q"
      "bb_Checksum b = or_empty (job_checksum q)" by (auto simp: advanced_def)
    have job: "job = sync_of q"
      using assms(1,2) tx res q(1) db1 \<open>u = Inr v\<close>
      by (auto simp: ApplyBootstrapBatch_def alone_def Let_def GetSyncJob_def pool_query_def split: if_splits)
    obtain w db3 where tx': "run_tx ErrDatabase (rc_flt rc' 0) (batch_body pg (rc_now rc' 0) b) db1 = (w, db3)"
      by (meson surj_pair)
    have db3: "db3 = db1"
      using tx' by (cases rule: run_tx_cases) (use batch_body_replay(1) [OF q] in blast)+
    have fault: "x = ErrDatabase \<and> (\<exists>k i. rc_flt rc' k i \<noteq> Delivered)" if "w = Inl x" for x
      using tx' that batch_body_replay(2) [OF q, of pg "rc_now rc' 0" "rc_flt rc' 0" "Suc 0"]
      unfolding run_tx_def by (auto split: if_splits sum.splits wire.splits) (metis wire.distinct(1) wire.distinct(3))+
    show ?thesis
      using again tx' rc' db3 fault q(1) job
      by (cases w) (auto simp: ApplyBootstrapBatch_def alone_def Let_def GetSyncJob_def pool_query_def split: if_splits)
  qed
  show ?thesis using nxt rep by blast
qed

definition demo_batch :: bootstrap_batch where
  "demo_batch = \<lparr>bb_CommandID = [], bb_SyncID = demo_jid, bb_SnapshotID = ''snap'', bb_BatchNo = 0, bb_Checksum = ''sum'',
     bb_TotalSessions = 0, bb_ProcessedSessions = 0, bb_ReconciliationSafe = False, bb_Projects = [], bb_Sessions = [],
     bb_Runs = [], bb_Done = False\<rparr>"

lemma demo_batch_applied:
  "\<exists>job. ApplyBootstrapBatch demo_pg demo_call demo_batch demo_syncing =
     (Inr job, advance_job 1000 demo_batch 0 0 0 demo_syncing)"
proof -
  have S: "rt_schema (advance_job 1000 demo_batch 0 0 0 demo_syncing)"
    by (simp add: schema_defs advance_job_def demo_syncing_def add_command_def add_job_def new_job_def new_command_def
        demo_batch_def job_statuses_def command_types_def command_statuses_def demo_session_def job_active_def)
  have job: "by_key job_id demo_jid (sync_jobs demo_syncing) = Some (new_job 1000 demo_jid ''key'')"
    by (simp add: demo_syncing_def add_command_def add_job_def new_job_def)
  have body: "batch_body demo_pg 1000 demo_batch no_faults (Suc 0, demo_syncing) =
      Inr ((), 3, advance_job 1000 demo_batch 0 0 0 demo_syncing)"
    using S job unfolding batch_body_def import_batch_def reconcile_def
    by (simp add: demo_batch_def new_job_def)
  have "by_key job_id demo_jid (sync_jobs (advance_job 1000 demo_batch 0 0 0 demo_syncing)) \<noteq> None"
    using job by (simp add: advance_job_def by_key_sql_update)
  then obtain j where "by_key job_id demo_jid (sync_jobs (advance_job 1000 demo_batch 0 0 0 demo_syncing)) = Some j" by blast
  moreover have "bb_SyncID demo_batch = demo_jid" by (simp add: demo_batch_def)
  ultimately show ?thesis using body
    by (simp add: ApplyBootstrapBatch_def GetSyncJob_def pool_query_def)
qed

theorem batches_in_order_witness:
  "\<exists>job db1. ApplyBootstrapBatch demo_pg demo_call demo_batch demo_syncing = (Inr job, db1)
     \<and> snd (ApplyBootstrapBatch demo_pg demo_call demo_batch db1) = db1"
proof -
  obtain job db1 where first: "ApplyBootstrapBatch demo_pg demo_call demo_batch demo_syncing = (Inr job, db1)"
    using demo_batch_applied by blast
  have al: "alone demo_call" by (simp add: alone_def demo_call_def)
  have "by_key job_id (bb_SyncID demo_batch) (sync_jobs demo_syncing) = Some (new_job 1000 demo_jid ''key'')"
    by (simp add: demo_batch_def demo_syncing_def add_command_def add_job_def new_job_def)
  from batches_in_order [OF first al this] al
  have "\<forall>res' db2. ApplyBootstrapBatch demo_pg demo_call demo_batch db1 = (res', db2) \<longrightarrow> db2 = db1" by blast
  then have "snd (ApplyBootstrapBatch demo_pg demo_call demo_batch db1) = db1" by (metis prod.collapse)
  with first show ?thesis by blast
qed

subsection \<open>Open runs keep their sessions visible\<close>

text \<open>\<open>A\<close> are the sessions that were archived before.\<close>

definition spared :: "string set \<Rightarrow> rt_db \<Rightarrow> bool" where
  "spared A db \<longleftrightarrow> (\<forall>s \<in> set (sessions db). ses_archived s \<noteq> None \<longrightarrow> ses_id s \<in> A \<or> \<not> has_open_run db (ses_id s))"

definition open_in :: "rt_db \<Rightarrow> string set" where
  "open_in db = {sid. has_open_run db sid}"

definition archived :: "rt_db \<Rightarrow> string set" where
  "archived db = ses_id ` {s \<in> set (sessions db). ses_archived s \<noteq> None}"

lemma spared_alt: "spared A db \<longleftrightarrow> archived db \<inter> open_in db \<subseteq> A"
  by (auto simp: spared_def archived_def open_in_def)

lemma spared_frame:
  assumes "\<And>db. archived (f db) \<subseteq> archived db" "\<And>db. open_in (f db) \<subseteq> open_in db"
  shows "tx_hoare (spared A) (tx_change f) (\<lambda>_. spared A)"
  by (rule tx_hoare_change) (use assms in \<open>fastforce simp: spared_alt\<close>)

lemma open_in_iff: "sid \<in> open_in db \<longleftrightarrow> (\<exists>r \<in> set (runs db). rn_session r = sid \<and> rn_status r \<in> set open_statuses)"
  by (auto simp: open_in_def has_open_run_def sql_exists_def list_ex_iff)

lemma spared_same_tables:
  assumes "\<And>db. sessions (f db) = sessions db" "\<And>db. runs (f db) = runs db"
  shows "tx_hoare (spared A) (tx_change f) (\<lambda>_. spared A)"
  by (rule spared_frame) (auto simp: assms archived_def open_in_iff)

lemma spared_next: "tx_hoare (spared A) (next_sequence now sid) (\<lambda>_. spared A)"
proof -
  have "archived (bump_session now sid db) \<subseteq> archived db" for db
    unfolding archived_def bump_session_def by (auto elim!: in_sql_updateE)
  moreover have "open_in (bump_session now sid db) = open_in db" for db
    by (auto simp: open_in_iff bump_session_def)
  ultimately show ?thesis unfolding next_sequence_def
    by (intro keep tx_hoare_change_ret) (fastforce simp: spared_alt)
qed

lemma spared_statements:
  "tx_hoare (spared A) (tx_change (import_project now snap p)) (\<lambda>_. spared A)"
  "tx_hoare (spared A) (tx_change (add_session_event pg now sid n ty pl)) (\<lambda>_. spared A)"
  "tx_hoare (spared A) (tx_change (add_run_event ev)) (\<lambda>_. spared A)"
  "tx_hoare (spared A) (tx_change (delete_events rid)) (\<lambda>_. spared A)"
  "tx_hoare (spared A) (tx_change (advance_job now b k ns np)) (\<lambda>_. spared A)"
  "tx_hoare (spared A) (tx_change (deliver_bootstrap now b)) (\<lambda>_. spared A)"
  by (rule spared_same_tables; simp add: statement_defs)+

lemma spared_insert_session: "tx_hoare (spared A) (tx_change (insert_imported_session now v)) (\<lambda>_. spared A)"
  by (rule spared_frame) (auto simp: archived_def open_in_iff insert_imported_session_def)

lemma spared_refresh: "tx_hoare (spared A) (tx_change (refresh_session snap sid v)) (\<lambda>_. spared A)"
  by (rule spared_frame) (auto simp: archived_def open_in_iff refresh_session_def elim!: in_sql_updateE)

text \<open>Imported runs have ended.\<close>

lemma imported_terminal: "normalizeImportedStatus v = (st, True) \<Longrightarrow> st \<notin> set open_statuses"
  by (auto simp: normalizeImportedStatus_def open_statuses_def split: if_splits)

lemma spared_write_run:
  assumes "st \<notin> set open_statuses"
  shows "tx_hoare (spared A) (write_run now sid st r found) (\<lambda>_. spared A)"
proof -
  have "tx_hoare (spared A) (tx_change (overwrite_run now sid st r rid)) (\<lambda>_. spared A)" for rid
    by (rule spared_frame) (use assms in \<open>auto simp: archived_def open_in_iff overwrite_run_def elim!: in_sql_updateE\<close>)
  moreover have "tx_hoare (spared A) (tx_change (add_run (imported_run now sid st r))) (\<lambda>_. spared A)"
    by (rule spared_frame) (use assms in \<open>auto simp: archived_def open_in_iff add_run_def imported_run_def\<close>)
  ultimately show ?thesis unfolding write_run_def by (intro keep spared_statements)
qed

lemma spared_events: "tx_hoare (spared A) (insert_events pg now rid es) (\<lambda>_. spared A)"
  by (induction es) (simp_all only: insert_events.simps, (intro keep spared_statements | assumption)+)

lemma spared_import_run: "tx_hoare (spared A) (import_run pg now ids r) (\<lambda>_. spared A)"
proof -
  obtain st terminal where n: "normalizeImportedStatus (brn_Status r) = (st, terminal)" by (meson surj_pair)
  show ?thesis
  proof (cases terminal)
    case True
    then show ?thesis unfolding import_run_def n Let_def
      by (simp only: prod.case) (intro keep spared_write_run spared_events spared_next spared_statements imported_terminal,
        use n in simp_all)
  qed (simp add: import_run_def n keep_return)
qed

lemma spared_import_runs: "tx_hoare (spared A) (import_runs pg now ids rs) (\<lambda>_. spared A)"
  by (induction rs) (simp_all only: import_runs.simps, (intro keep spared_import_run | assumption)+)

lemma spared_import_projects: "tx_hoare (spared A) (import_projects now snap ps) (\<lambda>_. spared A)"
  by (induction ps) (simp_all only: import_projects.simps, (intro keep spared_statements | assumption)+)

lemma spared_import_sessions: "tx_hoare (spared A) (import_sessions now snap vs ids) (\<lambda>_. spared A)"
  by (induction vs arbitrary: ids)
    (simp_all only: import_sessions.simps import_session_def,
      (intro keep spared_insert_session spared_refresh | assumption)+)

lemma spared_reconcile: "tx_hoare (spared A) (reconcile now b) (\<lambda>_. spared A)"
proof -
  have "spared A (archive_sessions now jid snap db)" if "spared A db" for jid snap db
  proof -
    have same: "has_open_run (archive_sessions now jid snap db) = has_open_run db"
      by (simp add: fun_eq_iff has_open_run_def archive_sessions_def)
    have "ses_id q \<in> A \<or> \<not> has_open_run db (ses_id q)"
      if q: "q \<in> set (sessions (archive_sessions now jid snap db))" "ses_archived q \<noteq> None" for q
      using q(1) unfolding archive_sessions_def
      by simp (erule in_sql_updateE, use \<open>spared A db\<close> q(2) in \<open>auto simp: spared_def stale_session_def\<close>)
    then show ?thesis unfolding spared_def same by blast
  qed
  moreover have "spared A (archive_projects now jid snap db)" if "spared A db" for jid snap db
    using that by (simp add: spared_def has_open_run_def archive_projects_def)
  ultimately show ?thesis unfolding reconcile_def by (intro keep keep_counted) auto
qed

lemma spared_batch: "tx_hoare (spared A) (batch_body pg now b) (\<lambda>_. spared A)"
  unfolding batch_body_def import_batch_def
  by (intro keep spared_import_projects spared_import_sessions spared_import_runs spared_reconcile spared_statements)

text \<open>
  Property C36. No import hides work in progress: a session that a batch archives (it was not
  archived before) has no run that is still queued, dispatching, accepted, running, waiting,
  recovering or finalizing.
\<close>

theorem import_spares_open_runs:
  assumes "ApplyBootstrapBatch pg rc b db = (res, db')" "alone rc"
    and "s \<in> set (sessions db')" "ses_archived s \<noteq> None" "ses_id s \<notin> archived db"
  shows "\<not> (\<exists>r \<in> set (runs db'). rn_session r = ses_id s \<and> rn_status r \<in> set open_statuses)"
proof -
  obtain u db1 where tx: "run_tx ErrDatabase (rc_flt rc 0) (batch_body pg (rc_now rc 0) b) db = (u, db1)"
    by (meson surj_pair)
  have db': "db' = db1" using assms(1,2) tx by (auto simp: ApplyBootstrapBatch_def alone_def Let_def split: sum.splits)
  have "spared (archived db) db" by (auto simp: spared_alt)
  then have "spared (archived db) db'" using keep_run_tx [OF spared_batch _ tx] db' by blast
  then have "ses_id s \<notin> open_in db'" using assms(3-5) by (auto simp: spared_def open_in_def)
  then show ?thesis by (simp add: open_in_iff)
qed

text \<open>A snapshot that no longer shows the only session.\<close>

definition demo_gone :: rt_db where
  "demo_gone = demo_store\<lparr>sessions := [demo_session\<lparr>ses_thread := Some ''t''\<rparr>], sync_jobs := [new_job 2000 demo_jid ''key'']\<rparr>"

definition demo_last :: bootstrap_batch where
  "demo_last = demo_batch\<lparr>bb_Done := True, bb_ReconciliationSafe := True\<rparr>"

lemma demo_last_applied:
  "\<exists>res db'. ApplyBootstrapBatch demo_pg demo_call demo_last demo_gone = (res, db')
     \<and> sessions db' = [demo_session\<lparr>ses_thread := Some ''t'', ses_archived := Some 1000\<rparr>]"
proof -
  let ?db1 = "archive_sessions 1000 demo_jid ''snap'' demo_gone"
  let ?db2 = "archive_projects 1000 demo_jid ''snap'' ?db1"
  let ?db3 = "advance_job 1000 demo_last 0 1 1 ?db2"
  have gone: "stale_session demo_jid ''snap'' demo_gone (demo_session\<lparr>ses_thread := Some ''t''\<rparr>)"
    by (simp add: stale_session_def demo_gone_def demo_session_def before_job_def new_job_def has_open_run_def sql_exists_def)
  have ss: "sessions ?db1 = [demo_session\<lparr>ses_thread := Some ''t'', ses_archived := Some 1000\<rparr>]"
    using gone by (simp add: archive_sessions_def) (simp add: demo_gone_def)
  have S1: "rt_schema ?db1"
    using ss by (simp add: schema_defs) (simp add: archive_sessions_def demo_gone_def demo_session_def new_job_def job_statuses_def job_active_def)
  have st: "stale_project demo_jid ''snap'' ?db1 p" if "p \<in> set (projects ?db1)" for p
    using that by (simp add: archive_sessions_def demo_gone_def)
      (simp add: stale_project_def before_job_def new_job_def has_open_run_def sql_exists_def list_ex_iff)
  have S2: "rt_schema ?db2"
    using S1 by (simp add: schema_defs archive_projects_def)
  have S3: "rt_schema ?db3"
    using S2 by (simp add: schema_defs advance_job_def archive_projects_def archive_sessions_def)
      (simp add: demo_gone_def new_job_def demo_last_def demo_batch_def job_statuses_def job_active_def)
  have n1: "affected (stale_session demo_jid ''snap'' demo_gone) (sessions demo_gone) = 1"
    using gone by (simp add: affected_def) (simp add: demo_gone_def)
  have n2: "affected (stale_project demo_jid ''snap'' ?db1) (projects ?db1) = 1"
    using st by (simp add: affected_def) (simp add: archive_sessions_def demo_gone_def)
  have job: "by_key job_id demo_jid (sync_jobs demo_gone) = Some (new_job 2000 demo_jid ''key'')"
    by (simp add: demo_gone_def new_job_def)
  have "batch_body demo_pg 1000 demo_last no_faults (Suc 0, demo_gone) = Inr ((), 5, ?db3)"
    using S1 S2 S3 n1 n2 job unfolding batch_body_def import_batch_def reconcile_def tx_counted_def
    by (simp add: demo_last_def demo_batch_def new_job_def)
  moreover have "sessions ?db3 = sessions ?db1" by (simp add: advance_job_def archive_projects_def)
  ultimately show ?thesis using ss
    by (simp add: ApplyBootstrapBatch_def GetSyncJob_def pool_query_def)
qed

theorem import_spares_open_runs_witness:
  "\<exists>res db'. ApplyBootstrapBatch demo_pg demo_call demo_last demo_gone = (res, db')
     \<and> (\<exists>s \<in> set (sessions db'). ses_archived s \<noteq> None
          \<and> \<not> (\<exists>r \<in> set (runs db'). rn_session r = ses_id s \<and> rn_status r \<in> set open_statuses))"
proof -
  obtain res db' where run: "ApplyBootstrapBatch demo_pg demo_call demo_last demo_gone = (res, db')"
    and ss: "sessions db' = [demo_session\<lparr>ses_thread := Some ''t'', ses_archived := Some 1000\<rparr>]"
    using demo_last_applied by blast
  have al: "alone demo_call" by (simp add: alone_def demo_call_def)
  have "archived demo_gone = {}" by (simp add: archived_def demo_gone_def demo_session_def)
  then show ?thesis using import_spares_open_runs [OF run al] run ss by auto
qed

end
