(* ===== verification/Coordinator.thy ===== *)
theory Coordinator
  imports Gateways Redis_Broker Runtime_Outbox Runtime_Sync
begin

section \<open>The coordinator\<close>

text \<open>
  \<^verbatim>\<open>internal/runtime/coordinator.go\<close>: the router's observer. It feeds the agent's events to the broker
  and the store and acknowledges them, imports bootstrap batches, answers the gateways' requests,
  and sends the commands of the outbox to the connected agent. Its state (record \<open>coord\<close>) holds the
  runtime tables, the broker's state, the two gateways (nil or their tables), the set of run
  identifiers it has seen in the store, and the number of store calls made so far; the environment
  (record \<open>coord_env\<close>) gives each store call its faults, clock and interfering connections. Logging
  is not modelled. A nil payload does not occur: \<open>Decode\<close> refuses it.
\<close>

record 'k coord =
  co_db :: rt_db
  co_broker :: 'k
  co_source :: "source_result waiters option"
  co_profiles :: "profile_result waiters option"
  co_runIDs :: "string list"
  co_calls :: nat

record 'k coord_env =
  ce_env :: env
  ce_broker :: "'k broker"
  ce_pg :: pgsql
  ce_call :: "nat \<Rightarrow> rt_call"
  ce_locked :: "nat \<Rightarrow> string \<Rightarrow> bool"
  ce_workerID :: string

definition projectRefreshTraceID :: string where
  "projectRefreshTraceID = ''project-refresh''"

text \<open>A call of the store, a single query of the store, and a call of the broker.\<close>

definition store_call :: "'k coord_env \<Rightarrow> (rt_call \<Rightarrow> rt_db \<Rightarrow> 'a \<times> rt_db) \<Rightarrow> 'k coord \<Rightarrow> 'a \<times> 'k coord" where
  "store_call ce f c =
     (let (r, db) = f (ce_call ce (co_calls c)) (co_db c) in (r, c\<lparr>co_db := db, co_calls := Suc (co_calls c)\<rparr>))"

definition read_call :: "'k coord_env \<Rightarrow> (wire \<Rightarrow> rt_db \<Rightarrow> 'a) \<Rightarrow> 'k coord \<Rightarrow> 'a \<times> 'k coord" where
  "read_call ce f = store_call ce (\<lambda>rc db. let db' = rc_itf rc 0 db in (f (rc_flt rc 0 0) db', db'))"

definition broker_call :: "('k \<Rightarrow> 'a \<times> 'k) \<Rightarrow> 'k coord \<Rightarrow> 'a \<times> 'k coord" where
  "broker_call f c = (let (r, k) = f (co_broker c) in (r, c\<lparr>co_broker := k\<rparr>))"

definition set_presence :: "'k coord_env \<Rightarrow> bool \<Rightarrow> 'k coord \<Rightarrow> 'k coord" where
  "set_presence ce online c = snd (broker_call (br_SetAgentPresence (ce_broker ce) online) c)"

definition mark_delivered :: "'k coord_env \<Rightarrow> string \<Rightarrow> 'k coord \<Rightarrow> (rt_error + unit) \<times> 'k coord" where
  "mark_delivered ce cid = store_call ce (\<lambda>rc. MarkCommandDelivered rc cid)"

text \<open>A message of the run server, sent when it can be built.\<close>

definition send_own :: "'k coord_env \<Rightarrow> peer_ref \<Rightarrow> string \<Rightarrow> string \<Rightarrow> json \<Rightarrow> world \<Rightarrow> bool \<times> world" where
  "send_own ce peer messageType traceID payload w =
     (let ((m, err), w1) = new_message (ce_env ce) messageType traceID run_server payload w in
      if err \<noteq> None then (False, w1)
      else let (r, w2) = peer_Send (ce_env ce) peer m w1 in (r = Inr (), w2))"

definition sendAck :: "'k coord_env \<Rightarrow> peer_ref \<Rightarrow> string \<Rightarrow> string \<Rightarrow> int \<Rightarrow> world \<Rightarrow> world" where
  "sendAck ce peer messageType runID sequence w =
     snd (send_own ce peer messageType runID (runtime_ack_json runID sequence) w)"

subsection \<open>Connections\<close>

definition coord_Close :: "'k coord_env \<Rightarrow> 'k coord \<Rightarrow> 'k coord" where
  "coord_Close ce c =
     set_presence ce False
       (c\<lparr>co_source := map_option (source_FailPending ErrSourceUnavailable) (co_source c),
          co_profiles := map_option (profiles_FailPending ErrExecutionProfilesUnavailable) (co_profiles c)\<rparr>)"

text \<open>The errors of \<open>NewMessage\<close> and \<open>Send\<close> are ignored, so the message goes out either way.\<close>

definition AgentConnected :: "'k coord_env \<Rightarrow> peer_ref \<Rightarrow> world \<times> 'k coord \<Rightarrow> world \<times> 'k coord" where
  "AgentConnected ce peer st =
     (let (w, c) = st;
          c1 = set_presence ce True c;
          ((m, _), w1) = new_message (ce_env ce) TypeProjectList projectRefreshTraceID run_server (JObj []) w in
      (snd (peer_Send (ce_env ce) peer m w1), c1))"

definition AgentDisconnected :: "'k coord_env \<Rightarrow> peer_ref \<Rightarrow> world \<times> 'k coord \<Rightarrow> world \<times> 'k coord" where
  "AgentDisconnected ce peer st =
     (let (w, c) = st in
      (w, set_presence ce False
            (c\<lparr>co_source := map_option (source_FailPending ErrSourceAgentOffline) (co_source c),
               co_profiles := map_option (profiles_FailPending ErrExecutionProfilesAgentOffline) (co_profiles c)\<rparr>)))"

subsection \<open>Bootstrap batches\<close>

definition isTerminalBootstrapStatus :: "string \<Rightarrow> bool" where
  "isTerminalBootstrapStatus status \<longleftrightarrow>
     status \<in> set [''completed'', ''failed'', ''interrupted'', ''canceled'', ''cancelled'']"

fun item_events :: "int \<Rightarrow> time \<Rightarrow> thread_history_item list \<Rightarrow> bootstrap_event list" where
  "item_events n t [] = []"
| "item_events n t (i # is) =
     \<lparr>bev_Sequence = n, bev_Type = ''item.completed'', bev_Payload = JObj [(''item'', history_item_json i)],
      bev_OccurredAt = t\<rparr> # item_events (n + 1) t is"

definition turn_prompt :: "thread_history_item list \<Rightarrow> string" where
  "turn_prompt items =
     fold (\<lambda>i p. if p = [] \<and> (hit_role i = ''user'' \<or> hit_type i = ''userMessage'') then hit_text i else p) items []"

definition terminal_type :: "string \<Rightarrow> string" where
  "terminal_type status =
     (if status = ''failed'' then ''turn.failed''
      else if status = ''interrupted'' \<or> status = ''canceled'' \<or> status = ''cancelled'' then ''turn.interrupted''
      else ''turn.completed'')"

definition turn_run :: "thread_detail \<Rightarrow> string \<Rightarrow> thread_history_turn \<Rightarrow> bootstrap_run" where
  "turn_run thread sessionID turn =
     (let startedAt = (case ht_started_at turn of Some t \<Rightarrow> t | None \<Rightarrow> td_created_at thread);
          finishedAt = (case ht_completed_at turn of Some t \<Rightarrow> t | None \<Rightarrow> td_updated_at thread);
          items = ht_items turn in
      \<lparr>brn_ID = ''run_'' @ ht_id turn, brn_SessionID = sessionID, brn_CodexTurnID = ht_id turn,
       brn_Status = ht_status turn, brn_Prompt = turn_prompt items,
       brn_StartedAt = Some startedAt, brn_FinishedAt = Some finishedAt,
       brn_Events = item_events 1 startedAt items @
         [\<lparr>bev_Sequence = int (length items) + 1, bev_Type = terminal_type (ht_status turn),
           bev_Payload = JObj [(''error'', JStr (ht_error turn)), (''status'', JStr (ht_status turn)),
             (''thread_id'', JStr (td_id thread)), (''turn_id'', JStr (ht_id turn))],
           bev_OccurredAt = finishedAt\<rparr>]\<rparr>)"

definition bootstrapBatch :: "bootstrap_batch_payload \<Rightarrow> bootstrap_batch" where
  "bootstrapBatch p =
     \<lparr>bb_CommandID = bp_command_id p, bb_SyncID = bp_sync_id p, bb_SnapshotID = bp_snapshot_id p,
      bb_BatchNo = bp_batch_no p, bb_Checksum = bp_checksum p, bb_TotalSessions = bp_total_sessions p,
      bb_ProcessedSessions = bp_processed_sessions p, bb_ReconciliationSafe = bp_reconciliation_safe p,
      bb_Projects = (case bp_project p of None \<Rightarrow> [] | Some q \<Rightarrow> [\<lparr>bpj_ID = pj_id q, bpj_Name = pj_name q\<rparr>]),
      bb_Sessions = (case bp_thread p of None \<Rightarrow> []
         | Some th \<Rightarrow> [\<lparr>bss_ID = ''session_'' @ td_id th, bss_ProjectID = td_project_id th,
                       bss_CodexThreadID = td_id th, bss_Title = td_title th\<rparr>]),
      bb_Runs = (case bp_thread p of None \<Rightarrow> []
         | Some th \<Rightarrow> map (turn_run th (''session_'' @ td_id th))
                       (filter (\<lambda>t. isTerminalBootstrapStatus (ht_status t)) (td_turns th))),
      bb_Done = bp_done p\<rparr>"

definition on_batch :: "'k coord_env \<Rightarrow> peer_ref \<Rightarrow> message \<Rightarrow> world \<times> 'k coord \<Rightarrow> world \<times> 'k coord" where
  "on_batch ce peer m st =
     (let (w, c) = st in
      case decoded (PayloadAs bootstrap_batch_schema bootstrap_batch_zero m) of
        None \<Rightarrow> (w, c)
      | Some p \<Rightarrow>
          if bp_command_id p = [] \<or> bp_sync_id p = [] \<or> bp_checksum p = [] then (w, c)
          else
            (let (res, c1) = store_call ce (\<lambda>rc. ApplyBootstrapBatch (ce_pg ce) rc (bootstrapBatch p)) c in
             case res of
               Inl _ \<Rightarrow> (w, c1)
             | Inr _ \<Rightarrow>
                 (let w1 = snd (send_own ce peer TypeBootstrapDurableAck (bp_sync_id p)
                        (bootstrap_ack_json (bp_sync_id p) (bp_batch_no p) (bp_checksum p)) w) in
                  (w1, if bp_done p then snd (mark_delivered ce (bp_command_id p) c1) else c1))))"

subsection \<open>Events of runs\<close>

definition durable_types :: "string list" where
  "durable_types = [TypeRunAccepted, TypeTurnStarted, TypeTurnOutput, TypeTurnItemStarted, TypeTurnItemDelta,
     TypeTurnItemDone, TypeTurnCompleted, TypeTurnFailed, TypeTurnInterrupted, TypeTurnRejected]"

definition durableRuntimeMessage :: "string \<Rightarrow> bool" where
  "durableRuntimeMessage messageType \<longleftrightarrow> messageType \<in> set durable_types"

definition runtimeEventType :: "string \<Rightarrow> string" where
  "runtimeEventType messageType =
     (if messageType = TypeTurnOutput then ''assistant.delta''
      else if messageType = TypeTurnItemStarted then ''item.started''
      else if messageType = TypeTurnItemDelta then ''item.delta''
      else if messageType = TypeTurnItemDone then ''item.completed''
      else if messageType = TypeTurnRejected then ''turn.failed''
      else messageType)"

text \<open>An error of the lookup other than \<open>ErrNotFound\<close> counts as owned.\<close>

definition ownsRuntimeRun :: "'k coord_env \<Rightarrow> string \<Rightarrow> 'k coord \<Rightarrow> bool \<times> 'k coord" where
  "ownsRuntimeRun ce runID c =
     (if runID \<in> set (co_runIDs c) then (True, c)
      else
        (let (res, c1) = store_call ce (\<lambda>rc. GetRun rc 0 runID False) c in
         case res of
           Inr _ \<Rightarrow> (True, c1\<lparr>co_runIDs := runID # co_runIDs c1\<rparr>)
         | Inl err \<Rightarrow> (err \<noteq> ErrNotFound, c1)))"

definition message_event :: "message \<Rightarrow> run_event" where
  "message_event m = \<lparr>revent_Sequence = m_agent_sequence m, revent_Type = runtimeEventType (m_type m),
     revent_Payload = (case m_payload m of Some j \<Rightarrow> j | None \<Rightarrow> JNull), revent_OccurredAt = m_occurred_at m\<rparr>"

definition notify_stored :: "'k coord_env \<Rightarrow> string \<Rightarrow> string \<Rightarrow> 'k coord \<Rightarrow> 'k coord" where
  "notify_stored ce runID sessionID c =
     (let c1 = (case br_NotifyRun (ce_broker ce) of Some f \<Rightarrow> snd (broker_call (f runID) c) | None \<Rightarrow> c) in
      snd (broker_call (br_NotifySession (ce_broker ce) sessionID) c1))"

definition accept_command :: "'k coord_env \<Rightarrow> message \<Rightarrow> 'k coord \<Rightarrow> 'k coord" where
  "accept_command ce m c =
     (if m_type m = TypeRunAccepted then
        (let p = fst (PayloadAs run_accepted_schema run_accepted_zero m) in
         if ra_command_id p \<noteq> [] then snd (mark_delivered ce (ra_command_id p) c) else c)
      else c)"

definition store_event :: "'k coord_env \<Rightarrow> string \<Rightarrow> message \<Rightarrow> 'k coord \<Rightarrow> (rt_error + run) \<times> 'k coord" where
  "store_event ce runID m =
     store_call ce (\<lambda>rc. AppendAgentEvent (ce_pg ce) rc runID (m_agent_sequence m) (revent_Type (message_event m))
       (revent_Payload (message_event m)) (format_rfc3339nano (m_occurred_at m)))"

definition on_event :: "'k coord_env \<Rightarrow> peer_ref \<Rightarrow> message \<Rightarrow> world \<times> 'k coord \<Rightarrow> bool \<times> world \<times> 'k coord" where
  "on_event ce peer m st =
     (let (w, c) = st; runID = m_trace_id m in
      if m_agent_sequence m < 1 then (True, w, c)
      else
        (let (owned, c1) = ownsRuntimeRun ce runID c in
         if \<not> owned then (False, w, c1)
         else
           (let (r, c2) = broker_call (br_AppendRunEvent (ce_broker ce) runID (message_event m)) c1 in
            case r of
              Inl _ \<Rightarrow> (True, w, c2)
            | Inr _ \<Rightarrow>
                (let w1 = sendAck ce peer TypeRuntimeReceivedAck runID (m_agent_sequence m) w;
                     (res, c3) = store_event ce runID m c2 in
                 case res of
                   Inl _ \<Rightarrow> (True, w1, c3)
                 | Inr run \<Rightarrow>
                     (let c4 = notify_stored ce runID (run_SessionID run) c3;
                          w2 = sendAck ce peer TypeRuntimeDurableAck runID (m_agent_sequence m) w1 in
                      (True, w2, accept_command ce m c4))))))"

subsection \<open>Messages of the agent\<close>

definition gateways_Handle :: "message \<Rightarrow> 'k coord \<Rightarrow> bool \<times> 'k coord" where
  "gateways_Handle m c =
     (let (b, c1) = (case co_source c of None \<Rightarrow> (False, c)
            | Some g \<Rightarrow> let (b, g') = source_Handle m g in (b, c\<lparr>co_source := Some g'\<rparr>)) in
      if b then (True, c1)
      else case co_profiles c1 of None \<Rightarrow> (False, c1)
        | Some g \<Rightarrow> let (b, g') = profiles_Handle m g in (b, c1\<lparr>co_profiles := Some g'\<rparr>))"

definition on_projects :: "'k coord_env \<Rightarrow> message \<Rightarrow> 'k coord \<Rightarrow> bool \<times> 'k coord" where
  "on_projects ce m c =
     (if m_trace_id m \<noteq> projectRefreshTraceID then (False, c)
      else case decoded (PayloadAs project_snapshot_schema [] m) of
        None \<Rightarrow> (True, c)
      | Some ps \<Rightarrow>
          (True, snd (store_call ce
             (\<lambda>rc. UpsertProjects rc (map (\<lambda>p. \<lparr>project_ID = pj_id p, project_DisplayName = pj_name p\<rparr>) ps)) c)))"

definition AgentMessage :: "'k coord_env \<Rightarrow> peer_ref \<Rightarrow> message \<Rightarrow> world \<times> 'k coord \<Rightarrow> bool \<times> world \<times> 'k coord" where
  "AgentMessage ce peer m st =
     (let (w, c) = st; (handled, c1) = gateways_Handle m c in
      if handled then (True, w, c1)
      else if m_type m \<in> {TypeAgentHello, TypeAgentStatus, TypeAgentCapabilities} then (True, w, set_presence ce True c1)
      else if m_type m = TypeProjectSnapshot then (let (b, c2) = on_projects ce m c1 in (b, w, c2))
      else if m_type m = TypeBootstrapBatch then (True, on_batch ce peer m (w, c1))
      else if durableRuntimeMessage (m_type m) then on_event ce peer m (w, c1)
      else (False, w, c1))"

definition AgentMessageForwarded :: "'k coord_env \<Rightarrow> peer_ref \<Rightarrow> message \<Rightarrow> world \<times> 'k coord \<Rightarrow> world \<times> 'k coord" where
  "AgentMessageForwarded ce peer m st =
     (let (w, c) = st in
      if m_agent_sequence m < 1 \<or> \<not> durableRuntimeMessage (m_type m) then (w, c)
      else
        (let w1 = sendAck ce peer TypeRuntimeReceivedAck (m_trace_id m) (m_agent_sequence m) w in
         (sendAck ce peer TypeRuntimeDurableAck (m_trace_id m) (m_agent_sequence m) w1, c)))"

definition coordinator :: "'k coord_env \<Rightarrow> 'k coord observer" where
  "coordinator ce = \<lparr>ob_connected = AgentConnected ce, ob_disconnected = AgentDisconnected ce,
     ob_message = AgentMessage ce, ob_forwarded = Some (AgentMessageForwarded ce)\<rparr>"

subsection \<open>Sending commands\<close>

definition sync_job_of :: "'k coord_env \<Rightarrow> string \<Rightarrow> 'k coord \<Rightarrow> (rt_error + sync_job) \<times> 'k coord" where
  "sync_job_of ce jid = read_call ce (\<lambda>wr. GetSyncJob wr jid)"

text \<open>The result says whether the command was sent; otherwise it is released.\<close>

definition sendCommand :: "'k coord_env \<Rightarrow> peer_ref \<Rightarrow> command \<Rightarrow> world \<times> 'k coord \<Rightarrow> bool \<times> world \<times> 'k coord" where
  "sendCommand ce peer cmd st =
     (let (w, c) = st in
      if command_Type cmd = ''run.start'' then
        (case decoded (dec_struct False turn_start_schema (command_Payload cmd) turn_start_zero) of
           None \<Rightarrow> (False, w, c)
         | Some p \<Rightarrow> (let (ok, w1) = send_own ce peer TypeTurnStart (command_ResourceID cmd) (turn_start_json p) w in (ok, w1, c)))
      else if command_Type cmd = ''run.cancel'' then
        (case decoded (dec_struct False turn_interrupt_schema (command_Payload cmd) turn_interrupt_zero) of
           None \<Rightarrow> (False, w, c)
         | Some p \<Rightarrow>
             (let (ok, w1) = send_own ce peer TypeTurnInterrupt (command_ResourceID cmd) (turn_interrupt_json p) w in
              if \<not> ok then (False, w1, c)
              else let (r, c1) = mark_delivered ce (command_ID cmd) c in (r = Inr (), w1, c1)))
      else if command_Type cmd = ''bootstrap.start'' then
        (let (job, c1) = sync_job_of ce (command_ResourceID cmd) c in
         case job of
           Inl _ \<Rightarrow> (False, w, c1)
         | Inr j \<Rightarrow>
             if sync_Status j = ''completed'' \<or> sync_Status j = ''failed'' then
               (let (r, c2) = mark_delivered ce (command_ID cmd) c1 in (r = Inr (), w, c2))
             else
               (case decoded (dec_struct False bootstrap_start_schema (command_Payload cmd) bootstrap_start_zero) of
                  None \<Rightarrow> (False, w, c1)
                | Some p \<Rightarrow>
                    (let (ok, w1) = send_own ce peer TypeBootstrapStart (command_ResourceID cmd) (bootstrap_start_json p) w in
                     (ok, w1, c1))))
      else (False, w, c))"

fun send_each :: "'k coord_env \<Rightarrow> peer_ref \<Rightarrow> command list \<Rightarrow> world \<times> 'k coord \<Rightarrow> world \<times> 'k coord" where
  "send_each ce peer [] st = st"
| "send_each ce peer (cmd # cmds) st =
     (let (ok, w, c) = sendCommand ce peer cmd st;
          c1 = (if ok then c else snd (store_call ce (\<lambda>rc. ReleaseCommand rc (command_ID cmd) ''AGENT_SEND_FAILED'') c)) in
      send_each ce peer cmds (w, c1))"

definition dispatch :: "'k coord_env \<Rightarrow> registry \<Rightarrow> world \<times> 'k coord \<Rightarrow> world \<times> 'k coord" where
  "dispatch ce reg st =
     (let (w, c) = st in
      case registry_Peer RoleAgent reg of
        None \<Rightarrow> (w, c)
      | Some peer \<Rightarrow>
          (let (res, c1) = store_call ce (\<lambda>rc. ClaimCommands rc (ce_locked ce (co_calls c)) (ce_workerID ce) 8) c in
           case res of
             Inl _ \<Rightarrow> (w, c1)
           | Inr cmds \<Rightarrow> send_each ce peer cmds (w, c1)))"

definition presence_tick :: "'k coord_env \<Rightarrow> registry \<Rightarrow> 'k coord \<Rightarrow> 'k coord" where
  "presence_tick ce reg c = (if registry_Peer RoleAgent reg \<noteq> None then set_presence ce True c else c)"

text \<open>
  What runs beside the connections: the two tickers of \<open>dispatchLoop\<close>, the requests of the HTTP API
  to the gateways, and its calls of the store.
\<close>

inductive beside :: "'k coord_env \<Rightarrow> registry \<Rightarrow> world \<times> 'k coord \<Rightarrow> world \<times> 'k coord \<Rightarrow> bool"
  for ce :: "'k coord_env" and reg :: registry where
  dispatched: "beside ce reg st (dispatch ce reg st)"
| refreshed: "beside ce reg (w, c) (w, presence_tick ce reg c)"
| source_asked: "co_source c = Some g \<Longrightarrow> Read_begin (ce_env ce) reg q (w, g) = (r, w', g') \<Longrightarrow>
    beside ce reg (w, c) (w', c\<lparr>co_source := Some g'\<rparr>)"
| source_taken: "co_source c = Some g \<Longrightarrow> Read_receive t g = (r, g') \<Longrightarrow>
    beside ce reg (w, c) (w, c\<lparr>co_source := Some g'\<rparr>)"
| source_left: "co_source c = Some g \<Longrightarrow> beside ce reg (w, c) (w, c\<lparr>co_source := Some (drop_waiter t g)\<rparr>)"
| profiles_asked: "co_profiles c = Some h \<Longrightarrow> List_begin (ce_env ce) reg pid (w, h) = (r', w', h') \<Longrightarrow>
    beside ce reg (w, c) (w', c\<lparr>co_profiles := Some h'\<rparr>)"
| profiles_taken: "co_profiles c = Some h \<Longrightarrow> Read_receive t h = (r'', h') \<Longrightarrow>
    beside ce reg (w, c) (w, c\<lparr>co_profiles := Some h'\<rparr>)"
| profiles_left: "co_profiles c = Some h \<Longrightarrow> beside ce reg (w, c) (w, c\<lparr>co_profiles := Some (drop_waiter t h)\<rparr>)"
| closed: "beside ce reg (w, c) (w, coord_Close ce c)"
| stored: "rt_steps True (ce_pg ce) (co_db c) db \<Longrightarrow> wd_conns w' = wd_conns w \<Longrightarrow> wd_next w' = wd_next w \<Longrightarrow>
    beside ce reg (w, c) (w', c\<lparr>co_db := db\<rparr>)"

subsection \<open>The coordinator keeps to the world's rules\<close>

lemma run_server_kind: "se_kind run_server = ''relay''"
  by (simp add: run_server_def)

lemma good_send_own: "peer_ok w p \<Longrightarrow> good w (snd (send_own ce p ty trace j w))"
proof -
  assume ok: "peer_ok w p"
  obtain m err w1 where n: "new_message (ce_env ce) ty trace run_server j w = ((m, err), w1)" by (metis surj_pair)
  then have g: "good w w1" using good_new_message [of w "ce_env ce" ty trace run_server j] by simp
  have "good w1 (snd (peer_Send (ce_env ce) p m w1))"
    using good_peer_Send [OF peer_ok_good [OF g ok] new_message_legit [OF n run_server_kind]] .
  then show ?thesis using n g good_trans by (auto simp: send_own_def Let_def split_beta)
qed

lemma good_sendAck: "peer_ok w p \<Longrightarrow> good w (sendAck ce p ty rid n w)"
  by (simp add: sendAck_def good_send_own)

lemma good_AgentConnected: "peer_ok w p \<Longrightarrow> good w (fst (AgentConnected ce p (w, c)))"
proof -
  assume ok: "peer_ok w p"
  obtain m err w1 where n: "new_message (ce_env ce) TypeProjectList projectRefreshTraceID run_server (JObj []) w = ((m, err), w1)"
    by (metis surj_pair)
  then have g: "good w w1" using good_new_message [of w "ce_env ce" TypeProjectList] by (metis snd_conv)
  have "good w1 (snd (peer_Send (ce_env ce) p m w1))"
    using good_peer_Send [OF peer_ok_good [OF g ok] new_message_legit [OF n run_server_kind]] .
  then show ?thesis using n g good_trans by (auto simp: AgentConnected_def)
qed

lemma good_on_batch: "peer_ok w p \<Longrightarrow> good w (fst (on_batch ce p m (w, c)))"
  by (auto simp: on_batch_def Let_def good_send_own split: option.split sum.split prod.split)

lemma good_two_acks: "peer_ok w p \<Longrightarrow> good w (sendAck ce p ty rid n (sendAck ce p ty' rid n w))"
  using good_sendAck good_trans peer_ok_good by blast

lemma good_on_event: "peer_ok w p \<Longrightarrow> good w (fst (snd (on_event ce p m (w, c))))"
  by (auto simp: on_event_def Let_def good_sendAck good_two_acks split: prod.split sum.split)

lemma good_AgentMessage:
  assumes "peer_ok w p"
  shows "good w (fst (snd (AgentMessage ce p m (w, c))))"
proof -
  obtain h c1 where h: "gateways_Handle m c = (h, c1)" by fastforce
  obtain b c2 where b: "on_projects ce m c1 = (b, c2)" by fastforce
  show ?thesis
    using good_on_batch [OF assms, of ce m c1] good_on_event [OF assms, of ce m c1]
    by (simp add: AgentMessage_def h b)
qed

lemma good_AgentMessageForwarded: "peer_ok w p \<Longrightarrow> good w (fst (AgentMessageForwarded ce p m (w, c)))"
  by (simp add: AgentMessageForwarded_def Let_def good_two_acks)

lemma good_sendCommand: "peer_ok w p \<Longrightarrow> good w (fst (snd (sendCommand ce p cmd (w, c))))"
proof -
  assume "peer_ok w p"
  then have g: "send_own ce p ty trace j w = (ok, w1) \<Longrightarrow> good w w1" for ty trace j ok w1
    using good_send_own [of w p ce ty trace j] by simp
  show ?thesis
    by (auto simp: sendCommand_def Let_def dest: g split: option.split sum.split prod.split)
qed

lemma good_send_each: "peer_ok w p \<Longrightarrow> good w (fst (send_each ce p cmds (w, c)))"
proof (induction cmds arbitrary: w c)
  case (Cons cmd cmds)
  obtain ok w1 c1 where s: "sendCommand ce p cmd (w, c) = (ok, w1, c1)" by (metis prod_cases3)
  then have g: "good w w1" using good_sendCommand [OF Cons.prems, of ce cmd c] by simp
  then show ?case using s Cons.IH [OF peer_ok_good [OF g Cons.prems]] good_trans by (auto simp: Let_def)
qed simp

lemma good_dispatch:
  assumes "\<And>role p. registry_Peer role reg = Some p \<Longrightarrow> peer_ok w p"
  shows "good w (fst (dispatch ce reg (w, c)))"
  using assms good_send_each [of w _ ce]
  by (auto simp: dispatch_def Let_def split: option.split sum.split prod.split)

lemma good_conns_send:
  assumes "peer_ok w p" "good w w1" "new_message ev ty trace run_server j w1 = ((m, err), w2)"
    "peer_Send ev p m w2 = (r, w3)"
  shows "good w w3"
proof -
  have g: "good w w2" using assms(2,3) good_new_message [of w1 ev ty trace run_server j] good_trans by (metis snd_conv)
  then show ?thesis
    using good_peer_Send [OF peer_ok_good [OF g assms(1)] new_message_legit [OF assms(3) run_server_kind], of ev]
      assms(4) good_trans by (metis snd_conv)
qed

lemma good_draw_id: "good w (snd (draw_id w))"
  by (rule good_conns) (simp_all add: draw_id_def split_beta Let_def)

lemma good_Read_begin:
  assumes "\<And>role p. registry_Peer role reg = Some p \<Longrightarrow> peer_ok w p" "Read_begin ev reg q (w, g) = (r, w', g')"
  shows "good w w'"
proof (cases "registry_Peer RoleAgent reg")
  case (Some p)
  obtain t w1 where d: "draw_id w = (t, w1)" by fastforce
  then have g1: "good w w1" using good_draw_id [of w] by simp
  obtain m err w2 where n: "new_message ev TypeSourceRead t run_server (source_read_json q) w1 = ((m, err), w2)" by (metis surj_pair)
  then have g2: "good w w2" using g1 good_new_message good_trans by (metis snd_conv)
  obtain s w3 where snd: "peer_Send ev p m w2 = (s, w3)" by fastforce
  from good_conns_send [OF assms(1) [OF Some] g1 n snd] assms(2) Some d n snd g1 g2
  show ?thesis by (auto simp: Read_begin_def Let_def split: if_splits sum.splits)
qed (use assms(2) in \<open>simp add: Read_begin_def\<close>)

lemma good_List_begin:
  assumes "\<And>role p. registry_Peer role reg = Some p \<Longrightarrow> peer_ok w p" "List_begin ev reg pid (w, g) = (r, w', g')"
  shows "good w w'"
proof (cases "registry_Peer RoleAgent reg")
  case (Some p)
  obtain t w1 where d: "draw_id w = (t, w1)" by fastforce
  then have g1: "good w w1" using good_draw_id [of w] by simp
  obtain m err w2 where n: "new_message ev TypeExecutionProfileList t run_server (execution_profile_list_json pid) w1 = ((m, err), w2)"
    by (metis surj_pair)
  then have g2: "good w w2" using g1 good_new_message good_trans by (metis snd_conv)
  obtain s w3 where snd: "peer_Send ev p m w2 = (s, w3)" by fastforce
  from good_conns_send [OF assms(1) [OF Some] g1 n snd] assms(2) Some d n snd g1 g2
  show ?thesis by (auto simp: List_begin_def Let_def split: if_splits sum.splits)
qed (use assms(2) in \<open>simp add: List_begin_def\<close>)

lemma good_beside:
  assumes "beside ce reg st st'" "\<And>role p. registry_Peer role reg = Some p \<Longrightarrow> peer_ok (fst st) p"
  shows "good (fst st) (fst st')"
  using assms
proof (induction rule: beside.induct)
  case (dispatched st)
  then show ?case using good_dispatch [of reg "fst st" ce "snd st"] by simp
next
  case (source_asked c g q w r w' g')
  then show ?case using good_Read_begin [of reg w] by auto
next
  case (profiles_asked c h pid w r' w' h')
  then show ?case using good_List_begin [of reg w] by auto
next
  case (stored c db w' w)
  then show ?case by (simp add: good_conns)
qed simp_all

interpretation runtime: agent_observer "Some (coordinator ce)" "beside ce" for ce :: "'k coord_env"
proof unfold_locales
  fix ob w p r m fwd reg w' r'
  show "Some (coordinator ce) = Some ob \<Longrightarrow> peer_ok w p \<Longrightarrow> good w (fst (ob_connected ob p (w, r)))"
    by (auto simp: coordinator_def good_AgentConnected)
  show "Some (coordinator ce) = Some ob \<Longrightarrow> good w (fst (ob_disconnected ob p (w, r)))"
    by (auto simp: coordinator_def AgentDisconnected_def)
  show "Some (coordinator ce) = Some ob \<Longrightarrow> peer_ok w p \<Longrightarrow> good w (fst (snd (ob_message ob p m (w, r))))"
    by (auto simp: coordinator_def good_AgentMessage)
  show "Some (coordinator ce) = Some ob \<Longrightarrow> ob_forwarded ob = Some fwd \<Longrightarrow> peer_ok w p \<Longrightarrow> good w (fst (fwd p m (w, r)))"
    by (auto simp: coordinator_def good_AgentMessageForwarded)
  show "beside ce reg (w, r) (w', r') \<Longrightarrow> (\<And>role p. registry_Peer role reg = Some p \<Longrightarrow> peer_ok w p) \<Longrightarrow> good w w'"
    using good_beside [of ce reg "(w, r)" "(w', r')"] by simp
qed

end
