(* ===== verification/Coordinator_Properties.thy ===== *)
theory Coordinator_Properties
  imports Coordinator
begin

section \<open>What the coordinator guarantees\<close>

text \<open>
  The coordinator uses the store only through the store's own steps, so every state of the whole
  relay has the invariants of the connections and of the tables; it acknowledges an event as durable
  only when it is stored, or, for a run that is not Runtime's, was handed to the app; a run that was
  created reaches the agent as it was asked for; and the end of the agent's connection releases the
  requests that wait for it.
\<close>

subsection \<open>Calls of the store are steps of the store\<close>

lemma run_tx_steps:
  assumes "calm imp pg rc" "run_tx ErrDatabase flt body (rc_itf rc k db) = (r, db')"
    "\<And>a. run_tx ErrDatabase flt body (rc_itf rc k db) = (r, a) \<Longrightarrow> rt_step imp pg (rc_itf rc k db) a"
  shows "rt_steps imp pg db db'"
  using calm_steps [OF assms(1), of db k] assms(3) [OF assms(2)] by simp

lemma autocommit_steps:
  assumes "calm imp pg rc" "autocommit w f (rc_itf rc k db) = (r, db')"
    "\<And>a. autocommit w f (rc_itf rc k db) = (r, a) \<Longrightarrow> rt_step imp pg (rc_itf rc k db) a"
  shows "rt_steps imp pg db db'"
  using calm_steps [OF assms(1), of db k] assms(3) [OF assms(2)] by simp

lemma UpsertProjects_steps:
  "calm imp pg rc \<Longrightarrow> UpsertProjects rc ps db = (r, db') \<Longrightarrow> rt_steps imp pg db db'"
  unfolding UpsertProjects_def by (auto split: if_splits elim!: run_tx_steps intro: step_upsert)

lemma ClaimCommands_steps:
  "calm imp pg rc \<Longrightarrow> ClaimCommands rc locked wk n db = (r, db') \<Longrightarrow> rt_steps imp pg db db'"
  unfolding ClaimCommands_def Let_def by (erule run_tx_steps) (auto intro: step_claim)

lemma MarkCommandDelivered_steps:
  "calm imp pg rc \<Longrightarrow> MarkCommandDelivered rc cid db = (r, db') \<Longrightarrow> rt_steps imp pg db db'"
  unfolding MarkCommandDelivered_def by (erule autocommit_steps) (auto intro: step_deliver)

lemma ReleaseCommand_steps:
  "calm imp pg rc \<Longrightarrow> ReleaseCommand rc cid code db = (r, db') \<Longrightarrow> rt_steps imp pg db db'"
  unfolding ReleaseCommand_def by (erule autocommit_steps) (auto intro: step_release)

lemma ApplyBootstrapBatch_steps:
  assumes "calm True pg rc" "\<forall>r \<in> set (bb_Runs b). numbered r" "ApplyBootstrapBatch pg rc b db = (res, db')"
  shows "rt_steps True pg db db'"
proof -
  obtain q db1 where tx: "run_tx ErrDatabase (rc_flt rc 0) (batch_body pg (rc_now rc 0) b) (rc_itf rc 0 db) = (q, db1)"
    by (meson surj_pair)
  then have s: "rt_steps True pg db db1" by (rule run_tx_steps [OF assms(1)]) (rule step_import [OF TrueI assms(2)])
  have "db' = db1 \<or> db' = rc_itf rc 1 db1"
    using assms(3) tx by (auto simp: ApplyBootstrapBatch_def Let_def split: sum.splits)
  then show ?thesis using s calm_steps [OF assms(1)] by (metis rtranclp_trans)
qed

lemma item_events_numbers: "map bev_Sequence (item_events n t is) = [n..n + int (length is) - 1]"
  by (induction n t "is" rule: item_events.induct) (simp_all add: upto.simps)

lemma bootstrapBatch_numbered: "\<forall>r \<in> set (bb_Runs (bootstrapBatch p)). numbered r"
proof -
  have "length (item_events n t is) = length is" for n t "is"
    by (induction n t "is" rule: item_events.induct) simp_all
  then have "numbered (turn_run th sid turn)" for th sid turn
    by (simp add: numbered_def turn_run_def Let_def item_events_numbers upto_rec2)
  then show ?thesis by (auto simp: bootstrapBatch_def split: option.splits)
qed

subsection \<open>The state of an observer\<close>

text \<open>A relation on the observer's state that its callbacks and its background work respect holds along every run.\<close>

locale observed_state =
  fixes ob :: "'r observer" and bg :: "registry \<Rightarrow> world \<times> 'r \<Rightarrow> world \<times> 'r \<Rightarrow> bool"
    and R :: "'r \<Rightarrow> 'r \<Rightarrow> bool"
  assumes R_refl: "R r r" and R_trans: "R r r' \<Longrightarrow> R r' r'' \<Longrightarrow> R r r''"
    and connected_R: "R r (snd (ob_connected ob p (w, r)))"
    and disconnected_R: "R r (snd (ob_disconnected ob p (w, r)))"
    and message_R: "R r (snd (snd (ob_message ob p m (w, r))))"
    and forwarded_R: "ob_forwarded ob = Some fwd \<Longrightarrow> R r (snd (fwd p m (w, r)))"
    and background_R: "bg reg (w, r) (w', r') \<Longrightarrow> R r r'"
begin

lemma Connect_R: "R (rl_rt s) (rl_rt (Connect ev (Some ob) p s))"
proof -
  have "R (rl_rt s) rt" if "(if pe_role p = RoleAgent then ob_connected ob p (w, rl_rt s) else (w, rl_rt s)) = (w', rt)" for w w' rt
    using that connected_R [of "rl_rt s" p w] R_refl by (auto split: if_splits)
  then show ?thesis by (simp add: Connect_def Let_def split: prod.split)
qed

lemma Disconnect_R: "R (rl_rt s) (rl_rt (Disconnect ev (Some ob) p s))"
  using disconnected_R [of "rl_rt s" p "rl_world s"] R_refl
  by (auto simp: Disconnect_def Let_def split: prod.split)

lemma forward_R: "R (rl_rt s) (rl_rt (forward ev (Some ob) p m s))"
proof -
  have "R (rl_rt s) rt" if "ob_forwarded ob = Some fwd" "fwd p m (w, rl_rt s) = (w', rt)" for fwd w w' rt
    using that forwarded_R [OF that(1), of "rl_rt s" p m w] by simp
  then show ?thesis
    using R_refl by (auto simp: forward_def Let_def split: option.split prod.split sum.split)
qed

lemma Handle_R: "R (rl_rt s) (rl_rt (Handle ev (Some ob) p m s))"
proof -
  let ?m = "m\<lparr>m_sender := CanonicalSender (pe_role p)\<rparr>"
  obtain b w1 rt where om: "ob_message ob p ?m (rl_world s, rl_rt s) = (b, w1, rt)" by (metis prod_cases3)
  have m: "R (rl_rt s) rt" using message_R [of "rl_rt s" p ?m "rl_world s"] om by simp
  have "R rt (rl_rt (forward ev (Some ob) p ?m (s\<lparr>rl_world := w1, rl_rt := rt\<rparr>)))"
    using forward_R [of "s\<lparr>rl_world := w1, rl_rt := rt\<rparr>" ev p ?m] by simp
  from R_trans [OF m this] show ?thesis
    using m forward_R [of s ev p ?m] R_refl om
    by (cases "pe_role p = RoleAgent") (simp_all add: Handle_def Let_def)
qed

lemma step_R: "relay_step ev (Some ob) bg n s s' \<Longrightarrow> R (rl_rt s) (rl_rt s')"
proof (induction rule: relay_step.induct)
  case (opened role s)
  then show ?case
    using Connect_R [of "s\<lparr>rl_world := snd (accept_peer n role (rl_world s))\<rparr>" ev]
    by (simp add: ServeRole_open_def split_beta)
next
  case (framed s p describe fr)
  then show ?case using R_refl Handle_R by (auto simp: ServeRole_frame_def split: frame.split sum.split)
next
  case (ended s p)
  then show ?case
    using Disconnect_R [of "s\<lparr>rl_world := peer_Close p ''connection ended'' (rl_world s)\<rparr>" ev p] by (simp add: ServeRole_end_def)
next
  case (closing s reason)
  then show ?case by (simp add: close_all_def R_refl split_beta Let_def)
next
  case (background s w rt)
  then show ?case using background_R by simp
qed (simp add: R_refl)

lemma steps_R: "relay_steps ev (Some ob) bg n s s' \<Longrightarrow> R (rl_rt s) (rl_rt s')"
  by (induction rule: relay_steps.induct) (auto intro: R_refl R_trans step_R)

end

subsection \<open>The coordinator's store\<close>

definition calm_env :: "bool \<Rightarrow> 'k coord_env \<Rightarrow> bool" where
  "calm_env imp ce \<longleftrightarrow> (\<forall>n. calm imp (ce_pg ce) (ce_call ce n))"

text \<open>The tables move by steps of the store.\<close>

definition db_moves :: "bool \<Rightarrow> 'k coord_env \<Rightarrow> 'k coord \<Rightarrow> 'k coord \<Rightarrow> bool" where
  "db_moves imp ce c c' \<longleftrightarrow> (calm_env imp ce \<longrightarrow> rt_steps imp (ce_pg ce) (co_db c) (co_db c'))"

lemma db_moves_refl [simp]: "db_moves imp ce c c"
  by (simp add: db_moves_def)

lemma db_moves_trans: "db_moves imp ce a b \<Longrightarrow> db_moves imp ce b c \<Longrightarrow> db_moves imp ce a c"
  unfolding db_moves_def by (meson rtranclp_trans)

lemma db_moves_same: "co_db c' = co_db c \<Longrightarrow> db_moves imp ce c c'"
  by (simp add: db_moves_def)

lemma db_moves_call:
  assumes "store_call ce f c = (r, c')"
    and "\<And>rc db r db'. calm imp (ce_pg ce) rc \<Longrightarrow> f rc db = (r, db') \<Longrightarrow> rt_steps imp (ce_pg ce) db db'"
  shows "db_moves imp ce c c'"
proof -
  obtain a db where f: "f (ce_call ce (co_calls c)) (co_db c) = (a, db)" by fastforce
  then have "co_db c' = db" using assms(1) by (auto simp: store_call_def)
  then show ?thesis using assms(2) [OF _ f] by (simp add: db_moves_def calm_env_def)
qed

lemma co_db_broker [simp]: "co_db (snd (broker_call f c)) = co_db c"
  by (simp add: broker_call_def split_beta Let_def)

lemma co_db_broker_eq: "broker_call f c = (r, c') \<Longrightarrow> co_db c' = co_db c"
  by (auto simp: broker_call_def split_beta Let_def)

lemma co_db_presence [simp]: "co_db (set_presence ce b c) = co_db c"
  by (simp add: set_presence_def)

lemma co_db_notify [simp]: "co_db (notify_stored ce rid sid c) = co_db c"
  by (simp add: notify_stored_def Let_def split: option.split)

lemma co_db_gateways: "gateways_Handle m c = (b, c') \<Longrightarrow> co_db c' = co_db c"
  by (auto simp: gateways_Handle_def Let_def split: option.splits prod.splits if_splits)

lemma moves_mark: "db_moves imp ce c (snd (mark_delivered ce cid c))"
  unfolding mark_delivered_def by (rule db_moves_call [OF prod.collapse [symmetric]]) (rule MarkCommandDelivered_steps)

lemma moves_owns: "ownsRuntimeRun ce rid c = (b, c') \<Longrightarrow> db_moves imp ce c c'"
proof -
  assume o: "ownsRuntimeRun ce rid c = (b, c')"
  obtain r c1 where s: "store_call ce (\<lambda>rc. GetRun rc 0 rid False) c = (r, c1)" by fastforce
  have "db_moves imp ce c c1" by (rule db_moves_call [OF s]) (rule GetRun_steps)
  moreover have "co_db c' = co_db c \<or> co_db c' = co_db c1"
    using o s by (auto simp: ownsRuntimeRun_def split: if_splits sum.splits)
  ultimately show ?thesis by (auto simp: db_moves_def)
qed

lemma moves_store_event: "store_event ce rid m c = (r, c') \<Longrightarrow> db_moves imp ce c c'"
  unfolding store_event_def by (erule db_moves_call) (rule AppendAgentEvent_steps)

lemma moves_accept: "db_moves imp ce c (accept_command ce m c)"
  by (simp add: accept_command_def Let_def moves_mark)

lemma moves_on_event: "on_event ce p m (w, c) = (b, w', c') \<Longrightarrow> db_moves imp ce c c'"
proof -
  assume e: "on_event ce p m (w, c) = (b, w', c')"
  obtain owned c1 where o: "ownsRuntimeRun ce (m_trace_id m) c = (owned, c1)" by fastforce
  obtain r c2 where a: "broker_call (br_AppendRunEvent (ce_broker ce) (m_trace_id m) (message_event m)) c1 = (r, c2)" by fastforce
  obtain res c3 where s: "store_event ce (m_trace_id m) m c2 = (res, c3)" by fastforce
  have m1: "db_moves imp ce c c1" using moves_owns [OF o] .
  have "db_moves imp ce c1 c2" using co_db_broker_eq [OF a] by (rule db_moves_same)
  then have m2: "db_moves imp ce c c2" using m1 db_moves_trans by blast
  then have m3: "db_moves imp ce c c3" using moves_store_event [OF s] db_moves_trans by blast
  have m4: "db_moves imp ce c (accept_command ce m (notify_stored ce (m_trace_id m) sid c3))" for sid
    using db_moves_trans [OF db_moves_trans [OF m3 db_moves_same] moves_accept] by simp
  have "c' \<in> {c, c1, c2, c3} \<or> (\<exists>sid. c' = accept_command ce m (notify_stored ce (m_trace_id m) sid c3))"
    using e o a s by (auto simp: on_event_def Let_def split: if_splits sum.splits)
  then show ?thesis using m1 m2 m3 m4 by auto
qed

lemma moves_on_batch: "on_batch ce p m (w, c) = (w', c') \<Longrightarrow> db_moves True ce c c'"
proof -
  assume e: "on_batch ce p m (w, c) = (w', c')"
  have st: "db_moves True ce c c1" if "store_call ce (\<lambda>rc. ApplyBootstrapBatch (ce_pg ce) rc (bootstrapBatch q)) c = (r, c1)" for q r c1
    by (rule db_moves_call [OF that]) (rule ApplyBootstrapBatch_steps [OF _ bootstrapBatch_numbered])
  show ?thesis
    using e st db_moves_trans [OF st moves_mark]
    by (auto simp: on_batch_def Let_def split: option.splits if_splits prod.splits sum.splits)
qed

lemma moves_AgentMessage: "db_moves True ce c (snd (snd (AgentMessage ce p m (w, c))))"
proof -
  obtain h c1 where h: "gateways_Handle m c = (h, c1)" by fastforce
  obtain b c2 where b: "on_projects ce m c1 = (b, c2)" by fastforce
  obtain b3 w3 c3 where e: "on_event ce p m (w, c1) = (b3, w3, c3)" by (metis prod_cases3)
  obtain w4 c4 where t: "on_batch ce p m (w, c1) = (w4, c4)" by fastforce
  have m1: "db_moves True ce c c1" using co_db_gateways [OF h] by (rule db_moves_same)
  have "db_moves True ce c1 (snd (store_call ce (\<lambda>rc. UpsertProjects rc ps) c1))" for ps
    by (rule db_moves_call [OF prod.collapse [symmetric]]) (rule UpsertProjects_steps)
  then have "db_moves True ce c1 c2"
    using b by (auto simp: on_projects_def split: if_splits option.splits)
  then have m2: "db_moves True ce c c2" using m1 db_moves_trans by blast
  have m3: "db_moves True ce c c3" using m1 moves_on_event [OF e] db_moves_trans by blast
  have m4: "db_moves True ce c c4" using m1 moves_on_batch [OF t] db_moves_trans by blast
  have m5: "db_moves True ce c (set_presence ce True c1)"
    by (rule db_moves_trans [OF m1 db_moves_same]) simp
  show ?thesis using m1 m2 m3 m4 m5 by (simp add: AgentMessage_def h b e t)
qed

lemma moves_read: "read_call ce f c = (r, c') \<Longrightarrow> db_moves imp ce c c'"
  unfolding read_call_def by (erule db_moves_call) (auto simp: Let_def calm_steps)

lemma moves_job: "sync_job_of ce jid c = (r, c') \<Longrightarrow> db_moves imp ce c c'"
  unfolding sync_job_of_def by (rule moves_read)

lemma moves_sendCommand: "sendCommand ce p cmd (w, c) = (ok, w', c') \<Longrightarrow> db_moves imp ce c c'"
proof -
  assume s: "sendCommand ce p cmd (w, c) = (ok, w', c')"
  obtain j c1 where j: "sync_job_of ce (command_ResourceID cmd) c = (j, c1)" by fastforce
  obtain r2 c2 where d2: "mark_delivered ce (command_ID cmd) c = (r2, c2)" by fastforce
  obtain r3 c3 where d3: "mark_delivered ce (command_ID cmd) c1 = (r3, c3)" by fastforce
  have m1: "db_moves imp ce c c1" using moves_job [OF j] .
  have m2: "db_moves imp ce c c2" using moves_mark [of imp ce c] d2 by (metis snd_conv)
  have "db_moves imp ce c1 c3" using moves_mark [of imp ce c1] d3 by (metis snd_conv)
  then have m3: "db_moves imp ce c c3" by (rule db_moves_trans [OF m1])
  have "c' \<in> {c, c1, c2, c3}"
    using s by (auto simp: sendCommand_def Let_def j d2 d3 split: if_splits option.splits prod.splits sum.splits)
  then show ?thesis using m1 m2 m3 by auto
qed

lemma moves_send_each: "db_moves imp ce c (snd (send_each ce p cmds (w, c)))"
proof (induction cmds arbitrary: w c)
  case (Cons cmd cmds)
  obtain ok w1 c1 where s: "sendCommand ce p cmd (w, c) = (ok, w1, c1)" by (metis prod_cases3)
  let ?f = "\<lambda>rc. ReleaseCommand rc (command_ID cmd) ''AGENT_SEND_FAILED''"
  have "db_moves imp ce c1 (snd (store_call ce ?f c1))"
    by (rule db_moves_call [OF prod.collapse [symmetric]]) (rule ReleaseCommand_steps)
  then have m: "db_moves imp ce c (if ok then c1 else snd (store_call ce ?f c1))"
    using moves_sendCommand [OF s] db_moves_trans [OF moves_sendCommand [OF s]] by simp
  show ?case using db_moves_trans [OF m Cons.IH [where w = w1]] by (simp add: s)
qed simp

lemma moves_dispatch: "db_moves imp ce (snd st) (snd (dispatch ce reg st))"
proof -
  obtain w c where st: "st = (w, c)" by fastforce
  obtain r c1 where s: "store_call ce (\<lambda>rc. ClaimCommands rc (ce_locked ce (co_calls c)) (ce_workerID ce) 8) c = (r, c1)" by fastforce
  have m: "db_moves imp ce c c1" by (rule db_moves_call [OF s]) (rule ClaimCommands_steps)
  then show ?thesis
    using db_moves_trans [OF m moves_send_each] by (auto simp: dispatch_def st s split: option.split sum.split)
qed

lemma moves_beside: "beside ce reg st st' \<Longrightarrow> db_moves True ce (snd st) (snd st')"
proof (induction rule: beside.induct)
  case (dispatched st)
  show ?case by (rule moves_dispatch)
next
  case (stored c db w' w)
  then show ?case by (simp add: db_moves_def)
qed (simp_all add: db_moves_same presence_tick_def coord_Close_def)

interpretation tables: observed_state "coordinator ce" "beside ce" "db_moves True ce" for ce :: "'k coord_env"
proof unfold_locales
  fix r r' r'' :: "'k coord" and p w m fwd reg w'
  show "db_moves True ce r r" by simp
  show "db_moves True ce r r' \<Longrightarrow> db_moves True ce r' r'' \<Longrightarrow> db_moves True ce r r''" by (rule db_moves_trans)
  show "db_moves True ce r (snd (ob_connected (coordinator ce) p (w, r)))"
    by (rule db_moves_same) (simp add: coordinator_def AgentConnected_def split: prod.split)
  show "db_moves True ce r (snd (ob_disconnected (coordinator ce) p (w, r)))"
    by (rule db_moves_same) (simp add: coordinator_def AgentDisconnected_def)
  show "db_moves True ce r (snd (snd (ob_message (coordinator ce) p m (w, r))))"
    by (simp add: coordinator_def moves_AgentMessage)
  show "ob_forwarded (coordinator ce) = Some fwd \<Longrightarrow> db_moves True ce r (snd (fwd p m (w, r)))"
    by (auto simp: coordinator_def AgentMessageForwarded_def Let_def)
  show "beside ce reg (w, r) (w', r') \<Longrightarrow> db_moves True ce r r'"
    using moves_beside [of ce reg "(w, r)" "(w', r')"] by simp
qed

text \<open>A relay that has just started: no connection, an empty registry.\<close>

definition fresh_relay :: "'r relay \<Rightarrow> bool" where
  "fresh_relay s \<longleftrightarrow> rl_reg s = NewRegistry \<and> wd_conns (rl_world s) = (\<lambda>_. None)"

lemma fresh_relay_inv: "fresh_relay s \<Longrightarrow> relay_inv s"
  using wf_NewRegistry
  by (simp add: fresh_relay_def relay_inv_def wf_world_def legit_world_def registry_Peer_def NewRegistry_def AgentState_def)

text \<open>
  Property C8. The whole relay with Runtime, whatever the app and the agent send, however their
  connections come and go, whatever the HTTP API does meanwhile and whichever database round trips
  are lost: no queue exceeds its capacity; every message queued for or written to an app is the
  relay's own or one the agent may send, under the agent's canonical sender, and the other way round
  for the agent; and the tables are in a state that the store's own steps reach from the empty tables,
  so every invariant of the store holds in them.
\<close>

theorem relay_system_invariant:
  assumes "\<forall>n. calm True (ce_pg ce) (ce_call ce n)" "fresh_relay s0" "rt_steps True (ce_pg ce) empty_db (co_db (rl_rt s0))"
    and "relay_steps ev (Some (coordinator ce)) (beside ce) queueSize s0 s"
  shows "(\<forall>i c. wd_conns (rl_world s) i = Some c \<longrightarrow> length (cn_queue c) \<le> cn_cap c \<and>
      (\<forall>m \<in> set (cn_queue c) \<union> set (cn_written c). se_kind (m_sender m) = ''relay'' \<or>
        cn_role c = RoleApp \<and> AllowedFrom RoleAgent (m_type m) \<and> m_sender m = CanonicalSender RoleAgent \<or>
        cn_role c = RoleAgent \<and> AllowedFrom RoleApp (m_type m) \<and> m_sender m = CanonicalSender RoleApp)) \<and>
    rt_steps True (ce_pg ce) empty_db (co_db (rl_rt s)) \<and> rt_inv (co_db (rl_rt s))"
proof -
  have inv: "relay_inv s" using runtime.steps_inv [OF assms(4) fresh_relay_inv [OF assms(2)]] .
  have "db_moves True ce (rl_rt s0) (rl_rt s)" using tables.steps_R [OF assms(4)] .
  then have db: "rt_steps True (ce_pg ce) empty_db (co_db (rl_rt s))"
    using assms(1,3) unfolding db_moves_def calm_env_def by (meson rtranclp_trans)
  have "length (cn_queue c) \<le> cn_cap c \<and> (\<forall>m \<in> outgoing c. legit (cn_role c) m)" if "wd_conns (rl_world s) i = Some c" for i c
    using that inv unfolding relay_inv_def wf_world_def legit_world_def wf_conn_def by blast
  then show ?thesis using db reachable_inv [OF db]
    by (simp add: outgoing_def legit_def AllowedFrom_def role_defs)
qed

subsection \<open>Acknowledgements\<close>

lemma send_own_cases:
  assumes "send_own ce p ty trace j w = (ok, w')"
  shows "\<not> ok \<and> inbox w' = inbox w \<or>
    ok \<and> (\<exists>m. m_type m = ty \<and> m_payload m = Some j \<and> (trace \<noteq> [] \<longrightarrow> m_trace_id m = trace) \<and>
      inbox w' = (inbox w)(pe_id p := inbox w (pe_id p) @ [m]))"
proof -
  obtain m err w1 where n: "new_message (ce_env ce) ty trace run_server j w = ((m, err), w1)" by (metis surj_pair)
  have w1: "inbox w1 = inbox w"
    using new_message_conns [of "ce_env ce" ty trace run_server j w] n by (simp add: inbox_def fun_eq_iff)
  obtain r w2 where s: "peer_Send (ce_env ce) p m w1 = (r, w2)" by fastforce
  show ?thesis
  proof (cases "err = None")
    case True
    then have w': "w' = w2" and ok: "ok = (r = Inr ())" using assms n s by (auto simp: send_own_def)
    show ?thesis
    proof (cases r)
      case (Inl e)
      then show ?thesis using w' ok w1 ws.send_err s by simp
    next
      case (Inr u)
      then have "inbox w' = (inbox w)(pe_id p := inbox w (pe_id p) @ [m])"
        using w' w1 ws.send_ok [of "ce_env ce" p m w1 w2] s by simp
      then show ?thesis using Inr ok new_message_fields(1,3,4) [OF n] by (intro disjI2 conjI exI [of _ m]) simp_all
    qed
  qed (use assms n w1 in \<open>auto simp: send_own_def\<close>)
qed

definition ack_of :: "message \<Rightarrow> message \<Rightarrow> bool" where
  "ack_of m a \<longleftrightarrow> m_payload a = Some (runtime_ack_json (m_trace_id m) (m_agent_sequence m))
     \<and> m_type a \<in> {TypeRuntimeReceivedAck, TypeRuntimeDurableAck}"

text \<open>The messages that an ack adds to the agent's queue: none when the queue is full or closed.\<close>

lemma sendAck_cases:
  assumes "ty \<in> {TypeRuntimeReceivedAck, TypeRuntimeDurableAck}"
  obtains acks where "inbox (sendAck ce p ty (m_trace_id m) (m_agent_sequence m) w) =
      (inbox w)(pe_id p := inbox w (pe_id p) @ acks)" "\<forall>a \<in> set acks. ack_of m a \<and> m_type a = ty"
proof -
  let ?j = "runtime_ack_json (m_trace_id m) (m_agent_sequence m)"
  obtain ok w' where s: "send_own ce p ty (m_trace_id m) ?j w = (ok, w')" by fastforce
  have "\<exists>acks. inbox w' = (inbox w)(pe_id p := inbox w (pe_id p) @ acks) \<and> (\<forall>a \<in> set acks. ack_of m a \<and> m_type a = ty)"
    using send_own_cases [OF s]
  proof (elim disjE conjE exE)
    assume "inbox w' = inbox w"
    then show ?thesis by (intro exI [of _ "[]"]) simp
  next
    fix a assume "m_type a = ty" "m_payload a = Some ?j" "inbox w' = (inbox w)(pe_id p := inbox w (pe_id p) @ [a])"
    then show ?thesis using assms by (intro exI [of _ "[a]"]) (simp add: ack_of_def)
  qed
  with that show thesis by (auto simp: sendAck_def s)
qed

lemma ack_types: "TypeRuntimeReceivedAck \<noteq> TypeRuntimeDurableAck"
  by (simp add: type_defs)

text \<open>
  A successful append leaves the event in the tables; only a bootstrap import of another connection, right after the
  commit, can take it out again.
\<close>

definition passed_with :: "bool \<Rightarrow> pgsql \<Rightarrow> string \<Rightarrow> int \<Rightarrow> rt_db \<Rightarrow> rt_db \<Rightarrow> bool" where
  "passed_with imp pg rid n db db' \<longleftrightarrow>
     (\<exists>db0. rt_steps imp pg db db0 \<and> has_event rid n db0 \<and> rt_steps imp pg db0 db')"

lemma passed_with_after: "passed_with imp pg rid n db db1 \<Longrightarrow> rt_steps imp pg db1 db2 \<Longrightarrow> passed_with imp pg rid n db db2"
  unfolding passed_with_def by (meson rtranclp_trans)

lemma passed_with_before: "rt_steps imp pg db0 db \<Longrightarrow> passed_with imp pg rid n db db1 \<Longrightarrow> passed_with imp pg rid n db0 db1"
  unfolding passed_with_def by (meson rtranclp_trans)

lemma passed_with_kept: "passed_with False pg rid n db db' \<Longrightarrow> has_event rid n db'"
  unfolding passed_with_def using has_event_grown rt_steps_grown by blast

lemma AppendAgentEvent_passed:
  assumes "calm imp pg rc" "AppendAgentEvent pg rc rid n ty p t db = (Inr item, db')"
  shows "passed_with imp pg rid n db db'"
proof -
  let ?when = "case parse_rfc3339 t of Some t \<Rightarrow> t | None \<Rightarrow> rc_clock rc"
  obtain b db1 where tx: "run_tx ErrDatabase (rc_flt rc 0) (append_body pg (rc_now rc 0) ?when rid n ty p) (rc_itf rc 0 db) = (b, db1)"
    by (meson surj_pair)
  then obtain x where b: "b = Inr x" and get: "GetRun rc 1 rid False db1 = (Inr item, db')"
    using assms(2) by (cases b) (auto simp: AppendAgentEvent_def Let_def)
  have "rt_steps imp pg db db1" using run_tx_steps [OF assms(1) tx] step_append by blast
  moreover have "has_event rid n db1" using run_tx_post [OF append_body_has_event _ tx [unfolded b]] by simp
  ultimately show ?thesis using GetRun_steps [OF assms(1) get] unfolding passed_with_def by blast
qed

lemma store_event_passed:
  assumes "calm_env imp ce" "store_event ce rid m c = (Inr run, c')"
  shows "passed_with imp (ce_pg ce) rid (m_agent_sequence m) (co_db c) (co_db c')"
proof -
  let ?ev = "message_event m"
  obtain res db where a: "AppendAgentEvent (ce_pg ce) (ce_call ce (co_calls c)) rid (m_agent_sequence m)
      (revent_Type ?ev) (revent_Payload ?ev) (format_rfc3339nano (m_occurred_at m)) (co_db c) = (res, db)" by fastforce
  then have "res = Inr run" "co_db c' = db" using assms(2) by (auto simp: store_event_def store_call_def)
  with a show ?thesis using AppendAgentEvent_passed [of imp "ce_pg ce" "ce_call ce (co_calls c)"] assms(1)
    by (simp add: calm_env_def)
qed

text \<open>The lookup answers that Runtime does not own the run: it is not cached, and not in the tables the lookup reads.\<close>

definition unowned :: "'k coord_env \<Rightarrow> string \<Rightarrow> 'k coord \<Rightarrow> bool" where
  "unowned ce rid c \<longleftrightarrow> rid \<notin> set (co_runIDs c) \<and>
     (\<forall>r \<in> set (runs (rc_itf (ce_call ce (co_calls c)) 0 (co_db c))). rn_id r \<noteq> rid)"

lemma ownsRuntimeRun_False: "ownsRuntimeRun ce rid c = (False, c') \<Longrightarrow> unowned ce rid c"
  by (auto simp: ownsRuntimeRun_def unowned_def store_call_def GetRun_def pool_query_def run_by_id_def Let_def by_key_None
      split: if_splits option.splits sum.splits)

lemma on_event_cases:
  assumes "on_event ce p m (w, c) = (b, w', c')"
  defines "w1 \<equiv> sendAck ce p TypeRuntimeReceivedAck (m_trace_id m) (m_agent_sequence m) w"
  obtains (early) "w' = w" "b \<or> unowned ce (m_trace_id m) c" | (received) "w' = w1" "b"
  | (durable) run c1 c2 c3 where "b" "ownsRuntimeRun ce (m_trace_id m) c = (True, c1)" "co_db c2 = co_db c1"
      "store_event ce (m_trace_id m) m c2 = (Inr run, c3)"
      "w' = sendAck ce p TypeRuntimeDurableAck (m_trace_id m) (m_agent_sequence m) w1"
      "c' = accept_command ce m (notify_stored ce (m_trace_id m) (run_SessionID run) c3)"
proof -
  obtain owned c1 where o: "ownsRuntimeRun ce (m_trace_id m) c = (owned, c1)" by fastforce
  obtain r c2 where br: "broker_call (br_AppendRunEvent (ce_broker ce) (m_trace_id m) (message_event m)) c1 = (r, c2)"
    by fastforce
  obtain res c3 where st: "store_event ce (m_trace_id m) m c2 = (res, c3)" by fastforce
  note e = assms(1) [unfolded on_event_def Let_def prod.case o br st w1_def [symmetric]]
  show thesis
  proof (cases "m_agent_sequence m < 1 \<or> \<not> owned \<or> (\<exists>x. r = Inl x)")
    case True
    then have "w' = w" "b \<or> \<not> owned" using e by (auto split: if_splits)
    then show thesis using early ownsRuntimeRun_False [of ce "m_trace_id m" c c1] o by auto
  next
    case False
    then obtain u where r: "r = Inr u" by (cases r) auto
    have ow: "owned" and n: "\<not> m_agent_sequence m < 1" using False by auto
    show thesis
    proof (cases res)
      case (Inl x)
      then show thesis using e r ow n received by simp
    next
      case (Inr run)
      then show thesis using e r ow n o co_db_broker_eq [OF br] st by (intro durable [of c1 c2 run c3]) simp_all
    qed
  qed
qed

lemma on_event_acks:
  assumes calm: "calm_env imp ce" and e: "on_event ce p m (w, c) = (b, w', c')"
  shows "\<exists>acks. inbox w' = (inbox w)(pe_id p := inbox w (pe_id p) @ acks) \<and> (\<forall>a \<in> set acks. ack_of m a) \<and>
    ((\<exists>a \<in> set acks. m_type a = TypeRuntimeDurableAck) \<longrightarrow>
       passed_with imp (ce_pg ce) (m_trace_id m) (m_agent_sequence m) (co_db c) (co_db c')) \<and>
    (\<not> b \<longrightarrow> inbox w' = inbox w \<and> unowned ce (m_trace_id m) c)"
  using e
proof (cases rule: on_event_cases)
  case early
  then show ?thesis by (intro exI [of _ "[]"]) auto
next
  case received
  obtain acks where "inbox w' = (inbox w)(pe_id p := inbox w (pe_id p) @ acks)"
    "\<forall>a \<in> set acks. ack_of m a \<and> m_type a = TypeRuntimeReceivedAck"
    using sendAck_cases [of TypeRuntimeReceivedAck ce p m w] received by auto
  then show ?thesis using ack_types received(2) by (intro exI [of _ acks]) auto
next
  case (durable run c1 c2 c3)
  obtain as1 where a1: "inbox (sendAck ce p TypeRuntimeReceivedAck (m_trace_id m) (m_agent_sequence m) w) =
      (inbox w)(pe_id p := inbox w (pe_id p) @ as1)" "\<forall>a \<in> set as1. ack_of m a \<and> m_type a = TypeRuntimeReceivedAck"
    using sendAck_cases [of TypeRuntimeReceivedAck ce p m w] by auto
  obtain as2 where a2: "inbox w' = (inbox w)(pe_id p := inbox w (pe_id p) @ as1 @ as2)"
      "\<forall>a \<in> set as2. ack_of m a \<and> m_type a = TypeRuntimeDurableAck"
    using sendAck_cases [of TypeRuntimeDurableAck ce p m "sendAck ce p TypeRuntimeReceivedAck (m_trace_id m) (m_agent_sequence m) w"]
      durable(5) a1(1) by auto
  have "rt_steps imp (ce_pg ce) (co_db c) (co_db c2)"
    using moves_owns [OF durable(2), of imp] calm durable(3) by (simp add: db_moves_def)
  moreover have "rt_steps imp (ce_pg ce) (co_db c3) (co_db c')"
    using moves_accept [of imp ce "notify_stored ce (m_trace_id m) (run_SessionID run) c3" m] calm durable(6)
    by (simp add: db_moves_def)
  ultimately have "passed_with imp (ce_pg ce) (m_trace_id m) (m_agent_sequence m) (co_db c) (co_db c')"
    using passed_with_after [OF passed_with_before [OF _ store_event_passed [OF calm durable(4)]]] by blast
  then show ?thesis using a1(2) a2 durable(1) by (intro exI [of _ "as1 @ as2"]) auto
qed

lemma durable_not_gateway:
  assumes "durableRuntimeMessage (m_type m)"
  shows "gateways_Handle m c = (False, c)"
proof -
  have "source_Handle m g = (False, g)" "profiles_Handle m h = (False, h)" for g h
    using assms by (auto simp: source_Handle_def profiles_Handle_def durableRuntimeMessage_def durable_types_def type_defs)
  then show ?thesis by (simp add: gateways_Handle_def split: option.split)
qed

lemma durable_allowed: "durableRuntimeMessage ty \<Longrightarrow> AllowedFrom RoleAgent ty"
  by (auto simp: durableRuntimeMessage_def durable_types_def AllowedFrom_def agent_types_def role_defs)

lemma AgentMessage_durable:
  assumes "durableRuntimeMessage (m_type m)"
  shows "AgentMessage ce p m (w, c) = on_event ce p m (w, c)"
proof -
  have "m_type m \<notin> {TypeAgentHello, TypeAgentStatus, TypeAgentCapabilities, TypeProjectSnapshot, TypeBootstrapBatch}"
    using assms by (auto simp: durableRuntimeMessage_def durable_types_def type_defs)
  then show ?thesis using assms by (simp add: AgentMessage_def durable_not_gateway)
qed

text \<open>A forwarded event is acknowledged after it is in the app's queue.\<close>

lemma forward_acks:
  fixes ev :: env and ce :: "'k coord_env"
  assumes role: "pe_role p = RoleAgent" and d: "durableRuntimeMessage (m_type m)"
    and app: "\<And>app. registry_Peer RoleApp (rl_reg s) = Some app \<Longrightarrow> pe_id app \<noteq> pe_id p"
  defines "s' \<equiv> forward ev (Some (coordinator ce)) p m s"
  shows "\<exists>acks. inbox (rl_world s') (pe_id p) = inbox (rl_world s) (pe_id p) @ acks \<and> (\<forall>a \<in> set acks. ack_of m a) \<and>
    (acks \<noteq> [] \<longrightarrow> (\<exists>app. registry_Peer RoleApp (rl_reg s) = Some app \<and>
       inbox (rl_world s') (pe_id app) = inbox (rl_world s) (pe_id app) @ [m]))"
proof (cases "registry_Peer RoleApp (rl_reg s)")
  case None
  then have "rl_world s' = rl_world s" using role by (simp add: s'_def forward_def Let_def role_defs)
  then show ?thesis by (intro exI [of _ "[]"]) simp
next
  case (Some q)
  obtain r w1 where snd: "peer_Send ev q m (rl_world s) = (r, w1)" by fastforce
  show ?thesis
  proof (cases r)
    case (Inl err)
    then have "rl_world s' = peer_Close q ''send queue full'' w1"
      using role Some snd by (simp add: s'_def forward_def Let_def role_defs)
    then show ?thesis using ws.close_box ws.send_err [of ev q m "rl_world s" err w1] snd Inl
      by (intro exI [of _ "[]"]) simp
  next
    case (Inr u)
    then have w1: "inbox w1 = (inbox (rl_world s))(pe_id q := inbox (rl_world s) (pe_id q) @ [m])"
      using ws.send_ok [of ev q m "rl_world s" w1] snd by simp
    have s': "rl_world s' = fst (AgentMessageForwarded ce p m (w1, rl_rt s))"
      using role Some snd Inr by (simp add: s'_def forward_def coordinator_def Let_def role_defs split: prod.split)
    show ?thesis
    proof (cases "m_agent_sequence m < 1")
      case True
      then have "rl_world s' = w1" using s' by (simp add: AgentMessageForwarded_def)
      then show ?thesis using w1 app [OF Some] by (intro exI [of _ "[]"]) simp
    next
      case False
      let ?w2 = "sendAck ce p TypeRuntimeReceivedAck (m_trace_id m) (m_agent_sequence m) w1"
      obtain as1 where a1: "inbox ?w2 = (inbox w1)(pe_id p := inbox w1 (pe_id p) @ as1)" "\<forall>a \<in> set as1. ack_of m a"
        by (rule sendAck_cases [of TypeRuntimeReceivedAck ce p m w1]) auto
      obtain as2 where a2: "inbox (rl_world s') = (inbox ?w2)(pe_id p := inbox ?w2 (pe_id p) @ as2)" "\<forall>a \<in> set as2. ack_of m a"
        by (rule sendAck_cases [of TypeRuntimeDurableAck ce p m ?w2])
          (use s' False d in \<open>auto simp: AgentMessageForwarded_def Let_def\<close>)
      have "inbox (rl_world s') (pe_id p) = inbox (rl_world s) (pe_id p) @ as1 @ as2"
        "inbox (rl_world s') (pe_id q) = inbox (rl_world s) (pe_id q) @ [m]"
        using a1(1) a2(1) w1 app [OF Some] by simp_all
      then show ?thesis using a1(2) a2(2) Some by (intro exI [of _ "as1 @ as2"]) auto
    qed
  qed
qed

text \<open>
  Property C4. A durable acknowledgement is never given for an event that could be lost: handling an
  event message of the agent adds to the agent's queue only acknowledgements of that very run and
  sequence number, and when one of them is the durable acknowledgement, then
  (1) the tables held an event of that run and number after some step of the handling, and hold it at the end when
  no bootstrap import ran meanwhile (an import may replace the log of a run); or
  (2) the run is not one of Runtime: it is neither cached nor in the tables at the lookup (a lookup that
  fails does not count), and the message is in the app's queue.
  This holds under lost database and broker round trips, full queues and closed connections, with the
  other connections of the database taking any steps, imports included when \<open>imp\<close> holds.
\<close>

theorem durable_ack_means_kept:
  fixes s :: "'k coord relay" and m :: message and ev :: env
  assumes "\<forall>n. calm imp (ce_pg ce) (ce_call ce n)" "relay_inv s" "peer_ok (rl_world s) p" "pe_role p = RoleAgent"
    and "durableRuntimeMessage (m_type m)"
  defines "s' \<equiv> Handle ev (Some (coordinator ce)) p m s" and "m' \<equiv> m\<lparr>m_sender := CanonicalSender RoleAgent\<rparr>"
    and "db \<equiv> co_db (rl_rt s)"
  defines "db_lookup \<equiv> rc_itf (ce_call ce (co_calls (rl_rt s))) 0 db"
  shows "\<exists>acks. inbox (rl_world s') (pe_id p) = inbox (rl_world s) (pe_id p) @ acks \<and>
    (\<forall>a \<in> set acks. m_payload a = Some (runtime_ack_json (m_trace_id m) (m_agent_sequence m)) \<and>
       m_type a \<in> {TypeRuntimeReceivedAck, TypeRuntimeDurableAck}) \<and>
    ((\<exists>a \<in> set acks. m_type a = TypeRuntimeDurableAck) \<longrightarrow>
       (\<exists>db0. rt_steps imp (ce_pg ce) db db0 \<and> has_event (m_trace_id m) (m_agent_sequence m) db0 \<and>
          rt_steps imp (ce_pg ce) db0 (co_db (rl_rt s'))) \<and>
       (\<not> imp \<longrightarrow> has_event (m_trace_id m) (m_agent_sequence m) (co_db (rl_rt s'))) \<or>
       m_trace_id m \<notin> set (co_runIDs (rl_rt s)) \<and> (\<forall>r \<in> set (runs db_lookup). rn_id r \<noteq> m_trace_id m) \<and>
       (\<exists>app. registry_Peer RoleApp (rl_reg s) = Some app \<and>
          inbox (rl_world s') (pe_id app) = inbox (rl_world s) (pe_id app) @ [m']))"
proof -
  have calm: "calm_env imp ce" using assms(1) by (simp add: calm_env_def)
  have d: "durableRuntimeMessage (m_type m')" using assms(5) by (simp add: m'_def)
  obtain b w1 c1 where e: "on_event ce p m' (rl_world s, rl_rt s) = (b, w1, c1)" by (metis prod_cases3)
  define s1 where "s1 = s\<lparr>rl_world := w1, rl_rt := c1\<rparr>"
  have s': "s' = (if b then s1 else forward ev (Some (coordinator ce)) p m' s1)"
    using assms(4,5) e AgentMessage_durable [OF d, of ce p "rl_world s" "rl_rt s"] durable_allowed [OF assms(5)]
    by (simp add: s'_def s1_def Handle_def coordinator_def m'_def Let_def)
  obtain acks where a: "inbox w1 = (inbox (rl_world s))(pe_id p := inbox (rl_world s) (pe_id p) @ acks)"
    "\<forall>a \<in> set acks. ack_of m' a" "\<not> b \<longrightarrow> inbox w1 = inbox (rl_world s) \<and> unowned ce (m_trace_id m') (rl_rt s)"
    "(\<exists>a \<in> set acks. m_type a = TypeRuntimeDurableAck) \<longrightarrow>
       passed_with imp (ce_pg ce) (m_trace_id m') (m_agent_sequence m') db (co_db c1)"
    using on_event_acks [OF calm e] unfolding db_def by blast
  have app: "pe_id app \<noteq> pe_id p" if "registry_Peer RoleApp (rl_reg s) = Some app" for app
  proof -
    have "peer_ok (rl_world s) app" "pe_role app = RoleApp"
      using that assms(2) registry_Peer_role unfolding relay_inv_def by blast+
    then show ?thesis using assms(3,4) by (auto simp: peer_ok_def role_defs)
  qed
  show ?thesis
  proof (cases b)
    case True
    have kept: "(\<exists>db0. rt_steps imp (ce_pg ce) db db0 \<and> has_event (m_trace_id m) (m_agent_sequence m) db0 \<and>
          rt_steps imp (ce_pg ce) db0 (co_db (rl_rt s'))) \<and>
        (\<not> imp \<longrightarrow> has_event (m_trace_id m) (m_agent_sequence m) (co_db (rl_rt s')))"
      if "\<exists>a \<in> set acks. m_type a = TypeRuntimeDurableAck"
    proof -
      have "passed_with imp (ce_pg ce) (m_trace_id m) (m_agent_sequence m) db (co_db (rl_rt s'))"
        using that a(4) True s' by (simp add: s1_def m'_def)
      then show ?thesis using passed_with_kept unfolding passed_with_def by (cases imp) auto
    qed
    have "inbox (rl_world s') (pe_id p) = inbox (rl_world s) (pe_id p) @ acks"
      "\<forall>a \<in> set acks. m_payload a = Some (runtime_ack_json (m_trace_id m) (m_agent_sequence m)) \<and>
         m_type a \<in> {TypeRuntimeReceivedAck, TypeRuntimeDurableAck}"
      using True a(1,2) s' by (simp_all add: s1_def ack_of_def m'_def)
    with kept show ?thesis by blast
  next
    case False
    then obtain as where "inbox (rl_world s') (pe_id p) = inbox (rl_world s) (pe_id p) @ as" "\<forall>a \<in> set as. ack_of m' a"
      "as \<noteq> [] \<longrightarrow> (\<exists>app. registry_Peer RoleApp (rl_reg s) = Some app \<and>
         inbox (rl_world s') (pe_id app) = inbox (rl_world s) (pe_id app) @ [m'])"
      using forward_acks [of p m' s1 ev ce] assms(4) d app a(3) s' by (auto simp: s1_def)
    then show ?thesis using a(3) False
      by (intro exI [of _ as]) (auto simp: ack_of_def m'_def unowned_def db_lookup_def db_def)
  qed
qed

subsection \<open>From the created run to the agent\<close>

text \<open>
  What \<^verbatim>\<open>jsonb\<close> documents of an object without duplicate members: it keeps the members, not their order.
\<close>

definition jsonb_keeps :: "pgsql \<Rightarrow> bool" where
  "jsonb_keeps pg \<longleftrightarrow> (\<forall>ms. distinct (map fst ms) \<longrightarrow> list_all (\<lambda>(k, j). \<exists>s. j = JStr s) ms \<longrightarrow>
     (\<exists>ms'. pg_jsonb pg (JObj ms) = JObj ms' \<and> distinct (map fst ms') \<and> set ms' = set ms))"

definition str_member :: "(string \<times> json) list \<Rightarrow> string \<Rightarrow> string \<Rightarrow> string" where
  "str_member ms k old = (case map_of ms k of Some (JStr s) \<Rightarrow> s | _ \<Rightarrow> old)"

definition start_names :: "string list" where
  "start_names = [''command_id'', ''permission_profile_id'', ''project_id'', ''prompt'', ''run_id'', ''thread_id'']"

lemma str_member_simps [simp]:
  "str_member ((k, JStr s) # ms) k' old = (if k' = k then s else str_member ms k' old)" "str_member [] k old = old"
  by (simp_all add: str_member_def)

lemma str_member_fresh: "k \<notin> fst ` set ms \<Longrightarrow> str_member ms k old = old"
  by (simp add: str_member_def map_of_eq_None_iff [symmetric] split: option.split)

lemma turn_start_fields:
  "find (\<lambda>(name, _). equal_fold name ''command_id'') turn_start_schema = Some (''command_id'', dec_str (\<lambda>s v. v\<lparr>ts_command_id := s\<rparr>))"
  "find (\<lambda>(name, _). equal_fold name ''run_id'') turn_start_schema = Some (''run_id'', dec_str (\<lambda>s v. v\<lparr>ts_run_id := s\<rparr>))"
  "find (\<lambda>(name, _). equal_fold name ''project_id'') turn_start_schema = Some (''project_id'', dec_str (\<lambda>s v. v\<lparr>ts_project_id := s\<rparr>))"
  "find (\<lambda>(name, _). equal_fold name ''thread_id'') turn_start_schema = Some (''thread_id'', dec_str (\<lambda>s v. v\<lparr>ts_thread_id := s\<rparr>))"
  "find (\<lambda>(name, _). equal_fold name ''prompt'') turn_start_schema = Some (''prompt'', dec_str (\<lambda>s v. v\<lparr>ts_prompt := s\<rparr>))"
  "find (\<lambda>(name, _). equal_fold name ''permission_profile_id'') turn_start_schema = Some (''permission_profile_id'', dec_str (\<lambda>s v. v\<lparr>ts_permission_profile_id := s\<rparr>))"
  by (simp_all add: turn_start_schema_def equal_fold_def upper_char_def)

lemma turn_start_decodes:
  assumes "\<forall>(k, j) \<in> set ms. k \<in> set start_names \<and> (\<exists>s. j = JStr s)" "distinct (map fst ms)"
  shows "dec_members False turn_start_schema ms v =
    (v\<lparr>ts_command_id := str_member ms ''command_id'' (ts_command_id v), ts_run_id := str_member ms ''run_id'' (ts_run_id v),
       ts_project_id := str_member ms ''project_id'' (ts_project_id v), ts_thread_id := str_member ms ''thread_id'' (ts_thread_id v),
       ts_prompt := str_member ms ''prompt'' (ts_prompt v),
       ts_permission_profile_id := str_member ms ''permission_profile_id'' (ts_permission_profile_id v)\<rparr>, True)"
  using assms
proof (induction ms arbitrary: v)
  case Nil
  then show ?case by simp
next
  case (Cons x ms)
  obtain k s where x: "x = (k, JStr s)" "k \<in> set start_names" using Cons.prems(1) by auto
  have fresh: "str_member ms k old = old" for old using Cons.prems(2) x(1) by (simp add: str_member_fresh)
  have pr: "\<forall>(k, j) \<in> set ms. k \<in> set start_names \<and> (\<exists>s. j = JStr s)" "distinct (map fst ms)"
    using Cons.prems by auto
  have "k = ''command_id'' \<or> k = ''permission_profile_id'' \<or> k = ''project_id'' \<or> k = ''prompt'' \<or>
      k = ''run_id'' \<or> k = ''thread_id''" using x(2) by (simp add: start_names_def)
  then show ?case
    by (elim disjE) (use fresh in \<open>simp_all add: x(1) turn_start_fields dec_str_def Cons.IH [OF pr]\<close>)
qed

lemma start_command_decodes:
  assumes "jsonb_keeps pg"
  shows "decoded (dec_struct False turn_start_schema
      (pg_jsonb pg (runStartCommandPayload cid rid pid th prompt profile)) turn_start_zero) =
    Some \<lparr>ts_command_id = cid, ts_run_id = rid, ts_project_id = pid, ts_thread_id = th, ts_prompt = prompt,
      ts_permission_profile_id = profile\<rparr>"
proof -
  let ?ms = "[(''command_id'', JStr cid), (''permission_profile_id'', JStr profile), (''project_id'', JStr pid),
    (''prompt'', JStr prompt), (''run_id'', JStr rid), (''thread_id'', JStr th)]"
  have d: "distinct (map fst ?ms)" by simp
  have "list_all (\<lambda>(k, j). \<exists>s. j = JStr s) ?ms" by simp
  then obtain ms where ms: "pg_jsonb pg (JObj ?ms) = JObj ms" "distinct (map fst ms)" "set ms = set ?ms"
    using assms d unfolding jsonb_keeps_def by blast
  have m: "map_of ms = map_of ?ms" using map_of_inject_set [OF ms(2) d] ms(3) by blast
  have "\<forall>(k, j) \<in> set ms. k \<in> set start_names \<and> (\<exists>s. j = JStr s)"
    unfolding ms(3) by (simp add: start_names_def)
  from turn_start_decodes [OF this ms(2), of turn_start_zero]
  show ?thesis
    by (simp add: runStartCommandPayload_def ms(1) dec_struct_def str_member_def m turn_start_zero_def)
qed

lemma send_own_next:
  assumes "wd_conns w (pe_id p) = Some k" "cn_reason k = None" "length (cn_queue k) < cn_cap k"
    and "ty \<noteq> []" "\<forall>n. ev_clock (ce_env ce) n \<noteq> 0"
  obtains m w' where "send_own ce p ty trace j w = (True, w')" "m_type m = ty" "m_payload m = Some j"
    "wd_conns w' (pe_id p) = Some (k\<lparr>cn_queue := cn_queue k @ [m]\<rparr>)"
proof -
  obtain m err w1 where n: "new_message (ce_env ce) ty trace run_server j w = ((m, err), w1)" by (metis surj_pair)
  have "err = None"
    using n NewMessage_valid [of ty "ev_clock (ce_env ce) (wd_tick w)" run_server trace j "wd_rnd w"] assms(4,5)
    by (auto simp: new_message_def run_server_def Let_def split: prod.splits)
  moreover have "wd_conns w1 = wd_conns w"
    using new_message_conns [of "ce_env ce" ty trace run_server j w] n by simp
  moreover from this have "peer_Send (ce_env ce) p m w1 =
      (Inr (), tick (upd_conn (pe_id p) (k\<lparr>cn_queue := cn_queue k @ [m]\<rparr>) w1))"
    using peer_Send_room [of w1 p k "ce_env ce" m] assms(1-3) by simp
  ultimately show thesis using n new_message_fields(1,3) [OF n]
    by (intro that [of "tick (upd_conn (pe_id p) (k\<lparr>cn_queue := cn_queue k @ [m]\<rparr>) w1)" m])
      (simp_all add: send_own_def tick_def upd_conn_def)
qed

lemma send_own_room:
  assumes "wd_conns w (pe_id p) = Some k" "cn_reason k = None" "length (cn_queue k) < cn_cap k"
    and "ty \<noteq> []" "\<forall>n. ev_clock (ce_env ce) n \<noteq> 0"
  shows "fst (send_own ce p ty trace j w)"
  by (rule send_own_next [OF assms, of trace j]) simp

lemma due_new_command:
  assumes "\<forall>q \<in> set (command_outbox db). \<not> claimable now q" "t \<le> now" "\<not> locked cid"
  shows "due_commands now locked 8 (with_run pg t rid cid s prompt profile key hash db) =
    [command_of (new_command pg t cid ''run.start'' rid
       (runStartCommandPayload cid rid (ses_project s) (or_empty (ses_thread s)) prompt profile))]"
proof -
  have "command_outbox (with_run pg t rid cid s prompt profile key hash db) = command_outbox db @
      [new_command pg t cid ''run.start'' rid (runStartCommandPayload cid rid (ses_project s) (or_empty (ses_thread s)) prompt profile)]"
    by (simp add: with_run_def Let_def add_command_def add_session_event_def bump_session_def add_run_def)
  moreover have "filter (\<lambda>c. claimable now c \<and> \<not> locked (out_id c)) (command_outbox db) = []"
    using assms(1) by (simp add: filter_empty_conv)
  ultimately show ?thesis using assms(2,3) by (simp add: due_commands_def claimable_def new_command_def)
qed

lemma with_run_reaches_agent:
  assumes "rt_schema (co_db c)" "co_db c = with_run (ce_pg ce) t rid cid s prompt profile key hash db"
    and "jsonb_keeps (ce_pg ce)" "quiet (ce_call ce (co_calls c))" "rid \<noteq> []"
    and "\<forall>q \<in> set (command_outbox db). \<not> claimable (rc_now (ce_call ce (co_calls c)) 0) q"
    and "t \<le> rc_now (ce_call ce (co_calls c)) 0" "\<not> ce_locked ce (co_calls c) cid"
    and "registry_Peer RoleAgent reg = Some p" "wd_conns w (pe_id p) = Some k" "cn_reason k = None"
    and "length (cn_queue k) < cn_cap k" "\<forall>n. ev_clock (ce_env ce) n \<noteq> 0"
  shows "\<exists>m. m_type m = TypeTurnStart \<and> m_trace_id m = rid \<and>
    m_payload m = Some (turn_start_json \<lparr>ts_command_id = cid, ts_run_id = rid, ts_project_id = ses_project s,
      ts_thread_id = or_empty (ses_thread s), ts_prompt = prompt, ts_permission_profile_id = profile\<rparr>) \<and>
    inbox (fst (dispatch ce reg (w, c))) = (inbox w)(pe_id p := inbox w (pe_id p) @ [m])"
proof -
  let ?rc = "ce_call ce (co_calls c)" and ?locked = "ce_locked ce (co_calls c)"
  let ?cmd = "command_of (new_command (ce_pg ce) t cid ''run.start'' rid
      (runStartCommandPayload cid rid (ses_project s) (or_empty (ses_thread s)) prompt profile))"
  let ?p = "\<lparr>ts_command_id = cid, ts_run_id = rid, ts_project_id = ses_project s, ts_thread_id = or_empty (ses_thread s),
      ts_prompt = prompt, ts_permission_profile_id = profile\<rparr>"
  have due: "due_commands (rc_now ?rc 0) ?locked 8 (co_db c) = [?cmd]"
    unfolding assms(2) using due_new_command [where locked = ?locked, OF assms(6-8)] .
  obtain db' where cl: "ClaimCommands ?rc ?locked (ce_workerID ce) 8 (co_db c) = (Inr [?cmd], db')"
    using ClaimCommands_runs [OF assms(1,4), of ?locked "ce_workerID ce" 8] due by auto
  obtain ok w' where snd: "send_own ce p TypeTurnStart rid (turn_start_json ?p) w = (ok, w')" by fastforce
  then have "ok" using send_own_room [OF assms(10-12), of TypeTurnStart ce rid "turn_start_json ?p"] assms(13)
    by (simp add: type_defs)
  have cmd: "sendCommand ce p ?cmd (w, c') = (ok, w', c')" for c' :: "'a coord"
    using snd start_command_decodes [OF assms(3)] by (simp add: sendCommand_def command_of_def new_command_def)
  have "fst (dispatch ce reg (w, c)) = w'"
    using assms(9) cl cmd \<open>ok\<close> by (simp add: dispatch_def store_call_def)
  then show ?thesis using send_own_cases [OF snd] \<open>ok\<close> assms(5) by auto
qed

text \<open>
  Property C14. A created run reaches the agent as it was asked for. \<open>CreateRun\<close>, called in a reachable state for a
  visible session with an unused key and fresh identifiers, answers with a new run, and the next dispatch puts exactly one
  message into the queue of the connected agent: the turn start for that run, with the project and thread of the session
  and the prompt and permission profile of the request. The case is the undisturbed one: no fault and no other
  connection in the two calls, no step between them, no other command due (a dispatch takes at most eight, oldest first) and the
  new one not locked, an open agent connection with room in its queue, and a clock that does not go
  back. The database's \<^verbatim>\<open>jsonb\<close> may reorder the members of the stored command.
\<close>

theorem created_run_reaches_agent:
  assumes create: "CreateRun (ce_pg ce) rc e (ses_id s) prompt profile key hash db = (res, e', co_db c)"
    and "rt_steps True (ce_pg ce) empty_db db" "quiet rc" "s \<in> set (sessions db)" "visible db s" "run_by_key (ses_id s) key db = None"
    and "newID ''run'' e = (rid, e1)" "newID ''cmd'' e1 = (cid, e2)"
    and "rid \<notin> rn_id ` set (runs db)" "cid \<notin> out_id ` set (command_outbox db)"
    and "jsonb_keeps (ce_pg ce)" "quiet (ce_call ce (co_calls c))" "rc_now rc 1 \<le> rc_now (ce_call ce (co_calls c)) 0"
    and "\<forall>q \<in> set (command_outbox db). \<not> claimable (rc_now (ce_call ce (co_calls c)) 0) q" "\<not> ce_locked ce (co_calls c) cid"
    and "registry_Peer RoleAgent reg = Some p" "wd_conns w (pe_id p) = Some k" "cn_reason k = None"
    and "length (cn_queue k) < cn_cap k" "\<forall>n. ev_clock (ce_env ce) n \<noteq> 0"
  shows "(\<exists>item. res = Inr (item, ses_last s + 1, True) \<and> run_ID item = rid) \<and>
    (\<exists>m. m_type m = TypeTurnStart \<and> m_trace_id m = rid \<and>
      m_payload m = Some (turn_start_json \<lparr>ts_command_id = cid, ts_run_id = rid, ts_project_id = ses_project s,
        ts_thread_id = (case ses_thread s of Some t \<Rightarrow> t | None \<Rightarrow> []), ts_prompt = prompt, ts_permission_profile_id = profile\<rparr>) \<and>
      inbox (fst (dispatch ce reg (w, c))) = (inbox w)(pe_id p := inbox w (pe_id p) @ [m]))"
proof -
  have new: "res = Inr (scanRun (queued_run (rc_now rc 1) rid (ses_id s) prompt profile key hash), ses_last s + 1, True)"
    "co_db c = with_run (ce_pg ce) (rc_now rc 1) rid cid s prompt profile key hash db"
    using create CreateRun_new [OF reachable_inv [OF assms(2)] assms(3-10)] by simp_all
  have "rt_schema (co_db c)"
    using rt_steps_inv [OF CreateRun_steps [OF quiet_calm [OF assms(3)] create]] reachable_inv [OF assms(2)] rt_inv_schema by blast
  moreover have "rid \<noteq> []" using assms(7) by (auto simp: newID_def Let_def split: prod.splits)
  ultimately have "\<exists>m. m_type m = TypeTurnStart \<and> m_trace_id m = rid \<and>
      m_payload m = Some (turn_start_json \<lparr>ts_command_id = cid, ts_run_id = rid, ts_project_id = ses_project s,
        ts_thread_id = or_empty (ses_thread s), ts_prompt = prompt, ts_permission_profile_id = profile\<rparr>) \<and>
      inbox (fst (dispatch ce reg (w, c))) = (inbox w)(pe_id p := inbox w (pe_id p) @ [m])"
    using with_run_reaches_agent [OF _ new(2) assms(11,12) _ assms(14,13,15-20)] by blast
  then show ?thesis using new(1) by (simp add: scanRun_def queued_run_def or_empty_def split: option.split)
qed

subsection \<open>The end of the agent's connection\<close>

lemma Disconnect_agent:
  assumes "pe_role p = RoleAgent" "registry_Peer RoleAgent (rl_reg s) = Some q"
  shows "pe_id q = pe_id p \<Longrightarrow> registry_Peer RoleAgent (rl_reg (Disconnect ev (Some (coordinator ce)) p s)) = None"
    and "pe_id q = pe_id p \<Longrightarrow> rl_rt (Disconnect ev (Some (coordinator ce)) p s) =
      snd (AgentDisconnected ce p (rl_world s, rl_rt s))"
    and "pe_id q \<noteq> pe_id p \<Longrightarrow> Disconnect ev (Some (coordinator ce)) p s = s"
  using assms
  by (simp_all add: Disconnect_def Remove_def registry_Peer_def coordinator_def AgentDisconnected_def role_defs Let_def
      split: prod.split if_splits)

lemma set_presence_gateways [simp]:
  "co_source (set_presence ce b c) = co_source c" "co_profiles (set_presence ce b c) = co_profiles c"
  by (simp_all add: set_presence_def broker_call_def Let_def split_beta)

text \<open>
  Property C29. When the connection of the agent ends, nobody waits for it any longer: the agent is unregistered, every pending
  request of the two gateways takes the error "agent offline" (or the answer that had already arrived), and a request that comes
  afterwards is refused at once with that error, without sending or recording anything. The end of a connection that a newer
  agent connection has replaced changes neither the registry nor the pending requests.
\<close>

theorem disconnect_releases_requests:
  fixes s :: "'k coord relay" and ev :: env and ce :: "'k coord_env"
  assumes "pe_role p = RoleAgent" "registry_Peer RoleAgent (rl_reg s) = Some q"
  defines "s' \<equiv> ServeRole_end ev (Some (coordinator ce)) p s"
  shows "(pe_id q = pe_id p \<longrightarrow>
      registry_Peer RoleAgent (rl_reg s') = None \<and>
      (\<forall>g t slot. co_source (rl_rt s) = Some g \<and> waiting t g = Some slot \<longrightarrow>
         (\<exists>g'. co_source (rl_rt s') = Some g' \<and>
            fst (Read_receive t g') = Some (case slot of None \<Rightarrow> Inl ErrSourceAgentOffline | Some r \<Rightarrow> r))) \<and>
      (\<forall>g t slot. co_profiles (rl_rt s) = Some g \<and> waiting t g = Some slot \<longrightarrow>
         (\<exists>g'. co_profiles (rl_rt s') = Some g' \<and>
            fst (Read_receive t g') = Some (case slot of None \<Rightarrow> Inl ErrExecutionProfilesAgentOffline | Some r \<Rightarrow> r))) \<and>
      (\<forall>r w g. Read_begin ev (rl_reg s') r (w, g) = (Inl ErrSourceAgentOffline, w, g)) \<and>
      (\<forall>pid w g. List_begin ev (rl_reg s') pid (w, g) = (Inl ErrExecutionProfilesAgentOffline, w, g))) \<and>
    (pe_id q \<noteq> pe_id p \<longrightarrow> rl_reg s' = rl_reg s \<and> rl_rt s' = rl_rt s)"
proof (cases "pe_id q = pe_id p")
  case True
  let ?s = "s\<lparr>rl_world := peer_Close p ''connection ended'' (rl_world s)\<rparr>"
  have reg: "registry_Peer RoleAgent (rl_reg s') = None"
    and rt: "rl_rt s' = snd (AgentDisconnected ce p (rl_world ?s, rl_rt s))"
    using Disconnect_agent(1,2) [of p ?s q ev ce] assms(1,2) True by (simp_all add: s'_def ServeRole_end_def)
  have "co_source (rl_rt s') = map_option (source_FailPending ErrSourceAgentOffline) (co_source (rl_rt s))"
    "co_profiles (rl_rt s') = map_option (profiles_FailPending ErrExecutionProfilesAgentOffline) (co_profiles (rl_rt s))"
    by (simp_all add: rt AgentDisconnected_def)
  then show ?thesis using True reg failed_requests by (simp add: Read_begin_def List_begin_def)
next
  case False
  then show ?thesis using Disconnect_agent(3) [of p "s\<lparr>rl_world := peer_Close p ''connection ended'' (rl_world s)\<rparr>" q ev ce] assms(1,2)
    by (simp add: s'_def ServeRole_end_def)
qed

subsection \<open>A concrete relay with Runtime\<close>

definition demo_ce :: "(string \<Rightarrow> (string \<times> stream_values) list) coord_env" where
  "demo_ce = \<lparr>ce_env = demo_env, ce_broker = RedisBroker mem_redis, ce_pg = demo_pg, ce_call = (\<lambda>_. demo_call),
     ce_locked = (\<lambda>_ _. False), ce_workerID = ''relay-1''\<rparr>"

definition demo_coord :: "rt_db \<Rightarrow> (string \<Rightarrow> (string \<times> stream_values) list) coord" where
  "demo_coord db = \<lparr>co_db = db, co_broker = (\<lambda>_. []), co_source = Some [], co_profiles = Some [], co_runIDs = [], co_calls = 0\<rparr>"

definition demo_system :: "(string \<Rightarrow> (string \<times> stream_values) list) coord relay" where
  "demo_system = \<lparr>rl_reg = NewRegistry, rl_world = demo_world, rl_rt = demo_coord demo_running\<rparr>"

definition demo_opened :: "(string \<Rightarrow> (string \<times> stream_values) list) coord relay" where
  "demo_opened = snd (ServeRole_open demo_env (Some (coordinator demo_ce)) 4 RoleAgent demo_system)"

definition demo_peer :: peer_ref where
  "demo_peer = \<lparr>pe_id = 1, pe_role = RoleAgent\<rparr>"

lemma demo_ce_simps [simp]: "ce_env demo_ce = demo_env" "ce_pg demo_ce = demo_pg" "ce_call demo_ce n = demo_call"
  "ce_locked demo_ce n cid = False"
  by (simp_all add: demo_ce_def)

lemma demo_calm: "\<forall>n. calm imp (ce_pg demo_ce) (ce_call demo_ce n)"
  by (simp add: quiet_calm)

lemma demo_fresh: "fresh_relay demo_system" "rt_steps True demo_pg empty_db (co_db (rl_rt demo_system))"
  using demo_running_reachable by (simp_all add: fresh_relay_def demo_system_def demo_world_def demo_coord_def)

lemma demo_opened_steps: "relay_steps demo_env (Some (coordinator demo_ce)) (beside demo_ce) 4 demo_system demo_opened"
  unfolding demo_opened_def
  by (rule relay_steps.more [OF relay_steps.none relay_step.opened]) (simp_all add: demo_system_def demo_world_def)

theorem relay_system_invariant_witness:
  "rt_inv (co_db (rl_rt demo_opened)) \<and>
   \<not> (\<exists>i c. wd_conns (rl_world demo_opened) i = Some c \<and> cn_cap c < length (cn_queue c))"
  using relay_system_invariant [OF demo_calm demo_fresh(1) _ demo_opened_steps] demo_fresh(2) by (auto simp: not_less)

lemma demo_opened_inv: "relay_inv demo_opened" "registry_Peer RoleAgent (rl_reg demo_opened) = Some demo_peer"
  "peer_ok (rl_world demo_opened) demo_peer"
proof -
  show inv: "relay_inv demo_opened"
    using runtime.steps_inv [OF demo_opened_steps fresh_relay_inv [OF demo_fresh(1)]] .
  show r: "registry_Peer RoleAgent (rl_reg demo_opened) = Some demo_peer"
    by (simp add: demo_opened_def ServeRole_open_def accept_peer_def demo_system_def demo_world_def Connect_def Let_def
        Replace_def NewRegistry_def registry_Peer_def demo_peer_def role_defs split: prod.split)
  show "peer_ok (rl_world demo_opened) demo_peer" using inv r unfolding relay_inv_def by blast
qed

definition demo_event_message :: message where
  "demo_event_message = \<lparr>m_spec_version = SpecVersion, m_message_id = ''m2'', m_type = TypeTurnOutput,
     m_occurred_at = second, m_trace_id = demo_rid, m_sender = zero_sender, m_payload = Some JNull, m_agent_sequence = 1\<rparr>"

lemma demo_append_delta:
  "\<exists>item db. AppendAgentEvent demo_pg demo_call demo_rid 1 ''assistant.delta'' JNull t demo_running = (Inr item, db)"
proof -
  let ?when = "case parse_rfc3339 t of Some t \<Rightarrow> t | None \<Rightarrow> rc_clock demo_call"
  define e where "e = \<lparr>rev_run = demo_rid, rev_seq = 1, rev_type = ''assistant.delta'', rev_payload = JNull,
     rev_occurred = pg_time ?when, rev_persisted = 1000\<rparr>"
  define db1 where "db1 = add_run_event e demo_running"
  define db2 where "db2 = apply_event 1000 demo_rid 1 ''assistant.delta'' JNull db1"
  have st: "statusForEvent ''assistant.delta'' = ([], False)" by (simp add: statusForEvent_def)
  have S: "rt_schema demo_running" by (rule rt_inv_schema [OF reachable_inv [OF demo_running_reachable [of True]]])
  then have S1: "rt_schema db1" by (simp add: db1_def schema_defs add_run_event_def e_def)
  then have S2: "rt_schema db2"
    unfolding db2_def db1_def
    by (simp add: schema_defs apply_event_def add_run_event_def event_on_run_def st rn_scoped_key_def)
  have none: "\<not> has_event demo_rid 1 demo_running" by (simp add: has_event_iff)
  obtain r where r: "by_key rn_id demo_rid (runs db2) = Some r"
    by (simp add: db2_def db1_def apply_event_def add_run_event_def)
  have "append_body demo_pg 1000 ?when demo_rid 1 ''assistant.delta'' JNull no_faults (Suc 0, demo_running) = Inr (True, 4, db2)"
    using S1 S2 r none
    by (simp add: append_body_def insert_run_event_def demo_pg_def st e_def [symmetric] db1_def [symmetric] db2_def [symmetric])
      (simp add: e_def)
  then show ?thesis
    using r by (simp add: AppendAgentEvent_def GetRun_def pool_query_def run_by_id_def)
qed

lemma demo_opened_agent:
  "\<exists>k. wd_conns (rl_world demo_opened) 1 = Some k \<and> cn_reason k = None \<and> length (cn_queue k) = 1 \<and> cn_cap k = 4"
  "rl_rt demo_opened = demo_coord demo_running"
proof -
  obtain m err w1 where n: "new_message demo_env TypeProjectList projectRefreshTraceID run_server (JObj [])
      (snd (accept_peer 4 RoleAgent demo_world)) = ((m, err), w1)" by (metis surj_pair)
  then have "wd_conns w1 = wd_conns (snd (accept_peer 4 RoleAgent demo_world))"
    using new_message_conns [of demo_env TypeProjectList projectRefreshTraceID run_server "JObj []"] by (metis snd_conv)
  then show "\<exists>k. wd_conns (rl_world demo_opened) 1 = Some k \<and> cn_reason k = None \<and> length (cn_queue k) = 1 \<and> cn_cap k = 4"
    using n peer_Send_room [of w1 demo_peer]
    by (simp add: demo_opened_def ServeRole_open_def accept_peer_def demo_system_def demo_world_def Connect_def Let_def
        Replace_def NewRegistry_def registry_Peer_def demo_peer_def role_defs coordinator_def AgentConnected_def tick_def upd_conn_def
        split: prod.split)
  show "rl_rt demo_opened = demo_coord demo_running"
    by (simp add: demo_opened_def ServeRole_open_def accept_peer_def demo_system_def demo_world_def Connect_def Let_def
        Replace_def NewRegistry_def registry_Peer_def role_defs coordinator_def AgentConnected_def set_presence_def broker_call_def
        demo_ce_def demo_coord_def RedisBroker_def redis_SetAgentPresence_def lift_redis_def mem_redis_def split: prod.split)
qed

lemma demo_event_durable:
  "\<exists>c'. on_event demo_ce demo_peer (demo_event_message\<lparr>m_sender := x\<rparr>) (w, demo_coord demo_running) =
     (True, sendAck demo_ce demo_peer TypeRuntimeDurableAck demo_rid 1
        (sendAck demo_ce demo_peer TypeRuntimeReceivedAck demo_rid 1 w), c')"
proof -
  let ?m = "demo_event_message\<lparr>m_sender := x\<rparr>"
  define c1 where "c1 = (demo_coord demo_running)\<lparr>co_calls := 1, co_runIDs := [demo_rid]\<rparr>"
  have o: "ownsRuntimeRun demo_ce demo_rid (demo_coord demo_running) = (True, c1)"
    by (simp add: c1_def ownsRuntimeRun_def store_call_def demo_coord_def GetRun_def pool_query_def run_by_id_def)
  have "\<exists>k. br_AppendRunEvent (ce_broker demo_ce) demo_rid (message_event ?m) (\<lambda>_. []) = (Inr (), k)"
    by (simp add: demo_ce_def RedisBroker_def redis_AppendRunEvent_def mem_redis_def)
  then obtain c2 where b: "broker_call (br_AppendRunEvent (ce_broker demo_ce) demo_rid (message_event ?m)) c1 = (Inr (), c2)"
    "co_db c2 = demo_running" by (auto simp: broker_call_def c1_def demo_coord_def)
  obtain item db where a: "AppendAgentEvent demo_pg demo_call demo_rid 1 ''assistant.delta'' JNull (format_rfc3339nano second) demo_running = (Inr item, db)"
    using demo_append_delta by blast
  then obtain c3 where st: "store_event demo_ce demo_rid ?m c2 = (Inr item, c3)"
    using b(2) by (simp add: store_event_def store_call_def message_event_def demo_event_message_def runtimeEventType_def type_defs)
  have "m_trace_id ?m = demo_rid" "m_agent_sequence ?m = 1" by (simp_all add: demo_event_message_def)
  then show ?thesis using o b(1) st by (simp add: on_event_def)
qed

lemma demo_ack_room:
  assumes "wd_conns w 1 = Some k" "cn_reason k = None" "length (cn_queue k) < cn_cap k" "ty \<noteq> []"
  obtains m where "m_type m = ty" "m_payload m = Some (runtime_ack_json demo_rid 1)"
    "wd_conns (sendAck demo_ce demo_peer ty demo_rid 1 w) 1 = Some (k\<lparr>cn_queue := cn_queue k @ [m]\<rparr>)"
proof -
  have "pe_id demo_peer = 1" "\<forall>n. ev_clock (ce_env demo_ce) n \<noteq> 0" using demo_clock by (simp_all add: demo_peer_def)
  with assms obtain m w' where "send_own demo_ce demo_peer ty demo_rid (runtime_ack_json demo_rid 1) w = (True, w')"
      "m_type m = ty" "m_payload m = Some (runtime_ack_json demo_rid 1)" "wd_conns w' 1 = Some (k\<lparr>cn_queue := cn_queue k @ [m]\<rparr>)"
    using send_own_next [of w demo_peer k ty demo_ce demo_rid "runtime_ack_json demo_rid 1"] by metis
  then show thesis by (intro that [of m]) (simp_all add: sendAck_def)
qed

theorem durable_ack_means_kept_witness:
  "\<exists>received durable.
     inbox (rl_world (Handle demo_env (Some (coordinator demo_ce)) demo_peer demo_event_message demo_opened)) 1 =
       inbox (rl_world demo_opened) 1 @ [received, durable] \<and>
     m_type durable = TypeRuntimeDurableAck \<and> m_payload durable = Some (runtime_ack_json demo_rid 1) \<and>
     has_event demo_rid 1 (co_db (rl_rt (Handle demo_env (Some (coordinator demo_ce)) demo_peer demo_event_message demo_opened)))"
proof -
  let ?s' = "Handle demo_env (Some (coordinator demo_ce)) demo_peer demo_event_message demo_opened"
  let ?w1 = "sendAck demo_ce demo_peer TypeRuntimeReceivedAck demo_rid 1 (rl_world demo_opened)"
  have d: "durableRuntimeMessage (m_type demo_event_message)"
    by (simp add: durableRuntimeMessage_def durable_types_def demo_event_message_def)
  have f: "pe_role demo_peer = RoleAgent" "pe_id demo_peer = 1" "m_trace_id demo_event_message = demo_rid"
    "m_agent_sequence demo_event_message = 1" by (simp_all add: demo_peer_def demo_event_message_def)
  have rid: "\<exists>r \<in> set (runs demo_running). rn_id r = demo_rid" by simp
  obtain k where k: "wd_conns (rl_world demo_opened) 1 = Some k" "cn_reason k = None" "length (cn_queue k) = 1" "cn_cap k = 4"
    using demo_opened_agent(1) by blast
  obtain a1 where a1: "m_type a1 = TypeRuntimeReceivedAck"
      "wd_conns ?w1 1 = Some (k\<lparr>cn_queue := cn_queue k @ [a1]\<rparr>)"
    using demo_ack_room [OF k(1,2), of TypeRuntimeReceivedAck] k(3,4) by (auto simp: type_defs)
  obtain a2 where a2: "m_type a2 = TypeRuntimeDurableAck" "m_payload a2 = Some (runtime_ack_json demo_rid 1)"
      "wd_conns (sendAck demo_ce demo_peer TypeRuntimeDurableAck demo_rid 1 ?w1) 1 = Some (k\<lparr>cn_queue := cn_queue k @ [a1, a2]\<rparr>)"
    using demo_ack_room [OF a1(2), of TypeRuntimeDurableAck] k(2-4) by (auto simp: type_defs)
  let ?m = "demo_event_message\<lparr>m_sender := CanonicalSender RoleAgent\<rparr>"
  have "AgentMessage demo_ce demo_peer ?m (w, c) = on_event demo_ce demo_peer ?m (w, c)" for w c
    using AgentMessage_durable [of ?m] d by simp
  then have "rl_world ?s' = sendAck demo_ce demo_peer TypeRuntimeDurableAck demo_rid 1 ?w1"
    using demo_event_durable [of "CanonicalSender RoleAgent" "rl_world demo_opened"] durable_allowed [OF d] f(1) demo_opened_agent(2)
    by (auto simp: Handle_def coordinator_def)
  then have box: "inbox (rl_world ?s') 1 = inbox (rl_world demo_opened) 1 @ [a1, a2]"
    using a2(3) k(1) by (simp add: inbox_def)
  then have "has_event demo_rid 1 (co_db (rl_rt ?s'))"
    using durable_ack_means_kept [where imp = False, OF demo_calm demo_opened_inv(1,3) f(1) d, of demo_env] a2(1) rid demo_opened_agent(2)
    by (simp add: f demo_coord_def)
  with box a2 show ?thesis by blast
qed

definition demo_registry :: registry where
  "demo_registry = NewRegistry\<lparr>rg_agent := Some demo_peer\<rparr>"

definition demo_agent_world :: world where
  "demo_agent_world = demo_world\<lparr>wd_conns := [1 \<mapsto> \<lparr>cn_role = RoleAgent, cn_queue = [], cn_cap = 4, cn_reason = None, cn_written = []\<rparr>]\<rparr>"

theorem created_run_reaches_agent_witness:
  "\<exists>item e' db m. CreateRun demo_pg demo_call demo_zeros ''s'' ''hello'' [] ''k'' ''h'' demo_store = (Inr (item, 1, True), e', db) \<and>
    run_ID item = demo_rid \<and> m_type m = TypeTurnStart \<and> m_trace_id m = demo_rid \<and>
    m_payload m = Some (turn_start_json \<lparr>ts_command_id = ''cmd_'' @ demo_hex, ts_run_id = demo_rid, ts_project_id = ''p'',
      ts_thread_id = [], ts_prompt = ''hello'', ts_permission_profile_id = []\<rparr>) \<and>
    inbox (fst (dispatch demo_ce demo_registry (demo_agent_world, demo_coord db))) 1 = [m]"
proof -
  have j: "jsonb_keeps (ce_pg demo_ce)" by (auto simp: jsonb_keeps_def demo_pg_def)
  obtain res e' db where c: "CreateRun demo_pg demo_call demo_zeros (ses_id demo_session) ''hello'' [] ''k'' ''h'' demo_store = (res, e', db)"
    by (metis prod_cases3)
  then have create: "CreateRun (ce_pg demo_ce) demo_call demo_zeros (ses_id demo_session) ''hello'' [] ''k'' ''h'' demo_store =
      (res, e', co_db (demo_coord db))" by (simp add: demo_coord_def)
  have reach: "rt_steps True (ce_pg demo_ce) empty_db demo_store" using demo_reachable by simp
  have o: "command_outbox demo_store = []" and reg: "registry_Peer RoleAgent demo_registry = Some demo_peer"
    and k: "wd_conns demo_agent_world (pe_id demo_peer) =
      Some \<lparr>cn_role = RoleAgent, cn_queue = [], cn_cap = 4, cn_reason = None, cn_written = []\<rparr>"
    by (simp_all add: demo_store_def insert_session_def upsert_project_def empty_db_def
        registry_Peer_def demo_registry_def role_defs demo_agent_world_def demo_peer_def)
  have "inbox demo_agent_world 1 = []" by (simp add: inbox_def demo_agent_world_def)
  with created_run_reaches_agent [OF create reach demo_quiet demo_visible(1,2) demo_visible(3) [of "''k''"] demo_run_ids _ _ j _ _ _ _ reg k]
  show ?thesis using c o demo_clock by (auto simp: demo_session_def demo_peer_def)
qed

definition demo_pending :: "(string \<Rightarrow> (string \<times> stream_values) list) coord relay" where
  "demo_pending = demo_opened\<lparr>rl_rt := (demo_coord demo_running)\<lparr>co_source := Some [(''t'', None)], co_profiles := Some [(''u'', Some (Inl ErrExecutionProfilesUnavailable))]\<rparr>\<rparr>"

theorem disconnect_releases_requests_witness:
  "\<exists>g h. co_source (rl_rt (ServeRole_end demo_env (Some (coordinator demo_ce)) demo_peer demo_pending)) = Some g \<and>
     co_profiles (rl_rt (ServeRole_end demo_env (Some (coordinator demo_ce)) demo_peer demo_pending)) = Some h \<and>
     fst (Read_receive ''t'' g) = Some (Inl ErrSourceAgentOffline) \<and> fst (Read_receive ''u'' h) = Some (Inl ErrExecutionProfilesUnavailable)"
proof -
  have "pe_role demo_peer = RoleAgent" "registry_Peer RoleAgent (rl_reg demo_pending) = Some demo_peer"
    using demo_opened_inv(2) by (simp_all add: demo_peer_def demo_pending_def)
  note released = disconnect_releases_requests [OF this, of demo_env demo_ce, THEN conjunct1, rule_format, OF refl]
  have "co_source (rl_rt demo_pending) = Some [(''t'', None)] \<and> waiting ''t'' [(''t'', None)] = Some None"
    by (simp add: demo_pending_def waiting_def)
  note t = released [THEN conjunct2, THEN conjunct1, rule_format, OF this]
  have "co_profiles (rl_rt demo_pending) = Some [(''u'', Some (Inl ErrExecutionProfilesUnavailable))] \<and>
      waiting ''u'' [(''u'', Some (Inl ErrExecutionProfilesUnavailable))] = Some (Some (Inl ErrExecutionProfilesUnavailable))"
    by (simp add: demo_pending_def waiting_def)
  note u = released [THEN conjunct2, THEN conjunct2, THEN conjunct1, rule_format, OF this]
  from t u show ?thesis unfolding option.case by blast
qed

end
