(* ===== verification/Go_Net.thy ===== *)
theory Go_Net
  imports Go_Strconv
begin

section \<open>The Go library: settings as text\<close>

text \<open>
  \<^verbatim>\<open>strconv.ParseBool\<close>, \<^verbatim>\<open>time.ParseDuration\<close>, \<^verbatim>\<open>net.SplitHostPort\<close>, \<^verbatim>\<open>net.ParseIP\<close> and
  \<^verbatim>\<open>IP.IsLoopback\<close>, as the configuration uses them. A fraction of a duration goes through floating
  point; \<open>frac f n unit\<close> stands for the whole nanoseconds of \<open>f / 10^n\<close> units, a parameter. An address is
  its sixteen bytes, an IPv4 address in its mapped form.
\<close>

subsection \<open>Booleans\<close>

definition ParseBool :: "string \<Rightarrow> bool option" where
  "ParseBool s =
     (if s \<in> set [''1'', ''t'', ''T'', ''TRUE'', ''true'', ''True''] then Some True
      else if s \<in> set [''0'', ''f'', ''F'', ''FALSE'', ''false'', ''False''] then Some False
      else None)"

subsection \<open>Durations\<close>

definition unit_map :: "string \<Rightarrow> int option" where
  "unit_map u =
     (if u = ''ns'' then Some nanosecond
      else if u = ''us'' \<or> u = [CHR 0xC2, CHR 0xB5, CHR ''s''] \<or> u = [CHR 0xCE, CHR 0xBC, CHR ''s''] then Some microsecond
      else if u = ''ms'' then Some millisecond
      else if u = ''s'' then Some second
      else if u = ''m'' then Some minute
      else if u = ''h'' then Some hour
      else None)"

text \<open>The digits of a fraction that still fit, and how many they are.\<close>

fun leading_fraction :: "int \<Rightarrow> nat \<Rightarrow> string \<Rightarrow> int \<times> nat" where
  "leading_fraction x n [] = (x, n)"
| "leading_fraction x n (c # cs) =
     (if (2 ^ 63 - 1) div 10 < x \<or> 2 ^ 63 < 10 * x + char_digit c then (x, n)
      else leading_fraction (10 * x + char_digit c) (Suc n) cs)"

text \<open>One number with its unit: its nanoseconds and the rest of the text.\<close>

definition duration_part :: "(int \<Rightarrow> nat \<Rightarrow> int \<Rightarrow> int) \<Rightarrow> string \<Rightarrow> (int \<times> string) option" where
  "duration_part frac s =
     (let whole = takeWhile is_digit s; s1 = dropWhile is_digit s;
          dotted = (s1 \<noteq> [] \<and> hd s1 = CHR ''.'');
          s2 = (if dotted then tl s1 else s1);
          part = (if dotted then takeWhile is_digit s2 else []);
          s3 = (if dotted then dropWhile is_digit s2 else s2);
          u = takeWhile (\<lambda>c. c \<noteq> CHR ''.'' \<and> \<not> is_digit c) s3;
          v = digits_value whole; (f, n) = leading_fraction 0 0 part in
      if 2 ^ 63 < v \<or> whole = [] \<and> part = [] then None
      else case unit_map u of
        None \<Rightarrow> None
      | Some un \<Rightarrow>
          if (2 ^ 63) div un < v then None
          else
            (let w = v * un + (if 0 < f then frac f n un else 0) in
             if 2 ^ 63 < w then None else Some (w, drop (length u) s3)))"

fun duration_parts :: "(int \<Rightarrow> nat \<Rightarrow> int \<Rightarrow> int) \<Rightarrow> nat \<Rightarrow> int \<Rightarrow> string \<Rightarrow> int option" where
  "duration_parts frac fuel d [] = Some d"
| "duration_parts frac 0 d (c # cs) = None"
| "duration_parts frac (Suc fuel) d (c # cs) =
     (case duration_part frac (c # cs) of
        None \<Rightarrow> None
      | Some (v, rest) \<Rightarrow>
          (let d' = (d + v) mod 2 ^ 64 in if 2 ^ 63 < d' then None else duration_parts frac fuel d' rest))"

text \<open>Every part consumes its unit, so the length of the text is enough fuel.\<close>

definition ParseDuration :: "(int \<Rightarrow> nat \<Rightarrow> int \<Rightarrow> int) \<Rightarrow> string \<Rightarrow> duration option" where
  "ParseDuration frac s =
     (let (neg, t) = split_sign s in
      if t = ''0'' then Some 0
      else if t = [] then None
      else case duration_parts frac (length t) 0 t of
        None \<Rightarrow> None
      | Some d \<Rightarrow> if neg then Some (- d) else if 2 ^ 63 - 1 < d then None else Some d)"

subsection \<open>Host and port\<close>

definition SplitHostPort :: "string \<Rightarrow> (string \<times> string) option" where
  "SplitHostPort hostport =
     (if CHR '':'' \<notin> set hostport then None
      else
        (let port = rev (takeWhile (\<lambda>c. c \<noteq> CHR '':'') (rev hostport));
             i = length hostport - length port - 1 in
         if hd hostport = CHR ''['' then
           (if CHR '']'' \<notin> set hostport then None
            else
              (let close = length (takeWhile (\<lambda>c. c \<noteq> CHR '']'') hostport) in
               if close + 1 \<noteq> i then None
               else if CHR ''['' \<in> set (drop 1 hostport) \<or> CHR '']'' \<in> set (drop (close + 1) hostport) then None
               else Some (drop 1 (take close hostport), port)))
         else
           (let host = take i hostport in
            if CHR '':'' \<in> set host \<or> CHR ''['' \<in> set hostport \<or> CHR '']'' \<in> set hostport then None
            else Some (host, port))))"

subsection \<open>Addresses\<close>

text \<open>An IPv4 field: one to three digits without a leading zero, at most 255.\<close>

definition ip_field :: "string \<Rightarrow> nat option" where
  "ip_field s =
     (if s = [] \<or> \<not> list_all is_digit s \<or> 3 < length s \<or> (1 < length s \<and> hd s = CHR ''0'') \<or> 255 < digits_value s
      then None else Some (nat (digits_value s)))"

definition parseIPv4Fields :: "string \<Rightarrow> nat list option" where
  "parseIPv4Fields s =
     (case map ip_field (split_on (CHR ''.'') s) of
        [Some a, Some b, Some c, Some d] \<Rightarrow> Some [a, b, c, d]
      | _ \<Rightarrow> None)"

definition hex_value :: "char \<Rightarrow> nat option" where
  "hex_value c =
     (let n = of_char c :: nat in
      if 48 \<le> n \<and> n \<le> 57 then Some (n - 48)
      else if 97 \<le> n \<and> n \<le> 102 then Some (n - 87)
      else if 65 \<le> n \<and> n \<le> 70 then Some (n - 55)
      else None)"

definition hex_group :: "string \<Rightarrow> nat" where
  "hex_group s = foldl (\<lambda>a c. 16 * a + the (hex_value c)) 0 s"

text \<open>
  The groups of an IPv6 address: the bytes so far, where the ellipsis was, and the text left. At
  most eight groups are read; the result has the text that was not used.
\<close>

fun ip_groups :: "nat \<Rightarrow> nat list \<Rightarrow> nat option \<Rightarrow> string \<Rightarrow> (nat list \<times> nat option \<times> string) option" where
  "ip_groups 0 ip ell s = Some (ip, ell, s)"
| "ip_groups (Suc left) ip ell s =
     (let digits = takeWhile (\<lambda>c. hex_value c \<noteq> None) s; s1 = drop (length digits) s in
      if digits = [] \<or> 4 < length digits then None
      else if s1 \<noteq> [] \<and> hd s1 = CHR ''.'' then
        (if ell = None \<and> length ip \<noteq> 12 \<or> 16 < length ip + 4 then None
         else map_option (\<lambda>bs. (ip @ bs, ell, [])) (parseIPv4Fields s))
      else
        (let ip' = ip @ [hex_group digits div 256, hex_group digits mod 256] in
         case s1 of
           [] \<Rightarrow> Some (ip', ell, [])
         | [c] \<Rightarrow> None
         | c # c' # rest \<Rightarrow>
             if c \<noteq> CHR '':'' then None
             else if c' = CHR '':'' then
               (if ell \<noteq> None then None
                else if rest = [] then Some (ip', Some (length ip'), [])
                else ip_groups left ip' (Some (length ip')) rest)
             else ip_groups left ip' ell (c' # rest)))"

definition expand_ellipsis :: "nat list \<times> nat option \<times> string \<Rightarrow> nat list option" where
  "expand_ellipsis r =
     (case r of (ip, ell, s) \<Rightarrow>
        if s \<noteq> [] then None
        else if length ip < 16 then map_option (\<lambda>e. take e ip @ replicate (16 - length ip) 0 @ drop e ip) ell
        else if ell = None then Some ip else None)"

text \<open>A zone makes \<open>net.ParseIP\<close> refuse the address.\<close>

definition parseIPv6 :: "string \<Rightarrow> nat list option" where
  "parseIPv6 s =
     (if CHR ''%'' \<in> set s then None
      else if take 2 s = ''::'' then
        (if drop 2 s = [] then Some (replicate 16 0)
         else Option.bind (ip_groups 8 [] (Some 0) (drop 2 s)) expand_ellipsis)
      else Option.bind (ip_groups 8 [] None s) expand_ellipsis)"

definition v4_prefix :: "nat list" where
  "v4_prefix = replicate 10 0 @ [255, 255]"

definition ParseIP :: "string \<Rightarrow> nat list option" where
  "ParseIP s =
     (case dropWhile (\<lambda>c. c \<notin> {CHR ''.'', CHR '':'', CHR ''%''}) s of
        [] \<Rightarrow> None
      | c # _ \<Rightarrow>
          if c = CHR ''.'' then map_option (\<lambda>bs. v4_prefix @ bs) (parseIPv4Fields s)
          else if c = CHR '':'' then parseIPv6 s else None)"

definition IsLoopback :: "nat list \<Rightarrow> bool" where
  "IsLoopback ip \<longleftrightarrow> (if take 12 ip = v4_prefix then ip ! 12 = 127 else ip = replicate 15 0 @ [1])"

subsection \<open>Facts about the parsers\<close>

lemma duration_part_shrinks: "duration_part frac s = Some (v, rest) \<Longrightarrow> length rest < length s"
proof -
  assume a: "duration_part frac s = Some (v, rest)"
  let ?s1 = "dropWhile is_digit s"
  define s3 where "s3 = (if ?s1 \<noteq> [] \<and> hd ?s1 = CHR ''.'' then dropWhile is_digit (tl ?s1) else ?s1)"
  define u where "u = takeWhile (\<lambda>c. c \<noteq> CHR ''.'' \<and> \<not> is_digit c) s3"
  have "unit_map u \<noteq> None" "rest = drop (length u) s3"
    using a by (auto simp: duration_part_def Let_def s3_def u_def split: prod.splits option.splits if_splits)
  then have "u \<noteq> []" "rest = drop (length u) s3" by (auto simp: unit_map_def)
  moreover have "length s3 \<le> length s"
    using length_dropWhile_le [of is_digit s] length_dropWhile_le [of is_digit "tl ?s1"] by (auto simp: s3_def)
  moreover have "length u \<le> length s3" by (simp add: u_def length_takeWhile_le)
  ultimately show ?thesis by (cases u) auto
qed

text \<open>The fuel of \<open>ParseDuration\<close> is enough: more changes nothing.\<close>

lemma duration_fuel: "length s \<le> fuel \<Longrightarrow> duration_parts frac (fuel + k) d s = duration_parts frac fuel d s"
proof (induction frac fuel d s rule: duration_parts.induct)
  case (1 frac fuel d)
  then show ?case by (cases "fuel + k") auto
next
  case (3 frac fuel d c cs)
  show ?case
    using 3 duration_part_shrinks [of frac "c # cs"] by (fastforce simp: Let_def split: option.split)
qed auto

lemma duration_parts_range: "duration_parts frac fuel d s = Some r \<Longrightarrow> 0 \<le> d \<Longrightarrow> d \<le> 2 ^ 63 \<Longrightarrow> 0 \<le> r \<and> r \<le> 2 ^ 63"
  by (induction frac fuel d s rule: duration_parts.induct) (auto simp: Let_def split: option.splits if_splits)

lemma ParseDuration_int64: "ParseDuration frac s = Some d \<Longrightarrow> int64_ok d"
  using duration_parts_range [of frac _ 0]
  by (fastforce simp: ParseDuration_def int64_ok_def split: prod.splits if_splits option.splits)

lemma length_parseIPv4Fields: "parseIPv4Fields s = Some bs \<Longrightarrow> length bs = 4"
  by (auto simp: parseIPv4Fields_def split: list.splits option.splits)

lemma length_ip_groups:
  "ip_groups left ip ell s = Some (ip', ell', s') \<Longrightarrow> length ip + 2 * left \<le> 16 \<Longrightarrow> length ip' \<le> 16"
proof (induction left arbitrary: ip ell s)
  case (Suc left)
  let ?ds = "takeWhile (\<lambda>c. hex_value c \<noteq> None) s"
  have IH: "ip_groups left (ip @ [a, b]) e r = Some (ip', ell', s') \<Longrightarrow> length ip' \<le> 16" for a b e r
    using Suc.IH [of "ip @ [a, b]" e r] Suc.prems(2) by simp
  show ?case
    using Suc.prems IH length_parseIPv4Fields
    by (auto simp: Let_def split: if_splits list.splits)
qed simp

lemma length_expand: "expand_ellipsis (ip, ell, s) = Some ip' \<Longrightarrow> length ip \<le> 16 \<Longrightarrow> length ip' = 16"
  by (auto simp: expand_ellipsis_def split: if_splits)

lemma length_ParseIP: "ParseIP s = Some ip \<Longrightarrow> length ip = 16"
proof -
  assume a: "ParseIP s = Some ip"
  have v6: "length ip = 16" if "ip_groups 8 [] ell t = Some r" "expand_ellipsis r = Some ip" for ell t r
    using that length_ip_groups [of 8 "[]" ell t] length_expand by (cases r) auto
  show ?thesis
    using a v6 length_parseIPv4Fields [of s]
    by (auto simp: ParseIP_def parseIPv6_def v4_prefix_def bind_eq_Some_conv split: list.splits if_splits)
qed

text \<open>The loopback addresses are 127.0.0.0/8 and ::1.\<close>

lemma loopback_form:
  assumes "ParseIP s = Some ip" "IsLoopback ip"
  shows "ip = replicate 15 0 @ [1] \<or> (\<exists>a b c. ip = v4_prefix @ [127, a, b, c])"
proof (cases "take 12 ip = v4_prefix")
  case True
  have "length ip = 16" by (rule length_ParseIP [OF assms(1)])
  then have "length (drop 12 ip) = Suc (Suc (Suc (Suc 0)))" by simp
  then obtain x a b c where d: "drop 12 ip = [x, a, b, c]" unfolding length_Suc_conv by auto
  have "ip ! 12 = x" using d nth_drop [of 12 ip 0] \<open>length ip = 16\<close> by simp
  then have "x = 127" using True assms(2) by (simp add: IsLoopback_def)
  then show ?thesis using d True append_take_drop_id [of 12 ip] by metis
next
  case False
  then show ?thesis using assms(2) by (simp add: IsLoopback_def)
qed

end
