(* ===== verification/Go_Flag.thy ===== *)
theory Go_Flag
  imports Go_Net
begin

section \<open>The Go library: command-line flags\<close>

text \<open>
  \<^verbatim>\<open>flag.FlagSet.Parse\<close> with \<open>ContinueOnError\<close>, for flags with string, boolean and integer values. The
  result lists the values in the order they were set, and the arguments after the flags; an error
  covers \<open>ErrHelp\<close> too. \<^verbatim>\<open>strconv.ParseInt\<close> with base 0, which an integer flag uses, accepts a base prefix and
  underscores between digits.
\<close>

datatype flag_value = VStr string | VBool bool | VInt int

datatype flag_kind = FStr | FBool | FInt

subsection \<open>Integers with a base prefix\<close>

definition digit_of :: "char \<Rightarrow> nat option" where
  "digit_of c =
     (let n = of_char (lower_char c) :: nat in
      if 48 \<le> n \<and> n \<le> 57 then Some (n - 48) else if 97 \<le> n \<and> n \<le> 122 then Some (n - 87) else None)"

definition base_prefix :: "string \<Rightarrow> nat \<times> string" where
  "base_prefix s =
     (if s \<noteq> [] \<and> hd s = CHR ''0'' then
        (if 3 \<le> length s \<and> lower_char (s ! 1) = CHR ''b'' then (2, drop 2 s)
         else if 3 \<le> length s \<and> lower_char (s ! 1) = CHR ''o'' then (8, drop 2 s)
         else if 3 \<le> length s \<and> lower_char (s ! 1) = CHR ''x'' then (16, drop 2 s)
         else (8, drop 1 s))
      else (10, s))"

fun base_value :: "nat \<Rightarrow> int \<Rightarrow> string \<Rightarrow> int option" where
  "base_value b n [] = Some n"
| "base_value b n (c # cs) =
     (if c = CHR ''_'' then base_value b n cs
      else case digit_of c of
        None \<Rightarrow> None
      | Some d \<Rightarrow> if b \<le> d then None else base_value b (int b * n + int d) cs)"

text \<open>
  \<open>underscoreOK\<close>: the state is what came before: \<open>^\<close> at the start, \<open>0\<close> a digit or a base prefix, \<open>_\<close> an
  underscore, \<open>!\<close> anything else.
\<close>

fun underscores_from :: "bool \<Rightarrow> char \<Rightarrow> string \<Rightarrow> bool" where
  "underscores_from hex st [] \<longleftrightarrow> st \<noteq> CHR ''_''"
| "underscores_from hex st (c # cs) \<longleftrightarrow>
     (if is_digit c \<or> hex \<and> hex_value c \<noteq> None then underscores_from hex (CHR ''0'') cs
      else if c = CHR ''_'' then st = CHR ''0'' \<and> underscores_from hex (CHR ''_'') cs
      else st \<noteq> CHR ''_'' \<and> underscores_from hex (CHR ''!'') cs)"

definition underscoreOK :: "string \<Rightarrow> bool" where
  "underscoreOK s \<longleftrightarrow>
     (if 2 \<le> length s \<and> hd s = CHR ''0'' \<and> lower_char (s ! 1) \<in> set ''box''
      then underscores_from (lower_char (s ! 1) = CHR ''x'') (CHR ''0'') (drop 2 s)
      else underscores_from False (CHR ''^'') s)"

definition ParseInt0 :: "string \<Rightarrow> int option" where
  "ParseInt0 s =
     (let (neg, t) = split_sign s; (b, ds) = base_prefix t in
      if t = [] then None
      else case base_value b 0 ds of
        None \<Rightarrow> None
      | Some n \<Rightarrow>
          (let v = (if neg then - n else n) in
           if CHR ''_'' \<in> set ds \<and> \<not> underscoreOK t \<or> \<not> int64_ok v then None else Some v))"

subsection \<open>Flags\<close>

definition set_flag :: "flag_kind \<Rightarrow> string \<Rightarrow> flag_value option" where
  "set_flag kind value =
     (case kind of
        FStr \<Rightarrow> Some (VStr value)
      | FBool \<Rightarrow> map_option VBool (ParseBool value)
      | FInt \<Rightarrow> map_option VInt (ParseInt0 value))"

text \<open>A flag argument: its name and its value behind the equals sign. \<open>None\<close> is bad syntax.\<close>

definition split_flag :: "string \<Rightarrow> (string \<times> string option) option" where
  "split_flag s =
     (let name = (if 2 \<le> length s \<and> s ! 1 = CHR ''-'' then drop 2 s else drop 1 s) in
      if name = [] \<or> hd name = CHR ''-'' \<or> hd name = CHR ''='' then None
      else if CHR ''='' \<in> set name then
        (let n = takeWhile (\<lambda>c. c \<noteq> CHR ''='') name in Some (n, Some (drop (length n + 1) name)))
      else Some (name, None))"

fun flag_Parse :: "(string \<Rightarrow> flag_kind option) \<Rightarrow> string list \<Rightarrow> ((string \<times> flag_value) list \<times> string list) option" where
  "flag_Parse formal [] = Some ([], [])"
| "flag_Parse formal (s # rest) =
     (if length s < 2 \<or> hd s \<noteq> CHR ''-'' then Some ([], s # rest)
      else if s = ''--'' then Some ([], rest)
      else case split_flag s of
        None \<Rightarrow> None
      | Some (name, value) \<Rightarrow>
          (case formal name of
             None \<Rightarrow> None
           | Some kind \<Rightarrow>
               if kind = FBool \<or> value \<noteq> None then
                 (case set_flag kind (case value of Some v \<Rightarrow> v | None \<Rightarrow> ''true'') of
                    None \<Rightarrow> None
                  | Some x \<Rightarrow> map_option (\<lambda>(xs, as). ((name, x) # xs, as)) (flag_Parse formal rest))
               else
                 (case rest of
                    [] \<Rightarrow> None
                  | v # rest' \<Rightarrow>
                      (case set_flag kind v of
                         None \<Rightarrow> None
                       | Some x \<Rightarrow> map_option (\<lambda>(xs, as). ((name, x) # xs, as)) (flag_Parse formal rest')))))"

text \<open>The value of a flag: the last one set, or its default.\<close>

definition flag_str :: "(string \<times> flag_value) list \<Rightarrow> string \<Rightarrow> string \<Rightarrow> string" where
  "flag_str xs name fallback = (case map_of (rev xs) name of Some (VStr s) \<Rightarrow> s | _ \<Rightarrow> fallback)"

definition flag_bool :: "(string \<times> flag_value) list \<Rightarrow> string \<Rightarrow> bool \<Rightarrow> bool" where
  "flag_bool xs name fallback = (case map_of (rev xs) name of Some (VBool b) \<Rightarrow> b | _ \<Rightarrow> fallback)"

definition flag_int :: "(string \<times> flag_value) list \<Rightarrow> string \<Rightarrow> int \<Rightarrow> int" where
  "flag_int xs name fallback = (case map_of (rev xs) name of Some (VInt n) \<Rightarrow> n | _ \<Rightarrow> fallback)"

end
