(* ===== verification/Auth_Store.thy ===== *)
theory Auth_Store
  imports Auth_Tokens
begin

section \<open>Auth: the credential store\<close>

text \<open>
  \<^verbatim>\<open>internal/auth/postgres.go\<close> over the tables of \<^verbatim>\<open>internal/auth/migrations/001_auth.sql\<close>. Every
  method of \<open>PostgresStore\<close> is one definition: its statements in order, the transaction they run
  in, the row-level guards of the Go code between them, and the errors they return. The primary
  keys, the unique code hash and the foreign keys of the schema are checked by the modelled
  inserts; \<open>wf_auth\<close> is the invariant they and the code keep.
\<close>

subsection \<open>Tables\<close>

record client_row =
  cl_id :: string
  cl_name :: string
  cl_scopes :: "string list"
  cl_created_at :: time
  cl_last_seen_at :: "time option"
  cl_revoked_at :: "time option"

record grant_row =
  pg_id :: string
  pg_code_hash :: string
  pg_name :: string
  pg_scopes :: "string list"
  pg_expires_at :: time
  pg_created_at :: time
  pg_consumed_at :: "time option"
  pg_client_id :: "string option"

record session_row =
  rs_id :: string
  rs_client_id :: string
  rs_token_hash :: string
  rs_expires_at :: time
  rs_created_at :: time
  rs_rotated_at :: "time option"
  rs_revoked_at :: "time option"
  rs_revoke_reason :: "string option"

record history_row =
  hi_token_hash :: string
  hi_session_id :: string
  hi_used_at :: time

record access_row =
  at_id :: string
  at_session_id :: string
  at_client_id :: string
  at_secret_hash :: string
  at_scopes :: "string list"
  at_expires_at :: time
  at_created_at :: time
  at_revoked_at :: "time option"

record auth_db =
  clients :: "client_row list"
  pairing_grants :: "grant_row list"
  refresh_sessions :: "session_row list"
  refresh_token_history :: "history_row list"
  access_tokens :: "access_row list"

definition empty_auth :: auth_db where
  "empty_auth = \<lparr>clients = [], pairing_grants = [], refresh_sessions = [],
     refresh_token_history = [], access_tokens = []\<rparr>"

text \<open>The values that cross the \<open>Store\<close> interface (\<^verbatim>\<open>types.go\<close>).\<close>

record auth_client =
  ac_id :: string
  ac_name :: string
  ac_scopes :: "string list"
  ac_created_at :: time
  ac_last_seen_at :: "time option"
  ac_revoked_at :: "time option"

record pairing_grant =
  gr_id :: string
  gr_code_hash :: string
  gr_name :: string
  gr_scopes :: "string list"
  gr_expires_at :: time
  gr_created_at :: time

record credential_material =
  cm_client_id :: string
  cm_session_id :: string
  cm_access_token_id :: string
  cm_access_hash :: string
  cm_refresh_hash :: string
  cm_access_expires :: time
  cm_refresh_expires :: time

record rotated_material =
  rm_access_token_id :: string
  rm_access_hash :: string
  rm_refresh_hash :: string
  rm_access_expires :: time

subsection \<open>Statements\<close>

definition insert_client :: "client_row \<Rightarrow> auth_db \<Rightarrow> auth_db option" where
  "insert_client r db =
     map_option (\<lambda>t. db\<lparr>clients := t\<rparr>) (sql_insert cl_id r (clients db))"

definition insert_grant :: "grant_row \<Rightarrow> auth_db \<Rightarrow> auth_db option" where
  "insert_grant r db =
     (if sql_exists (\<lambda>g. pg_code_hash g = pg_code_hash r) (pairing_grants db) then None
      else map_option (\<lambda>t. db\<lparr>pairing_grants := t\<rparr>) (sql_insert pg_id r (pairing_grants db)))"

definition insert_session :: "session_row \<Rightarrow> auth_db \<Rightarrow> auth_db option" where
  "insert_session r db =
     (if \<not> sql_exists (\<lambda>c. cl_id c = rs_client_id r) (clients db) then None
      else map_option (\<lambda>t. db\<lparr>refresh_sessions := t\<rparr>) (sql_insert rs_id r (refresh_sessions db)))"

definition insert_history :: "history_row \<Rightarrow> auth_db \<Rightarrow> auth_db option" where
  "insert_history r db =
     (if \<not> sql_exists (\<lambda>s. rs_id s = hi_session_id r) (refresh_sessions db) then None
      else map_option (\<lambda>t. db\<lparr>refresh_token_history := t\<rparr>)
             (sql_insert hi_token_hash r (refresh_token_history db)))"

definition insert_access :: "access_row \<Rightarrow> auth_db \<Rightarrow> auth_db option" where
  "insert_access r db =
     (if \<not> sql_exists (\<lambda>s. rs_id s = at_session_id r) (refresh_sessions db)
         \<or> \<not> sql_exists (\<lambda>c. cl_id c = at_client_id r) (clients db) then None
      else map_option (\<lambda>t. db\<lparr>access_tokens := t\<rparr>) (sql_insert at_id r (access_tokens db)))"

definition consume_grant :: "string \<Rightarrow> time \<Rightarrow> string \<Rightarrow> auth_db \<Rightarrow> auth_db" where
  "consume_grant gid now cid db = db\<lparr>pairing_grants :=
     sql_update (\<lambda>g. pg_id g = gid)
       (\<lambda>g. g\<lparr>pg_consumed_at := Some (pg_time now), pg_client_id := Some cid\<rparr>) (pairing_grants db)\<rparr>"

definition rotate_session :: "string \<Rightarrow> string \<Rightarrow> time \<Rightarrow> auth_db \<Rightarrow> auth_db" where
  "rotate_session sid hash now db = db\<lparr>refresh_sessions :=
     sql_update (\<lambda>s. rs_id s = sid)
       (\<lambda>s. s\<lparr>rs_token_hash := hash, rs_rotated_at := Some (pg_time now)\<rparr>) (refresh_sessions db)\<rparr>"

definition seen_client :: "string \<Rightarrow> time \<Rightarrow> auth_db \<Rightarrow> auth_db" where
  "seen_client cid now db = db\<lparr>clients :=
     sql_update (\<lambda>c. cl_id c = cid) (\<lambda>c. c\<lparr>cl_last_seen_at := Some (pg_time now)\<rparr>) (clients db)\<rparr>"

text \<open>The throttled variant of \<open>AuthenticateAccess\<close>: at most once a minute.\<close>

definition touch_client :: "string \<Rightarrow> time \<Rightarrow> auth_db \<Rightarrow> auth_db" where
  "touch_client cid now db = db\<lparr>clients :=
     sql_update
       (\<lambda>c. cl_id c = cid \<and>
          (case cl_last_seen_at c of None \<Rightarrow> True | Some t \<Rightarrow> t < pg_time now - minute))
       (\<lambda>c. c\<lparr>cl_last_seen_at := Some (pg_time now)\<rparr>) (clients db)\<rparr>"

definition revoke_tokens :: "(access_row \<Rightarrow> bool) \<Rightarrow> time \<Rightarrow> auth_db \<Rightarrow> auth_db" where
  "revoke_tokens P now db = db\<lparr>access_tokens :=
     sql_update P (\<lambda>t. t\<lparr>at_revoked_at := coalesce (at_revoked_at t) (pg_time now)\<rparr>)
       (access_tokens db)\<rparr>"

definition revoke_sessions :: "(session_row \<Rightarrow> bool) \<Rightarrow> time \<Rightarrow> string \<Rightarrow> auth_db \<Rightarrow> auth_db" where
  "revoke_sessions P now reason db = db\<lparr>refresh_sessions :=
     sql_update P (\<lambda>s. s\<lparr>rs_revoked_at := coalesce (rs_revoked_at s) (pg_time now),
                        rs_revoke_reason := coalesce (rs_revoke_reason s) reason\<rparr>)
       (refresh_sessions db)\<rparr>"

definition revoke_client_row :: "string \<Rightarrow> time \<Rightarrow> auth_db \<Rightarrow> auth_db" where
  "revoke_client_row cid now db = db\<lparr>clients :=
     sql_update (\<lambda>c. cl_id c = cid)
       (\<lambda>c. c\<lparr>cl_revoked_at := coalesce (cl_revoked_at c) (pg_time now)\<rparr>) (clients db)\<rparr>"

subsection \<open>The methods of PostgresStore\<close>

definition db_CreatePairingGrant :: "faults \<Rightarrow> pairing_grant \<Rightarrow> auth_db \<Rightarrow> (auth_error + unit) \<times> auth_db" where
  "db_CreatePairingGrant flt g db =
     (let row = \<lparr>pg_id = gr_id g, pg_code_hash = gr_code_hash g, pg_name = gr_name g,
            pg_scopes = gr_scopes g, pg_expires_at = pg_time (gr_expires_at g),
            pg_created_at = pg_time (gr_created_at g), pg_consumed_at = None,
            pg_client_id = None\<rparr> in
      case insert_grant row db of
        None \<Rightarrow> (Inl ErrDatabase, db)
      | Some db' \<Rightarrow>
          (case flt 0 of Delivered \<Rightarrow> (Inr (), db') | Dropped \<Rightarrow> (Inl ErrDatabase, db)
           | ReplyLost \<Rightarrow> (Inl ErrDatabase, db')))"

definition exchange_body :: "string \<Rightarrow> time \<Rightarrow> credential_material \<Rightarrow> (auth_db, auth_error, auth_client) tx" where
  "exchange_body codeHash now m =
     tx_bind (tx_query ErrDatabase
       (\<lambda>db. find (\<lambda>g. pg_code_hash g = codeHash) (pairing_grants db))) (\<lambda>row.
     case row of
       None \<Rightarrow> tx_fail ErrInvalidCredential
     | Some g \<Rightarrow>
       if pg_consumed_at g \<noteq> None then tx_fail ErrConsumedGrant
       else if \<not> after (pg_expires_at g) now then tx_fail ErrExpiredCredential
       else
         tx_bind (tx_insert ErrDatabase (insert_client
           \<lparr>cl_id = cm_client_id m, cl_name = pg_name g, cl_scopes = pg_scopes g,
            cl_created_at = pg_time now, cl_last_seen_at = None, cl_revoked_at = None\<rparr>)) (\<lambda>_.
         tx_bind (tx_insert ErrDatabase (insert_session
           \<lparr>rs_id = cm_session_id m, rs_client_id = cm_client_id m,
            rs_token_hash = cm_refresh_hash m, rs_expires_at = pg_time (cm_refresh_expires m),
            rs_created_at = pg_time now, rs_rotated_at = None, rs_revoked_at = None,
            rs_revoke_reason = None\<rparr>)) (\<lambda>_.
         tx_bind (tx_insert ErrDatabase (insert_access
           \<lparr>at_id = cm_access_token_id m, at_session_id = cm_session_id m,
            at_client_id = cm_client_id m, at_secret_hash = cm_access_hash m,
            at_scopes = pg_scopes g, at_expires_at = pg_time (cm_access_expires m),
            at_created_at = pg_time now, at_revoked_at = None\<rparr>)) (\<lambda>_.
         tx_bind (tx_exec ErrDatabase (consume_grant (pg_id g) now (cm_client_id m))) (\<lambda>_.
         tx_return \<lparr>ac_id = cm_client_id m, ac_name = pg_name g, ac_scopes = pg_scopes g,
           ac_created_at = now, ac_last_seen_at = None, ac_revoked_at = None\<rparr>)))))"

definition db_ExchangePairingGrant ::
    "faults \<Rightarrow> string \<Rightarrow> time \<Rightarrow> credential_material \<Rightarrow> auth_db \<Rightarrow> (auth_error + auth_client) \<times> auth_db" where
  "db_ExchangePairingGrant flt codeHash now m db =
     run_tx ErrDatabase flt (exchange_body codeHash now m) db"

text \<open>The three-way join of \<open>AuthenticateAccess\<close>: one row or none, the token id being a key.\<close>

definition access_join :: "string \<Rightarrow> auth_db \<Rightarrow> (access_row \<times> session_row \<times> client_row) option" where
  "access_join tokenID db =
     (case by_key at_id tokenID (access_tokens db) of
        None \<Rightarrow> None
      | Some t \<Rightarrow>
          (case by_key rs_id (at_session_id t) (refresh_sessions db) of
             None \<Rightarrow> None
           | Some s \<Rightarrow>
               (case by_key cl_id (at_client_id t) (clients db) of
                  None \<Rightarrow> None
                | Some c \<Rightarrow> Some (t, s, c))))"

definition db_AuthenticateAccess ::
    "faults \<Rightarrow> string \<Rightarrow> string \<Rightarrow> time \<Rightarrow> auth_db \<Rightarrow> (auth_error + principal) \<times> auth_db" where
  "db_AuthenticateAccess flt tokenID presentedHash now db =
     (if flt 0 \<noteq> Delivered then (Inl ErrDatabase, db)
      else case access_join tokenID db of
        None \<Rightarrow> (Inl ErrInvalidCredential, db)
      | Some (t, s, c) \<Rightarrow>
          if at_secret_hash t \<noteq> presentedHash then (Inl ErrInvalidCredential, db)
          else if at_revoked_at t \<noteq> None \<or> rs_revoked_at s \<noteq> None \<or> cl_revoked_at c \<noteq> None
          then (Inl ErrRevoked, db)
          else if \<not> after (at_expires_at t) now then (Inl ErrExpiredCredential, db)
          else (Inr \<lparr>pr_client_id = cl_id c, pr_client_name = cl_name c,
                    pr_session_id = rs_id s, pr_scopes = at_scopes t\<rparr>,
                if flt 1 = Dropped then db else touch_client (cl_id c) now db))"

definition client_of_row :: "client_row \<Rightarrow> auth_client" where
  "client_of_row c = \<lparr>ac_id = cl_id c, ac_name = cl_name c, ac_scopes = cl_scopes c,
     ac_created_at = cl_created_at c, ac_last_seen_at = cl_last_seen_at c,
     ac_revoked_at = cl_revoked_at c\<rparr>"

definition session_join :: "string \<Rightarrow> auth_db \<Rightarrow> (session_row \<times> client_row) option" where
  "session_join sid db =
     (case by_key rs_id sid (refresh_sessions db) of
        None \<Rightarrow> None
      | Some s \<Rightarrow>
          (case by_key cl_id (rs_client_id s) (clients db) of
             None \<Rightarrow> None | Some c \<Rightarrow> Some (s, c)))"

definition revokeSessionTx :: "string \<Rightarrow> time \<Rightarrow> string \<Rightarrow> (auth_db, auth_error, unit) tx" where
  "revokeSessionTx sid now reason =
     tx_bind (tx_exec ErrDatabase (revoke_sessions (\<lambda>s. rs_id s = sid) now reason)) (\<lambda>_.
     tx_exec ErrDatabase (revoke_tokens (\<lambda>t. at_session_id t = sid) now))"

text \<open>
  The body's value is itself a result: on a replay the revocation is committed and the method
  still returns an error.
\<close>

definition rotate_body ::
    "string \<Rightarrow> string \<Rightarrow> time \<Rightarrow> rotated_material \<Rightarrow> (auth_db, auth_error, auth_error + auth_client \<times> time) tx" where
  "rotate_body sid presentedHash now m =
     tx_bind (tx_query ErrDatabase (session_join sid)) (\<lambda>row.
     case row of
       None \<Rightarrow> tx_fail ErrInvalidCredential
     | Some (s, c) \<Rightarrow>
       if rs_revoked_at s \<noteq> None \<or> cl_revoked_at c \<noteq> None then tx_fail ErrRevoked
       else if \<not> after (rs_expires_at s) now then tx_fail ErrExpiredCredential
       else if rs_token_hash s \<noteq> presentedHash then
         tx_bind (tx_query ErrDatabase (\<lambda>db. sql_exists
           (\<lambda>h. hi_token_hash h = presentedHash \<and> hi_session_id h = sid)
           (refresh_token_history db))) (\<lambda>replay.
         if replay then
           tx_bind (revokeSessionTx sid now ''refresh_replay'') (\<lambda>_. tx_return (Inl ErrRefreshReplay))
         else tx_fail ErrInvalidCredential)
       else
         tx_bind (tx_insert ErrDatabase (insert_history
           \<lparr>hi_token_hash = rs_token_hash s, hi_session_id = sid, hi_used_at = pg_time now\<rparr>)) (\<lambda>_.
         tx_bind (tx_exec ErrDatabase (rotate_session sid (rm_refresh_hash m) now)) (\<lambda>_.
         tx_bind (tx_insert ErrDatabase (insert_access
           \<lparr>at_id = rm_access_token_id m, at_session_id = sid, at_client_id = cl_id c,
            at_secret_hash = rm_access_hash m, at_scopes = cl_scopes c,
            at_expires_at = pg_time (rm_access_expires m), at_created_at = pg_time now,
            at_revoked_at = None\<rparr>)) (\<lambda>_.
         tx_bind (tx_exec ErrDatabase (seen_client (cl_id c) now)) (\<lambda>_.
         tx_return (Inr ((client_of_row c)\<lparr>ac_last_seen_at := Some now\<rparr>, rs_expires_at s)))))))"

definition db_RotateRefresh ::
    "faults \<Rightarrow> string \<Rightarrow> string \<Rightarrow> time \<Rightarrow> rotated_material \<Rightarrow> auth_db \<Rightarrow>
     (auth_error + auth_client \<times> time) \<times> auth_db" where
  "db_RotateRefresh flt sid presentedHash now m db =
     (case run_tx ErrDatabase flt (rotate_body sid presentedHash now m) db of
        (Inl e, db') \<Rightarrow> (Inl e, db')
      | (Inr r, db') \<Rightarrow> (r, db'))"

definition db_RevokeSession ::
    "faults \<Rightarrow> string \<Rightarrow> string \<Rightarrow> time \<Rightarrow> string \<Rightarrow> auth_db \<Rightarrow> (auth_error + unit) \<times> auth_db" where
  "db_RevokeSession flt sid presentedHash now reason db =
     run_tx ErrDatabase flt
       (tx_bind (tx_query ErrDatabase (\<lambda>db. by_key rs_id sid (refresh_sessions db))) (\<lambda>row.
        case row of
          None \<Rightarrow> tx_fail ErrInvalidCredential
        | Some s \<Rightarrow>
            if rs_token_hash s \<noteq> presentedHash then tx_fail ErrInvalidCredential
            else revokeSessionTx sid now reason)) db"

definition db_ListClients :: "faults \<Rightarrow> auth_db \<Rightarrow> auth_error + auth_client list" where
  "db_ListClients flt db =
     (if flt 0 \<noteq> Delivered then Inl ErrDatabase
      else Inr (map client_of_row (sort_key (\<lambda>c. - cl_created_at c) (clients db))))"

definition db_RevokeClient ::
    "faults \<Rightarrow> string \<Rightarrow> time \<Rightarrow> string \<Rightarrow> auth_db \<Rightarrow> (auth_error + unit) \<times> auth_db" where
  "db_RevokeClient flt cid now reason db =
     run_tx ErrDatabase flt
       (tx_bind (tx_stmt ErrDatabase (\<lambda>db. Inr (affected (\<lambda>c. cl_id c = cid) (clients db),
                   revoke_client_row cid now db))) (\<lambda>rows.
        if rows = 0 then tx_fail ErrNotFound
        else
          tx_bind (tx_exec ErrDatabase (revoke_sessions (\<lambda>s. rs_client_id s = cid) now reason)) (\<lambda>_.
          tx_exec ErrDatabase (revoke_tokens (\<lambda>t. at_client_id t = cid) now)))) db"


subsection \<open>The invariant of the tables\<close>

definition keys_ok :: "auth_db \<Rightarrow> bool" where
  "keys_ok db \<longleftrightarrow>
     distinct (map cl_id (clients db)) \<and> distinct (map pg_id (pairing_grants db)) \<and>
     distinct (map pg_code_hash (pairing_grants db)) \<and> distinct (map rs_id (refresh_sessions db)) \<and>
     distinct (map hi_token_hash (refresh_token_history db)) \<and>
     distinct (map at_id (access_tokens db))"

definition refs_ok :: "auth_db \<Rightarrow> bool" where
  "refs_ok db \<longleftrightarrow>
     (\<forall>g \<in> set (pairing_grants db). \<forall>cid. pg_client_id g = Some cid \<longrightarrow> cid \<in> cl_id ` set (clients db)) \<and>
     (\<forall>s \<in> set (refresh_sessions db). rs_client_id s \<in> cl_id ` set (clients db)) \<and>
     (\<forall>h \<in> set (refresh_token_history db). hi_session_id h \<in> rs_id ` set (refresh_sessions db)) \<and>
     (\<forall>t \<in> set (access_tokens db). at_session_id t \<in> rs_id ` set (refresh_sessions db)) \<and>
     (\<forall>t \<in> set (access_tokens db). at_client_id t \<in> cl_id ` set (clients db))"

text \<open>A grant is consumed by exactly the exchange that created its client.\<close>

definition grants_ok :: "auth_db \<Rightarrow> bool" where
  "grants_ok db \<longleftrightarrow>
     (\<forall>g \<in> set (pairing_grants db). pg_consumed_at g = None \<longleftrightarrow> pg_client_id g = None)"

text \<open>A token belongs to the client of its session and carries exactly the client's scopes.\<close>

definition owners_ok :: "auth_db \<Rightarrow> bool" where
  "owners_ok db \<longleftrightarrow>
     (\<forall>t \<in> set (access_tokens db). \<forall>s \<in> set (refresh_sessions db).
        rs_id s = at_session_id t \<longrightarrow> rs_client_id s = at_client_id t) \<and>
     (\<forall>t \<in> set (access_tokens db). \<forall>c \<in> set (clients db).
        cl_id c = at_client_id t \<longrightarrow> at_scopes t = cl_scopes c)"

text \<open>Revocation is closed downwards: client, then its sessions, then their tokens.\<close>

definition revoked_closed :: "auth_db \<Rightarrow> bool" where
  "revoked_closed db \<longleftrightarrow>
     (\<forall>s \<in> set (refresh_sessions db). \<forall>c \<in> set (clients db).
        cl_id c = rs_client_id s \<longrightarrow> cl_revoked_at c \<noteq> None \<longrightarrow> rs_revoked_at s \<noteq> None) \<and>
     (\<forall>t \<in> set (access_tokens db). \<forall>s \<in> set (refresh_sessions db).
        rs_id s = at_session_id t \<longrightarrow> rs_revoked_at s \<noteq> None \<longrightarrow> at_revoked_at t \<noteq> None)"

definition wf_auth :: "auth_db \<Rightarrow> bool" where
  "wf_auth db \<longleftrightarrow> keys_ok db \<and> refs_ok db \<and> grants_ok db \<and> owners_ok db \<and> revoked_closed db"

lemmas wf_auth_parts = keys_ok_def refs_ok_def grants_ok_def owners_ok_def revoked_closed_def

lemma wf_empty_auth: "wf_auth empty_auth"
  by (simp add: wf_auth_def wf_auth_parts empty_auth_def)

subsection \<open>What the bodies do\<close>

lemma insert_client_Some:
  "insert_client r db = Some db' \<longleftrightarrow>
     cl_id r \<notin> cl_id ` set (clients db) \<and> db' = db\<lparr>clients := clients db @ [r]\<rparr>"
  unfolding insert_client_def by (auto simp: sql_insert_Some)

lemma insert_grant_Some:
  "insert_grant r db = Some db' \<longleftrightarrow>
     pg_code_hash r \<notin> pg_code_hash ` set (pairing_grants db) \<and>
     pg_id r \<notin> pg_id ` set (pairing_grants db) \<and>
     db' = db\<lparr>pairing_grants := pairing_grants db @ [r]\<rparr>"
  unfolding insert_grant_def sql_exists_def
  by (auto simp: sql_insert_Some key_image_iff)

lemma image_ex: "list_ex (\<lambda>q. key q = k) t \<longleftrightarrow> k \<in> key ` set t"
  by (induction t) auto

lemma insert_session_Some:
  "insert_session r db = Some db' \<longleftrightarrow>
     rs_client_id r \<in> cl_id ` set (clients db) \<and> rs_id r \<notin> rs_id ` set (refresh_sessions db) \<and>
     db' = db\<lparr>refresh_sessions := refresh_sessions db @ [r]\<rparr>"
  unfolding insert_session_def sql_exists_def image_ex by (auto simp: sql_insert_Some)

lemma insert_history_Some:
  "insert_history r db = Some db' \<longleftrightarrow>
     hi_session_id r \<in> rs_id ` set (refresh_sessions db) \<and>
     hi_token_hash r \<notin> hi_token_hash ` set (refresh_token_history db) \<and>
     db' = db\<lparr>refresh_token_history := refresh_token_history db @ [r]\<rparr>"
  unfolding insert_history_def sql_exists_def image_ex by (auto simp: sql_insert_Some)

lemma insert_access_Some:
  "insert_access r db = Some db' \<longleftrightarrow>
     at_session_id r \<in> rs_id ` set (refresh_sessions db) \<and>
     at_client_id r \<in> cl_id ` set (clients db) \<and> at_id r \<notin> at_id ` set (access_tokens db) \<and>
     db' = db\<lparr>access_tokens := access_tokens db @ [r]\<rparr>"
  unfolding insert_access_def sql_exists_def image_ex by (auto simp: sql_insert_Some)

lemmas insert_Some = insert_client_Some insert_grant_Some insert_session_Some insert_history_Some
  insert_access_Some

definition new_client :: "grant_row \<Rightarrow> time \<Rightarrow> credential_material \<Rightarrow> client_row" where
  "new_client g now m =
     \<lparr>cl_id = cm_client_id m, cl_name = pg_name g, cl_scopes = pg_scopes g,
      cl_created_at = pg_time now, cl_last_seen_at = None, cl_revoked_at = None\<rparr>"

definition new_session :: "time \<Rightarrow> credential_material \<Rightarrow> session_row" where
  "new_session now m =
     \<lparr>rs_id = cm_session_id m, rs_client_id = cm_client_id m,
      rs_token_hash = cm_refresh_hash m, rs_expires_at = pg_time (cm_refresh_expires m),
      rs_created_at = pg_time now, rs_rotated_at = None, rs_revoked_at = None,
      rs_revoke_reason = None\<rparr>"

definition new_access :: "grant_row \<Rightarrow> time \<Rightarrow> credential_material \<Rightarrow> access_row" where
  "new_access g now m =
     \<lparr>at_id = cm_access_token_id m, at_session_id = cm_session_id m,
      at_client_id = cm_client_id m, at_secret_hash = cm_access_hash m,
      at_scopes = pg_scopes g, at_expires_at = pg_time (cm_access_expires m),
      at_created_at = pg_time now, at_revoked_at = None\<rparr>"

definition exchanged :: "grant_row \<Rightarrow> time \<Rightarrow> credential_material \<Rightarrow> auth_db \<Rightarrow> auth_db" where
  "exchanged g now m db = consume_grant (pg_id g) now (cm_client_id m)
     (db\<lparr>clients := clients db @ [new_client g now m],
         refresh_sessions := refresh_sessions db @ [new_session now m],
         access_tokens := access_tokens db @ [new_access g now m]\<rparr>)"

definition exchange_ready :: "string \<Rightarrow> time \<Rightarrow> credential_material \<Rightarrow> grant_row \<Rightarrow> auth_db \<Rightarrow> bool" where
  "exchange_ready codeHash now m g db \<longleftrightarrow>
     find (\<lambda>g. pg_code_hash g = codeHash) (pairing_grants db) = Some g \<and>
     pg_consumed_at g = None \<and> after (pg_expires_at g) now \<and>
     cm_client_id m \<notin> cl_id ` set (clients db) \<and>
     cm_session_id m \<notin> rs_id ` set (refresh_sessions db) \<and>
     cm_access_token_id m \<notin> at_id ` set (access_tokens db)"

lemma exchange_bodyD:
  assumes "exchange_body codeHash now m flt (n, db) = Inr (a, n', db')"
  shows "\<exists>g. exchange_ready codeHash now m g db \<and> db' = exchanged g now m db \<and>
    a = \<lparr>ac_id = cm_client_id m, ac_name = pg_name g, ac_scopes = pg_scopes g,
         ac_created_at = now, ac_last_seen_at = None, ac_revoked_at = None\<rparr>"
  using assms unfolding exchange_body_def
  by (auto simp: tx_query_def tx_exec_def tx_insert_def tx_stmt_def insert_Some exchange_ready_def
      exchanged_def new_client_def new_session_def new_access_def
      split: if_splits option.splits sum.splits)

lemma exchange_body_run:
  assumes "exchange_ready codeHash now m g db"
  shows "exchange_body codeHash now m no_faults (n, db) =
    Inr (\<lparr>ac_id = cm_client_id m, ac_name = pg_name g, ac_scopes = pg_scopes g,
         ac_created_at = now, ac_last_seen_at = None, ac_revoked_at = None\<rparr>,
         n + 5, exchanged g now m db)"
  using assms unfolding exchange_body_def exchange_ready_def exchanged_def
  by (simp add: insert_client_def insert_session_def insert_access_def sql_insert_def sql_exists_def
      image_ex new_client_def new_session_def new_access_def)

definition rotated_access :: "string \<Rightarrow> client_row \<Rightarrow> time \<Rightarrow> rotated_material \<Rightarrow> access_row" where
  "rotated_access sid c now m =
     \<lparr>at_id = rm_access_token_id m, at_session_id = sid, at_client_id = cl_id c,
      at_secret_hash = rm_access_hash m, at_scopes = cl_scopes c,
      at_expires_at = pg_time (rm_access_expires m), at_created_at = pg_time now,
      at_revoked_at = None\<rparr>"

definition rotated :: "string \<Rightarrow> session_row \<Rightarrow> client_row \<Rightarrow> time \<Rightarrow> rotated_material \<Rightarrow> auth_db \<Rightarrow> auth_db" where
  "rotated sid s c now m db = seen_client (cl_id c) now
     ((rotate_session sid (rm_refresh_hash m) now
        (db\<lparr>refresh_token_history := refresh_token_history db @
           [\<lparr>hi_token_hash = rs_token_hash s, hi_session_id = sid, hi_used_at = pg_time now\<rparr>]\<rparr>))
      \<lparr>access_tokens := access_tokens db @ [rotated_access sid c now m]\<rparr>)"

definition revoked_session :: "string \<Rightarrow> time \<Rightarrow> string \<Rightarrow> auth_db \<Rightarrow> auth_db" where
  "revoked_session sid now reason db =
     revoke_tokens (\<lambda>t. at_session_id t = sid) now
       (revoke_sessions (\<lambda>s. rs_id s = sid) now reason db)"

definition revoked_client :: "string \<Rightarrow> time \<Rightarrow> string \<Rightarrow> auth_db \<Rightarrow> auth_db" where
  "revoked_client cid now reason db =
     revoke_tokens (\<lambda>t. at_client_id t = cid) now
       (revoke_sessions (\<lambda>s. rs_client_id s = cid) now reason (revoke_client_row cid now db))"

definition live_session :: "string \<Rightarrow> time \<Rightarrow> session_row \<Rightarrow> client_row \<Rightarrow> auth_db \<Rightarrow> bool" where
  "live_session sid now s c db \<longleftrightarrow>
     session_join sid db = Some (s, c) \<and> rs_revoked_at s = None \<and> cl_revoked_at c = None \<and>
     after (rs_expires_at s) now"

definition rotate_ready :: "string \<Rightarrow> string \<Rightarrow> time \<Rightarrow> rotated_material \<Rightarrow> session_row \<Rightarrow> client_row \<Rightarrow> auth_db \<Rightarrow> bool" where
  "rotate_ready sid h now m s c db \<longleftrightarrow>
     live_session sid now s c db \<and> rs_token_hash s = h \<and>
     h \<notin> hi_token_hash ` set (refresh_token_history db) \<and>
     rm_access_token_id m \<notin> at_id ` set (access_tokens db)"

definition was_used :: "string \<Rightarrow> string \<Rightarrow> auth_db \<Rightarrow> bool" where
  "was_used h sid db \<longleftrightarrow>
     sql_exists (\<lambda>r. hi_token_hash r = h \<and> hi_session_id r = sid) (refresh_token_history db)"

lemma session_joinD:
  assumes "session_join sid db = Some (s, c)"
  shows "s \<in> set (refresh_sessions db)" "rs_id s = sid" "c \<in> set (clients db)" "cl_id c = rs_client_id s"
  using assms unfolding session_join_def by (auto split: option.splits dest: by_key_SomeD)

lemma revokeSessionTxD:
  "revokeSessionTx sid now reason flt (n, db) = Inr (a, n', db') \<Longrightarrow> db' = revoked_session sid now reason db"
  unfolding revokeSessionTx_def revoked_session_def
  by (auto simp: tx_exec_def tx_stmt_def split: if_splits)

lemma rotate_bodyD:
  assumes "rotate_body sid h now m flt (n, db) = Inr (r, n', db')"
  obtains (rotate) s c where "rotate_ready sid h now m s c db" "db' = rotated sid s c now m db"
      "r = Inr ((client_of_row c)\<lparr>ac_last_seen_at := Some now\<rparr>, rs_expires_at s)"
    | (replay) s c where "live_session sid now s c db" "rs_token_hash s \<noteq> h" "was_used h sid db"
      "db' = revoked_session sid now ''refresh_replay'' db" "r = Inl ErrRefreshReplay"
  using assms unfolding rotate_body_def
  by (auto simp: tx_query_def tx_exec_def tx_insert_def tx_stmt_def insert_Some rotate_ready_def
      live_session_def rotated_def rotated_access_def rotate_session_def was_used_def
      split: if_splits option.splits sum.splits prod.splits dest!: revokeSessionTxD)

lemma rotate_body_run:
  assumes "rotate_ready sid h now m s c db"
  shows "rotate_body sid h now m no_faults (n, db) =
    Inr (Inr ((client_of_row c)\<lparr>ac_last_seen_at := Some now\<rparr>, rs_expires_at s), n + 5,
         rotated sid s c now m db)"
proof -
  from assms have j: "session_join sid db = Some (s, c)"
    by (simp add: rotate_ready_def live_session_def)
  note d = session_joinD [OF j]
  have "sid \<in> rs_id ` set (refresh_sessions db)" "cl_id c \<in> cl_id ` set (clients db)"
    using d(1-3) by (blast intro: imageI)+
  then show ?thesis
    using assms j unfolding rotate_body_def rotate_ready_def live_session_def rotated_def
    by (simp add: insert_history_def insert_access_def sql_insert_def sql_exists_def image_ex
        rotate_session_def rotated_access_def)
qed

lemma replay_body_run:
  assumes "live_session sid now s c db" "rs_token_hash s \<noteq> h" "was_used h sid db"
  shows "rotate_body sid h now m no_faults (n, db) =
    Inr (Inl ErrRefreshReplay, n + 4, revoked_session sid now ''refresh_replay'' db)"
  using assms unfolding rotate_body_def live_session_def was_used_def
  by (simp add: revokeSessionTx_def revoked_session_def)

subsection \<open>Every method keeps the invariant\<close>

lemma wf_consume_grant:
  assumes "keys_ok db" "refs_ok db" "grants_ok db" "cid \<in> cl_id ` set (clients db)"
  shows "keys_ok (consume_grant gid now cid db)" "refs_ok (consume_grant gid now cid db)"
    "grants_ok (consume_grant gid now cid db)"
  using assms unfolding consume_grant_def
  by (auto simp: keys_ok_def refs_ok_def grants_ok_def map_sql_update elim!: in_sql_updateE)

lemma wf_insert_grant:
  assumes "wf_auth db" "insert_grant r db = Some db'" "pg_consumed_at r = None" "pg_client_id r = None"
  shows "wf_auth db'"
  using assms unfolding wf_auth_def insert_grant_Some by (auto simp: wf_auth_parts)

lemma wf_exchanged:
  assumes "wf_auth db" "exchange_ready h now m g db"
  shows "wf_auth (exchanged g now m db)"
proof -
  let ?d = "db\<lparr>clients := clients db @ [new_client g now m],
         refresh_sessions := refresh_sessions db @ [new_session now m],
         access_tokens := access_tokens db @ [new_access g now m]\<rparr>"
  note w = assms(1) [unfolded wf_auth_def] and r = assms(2) [unfolded exchange_ready_def]
  have k: "keys_ok ?d" using w r
    by (auto simp: keys_ok_def new_client_def new_session_def new_access_def)
  have f: "refs_ok ?d" using w
    by (auto simp: refs_ok_def new_client_def new_session_def new_access_def)
  have g: "grants_ok ?d" using w by (auto simp: grants_ok_def)
  have fk: "\<And>t. t \<in> set (access_tokens db) \<Longrightarrow> at_session_id t \<noteq> cm_session_id m \<and> at_client_id t \<noteq> cm_client_id m"
    using w r unfolding refs_ok_def by metis
  have fs: "\<And>s. s \<in> set (refresh_sessions db) \<Longrightarrow> rs_client_id s \<noteq> cm_client_id m \<and> rs_id s \<noteq> cm_session_id m"
    using w r unfolding refs_ok_def by (metis imageI)
  have fc: "\<And>c. c \<in> set (clients db) \<Longrightarrow> cl_id c \<noteq> cm_client_id m"
    using r by (metis imageI)
  have o: "owners_ok ?d" using w
    by (auto simp: owners_ok_def new_client_def new_session_def new_access_def dest: fk fs fc)
  have c: "revoked_closed ?d" using w
    by (auto simp: revoked_closed_def new_client_def new_session_def new_access_def
        dest: fk fs fc)
  have m: "cm_client_id m \<in> cl_id ` set (clients ?d)" by (simp add: new_client_def)
  show ?thesis
    using wf_consume_grant [OF k f g m] o c unfolding wf_auth_def exchanged_def
    by (simp add: owners_ok_def revoked_closed_def consume_grant_def)
qed

lemma wf_client_update:
  assumes "wf_auth db" "\<And>c. cl_id (f c) = cl_id c" "\<And>c. cl_scopes (f c) = cl_scopes c"
    "\<And>c. cl_revoked_at (f c) = cl_revoked_at c"
  shows "wf_auth (db\<lparr>clients := sql_update P f (clients db)\<rparr>)"
  using assms unfolding wf_auth_def
  by (auto simp: wf_auth_parts elim!: in_sql_updateE)

lemma wf_seen_client: "wf_auth db \<Longrightarrow> wf_auth (seen_client cid now db)"
  unfolding seen_client_def by (rule wf_client_update) auto

lemma wf_touch_client: "wf_auth db \<Longrightarrow> wf_auth (touch_client cid now db)"
  unfolding touch_client_def by (rule wf_client_update) auto

lemma wf_rotated:
  assumes "wf_auth db" "rotate_ready sid h now m s c db"
  shows "wf_auth (rotated sid s c now m db)"
proof -
  let ?d = "(rotate_session sid (rm_refresh_hash m) now
        (db\<lparr>refresh_token_history := refresh_token_history db @
           [\<lparr>hi_token_hash = rs_token_hash s, hi_session_id = sid, hi_used_at = pg_time now\<rparr>]\<rparr>))
      \<lparr>access_tokens := access_tokens db @ [rotated_access sid c now m]\<rparr>"
  note w = assms(1) [unfolded wf_auth_def]
  from assms(2) have j: "session_join sid db = Some (s, c)"
    and live: "rs_revoked_at s = None" "cl_revoked_at c = None"
    and fresh: "rs_token_hash s \<notin> hi_token_hash ` set (refresh_token_history db)"
      "rm_access_token_id m \<notin> at_id ` set (access_tokens db)"
    by (auto simp: rotate_ready_def live_session_def)
  note d = session_joinD [OF j]
  have us: "\<And>q. q \<in> set (refresh_sessions db) \<Longrightarrow> rs_id q = sid \<Longrightarrow> q = s"
    using w d(1,2) unfolding keys_ok_def by (metis unique_row)
  have lv: "\<And>q. q \<in> set (refresh_sessions db) \<Longrightarrow> rs_id q = sid \<Longrightarrow> rs_revoked_at q = None"
    using us live by blast
  have uc: "\<And>q. q \<in> set (clients db) \<Longrightarrow> cl_id q = cl_id c \<Longrightarrow> q = c"
    using w d(3) unfolding keys_ok_def by (metis unique_row)
  have sid: "sid \<in> rs_id ` set (refresh_sessions db)" "cl_id c \<in> cl_id ` set (clients db)"
    using d(1-3) by (blast intro: imageI)+
  have "keys_ok ?d" using w fresh
    by (auto simp: keys_ok_def rotate_session_def rotated_access_def)
  moreover have "refs_ok ?d" using w sid
    by (auto simp: refs_ok_def rotate_session_def rotated_access_def elim!: in_sql_updateE)
  moreover have "grants_ok ?d" using w by (auto simp: grants_ok_def rotate_session_def)
  moreover have "owners_ok ?d" using w d
    by (auto simp: owners_ok_def rotate_session_def rotated_access_def elim!: in_sql_updateE
        dest: us uc)
  moreover have "revoked_closed ?d"
  proof -
    from w have rc: "revoked_closed db" by simp
    have same: "\<exists>q' \<in> set (refresh_sessions db). rs_id q' = rs_id q \<and>
        rs_client_id q' = rs_client_id q \<and> rs_revoked_at q' = rs_revoked_at q"
      if "q \<in> set (refresh_sessions ?d)" for q
      using that by (auto simp: rotate_session_def elim!: in_sql_updateE)
    have "clients ?d = clients db" by (simp add: rotate_session_def)
    moreover have "t \<in> set (access_tokens db) \<or> at_session_id t = sid"
      if "t \<in> set (access_tokens ?d)" for t
      using that by (auto simp: rotate_session_def rotated_access_def)
    ultimately show ?thesis
      using rc same lv unfolding revoked_closed_def by metis
  qed
  ultimately have "wf_auth ?d" by (simp add: wf_auth_def)
  then show ?thesis unfolding rotated_def by (rule wf_seen_client)
qed

lemma wf_revoked_session:
  assumes "wf_auth db"
  shows "wf_auth (revoked_session sid now reason db)"
  using assms unfolding wf_auth_def revoked_session_def
  by (auto simp: wf_auth_parts revoke_tokens_def revoke_sessions_def elim!: in_sql_updateE)

lemma wf_revoked_client:
  assumes "wf_auth db"
  shows "wf_auth (revoked_client cid now reason db)"
proof -
  note w = assms [unfolded wf_auth_def]
  let ?d = "revoked_client cid now reason db"
  have "keys_ok ?d" "refs_ok ?d" "grants_ok ?d" "owners_ok ?d"
    using w by (auto simp: wf_auth_parts revoked_client_def revoke_tokens_def revoke_sessions_def
        revoke_client_row_def elim!: in_sql_updateE)
  moreover have "revoked_closed ?d"
    using w by (auto simp: revoked_closed_def owners_ok_def revoked_client_def revoke_tokens_def
        revoke_sessions_def revoke_client_row_def elim!: in_sql_updateE)
  ultimately show ?thesis by (simp add: wf_auth_def)
qed

text \<open>
  The database after a call is the one before it, or the effect of the call's transaction,
  whatever the wire does.
\<close>

lemma db_ExchangePairingGrant_cases:
  assumes "db_ExchangePairingGrant flt h now m db = (r, db')"
  obtains (unchanged) e where "r = Inl e" "db' = db"
    | (applied) g where "exchange_ready h now m g db" "db' = exchanged g now m db"
      "r = Inl ErrDatabase \<or> r = Inr \<lparr>ac_id = cm_client_id m, ac_name = pg_name g, ac_scopes = pg_scopes g,
         ac_created_at = now, ac_last_seen_at = None, ac_revoked_at = None\<rparr>"
  using assms unfolding db_ExchangePairingGrant_def
  by (cases rule: run_tx_cases) (auto dest!: exchange_bodyD)

lemma db_RotateRefresh_cases:
  assumes "db_RotateRefresh flt sid h now m db = (r, db')"
  obtains (unchanged) e where "r = Inl e" "db' = db"
    | (rotate) s c where "rotate_ready sid h now m s c db" "db' = rotated sid s c now m db"
      "r = Inl ErrDatabase \<or> r = Inr ((client_of_row c)\<lparr>ac_last_seen_at := Some now\<rparr>, rs_expires_at s)"
    | (replay) s c where "live_session sid now s c db" "rs_token_hash s \<noteq> h" "was_used h sid db"
      "db' = revoked_session sid now ''refresh_replay'' db"
      "r = Inl ErrDatabase \<or> r = Inl ErrRefreshReplay"
proof (cases "run_tx ErrDatabase flt (rotate_body sid h now m) db")
  case (Pair q d)
  then have rd: "d = db'" "case q of Inl e \<Rightarrow> r = Inl e | Inr v \<Rightarrow> r = v"
    using assms unfolding db_RotateRefresh_def by (auto split: sum.splits)
  from Pair show ?thesis
  proof (cases rule: run_tx_cases)
    case (old e)
    with rd unchanged show ?thesis by simp
  next
    case (lost a n)
    from this(1) show ?thesis
      by (cases rule: rotate_bodyD) (use rd lost rotate replay in auto)
  next
    case (committed a n)
    from this(1) show ?thesis
      by (cases rule: rotate_bodyD) (use rd committed rotate replay in auto)
  qed
qed

lemma db_RevokeSession_cases:
  assumes "db_RevokeSession flt sid h now reason db = (r, db')"
  obtains (unchanged) e where "r = Inl e" "db' = db"
    | (applied) s where "by_key rs_id sid (refresh_sessions db) = Some s" "rs_token_hash s = h"
      "db' = revoked_session sid now reason db" "r = Inl ErrDatabase \<or> r = Inr ()"
  using assms unfolding db_RevokeSession_def
  by (cases rule: run_tx_cases)
    (auto simp: tx_query_def tx_stmt_def split: if_splits option.splits sum.splits
      dest!: revokeSessionTxD)

lemma db_RevokeClient_cases:
  assumes "db_RevokeClient flt cid now reason db = (r, db')"
  obtains (unchanged) e where "r = Inl e" "db' = db"
    | (applied) "cid \<in> cl_id ` set (clients db)" "db' = revoked_client cid now reason db"
      "r = Inl ErrDatabase \<or> r = Inr ()"
proof -
  have ne: "affected (\<lambda>c. cl_id c = cid) (clients db) \<noteq> 0 \<Longrightarrow> cid \<in> cl_id ` set (clients db)"
    by (auto simp: affected_def filter_empty_conv)
  show ?thesis
    using assms that ne unfolding db_RevokeClient_def
    by (cases rule: run_tx_cases)
      (auto simp: tx_exec_def tx_stmt_def revoked_client_def split: if_splits option.splits sum.splits)
qed

lemma db_AuthenticateAccess_db:
  "snd (db_AuthenticateAccess flt tid h now db) = db \<or>
   (\<exists>cid. snd (db_AuthenticateAccess flt tid h now db) = touch_client cid now db)"
  unfolding db_AuthenticateAccess_def by (auto split: option.splits prod.splits)

lemma wf_db_CreatePairingGrant:
  "wf_auth db \<Longrightarrow> wf_auth (snd (db_CreatePairingGrant flt g db))"
  unfolding db_CreatePairingGrant_def Let_def
  by (auto split: option.splits wire.splits intro: wf_insert_grant)

lemma wf_db_ExchangePairingGrant:
  assumes "wf_auth db"
  shows "wf_auth (snd (db_ExchangePairingGrant flt h now m db))"
proof (cases "db_ExchangePairingGrant flt h now m db")
  case (Pair r db')
  then show ?thesis
    by (cases rule: db_ExchangePairingGrant_cases) (use assms Pair wf_exchanged in auto)
qed

lemma wf_db_AuthenticateAccess:
  "wf_auth db \<Longrightarrow> wf_auth (snd (db_AuthenticateAccess flt tid h now db))"
  using db_AuthenticateAccess_db [of flt tid h now db] wf_touch_client by auto

lemma wf_db_RotateRefresh:
  assumes "wf_auth db"
  shows "wf_auth (snd (db_RotateRefresh flt sid h now m db))"
proof (cases "db_RotateRefresh flt sid h now m db")
  case (Pair r db')
  then show ?thesis
    by (cases rule: db_RotateRefresh_cases) (use assms Pair wf_rotated wf_revoked_session in auto)
qed

lemma wf_db_RevokeSession:
  assumes "wf_auth db"
  shows "wf_auth (snd (db_RevokeSession flt sid h now reason db))"
proof (cases "db_RevokeSession flt sid h now reason db")
  case (Pair r db')
  then show ?thesis
    by (cases rule: db_RevokeSession_cases) (use assms Pair wf_revoked_session in auto)
qed

lemma wf_db_RevokeClient:
  assumes "wf_auth db"
  shows "wf_auth (snd (db_RevokeClient flt cid now reason db))"
proof (cases "db_RevokeClient flt cid now reason db")
  case (Pair r db')
  then show ?thesis
    by (cases rule: db_RevokeClient_cases) (use assms Pair wf_revoked_client in auto)
qed

lemmas wf_auth_methods = wf_db_CreatePairingGrant wf_db_ExchangePairingGrant
  wf_db_AuthenticateAccess wf_db_RotateRefresh wf_db_RevokeSession wf_db_RevokeClient

subsection \<open>Durable facts only grow\<close>

definition grant_le :: "grant_row \<Rightarrow> grant_row \<Rightarrow> bool" where
  "grant_le g g' \<longleftrightarrow> pg_id g' = pg_id g \<and> pg_code_hash g' = pg_code_hash g \<and>
     pg_scopes g' = pg_scopes g \<and> pg_expires_at g' = pg_expires_at g \<and>
     (pg_consumed_at g \<noteq> None \<longrightarrow> pg_consumed_at g' \<noteq> None)"

definition client_le :: "client_row \<Rightarrow> client_row \<Rightarrow> bool" where
  "client_le c c' \<longleftrightarrow> cl_id c' = cl_id c \<and> cl_scopes c' = cl_scopes c \<and>
     (cl_revoked_at c \<noteq> None \<longrightarrow> cl_revoked_at c' = cl_revoked_at c)"

definition session_le :: "session_row \<Rightarrow> session_row \<Rightarrow> bool" where
  "session_le s s' \<longleftrightarrow> rs_id s' = rs_id s \<and> rs_client_id s' = rs_client_id s \<and>
     rs_expires_at s' = rs_expires_at s \<and>
     (rs_revoked_at s \<noteq> None \<longrightarrow> rs_revoked_at s' = rs_revoked_at s)"

definition access_le :: "access_row \<Rightarrow> access_row \<Rightarrow> bool" where
  "access_le t t' \<longleftrightarrow> at_id t' = at_id t \<and> at_session_id t' = at_session_id t \<and>
     at_client_id t' = at_client_id t \<and> at_secret_hash t' = at_secret_hash t \<and>
     at_scopes t' = at_scopes t \<and> at_expires_at t' = at_expires_at t \<and>
     (at_revoked_at t \<noteq> None \<longrightarrow> at_revoked_at t' = at_revoked_at t)"

definition auth_le :: "auth_db \<Rightarrow> auth_db \<Rightarrow> bool" where
  "auth_le db db' \<longleftrightarrow>
     evolves grant_le (pairing_grants db) (pairing_grants db') \<and>
     evolves client_le (clients db) (clients db') \<and>
     evolves session_le (refresh_sessions db) (refresh_sessions db') \<and>
     evolves (=) (refresh_token_history db) (refresh_token_history db') \<and>
     evolves access_le (access_tokens db) (access_tokens db')"

lemmas row_le_defs = grant_le_def client_le_def session_le_def access_le_def

lemma auth_le_refl [simp]: "auth_le db db"
  by (simp add: auth_le_def row_le_defs)

lemma auth_le_trans: "auth_le a b \<Longrightarrow> auth_le b c \<Longrightarrow> auth_le a c"
  unfolding auth_le_def by (auto elim!: evolves_trans simp: row_le_defs)

lemma coalesce_keep: "x \<noteq> None \<Longrightarrow> coalesce x d = x"
  by auto

lemma auth_le_exchanged: "auth_le db (exchanged g now m db)"
  unfolding exchanged_def consume_grant_def auth_le_def by (simp add: row_le_defs)

lemma auth_le_client:
  "(\<And>c. client_le c (f c)) \<Longrightarrow> auth_le db (db\<lparr>clients := sql_update P f (clients db)\<rparr>)"
  by (simp add: auth_le_def row_le_defs)

lemma auth_le_seen: "auth_le db (seen_client cid now db)"
  unfolding seen_client_def by (rule auth_le_client) (simp add: client_le_def)

lemma auth_le_touch: "auth_le db (touch_client cid now db)"
  unfolding touch_client_def by (rule auth_le_client) (simp add: client_le_def)

lemma auth_le_rotated: "auth_le db (rotated sid s c now m db)"
proof -
  have "auth_le db ((rotate_session sid (rm_refresh_hash m) now
        (db\<lparr>refresh_token_history := refresh_token_history db @ h\<rparr>))
      \<lparr>access_tokens := access_tokens db @ t\<rparr>)" for h t
    by (simp add: auth_le_def row_le_defs rotate_session_def)
  then show ?thesis unfolding rotated_def using auth_le_seen auth_le_trans by blast
qed

lemma auth_le_revoke_tokens: "auth_le db (revoke_tokens P now db)"
  by (simp add: auth_le_def row_le_defs revoke_tokens_def coalesce_keep)

lemma auth_le_revoke_sessions: "auth_le db (revoke_sessions P now reason db)"
  by (simp add: auth_le_def row_le_defs revoke_sessions_def coalesce_keep)

lemma auth_le_revoke_client_row: "auth_le db (revoke_client_row cid now db)"
  by (simp add: auth_le_def row_le_defs revoke_client_row_def coalesce_keep)

lemma auth_le_revoked_session: "auth_le db (revoked_session sid now reason db)"
  unfolding revoked_session_def
  by (blast intro: auth_le_trans auth_le_revoke_tokens auth_le_revoke_sessions)

lemma auth_le_revoked_client: "auth_le db (revoked_client cid now reason db)"
  unfolding revoked_client_def
  by (blast intro: auth_le_trans auth_le_revoke_tokens auth_le_revoke_sessions
      auth_le_revoke_client_row)

lemma auth_le_CreatePairingGrant: "auth_le db (snd (db_CreatePairingGrant flt g db))"
  unfolding db_CreatePairingGrant_def Let_def
  by (auto split: option.splits wire.splits simp: insert_grant_Some auth_le_def row_le_defs)

lemma auth_le_ExchangePairingGrant: "auth_le db (snd (db_ExchangePairingGrant flt h now m db))"
proof (cases "db_ExchangePairingGrant flt h now m db")
  case (Pair r db')
  then show ?thesis
    by (cases rule: db_ExchangePairingGrant_cases) (use Pair auth_le_exchanged in auto)
qed

lemma auth_le_AuthenticateAccess: "auth_le db (snd (db_AuthenticateAccess flt tid h now db))"
  using db_AuthenticateAccess_db [of flt tid h now db] auth_le_touch by auto

lemma auth_le_RotateRefresh: "auth_le db (snd (db_RotateRefresh flt sid h now m db))"
proof (cases "db_RotateRefresh flt sid h now m db")
  case (Pair r db')
  then show ?thesis
    by (cases rule: db_RotateRefresh_cases) (use Pair auth_le_rotated auth_le_revoked_session in auto)
qed

lemma auth_le_RevokeSession: "auth_le db (snd (db_RevokeSession flt sid h now reason db))"
proof (cases "db_RevokeSession flt sid h now reason db")
  case (Pair r db')
  then show ?thesis
    by (cases rule: db_RevokeSession_cases) (use Pair auth_le_revoked_session in auto)
qed

lemma auth_le_RevokeClient: "auth_le db (snd (db_RevokeClient flt cid now reason db))"
proof (cases "db_RevokeClient flt cid now reason db")
  case (Pair r db')
  then show ?thesis
    by (cases rule: db_RevokeClient_cases) (use Pair auth_le_revoked_client in auto)
qed

lemmas auth_le_methods = auth_le_CreatePairingGrant auth_le_ExchangePairingGrant
  auth_le_AuthenticateAccess auth_le_RotateRefresh auth_le_RevokeSession auth_le_RevokeClient

subsection \<open>Consequences for the callers\<close>

definition grant_spent :: "string \<Rightarrow> auth_db \<Rightarrow> bool" where
  "grant_spent h db \<longleftrightarrow> sql_exists (\<lambda>g. pg_code_hash g = h \<and> pg_consumed_at g \<noteq> None) (pairing_grants db)"

definition client_revoked :: "string \<Rightarrow> auth_db \<Rightarrow> bool" where
  "client_revoked cid db \<longleftrightarrow> sql_exists (\<lambda>c. cl_id c = cid \<and> cl_revoked_at c \<noteq> None) (clients db)"

definition session_revoked :: "string \<Rightarrow> auth_db \<Rightarrow> bool" where
  "session_revoked sid db \<longleftrightarrow> sql_exists (\<lambda>s. rs_id s = sid \<and> rs_revoked_at s \<noteq> None) (refresh_sessions db)"

lemmas mark_defs = grant_spent_def client_revoked_def session_revoked_def was_used_def

lemma marks_grow:
  assumes "auth_le db db'"
  shows "grant_spent h db \<Longrightarrow> grant_spent h db'" "client_revoked cid db \<Longrightarrow> client_revoked cid db'"
    "session_revoked sid db \<Longrightarrow> session_revoked sid db'" "was_used h sid db \<Longrightarrow> was_used h sid db'"
  using assms unfolding auth_le_def mark_defs sql_exists_def list_ex_iff evolves_def row_le_defs
  by metis+

lemma exchanged_spends:
  assumes "wf_auth db" "exchange_ready h now m g db"
  shows "grant_spent h (exchanged g now m db)"
proof -
  from assms(2) have "g \<in> set (pairing_grants db)" "pg_code_hash g = h"
    unfolding exchange_ready_def find_Some_iff by auto
  then show ?thesis
    by (auto simp: grant_spent_def exchanged_def consume_grant_def sql_exists_def list_ex_iff
        intro: bexI [OF _ in_sql_updateI])
qed

lemma spent_not_ready:
  assumes "wf_auth db" "grant_spent h db"
  shows "\<not> exchange_ready h now m g db"
proof
  assume "exchange_ready h now m g db"
  then have g: "g \<in> set (pairing_grants db)" "pg_code_hash g = h" "pg_consumed_at g = None"
    unfolding exchange_ready_def find_Some_iff by auto
  from assms(2) obtain g' where "g' \<in> set (pairing_grants db)" "pg_code_hash g' = h" "pg_consumed_at g' \<noteq> None"
    by (auto simp: grant_spent_def sql_exists_def list_ex_iff)
  with g assms(1) show False unfolding wf_auth_def keys_ok_def by (metis unique_row)
qed

lemma spent_exchange:
  assumes "wf_auth db" "grant_spent h db"
  shows "db_ExchangePairingGrant no_faults h now m db = (Inl ErrConsumedGrant, db)"
    "\<exists>e. db_ExchangePairingGrant flt h now m db = (Inl e, db)"
proof -
  from assms(2) obtain g' where g': "g' \<in> set (pairing_grants db)" "pg_code_hash g' = h" "pg_consumed_at g' \<noteq> None"
    by (auto simp: grant_spent_def sql_exists_def list_ex_iff)
  obtain g where g: "find (\<lambda>g. pg_code_hash g = h) (pairing_grants db) = Some g"
    using g' by (cases "find (\<lambda>g. pg_code_hash g = h) (pairing_grants db)") (auto simp: find_None_iff)
  then have "g \<in> set (pairing_grants db)" "pg_code_hash g = h" by (auto simp: find_Some_iff)
  then have "g = g'" using g' assms(1) unfolding wf_auth_def keys_ok_def by (metis unique_row)
  with g g' show "db_ExchangePairingGrant no_faults h now m db = (Inl ErrConsumedGrant, db)"
    by (auto simp: db_ExchangePairingGrant_def exchange_body_def)
  show "\<exists>e. db_ExchangePairingGrant flt h now m db = (Inl e, db)"
  proof (cases "db_ExchangePairingGrant flt h now m db")
    case (Pair r db')
    then show ?thesis
      by (cases rule: db_ExchangePairingGrant_cases) (use Pair spent_not_ready assms in auto)
  qed
qed

text \<open>Authentication, exactly: the accepted tokens are the live, unexpired, matching ones.\<close>

lemma db_AuthenticateAccess_Inr:
  "fst (db_AuthenticateAccess flt tid h now db) = Inr p \<longleftrightarrow>
     flt 0 = Delivered \<and> (\<exists>t s c. access_join tid db = Some (t, s, c) \<and> at_secret_hash t = h \<and>
       at_revoked_at t = None \<and> rs_revoked_at s = None \<and> cl_revoked_at c = None \<and>
       after (at_expires_at t) now \<and>
       p = \<lparr>pr_client_id = cl_id c, pr_client_name = cl_name c, pr_session_id = rs_id s,
            pr_scopes = at_scopes t\<rparr>)"
  unfolding db_AuthenticateAccess_def by (auto split: option.splits prod.splits)

lemma access_joinD:
  assumes "access_join tid db = Some (t, s, c)"
  shows "t \<in> set (access_tokens db)" "at_id t = tid" "s \<in> set (refresh_sessions db)"
    "rs_id s = at_session_id t" "c \<in> set (clients db)" "cl_id c = at_client_id t"
  using assms unfolding access_join_def by (auto split: option.splits dest: by_key_SomeD)

lemma revoked_client_no_access:
  assumes "client_revoked cid db" "wf_auth db" "fst (db_AuthenticateAccess flt tid h now db) = Inr p"
  shows "pr_client_id p \<noteq> cid"
proof
  assume "pr_client_id p = cid"
  with assms(3) obtain t s c where j: "access_join tid db = Some (t, s, c)" "cl_revoked_at c = None" "cl_id c = cid"
    unfolding db_AuthenticateAccess_Inr by auto
  from assms(1) obtain c' where "c' \<in> set (clients db)" "cl_id c' = cid" "cl_revoked_at c' \<noteq> None"
    by (auto simp: client_revoked_def sql_exists_def list_ex_iff)
  with j access_joinD [OF j(1)] assms(2) show False
    unfolding wf_auth_def keys_ok_def by (metis unique_row)
qed

lemma revoked_session_no_access:
  assumes "session_revoked sid db" "wf_auth db" "fst (db_AuthenticateAccess flt tid h now db) = Inr p"
  shows "pr_session_id p \<noteq> sid"
proof
  assume "pr_session_id p = sid"
  with assms(3) obtain t s c where j: "access_join tid db = Some (t, s, c)" "rs_revoked_at s = None" "rs_id s = sid"
    unfolding db_AuthenticateAccess_Inr by auto
  from assms(1) obtain s' where "s' \<in> set (refresh_sessions db)" "rs_id s' = sid" "rs_revoked_at s' \<noteq> None"
    by (auto simp: session_revoked_def sql_exists_def list_ex_iff)
  with j access_joinD [OF j(1)] assms(2) show False
    unfolding wf_auth_def keys_ok_def by (metis unique_row)
qed

lemma revoked_no_rotate:
  assumes "wf_auth db" "session_revoked sid db \<or>
    (\<exists>s \<in> set (refresh_sessions db). rs_id s = sid \<and> client_revoked (rs_client_id s) db)"
  shows "\<exists>e. db_RotateRefresh flt sid h now m db = (Inl e, db)"
proof -
  have "\<not> live_session sid now s c db" for s c
  proof
    assume l: "live_session sid now s c db"
    then have j: "session_join sid db = Some (s, c)" "rs_revoked_at s = None" "cl_revoked_at c = None"
      by (auto simp: live_session_def)
    note d = session_joinD [OF j(1)]
    have us: "\<And>q. q \<in> set (refresh_sessions db) \<Longrightarrow> rs_id q = sid \<Longrightarrow> q = s"
      using assms(1) d unfolding wf_auth_def keys_ok_def by (metis unique_row)
    have uc: "\<And>q. q \<in> set (clients db) \<Longrightarrow> cl_id q = rs_client_id s \<Longrightarrow> q = c"
      using assms(1) d unfolding wf_auth_def keys_ok_def by (metis unique_row)
    from assms(2) show False
      using us uc j(2,3) unfolding mark_defs sql_exists_def list_ex_iff by metis
  qed
  note dead = this
  show ?thesis
  proof (cases "db_RotateRefresh flt sid h now m db")
    case (Pair r db')
    then show ?thesis
      by (cases rule: db_RotateRefresh_cases) (use Pair dead in \<open>auto simp: rotate_ready_def\<close>)
  qed
qed

end
