(* ===== verification/Auth_Service.thy ===== *)
theory Auth_Service
  imports Auth_Store
begin

section \<open>Auth: the service\<close>

text \<open>
  \<^verbatim>\<open>internal/auth/service.go\<close>: pairing, exchange, authentication, rotation and revocation on top of
  the store. SHA-256 is the parameter \<open>H\<close>, the clock reading of a call its argument \<open>now\<close>, the
  random source is threaded through. The service's calls form a transition system on the store
  (\<open>auth_step\<close>); the security properties hold in every state it reaches, whatever the wire does to
  the single round trips. What the service relies on in its store is the locale
  \<open>credential_store\<close>, interpreted by the methods of \<open>PostgresStore\<close>.
\<close>

record auth_config =
  AccessTTL :: duration
  RefreshTTL :: duration
  PairingTTL :: duration

definition NewService :: "auth_config \<Rightarrow> auth_config" where
  "NewService conf =
     (let c1 = (if AccessTTL conf \<le> 0 then conf\<lparr>AccessTTL := 15 * minute\<rparr> else conf);
          c2 = (if RefreshTTL c1 \<le> 0 then c1\<lparr>RefreshTTL := 30 * 24 * hour\<rparr> else c1)
      in if PairingTTL c2 \<le> 0 then c2\<lparr>PairingTTL := 10 * minute\<rparr> else c2)"

record pairing_link =
  pl_code :: string
  pl_expires_at :: time

record token_pair =
  tp_access_token :: string
  tp_token_type :: string
  tp_expires_in :: int
  tp_access_expires_at :: time
  tp_refresh_token :: string
  tp_refresh_expires :: time
  tp_client :: auth_client

text \<open>\<open>int64(d.Seconds())\<close>: whole seconds, towards zero.\<close>

definition whole_seconds :: "duration \<Rightarrow> int" where
  "whole_seconds d = sgn d * (\<bar>d\<bar> div second)"

definition tokenPair :: "string \<Rightarrow> string \<Rightarrow> time \<Rightarrow> time \<Rightarrow> auth_client \<Rightarrow> time \<Rightarrow> token_pair" where
  "tokenPair access refresh accessExpiry refreshExpiry client now =
     \<lparr>tp_access_token = access, tp_token_type = ''Bearer'',
      tp_expires_in = whole_seconds (accessExpiry - now), tp_access_expires_at = accessExpiry,
      tp_refresh_token = refresh, tp_refresh_expires = refreshExpiry, tp_client = client\<rparr>"

definition CreatePairingGrant ::
    "(string \<Rightarrow> string) \<Rightarrow> auth_config \<Rightarrow> faults \<Rightarrow> time \<Rightarrow> string \<Rightarrow> string list \<Rightarrow> entropy \<times> auth_db \<Rightarrow>
     (auth_error + pairing_link) \<times> entropy \<times> auth_db" where
  "CreatePairingGrant H conf flt now name0 scopes st =
     (let (e, db) = st; name = trim_space name0 in
      if name = [] \<or> 120 < length name then (Inl ErrClientName, e, db)
      else case normalizeScopes scopes of
        Inl err \<Rightarrow> (Inl err, e, db)
      | Inr normalized \<Rightarrow>
          (let (code, e1) = randomSecret 32 e;
               (grantID, e2) = randomID ''grant'' e1;
               grant = \<lparr>gr_id = grantID, gr_code_hash = H code, gr_name = name,
                 gr_scopes = normalized, gr_expires_at = now + PairingTTL conf,
                 gr_created_at = now\<rparr> in
           case db_CreatePairingGrant flt grant db of
             (Inl err, db') \<Rightarrow> (Inl err, e2, db')
           | (Inr _, db') \<Rightarrow>
               (Inr \<lparr>pl_code = code, pl_expires_at = gr_expires_at grant\<rparr>, e2, db')))"

definition ExchangePairingGrant ::
    "(string \<Rightarrow> string) \<Rightarrow> auth_config \<Rightarrow> faults \<Rightarrow> time \<Rightarrow> string \<Rightarrow> entropy \<times> auth_db \<Rightarrow>
     (auth_error + token_pair) \<times> entropy \<times> auth_db" where
  "ExchangePairingGrant H conf flt now code0 st =
     (let (e, db) = st; code = trim_space code0 in
      if code = [] \<or> 512 < length code then (Inl ErrInvalidCredential, e, db)
      else
        (let ((accessID, accessSecret, accessToken), e1) = newToken ''at'' e;
             ((sessionID, refreshSecret, refreshToken), e2) = newToken ''rt'' e1;
             (clientID, e3) = randomID ''client'' e2;
             material = \<lparr>cm_client_id = clientID, cm_session_id = sessionID,
               cm_access_token_id = accessID, cm_access_hash = H accessSecret,
               cm_refresh_hash = H refreshSecret, cm_access_expires = now + AccessTTL conf,
               cm_refresh_expires = now + RefreshTTL conf\<rparr> in
         case db_ExchangePairingGrant flt (H code) now material db of
           (Inl err, db') \<Rightarrow> (Inl err, e3, db')
         | (Inr client, db') \<Rightarrow>
             (Inr (tokenPair accessToken refreshToken (cm_access_expires material)
                     (cm_refresh_expires material) client now), e3, db')))"

definition Authenticate ::
    "(string \<Rightarrow> string) \<Rightarrow> faults \<Rightarrow> time \<Rightarrow> string \<Rightarrow> auth_db \<Rightarrow> (auth_error + principal) \<times> auth_db" where
  "Authenticate H flt now bearer db =
     (case parseToken bearer ''at'' of
        Inl _ \<Rightarrow> (Inl ErrInvalidCredential, db)
      | Inr (ident, secret) \<Rightarrow> db_AuthenticateAccess flt ident (H secret) now db)"

definition Refresh ::
    "(string \<Rightarrow> string) \<Rightarrow> auth_config \<Rightarrow> faults \<Rightarrow> time \<Rightarrow> string \<Rightarrow> entropy \<times> auth_db \<Rightarrow>
     (auth_error + token_pair) \<times> entropy \<times> auth_db" where
  "Refresh H conf flt now refreshToken st =
     (let (e, db) = st in
      case parseToken refreshToken ''rt'' of
        Inl _ \<Rightarrow> (Inl ErrInvalidCredential, e, db)
      | Inr (sessionID, secret) \<Rightarrow>
          (let ((accessID, accessSecret, accessToken), e1) = newToken ''at'' e;
               ((_, refreshSecret, nextRefreshToken), e2) = newTokenWithID ''rt'' sessionID e1;
               material = \<lparr>rm_access_token_id = accessID, rm_access_hash = H accessSecret,
                 rm_refresh_hash = H refreshSecret, rm_access_expires = now + AccessTTL conf\<rparr> in
           case db_RotateRefresh flt sessionID (H secret) now material db of
             (Inl err, db') \<Rightarrow> (Inl err, e2, db')
           | (Inr (client, refreshExpires), db') \<Rightarrow>
               (Inr (tokenPair accessToken nextRefreshToken (rm_access_expires material)
                       refreshExpires client now), e2, db')))"

definition RevokeSession ::
    "(string \<Rightarrow> string) \<Rightarrow> faults \<Rightarrow> time \<Rightarrow> string \<Rightarrow> string \<Rightarrow> auth_db \<Rightarrow> (auth_error + unit) \<times> auth_db" where
  "RevokeSession H flt now refreshToken reason db =
     (case parseToken refreshToken ''rt'' of
        Inl _ \<Rightarrow> (Inl ErrInvalidCredential, db)
      | Inr (sessionID, secret) \<Rightarrow> db_RevokeSession flt sessionID (H secret) now reason db)"

definition ListClients :: "faults \<Rightarrow> auth_db \<Rightarrow> auth_error + auth_client list" where
  "ListClients flt db = db_ListClients flt db"

definition RevokeClient ::
    "faults \<Rightarrow> time \<Rightarrow> string \<Rightarrow> string \<Rightarrow> auth_db \<Rightarrow> (auth_error + unit) \<times> auth_db" where
  "RevokeClient flt now clientID reason db =
     (if trim_space clientID = [] then (Inl ErrNotFound, db)
      else db_RevokeClient flt clientID now reason db)"

subsection \<open>The service as a transition system\<close>

datatype auth_call =
    CallCreate string "string list"
  | CallExchange string
  | CallAuthenticate string
  | CallRefresh string
  | CallRevokeSession string string
  | CallRevokeClient string string

definition auth_exec ::
    "(string \<Rightarrow> string) \<Rightarrow> auth_config \<Rightarrow> faults \<Rightarrow> time \<Rightarrow> entropy \<Rightarrow> auth_call \<Rightarrow> auth_db \<Rightarrow> auth_db" where
  "auth_exec H conf flt now e call db =
     (case call of
        CallCreate name scopes \<Rightarrow> snd (snd (CreatePairingGrant H conf flt now name scopes (e, db)))
      | CallExchange code \<Rightarrow> snd (snd (ExchangePairingGrant H conf flt now code (e, db)))
      | CallAuthenticate bearer \<Rightarrow> snd (Authenticate H flt now bearer db)
      | CallRefresh token \<Rightarrow> snd (snd (Refresh H conf flt now token (e, db)))
      | CallRevokeSession token reason \<Rightarrow> snd (RevokeSession H flt now token reason db)
      | CallRevokeClient cid reason \<Rightarrow> snd (RevokeClient flt now cid reason db))"

inductive auth_step :: "(string \<Rightarrow> string) \<Rightarrow> auth_config \<Rightarrow> auth_db \<Rightarrow> auth_db \<Rightarrow> bool"
  for H :: "string \<Rightarrow> string" and conf :: auth_config where
  call: "auth_step H conf db (auth_exec H conf flt now e c db)"

inductive auth_steps :: "(string \<Rightarrow> string) \<Rightarrow> auth_config \<Rightarrow> auth_db \<Rightarrow> auth_db \<Rightarrow> bool"
  for H :: "string \<Rightarrow> string" and conf :: auth_config where
  none: "auth_steps H conf db db"
| more: "auth_steps H conf db db' \<Longrightarrow> auth_step H conf db' db'' \<Longrightarrow> auth_steps H conf db db''"

inductive_cases auth_stepE: "auth_step H conf db db'"

subsection \<open>What the service relies on\<close>

locale credential_store =
  fixes inv :: "'db \<Rightarrow> bool"
    and le :: "'db \<Rightarrow> 'db \<Rightarrow> bool"
    and exchange :: "faults \<Rightarrow> string \<Rightarrow> time \<Rightarrow> credential_material \<Rightarrow> 'db \<Rightarrow> (auth_error + auth_client) \<times> 'db"
    and rotate :: "faults \<Rightarrow> string \<Rightarrow> string \<Rightarrow> time \<Rightarrow> rotated_material \<Rightarrow> 'db \<Rightarrow> (auth_error + auth_client \<times> time) \<times> 'db"
    and auth :: "faults \<Rightarrow> string \<Rightarrow> string \<Rightarrow> time \<Rightarrow> 'db \<Rightarrow> (auth_error + principal) \<times> 'db"
    and spent :: "string \<Rightarrow> 'db \<Rightarrow> bool"
    and dead :: "string \<Rightarrow> 'db \<Rightarrow> bool"
    and used :: "string \<Rightarrow> string \<Rightarrow> 'db \<Rightarrow> bool"
  assumes spent_grows: "le db db' \<Longrightarrow> spent h db \<Longrightarrow> spent h db'"
    and dead_grows: "le db db' \<Longrightarrow> dead sid db \<Longrightarrow> dead sid db'"
    and used_grows: "le db db' \<Longrightarrow> used h sid db \<Longrightarrow> used h sid db'"
    and exchange_spends: "inv db \<Longrightarrow> exchange flt h now m db = (Inr c, db') \<Longrightarrow> spent h db'"
    and spent_refused: "inv db \<Longrightarrow> spent h db \<Longrightarrow> \<exists>e. exchange flt h now m db = (Inl e, db)"
    and rotate_uses: "inv db \<Longrightarrow> rotate flt sid h now rm db = (Inr r, db') \<Longrightarrow> used h sid db'"
    and used_refused: "inv db \<Longrightarrow> used h sid db \<Longrightarrow> \<exists>e. fst (rotate flt sid h now rm db) = Inl e"
    and dead_rotate: "inv db \<Longrightarrow> dead sid db \<Longrightarrow> \<exists>e. rotate flt sid h now rm db = (Inl e, db)"
    and dead_auth: "inv db \<Longrightarrow> dead sid db \<Longrightarrow> fst (auth flt tid h now db) = Inr p \<Longrightarrow> pr_session_id p \<noteq> sid"
begin

text \<open>A pairing code buys one client, a refresh token one rotation, however the store moves on.\<close>

lemma exchange_once:
  assumes "inv db" "exchange flt h now m db = (Inr c, db1)" "le db1 db2" "inv db2"
  shows "\<exists>e. exchange flt' h now' m' db2 = (Inl e, db2)"
  using assms exchange_spends spent_grows spent_refused by blast

lemma rotate_once:
  assumes "inv db" "rotate flt sid h now rm db = (Inr r, db1)" "le db1 db2" "inv db2"
  shows "\<exists>e. fst (rotate flt' sid h now' rm' db2) = Inl e"
  using assms rotate_uses used_grows used_refused by blast

lemma dead_for_good:
  assumes "dead sid db1" "le db1 db2" "inv db2"
  shows "\<exists>e. rotate flt sid h now rm db2 = (Inl e, db2)"
    "fst (auth flt tid h now db2) = Inr p \<Longrightarrow> pr_session_id p \<noteq> sid"
  using assms dead_grows dead_rotate dead_auth by blast+

end

lemma used_no_rotate:
  assumes "was_used h sid db"
  shows "\<exists>e. fst (db_RotateRefresh flt sid h now m db) = Inl e"
proof (cases "db_RotateRefresh flt sid h now m db")
  case (Pair r db')
  then show ?thesis
  proof (cases rule: db_RotateRefresh_cases)
    case (rotate s c)
    then have "h \<notin> hi_token_hash ` set (refresh_token_history db)"
      by (simp add: rotate_ready_def)
    with assms show ?thesis by (auto simp: was_used_def sql_exists_def list_ex_iff)
  qed (use Pair in auto)
qed

lemma rotated_used: "rotate_ready sid h now m s c db \<Longrightarrow> was_used h sid (rotated sid s c now m db)"
  by (simp add: was_used_def rotated_def seen_client_def rotate_session_def sql_exists_def
      rotate_ready_def)

interpretation pg: credential_store wf_auth auth_le db_ExchangePairingGrant db_RotateRefresh
  db_AuthenticateAccess grant_spent session_revoked was_used
proof (unfold_locales, goal_cases)
  case (4 db flt h now m c db')
  from 4(2) show ?case
    by (cases rule: db_ExchangePairingGrant_cases) (use 4(1) in \<open>auto simp: exchanged_spends\<close>)
next
  case (5 db h flt now m)
  then show ?case by (rule spent_exchange(2))
next
  case (6 db flt sid h now m r db')
  from 6(2) show ?case by (cases rule: db_RotateRefresh_cases) (auto simp: rotated_used)
next
  case (7 db h sid flt now m)
  then show ?case by (blast intro: used_no_rotate)
next
  case (8 db sid flt h now m)
  then show ?case by (blast intro: revoked_no_rotate)
next
  case (9 db sid flt tid h now p)
  then show ?case using revoked_session_no_access by blast
qed (auto intro: marks_grow)

subsection \<open>Every call keeps the invariant and only adds durable facts\<close>

text \<open>A call leaves the store alone or runs one of its methods.\<close>

lemma auth_exec_method:
  assumes "P db" "\<And>g. P (snd (db_CreatePairingGrant flt g db))"
    "\<And>h m. P (snd (db_ExchangePairingGrant flt h now m db))"
    "\<And>tid h. P (snd (db_AuthenticateAccess flt tid h now db))"
    "\<And>sid h m. P (snd (db_RotateRefresh flt sid h now m db))"
    "\<And>sid h reason. P (snd (db_RevokeSession flt sid h now reason db))"
    "\<And>cid reason. P (snd (db_RevokeClient flt cid now reason db))"
  shows "P (auth_exec H conf flt now e c db)"
proof (cases c)
  case (CallCreate name scopes)
  show ?thesis
    unfolding CallCreate auth_exec_def CreatePairingGrant_def Let_def split_beta
    by (auto split: sum.splits intro: assms(1,2))
next
  case (CallExchange code)
  show ?thesis
    unfolding CallExchange auth_exec_def ExchangePairingGrant_def Let_def split_beta
    by (auto split: sum.splits intro: assms(1,3))
next
  case (CallAuthenticate bearer)
  show ?thesis
    unfolding CallAuthenticate auth_exec_def Authenticate_def
    by (auto split: sum.splits intro: assms(1,4))
next
  case (CallRefresh token)
  show ?thesis
    unfolding CallRefresh auth_exec_def Refresh_def Let_def split_beta
    by (auto split: sum.splits intro: assms(1,5))
next
  case (CallRevokeSession token reason)
  show ?thesis
    unfolding CallRevokeSession auth_exec_def RevokeSession_def
    by (auto split: sum.splits intro: assms(1,6))
next
  case (CallRevokeClient cid reason)
  show ?thesis
    unfolding CallRevokeClient auth_exec_def RevokeClient_def by (auto intro: assms(1,7))
qed

lemma wf_auth_exec: "wf_auth db \<Longrightarrow> wf_auth (auth_exec H conf flt now e c db)"
  by (rule auth_exec_method) (simp_all add: wf_auth_methods)

lemma auth_le_exec: "auth_le db (auth_exec H conf flt now e c db)"
  by (rule auth_exec_method) (simp_all add: auth_le_methods)

lemma auth_steps_wf: "auth_steps H conf db db' \<Longrightarrow> wf_auth db \<Longrightarrow> wf_auth db'"
  by (induction rule: auth_steps.induct) (auto elim!: auth_stepE intro: wf_auth_exec)

lemma auth_steps_le: "auth_steps H conf db db' \<Longrightarrow> auth_le db db'"
  by (induction rule: auth_steps.induct) (auto elim!: auth_stepE intro: auth_le_trans auth_le_exec)

end
