(* ===== verification/Auth_Properties.thy ===== *)
theory Auth_Properties
  imports Auth_Service
begin

section \<open>Auth: the properties of the service\<close>

text \<open>
  What the clients of the auth service rely on, stated over the service's calls and over every
  state the calls reach from empty tables: single use of pairing codes and refresh tokens, replay
  detection, finality of revocation, atomicity of the exchange under lost statements and replies,
  and the life of the token an exchange returns.
\<close>

subsection \<open>Scope normalisation against its reference\<close>

fun first_occurrences :: "'a list \<Rightarrow> 'a list" where
  "first_occurrences [] = []"
| "first_occurrences (x # xs) = x # filter (\<lambda>y. y \<noteq> x) (first_occurrences xs)"

lemma set_first_occurrences [simp]: "set (first_occurrences xs) = set xs"
  by (induction xs) auto

lemma distinct_first_occurrences [simp]: "distinct (first_occurrences xs)"
  by (induction xs) auto

lemma normalize_loop_eq:
  "set seen = set result \<Longrightarrow> normalize_loop seen result ss =
    (case find (\<lambda>s. \<not> allowed_scope (trim_space s)) ss of
       Some s \<Rightarrow> Inl (ErrUnsupportedScope (trim_space s))
     | None \<Rightarrow> Inr (result @ filter (\<lambda>x. x \<notin> set result) (first_occurrences (map trim_space ss))))"
proof (induction ss arbitrary: seen result)
  case (Cons s ss)
  have "filter (\<lambda>x. x \<notin> set result) (filter (\<lambda>y. y \<noteq> trim_space s) xs) = filter (\<lambda>x. x \<notin> set result) xs"
    if "trim_space s \<in> set result" for xs
    using that by (induction xs) auto
  moreover have "filter (\<lambda>x. x \<notin> set (result @ [trim_space s])) xs =
      filter (\<lambda>x. x \<notin> set result) (filter (\<lambda>y. y \<noteq> trim_space s) xs)" for xs
    by (induction xs) auto
  ultimately show ?case
    using Cons.prems Cons.IH [of seen result]
      Cons.IH [of "trim_space s # seen" "result @ [trim_space s]"]
    by (auto simp: Let_def split: option.splits)
qed simp

text \<open>
  Property C24. Scope normalisation is first-occurrence deduplication of the trimmed request
  (of the default scopes when the request is empty), and it refuses the first unsupported scope.
\<close>

theorem normalizeScopes_reference:
  "normalizeScopes scopes =
    (let req = (if scopes = [] then DefaultScopes else scopes) in
     case find (\<lambda>s. \<not> allowed_scope (trim_space s)) req of
       Some s \<Rightarrow> Inl (ErrUnsupportedScope (trim_space s))
     | None \<Rightarrow> Inr (first_occurrences (map trim_space req)))"
  by (simp add: normalizeScopes_def normalize_loop_eq Let_def split: option.splits)

text \<open>
  A token the service composes, whether new or reissued for an existing session,
  parses back to exactly its identifier and its secret under the prefix it was made with.
\<close>

theorem token_roundtrip:
  assumes "p = ''at'' \<or> p = ''rt''" and "newToken p e = ((i, s, t), e1)"
    and "newTokenWithID p i e1 = ((i', s', t'), e2)"
  shows "parseToken t p = Inr (i, s) \<and> parseToken t' p = Inr (i, s')"
proof -
  have p: "token_prefix p" using assms(1) by auto
  have first: "parseToken t p = Inr (i, s)" using assms(2) p by (rule newToken_parse)
  define r where "r = fst (randomSecret 18 e)"
  have i: "i = p @ ''_'' @ r"
    using assms(2) by (simp add: newToken_def newTokenWithID_def randomID_def split_beta r_def Let_def)
  have "CHR ''.'' \<notin> set r" using secret_graphic(2) [of 18 e r] r_def by blast
  with newTokenWithID_parse [OF assms(3) i p] first show ?thesis by simp
qed

definition zero_entropy :: entropy where
  "zero_entropy = \<lparr>source = (\<lambda>n. of_nat n), drawn = 0\<rparr>"

theorem token_roundtrip_witness:
  "\<exists>i s t e1 s' t' e2. newToken ''at'' zero_entropy = ((i, s, t), e1) \<and>
     newTokenWithID ''at'' i e1 = ((i, s', t'), e2) \<and>
     parseToken t ''at'' = Inr (i, s) \<and> parseToken t' ''at'' = Inr (i, s')"
proof -
  obtain i s t e1 where a: "newToken ''at'' zero_entropy = ((i, s, t), e1)"
    by (metis prod_cases3 surj_pair)
  obtain i' s' t' e2 where b: "newTokenWithID ''at'' i e1 = ((i', s', t'), e2)"
    by (metis prod_cases3 surj_pair)
  then have "i' = i" by (simp add: newTokenWithID_def split_beta)
  with token_roundtrip [of "''at''", OF _ a b] a b show ?thesis by blast
qed

subsection \<open>Reachable stores\<close>

abbreviation auth_reachable :: "(string \<Rightarrow> string) \<Rightarrow> auth_config \<Rightarrow> auth_db \<Rightarrow> bool" where
  "auth_reachable H conf \<equiv> auth_steps H conf empty_auth"

lemma auth_steps_step:
  "auth_steps H conf db db' \<Longrightarrow> auth_steps H conf db (auth_exec H conf flt now e c db')"
  by (blast intro: auth_steps.intros auth_step.intros)

lemma auth_reachable_wf: "auth_reachable H conf db \<Longrightarrow> wf_auth db"
  using auth_steps_wf wf_empty_auth by blast

text \<open>The material one call draws from the random source.\<close>

definition issued :: "(string \<Rightarrow> string) \<Rightarrow> auth_config \<Rightarrow> time \<Rightarrow> entropy \<Rightarrow> credential_material" where
  "issued H conf now e =
     (let ((accessID, accessSecret, _), e1) = newToken ''at'' e;
          ((sessionID, refreshSecret, _), e2) = newToken ''rt'' e1;
          (clientID, _) = randomID ''client'' e2 in
      \<lparr>cm_client_id = clientID, cm_session_id = sessionID,
       cm_access_token_id = accessID, cm_access_hash = H accessSecret,
       cm_refresh_hash = H refreshSecret, cm_access_expires = now + AccessTTL conf,
       cm_refresh_expires = now + RefreshTTL conf\<rparr>)"

definition reissued :: "(string \<Rightarrow> string) \<Rightarrow> auth_config \<Rightarrow> time \<Rightarrow> string \<Rightarrow> entropy \<Rightarrow> rotated_material" where
  "reissued H conf now sid e =
     (let ((accessID, accessSecret, _), e1) = newToken ''at'' e;
          ((_, refreshSecret, _), _) = newTokenWithID ''rt'' sid e1 in
      \<lparr>rm_access_token_id = accessID, rm_access_hash = H accessSecret,
       rm_refresh_hash = H refreshSecret, rm_access_expires = now + AccessTTL conf\<rparr>)"

lemma ExchangePairingGrant_method:
  assumes "ExchangePairingGrant H conf flt now code (e, db) = (r, e1, db1)"
  shows "(r = Inl ErrInvalidCredential \<and> db1 = db) \<or>
    (let (r', db') = db_ExchangePairingGrant flt (H (trim_space code)) now (issued H conf now e) db in
      db1 = db' \<and> (\<forall>err. r = Inl err \<longleftrightarrow> r' = Inl err) \<and> (\<forall>p. r = Inr p \<longrightarrow> r' = Inr (tp_client p)))"
  using assms unfolding ExchangePairingGrant_def issued_def Let_def split_beta tokenPair_def prod.sel
  by (auto split: if_splits sum.splits)

lemma Refresh_method:
  assumes "Refresh H conf flt now token (e, db) = (r, e1, db1)"
    and "parseToken token ''rt'' = Inr (sid, secret)"
  shows "let (r', db') = db_RotateRefresh flt sid (H secret) now (reissued H conf now sid e) db in
      db1 = db' \<and> (\<forall>err. r = Inl err \<longleftrightarrow> r' = Inl err) \<and> (\<forall>p. r = Inr p \<longrightarrow> (\<exists>t. r' = Inr (tp_client p, t)))"
  using assms unfolding Refresh_def reissued_def Let_def split_beta tokenPair_def prod.sel
  by (auto split: if_splits sum.splits)

lemma Refresh_Inr_parse:
  "Refresh H conf flt now token st = (Inr p, st') \<Longrightarrow> \<exists>sid secret. parseToken token ''rt'' = Inr (sid, secret)"
  unfolding Refresh_def Let_def by (auto split: sum.splits prod.splits)

lemma ExchangePairingGrant_step:
  assumes "auth_steps H conf db0 db" "ExchangePairingGrant H conf flt now code (e, db) = (r, e1, db1)"
  shows "auth_steps H conf db0 db1"
  using auth_steps_step [OF assms(1), of flt now e "CallExchange code"] assms(2)
  by (simp add: auth_exec_def)

lemma Refresh_step:
  assumes "auth_steps H conf db0 db" "Refresh H conf flt now token (e, db) = (r, e1, db1)"
  shows "auth_steps H conf db0 db1"
  using auth_steps_step [OF assms(1), of flt now e "CallRefresh token"] assms(2)
  by (simp add: auth_exec_def)

subsection \<open>Single use and revocation\<close>

text \<open>
  Property C21. The tables reached by any sequence of calls, whatever statements and replies are lost,
  satisfy the keys, foreign keys, ownership and downward-closed revocation of \<open>wf_auth\<close>.
\<close>

theorem auth_tables_invariant:
  assumes "auth_steps H conf empty_auth db"
  shows "wf_auth db"
  using assms by (rule auth_reachable_wf)

text \<open>
  Property C3. A pairing code buys at most one client: after a successful exchange every later
  exchange of the same code fails, in every reachable state and under any faults, changes nothing,
  and on a working connection reports a consumed grant.
\<close>

theorem pairing_code_single_use:
  assumes "auth_steps H conf empty_auth db"
    and "ExchangePairingGrant H conf flt now code (e, db) = (Inr pair, e1, db1)"
    and "auth_steps H conf db1 db2"
    and "ExchangePairingGrant H conf flt' now' code (e', db2) = (r, e2, db3)"
  shows "\<exists>err. r = Inl err \<and> db3 = db2 \<and> (flt' = no_faults \<longrightarrow> err = ErrConsumedGrant)"
proof -
  let ?h = "H (trim_space code)"
  note wf = auth_reachable_wf [OF assms(1)]
  have wf2: "wf_auth db2"
    using ExchangePairingGrant_step [OF assms(1,2)] assms(3) wf auth_steps_wf auth_reachable_wf by blast
  have "db_ExchangePairingGrant flt ?h now (issued H conf now e) db = (Inr (tp_client pair), db1)"
    using ExchangePairingGrant_method [OF assms(2)] by (auto simp: Let_def split: prod.splits)
  then have spent: "grant_spent ?h db2"
    using pg.exchange_spends [OF wf] pg.spent_grows [OF auth_steps_le [OF assms(3)]] by blast
  obtain err where err: "db_ExchangePairingGrant flt' ?h now' (issued H conf now' e') db2 = (Inl err, db2)"
    using pg.spent_refused [OF wf2 spent] by blast
  have code: "\<not> (trim_space code = [] \<or> 512 < length (trim_space code))"
    using assms(2) by (auto simp: ExchangePairingGrant_def Let_def split: if_splits)
  have "r = Inl err \<and> db3 = db2"
    using assms(4) err code unfolding ExchangePairingGrant_def issued_def Let_def split_beta prod.sel
    by (auto split: sum.splits)
  moreover have "err = ErrConsumedGrant" if "flt' = no_faults"
    using err that spent_exchange(1) [OF wf2 spent] by simp
  ultimately show ?thesis by blast
qed

text \<open>
  Property C11. A refresh token rotates once: after a successful refresh every later refresh with the
  same token fails, in every reachable state and under any faults.
\<close>

theorem refresh_token_single_use:
  assumes "auth_steps H conf empty_auth db"
    and "Refresh H conf flt now token (e, db) = (Inr pair, e1, db1)"
    and "auth_steps H conf db1 db2"
  shows "\<exists>err. fst (Refresh H conf flt' now' token (e', db2)) = Inl err"
proof -
  obtain sid secret where p: "parseToken token ''rt'' = Inr (sid, secret)"
    using Refresh_Inr_parse [OF assms(2)] by blast
  obtain t where rot: "db_RotateRefresh flt sid (H secret) now (reissued H conf now sid e) db = (Inr (tp_client pair, t), db1)"
    using Refresh_method [OF assms(2) p] by (auto simp: Let_def split: prod.splits)
  have wf2: "wf_auth db2"
    using Refresh_step [OF assms(1,2)] assms(3) auth_steps_wf auth_reachable_wf by blast
  obtain err where "fst (db_RotateRefresh flt' sid (H secret) now' (reissued H conf now' sid e') db2) = Inl err"
    using pg.rotate_once [OF auth_reachable_wf [OF assms(1)] rot auth_steps_le [OF assms(3)] wf2] by blast
  moreover obtain r e2 db3 where "Refresh H conf flt' now' token (e', db2) = (r, e2, db3)"
    by (metis prod_cases3)
  ultimately show ?thesis using Refresh_method p by (fastforce simp: Let_def split_beta)
qed

lemma revoked_session_marks:
  assumes "sid \<in> rs_id ` set (refresh_sessions db)"
  shows "session_revoked sid (revoked_session sid now reason db)"
proof -
  obtain s where s: "s \<in> set (refresh_sessions db)" "rs_id s = sid" using assms by blast
  then have "s\<lparr>rs_revoked_at := coalesce (rs_revoked_at s) (pg_time now),
      rs_revoke_reason := coalesce (rs_revoke_reason s) reason\<rparr>
      \<in> set (refresh_sessions (revoked_session sid now reason db))"
    by (auto simp: revoked_session_def revoke_tokens_def revoke_sessions_def sql_update_def)
  with s show ?thesis
    unfolding session_revoked_def sql_exists_def list_ex_iff
    by (intro bexI) (auto simp: coalesce_def split: option.splits)
qed

lemma revoked_client_marks:
  assumes "cid \<in> cl_id ` set (clients db)"
  shows "client_revoked cid (revoked_client cid now reason db)"
proof -
  obtain c where c: "c \<in> set (clients db)" "cl_id c = cid" using assms by blast
  then have "c\<lparr>cl_revoked_at := coalesce (cl_revoked_at c) (pg_time now)\<rparr>
      \<in> set (clients (revoked_client cid now reason db))"
    by (auto simp: revoked_client_def revoke_tokens_def revoke_sessions_def revoke_client_row_def sql_update_def)
  with c show ?thesis
    unfolding client_revoked_def sql_exists_def list_ex_iff
    by (intro bexI) (auto simp: coalesce_def split: option.splits)
qed

lemma Authenticate_Inr:
  "fst (Authenticate H flt now bearer db) = Inr p \<longleftrightarrow>
    (\<exists>tid secret. parseToken bearer ''at'' = Inr (tid, secret) \<and>
       fst (db_AuthenticateAccess flt tid (H secret) now db) = Inr p)"
  unfolding Authenticate_def by (auto split: sum.splits)

lemma dead_session_forever:
  assumes "session_revoked sid db1" "wf_auth db1" "auth_steps H conf db1 db2"
  shows "fst (Authenticate H flt now bearer db2) = Inr p \<Longrightarrow> pr_session_id p \<noteq> sid"
    "parseToken token ''rt'' = Inr (sid, secret) \<Longrightarrow>
      \<exists>err. fst (Refresh H conf flt now token (e, db2)) = Inl err"
proof -
  note wf2 = auth_steps_wf [OF assms(3,2)] and le = auth_steps_le [OF assms(3)]
  show "fst (Authenticate H flt now bearer db2) = Inr p \<Longrightarrow> pr_session_id p \<noteq> sid"
    using pg.dead_for_good(2) [OF assms(1) le wf2] unfolding Authenticate_Inr by blast
  assume p: "parseToken token ''rt'' = Inr (sid, secret)"
  obtain r e1 db3 where r: "Refresh H conf flt now token (e, db2) = (r, e1, db3)"
    by (metis prod_cases3)
  with Refresh_method [OF r p] pg.dead_for_good(1) [OF assms(1) le wf2, of flt "H secret" now "reissued H conf now sid e"]
  show "\<exists>err. fst (Refresh H conf flt now token (e, db2)) = Inl err" by auto
qed

text \<open>
  Property C2. Presenting a used refresh token of a live session is detected as a replay: the call
  reports it, the session is revoked, and in every state reached afterwards no access token of the
  session authenticates and no refresh token of it refreshes.
\<close>

theorem refresh_replay_revokes:
  assumes "auth_steps H conf empty_auth db"
    and "parseToken token ''rt'' = Inr (sid, secret)"
    and "live_session sid now s c db" and "was_used (H secret) sid db" and "rs_token_hash s \<noteq> H secret"
  shows "\<exists>e1 db1. Refresh H conf no_faults now token (e, db) = (Inl ErrRefreshReplay, e1, db1) \<and>
    (\<forall>db2. auth_steps H conf db1 db2 \<longrightarrow>
      (\<forall>flt t bearer p. fst (Authenticate H flt t bearer db2) = Inr p \<longrightarrow> pr_session_id p \<noteq> sid) \<and>
      (\<forall>flt t e' token' secret'. parseToken token' ''rt'' = Inr (sid, secret') \<longrightarrow>
         (\<exists>err. fst (Refresh H conf flt t token' (e', db2)) = Inl err)))"
proof -
  let ?db1 = "revoked_session sid now ''refresh_replay'' db"
  note wf = auth_reachable_wf [OF assms(1)]
  have body: "db_RotateRefresh no_faults sid (H secret) now m db = (Inl ErrRefreshReplay, ?db1)" for m
    by (simp add: db_RotateRefresh_def run_tx_def replay_body_run [OF assms(3,5,4)])
  obtain r e1 db1 where ref: "Refresh H conf no_faults now token (e, db) = (r, e1, db1)"
    by (metis prod_cases3)
  with Refresh_method [OF ref assms(2)] body have r: "r = Inl ErrRefreshReplay" "db1 = ?db1"
    by (auto simp: Let_def)
  have dead: "session_revoked sid db1"
    using session_joinD [of sid db s c] assms(3) unfolding r(2)
    by (intro revoked_session_marks) (auto simp: live_session_def)
  have "wf_auth db1" unfolding r(2) using wf by (rule wf_revoked_session)
  from dead_session_forever [OF dead this] ref r(1) show ?thesis by blast
qed

lemma revoked_client_authenticates:
  assumes "auth_steps H conf empty_auth db"
    and "RevokeClient flt now cid reason db = (Inr (), db1)"
    and "auth_steps H conf db1 db2"
  shows "client_revoked cid db2 \<and> wf_auth db2 \<and>
    (\<forall>flt t bearer p. fst (Authenticate H flt t bearer db2) = Inr p \<longrightarrow> pr_client_id p \<noteq> cid)"
proof (intro conjI allI impI)
  note wf = auth_reachable_wf [OF assms(1)]
  have rc: "db_RevokeClient flt cid now reason db = (Inr (), db1)"
    using assms(2) by (auto simp: RevokeClient_def split: if_splits)
  then have "client_revoked cid db1"
    by (cases rule: db_RevokeClient_cases) (auto intro: revoked_client_marks)
  then show rev: "client_revoked cid db2" using marks_grow(2) auth_steps_le assms(3) by blast
  have "wf_auth db1" using wf_db_RevokeClient [OF wf, of flt cid now reason] rc by simp
  then show wf2: "wf_auth db2" using assms(3) auth_steps_wf by blast
  show "pr_client_id p \<noteq> cid" if "fst (Authenticate H flt t bearer db2) = Inr p" for flt t bearer p
    using that revoked_client_no_access [OF rev wf2] unfolding Authenticate_Inr by blast
qed

text \<open>
  Property C12. Revoking a client is final: in every state reached afterwards no bearer token
  authenticates as the client and no refresh token yields a credential for it.
\<close>

theorem revoke_client_final:
  assumes "auth_steps H conf empty_auth db"
    and "RevokeClient flt now cid reason db = (Inr (), db1)"
    and "auth_steps H conf db1 db2"
  shows "(\<forall>flt t bearer p. fst (Authenticate H flt t bearer db2) = Inr p \<longrightarrow> pr_client_id p \<noteq> cid) \<and>
    (\<forall>flt t token e p. fst (Refresh H conf flt t token (e, db2)) = Inr p \<longrightarrow> ac_id (tp_client p) \<noteq> cid)"
proof (intro conjI allI impI)
  note auth = revoked_client_authenticates [OF assms]
  then have rev: "client_revoked cid db2" and wf2: "wf_auth db2" by simp_all
  show "pr_client_id p \<noteq> cid" if "fst (Authenticate H flt t bearer db2) = Inr p" for flt t bearer p
    using that auth by blast
  show "ac_id (tp_client p) \<noteq> cid" if asm: "fst (Refresh H conf flt t token (e, db2)) = Inr p" for flt t token e p
  proof -
    obtain e3 db3 where r: "Refresh H conf flt t token (e, db2) = (Inr p, e3, db3)"
      using asm by (metis prod.collapse)
    obtain sid secret where pt: "parseToken token ''rt'' = Inr (sid, secret)"
      using Refresh_Inr_parse [OF r] by blast
    obtain u where "db_RotateRefresh flt sid (H secret) t (reissued H conf t sid e) db2 = (Inr (tp_client p, u), db3)"
      using Refresh_method [OF r pt] by (auto simp: Let_def split_beta prod_eq_iff)
    then show ?thesis
    proof (cases rule: db_RotateRefresh_cases)
      case (rotate s c)
      then have "c \<in> set (clients db2)" "cl_revoked_at c = None" "ac_id (tp_client p) = cl_id c"
        by (auto simp: rotate_ready_def live_session_def client_of_row_def dest: session_joinD)
      with rev wf2 show ?thesis
        unfolding client_revoked_def sql_exists_def list_ex_iff wf_auth_def keys_ok_def
        by (metis unique_row)
    qed auto
  qed
qed

text \<open>
  Property C22. The exchange is atomic: whatever statements or replies are lost, it leaves the tables
  untouched or consumes an open, unexpired grant for the code together with the client, session and
  token rows; success is reported only in the second case, and on a working connection always then.
\<close>

theorem exchange_all_or_nothing:
  assumes "ExchangePairingGrant H conf flt now code (e, db) = (r, e1, db1)"
  shows "(db1 = db \<and> (\<exists>err. r = Inl err) \<or>
     (\<exists>g. exchange_ready (H (trim_space code)) now (issued H conf now e) g db \<and>
        db1 = exchanged g now (issued H conf now e) db \<and>
        (r = Inl ErrDatabase \<or> (\<exists>p. r = Inr p \<and> ac_scopes (tp_client p) = pg_scopes g)))) \<and>
     (flt = no_faults \<and> trim_space code \<noteq> [] \<and> length (trim_space code) \<le> 512 \<longrightarrow>
       (\<forall>g. exchange_ready (H (trim_space code)) now (issued H conf now e) g db \<longrightarrow> (\<exists>p. r = Inr p)))"
proof (intro conjI impI allI)
  let ?h = "H (trim_space code)" and ?m = "issued H conf now e"
  obtain r' db' where d: "db_ExchangePairingGrant flt ?h now ?m db = (r', db')" by fastforce
  with ExchangePairingGrant_method [OF assms]
  have m: "(r = Inl ErrInvalidCredential \<and> db1 = db) \<or> (db1 = db' \<and> (\<forall>err. r = Inl err \<longleftrightarrow> r' = Inl err) \<and>
      (\<forall>p. r = Inr p \<longrightarrow> r' = Inr (tp_client p)))" by simp
  have r: "(\<exists>err. r = Inl err) \<or> (\<exists>p. r = Inr p)" by (cases r) auto
  from d show "db1 = db \<and> (\<exists>err. r = Inl err) \<or>
     (\<exists>g. exchange_ready ?h now ?m g db \<and> db1 = exchanged g now ?m db \<and>
        (r = Inl ErrDatabase \<or> (\<exists>p. r = Inr p \<and> ac_scopes (tp_client p) = pg_scopes g)))"
  proof (cases rule: db_ExchangePairingGrant_cases)
    case (applied g)
    have "ac_scopes (tp_client p) = pg_scopes g" if "r = Inr p" for p
      using that m applied(3) by (auto dest: arg_cong [where f = ac_scopes])
    with applied m r show ?thesis by auto
  qed (use m r in auto)
  fix g assume a: "flt = no_faults \<and> trim_space code \<noteq> [] \<and> length (trim_space code) \<le> 512"
    and "exchange_ready ?h now ?m g db"
  then have "\<exists>c. db_ExchangePairingGrant no_faults ?h now ?m db = (Inr c, exchanged g now ?m db)"
    by (simp add: db_ExchangePairingGrant_def run_tx_def exchange_body_run)
  with a assms show "\<exists>p. r = Inr p"
    unfolding ExchangePairingGrant_def issued_def Let_def split_beta prod.sel
    by (auto split: sum.splits)
qed

text \<open>
  Property C23. A bearer token authenticates exactly when its row, its session and its client are all
  unrevoked, its secret hash matches and it has not expired; the principal then carries exactly the
  client's scopes.
\<close>

theorem authenticate_sound_complete:
  assumes "auth_steps H conf empty_auth db"
  shows "fst (Authenticate H no_faults now bearer db) = Inr p \<longleftrightarrow>
    (\<exists>tid secret t s c. parseToken bearer ''at'' = Inr (tid, secret) \<and>
      t \<in> set (access_tokens db) \<and> s \<in> set (refresh_sessions db) \<and> c \<in> set (clients db) \<and>
      at_id t = tid \<and> at_session_id t = rs_id s \<and> rs_client_id s = cl_id c \<and>
      at_secret_hash t = H secret \<and> at_revoked_at t = None \<and> rs_revoked_at s = None \<and>
      cl_revoked_at c = None \<and> now < at_expires_at t \<and>
      p = \<lparr>pr_client_id = cl_id c, pr_client_name = cl_name c, pr_session_id = rs_id s,
           pr_scopes = cl_scopes c\<rparr>)"
proof -
  have wf: "keys_ok db" "owners_ok db" using auth_reachable_wf [OF assms] by (auto simp: wf_auth_def)
  have k: "by_key at_id x (access_tokens db) = Some t \<longleftrightarrow> t \<in> set (access_tokens db) \<and> at_id t = x"
    "by_key rs_id x (refresh_sessions db) = Some s \<longleftrightarrow> s \<in> set (refresh_sessions db) \<and> rs_id s = x"
    "by_key cl_id x (clients db) = Some c \<longleftrightarrow> c \<in> set (clients db) \<and> cl_id c = x" for x t s c
    using wf(1) by (simp_all add: keys_ok_def by_key_Some_iff)
  have join: "access_join tid db = Some (t, s, c) \<longleftrightarrow>
      t \<in> set (access_tokens db) \<and> s \<in> set (refresh_sessions db) \<and> c \<in> set (clients db) \<and>
      at_id t = tid \<and> rs_id s = at_session_id t \<and> cl_id c = at_client_id t" for tid t s c
  proof -
    have "access_join tid db = Some (t, s, c) \<longleftrightarrow> by_key at_id tid (access_tokens db) = Some t \<and>
        by_key rs_id (at_session_id t) (refresh_sessions db) = Some s \<and>
        by_key cl_id (at_client_id t) (clients db) = Some c"
      unfolding access_join_def by (auto split: option.splits)
    then show ?thesis by (auto simp: k)
  qed
  show ?thesis
    unfolding Authenticate_Inr db_AuthenticateAccess_Inr join after_def
    using wf(2) unfolding owners_ok_def by (auto simp: no_faults_def) metis+
qed

subsection \<open>From pairing to an authenticated request\<close>

text \<open>The grant row one call of \<open>CreatePairingGrant\<close> writes.\<close>

definition offered :: "(string \<Rightarrow> string) \<Rightarrow> auth_config \<Rightarrow> time \<Rightarrow> string \<Rightarrow> string list \<Rightarrow> entropy \<Rightarrow> grant_row" where
  "offered H conf now name ns e =
     (let (code, e1) = randomSecret 32 e; (gid, _) = randomID ''grant'' e1 in
      \<lparr>pg_id = gid, pg_code_hash = H code, pg_name = trim_space name, pg_scopes = ns,
       pg_expires_at = pg_time (now + PairingTTL conf), pg_created_at = pg_time now,
       pg_consumed_at = None, pg_client_id = None\<rparr>)"

definition grant_fresh :: "grant_row \<Rightarrow> auth_db \<Rightarrow> bool" where
  "grant_fresh g db \<longleftrightarrow> pg_id g \<notin> pg_id ` set (pairing_grants db) \<and>
     pg_code_hash g \<notin> pg_code_hash ` set (pairing_grants db)"

definition material_fresh :: "credential_material \<Rightarrow> auth_db \<Rightarrow> bool" where
  "material_fresh m db \<longleftrightarrow> cm_client_id m \<notin> cl_id ` set (clients db) \<and>
     cm_session_id m \<notin> rs_id ` set (refresh_sessions db) \<and>
     cm_access_token_id m \<notin> at_id ` set (access_tokens db)"

definition offer :: "grant_row \<Rightarrow> auth_db \<Rightarrow> auth_db" where
  "offer g db = db\<lparr>pairing_grants := pairing_grants db @ [g]\<rparr>"

lemma secret_code:
  assumes "fst (randomSecret 32 e) = code"
  shows "trim_space code = code" "code \<noteq> []" "length code = 43"
proof -
  show len: "length code = 43"
    using assms by (simp add: randomSecret_def split_beta length_raw_url_encode flip: assms)
  then show "code \<noteq> []" by auto
  then show "trim_space code = code"
    using secret_graphic(1) [OF assms] by (intro trim_space_plain) (auto simp: plain_ends_def)
qed

lemma CreatePairingGrant_run:
  assumes "trim_space name \<noteq> []" "length (trim_space name) \<le> 120" "normalizeScopes scopes = Inr ns"
    "grant_fresh (offered H conf now name ns e) db"
  shows "\<exists>e1. CreatePairingGrant H conf no_faults now name scopes (e, db) =
     (Inr \<lparr>pl_code = fst (randomSecret 32 e), pl_expires_at = now + PairingTTL conf\<rparr>, e1,
      offer (offered H conf now name ns e) db)"
  using assms unfolding CreatePairingGrant_def offered_def offer_def grant_fresh_def Let_def split_beta
  by (simp add: db_CreatePairingGrant_def insert_Some [THEN iffD2] Let_def)

lemma exchange_ready_offer:
  assumes "pg_code_hash g = h" "pg_consumed_at g = None" "now < pg_expires_at g"
    "grant_fresh g db" "material_fresh m db"
  shows "exchange_ready h now m g (offer g db)"
proof -
  have "by_key pg_code_hash h (pairing_grants db) = None"
    using assms(1,4) by (simp add: grant_fresh_def by_key_None)
  with assms show ?thesis
    unfolding exchange_ready_def offer_def material_fresh_def after_def
    by (simp add: find_append by_key_def)
qed

lemma ExchangePairingGrant_run:
  assumes "exchange_ready (H (trim_space code)) now (issued H conf now e) g db"
    "trim_space code \<noteq> []" "length (trim_space code) \<le> 512"
  shows "\<exists>p e1. ExchangePairingGrant H conf no_faults now code (e, db) =
     (Inr p, e1, exchanged g now (issued H conf now e) db) \<and>
     ac_scopes (tp_client p) = pg_scopes g \<and> ac_id (tp_client p) = cm_client_id (issued H conf now e) \<and>
     tp_access_token p = snd (snd (fst (newToken ''at'' e))) \<and>
     tp_refresh_token p = snd (snd (fst (newToken ''rt'' (snd (newToken ''at'' e)))))"
proof -
  note run = exchange_body_run [OF assms(1)]
  show ?thesis
    using assms(2,3) run unfolding ExchangePairingGrant_def issued_def Let_def split_beta prod.sel
    by (auto simp: db_ExchangePairingGrant_def run_tx_def tokenPair_def)
qed

lemma access_join_exchanged:
  assumes "exchange_ready h now m g db"
  shows "access_join (cm_access_token_id m) (exchanged g now m db) =
    Some (new_access g now m, new_session now m, new_client g now m)"
proof -
  from assms have "by_key at_id (cm_access_token_id m) (access_tokens db) = None"
    "by_key rs_id (cm_session_id m) (refresh_sessions db) = None"
    "by_key cl_id (cm_client_id m) (clients db) = None"
    by (simp_all add: exchange_ready_def by_key_None)
  then show ?thesis
    unfolding access_join_def exchanged_def consume_grant_def
    by (simp add: by_key_append new_access_def new_session_def new_client_def)
qed

lemma issued_access:
  assumes "newToken ''at'' e = ((i, s, t), e1)"
  shows "cm_access_token_id (issued H conf now e) = i" "cm_access_hash (issued H conf now e) = H s"
    "cm_access_expires (issued H conf now e) = now + AccessTTL conf"
  using assms by (simp_all add: issued_def split_beta)

lemma authenticate_issued:
  assumes "exchange_ready h now (issued H conf now e) g db" "t < pg_time (now + AccessTTL conf)"
  shows "fst (Authenticate H no_faults t (snd (snd (fst (newToken ''at'' e))))
      (exchanged g now (issued H conf now e) db)) =
    Inr \<lparr>pr_client_id = cm_client_id (issued H conf now e), pr_client_name = pg_name g,
      pr_session_id = cm_session_id (issued H conf now e), pr_scopes = pg_scopes g\<rparr>"
proof -
  obtain i s w e1 where tok: "newToken ''at'' e = ((i, s, w), e1)" by (metis prod_cases3 surj_pair)
  have "parseToken w ''at'' = Inr (i, s)" using newToken_parse [OF tok] by simp
  with access_join_exchanged [OF assms(1)] issued_access [OF tok, of H conf now] assms(2) tok
  show ?thesis
    unfolding Authenticate_Inr db_AuthenticateAccess_Inr
    by (simp add: new_access_def new_session_def new_client_def after_def)
qed

text \<open>
  The pairing flow works end to end: with fresh random identifiers, a code created for
  a valid name and scope list can be exchanged until the grant expires, and the access token of the
  pair then authenticates as the new client with exactly the granted scopes until the access TTL ends.
\<close>

theorem pairing_flow:
  assumes "trim_space name \<noteq> []" "length (trim_space name) \<le> 120" "normalizeScopes scopes = Inr ns"
    and "grant_fresh (offered H conf now name ns e) db" "material_fresh (issued H conf now' e') db"
    and "now' < pg_time (now + PairingTTL conf)" "t < pg_time (now' + AccessTTL conf)"
  shows "\<exists>link e1 db1 pair e2 db2.
    CreatePairingGrant H conf no_faults now name scopes (e, db) = (Inr link, e1, db1) \<and>
    ExchangePairingGrant H conf no_faults now' (pl_code link) (e', db1) = (Inr pair, e2, db2) \<and>
    fst (Authenticate H no_faults t (tp_access_token pair) db2) =
      Inr \<lparr>pr_client_id = ac_id (tp_client pair), pr_client_name = trim_space name,
           pr_session_id = cm_session_id (issued H conf now' e'), pr_scopes = ns\<rparr>"
proof -
  let ?g = "offered H conf now name ns e" and ?m = "issued H conf now' e'" and ?c = "fst (randomSecret 32 e)"
  note code = secret_code [of e ?c, simplified]
  have g: "pg_code_hash ?g = H ?c" "pg_consumed_at ?g = None" "pg_scopes ?g = ns"
    "pg_expires_at ?g = pg_time (now + PairingTTL conf)" "pg_name ?g = trim_space name"
    by (simp_all add: offered_def split_beta Let_def)
  have ready: "exchange_ready (H (trim_space ?c)) now' ?m ?g (offer ?g db)"
    using assms(4-6) g code by (intro exchange_ready_offer) simp_all
  from CreatePairingGrant_run [OF assms(1-4)] ExchangePairingGrant_run [OF ready]
    authenticate_issued [OF ready assms(7)] g code
  show ?thesis by fastforce
qed

subsection \<open>A concrete run\<close>

definition demo_conf :: auth_config where
  "demo_conf = NewService \<lparr>AccessTTL = 0, RefreshTTL = 0, PairingTTL = 0\<rparr>"

definition demo_grant :: grant_row where
  "demo_grant = offered id demo_conf 0 ''phone'' DefaultScopes zero_entropy"

definition demo_material :: credential_material where
  "demo_material = issued id demo_conf second zero_entropy"

definition demo_open :: auth_db where
  "demo_open = offer demo_grant empty_auth"

definition demo_paired :: auth_db where
  "demo_paired = exchanged demo_grant second demo_material demo_open"

definition demo_code :: string where
  "demo_code = fst (randomSecret 32 zero_entropy)"

lemma demo_name: "trim_space ''phone'' = ''phone''"
  by (rule trim_space_plain) (simp add: plain_ends_def)

lemma demo_scopes: "normalizeScopes [] = Inr DefaultScopes"
  using normalize_loop_order [of DefaultScopes "[]" "[]"] DefaultScopes_allowed DefaultScopes_distinct
  by (simp add: normalizeScopes_def allowed_scope_trim)

lemma demo_ttl: "AccessTTL demo_conf = 15 * minute" "PairingTTL demo_conf = 10 * minute"
  "RefreshTTL demo_conf = 30 * 24 * hour"
  by (simp_all add: demo_conf_def NewService_def Let_def)

lemma fresh_empty: "grant_fresh g empty_auth" "material_fresh m empty_auth"
  by (simp_all add: grant_fresh_def material_fresh_def empty_auth_def)

theorem pairing_flow_witness:
  "\<exists>link e1 db1 pair e2 db2.
    CreatePairingGrant id demo_conf no_faults 0 ''phone'' [] (zero_entropy, empty_auth) = (Inr link, e1, db1) \<and>
    ExchangePairingGrant id demo_conf no_faults second (pl_code link) (zero_entropy, db1) = (Inr pair, e2, db2) \<and>
    fst (Authenticate id no_faults minute (tp_access_token pair) db2) =
      Inr \<lparr>pr_client_id = ac_id (tp_client pair), pr_client_name = trim_space ''phone'',
           pr_session_id = cm_session_id (issued id demo_conf second zero_entropy), pr_scopes = DefaultScopes\<rparr>"
  by (rule pairing_flow [OF _ _ demo_scopes fresh_empty])
    (simp_all add: demo_name demo_ttl pg_time_def minute_def second_def microsecond_def
       millisecond_def nanosecond_def hour_def)

lemma demo_open_reachable: "auth_steps id demo_conf empty_auth demo_open"
proof -
  have "snd (snd (CreatePairingGrant id demo_conf no_faults 0 ''phone'' [] (zero_entropy, empty_auth))) = demo_open"
    using CreatePairingGrant_run [OF _ _ demo_scopes fresh_empty(1), of "''phone''" id demo_conf 0 zero_entropy]
    by (auto simp: demo_name demo_open_def demo_grant_def)
  then show ?thesis
    using auth_steps_step [OF auth_steps.none, of id demo_conf empty_auth no_faults 0 zero_entropy "CallCreate ''phone'' []"]
    by (simp add: auth_exec_def)
qed

lemma demo_ready: "exchange_ready demo_code second demo_material demo_grant demo_open"
  unfolding demo_open_def demo_material_def
  by (rule exchange_ready_offer [OF _ _ _ fresh_empty])
    (simp_all add: demo_grant_def demo_code_def offered_def split_beta Let_def demo_ttl pg_time_def duration_defs)

lemma demo_exchange:
  "\<exists>p e1. ExchangePairingGrant id demo_conf no_faults second demo_code (zero_entropy, demo_open) = (Inr p, e1, demo_paired)"
  using ExchangePairingGrant_run [of id demo_code second demo_conf zero_entropy demo_grant demo_open]
    demo_ready secret_code [of zero_entropy demo_code]
  by (auto simp: demo_code_def [symmetric] demo_material_def [symmetric] demo_paired_def)

lemma demo_paired_reachable: "auth_steps id demo_conf empty_auth demo_paired"
  using demo_exchange ExchangePairingGrant_step [OF demo_open_reachable] by blast

theorem auth_tables_invariant_witness: "wf_auth demo_paired"
  using demo_paired_reachable by (rule auth_tables_invariant)

theorem pairing_code_single_use_witness:
  "fst (ExchangePairingGrant id demo_conf no_faults (2 * second) demo_code (zero_entropy, demo_paired)) =
     Inl ErrConsumedGrant"
proof -
  obtain p e1 where a: "ExchangePairingGrant id demo_conf no_faults second demo_code (zero_entropy, demo_open) = (Inr p, e1, demo_paired)"
    using demo_exchange by blast
  obtain r e2 db3 where b: "ExchangePairingGrant id demo_conf no_faults (2 * second) demo_code (zero_entropy, demo_paired) = (r, e2, db3)"
    by (metis prod_cases3)
  from pairing_code_single_use [OF demo_open_reachable a auth_steps.none b] b show ?thesis by auto
qed

theorem exchange_all_or_nothing_witness:
  "\<exists>p. fst (ExchangePairingGrant id demo_conf no_faults second demo_code (zero_entropy, demo_open)) = Inr p"
proof -
  obtain r e1 db1 where a: "ExchangePairingGrant id demo_conf no_faults second demo_code (zero_entropy, demo_open) = (r, e1, db1)"
    by (metis prod_cases3)
  from exchange_all_or_nothing [OF a] demo_ready secret_code [of zero_entropy demo_code] a show ?thesis
    by (auto simp: demo_code_def [symmetric] demo_material_def [symmetric])
qed

theorem authenticate_sound_complete_witness:
  "fst (Authenticate id no_faults minute (snd (snd (fst (newToken ''at'' zero_entropy)))) demo_paired) =
     Inr \<lparr>pr_client_id = cm_client_id demo_material, pr_client_name = ''phone'',
       pr_session_id = cm_session_id demo_material, pr_scopes = DefaultScopes\<rparr> \<and>
   (\<exists>c \<in> set (clients demo_paired). cl_id c = cm_client_id demo_material \<and> cl_revoked_at c = None)"
proof -
  let ?p = "\<lparr>pr_client_id = cm_client_id demo_material, pr_client_name = ''phone'',
       pr_session_id = cm_session_id demo_material, pr_scopes = DefaultScopes\<rparr>"
  have g: "pg_name demo_grant = ''phone''" "pg_scopes demo_grant = DefaultScopes"
    by (simp_all add: demo_grant_def offered_def split_beta Let_def demo_name)
  have "minute < pg_time (second + AccessTTL demo_conf)" by (simp add: demo_ttl pg_time_def duration_defs)
  from authenticate_issued [OF demo_ready [unfolded demo_material_def] this]
  have a: "fst (Authenticate id no_faults minute (snd (snd (fst (newToken ''at'' zero_entropy)))) demo_paired) = Inr ?p"
    unfolding demo_material_def [symmetric] demo_paired_def [symmetric] g .
  with authenticate_sound_complete [OF demo_paired_reachable] show ?thesis by fastforce
qed

text \<open>The first rotation of the concrete run, drawn from another random source.\<close>

definition high_entropy :: entropy where
  "high_entropy = \<lparr>source = (\<lambda>_. 255), drawn = 0\<rparr>"

lemma randomSecret_snd: "snd (randomSecret n e) = e\<lparr>drawn := drawn e + n\<rparr>"
  by (simp add: randomSecret_def rand_read_def)

lemma randomSecret_hd:
  assumes "3 \<le> n"
  shows "\<exists>rest. fst (randomSecret n e) = b64_char (unat (source e (drawn e)) div 4) # rest"
proof -
  have "[0..<n] = 0 # 1 # 2 # [3..<n]" using assms by (simp add: upt_conv_Cons numeral_eq_Suc)
  then show ?thesis by (simp add: randomSecret_def rand_read_def)
qed

lemma live_session_exchanged:
  assumes "exchange_ready h now m g db" "t < pg_time (cm_refresh_expires m)"
  shows "live_session (cm_session_id m) t (new_session now m) (new_client g now m) (exchanged g now m db)"
proof -
  from assms have "by_key rs_id (cm_session_id m) (refresh_sessions db) = None"
    "by_key cl_id (cm_client_id m) (clients db) = None"
    by (simp_all add: exchange_ready_def by_key_None)
  with assms(2) show ?thesis
    unfolding live_session_def session_join_def exchanged_def consume_grant_def
    by (simp add: by_key_append new_session_def new_client_def after_def)
qed

definition demo_refresh :: "(string \<times> string \<times> string)" where
  "demo_refresh = fst (newToken ''rt'' (snd (newToken ''at'' zero_entropy)))"

definition demo_session :: string where
  "demo_session = cm_session_id demo_material"

definition demo_rotation :: rotated_material where
  "demo_rotation = reissued id demo_conf minute demo_session high_entropy"

definition demo_rotated :: auth_db where
  "demo_rotated = rotated demo_session (new_session second demo_material)
     (new_client demo_grant second demo_material) minute demo_rotation demo_paired"

lemma demo_refresh_parse:
  "parseToken (snd (snd demo_refresh)) ''rt'' = Inr (demo_session, cm_refresh_hash demo_material)"
proof -
  obtain i s w e1 where tok: "newToken ''rt'' (snd (newToken ''at'' zero_entropy)) = ((i, s, w), e1)"
    by (metis prod_cases3 surj_pair)
  then have "parseToken w ''rt'' = Inr (i, s)" by (rule newToken_parse) simp
  with tok show ?thesis
    by (simp add: demo_refresh_def demo_session_def demo_material_def issued_def split_beta Let_def)
qed

lemma demo_ids:
  "rm_access_token_id demo_rotation \<noteq> cm_access_token_id demo_material"
  "rm_refresh_hash demo_rotation \<noteq> cm_refresh_hash demo_material"
proof -
  note hd18 = randomSecret_hd [of 18] and hd32 = randomSecret_hd [of 32]
  obtain r1 where r1: "fst (randomSecret 18 high_entropy) = b64_char 63 # r1"
    using hd18 [of high_entropy] by (auto simp: high_entropy_def)
  obtain r2 where r2: "fst (randomSecret 18 zero_entropy) = b64_char 0 # r2"
    using hd18 [of zero_entropy] by (auto simp: zero_entropy_def)
  obtain r3 where r3: "fst (randomSecret 32 (high_entropy\<lparr>drawn := 50\<rparr>)) = b64_char 63 # r3"
    using hd32 [of "high_entropy\<lparr>drawn := 50\<rparr>"] by (auto simp: high_entropy_def)
  obtain r4 where r4: "fst (randomSecret 32 (zero_entropy\<lparr>drawn := 68\<rparr>)) = b64_char 17 # r4"
    using hd32 [of "zero_entropy\<lparr>drawn := 68\<rparr>"] by (auto simp: zero_entropy_def)
  have d: "drawn high_entropy = 0" "drawn zero_entropy = 0" by (simp_all add: high_entropy_def zero_entropy_def)
  have ch: "b64_char 63 = CHR ''_''" "b64_char 0 = CHR ''A''" "b64_char 17 = CHR ''R''" by code_simp+
  note unf = demo_rotation_def demo_material_def reissued_def issued_def newToken_def newTokenWithID_def
    randomID_def Let_def split_beta randomSecret_snd
  show "rm_access_token_id demo_rotation \<noteq> cm_access_token_id demo_material"
    by (simp add: unf r1 r2 ch)
  show "rm_refresh_hash demo_rotation \<noteq> cm_refresh_hash demo_material"
    by (simp add: unf d r3 r4 ch)
qed

lemma demo_rotate_ready:
  "rotate_ready demo_session (cm_refresh_hash demo_material) minute demo_rotation
     (new_session second demo_material) (new_client demo_grant second demo_material) demo_paired"
proof -
  have "minute < pg_time (cm_refresh_expires demo_material)"
    by (simp add: demo_material_def issued_def Let_def split_beta demo_ttl pg_time_def duration_defs)
  from live_session_exchanged [OF demo_ready this] demo_ids(1) show ?thesis
    unfolding rotate_ready_def demo_session_def demo_paired_def
    by (simp add: exchanged_def consume_grant_def demo_open_def offer_def empty_auth_def new_access_def new_session_def)
qed

lemma demo_Refresh:
  "\<exists>p e1. Refresh id demo_conf no_faults minute (snd (snd demo_refresh)) (high_entropy, demo_paired) =
     (Inr p, e1, demo_rotated)"
proof -
  obtain r e1 db1 where a: "Refresh id demo_conf no_faults minute (snd (snd demo_refresh)) (high_entropy, demo_paired) = (r, e1, db1)"
    by (metis prod_cases3)
  from Refresh_method [OF a demo_refresh_parse] rotate_body_run [OF demo_rotate_ready]
  show ?thesis unfolding a
    by (cases r) (auto simp: db_RotateRefresh_def run_tx_def demo_rotation_def [symmetric] demo_rotated_def)
qed

lemma demo_rotated_reachable: "auth_steps id demo_conf empty_auth demo_rotated"
  using demo_Refresh Refresh_step [OF demo_paired_reachable] by blast

theorem refresh_token_single_use_witness:
  "\<exists>err. fst (Refresh id demo_conf no_faults hour (snd (snd demo_refresh)) (high_entropy, demo_rotated)) = Inl err"
proof -
  obtain p e1 where "Refresh id demo_conf no_faults minute (snd (snd demo_refresh)) (high_entropy, demo_paired) = (Inr p, e1, demo_rotated)"
    using demo_Refresh by blast
  from refresh_token_single_use [OF demo_paired_reachable this auth_steps.none] show ?thesis .
qed

definition demo_rotated_row :: session_row where
  "demo_rotated_row = (new_session second demo_material)
     \<lparr>rs_token_hash := rm_refresh_hash demo_rotation, rs_rotated_at := Some (pg_time minute)\<rparr>"

definition demo_seen_row :: client_row where
  "demo_seen_row = (new_client demo_grant second demo_material)\<lparr>cl_last_seen_at := Some (pg_time minute)\<rparr>"

lemma demo_live: "live_session demo_session hour demo_rotated_row demo_seen_row demo_rotated"
proof -
  have "hour < pg_time (cm_refresh_expires demo_material)"
    by (simp add: demo_material_def issued_def Let_def split_beta demo_ttl pg_time_def duration_defs)
  then show ?thesis
    unfolding live_session_def session_join_def demo_rotated_def rotated_def seen_client_def rotate_session_def
      demo_rotated_row_def demo_seen_row_def demo_session_def demo_paired_def exchanged_def consume_grant_def
      demo_open_def offer_def empty_auth_def
    by (simp add: sql_update_def new_session_def new_client_def after_def)
qed

theorem refresh_replay_revokes_witness:
  "\<exists>e1 db1. Refresh id demo_conf no_faults hour (snd (snd demo_refresh)) (zero_entropy, demo_rotated) =
      (Inl ErrRefreshReplay, e1, db1) \<and>
    (\<forall>t bearer p. fst (Authenticate id no_faults t bearer db1) = Inr p \<longrightarrow> pr_session_id p \<noteq> demo_session)"
proof -
  have u: "was_used (id (cm_refresh_hash demo_material)) demo_session demo_rotated"
    using rotated_used [OF demo_rotate_ready] by (simp add: demo_rotated_def)
  have h: "rs_token_hash demo_rotated_row \<noteq> id (cm_refresh_hash demo_material)"
    using demo_ids(2) by (simp add: demo_rotated_row_def)
  from refresh_replay_revokes [OF demo_rotated_reachable demo_refresh_parse demo_live u h, where e = zero_entropy]
  show ?thesis using auth_steps.none [of id demo_conf] by blast
qed

lemma demo_revoke:
  "\<exists>db1. RevokeClient no_faults minute (cm_client_id demo_material) reason demo_paired = (Inr (), db1)"
proof -
  let ?cid = "cm_client_id demo_material"
  obtain e where cid: "?cid = ''client_'' @ fst (randomSecret 18 e)"
    by (auto simp: demo_material_def issued_def Let_def split_beta randomID_def)
  have "fst (randomSecret 18 e) \<noteq> []" using randomSecret_hd [of 18 e] by auto
  then have "plain_ends ?cid"
    unfolding cid plain_ends_def using secret_graphic(1) [of 18 e] by auto
  then have "trim_space ?cid \<noteq> []" using cid by (simp add: trim_space_plain)
  moreover have "affected (\<lambda>c. cl_id c = ?cid) (clients demo_paired) \<noteq> 0"
    by (simp add: demo_paired_def exchanged_def consume_grant_def demo_open_def offer_def empty_auth_def
        affected_def new_client_def)
  ultimately show ?thesis
    by (simp add: RevokeClient_def db_RevokeClient_def run_tx_def tx_bind_def)
qed

theorem revoke_client_final_witness:
  "\<exists>db1. RevokeClient no_faults minute (cm_client_id demo_material) ''lost'' demo_paired = (Inr (), db1) \<and>
    (\<forall>t bearer p. fst (Authenticate id no_faults t bearer db1) = Inr p \<longrightarrow>
       pr_client_id p \<noteq> cm_client_id demo_material)"
proof -
  obtain db1 where a: "RevokeClient no_faults minute (cm_client_id demo_material) ''lost'' demo_paired = (Inr (), db1)"
    using demo_revoke by blast
  from revoke_client_final [OF demo_paired_reachable a auth_steps.none] a show ?thesis by blast
qed

end
