(* ===== verification/Http_Core.thy ===== *)
theory Http_Core
  imports Go_Json
begin

section \<open>The Go library: HTTP requests and responses\<close>

text \<open>
  What the handlers see of a request and what they leave in a response. A request has its method,
  its URL path and parsed query, its headers and cookies, and its body: the tree of the first JSON
  value of the body, if there is one, and the number of bytes up to its end, which is what
  \<open>http.MaxBytesReader\<close> limits a decoder to. A response has the status, the headers in the order
  they are set, the cookies, and the JSON value written, if any.
\<close>

record http_request =
  rq_method :: string
  rq_path :: string
  rq_query :: "(string \<times> string) list"
  rq_headers :: "(string \<times> string) list"
  rq_cookies :: "(string \<times> string) list"
  rq_body :: "json option"
  rq_body_end :: nat

text \<open>\<open>Header.Get\<close> and \<open>Query().Get\<close>: the first value, or the empty string.\<close>

definition get_first :: "(string \<times> string) list \<Rightarrow> string \<Rightarrow> string" where
  "get_first kvs k = (case map_of kvs k of Some v \<Rightarrow> v | None \<Rightarrow> [])"

definition header :: "http_request \<Rightarrow> string \<Rightarrow> string" where
  "header r name = get_first (rq_headers r) name"

definition query :: "http_request \<Rightarrow> string \<Rightarrow> string" where
  "query r name = get_first (rq_query r) name"

definition cookie :: "http_request \<Rightarrow> string \<Rightarrow> string option" where
  "cookie r name = map_of (rq_cookies r) name"

record set_cookie =
  ck_name :: string
  ck_value :: string
  ck_path :: string
  ck_expires :: time
  ck_max_age :: int
  ck_http_only :: bool
  ck_secure :: bool
  ck_same_site_strict :: bool

text \<open>
  \<open>http.SetCookie\<close>: a cookie whose name is not a token of HTTP is dropped without an error.
\<close>

definition token_byte :: "char \<Rightarrow> bool" where
  "token_byte c \<longleftrightarrow>
     (let n = (of_char c :: nat) in
      n \<in> set [0x21, 0x2A, 0x2B, 0x2D, 0x2E, 0x7C, 0x7E] \<or> 0x23 \<le> n \<and> n \<le> 0x27 \<or> 0x30 \<le> n \<and> n \<le> 0x39
      \<or> 0x41 \<le> n \<and> n \<le> 0x5A \<or> 0x5E \<le> n \<and> n \<le> 0x7A)"

definition cookie_name_ok :: "string \<Rightarrow> bool" where
  "cookie_name_ok name \<longleftrightarrow> name \<noteq> [] \<and> list_all token_byte name"

record http_response =
  re_status :: nat
  re_headers :: "(string \<times> string) list"
  re_cookies :: "set_cookie list"
  re_body :: "json option"

definition SetCookie :: "set_cookie \<Rightarrow> http_response \<Rightarrow> http_response" where
  "SetCookie c resp = (if cookie_name_ok (ck_name c) then resp\<lparr>re_cookies := re_cookies resp @ [c]\<rparr> else resp)"

text \<open>A handler that returns without writing: the server sends 200 with an empty body.\<close>

definition no_response :: http_response where
  "no_response = \<lparr>re_status = 200, re_headers = [], re_cookies = [], re_body = None\<rparr>"

definition json_headers :: "(string \<times> string) list" where
  "json_headers = [(''Content-Type'', ''application/json; charset=utf-8''), (''Cache-Control'', ''no-store'')]"

definition respond_json :: "nat \<Rightarrow> json \<Rightarrow> http_response" where
  "respond_json status j = \<lparr>re_status = status, re_headers = json_headers, re_cookies = [], re_body = Some j\<rparr>"

definition respond_empty :: "nat \<Rightarrow> http_response" where
  "respond_empty status = \<lparr>re_status = status, re_headers = [], re_cookies = [], re_body = None\<rparr>"

definition schema_meta :: json where
  "schema_meta = JObj [(''schema_version'', JNum 1)]"

definition data_envelope :: "json \<Rightarrow> json" where
  "data_envelope d = JObj [(''data'', d), (''meta'', schema_meta), (''success'', JBool True)]"

definition error_envelope :: "string \<Rightarrow> bool \<Rightarrow> json" where
  "error_envelope code retryable =
     JObj [(''error'', JObj [(''code'', JStr code), (''message'', JStr code), (''retryable'', JBool retryable)]),
           (''meta'', schema_meta), (''success'', JBool False)]"

text \<open>A decoder limited to \<open>64*1024\<close> bytes that refuses unknown fields.\<close>

definition limited_decode :: "(string \<times> 'a decoder) list \<Rightarrow> 'a \<Rightarrow> http_request \<Rightarrow> 'a option" where
  "limited_decode schema zero r =
     (if 64 * 1024 < rq_body_end r then None
      else case rq_body r of None \<Rightarrow> None | Some j \<Rightarrow> decoded (dec_struct True schema j zero))"

text \<open>Every string that occurs as a value anywhere in a tree.\<close>

fun json_strings :: "json \<Rightarrow> string list" where
  "json_strings (JStr s) = [s]"
| "json_strings (JArr js) = concat (map json_strings js)"
| "json_strings (JObj ms) = concat (map (\<lambda>(k, j). json_strings j) ms)"
| "json_strings _ = []"

end
