(* ===== verification/Auth_Http.thy ===== *)
theory Auth_Http
  imports Auth_Properties Http_Core
begin

section \<open>Auth: the HTTP surface\<close>

text \<open>
  \<^verbatim>\<open>internal/auth/http.go\<close>, \<^verbatim>\<open>internal/auth/middleware.go\<close> and \<^verbatim>\<open>internal/auth/module.go\<close>: the public
  pairing, refresh and logout endpoints for browsers (refresh token in an HttpOnly cookie) and for
  native clients (refresh token in the body), the loopback control API, and the bearer-token
  middleware in front of the Runtime API. A handler takes the service's parameters, the request and
  the state \<open>(entropy, db)\<close>, and returns the response and the new state.
\<close>

subsection \<open>The wire form of the service's values\<close>

definition scopes_json :: "string list \<Rightarrow> json" where
  "scopes_json ss = JArr (map JStr ss)"

definition client_json :: "auth_client \<Rightarrow> json" where
  "client_json c = JObj
     (member ''client_id'' (JStr (ac_id c)) @ member ''name'' (JStr (ac_name c))
      @ member ''scopes'' (scopes_json (ac_scopes c)) @ member ''created_at'' (time_json (ac_created_at c))
      @ omit_if (ac_last_seen_at c = None) ''last_seen_at'' (opt_json time_json (ac_last_seen_at c))
      @ omit_if (ac_revoked_at c = None) ''revoked_at'' (opt_json time_json (ac_revoked_at c)))"

text \<open>\<open>TokenPair\<close> hides its refresh token from JSON, \<open>nativeTokenPair\<close> does not.\<close>

definition pair_json :: "token_pair \<Rightarrow> json" where
  "pair_json p = JObj
     [(''access_token'', JStr (tp_access_token p)), (''token_type'', JStr (tp_token_type p)),
      (''expires_in'', JNum (tp_expires_in p)), (''access_expires_at'', time_json (tp_access_expires_at p)),
      (''client'', client_json (tp_client p))]"

definition native_pair_json :: "token_pair \<Rightarrow> json" where
  "native_pair_json p = JObj
     [(''access_token'', JStr (tp_access_token p)), (''token_type'', JStr (tp_token_type p)),
      (''expires_in'', JNum (tp_expires_in p)), (''access_expires_at'', time_json (tp_access_expires_at p)),
      (''refresh_token'', JStr (tp_refresh_token p)), (''refresh_expires_at'', time_json (tp_refresh_expires p)),
      (''client'', client_json (tp_client p))]"

definition principal_json :: "principal \<Rightarrow> json" where
  "principal_json p = JObj
     [(''client_id'', JStr (pr_client_id p)), (''client_name'', JStr (pr_client_name p)),
      (''scopes'', scopes_json (pr_scopes p))]"

definition link_json :: "pairing_link \<Rightarrow> json" where
  "link_json l = JObj [(''code'', JStr (pl_code l)), (''expires_at'', time_json (pl_expires_at l))]"

subsection \<open>Writing responses\<close>

definition writeData :: "nat \<Rightarrow> json \<Rightarrow> http_response" where
  "writeData status value = respond_json status (data_envelope value)"

definition writeAuthError :: "nat \<Rightarrow> string \<Rightarrow> http_response" where
  "writeAuthError status code = respond_json status (error_envelope code False)"

definition writeServiceError :: "auth_error \<Rightarrow> http_response" where
  "writeServiceError err =
     (case err of
        ErrExpiredCredential \<Rightarrow> writeAuthError 401 ''AUTH_CREDENTIAL_EXPIRED''
      | ErrConsumedGrant \<Rightarrow> writeAuthError 409 ''AUTH_PAIRING_ALREADY_USED''
      | ErrRefreshReplay \<Rightarrow> writeAuthError 401 ''AUTH_REFRESH_REPLAY''
      | ErrInvalidCredential \<Rightarrow> writeAuthError 401 ''AUTH_INVALID_CREDENTIAL''
      | ErrRevoked \<Rightarrow> writeAuthError 401 ''AUTH_SESSION_REVOKED''
      | ErrNotFound \<Rightarrow> writeAuthError 404 ''AUTH_CLIENT_NOT_FOUND''
      | _ \<Rightarrow> writeAuthError 500 ''AUTH_INTERNAL_ERROR'')"

definition credentialErrorCode :: "auth_error \<Rightarrow> string" where
  "credentialErrorCode err =
     (case err of
        ErrExpiredCredential \<Rightarrow> ''AUTH_ACCESS_EXPIRED''
      | ErrRevoked \<Rightarrow> ''AUTH_SESSION_REVOKED''
      | _ \<Rightarrow> ''AUTH_INVALID_CREDENTIAL'')"

definition CSRFHeader :: string where
  "CSRFHeader = ''X-CodexRemote-Request''"

definition checkBrowserRequest :: "http_request \<Rightarrow> http_response option" where
  "checkBrowserRequest r =
     (if header r CSRFHeader \<noteq> ''1'' then Some (writeAuthError 403 ''AUTH_BROWSER_HEADER_REQUIRED'') else None)"

definition decodeRequest :: "(string \<times> 'a decoder) list \<Rightarrow> 'a \<Rightarrow> http_request \<Rightarrow> http_response + 'a" where
  "decodeRequest schema zero r =
     (if \<not> has_prefix (header r ''Content-Type'') ''application/json''
      then Inl (writeAuthError 415 ''JSON_CONTENT_TYPE_REQUIRED'')
      else case limited_decode schema zero r of
        None \<Rightarrow> Inl (writeAuthError 400 ''INVALID_JSON'')
      | Some v \<Rightarrow> Inr v)"

subsection \<open>The public API\<close>

record http_config =
  CookieName :: string
  CookieSecure :: bool

definition NewPublicAPI :: "http_config \<Rightarrow> http_config" where
  "NewPublicAPI hc =
     (if trim_space (CookieName hc) = [] then hc\<lparr>CookieName := ''codexremote_refresh''\<rparr> else hc)"

definition setRefreshCookie :: "http_config \<Rightarrow> time \<Rightarrow> string \<Rightarrow> time \<Rightarrow> http_response \<Rightarrow> http_response" where
  "setRefreshCookie hc clock value expires =
     SetCookie \<lparr>ck_name = CookieName hc, ck_value = value, ck_path = ''/v1/auth'', ck_expires = expires,
       ck_max_age = whole_seconds (expires - clock), ck_http_only = True,
       ck_secure = CookieSecure hc, ck_same_site_strict = True\<rparr>"

text \<open>\<open>time.Unix(1, 0)\<close>: one second after 1970 began.\<close>

definition clearRefreshCookie :: "http_config \<Rightarrow> http_response \<Rightarrow> http_response" where
  "clearRefreshCookie hc =
     SetCookie \<lparr>ck_name = CookieName hc, ck_value = [], ck_path = ''/v1/auth'', ck_expires = (62135596800 + 1) * second, ck_max_age = -1,
       ck_http_only = True, ck_secure = CookieSecure hc, ck_same_site_strict = True\<rparr>"

definition code_schema :: "(string \<times> string decoder) list" where
  "code_schema = [(''code'', dec_str (\<lambda>s _. s))]"

definition refresh_schema :: "(string \<times> string decoder) list" where
  "refresh_schema = [(''refresh_token'', dec_str (\<lambda>s _. s))]"

type_synonym auth_state = "entropy \<times> auth_db"

definition exchange :: "(string \<Rightarrow> string) \<Rightarrow> auth_config \<Rightarrow> http_config \<Rightarrow> faults \<Rightarrow> time \<Rightarrow> time \<Rightarrow>
    http_request \<Rightarrow> auth_state \<Rightarrow> http_response \<times> auth_state" where
  "exchange H conf hc flt now clock r st =
     (case checkBrowserRequest r of
        Some resp \<Rightarrow> (resp, st)
      | None \<Rightarrow>
          (case decodeRequest code_schema [] r of
             Inl resp \<Rightarrow> (resp, st)
           | Inr code \<Rightarrow>
               (case ExchangePairingGrant H conf flt now code st of
                  (Inl err, st') \<Rightarrow> (writeServiceError err, st')
                | (Inr pair, st') \<Rightarrow>
                    (setRefreshCookie hc clock (tp_refresh_token pair) (tp_refresh_expires pair)
                       (writeData 200 (pair_json pair)), st'))))"

definition nativeExchange :: "(string \<Rightarrow> string) \<Rightarrow> auth_config \<Rightarrow> faults \<Rightarrow> time \<Rightarrow>
    http_request \<Rightarrow> auth_state \<Rightarrow> http_response \<times> auth_state" where
  "nativeExchange H conf flt now r st =
     (case checkBrowserRequest r of
        Some resp \<Rightarrow> (resp, st)
      | None \<Rightarrow>
          (case decodeRequest code_schema [] r of
             Inl resp \<Rightarrow> (resp, st)
           | Inr code \<Rightarrow>
               (case ExchangePairingGrant H conf flt now code st of
                  (Inl err, st') \<Rightarrow> (writeServiceError err, st')
                | (Inr pair, st') \<Rightarrow> (writeData 200 (native_pair_json pair), st'))))"

definition refresh :: "(string \<Rightarrow> string) \<Rightarrow> auth_config \<Rightarrow> http_config \<Rightarrow> faults \<Rightarrow> time \<Rightarrow> time \<Rightarrow>
    http_request \<Rightarrow> auth_state \<Rightarrow> http_response \<times> auth_state" where
  "refresh H conf hc flt now clock r st =
     (case checkBrowserRequest r of
        Some resp \<Rightarrow> (resp, st)
      | None \<Rightarrow>
          (case cookie r (CookieName hc) of
             None \<Rightarrow> (writeAuthError 401 ''AUTH_REFRESH_REQUIRED'', st)
           | Some token \<Rightarrow>
               (case Refresh H conf flt now token st of
                  (Inl err, st') \<Rightarrow> (clearRefreshCookie hc (writeServiceError err), st')
                | (Inr pair, st') \<Rightarrow>
                    (setRefreshCookie hc clock (tp_refresh_token pair) (tp_refresh_expires pair)
                       (writeData 200 (pair_json pair)), st'))))"

definition nativeRefresh :: "(string \<Rightarrow> string) \<Rightarrow> auth_config \<Rightarrow> faults \<Rightarrow> time \<Rightarrow>
    http_request \<Rightarrow> auth_state \<Rightarrow> http_response \<times> auth_state" where
  "nativeRefresh H conf flt now r st =
     (case checkBrowserRequest r of
        Some resp \<Rightarrow> (resp, st)
      | None \<Rightarrow>
          (case decodeRequest refresh_schema [] r of
             Inl resp \<Rightarrow> (resp, st)
           | Inr token \<Rightarrow>
               (case Refresh H conf flt now token st of
                  (Inl err, st') \<Rightarrow> (writeServiceError err, st')
                | (Inr pair, st') \<Rightarrow> (writeData 200 (native_pair_json pair), st'))))"

text \<open>Logging out an unknown or already revoked session succeeds.\<close>

definition revoke_reported :: "auth_error \<Rightarrow> bool" where
  "revoke_reported err \<longleftrightarrow> err \<noteq> ErrInvalidCredential \<and> err \<noteq> ErrRevoked"

definition revoke :: "(string \<Rightarrow> string) \<Rightarrow> http_config \<Rightarrow> faults \<Rightarrow> time \<Rightarrow>
    http_request \<Rightarrow> auth_state \<Rightarrow> http_response \<times> auth_state" where
  "revoke H hc flt now r st =
     (case checkBrowserRequest r of
        Some resp \<Rightarrow> (resp, st)
      | None \<Rightarrow>
          (case cookie r (CookieName hc) of
             None \<Rightarrow> (clearRefreshCookie hc (respond_empty 204), st)
           | Some token \<Rightarrow>
               (let (e, db) = st; (res, db') = RevokeSession H flt now token ''client_logout'' db in
                case res of
                  Inl err \<Rightarrow>
                    if revoke_reported err then (writeServiceError err, e, db')
                    else (clearRefreshCookie hc (respond_empty 204), e, db')
                | Inr _ \<Rightarrow> (clearRefreshCookie hc (respond_empty 204), e, db'))))"

definition nativeRevoke :: "(string \<Rightarrow> string) \<Rightarrow> faults \<Rightarrow> time \<Rightarrow>
    http_request \<Rightarrow> auth_state \<Rightarrow> http_response \<times> auth_state" where
  "nativeRevoke H flt now r st =
     (case checkBrowserRequest r of
        Some resp \<Rightarrow> (resp, st)
      | None \<Rightarrow>
          (case decodeRequest refresh_schema [] r of
             Inl resp \<Rightarrow> (resp, st)
           | Inr token \<Rightarrow>
               (let (e, db) = st; (res, db') = RevokeSession H flt now token ''client_logout'' db in
                case res of
                  Inl err \<Rightarrow> if revoke_reported err then (writeServiceError err, e, db') else (respond_empty 204, e, db')
                | Inr _ \<Rightarrow> (respond_empty 204, e, db'))))"

definition me :: "(string \<Rightarrow> string) \<Rightarrow> faults \<Rightarrow> time \<Rightarrow> http_request \<Rightarrow> auth_state \<Rightarrow> http_response \<times> auth_state" where
  "me H flt now r st =
     (let (e, db) = st; (res, db') = Authenticate H flt now (bearerToken (header r ''Authorization'')) db in
      case res of
        Inl err \<Rightarrow> (writeServiceError err, e, db')
      | Inr p \<Rightarrow> (writeData 200 (principal_json p), e, db'))"

subsection \<open>Routes of the public API\<close>

datatype public_route =
    RExchange | RRefresh | RRevoke | RNativeExchange | RNativeRefresh | RNativeRevoke | RMe

definition Register :: "(string \<times> string \<times> public_route) list" where
  "Register =
     [(''POST'', ''/v1/auth/pairing-grants:exchange'', RExchange),
      (''POST'', ''/v1/auth/tokens:refresh'', RRefresh),
      (''POST'', ''/v1/auth/sessions/current:revoke'', RRevoke),
      (''POST'', ''/v1/auth/native/pairing-grants:exchange'', RNativeExchange),
      (''POST'', ''/v1/auth/native/tokens:refresh'', RNativeRefresh),
      (''POST'', ''/v1/auth/native/sessions/current:revoke'', RNativeRevoke),
      (''GET'', ''/v1/auth/me'', RMe)]"

text \<open>\<open>ServeMux\<close>: a \<open>GET\<close> pattern also takes \<open>HEAD\<close>; another method on a known path is 405.\<close>

definition method_matches :: "string \<Rightarrow> string \<Rightarrow> bool" where
  "method_matches pattern m \<longleftrightarrow> m = pattern \<or> (pattern = ''GET'' \<and> m = ''HEAD'')"

definition route_public :: "http_request \<Rightarrow> public_route option" where
  "route_public r =
     map_option (\<lambda>(_, _, h). h)
       (find (\<lambda>(m, path, _). method_matches m (rq_method r) \<and> path = rq_path r) Register)"

definition serve_public :: "(string \<Rightarrow> string) \<Rightarrow> auth_config \<Rightarrow> http_config \<Rightarrow> faults \<Rightarrow> time \<Rightarrow> time \<Rightarrow>
    http_request \<Rightarrow> auth_state \<Rightarrow> http_response \<times> auth_state" where
  "serve_public H conf hc flt now clock r st =
     (case route_public r of
        Some RExchange \<Rightarrow> exchange H conf hc flt now clock r st
      | Some RRefresh \<Rightarrow> refresh H conf hc flt now clock r st
      | Some RRevoke \<Rightarrow> revoke H hc flt now r st
      | Some RNativeExchange \<Rightarrow> nativeExchange H conf flt now r st
      | Some RNativeRefresh \<Rightarrow> nativeRefresh H conf flt now r st
      | Some RNativeRevoke \<Rightarrow> nativeRevoke H flt now r st
      | Some RMe \<Rightarrow> me H flt now r st
      | None \<Rightarrow>
          (respond_empty (if list_ex (\<lambda>(_, path, _). path = rq_path r) Register then 405 else 404), st))"

subsection \<open>The control API\<close>

definition grant_schema :: "(string \<times> (string \<times> string list) decoder) list" where
  "grant_schema =
     [(''name'', dec_str (\<lambda>s (_, scopes). (s, scopes))),
      (''scopes'', dec_arr (\<lambda>scopes (s, _). (s, scopes)) [] elem_str)]"

definition createGrant :: "(string \<Rightarrow> string) \<Rightarrow> auth_config \<Rightarrow> faults \<Rightarrow> time \<Rightarrow>
    http_request \<Rightarrow> auth_state \<Rightarrow> http_response \<times> auth_state" where
  "createGrant H conf flt now r st =
     (case decodeRequest grant_schema ([], []) r of
        Inl resp \<Rightarrow> (resp, st)
      | Inr (name, scopes) \<Rightarrow>
          (case CreatePairingGrant H conf flt now name scopes st of
             (Inl err, st') \<Rightarrow> (writeServiceError err, st')
           | (Inr grant, st') \<Rightarrow> (writeData 201 (link_json grant), st')))"

definition clients_handler :: "faults \<Rightarrow> http_request \<Rightarrow> auth_state \<Rightarrow> http_response \<times> auth_state" where
  "clients_handler flt r st =
     (case ListClients flt (snd st) of
        Inl err \<Rightarrow> (writeServiceError err, st)
      | Inr cs \<Rightarrow> (writeData 200 (JObj [(''items'', JArr (map client_json cs))]), st))"

definition revokeClient :: "faults \<Rightarrow> time \<Rightarrow> string \<Rightarrow> auth_state \<Rightarrow> http_response \<times> auth_state" where
  "revokeClient flt now client_id st =
     (let (e, db) = st; (res, db') = RevokeClient flt now client_id ''control_revoke'' db in
      case res of
        Inl err \<Rightarrow> (writeServiceError err, e, db')
      | Inr _ \<Rightarrow> (respond_empty 204, e, db'))"

text \<open>Headers set before the handler runs; a handler that sets the same header replaces them.\<close>

definition with_headers :: "(string \<times> string) list \<Rightarrow> http_response \<Rightarrow> http_response" where
  "with_headers hs resp =
     resp\<lparr>re_headers := filter (\<lambda>(k, _). k \<notin> fst ` set (re_headers resp)) hs @ re_headers resp\<rparr>"

text \<open>The mux of the control API; its redirect of a path that is not canonical is not modelled.\<close>

definition control_Handler :: "(string \<Rightarrow> string) \<Rightarrow> auth_config \<Rightarrow> faults \<Rightarrow> time \<Rightarrow>
    http_request \<Rightarrow> auth_state \<Rightarrow> http_response \<times> auth_state" where
  "control_Handler H conf flt now r st =
     (let segs = split_on (CHR ''/'') (rq_path r); m = rq_method r;
          (resp, st') =
            (if segs = [[], ''v1'', ''auth-control'', ''pairing-grants''] then
               (if method_matches ''POST'' m then createGrant H conf flt now r st else (respond_empty 405, st))
             else if segs = [[], ''v1'', ''auth-control'', ''clients''] then
               (if method_matches ''GET'' m then clients_handler flt r st else (respond_empty 405, st))
             else case segs of
               [s0, s1, s2, s3, cid, s5] \<Rightarrow>
                 (if [s0, s1, s2, s3, s5] = [[], ''v1'', ''auth-control'', ''clients'', ''revoke''] \<and> cid \<noteq> [] then
                    (if method_matches ''POST'' m then revokeClient flt now cid st else (respond_empty 405, st))
                  else (respond_empty 404, st))
             | _ \<Rightarrow> (respond_empty 404, st)) in
      (with_headers [(''X-Content-Type-Options'', ''nosniff''), (''Cache-Control'', ''no-store'')] resp, st'))"

subsection \<open>The middleware\<close>

text \<open>
  \<open>next\<close> runs on its own state \<open>'s\<close> and receives the principal that the request's context carries.
\<close>

definition Middleware ::
    "(string \<Rightarrow> string) \<Rightarrow> faults \<Rightarrow> time \<Rightarrow> (http_request \<Rightarrow> string) \<Rightarrow>
     (principal \<Rightarrow> http_request \<Rightarrow> 's \<Rightarrow> http_response \<times> 's) \<Rightarrow>
     http_request \<Rightarrow> auth_db \<times> 's \<Rightarrow> http_response \<times> auth_db \<times> 's" where
  "Middleware H flt now requiredScope next_handler r st =
     (let (db, s) = st; token = bearerToken (header r ''Authorization'') in
      case Authenticate H flt now token db of
        (Inl err, db') \<Rightarrow>
          (with_headers [(''WWW-Authenticate'', ''Bearer realm=\"codex-remote\"'')]
             (writeAuthError 401 (credentialErrorCode err)), db', s)
      | (Inr p, db') \<Rightarrow>
          if \<not> HasScope p (requiredScope r) then (writeAuthError 403 ''AUTH_SCOPE_REQUIRED'', db', s)
          else (let (resp, s') = next_handler p r s in (resp, db', s')))"

lemmas write_defs = writeData_def writeAuthError_def writeServiceError_def respond_json_def respond_empty_def

subsection \<open>Properties\<close>

text \<open>
  The handler behind the middleware runs exactly when the bearer token authenticates
  and its principal holds the scope the request needs; otherwise the answer is 401 or 403 and the
  handler's state is untouched.
\<close>

theorem middleware_guards:
  assumes "Middleware H flt now required nxt r (db, s) = (resp, db', s')"
  defines "auth \<equiv> fst (Authenticate H flt now (bearerToken (header r ''Authorization'')) db)"
  shows "(\<exists>p. auth = Inr p \<and> required r \<in> set (pr_scopes p) \<and> nxt p r s = (resp, s')) \<or>
    (\<exists>p. auth = Inr p \<and> required r \<notin> set (pr_scopes p) \<and> re_status resp = 403 \<and> s' = s) \<or>
    (\<exists>err. auth = Inl err \<and> re_status resp = 401 \<and> s' = s)"
  using assms unfolding Middleware_def
  by (auto simp: HasScope_def with_headers_def write_defs split: sum.splits prod.splits if_splits)

text \<open>
  Once a client is revoked, the middleware never serves it again: in every state
  reached afterwards the outcome of any request is independent of what the protected handler would
  do for that client.
\<close>

theorem revoked_client_locked_out:
  assumes "auth_steps H conf empty_auth db"
    and "RevokeClient flt now cid reason db = (Inr (), db1)"
    and "auth_steps H conf db1 db2"
    and "\<forall>p. pr_client_id p \<noteq> cid \<longrightarrow> nxt p = nxt' p"
  shows "Middleware H flt' t required nxt r (db2, s) = Middleware H flt' t required nxt' r (db2, s)"
proof -
  let ?a = "Authenticate H flt' t (bearerToken (header r ''Authorization'')) db2"
  have "nxt p = nxt' p" if "fst ?a = Inr p" for p
    using that revoked_client_authenticates [OF assms(1-3)] assms(4) by blast
  then show ?thesis
    unfolding Middleware_def Let_def by (cases ?a; cases "fst ?a") auto
qed

lemma error_status:
  "re_status (writeServiceError err) \<noteq> 200" "re_status (clearRefreshCookie hc resp) = re_status resp"
  "re_body (clearRefreshCookie hc resp) = re_body resp"
  by (simp_all add: write_defs clearRefreshCookie_def SetCookie_def split: auth_error.splits)

text \<open>
  What a browser may get. A served request: status 200, the access token and the client in a body that is spelled out
  here, and the refresh token in the one cookie. Any other: a body that is an error code, and no cookie but
  the one that clears the token.
\<close>

definition browser_reply :: "http_config \<Rightarrow> time \<Rightarrow> token_pair option \<Rightarrow> http_response \<Rightarrow> bool" where
  "browser_reply hc clock served resp \<longleftrightarrow>
     (case served of
        Some pair \<Rightarrow>
          re_status resp = 200
          \<and> re_body resp = Some (JObj [(''data'', JObj
              [(''access_token'', JStr (tp_access_token pair)), (''token_type'', JStr ''Bearer''),
               (''expires_in'', JNum (tp_expires_in pair)), (''access_expires_at'', time_json (tp_access_expires_at pair)),
               (''client'', client_json (tp_client pair))]),
              (''meta'', JObj [(''schema_version'', JNum 1)]), (''success'', JBool True)])
          \<and> tp_refresh_token pair \<noteq> tp_access_token pair
          \<and> re_cookies resp = (if cookie_name_ok (CookieName hc) then
              [\<lparr>ck_name = CookieName hc, ck_value = tp_refresh_token pair, ck_path = ''/v1/auth'', ck_expires = tp_refresh_expires pair,
                ck_max_age = whole_seconds (tp_refresh_expires pair - clock), ck_http_only = True, ck_secure = CookieSecure hc,
                ck_same_site_strict = True\<rparr>] else [])
      | None \<Rightarrow>
          re_status resp \<noteq> 200 \<and> (\<exists>code. re_body resp = Some (error_envelope code False))
          \<and> (\<forall>c \<in> set (re_cookies resp). ck_value c = [] \<and> ck_max_age c = -1))"

lemma error_reply:
  "browser_reply hc clock None (writeServiceError err)" "browser_reply hc clock None (clearRefreshCookie hc (writeServiceError err))"
  "status \<noteq> 200 \<Longrightarrow> browser_reply hc clock None (writeAuthError status code)"
  by (auto simp: browser_reply_def write_defs clearRefreshCookie_def SetCookie_def split: auth_error.splits)

lemma checkBrowserRequest_reply: "checkBrowserRequest r = Some resp \<Longrightarrow> browser_reply hc clock None resp"
  by (auto simp: checkBrowserRequest_def error_reply(3) split: if_splits)

lemma decodeRequest_reply: "decodeRequest schema zero r = Inl resp \<Longrightarrow> browser_reply hc clock None resp"
  by (auto simp: decodeRequest_def error_reply(3) split: if_splits option.splits)

text \<open>The two tokens of a pair differ in their first letter.\<close>

lemma newToken_text: "newToken (c # p) e = ((i, s, t), e') \<Longrightarrow> \<exists>t'. t = c # t'"
  by (auto simp: newToken_def newTokenWithID_def randomID_def split_beta Let_def)

lemma ExchangePairingGrant_tokens:
  assumes "ExchangePairingGrant H conf flt now code st = (Inr pair, st')"
  shows "tp_refresh_token pair \<noteq> tp_access_token pair \<and> tp_token_type pair = ''Bearer''"
proof -
  obtain e db where st: "st = (e, db)" by (rule prod.exhaust)
  obtain i s t e1 where a: "newToken ''at'' e = ((i, s, t), e1)" by (metis prod_cases3 surj_pair)
  obtain i' s' t' e2 where r: "newToken ''rt'' e1 = ((i', s', t'), e2)" by (metis prod_cases3 surj_pair)
  have "t \<noteq> t'" using newToken_text [OF a] newToken_text [OF r] by auto
  then show ?thesis using assms a r st
    by (auto simp: ExchangePairingGrant_def tokenPair_def Let_def split_beta split: if_splits sum.splits prod.splits)
qed

lemma Refresh_tokens:
  assumes "Refresh H conf flt now token st = (Inr pair, st')"
  shows "tp_refresh_token pair \<noteq> tp_access_token pair \<and> tp_token_type pair = ''Bearer''"
proof -
  obtain e db where st: "st = (e, db)" by (rule prod.exhaust)
  obtain ident secret where p: "parseToken token ''rt'' = Inr (ident, secret)"
    using assms st by (cases "parseToken token ''rt''") (auto simp: Refresh_def)
  then have "\<exists>rest. ident = CHR ''r'' # rest"
    by (cases ident) (auto simp: parseToken_def has_prefix_def split: list.splits if_splits)
  moreover obtain i s t e1 where a: "newToken ''at'' e = ((i, s, t), e1)" by (metis prod_cases3 surj_pair)
  moreover obtain i' s' t' e2 where r: "newTokenWithID ''rt'' ident e1 = ((i', s', t'), e2)" by (metis prod_cases3 surj_pair)
  moreover have "t' = ident @ ''.'' @ s'" using r by (auto simp: newTokenWithID_def split_beta Let_def)
  ultimately have "t \<noteq> t'" using newToken_text [OF a] by auto
  then show ?thesis using assms a r st p
    by (auto simp: Refresh_def tokenPair_def Let_def split_beta split: if_splits sum.splits prod.splits)
qed

lemma served_reply:
  assumes "tp_refresh_token pair \<noteq> tp_access_token pair \<and> tp_token_type pair = ''Bearer''"
  shows "browser_reply hc clock (Some pair) (setRefreshCookie hc clock (tp_refresh_token pair) (tp_refresh_expires pair)
    (writeData 200 (pair_json pair)))"
  using assms by (simp add: browser_reply_def setRefreshCookie_def SetCookie_def write_defs pair_json_def data_envelope_def schema_meta_def)

text \<open>
  Property C30. A browser gets its refresh token in the cookie and in no response body. An exchange is served exactly when it carries the
  browser header, its body decodes, and the service exchanges the code; a refresh exactly when it carries the
  header and a cookie whose token the service accepts. The reply then has the service's new access token and the
  client in its body, which has no other member, and the service's new refresh token, which is another string, in exactly one cookie with the
  expiry of the token, HttpOnly and SameSite strict; a cookie name that is not a token of HTTP makes the library drop
  that cookie. Every other reply is an error code without a token, and sets no cookie but the empty one.
\<close>

theorem browser_refresh_token_in_cookie_only:
  assumes "exchange H conf hc flt now clock r st = (resp, st')" "refresh H conf hc flt now clock r st = (resp', st'')"
  shows "(\<exists>served. browser_reply hc clock served resp
      \<and> (\<forall>pair. served = Some pair \<longleftrightarrow> header r CSRFHeader = ''1''
           \<and> (\<exists>code. decodeRequest code_schema [] r = Inr code \<and> ExchangePairingGrant H conf flt now code st = (Inr pair, st'))))
    \<and> (\<exists>served. browser_reply hc clock served resp'
      \<and> (\<forall>pair. served = Some pair \<longleftrightarrow> header r CSRFHeader = ''1''
           \<and> (\<exists>token. cookie r (CookieName hc) = Some token \<and> Refresh H conf flt now token st = (Inr pair, st''))))"
proof
  show "\<exists>served. browser_reply hc clock served resp
      \<and> (\<forall>pair. served = Some pair \<longleftrightarrow> header r CSRFHeader = ''1''
           \<and> (\<exists>code. decodeRequest code_schema [] r = Inr code \<and> ExchangePairingGrant H conf flt now code st = (Inr pair, st')))"
  proof (cases "checkBrowserRequest r")
    case (Some x)
    then have "header r CSRFHeader \<noteq> ''1''" by (auto simp: checkBrowserRequest_def split: if_splits)
    then show ?thesis using Some assms(1) checkBrowserRequest_reply [OF Some]
      by (intro exI [where x = None]) (simp add: exchange_def)
  next
    case None
    then have h: "header r CSRFHeader = ''1''" by (auto simp: checkBrowserRequest_def split: if_splits)
    show ?thesis
    proof (cases "decodeRequest code_schema [] r")
      case (Inl x)
      then show ?thesis using None assms(1) decodeRequest_reply [OF Inl] by (intro exI [where x = None]) (simp add: exchange_def)
    next
      case (Inr code)
      obtain res st1 where x: "ExchangePairingGrant H conf flt now code st = (res, st1)" by (rule prod.exhaust)
      show ?thesis
      proof (cases res)
        case (Inl err)
        then show ?thesis using None h assms(1) x \<open>decodeRequest code_schema [] r = Inr code\<close> error_reply(1)
          by (intro exI [where x = None]) (auto simp: exchange_def)
      next
        case (Inr pair)
        then show ?thesis using None h assms(1) x \<open>decodeRequest code_schema [] r = Inr code\<close>
            served_reply [OF ExchangePairingGrant_tokens, of H conf flt now code st pair st1]
          by (intro exI [where x = "Some pair"]) (auto simp: exchange_def)
      qed
    qed
  qed
next
  show "\<exists>served. browser_reply hc clock served resp'
      \<and> (\<forall>pair. served = Some pair \<longleftrightarrow> header r CSRFHeader = ''1''
           \<and> (\<exists>token. cookie r (CookieName hc) = Some token \<and> Refresh H conf flt now token st = (Inr pair, st'')))"
  proof (cases "checkBrowserRequest r")
    case (Some x)
    then have "header r CSRFHeader \<noteq> ''1''" by (auto simp: checkBrowserRequest_def split: if_splits)
    then show ?thesis using Some assms(2) checkBrowserRequest_reply [OF Some]
      by (intro exI [where x = None]) (simp add: refresh_def)
  next
    case None
    then have h: "header r CSRFHeader = ''1''" by (auto simp: checkBrowserRequest_def split: if_splits)
    show ?thesis
    proof (cases "cookie r (CookieName hc)")
      case no: None
      then show ?thesis using None assms(2) error_reply(3) by (intro exI [where x = None]) (auto simp: refresh_def)
    next
      case (Some token)
      obtain res st1 where x: "Refresh H conf flt now token st = (res, st1)" by (rule prod.exhaust)
      show ?thesis
      proof (cases res)
        case (Inl err)
        then show ?thesis using None h assms(2) x Some error_reply(2) by (intro exI [where x = None]) (auto simp: refresh_def)
      next
        case (Inr pair)
        then show ?thesis using None h assms(2) x Some served_reply [OF Refresh_tokens, of H conf flt now token st pair st1]
          by (intro exI [where x = "Some pair"]) (auto simp: refresh_def)
      qed
    qed
  qed
qed

subsection \<open>Concrete requests\<close>

lemma leading_word: "c \<notin> set space_bytes \<Longrightarrow> leading space_runes (c # s) = 0"
  by (intro leading_plain) (auto simp: space_bytes_def)

lemma leading_blank: "leading space_runes (CHR '' '' # s) = 1"
proof -
  have "CHR '' '' = char_of (32 :: nat)" by code_simp
  then show ?thesis by (simp add: space_runes_def ascii_spaces_def has_prefix_def)
qed

lemma fields_from_word:
  "\<forall>c \<in> set s. c \<notin> set space_bytes \<Longrightarrow> fields_from acc (s @ t) = fields_from (rev s @ acc) t"
  by (induction s arbitrary: acc) (auto simp: leading_word Let_def)

lemma bearerToken_header:
  assumes "\<forall>c \<in> set token. c \<notin> set space_bytes" "token \<noteq> []"
  shows "bearerToken (''Bearer '' @ token) = token"
proof -
  have w: "\<forall>c \<in> set ''Bearer''. c \<notin> set space_bytes" by simp
  have "str_fields (''Bearer'' @ CHR '' '' # token) = [''Bearer'', token]"
    unfolding str_fields_def fields_from_word [OF w]
    using fields_from_word [OF assms(1), of "[]" "[]"] assms(2) by (simp add: leading_blank Let_def)
  then show ?thesis by (simp add: bearerToken_def)
qed

lemma newToken_plain:
  assumes "newToken p e = ((i, s, t), e1)" "\<forall>c \<in> set p. c \<notin> set space_bytes"
  shows "(\<forall>c \<in> set t. c \<notin> set space_bytes) \<and> t \<noteq> []"
proof -
  obtain n1 e' n2 e'' where "t = p @ ''_'' @ fst (randomSecret n1 e') @ ''.'' @ fst (randomSecret n2 e'')"
    using assms(1) by (auto simp: newToken_def newTokenWithID_def randomID_def Let_def split_beta)
  with assms(2) secret_graphic(1) show ?thesis by auto
qed

definition demo_request :: http_request where
  "demo_request = \<lparr>rq_method = ''GET'', rq_path = ''/v1/runtime/projects'', rq_query = [],
     rq_headers = [(''Authorization'', ''Bearer '' @ snd (snd (fst (newToken ''at'' zero_entropy))))],
     rq_cookies = [], rq_body = None, rq_body_end = 0\<rparr>"

lemma demo_request_bearer:
  "bearerToken (header demo_request ''Authorization'') = snd (snd (fst (newToken ''at'' zero_entropy)))"
proof -
  obtain i s t e1 where "newToken ''at'' zero_entropy = ((i, s, t), e1)" by (metis prod_cases3 surj_pair)
  then show ?thesis
    using newToken_plain [of "''at''" zero_entropy i s t e1] bearerToken_header [of t]
    by (simp add: header_def demo_request_def get_first_def)
qed

definition demo_next :: "principal \<Rightarrow> http_request \<Rightarrow> nat \<Rightarrow> http_response \<times> nat" where
  "demo_next p r n = (respond_empty 204, n + 1)"

lemma demo_principal:
  "fst (Authenticate id no_faults minute (snd (snd (fst (newToken ''at'' zero_entropy)))) demo_paired) =
     Inr \<lparr>pr_client_id = cm_client_id demo_material, pr_client_name = pg_name demo_grant,
       pr_session_id = cm_session_id demo_material, pr_scopes = pg_scopes demo_grant\<rparr>"
proof -
  have "minute < pg_time (second + AccessTTL demo_conf)" by (simp add: demo_ttl pg_time_def duration_defs)
  from authenticate_issued [OF demo_ready [unfolded demo_material_def] this] show ?thesis
    unfolding demo_material_def [symmetric] demo_paired_def [symmetric] .
qed

theorem middleware_guards_witness:
  "snd (snd (Middleware id no_faults minute (\<lambda>_. ScopeRuntimeRead) demo_next demo_request (demo_paired, 0))) = 1"
proof -
  obtain resp db' s' where m: "Middleware id no_faults minute (\<lambda>_. ScopeRuntimeRead) demo_next demo_request (demo_paired, 0) = (resp, db', s')"
    by (metis prod_cases3)
  have "ScopeRuntimeRead \<in> set (pg_scopes demo_grant)"
    by (simp add: demo_grant_def offered_def split_beta Let_def DefaultScopes_def)
  with middleware_guards [OF m] have "demo_next p demo_request 0 = (resp, s') \<Longrightarrow> s' = 1" for p
    by (auto simp: demo_next_def)
  with middleware_guards [OF m] \<open>ScopeRuntimeRead \<in> _\<close> m show ?thesis
    unfolding demo_request_bearer demo_principal by auto
qed

theorem revoked_client_locked_out_witness:
  "\<exists>db1. RevokeClient no_faults minute (cm_client_id demo_material) ''lost'' demo_paired = (Inr (), db1) \<and>
    Middleware id no_faults minute (\<lambda>_. ScopeRuntimeRead)
      (\<lambda>p r n. (respond_empty 204, if pr_client_id p = cm_client_id demo_material then n + 1 else n :: nat)) demo_request (db1, 0) =
    Middleware id no_faults minute (\<lambda>_. ScopeRuntimeRead) (\<lambda>p r n. (respond_empty 204, n)) demo_request (db1, 0)"
proof -
  obtain db1 where a: "RevokeClient no_faults minute (cm_client_id demo_material) ''lost'' demo_paired = (Inr (), db1)"
    using demo_revoke by blast
  have "\<forall>p. pr_client_id p \<noteq> cm_client_id demo_material \<longrightarrow>
      (\<lambda>r :: http_request. \<lambda>n. (respond_empty 204, if pr_client_id p = cm_client_id demo_material then n + 1 else n :: nat)) =
      (\<lambda>r n. (respond_empty 204, n))" by simp
  from revoked_client_locked_out [OF demo_paired_reachable a auth_steps.none this] a show ?thesis by blast
qed

definition demo_exchange_request :: http_request where
  "demo_exchange_request = \<lparr>rq_method = ''POST'', rq_path = ''/v1/auth/pairing-grants:exchange'', rq_query = [],
     rq_headers = [(CSRFHeader, ''1''), (''Content-Type'', ''application/json'')], rq_cookies = [],
     rq_body = Some (JObj [(''code'', JStr demo_code)]), rq_body_end = 60\<rparr>"

theorem browser_refresh_token_in_cookie_only_witness:
  "\<exists>pair resp st'. exchange id demo_conf \<lparr>CookieName = ''r'', CookieSecure = True\<rparr> no_faults second second
      demo_exchange_request (zero_entropy, demo_open) = (resp, st')
    \<and> ExchangePairingGrant id demo_conf no_faults second demo_code (zero_entropy, demo_open) = (Inr pair, st')
    \<and> map ck_value (re_cookies resp) = [tp_refresh_token pair]"
proof -
  let ?hc = "\<lparr>CookieName = ''r'', CookieSecure = True\<rparr>"
  obtain resp st' where x: "exchange id demo_conf ?hc no_faults second second
      demo_exchange_request (zero_entropy, demo_open) = (resp, st')" by (meson surj_pair)
  obtain resp2 st2 where x2: "refresh id demo_conf ?hc no_faults second second
      demo_exchange_request (zero_entropy, demo_open) = (resp2, st2)" by (meson surj_pair)
  have d: "decodeRequest code_schema [] demo_exchange_request = Inr demo_code"
    by (simp add: decodeRequest_def limited_decode_def demo_exchange_request_def header_def get_first_def
        CSRFHeader_def has_prefix_def code_schema_def dec_struct_def dec_str_def)
  have h: "header demo_exchange_request CSRFHeader = ''1''" by (simp add: demo_exchange_request_def header_def get_first_def)
  obtain p e1 where e: "ExchangePairingGrant id demo_conf no_faults second demo_code (zero_entropy, demo_open) = (Inr p, e1, demo_paired)"
    using demo_exchange by blast
  have st': "st' = (e1, demo_paired)"
    using x d e h by (simp add: exchange_def checkBrowserRequest_def)
  obtain served where b: "browser_reply ?hc second served resp"
    and iff: "\<forall>pair. served = Some pair \<longleftrightarrow> header demo_exchange_request CSRFHeader = ''1''
       \<and> (\<exists>code. decodeRequest code_schema [] demo_exchange_request = Inr code
          \<and> ExchangePairingGrant id demo_conf no_faults second code (zero_entropy, demo_open) = (Inr pair, st'))"
    using conjunct1 [OF browser_refresh_token_in_cookie_only [OF x x2]] by blast
  have "served = Some p" using iff d h e st' by blast
  moreover have "cookie_name_ok ''r''" by code_simp
  ultimately have "map ck_value (re_cookies resp) = [tp_refresh_token p]" using b by (simp add: browser_reply_def)
  then show ?thesis using x e st' by auto
qed

end
