(* ===== verification/Runtime_Http.thy ===== *)
theory Runtime_Http
  imports Coordinator Auth_Http
begin

section \<open>The Runtime API\<close>

text \<open>
  The handlers of \<^verbatim>\<open>internal/runtime/http.go\<close>, except the polls and event streams, which have their
  own theory. A handler runs on the state \<open>(world, coord)\<close> it shares with the coordinator; the registry
  is what the gateways look the agent up in. \<open>hash\<close> is \<open>RequestHash\<close> on the marshalled request: a
  parameter, as it is SHA-256. A request that waits for the agent is given what the rest of the
  program does meanwhile and how its context ends (record \<open>api_env\<close>). A path is matched by its
  decoded segments, so an escaped slash inside an identifier is not modelled; nor is a timestamp
  that JSON cannot express.
\<close>

record 'k api_env =
  ae_meanwhile :: "nat \<Rightarrow> world \<times> 'k coord \<Rightarrow> world \<times> 'k coord"
  ae_ctx_error :: ctx_error
  ae_give_up :: bool
  ae_clock :: "nat \<Rightarrow> time"
  ae_cancelled :: "nat \<Rightarrow> bool"
  ae_db_health :: bool

subsection \<open>The wire form of the store's values\<close>

definition project_json :: "project \<Rightarrow> json" where
  "project_json p = JObj [(''project_id'', JStr (project_ID p)), (''display_name'', JStr (project_DisplayName p))]"

definition session_json :: "session \<Rightarrow> json" where
  "session_json s = JObj
     (member ''session_id'' (JStr (session_ID s)) @ member ''project_id'' (JStr (session_ProjectID s))
      @ omit_if (session_CodexThreadID s = []) ''codex_thread_id'' (JStr (session_CodexThreadID s))
      @ member ''title'' (JStr (session_Title s))
      @ member ''last_session_sequence'' (JNum (session_LastSessionSequence s))
      @ omit_if (session_LatestRunStatus s = []) ''latest_run_status'' (JStr (session_LatestRunStatus s))
      @ member ''created_at'' (time_json (session_CreatedAt s)) @ member ''updated_at'' (time_json (session_UpdatedAt s)))"

definition run_event_json :: "run_event \<Rightarrow> json" where
  "run_event_json e = JObj
     [(''agent_sequence'', JNum (revent_Sequence e)), (''type'', JStr (revent_Type e)),
      (''payload'', revent_Payload e), (''occurred_at'', time_json (revent_OccurredAt e))]"

definition run_json :: "run \<Rightarrow> json" where
  "run_json r = JObj
     (member ''run_id'' (JStr (run_ID r)) @ member ''session_id'' (JStr (run_SessionID r))
      @ omit_if (run_CodexTurnID r = []) ''codex_turn_id'' (JStr (run_CodexTurnID r))
      @ member ''status'' (JStr (run_Status r)) @ member ''state_version'' (JNum (run_StateVersion r))
      @ omit_if (run_Prompt r = []) ''prompt'' (JStr (run_Prompt r))
      @ omit_if (run_PermissionProfileID r = []) ''permission_profile_id'' (JStr (run_PermissionProfileID r))
      @ omit_if (run_CancelRequestedAt r = None) ''cancel_requested_at'' (opt_json time_json (run_CancelRequestedAt r))
      @ member ''persisted_through_sequence'' (JNum (run_PersistedThroughSequence r))
      @ omit_if (run_FinalSequence r = None) ''final_sequence'' (opt_json JNum (run_FinalSequence r))
      @ omit_if (run_ErrorCode r = []) ''error_code'' (JStr (run_ErrorCode r))
      @ omit_if (run_ErrorMessage r = []) ''error_message'' (JStr (run_ErrorMessage r))
      @ member ''created_at'' (time_json (run_CreatedAt r))
      @ omit_if (run_StartedAt r = None) ''started_at'' (opt_json time_json (run_StartedAt r))
      @ omit_if (run_FinishedAt r = None) ''finished_at'' (opt_json time_json (run_FinishedAt r))
      @ member ''updated_at'' (time_json (run_UpdatedAt r))
      @ omit_if (run_Events r = []) ''events'' (JArr (map run_event_json (run_Events r))))"

definition sync_job_json :: "sync_job \<Rightarrow> json" where
  "sync_job_json j = JObj
     (member ''sync_id'' (JStr (sync_ID j)) @ member ''status'' (JStr (sync_Status j))
      @ omit_if (sync_SnapshotID j = []) ''snapshot_id'' (JStr (sync_SnapshotID j))
      @ member ''last_committed_batch_no'' (JNum (sync_LastCommittedBatchNo j))
      @ member ''item_count'' (JNum (sync_ItemCount j)) @ member ''total_sessions'' (JNum (sync_TotalSessions j))
      @ member ''processed_sessions'' (JNum (sync_ProcessedSessions j))
      @ member ''archived_sessions'' (JNum (sync_ArchivedSessions j))
      @ member ''archived_projects'' (JNum (sync_ArchivedProjects j))
      @ member ''reconciliation_applied'' (JBool (sync_ReconciliationApplied j))
      @ omit_if (sync_ErrorCode j = []) ''error_code'' (JStr (sync_ErrorCode j))
      @ omit_if (sync_ErrorMessage j = []) ''error_message'' (JStr (sync_ErrorMessage j))
      @ member ''created_at'' (time_json (sync_CreatedAt j)) @ member ''updated_at'' (time_json (sync_UpdatedAt j)))"

subsection \<open>Writing responses, reading requests\<close>

definition api_writeData :: "nat \<Rightarrow> json \<Rightarrow> http_response" where
  "api_writeData status value = respond_json status (data_envelope value)"

definition api_writeError :: "nat \<Rightarrow> string \<Rightarrow> bool \<Rightarrow> http_response" where
  "api_writeError status code retryable = respond_json status (error_envelope code retryable)"

definition api_writeInternal :: http_response where
  "api_writeInternal = api_writeError 500 ''INTERNAL_ERROR'' True"

definition decodeJSON :: "(string \<times> 'a decoder) list \<Rightarrow> 'a \<Rightarrow> http_request \<Rightarrow> http_response + 'a" where
  "decodeJSON schema zero r =
     (case limited_decode schema zero r of
        None \<Rightarrow> Inl (api_writeError 400 ''INVALID_JSON'' False)
      | Some v \<Rightarrow> Inr v)"

definition idempotency_key :: "http_request \<Rightarrow> string" where
  "idempotency_key r = trim_space (header r ''Idempotency-Key'')"

definition nullableTime :: "time \<Rightarrow> json" where
  "nullableTime t = (if is_zero_time t then JNull else time_json t)"

text \<open>A call that draws identifiers does so on the process's random source.\<close>

definition drawing_call :: "'k coord_env \<Rightarrow> (rt_call \<Rightarrow> entropy \<Rightarrow> rt_db \<Rightarrow> 'a \<times> entropy \<times> rt_db) \<Rightarrow>
    world \<times> 'k coord \<Rightarrow> 'a \<times> world \<times> 'k coord" where
  "drawing_call ce f st =
     (let (w, c) = st; (r, e, db) = f (ce_call ce (co_calls c)) (wd_rnd w) (co_db c) in
      (r, w\<lparr>wd_rnd := e\<rparr>, c\<lparr>co_db := db, co_calls := Suc (co_calls c)\<rparr>))"

definition presence_members :: "bool \<times> time \<times> broker_error option \<Rightarrow> (string \<times> json) list" where
  "presence_members p =
     [(''agent_last_seen_at'', nullableTime (fst (snd p))), (''agent_presence'', JStr (if fst p then ''online'' else ''offline''))]"

subsection \<open>Requests that the agent answers\<close>

definition sourceHTTPError :: "source_error \<Rightarrow> nat \<times> string \<times> bool" where
  "sourceHTTPError err =
     (case err of
        SourceCtx DeadlineExceeded \<Rightarrow> (504, ''SOURCE_TIMEOUT'', True)
      | SourceCtx Canceled \<Rightarrow> (408, ''SOURCE_CANCELED'', True)
      | ErrSourceAgentOffline \<Rightarrow> (503, ''AGENT_OFFLINE'', True)
      | ErrSourceUnavailable \<Rightarrow> (502, ''SOURCE_UNAVAILABLE'', True)
      | ErrSourceBusy \<Rightarrow> (429, ''SOURCE_BUSY'', True)
      | SourceRemoteError code _ \<Rightarrow>
          if code = ''PROJECT_NOT_FOUND'' \<or> code = ''SOURCE_NOT_FOUND'' then (404, code, False)
          else if code = ''SOURCE_FORBIDDEN'' then (403, code, False)
          else if code = ''SOURCE_TOO_LARGE'' then (413, code, False)
          else if code = ''SOURCE_BINARY'' then (415, code, False)
          else if code = ''SOURCE_INVALID'' then (400, code, False)
          else if code = ''SOURCE_UNAVAILABLE'' then (503, code, True)
          else (502, ''SOURCE_READ_FAILED'', True))"

text \<open>The final \<open>select\<close> of a gateway request: its result when there is one, or the context's error.\<close>

definition await_reply :: "'k api_env \<Rightarrow> (ctx_error \<Rightarrow> 'e) \<Rightarrow> string \<Rightarrow> ('e + 'a) waiters \<Rightarrow> ('e + 'a) \<times> ('e + 'a) waiters" where
  "await_reply ae wrap t g =
     (case Read_receive t g of
        (Some r, g') \<Rightarrow> if ae_give_up ae then (Inl (wrap (ae_ctx_error ae)), drop_waiter t g) else (r, g')
      | (None, _) \<Rightarrow> (Inl (wrap (ae_ctx_error ae)), drop_waiter t g))"

record source_request =
  sq_path :: string
  sq_line :: int
  sq_context_lines :: int

definition source_request_zero :: source_request where
  "source_request_zero = \<lparr>sq_path = [], sq_line = 0, sq_context_lines = 0\<rparr>"

definition source_request_schema :: "(string \<times> source_request decoder) list" where
  "source_request_schema =
     [(''path'', dec_str (\<lambda>s v. v\<lparr>sq_path := s\<rparr>)), (''line'', dec_int (\<lambda>n v. v\<lparr>sq_line := n\<rparr>)),
      (''context_lines'', dec_int (\<lambda>n v. v\<lparr>sq_context_lines := n\<rparr>))]"

text \<open>The checks of \<open>projectSource\<close>, up to the payload it asks the agent with.\<close>

definition source_payload :: "string \<Rightarrow> source_request \<Rightarrow> http_response + source_read_payload" where
  "source_payload project q =
     (let projectID = trim_space project; path = trim_space (sq_path q) in
      if projectID = [] \<or> path = [] \<or> 256 < length projectID \<or> 4096 < length path
      then Inl (api_writeError 400 ''SOURCE_INVALID'' False)
      else if sq_line q < 0 \<or> 10000000 < sq_line q then Inl (api_writeError 400 ''SOURCE_INVALID_LINE'' False)
      else if sq_context_lines q < 0 \<or> 500 < sq_context_lines q then Inl (api_writeError 400 ''SOURCE_INVALID_CONTEXT'' False)
      else Inr \<lparr>sr_project_id = projectID, sr_path = path, sr_focus_line = sq_line q,
             sr_context_lines = (if sq_context_lines q = 0 then 200 else sq_context_lines q)\<rparr>)"

definition source_response :: "source_result \<Rightarrow> http_response" where
  "source_response res =
     (case res of
        Inr snapshot \<Rightarrow> api_writeData 200 (source_snapshot_json snapshot)
      | Inl err \<Rightarrow> (let (status, code, retryable) = sourceHTTPError err in api_writeError status code retryable))"

definition projectSource :: "'k api_env \<Rightarrow> 'k coord_env \<Rightarrow> registry \<Rightarrow> string \<Rightarrow> http_request \<Rightarrow> world \<times> 'k coord \<Rightarrow>
    http_response \<times> world \<times> 'k coord" where
  "projectSource ae ce reg project r st =
     (let (w, c) = st in
      case co_source c of
        None \<Rightarrow> (api_writeError 503 ''SOURCE_READ_DISABLED'' False, st)
      | Some g \<Rightarrow>
          (case decodeJSON source_request_schema source_request_zero r of
             Inl resp \<Rightarrow> (resp, st)
           | Inr q \<Rightarrow>
               (case source_payload project q of
                  Inl resp \<Rightarrow> (resp, st)
                | Inr payload \<Rightarrow>
                    (let (begun, w1, g1) = Read_begin (ce_env ce) reg payload (w, g) in
                     case begun of
                       Inl err \<Rightarrow> (source_response (Inl err), w1, c\<lparr>co_source := Some g1\<rparr>)
                     | Inr t \<Rightarrow>
                         (let (w2, c2) = ae_meanwhile ae 0 (w1, c\<lparr>co_source := Some g1\<rparr>);
                              (res, g3) = await_reply ae SourceCtx t (case co_source c2 of Some g2 \<Rightarrow> g2 | None \<Rightarrow> []) in
                          (source_response res, w2, c2\<lparr>co_source := Some g3\<rparr>))))))"

definition profiles_response :: "profile_result \<Rightarrow> http_response" where
  "profiles_response res =
     (case res of
        Inr snapshot \<Rightarrow> api_writeData 200 (profile_snapshot_json snapshot)
      | Inl ErrExecutionProfilesAgentOffline \<Rightarrow> api_writeError 503 ''AGENT_OFFLINE'' True
      | Inl ErrExecutionProfilesBusy \<Rightarrow> api_writeError 429 ''EXECUTION_PROFILES_BUSY'' True
      | Inl (ProfileCtx DeadlineExceeded) \<Rightarrow> api_writeError 504 ''EXECUTION_PROFILES_TIMEOUT'' True
      | Inl _ \<Rightarrow> api_writeError 503 ''EXECUTION_PROFILES_UNAVAILABLE'' True)"

definition projectExecutionProfiles :: "'k api_env \<Rightarrow> 'k coord_env \<Rightarrow> registry \<Rightarrow> string \<Rightarrow> world \<times> 'k coord \<Rightarrow>
    http_response \<times> world \<times> 'k coord" where
  "projectExecutionProfiles ae ce reg project st =
     (let (w, c) = st; projectID = trim_space project in
      case co_profiles c of
        None \<Rightarrow> (api_writeError 503 ''EXECUTION_PROFILES_DISABLED'' False, st)
      | Some g \<Rightarrow>
          if projectID = [] \<or> 256 < length projectID then (api_writeError 400 ''PROJECT_ID_INVALID'' False, st)
          else
            (let (begun, w1, g1) = List_begin (ce_env ce) reg projectID (w, g) in
             case begun of
               Inl err \<Rightarrow> (profiles_response (Inl err), w1, c\<lparr>co_profiles := Some g1\<rparr>)
             | Inr t \<Rightarrow>
                 (let (w2, c2) = ae_meanwhile ae 0 (w1, c\<lparr>co_profiles := Some g1\<rparr>);
                      (res, g3) = await_reply ae ProfileCtx t (case co_profiles c2 of Some g2 \<Rightarrow> g2 | None \<Rightarrow> []) in
                  (profiles_response res, w2, c2\<lparr>co_profiles := Some g3\<rparr>))))"

subsection \<open>Requests that the store answers\<close>

definition health :: "'k api_env \<Rightarrow> 'k coord_env \<Rightarrow> 'k coord \<Rightarrow> http_response \<times> 'k coord" where
  "health ae ce c =
     (if \<not> ae_db_health ae then (api_writeError 503 ''POSTGRES_UNAVAILABLE'' True, c)
      else
        (let (r, c1) = broker_call (br_Health (ce_broker ce)) c in
         case r of
           Inl _ \<Rightarrow> (api_writeError 503 ''REDIS_UNAVAILABLE'' True, c1)
         | Inr _ \<Rightarrow> (api_writeData 200 (JObj [(''status'', JStr ''ok'')]), c1)))"

definition api_projects :: "'k coord_env \<Rightarrow> 'k coord \<Rightarrow> http_response \<times> 'k coord" where
  "api_projects ce c =
     (let (res, c1) = read_call ce (ListProjects (ce_pg ce)) c in
      case res of
        Inl _ \<Rightarrow> (api_writeInternal, c1)
      | Inr items \<Rightarrow>
          (let (p, c2) = broker_call (br_AgentPresence (ce_broker ce)) c1 in
           (api_writeData 200 (JObj (presence_members p @
              [(''items'', JArr (map project_json items)), (''next_cursor'', JNull)])), c2)))"

definition api_sessions :: "'k coord_env \<Rightarrow> http_request \<Rightarrow> 'k coord \<Rightarrow> http_response \<times> 'k coord" where
  "api_sessions ce r c =
     (let (res, c1) = read_call ce (\<lambda>wr. ListSessions (ce_pg ce) wr (query r ''project_id'')) c in
      case res of
        Inl _ \<Rightarrow> (api_writeInternal, c1)
      | Inr items \<Rightarrow>
          (api_writeData 200 (JObj [(''items'', JArr (map session_json items)), (''next_cursor'', JNull)]), c1))"

definition session_request_schema :: "(string \<times> (string \<times> string) decoder) list" where
  "session_request_schema =
     [(''project_id'', dec_str (\<lambda>s v. (s, snd v))), (''title'', dec_str (\<lambda>s v. (fst v, s)))]"

text \<open>With an empty project id the handler returns without writing a response.\<close>

definition createSession :: "(json \<Rightarrow> string) \<Rightarrow> 'k coord_env \<Rightarrow> http_request \<Rightarrow> world \<times> 'k coord \<Rightarrow>
    http_response \<times> world \<times> 'k coord" where
  "createSession hash ce r st =
     (let key = idempotency_key r in
      if key = [] then (api_writeError 400 ''IDEMPOTENCY_KEY_REQUIRED'' False, st)
      else case decodeJSON session_request_schema ([], []) r of
        Inl resp \<Rightarrow> (resp, st)
      | Inr (projectID, title) \<Rightarrow>
          if projectID = [] then (no_response, st)
          else
            (let (res, st1) = drawing_call ce (\<lambda>rc e. CreateSession rc e projectID title key
                   (hash (JObj [(''project_id'', JStr projectID), (''title'', JStr title)]))) st in
             case res of
               Inl err \<Rightarrow>
                 (if err = ErrIdempotencyConflict then api_writeError 409 ''IDEMPOTENCY_CONFLICT'' False
                  else api_writeInternal, st1)
             | Inr (item, created) \<Rightarrow> (api_writeData (if created then 201 else 200) (session_json item), st1)))"

definition api_session :: "'k coord_env \<Rightarrow> string \<Rightarrow> 'k coord \<Rightarrow> http_response \<times> 'k coord" where
  "api_session ce sid c =
     (let (res, c1) = read_call ce (\<lambda>wr. GetSession wr sid) c in
      case res of
        Inl err \<Rightarrow>
          (if err = Runtime_Tables.ErrNotFound then api_writeError 404 ''SESSION_NOT_FOUND'' False else api_writeInternal, c1)
      | Inr item \<Rightarrow>
          (let (rs, c2) = read_call ce (\<lambda>wr. ListRuns (ce_pg ce) wr (session_ID item)) c1 in
           case rs of
             Inl _ \<Rightarrow> (api_writeInternal, c2)
           | Inr items \<Rightarrow>
               (let (p, c3) = broker_call (br_AgentPresence (ce_broker ce)) c2 in
                (api_writeData 200 (JObj (presence_members p @
                   [(''runs'', JArr (map run_json items)), (''session'', session_json item),
                    (''snapshot_session_sequence'', JNum (session_LastSessionSequence item))])), c3))))"

definition api_runs :: "'k coord_env \<Rightarrow> string \<Rightarrow> 'k coord \<Rightarrow> http_response \<times> 'k coord" where
  "api_runs ce sid c =
     (let (res, c1) = read_call ce (\<lambda>wr. ListRuns (ce_pg ce) wr sid) c in
      case res of
        Inl _ \<Rightarrow> (api_writeInternal, c1)
      | Inr items \<Rightarrow> (api_writeData 200 (JObj [(''items'', JArr (map run_json items)), (''next_cursor'', JNull)]), c1))"

definition run_request_schema :: "(string \<times> (string \<times> string) decoder) list" where
  "run_request_schema =
     [(''prompt'', dec_str (\<lambda>s v. (s, snd v))), (''permission_profile_id'', dec_str (\<lambda>s v. (fst v, s)))]"

definition run_request_json :: "string \<Rightarrow> string \<Rightarrow> json" where
  "run_request_json prompt profile = JObj
     (member ''prompt'' (JStr prompt) @ omit_if (profile = []) ''permission_profile_id'' (JStr profile))"

definition createRun :: "(json \<Rightarrow> string) \<Rightarrow> 'k coord_env \<Rightarrow> string \<Rightarrow> http_request \<Rightarrow> world \<times> 'k coord \<Rightarrow>
    http_response \<times> world \<times> 'k coord" where
  "createRun hash ce sid r st =
     (let key = idempotency_key r in
      if key = [] then (api_writeError 400 ''IDEMPOTENCY_KEY_REQUIRED'' False, st)
      else case decodeJSON run_request_schema ([], []) r of
        Inl resp \<Rightarrow> (resp, st)
      | Inr (text, profile) \<Rightarrow>
          (let prompt = trim_space text in
           if prompt = [] then (api_writeError 400 ''PROMPT_REQUIRED'' False, st)
           else
             (let (res, w1, c1) = drawing_call ce (\<lambda>rc e. CreateRun (ce_pg ce) rc e sid prompt profile key
                    (hash (run_request_json prompt profile))) st in
              case res of
                Inl err \<Rightarrow>
                  (if err = ErrIdempotencyConflict then api_writeError 409 ''IDEMPOTENCY_CONFLICT'' False
                   else if err = Runtime_Tables.ErrNotFound then api_writeError 404 ''SESSION_NOT_FOUND'' False
                   else api_writeInternal, w1, c1)
              | Inr (item, sequence, _) \<Rightarrow>
                  (let c2 = snd (broker_call (br_NotifySession (ce_broker ce) (run_SessionID item)) c1) in
                   (api_writeData 202 (JObj
                      [(''created_at'', time_json (run_CreatedAt item)), (''run_id'', JStr (run_ID item)),
                       (''session_id'', JStr (run_SessionID item)), (''session_sequence'', JNum sequence),
                       (''status'', JStr (run_Status item))]), w1, c2)))))"

definition api_run :: "'k coord_env \<Rightarrow> string \<Rightarrow> 'k coord \<Rightarrow> http_response \<times> 'k coord" where
  "api_run ce rid c =
     (let (res, c1) = store_call ce (\<lambda>rc. GetRun rc 0 rid True) c in
      case res of
        Inl err \<Rightarrow>
          (if err = Runtime_Tables.ErrNotFound then api_writeError 404 ''RUN_NOT_FOUND'' False else api_writeInternal, c1)
      | Inr item \<Rightarrow> (api_writeData 200 (run_json item), c1))"

definition api_cancel :: "'k coord_env \<Rightarrow> string \<Rightarrow> world \<times> 'k coord \<Rightarrow> http_response \<times> world \<times> 'k coord" where
  "api_cancel ce rid st =
     (let (res, st1) = drawing_call ce (\<lambda>rc e. RequestCancel (ce_pg ce) rc e rid) st in
      case res of
        Inl err \<Rightarrow>
          (if err = Runtime_Tables.ErrNotFound then api_writeError 404 ''RUN_NOT_FOUND'' False else api_writeInternal, st1)
      | Inr item \<Rightarrow>
          (api_writeData 202 (JObj
             [(''cancel_requested'', JBool (run_CancelRequestedAt item \<noteq> None)), (''run_id'', JStr (run_ID item)),
              (''status'', JStr (run_Status item))]), st1))"

definition createSync :: "'k coord_env \<Rightarrow> http_request \<Rightarrow> world \<times> 'k coord \<Rightarrow> http_response \<times> world \<times> 'k coord" where
  "createSync ce r st =
     (let key = idempotency_key r in
      if key = [] then (api_writeError 400 ''IDEMPOTENCY_KEY_REQUIRED'' False, st)
      else
        (let (res, st1) = drawing_call ce (\<lambda>rc e. CreateSyncJob (ce_pg ce) rc e key) st in
         case res of
           Inl _ \<Rightarrow> (api_writeInternal, st1)
         | Inr (item, _) \<Rightarrow> (api_writeData 202 (sync_job_json item), st1)))"

definition api_sync :: "'k coord_env \<Rightarrow> string \<Rightarrow> 'k coord \<Rightarrow> http_response \<times> 'k coord" where
  "api_sync ce jid c =
     (let (res, c1) = sync_job_of ce jid c in
      case res of
        Inl err \<Rightarrow>
          (if err = Runtime_Tables.ErrNotFound then api_writeError 404 ''SYNC_NOT_FOUND'' False else api_writeInternal, c1)
      | Inr item \<Rightarrow> (api_writeData 200 (sync_job_json item), c1))"

end
