(* ===== verification/Runtime_Feed.thy ===== *)
theory Runtime_Feed
  imports Runtime_Properties
begin

section \<open>The session feed and event pages\<close>

text \<open>
  A session's events as an abstract append-only log read by cursor: reading after cursor \<open>c\<close> is
  dropping the first \<open>c\<close> entries, and no step of the store, imports included, changes an entry
  that was written. The two paged queries share one contract, the locale \<open>event_pages\<close>.
\<close>

subsection \<open>No step rewrites the feed\<close>

definition fed :: "rt_db \<Rightarrow> rt_db \<Rightarrow> bool" where
  "fed db0 db \<longleftrightarrow> prefix (session_events db0) (session_events db)"

lemma fed_refl [simp]: "fed db db"
  by (simp add: fed_def)

lemma fed_trans: "fed a b \<Longrightarrow> fed b c \<Longrightarrow> fed a c"
  unfolding fed_def by (rule prefix_order.trans)

named_theorems feeding \<open>statements that at most append to the session events\<close>

lemma fed_frame [feeding]:
  "(\<And>db. session_events (f db) = session_events db) \<Longrightarrow> tx_hoare (fed db0) (tx_change f) (\<lambda>_. fed db0)"
  by (rule tx_hoare_change) (simp add: fed_def)

lemma fed_add [feeding]: "tx_hoare (fed db0) (tx_change (add_session_event pg now sid n ty p)) (\<lambda>_. fed db0)"
  by (rule tx_hoare_change) (auto simp: fed_def add_session_event_def)

lemma fed_next [feeding]: "tx_hoare (fed db0) (next_sequence now sid) (\<lambda>_. fed db0)"
  unfolding next_sequence_def
  by (intro keep tx_hoare_change_ret) (simp add: fed_def bump_session_def)

lemma fed_counted [feeding]:
  "(\<And>db. session_events (f db) = session_events db) \<Longrightarrow> tx_hoare (fed db0) (tx_counted f k) (\<lambda>_. fed db0)"
  by (rule keep_counted) (simp add: fed_def)

lemma fed_import_projects: "tx_hoare (fed db0) (import_projects now snap ps) (\<lambda>_. fed db0)"
  by (induction ps)
    (simp_all only: import_projects.simps, (intro keep feeding | assumption | simp add: import_project_def)+)

lemma fed_import_sessions: "tx_hoare (fed db0) (import_sessions now snap vs ids) (\<lambda>_. fed db0)"
  by (induction vs arbitrary: ids)
    (simp_all only: import_sessions.simps import_session_def,
      (intro keep feeding | assumption | simp add: insert_imported_session_def refresh_session_def)+)

lemma fed_insert_events: "tx_hoare (fed db0) (insert_events pg now rid es) (\<lambda>_. fed db0)"
  by (induction es)
    (simp_all only: insert_events.simps, (intro keep feeding | assumption | simp add: add_run_event_def)+)

lemma fed_import_run: "tx_hoare (fed db0) (import_run pg now ids r) (\<lambda>_. fed db0)"
  unfolding import_run_def write_run_def
  by (intro fed_insert_events fed_add keep feeding) (simp_all add: overwrite_run_def delete_events_def add_run_def)

lemma fed_import_runs: "tx_hoare (fed db0) (import_runs pg now ids rs) (\<lambda>_. fed db0)"
  by (induction rs) (simp_all only: import_runs.simps, (intro keep fed_import_run | assumption)+)

lemma fed_batch: "tx_hoare (fed db0) (batch_body pg now b) (\<lambda>_. fed db0)"
  unfolding batch_body_def import_batch_def reconcile_def
  by (intro fed_import_projects fed_import_sessions fed_import_runs keep feeding)
    (simp_all add: archive_sessions_def archive_projects_def advance_job_def deliver_bootstrap_def)

lemma rt_step_fed: "rt_step imp pg db db' \<Longrightarrow> fed db db'"
proof (induction rule: rt_step.induct)
  case (step_import batch flt now db r db')
  then show ?case using keep_run_tx [OF fed_batch fed_refl] by blast
qed (metis rt_step_grown grown_def fed_def rt_step.intros)+

lemma rt_steps_fed: "rt_steps imp pg db db' \<Longrightarrow> fed db db'"
  by (induction rule: rtranclp_induct) (auto intro: rt_step_fed fed_trans)

subsection \<open>The feed as an append-only log\<close>

locale append_log =
  fixes entries :: "'st \<Rightarrow> 'e list" and read_after :: "'st \<Rightarrow> int \<Rightarrow> 'e list"
    and step :: "'st \<Rightarrow> 'st \<Rightarrow> bool" and ok :: "'st \<Rightarrow> bool"
  assumes append_only: "step s s' \<Longrightarrow> prefix (entries s) (entries s')"
    and ok_step: "ok s \<Longrightarrow> step s s' \<Longrightarrow> ok s'"
    and read_drop: "ok s \<Longrightarrow> 0 \<le> c \<Longrightarrow> read_after s c = drop (nat c) (entries s)"
begin

lemma steps_prefix: "step\<^sup>*\<^sup>* s s' \<Longrightarrow> prefix (entries s) (entries s')"
  by (induction rule: rtranclp_induct) (auto intro: append_only prefix_order.trans)

lemma steps_ok: "step\<^sup>*\<^sup>* s s' \<Longrightarrow> ok s \<Longrightarrow> ok s'"
  by (induction rule: rtranclp_induct) (auto intro: ok_step)

text \<open>A reader that is up to date and reads again later gets exactly what was added.\<close>

lemma catch_up:
  assumes "ok s" "step\<^sup>*\<^sup>* s s'"
  shows "entries s' = entries s @ read_after s' (int (length (entries s)))"
proof -
  obtain zs where "entries s' = entries s @ zs" using steps_prefix [OF assms(2)] by (auto simp: prefix_def)
  moreover have "read_after s' (int (length (entries s))) = drop (length (entries s)) (entries s')"
    using read_drop [OF steps_ok [OF assms(2,1)], of "int (length (entries s))"] by simp
  ultimately show ?thesis by simp
qed

end

definition feed_log :: "rt_db \<Rightarrow> string \<Rightarrow> session_event list" where
  "feed_log db sid = map session_event_of (filter (\<lambda>e. sev_session e = sid) (session_events db))"

lemma feed_log_seqs: "map sevent_Sequence (feed_log db sid) = feed_seqs db sid"
  by (simp add: feed_log_def feed_seqs_def session_event_of_def)

lemma numbered_drop:
  "map f xs = [m + 1..m + int (length xs)] \<Longrightarrow> m \<le> c \<Longrightarrow> filter (\<lambda>x. c < f x) xs = drop (nat (c - m)) xs"
proof (induction xs arbitrary: m)
  case (Cons x xs)
  have "[m + 1..m + int (length (x # xs))] = (m + 1) # [(m + 1) + 1..(m + 1) + int (length xs)]"
    using upto_rec1 [of "m + 1" "m + int (length (x # xs))"] by (simp add: ac_simps)
  with Cons.prems(1) have x: "f x = m + 1" and xs: "map f xs = [(m + 1) + 1..(m + 1) + int (length xs)]"
    by (simp_all only: list.map list.inject)
  show ?case
  proof (cases "c = m")
    case True
    have "\<forall>y \<in> set xs. m < f y"
    proof
      fix y assume "y \<in> set xs"
      then have "f y \<in> set [(m + 1) + 1..(m + 1) + int (length xs)]" using xs by (metis image_eqI list.set_map)
      then show "m < f y" by simp
    qed
    with x True show ?thesis by (simp add: filter_id_conv)
  next
    case False
    with Cons.prems(2) have "m + 1 \<le> c" by simp
    moreover from this have "nat (c - m) = Suc (nat (c - (m + 1)))" by simp
    ultimately show ?thesis using Cons.IH [OF xs] x by simp
  qed
qed simp

lemma session_numbers:
  assumes "rt_inv db"
  shows "feed_seqs db sid = [1..int (length (feed_seqs db sid))]"
proof (cases "sid \<in> ses_id ` set (sessions db)")
  case True
  then obtain s where s: "s \<in> set (sessions db)" "sid = ses_id s" by blast
  then have "0 \<le> ses_last s" using rt_inv_schema [OF assms] by (auto simp: rt_schema_def sessions_ok_def)
  then show ?thesis using assms s by (auto simp: rt_inv_def feed_inv_def)
next
  case False
  have "\<forall>e \<in> set (session_events db). sev_session e \<in> ses_id ` set (sessions db)"
    using rt_inv_schema [OF assms] by (simp add: rt_schema_def session_events_ok_def)
  with False have "feed_seqs db sid = []" unfolding feed_seqs_def by (simp add: filter_empty_conv) metis
  then show ?thesis by simp
qed

lemma session_events_after_drop:
  assumes "rt_inv db" "0 \<le> c"
  shows "session_events_after sid c db = drop (nat c) (feed_log db sid)"
proof -
  let ?es = "filter (\<lambda>e. sev_session e = sid) (session_events db)"
  have nums: "map sev_seq ?es = [0 + 1..0 + int (length ?es)]"
    using session_numbers [OF assms(1), of sid] by (simp add: feed_seqs_def)
  have "filter (\<lambda>e. sev_session e = sid \<and> c < sev_seq e) (session_events db) = filter (\<lambda>e. c < sev_seq e) ?es"
    by (simp add: conj_commute)
  also have "\<dots> = drop (nat c) ?es" using numbered_drop [OF nums assms(2)] by simp
  finally have flt: "filter (\<lambda>e. sev_session e = sid \<and> c < sev_seq e) (session_events db) = drop (nat c) ?es" .
  have "sorted (map sev_seq ?es)" using nums by simp
  then have "sorted (map sev_seq (drop (nat c) ?es))" by (metis drop_map sorted_wrt_drop)
  then show ?thesis unfolding session_events_after_def flt feed_log_def by (simp add: sorted_sort_id drop_map sort_key_id_if_sorted)
qed

interpretation session_feed: append_log "\<lambda>db. feed_log db sid" "\<lambda>db c. session_events_after sid c db" "rt_step True pg" rt_inv
  for sid pg
proof unfold_locales
  show "prefix (feed_log s sid) (feed_log s' sid)" if "rt_step True pg s s'" for s s'
    using rt_step_fed [OF that] by (auto simp: fed_def prefix_def feed_log_def)
  show "rt_inv s'" if "rt_inv s" "rt_step True pg s s'" for s s'
    using rt_step_inv [OF that(2,1)] .
  show "session_events_after sid c s = drop (nat c) (feed_log s sid)" if "rt_inv s" "0 \<le> c" for s c
    using session_events_after_drop [OF that] .
qed

text \<open>
  Property C9. The feed of a session refines an append-only log: in every reachable state its entries
  are numbered 1, 2, 3, ... without a gap, a query after cursor \<open>c\<close> answers with the log less its
  first \<open>c\<close> entries, and a reader that had read everything and queries again in any later state
  gets exactly the entries added since: none is lost, repeated or changed.
\<close>

theorem session_feed_refines_log:
  assumes "rt_steps True pg empty_db db" "rt_steps True pg db db'" "0 \<le> c"
  shows "map sevent_Sequence (feed_log db sid) = [1..int (length (feed_log db sid))]
    \<and> ListSessionEvents Delivered sid c db = Inr (drop (nat c) (feed_log db sid))
    \<and> (\<exists>added. ListSessionEvents Delivered sid (int (length (feed_log db sid))) db' = Inr added
          \<and> feed_log db' sid = feed_log db sid @ added)"
proof (intro conjI)
  have inv: "rt_inv db" using reachable_inv [OF assms(1)] .
  show "map sevent_Sequence (feed_log db sid) = [1..int (length (feed_log db sid))]"
    using session_numbers [OF inv, of sid] by (metis feed_log_seqs length_map)
  show "ListSessionEvents Delivered sid c db = Inr (drop (nat c) (feed_log db sid))"
    using session_events_after_drop [OF inv assms(3)] by (simp add: ListSessionEvents_def pool_query_def)
  show "\<exists>added. ListSessionEvents Delivered sid (int (length (feed_log db sid))) db' = Inr added
      \<and> feed_log db' sid = feed_log db sid @ added"
    using session_feed.catch_up [OF inv assms(2), of sid] by (simp add: ListSessionEvents_def pool_query_def)
qed

subsection \<open>Pages\<close>

text \<open>
  The loop of a client that follows the pages: it asks for the page after its cursor, moves the
  cursor to the last event, and goes on while there are more. \<open>None\<close>: out of fuel, or an error.
\<close>

fun read_pages :: "(int \<Rightarrow> rt_error + 'e list \<times> bool) \<Rightarrow> ('e \<Rightarrow> int) \<Rightarrow> nat \<Rightarrow> int \<Rightarrow> 'e list option" where
  "read_pages page num 0 c = None"
| "read_pages page num (Suc fuel) c =
     (case page c of
        Inl _ \<Rightarrow> None
      | Inr (es, hasMore) \<Rightarrow>
          if hasMore then map_option (\<lambda>rest. es @ rest) (read_pages page num fuel (num (last es))) else Some es)"

locale event_pages =
  fixes events_after :: "int \<Rightarrow> 'e list" and page :: "int \<Rightarrow> int \<Rightarrow> rt_error + 'e list \<times> bool" and num :: "'e \<Rightarrow> int"
  assumes ascending: "sorted (map num (events_after c))"
    and beyond: "c \<le> d \<Longrightarrow> events_after d = filter (\<lambda>e. d < num e) (events_after c)"
    and page_take: "1 \<le> limit \<Longrightarrow>
      page c limit = Inr (take (nat limit) (events_after c), limit < int (length (events_after c)))"
    and page_limit: "limit < 1 \<Longrightarrow> page c limit = Inl ErrPageLimit"
begin

lemma events_after_num: "e \<in> set (events_after c) \<Longrightarrow> c < num e"
  using beyond [of c c] by (metis (mono_tags, lifting) mem_Collect_eq order_refl set_filter)

text \<open>The page after the last event of a page is the rest.\<close>

lemma after_page:
  assumes "distinct (map num (events_after c))" "0 < n" "n \<le> length (events_after c)"
  shows "events_after (num (last (take n (events_after c)))) = drop n (events_after c)"
proof -
  let ?es = "events_after c"
  have sw: "sorted_wrt (\<lambda>a b. num a < num b) ?es"
  proof -
    have "sorted_wrt (<) (map num ?es)" using ascending [of c] assms(1) by (simp add: strict_sorted_iff)
    then show ?thesis by (simp add: sorted_wrt_map)
  qed
  have "take n ?es \<noteq> []" using assms(2,3) by auto
  then have ls: "last (take n ?es) = ?es ! (n - 1)" "n - 1 < length ?es"
    using assms(2,3) by (auto simp: last_conv_nth min_absorb2)
  then have cn: "c \<le> num (last (take n ?es))" using events_after_num [of "?es ! (n - 1)" c] by (simp add: less_imp_le)
  have "\<forall>e \<in> set (take n ?es). \<not> num (?es ! (n - 1)) < num e"
  proof
    fix e assume "e \<in> set (take n ?es)"
    then obtain i where i: "i < n" "e = ?es ! i" using assms(3) by (auto simp: in_set_conv_nth)
    then show "\<not> num (?es ! (n - 1)) < num e"
    proof (cases "i < n - 1")
      case True
      then show ?thesis using sorted_wrt_nth_less [OF sw True ls(2)] i(2) by simp
    next
      case False
      then have "i = n - 1" using i(1) by linarith
      then show ?thesis using i(2) by simp
    qed
  qed
  moreover have "\<forall>e \<in> set (drop n ?es). num (?es ! (n - 1)) < num e"
  proof
    fix e assume "e \<in> set (drop n ?es)"
    then obtain i where "i < length (drop n ?es)" "e = drop n ?es ! i" by (metis in_set_conv_nth)
    then have i: "n + i < length ?es" "e = ?es ! (n + i)" by simp_all
    then show "num (?es ! (n - 1)) < num e"
      using sorted_wrt_nth_less [OF sw, of "n - 1" "n + i"] assms(2) by simp
  qed
  ultimately have "filter (\<lambda>e. num (?es ! (n - 1)) < num e) (take n ?es @ drop n ?es) = drop n ?es"
    by (simp add: filter_empty_conv filter_id_conv del: append_take_drop_id)
  then show ?thesis using beyond [OF cn] ls(1) by simp
qed

text \<open>A page and what the next cursor leaves are all events after the cursor.\<close>

lemma page_split:
  assumes "distinct (map num (events_after c))" "1 \<le> limit" "page c limit = Inr (es, hasMore)"
  defines "d \<equiv> if es = [] then c else num (last es)"
  shows "events_after c = es @ events_after d" "hasMore \<longleftrightarrow> events_after d \<noteq> []" "c \<le> d" "length es \<le> nat limit" "hasMore \<Longrightarrow> es \<noteq> []"
proof -
  let ?E = "events_after c"
  have es: "es = take (nat limit) ?E" "hasMore \<longleftrightarrow> limit < int (length ?E)" using assms(2,3) by (auto simp: page_take)
  then show "length es \<le> nat limit" by simp
  from es show "hasMore \<Longrightarrow> es \<noteq> []" using assms(2) by auto
  define n where "n = min (nat limit) (length ?E)"
  have n: "es = take n ?E" "hasMore \<longleftrightarrow> n < length ?E" using es assms(2) by (auto simp: n_def min_def)
  show "c \<le> d"
    using events_after_num [of "last es" c] es(1) last_in_set [of es] set_take_subset by (fastforce simp: d_def)
  have "events_after d = drop n ?E"
  proof (cases "es = []")
    case True
    then have "?E = []" using es(1) assms(2) by auto
    then show ?thesis using True by (simp add: d_def)
  next
    case False
    then show ?thesis using after_page [OF assms(1), of n] n(1) by (auto simp: d_def n_def)
  qed
  then show "?E = es @ events_after d" "hasMore \<longleftrightarrow> events_after d \<noteq> []" using n by (simp_all add: not_le)
qed

lemma read_all:
  assumes "1 \<le> limit"
  shows "distinct (map num (events_after c)) \<Longrightarrow> length (events_after c) < fuel \<Longrightarrow>
    read_pages (\<lambda>c. page c limit) num fuel c = Some (events_after c)"
proof (induction fuel arbitrary: c)
  case (Suc fuel)
  let ?es = "events_after c" and ?n = "nat limit"
  show ?case
  proof (cases "limit < int (length ?es)")
    case True
    then have rest: "events_after (num (last (take ?n ?es))) = drop ?n ?es"
      using after_page [OF Suc.prems(1), of ?n] assms by simp
    have "distinct (map num (drop ?n ?es))" using Suc.prems(1) by (metis distinct_drop drop_map)
    moreover have "length (drop ?n ?es) < fuel" using Suc.prems(2) assms True by simp
    ultimately have "read_pages (\<lambda>c. page c limit) num fuel (num (last (take ?n ?es))) = Some (drop ?n ?es)"
      using Suc.IH [of "num (last (take ?n ?es))"] rest by simp
    with True assms show ?thesis by (simp add: page_take)
  next
    case False
    with assms show ?thesis by (simp add: page_take)
  qed
qed simp

end

lemma sort_key_filter_gt:
  "c \<le> d \<Longrightarrow> sort_key f (filter (\<lambda>e. P e \<and> d < f e) xs) = filter (\<lambda>e. d < f e) (sort_key f (filter (\<lambda>e. P e \<and> c < f e) xs))"
  for d :: "'k::linorder"
  unfolding filter_sort [symmetric] filter_filter by (rule filter_cong) auto

interpretation run_pages: event_pages "\<lambda>c. run_events_after rid c db" "\<lambda>c limit. ListRunEventsPage Delivered rid c limit db"
  revent_Sequence for rid db
proof unfold_locales
  have seq: "(\<lambda>e. revent_Sequence (run_event_of e)) = rev_seq" by (simp add: fun_eq_iff run_event_of_def)
  show "sorted (map revent_Sequence (run_events_after rid c db))" for c
    by (simp add: run_events_after_def comp_def seq)
  show "run_events_after rid d db = filter (\<lambda>e. d < revent_Sequence e) (run_events_after rid c db)" if "c \<le> d" for c d
    using sort_key_filter_gt [OF that, of rev_seq "\<lambda>e. rev_run e = rid" "run_events db"]
    by (simp add: run_events_after_def filter_map comp_def run_event_of_def)
qed (auto simp: ListRunEventsPage_def pool_query_def Let_def min_def)

interpretation session_pages: event_pages "\<lambda>c. session_events_after sid c db"
  "\<lambda>c limit. ListSessionEventsPage Delivered sid c limit db" sevent_Sequence for sid db
proof unfold_locales
  have seq: "(\<lambda>e. sevent_Sequence (session_event_of e)) = sev_seq" by (simp add: fun_eq_iff session_event_of_def)
  show "sorted (map sevent_Sequence (session_events_after sid c db))" for c
    by (simp add: session_events_after_def comp_def seq)
  show "session_events_after sid d db = filter (\<lambda>e. d < sevent_Sequence e) (session_events_after sid c db)" if "c \<le> d" for c d
    using sort_key_filter_gt [OF that, of sev_seq "\<lambda>e. sev_session e = sid" "session_events db"]
    by (simp add: session_events_after_def filter_map comp_def session_event_of_def)
qed (auto simp: ListSessionEventsPage_def pool_query_def Let_def min_def)

lemma stored_distinct:
  assumes "rt_schema db"
  shows "distinct (map revent_Sequence (run_events_after rid c db))"
    and "distinct (map sevent_Sequence (session_events_after sid c db))"
proof -
  have "distinct (map rev_seq (filter (\<lambda>e. rev_run e = rid \<and> c < rev_seq e) (run_events db)))"
    using assms unfolding rt_schema_def run_events_ok_def by (auto simp: distinct_map intro!: inj_onI dest: inj_onD)
  then show "distinct (map revent_Sequence (run_events_after rid c db))"
    by (simp add: run_events_after_def comp_def run_event_of_def distinct_map)
  have "distinct (map sev_seq (filter (\<lambda>e. sev_session e = sid \<and> c < sev_seq e) (session_events db)))"
    using assms unfolding rt_schema_def session_events_ok_def by (auto simp: distinct_map intro!: inj_onI dest: inj_onD)
  then show "distinct (map sevent_Sequence (session_events_after sid c db))"
    by (simp add: session_events_after_def comp_def session_event_of_def distinct_map)
qed

text \<open>
  Property C39. Following the pages of a run or of a session always ends and gives every event after
  the cursor exactly once, in order: in every reachable state, for every positive page size,
  one request more than there are events is enough.
\<close>

theorem pages_reassemble:
  assumes "rt_steps True pg empty_db db" "1 \<le> limit"
  shows "read_pages (\<lambda>c. ListRunEventsPage Delivered rid c limit db) revent_Sequence
           (Suc (length (run_events_after rid c db))) c = Some (run_events_after rid c db)
    \<and> read_pages (\<lambda>c. ListSessionEventsPage Delivered sid c limit db) sevent_Sequence
           (Suc (length (session_events_after sid c db))) c = Some (session_events_after sid c db)"
  using stored_distinct [OF rt_inv_schema [OF reachable_inv [OF assms(1)]]]
  by (intro conjI run_pages.read_all [OF assms(2)] session_pages.read_all [OF assms(2)]) simp_all

theorem session_feed_refines_log_witness:
  "\<exists>added. ListSessionEvents Delivered ''s'' (int (length (feed_log demo_store ''s''))) demo_running = Inr added
     \<and> length added = 1 \<and> feed_log demo_running ''s'' = feed_log demo_store ''s'' @ added"
proof -
  have "length (feed_log demo_running ''s'') = 1" "feed_log demo_store ''s'' = []"
    by (simp_all add: feed_log_def demo_running_def with_run_def Let_def add_command_def add_session_event_def
        bump_session_def add_run_def demo_session_def)
  then show ?thesis
    using session_feed_refines_log [OF demo_reachable [of True demo_pg] demo_create [of True], of 0 "''s''"] by auto
qed

theorem pages_reassemble_witness:
  "read_pages (\<lambda>c. ListSessionEventsPage Delivered ''s'' c 1 demo_running) sevent_Sequence
     (Suc (length (session_events_after ''s'' 0 demo_running))) 0 = Some (session_events_after ''s'' 0 demo_running)"
  using pages_reassemble [OF demo_running_reachable [of True], of 1 demo_rid 0 "''s''"] by simp

end
