(* ===== verification/Runtime_Poll.thy ===== *)
theory Runtime_Poll
  imports Runtime_Http Runtime_Feed Coordinator_Properties
begin

section \<open>The Runtime API: polls and event streams\<close>

text \<open>
  The long polls and the server-sent event streams of \<^verbatim>\<open>internal/runtime/http.go\<close>. A poll is a loop
  of rounds: a round answers, or the request waits for a notification and goes round again. The
  loop takes fuel; as a round that starts after the deadline answers, a clock that passes the
  deadline bounds the rounds. A stream is a sequence of ticks on a cursor.

  Payloads of events are read into \<open>map[string]any\<close> and written again: \<open>fmt\<close> is what
  \<open>json.Marshal\<close> writes for the \<open>float64\<close> of a number, a parameter. A payload \<open>null\<close> leaves the map
  nil, so that setting a member panics; \<open>None\<close> is that panic, after which the server aborts
  the response.
\<close>

subsection \<open>Maps of any values\<close>

fun str_le :: "string \<Rightarrow> string \<Rightarrow> bool" where
  "str_le [] t \<longleftrightarrow> True"
| "str_le (c # cs) [] \<longleftrightarrow> False"
| "str_le (c # cs) (d # ds) \<longleftrightarrow> (of_char c :: nat) < of_char d \<or> c = d \<and> str_le cs ds"

definition marshal_map :: "(string \<times> json) list \<Rightarrow> json" where
  "marshal_map ms = JObj (order_by (\<lambda>a b. str_le (fst a) (fst b)) ms)"

fun any_json :: "(json \<Rightarrow> json) \<Rightarrow> json \<Rightarrow> json" where
  "any_json fmt (JNum n) = fmt (JNum n)"
| "any_json fmt (JReal s) = fmt (JReal s)"
| "any_json fmt (JArr js) = JArr (map (any_json fmt) js)"
| "any_json fmt (JObj ms) = marshal_map (object_map (map (\<lambda>(k, j). (k, any_json fmt j)) ms))"
| "any_json fmt j = j"

definition event_fields :: "(json \<Rightarrow> json) \<Rightarrow> json \<Rightarrow> (string \<times> json) list option" where
  "event_fields fmt payload =
     (case payload of
        JNull \<Rightarrow> None
      | JObj ms \<Rightarrow>
          if any_ok payload then Some (object_map (map (\<lambda>(k, j). (k, any_json fmt j)) ms)) else Some [(''payload'', payload)]
      | _ \<Rightarrow> Some [(''payload'', payload)])"

definition normalizeRuntimeEvent :: "(json \<Rightarrow> json) \<Rightarrow> string \<Rightarrow> run_event \<Rightarrow> json option" where
  "normalizeRuntimeEvent fmt runID event =
     map_option (\<lambda>fields.
       let f1 = set_member ''type'' (JStr (revent_Type event)) (set_member ''run_id'' (JStr runID)
                  (set_member ''runId'' (JStr runID) (set_member ''id'' (JStr (FormatInt (revent_Sequence event))) fields)));
           f2 = (if revent_Type event = ''assistant.delta'' then
                   (case map_of f1 ''text'' of Some text_value \<Rightarrow> set_member ''delta'' text_value f1 | None \<Rightarrow> f1)
                 else f1) in
       marshal_map f2) (event_fields fmt (revent_Payload event))"

definition normalizeSessionRuntimeEvent :: "(json \<Rightarrow> json) \<Rightarrow> string \<Rightarrow> session_event \<Rightarrow> json option" where
  "normalizeSessionRuntimeEvent fmt sessionID event =
     map_option (\<lambda>fields.
       let f1 = set_member ''session_id'' (JStr sessionID) (set_member ''type'' (JStr (sevent_Type event))
                  (set_member ''id'' (JStr (FormatInt (sevent_Sequence event))) fields));
           f2 = (case map_of f1 ''run_id'' of
                   Some (JStr runID) \<Rightarrow> if runID \<noteq> [] then set_member ''runId'' (JStr runID) f1 else f1
                 | _ \<Rightarrow> f1) in
       marshal_map f2) (event_fields fmt (sevent_Payload event))"

fun all_some :: "'a option list \<Rightarrow> 'a list option" where
  "all_some [] = Some []"
| "all_some (x # xs) = (case x of None \<Rightarrow> None | Some a \<Rightarrow> map_option ((#) a) (all_some xs))"

subsection \<open>Polls\<close>

definition defaultPollWait :: duration where "defaultPollWait = 15 * second"
definition maxPollWait :: duration where "maxPollWait = 15 * second"
definition defaultPollSize :: int where "defaultPollSize = 100"
definition maxPollSize :: int where "maxPollSize = 100"

lemmas poll_consts = defaultPollWait_def maxPollWait_def defaultPollSize_def maxPollSize_def

definition parsePollQuery :: "http_request \<Rightarrow> (int \<times> duration \<times> int) option" where
  "parsePollQuery r =
     (let pa = ParseInt (query r ''after''); pw = ParseInt (query r ''wait_ms''); pl = Atoi (query r ''limit'') in
      if query r ''after'' \<noteq> [] \<and> (\<not> snd pa \<or> fst pa < 0) then None
      else if query r ''wait_ms'' \<noteq> [] \<and> (\<not> snd pw \<or> fst pw < 0 \<or> maxPollWait div millisecond < fst pw) then None
      else if query r ''limit'' \<noteq> [] \<and> (case pl of None \<Rightarrow> True | Some n \<Rightarrow> n < 1 \<or> maxPollSize < n) then None
      else Some
        (if query r ''after'' = [] then 0 else fst pa,
         if query r ''wait_ms'' = [] then defaultPollWait else fst pw * millisecond,
         case pl of Some n \<Rightarrow> if query r ''limit'' = [] then defaultPollSize else n | None \<Rightarrow> defaultPollSize))"

record poll_result =
  po_events :: "json list"
  po_next_cursor :: int
  po_has_more :: bool
  po_timed_out :: bool
  po_terminal :: bool
  po_status :: string

definition poll_result_json :: "poll_result \<Rightarrow> json" where
  "poll_result_json p = JObj
     (member ''events'' (JArr (po_events p)) @ member ''next_cursor'' (JNum (po_next_cursor p))
      @ member ''has_more'' (JBool (po_has_more p)) @ member ''timed_out'' (JBool (po_timed_out p))
      @ member ''terminal'' (JBool (po_terminal p)) @ omit_if (po_status p = []) ''status'' (JStr (po_status p)))"

datatype poll_outcome =
    Answered poll_result
  | Failed nat string bool
  | Dropped_request
  | Panicked
  | Again

definition poll_response :: "poll_outcome \<Rightarrow> http_response option" where
  "poll_response out =
     (case out of
        Answered p \<Rightarrow> Some (api_writeData 200 (poll_result_json p))
      | Failed status code retryable \<Rightarrow> Some (api_writeError status code retryable)
      | Dropped_request \<Rightarrow> Some no_response
      | Panicked \<Rightarrow> None
      | Again \<Rightarrow> None)"

text \<open>An error of the store: nothing is written when the request's context is done.\<close>

definition store_failed :: "'k api_env \<Rightarrow> nat \<Rightarrow> poll_outcome" where
  "store_failed ae n = (if ae_cancelled ae n then Dropped_request else Failed 500 ''INTERNAL_ERROR'' True)"

definition session_poll_round :: "(json \<Rightarrow> json) \<Rightarrow> 'k api_env \<Rightarrow> 'k coord_env \<Rightarrow> string \<Rightarrow> int \<Rightarrow> duration \<Rightarrow> int \<Rightarrow> time \<Rightarrow>
    nat \<Rightarrow> 'k coord \<Rightarrow> poll_outcome \<times> 'k coord" where
  "session_poll_round fmt ae ce sid cursor wait limit deadline n c =
     (let (res, c1) = read_call ce (\<lambda>wr. ListSessionEventsPage wr sid cursor limit) c in
      case res of
        Inl _ \<Rightarrow> (store_failed ae n, c1)
      | Inr (events, hasMore) \<Rightarrow>
          if events \<noteq> [] then
            (case all_some (map (normalizeSessionRuntimeEvent fmt sid) events) of
               None \<Rightarrow> (Panicked, c1)
             | Some items \<Rightarrow>
                 (Answered \<lparr>po_events = items, po_next_cursor = sevent_Sequence (last events), po_has_more = hasMore,
                    po_timed_out = False, po_terminal = False, po_status = []\<rparr>, c1))
          else if wait = 0 \<or> after (ae_clock ae n) deadline then
            (Answered \<lparr>po_events = [], po_next_cursor = cursor, po_has_more = False, po_timed_out = 0 < wait,
               po_terminal = False, po_status = []\<rparr>, c1)
          else (Again, c1))"

definition run_poll_round :: "(json \<Rightarrow> json) \<Rightarrow> 'k api_env \<Rightarrow> 'k coord_env \<Rightarrow> string \<Rightarrow> int \<Rightarrow> duration \<Rightarrow> int \<Rightarrow> time \<Rightarrow>
    nat \<Rightarrow> 'k coord \<Rightarrow> poll_outcome \<times> 'k coord" where
  "run_poll_round fmt ae ce rid cursor wait limit deadline n c =
     (let (got_run, c0) = store_call ce (\<lambda>rc. GetRun rc 0 rid False) c in
      case got_run of
        Inl err \<Rightarrow>
          (if err = Runtime_Tables.ErrNotFound then Failed 404 ''RUN_NOT_FOUND'' False else store_failed ae n, c0)
      | Inr run \<Rightarrow>
          (let (res, c1) = read_call ce (\<lambda>wr. ListRunEventsPage wr rid cursor limit) c0;
               terminal = isTerminal (run_Status run) in
           case res of
             Inl _ \<Rightarrow> (store_failed ae n, c1)
           | Inr (events, hasMore) \<Rightarrow>
               if events \<noteq> [] then
                 (case all_some (map (normalizeRuntimeEvent fmt rid) events) of
                    None \<Rightarrow> (Panicked, c1)
                  | Some items \<Rightarrow>
                      (Answered \<lparr>po_events = items, po_next_cursor = revent_Sequence (last events), po_has_more = hasMore,
                         po_timed_out = False, po_terminal = terminal, po_status = run_Status run\<rparr>, c1))
               else if terminal \<or> wait = 0 \<or> after (ae_clock ae n) deadline then
                 (Answered \<lparr>po_events = [], po_next_cursor = cursor, po_has_more = False,
                    po_timed_out = (0 < wait \<and> \<not> terminal), po_terminal = terminal, po_status = run_Status run\<rparr>, c1)
               else (Again, c1)))"

text \<open>Waiting: the broker's waiter if it has one; a failed wait falls back to a timer. Then the others go on.\<close>

definition waitForPoll :: "'k api_env \<Rightarrow> (string \<Rightarrow> 'k \<Rightarrow> (broker_error + unit) \<times> 'k) option \<Rightarrow> string \<Rightarrow> time \<Rightarrow> nat \<Rightarrow>
    world \<times> 'k coord \<Rightarrow> world \<times> 'k coord" where
  "waitForPoll ae waiter resource deadline n st =
     (let (w, c) = st;
          c1 = (if deadline - ae_clock ae n \<le> 0 then c
                else case waiter of Some f \<Rightarrow> snd (broker_call (f resource) c) | None \<Rightarrow> c) in
      ae_meanwhile ae n (w, c1))"

fun poll_loop :: "(nat \<Rightarrow> 'k coord \<Rightarrow> poll_outcome \<times> 'k coord) \<Rightarrow> (nat \<Rightarrow> world \<times> 'k coord \<Rightarrow> world \<times> 'k coord) \<Rightarrow>
    nat \<Rightarrow> nat \<Rightarrow> world \<times> 'k coord \<Rightarrow> (poll_outcome \<times> world \<times> 'k coord) option" where
  "poll_loop round wait 0 n st = None"
| "poll_loop round wait (Suc fuel) n st =
     (let (w, c) = st; (out, c1) = round n c in
      if out = Again then poll_loop round wait fuel (Suc n) (wait n (w, c1)) else Some (out, w, c1))"

definition runEventsPoll :: "(json \<Rightarrow> json) \<Rightarrow> 'k api_env \<Rightarrow> 'k coord_env \<Rightarrow> string \<Rightarrow> http_request \<Rightarrow> nat \<Rightarrow>
    world \<times> 'k coord \<Rightarrow> (poll_outcome \<times> world \<times> 'k coord) option" where
  "runEventsPoll fmt ae ce rid r fuel st =
     (case parsePollQuery r of
        None \<Rightarrow> Some (Failed 400 ''POLL_QUERY_INVALID'' False, st)
      | Some (cursor, wait, limit) \<Rightarrow>
          (let deadline = ae_clock ae 0 + wait in
           poll_loop (run_poll_round fmt ae ce rid cursor wait limit deadline)
             (waitForPoll ae (br_WaitForRun (ce_broker ce)) rid deadline) fuel 1 st))"

definition sessionEventsPoll :: "(json \<Rightarrow> json) \<Rightarrow> 'k api_env \<Rightarrow> 'k coord_env \<Rightarrow> string \<Rightarrow> http_request \<Rightarrow> nat \<Rightarrow>
    world \<times> 'k coord \<Rightarrow> (poll_outcome \<times> world \<times> 'k coord) option" where
  "sessionEventsPoll fmt ae ce sid r fuel st =
     (case parsePollQuery r of
        None \<Rightarrow> Some (Failed 400 ''POLL_QUERY_INVALID'' False, st)
      | Some (cursor, wait, limit) \<Rightarrow>
          (let (w, c) = st; (found, c1) = read_call ce (\<lambda>wr. GetSession wr sid) c in
           case found of
             Inl err \<Rightarrow>
               Some (if err = Runtime_Tables.ErrNotFound then Failed 404 ''SESSION_NOT_FOUND'' False
                     else Failed 500 ''INTERNAL_ERROR'' True, w, c1)
           | Inr _ \<Rightarrow>
               (let deadline = ae_clock ae 0 + wait in
                poll_loop (session_poll_round fmt ae ce sid cursor wait limit deadline)
                  (waitForPoll ae (br_WaitForSession (ce_broker ce)) sid deadline) fuel 1 (w, c1))))"

subsection \<open>Every poll answers\<close>

text \<open>
  A loop of rounds: a round that starts late answers, and both a round and the wait between rounds
  keep what is known of the state.
\<close>

locale polling =
  fixes round :: "nat \<Rightarrow> 'k coord \<Rightarrow> poll_outcome \<times> 'k coord" and wait :: "nat \<Rightarrow> world \<times> 'k coord \<Rightarrow> world \<times> 'k coord"
    and late :: "nat \<Rightarrow> bool" and ok :: "'k coord \<Rightarrow> bool"
  assumes late_round: "late n \<Longrightarrow> fst (round n c) \<noteq> Again"
    and round_ok: "ok c \<Longrightarrow> ok (snd (round n c))"
    and wait_ok: "ok c \<Longrightarrow> ok (snd (wait n (w, c)))"
begin

lemma loop_answers:
  "late (n + k) \<Longrightarrow> k < fuel \<Longrightarrow> ok c \<Longrightarrow>
   \<exists>out w' c' m c0. poll_loop round wait fuel n (w, c) = Some (out, w', c') \<and> out \<noteq> Again \<and> ok c' \<and> round m c0 = (out, c')"
proof (induction fuel arbitrary: n k w c)
  case (Suc fuel)
  obtain out c1 where r: "round n c = (out, c1)" by fastforce
  have ok1: "ok c1" using round_ok [OF Suc.prems(3), of n] r by simp
  show ?case
  proof (cases "out = Again")
    case True
    obtain w2 c2 where w2: "wait n (w, c1) = (w2, c2)" by fastforce
    have "ok c2" using wait_ok [OF ok1, of n w] w2 by simp
    moreover have "k \<noteq> 0" using late_round [of n c] r True Suc.prems(1) by (metis add.right_neutral fst_conv)
    ultimately show ?thesis
      using Suc.IH [of "Suc n" "k - 1" c2 w2] Suc.prems(1,2) r True w2 by auto
  next
    case False
    then show ?thesis using r ok1 by auto
  qed
qed simp

end

definition api_calm :: "'k api_env \<Rightarrow> 'k coord_env \<Rightarrow> bool" where
  "api_calm ae ce \<longleftrightarrow> calm_env True ce \<and>
     (\<forall>n st. rt_steps True (ce_pg ce) (co_db (snd st)) (co_db (snd (ae_meanwhile ae n st))))"

definition db_reached :: "'k api_env \<Rightarrow> 'k coord_env \<Rightarrow> 'k coord \<Rightarrow> bool" where
  "db_reached ae ce c \<longleftrightarrow> (api_calm ae ce \<longrightarrow> rt_steps True (ce_pg ce) empty_db (co_db c))"

lemma db_reached_moves: "db_reached ae ce c \<Longrightarrow> db_moves True ce c c' \<Longrightarrow> db_reached ae ce c'"
  unfolding db_reached_def db_moves_def api_calm_def by (meson rtranclp_trans)

lemma db_reached_wait: "db_reached ae ce c \<Longrightarrow> db_reached ae ce (snd (waitForPoll ae waiter res deadline n (w, c)))"
proof -
  assume r: "db_reached ae ce c"
  define c1 where "c1 = (if deadline - ae_clock ae n \<le> 0 then c
      else case waiter of Some f \<Rightarrow> snd (broker_call (f res) c) | None \<Rightarrow> c)"
  have "co_db c1 = co_db c" by (simp add: c1_def split: option.split)
  moreover have "waitForPoll ae waiter res deadline n (w, c) = ae_meanwhile ae n (w, c1)"
    by (simp add: waitForPoll_def c1_def)
  ultimately show ?thesis
    using r unfolding db_reached_def api_calm_def by (metis rtranclp_trans snd_conv)
qed

lemma moves_run_round: "db_moves True ce c (snd (run_poll_round fmt ae ce rid cursor wait limit deadline n c))"
proof -
  obtain r c0 where g: "store_call ce (\<lambda>rc. GetRun rc 0 rid False) c = (r, c0)" by fastforce
  obtain res c1 where p: "read_call ce (\<lambda>wr. ListRunEventsPage wr rid cursor limit) c0 = (res, c1)" by fastforce
  have m0: "db_moves True ce c c0" by (rule db_moves_call [OF g]) (rule GetRun_steps)
  have m1: "db_moves True ce c c1" by (rule db_moves_trans [OF m0 moves_read [OF p]])
  have "snd (run_poll_round fmt ae ce rid cursor wait limit deadline n c) \<in> {c0, c1}"
    by (auto simp: run_poll_round_def g p Let_def split: sum.split option.split prod.split)
  then show ?thesis using m0 m1 by auto
qed

lemma moves_session_round: "db_moves True ce c (snd (session_poll_round fmt ae ce sid cursor wait limit deadline n c))"
proof -
  obtain res c1 where p: "read_call ce (\<lambda>wr. ListSessionEventsPage wr sid cursor limit) c = (res, c1)" by fastforce
  have "snd (session_poll_round fmt ae ce sid cursor wait limit deadline n c) = c1"
    by (simp add: session_poll_round_def p split: sum.split option.split prod.split)
  then show ?thesis using moves_read [OF p] by simp
qed

interpretation run_poll: polling "run_poll_round fmt ae ce rid cursor wait limit deadline"
  "waitForPoll ae waiter rid deadline" "\<lambda>n. after (ae_clock ae n) deadline" "db_reached ae ce"
  for fmt and ae :: "'k api_env" and ce rid cursor wait limit deadline waiter
proof unfold_locales
  show "fst (run_poll_round fmt ae ce rid cursor wait limit deadline n c) \<noteq> Again" if "after (ae_clock ae n) deadline" for n c
    using that by (auto simp: run_poll_round_def store_failed_def Let_def split: sum.split option.split prod.split)
qed (use db_reached_moves [OF _ moves_run_round] db_reached_wait in blast)+

interpretation session_poll: polling "session_poll_round fmt ae ce sid cursor wait limit deadline"
  "waitForPoll ae waiter sid deadline" "\<lambda>n. after (ae_clock ae n) deadline" "db_reached ae ce"
  for fmt and ae :: "'k api_env" and ce sid cursor wait limit deadline waiter
proof unfold_locales
  show "fst (session_poll_round fmt ae ce sid cursor wait limit deadline n c) \<noteq> Again" if "after (ae_clock ae n) deadline" for n c
    using that by (auto simp: session_poll_round_def store_failed_def Let_def split: sum.split option.split prod.split)
qed (use db_reached_moves [OF _ moves_session_round] db_reached_wait in blast)+

lemma parsePollQuery_bounds:
  assumes "parsePollQuery r = Some (cursor, wait, limit)"
  shows "0 \<le> cursor" "0 \<le> wait" "wait \<le> maxPollWait" "1 \<le> limit" "limit \<le> maxPollSize"
  using assms
  by (auto simp: parsePollQuery_def poll_consts duration_defs Let_def split: if_splits option.splits)

lemma run_page_delivered: "ListRunEventsPage wr rid c l db = Inr x \<Longrightarrow> ListRunEventsPage Delivered rid c l db = Inr x"
  by (auto simp: ListRunEventsPage_def pool_query_def split: if_splits)

lemma session_page_delivered: "ListSessionEventsPage wr sid c l db = Inr x \<Longrightarrow> ListSessionEventsPage Delivered sid c l db = Inr x"
  by (auto simp: ListSessionEventsPage_def pool_query_def split: if_splits)

lemma read_callD: "read_call ce f c = (r, c') \<Longrightarrow> \<exists>wr. r = f wr (co_db c')"
  by (auto simp: read_call_def store_call_def Let_def)

text \<open>An answer is a page: the events, and the cursor behind them.\<close>

definition page_answer :: "(int \<Rightarrow> 'e list) \<Rightarrow> ('e \<Rightarrow> int) \<Rightarrow> ('e \<Rightarrow> json option) \<Rightarrow> int \<Rightarrow> int \<Rightarrow> poll_result \<Rightarrow> bool" where
  "page_answer events_after num norm cursor limit p \<longleftrightarrow>
     (\<exists>es. all_some (map norm es) = Some (po_events p) \<and> int (length es) \<le> limit \<and> cursor \<le> po_next_cursor p
       \<and> events_after cursor = es @ events_after (po_next_cursor p)
       \<and> (po_has_more p \<longleftrightarrow> events_after (po_next_cursor p) \<noteq> []) \<and> (po_timed_out p \<longrightarrow> es = [])
       \<and> (es = [] \<longrightarrow> events_after cursor = []))"

lemma run_round_page:
  assumes "run_poll_round fmt ae ce rid cursor wait limit deadline n c = (Answered p, c')" "1 \<le> limit" "rt_schema (co_db c')"
  shows "page_answer (\<lambda>k. run_events_after rid k (co_db c')) revent_Sequence (normalizeRuntimeEvent fmt rid) cursor limit p"
proof -
  obtain r c0 where g: "store_call ce (\<lambda>rc. GetRun rc 0 rid False) c = (r, c0)" by fastforce
  obtain res c1 where pg: "read_call ce (\<lambda>wr. ListRunEventsPage wr rid cursor limit) c0 = (res, c1)" by fastforce
  obtain es hm where res: "res = Inr (es, hm)" and c': "c' = c1"
    and ev: "es \<noteq> [] \<Longrightarrow> all_some (map (normalizeRuntimeEvent fmt rid) es) = Some (po_events p) \<and>
      po_next_cursor p = revent_Sequence (last es) \<and> po_has_more p = hm \<and> \<not> po_timed_out p"
    and none: "es = [] \<Longrightarrow> po_events p = [] \<and> po_next_cursor p = cursor \<and> \<not> po_has_more p"
    using assms(1) by (auto simp: run_poll_round_def g pg Let_def store_failed_def split: sum.splits if_splits option.splits prod.splits)
  have page: "ListRunEventsPage Delivered rid cursor limit (co_db c') = Inr (es, hm)"
    using read_callD [OF pg] run_page_delivered res c' by metis
  note split = run_pages.page_split [OF stored_distinct(1) [OF assms(3)] assms(2) page]
  show ?thesis
  proof (cases "es = []")
    case True
    with split(2,5) have "run_events_after rid cursor (co_db c') = []" by auto
    with True none assms(2) show ?thesis by (simp add: page_answer_def)
  next
    case False
    with split(1,2,3,4) ev assms(2) show ?thesis
      unfolding page_answer_def by (intro exI [of _ es]) (simp add: le_nat_iff)
  qed
qed

lemma session_round_page:
  assumes "session_poll_round fmt ae ce sid cursor wait limit deadline n c = (Answered p, c')" "1 \<le> limit" "rt_schema (co_db c')"
  shows "page_answer (\<lambda>k. session_events_after sid k (co_db c')) sevent_Sequence (normalizeSessionRuntimeEvent fmt sid) cursor limit p"
proof -
  obtain res c1 where pg: "read_call ce (\<lambda>wr. ListSessionEventsPage wr sid cursor limit) c = (res, c1)" by fastforce
  obtain es hm where res: "res = Inr (es, hm)" and c': "c' = c1"
    and ev: "es \<noteq> [] \<Longrightarrow> all_some (map (normalizeSessionRuntimeEvent fmt sid) es) = Some (po_events p) \<and>
      po_next_cursor p = sevent_Sequence (last es) \<and> po_has_more p = hm \<and> \<not> po_timed_out p"
    and none: "es = [] \<Longrightarrow> po_events p = [] \<and> po_next_cursor p = cursor \<and> \<not> po_has_more p"
    using assms(1) by (auto simp: session_poll_round_def pg Let_def store_failed_def split: sum.splits if_splits option.splits prod.splits)
  have page: "ListSessionEventsPage Delivered sid cursor limit (co_db c') = Inr (es, hm)"
    using read_callD [OF pg] session_page_delivered res c' by metis
  note split = session_pages.page_split [OF stored_distinct(2) [OF assms(3)] assms(2) page]
  show ?thesis
  proof (cases "es = []")
    case True
    with split(2,5) have "session_events_after sid cursor (co_db c') = []" by auto
    with True none assms(2) show ?thesis by (simp add: page_answer_def)
  next
    case False
    with split(1,2,3,4) ev assms(2) show ?thesis
      unfolding page_answer_def by (intro exI [of _ es]) (simp add: le_nat_iff)
  qed
qed

text \<open>
  Property C10. A poll always answers, and its answer loses nothing: with a valid query, as soon as a
  round starts after the deadline (at most 15 seconds away) the run poll and the session poll have
  ended; and what a poll answers with are at most \<open>limit\<close> events, in order, that together with the
  events after the returned cursor are exactly the events after the given cursor; \<open>has_more\<close> says
  whether there are any of the latter, the page is empty only when there was nothing to deliver, and
  a poll times out only with an empty page. This holds for
  every interleaving with the other work of the relay, a bootstrap import included.
\<close>

theorem polls_answer:
  assumes "parsePollQuery r = Some (cursor, wait, limit)" "after (ae_clock ae (Suc n)) (ae_clock ae 0 + wait)" "n < fuel"
    and "\<forall>n. calm True (ce_pg ce) (ce_call ce n)"
    and "\<forall>n st. rt_steps True (ce_pg ce) (co_db (snd st)) (co_db (snd (ae_meanwhile ae n st)))"
    and "rt_steps True (ce_pg ce) empty_db (co_db (snd st))"
  shows "wait \<le> 15 * second \<and>
    (\<exists>out w' c'. runEventsPoll fmt ae ce rid r fuel st = Some (out, w', c') \<and> out \<noteq> Again \<and>
       (\<forall>p. out = Answered p \<longrightarrow> page_answer (\<lambda>k. run_events_after rid k (co_db c')) revent_Sequence
          (normalizeRuntimeEvent fmt rid) cursor limit p)) \<and>
    (\<exists>out w' c'. sessionEventsPoll fmt ae ce sid r fuel st = Some (out, w', c') \<and> out \<noteq> Again \<and>
       (\<forall>p. out = Answered p \<longrightarrow> page_answer (\<lambda>k. session_events_after sid k (co_db c')) sevent_Sequence
          (normalizeSessionRuntimeEvent fmt sid) cursor limit p))"
proof -
  have calm: "api_calm ae ce" using assms(4,5) by (simp add: api_calm_def calm_env_def)
  have schema: "db_reached ae ce c \<Longrightarrow> rt_schema (co_db c)" for c
    using calm rt_inv_schema [OF reachable_inv] by (simp add: db_reached_def)
  note bounds = parsePollQuery_bounds [OF assms(1)]
  let ?deadline = "ae_clock ae 0 + wait"
  have late: "after (ae_clock ae (1 + n)) ?deadline" using assms(2) by simp
  obtain w c where st: "st = (w, c)" by fastforce
  have ok: "db_reached ae ce c" using assms(6) st by (simp add: db_reached_def)
  obtain f c1 where g: "read_call ce (\<lambda>wr. GetSession wr sid) c = (f, c1)" by fastforce
  have ok1: "db_reached ae ce c1" using db_reached_moves [OF ok moves_read [OF g]] .
  obtain out w' c' m c0 where run: "poll_loop (run_poll_round fmt ae ce rid cursor wait limit ?deadline)
      (waitForPoll ae (br_WaitForRun (ce_broker ce)) rid ?deadline) fuel 1 (w, c) = Some (out, w', c')" "out \<noteq> Again"
      "db_reached ae ce c'" "run_poll_round fmt ae ce rid cursor wait limit ?deadline m c0 = (out, c')"
    using run_poll.loop_answers [OF late assms(3) ok] by blast
  obtain out2 w2 c2 m2 c3 where ses: "poll_loop (session_poll_round fmt ae ce sid cursor wait limit ?deadline)
      (waitForPoll ae (br_WaitForSession (ce_broker ce)) sid ?deadline) fuel 1 (w, c1) = Some (out2, w2, c2)" "out2 \<noteq> Again"
      "db_reached ae ce c2" "session_poll_round fmt ae ce sid cursor wait limit ?deadline m2 c3 = (out2, c2)"
    using session_poll.loop_answers [OF late assms(3) ok1] by blast
  have "\<exists>out w' c'. runEventsPoll fmt ae ce rid r fuel st = Some (out, w', c') \<and> out \<noteq> Again \<and>
      (\<forall>p. out = Answered p \<longrightarrow> page_answer (\<lambda>k. run_events_after rid k (co_db c')) revent_Sequence
         (normalizeRuntimeEvent fmt rid) cursor limit p)"
    using run run_round_page [OF _ bounds(4) schema [OF run(3)]] by (simp add: runEventsPoll_def assms(1) st) blast
  moreover have "\<exists>out w' c'. sessionEventsPoll fmt ae ce sid r fuel st = Some (out, w', c') \<and> out \<noteq> Again \<and>
      (\<forall>p. out = Answered p \<longrightarrow> page_answer (\<lambda>k. session_events_after sid k (co_db c')) sevent_Sequence
         (normalizeSessionRuntimeEvent fmt sid) cursor limit p)"
  proof (cases f)
    case (Inl e)
    then show ?thesis by (simp add: sessionEventsPoll_def assms(1) st g)
  next
    case (Inr s)
    then show ?thesis
      using ses session_round_page [OF _ bounds(4) schema [OF ses(3)]] by (simp add: sessionEventsPoll_def assms(1) st g) blast
  qed
  ultimately show ?thesis using bounds(3) by (simp add: maxPollWait_def)
qed

definition demo_api :: "'k api_env" where
  "demo_api = \<lparr>ae_meanwhile = (\<lambda>_ st. st), ae_ctx_error = Canceled, ae_give_up = False,
     ae_clock = (\<lambda>n. int n * (20 * second)), ae_cancelled = (\<lambda>_. False), ae_db_health = True\<rparr>"

definition demo_poll_request :: http_request where
  "demo_poll_request = \<lparr>rq_method = ''GET'', rq_path = [], rq_query = [(''limit'', ''1'')], rq_headers = [], rq_cookies = [],
     rq_body = None, rq_body_end = 0\<rparr>"

theorem polls_answer_witness:
  "\<exists>out w' c'. sessionEventsPoll (\<lambda>j. j) demo_api demo_ce ''s'' demo_poll_request 1 (demo_world, demo_coord demo_running) =
      Some (out, w', c') \<and> out \<noteq> Again \<and>
      \<not> (\<exists>p. out = Answered p \<and> \<not> page_answer (\<lambda>k. session_events_after ''s'' k (co_db c')) sevent_Sequence
         (normalizeSessionRuntimeEvent (\<lambda>j. j) ''s'') 0 1 p)"
proof -
  have q: "parsePollQuery demo_poll_request = Some (0, 15 * second, 1)"
    by (simp add: parsePollQuery_def demo_poll_request_def query_def get_first_def Atoi_def decoded_def ParseInt_def split_sign_def
        parse_digits_def is_digit_def digits_value_def char_digit_def Let_def poll_consts int64_ok_def)
  have late: "after (ae_clock demo_api (Suc 0)) (ae_clock demo_api 0 + 15 * second)"
    by (simp add: demo_api_def after_def second_def)
  have idle: "\<forall>n st. rt_steps True (ce_pg demo_ce) (co_db (snd st)) (co_db (snd (ae_meanwhile demo_api n st)))"
    by (simp add: demo_api_def)
  have "rt_steps True (ce_pg demo_ce) empty_db (co_db (snd (demo_world, demo_coord demo_running)))"
    using demo_running_reachable by (simp add: demo_coord_def)
  from polls_answer [OF q late zero_less_one demo_calm idle this, where rid = demo_rid and sid = "''s''"
      and fmt = "\<lambda>j. j", THEN conjunct2, THEN conjunct2]
  show ?thesis by blast
qed

end
