(* ===== verification/Runtime_Stream.thy ===== *)
theory Runtime_Stream
  imports Runtime_Poll
begin

section \<open>The Runtime API: event streams\<close>

text \<open>
  The server-sent event streams of \<^verbatim>\<open>internal/runtime/http.go\<close>. A stream's \<open>select\<close> wakes for a tick,
  a heartbeat or the end of the request's context; the list of its wake-ups is an argument, and
  between two of them the rest of the program goes on (\<open>ae_meanwhile\<close>). A tick reads what follows the
  cursor; an error of the read, or a panic in it, ends the stream (\<open>None\<close>). \<open>flushes\<close> says whether
  the response writer is a \<open>Flusher\<close>; \<open>js\<close> is the text of a JSON value.
\<close>

record sse_event =
  sse_ID :: int
  sse_Type :: string
  sse_Data :: json

datatype sse_item = Sse sse_event | Beat

datatype stream_wake = Context_done | Tick | Heartbeat

definition sse_text :: "(json \<Rightarrow> string) \<Rightarrow> sse_item \<Rightarrow> string" where
  "sse_text js item =
     (case item of
        Sse e \<Rightarrow> ''id: '' @ FormatInt (sse_ID e) @ ''\<newline>event: '' @ sse_Type e @ ''\<newline>data: '' @ js (sse_Data e) @ ''\<newline>\<newline>''
      | Beat \<Rightarrow> '': heartbeat\<newline>\<newline>'')"

definition lastEventID :: "http_request \<Rightarrow> int" where
  "lastEventID r =
     (let value = header r ''Last-Event-ID'' in
      fst (ParseInt (if value = [] then query r ''after'' else value)))"

definition lastSequence :: "int \<Rightarrow> sse_event list \<Rightarrow> int" where
  "lastSequence fallback events = (if events = [] then fallback else sse_ID (last events))"

fun stream_loop :: "(int \<Rightarrow> 'k coord \<Rightarrow> (int \<times> sse_event list) option \<times> 'k coord) \<Rightarrow>
    (nat \<Rightarrow> world \<times> 'k coord \<Rightarrow> world \<times> 'k coord) \<Rightarrow> nat \<Rightarrow> stream_wake list \<Rightarrow> int \<Rightarrow> world \<times> 'k coord \<Rightarrow>
    sse_item list \<times> int option \<times> world \<times> 'k coord" where
  "stream_loop read meanwhile n [] cursor st = ([], Some cursor, st)"
| "stream_loop read meanwhile n (wake # wakes) cursor st =
     (let (w, c) = meanwhile n st in
      case wake of
        Context_done \<Rightarrow> ([], None, w, c)
      | Heartbeat \<Rightarrow>
          (let (out, rest) = stream_loop read meanwhile (Suc n) wakes cursor (w, c) in (Beat # out, rest))
      | Tick \<Rightarrow>
          (let (res, c1) = read cursor c in
           case res of
             None \<Rightarrow> ([], None, w, c1)
           | Some (next, events) \<Rightarrow>
               (let (out, rest) = stream_loop read meanwhile (Suc n) wakes (if events \<noteq> [] then next else cursor) (w, c1) in
                (map Sse events @ out, rest))))"

definition stream_headers :: "(string \<times> string) list" where
  "stream_headers = [(''Content-Type'', ''text/event-stream''), (''Cache-Control'', ''no-cache''), (''Connection'', ''keep-alive'')]"

definition stream :: "bool \<Rightarrow> 'k api_env \<Rightarrow> http_request \<Rightarrow> (int \<Rightarrow> 'k coord \<Rightarrow> (int \<times> sse_event list) option \<times> 'k coord) \<Rightarrow>
    stream_wake list \<Rightarrow> world \<times> 'k coord \<Rightarrow> http_response \<times> sse_item list \<times> int option \<times> world \<times> 'k coord" where
  "stream flushes ae r read wakes st =
     (if \<not> flushes then (api_writeError 500 ''STREAM_UNSUPPORTED'' False, [], None, st)
      else (\<lparr>re_status = 200, re_headers = stream_headers, re_cookies = [], re_body = None\<rparr>,
            stream_loop read (ae_meanwhile ae) 0 wakes (lastEventID r) st))"

subsection \<open>The reads\<close>

definition session_sse :: "session_event \<Rightarrow> sse_event" where
  "session_sse item = \<lparr>sse_ID = sevent_Sequence item, sse_Type = sevent_Type item, sse_Data = sevent_Payload item\<rparr>"

definition session_read :: "'k coord_env \<Rightarrow> string \<Rightarrow> int \<Rightarrow> 'k coord \<Rightarrow> (int \<times> sse_event list) option \<times> 'k coord" where
  "session_read ce sid after_seq c =
     (let (res, c1) = read_call ce (\<lambda>wr. ListSessionEvents wr sid after_seq) c in
      case res of
        Inl _ \<Rightarrow> (None, c1)
      | Inr items \<Rightarrow> (let events = map session_sse items in (Some (lastSequence after_seq events, events), c1)))"

definition sessionEvents :: "bool \<Rightarrow> 'k api_env \<Rightarrow> 'k coord_env \<Rightarrow> string \<Rightarrow> http_request \<Rightarrow> stream_wake list \<Rightarrow>
    world \<times> 'k coord \<Rightarrow> http_response \<times> sse_item list \<times> int option \<times> world \<times> 'k coord" where
  "sessionEvents flushes ae ce sid r wakes st = stream flushes ae r (session_read ce sid) wakes st"

text \<open>\<open>sequence++\<close> on an \<open>int64\<close>.\<close>

definition wrap64 :: "int \<Rightarrow> int" where
  "wrap64 n = (n + 2 ^ 63) mod 2 ^ 64 - 2 ^ 63"

definition bySequence :: "run_event list \<Rightarrow> run_event list \<Rightarrow> int \<rightharpoonup> run_event" where
  "bySequence persisted live =
     (let stored = foldl (\<lambda>m e. m(revent_Sequence e \<mapsto> e)) Map.empty persisted in
      foldl (\<lambda>m e. if m (revent_Sequence e) = None then m(revent_Sequence e \<mapsto> e) else m) stored live)"

text \<open>
  The loop over the map from a number on. Each round reads another key, so one more round than the
  map has entries is enough; that the loop always ends by meeting a missing number is proved below.
\<close>

fun contiguous :: "nat \<Rightarrow> (int \<rightharpoonup> run_event) \<Rightarrow> int \<Rightarrow> (int \<times> run_event) list" where
  "contiguous 0 m sequence = []"
| "contiguous (Suc fuel) m sequence =
     (case m sequence of
        None \<Rightarrow> []
      | Some item \<Rightarrow> (sequence, item) # contiguous fuel m (wrap64 (sequence + 1)))"

definition run_sse :: "(json \<Rightarrow> json) \<Rightarrow> string \<Rightarrow> int \<times> run_event \<Rightarrow> sse_event option" where
  "run_sse fmt rid x =
     map_option (\<lambda>data. \<lparr>sse_ID = fst x, sse_Type = revent_Type (snd x), sse_Data = data\<rparr>) (normalizeRuntimeEvent fmt rid (snd x))"

definition run_read :: "(json \<Rightarrow> json) \<Rightarrow> 'k coord_env \<Rightarrow> string \<Rightarrow> int \<Rightarrow> 'k coord \<Rightarrow> (int \<times> sse_event list) option \<times> 'k coord" where
  "run_read fmt ce rid after_seq c =
     (let (res, c1) = read_call ce (\<lambda>wr. ListRunEvents wr rid after_seq) c in
      case res of
        Inl _ \<Rightarrow> (None, c1)
      | Inr persisted \<Rightarrow>
          (let (res2, c2) = broker_call (br_ReadRunEvents (ce_broker ce) rid after_seq) c1 in
           case res2 of
             Inl _ \<Rightarrow> (None, c2)
           | Inr live \<Rightarrow>
               (let items = contiguous (Suc (length persisted + length live)) (bySequence persisted live) (wrap64 (after_seq + 1)) in
                (map_option (\<lambda>events. (lastSequence after_seq events, events)) (all_some (map (run_sse fmt rid) items)), c2))))"

definition runEvents :: "(json \<Rightarrow> json) \<Rightarrow> bool \<Rightarrow> 'k api_env \<Rightarrow> 'k coord_env \<Rightarrow> string \<Rightarrow> http_request \<Rightarrow> stream_wake list \<Rightarrow>
    world \<times> 'k coord \<Rightarrow> http_response \<times> sse_item list \<times> int option \<times> world \<times> 'k coord" where
  "runEvents fmt flushes ae ce rid r wakes st = stream flushes ae r (run_read fmt ce rid) wakes st"

subsection \<open>What a stream delivers\<close>

definition delivered :: "sse_item list \<Rightarrow> sse_event list" where
  "delivered out = List.map_filter (\<lambda>x. case x of Sse e \<Rightarrow> Some e | Beat \<Rightarrow> None) out"

lemma delivered_simps [simp]: "delivered [] = []" "delivered (Beat # out) = delivered out"
  "delivered (map Sse es @ out) = es @ delivered out"
  by (simp_all add: delivered_def map_filter_simps) (induction es; simp add: map_filter_simps)

lemma delivered_map [simp]: "delivered (map Sse es) = es"
  using delivered_simps(3) [of es "[]"] by simp

text \<open>The events after a cursor are numbered one by one.\<close>

fun chained :: "int \<Rightarrow> sse_event list \<Rightarrow> bool" where
  "chained k [] \<longleftrightarrow> True"
| "chained k (e # es) \<longleftrightarrow> sse_ID e = k + 1 \<and> chained (sse_ID e) es"

lemma chained_append [simp]: "chained k (es @ fs) \<longleftrightarrow> chained k es \<and> chained (lastSequence k es) fs"
  by (induction es arbitrary: k) (auto simp: lastSequence_def)

lemma chained_numbers: "chained k es \<longleftrightarrow> map sse_ID es = [k + 1..k + int (length es)]"
proof (induction es arbitrary: k)
  case (Cons e es)
  have "[k + 1..k + int (length (e # es))] = (k + 1) # [k + 1 + 1..k + 1 + int (length es)]"
    using upto_rec1 [of "k + 1" "k + int (length (e # es))"] by (simp add: ac_simps)
  then show ?case using Cons.IH [of "k + 1"] by auto
qed simp

lemma chained_last: "chained k es \<Longrightarrow> lastSequence k es = k + int (length es)"
  by (induction es arbitrary: k) (auto simp: lastSequence_def split: if_splits)

lemma lastSequence_append [simp]: "lastSequence (lastSequence k es) fs = lastSequence k (es @ fs)"
  by (simp add: lastSequence_def)

lemma lastSequence_Nil [simp]: "lastSequence k [] = k"
  by (simp add: lastSequence_def)

text \<open>
  What a stream needs of its read: the events follow the cursor one by one, each is genuine, and
  nothing that could follow is left out; what is genuine stays so while the program goes on.
\<close>

locale event_reader =
  fixes read :: "int \<Rightarrow> 'k coord \<Rightarrow> (int \<times> sse_event list) option \<times> 'k coord"
    and meanwhile :: "nat \<Rightarrow> world \<times> 'k coord \<Rightarrow> world \<times> 'k coord"
    and valid :: "int \<Rightarrow> bool" and ok :: "'k coord \<Rightarrow> bool"
    and genuine :: "'k coord \<Rightarrow> sse_event \<Rightarrow> bool" and caught_up :: "'k coord \<Rightarrow> int \<Rightarrow> bool"
  assumes read_ok: "ok c \<Longrightarrow> ok (snd (read k c))"
    and wait_ok: "ok c \<Longrightarrow> ok (snd (meanwhile n (w, c)))"
    and read_keeps: "ok c \<Longrightarrow> genuine c e \<Longrightarrow> genuine (snd (read k c)) e"
    and wait_keeps: "ok c \<Longrightarrow> genuine c e \<Longrightarrow> genuine (snd (meanwhile n (w, c))) e"
    and read_events: "ok c \<Longrightarrow> valid k \<Longrightarrow> read k c = (Some (nxt, es), c') \<Longrightarrow>
      nxt = lastSequence k es \<and> valid nxt \<and> chained k es \<and> (\<forall>e \<in> set es. genuine c' e) \<and> caught_up c' nxt"
begin

lemma loop_delivers:
  assumes "ok c" "valid k" "stream_loop read meanwhile n wakes k (w, c) = (out, end_cursor, w', c')"
  shows "ok c' \<and> chained k (delivered out) \<and> (\<forall>e \<in> set (delivered out). genuine c' e)
    \<and> (\<forall>e. genuine c e \<longrightarrow> genuine c' e)
    \<and> (\<forall>k'. end_cursor = Some k' \<longrightarrow> k' = lastSequence k (delivered out) \<and>
         (wakes \<noteq> [] \<longrightarrow> last wakes = Tick \<longrightarrow> caught_up c' k'))"
  using assms
proof (induction wakes arbitrary: n k w c out)
  case (Cons wake wakes)
  obtain w1 c1 where m: "meanwhile n (w, c) = (w1, c1)" by fastforce
  have ok1: "ok c1" and g1: "genuine c e \<Longrightarrow> genuine c1 e" for e
    using wait_ok [OF Cons.prems(1), of n w] wait_keeps [OF Cons.prems(1), of e n w] m by simp_all
  show ?case
  proof (cases wake)
    case Context_done
    then show ?thesis using Cons.prems(3) m ok1 g1 by auto
  next
    case Heartbeat
    obtain out1 where l: "stream_loop read meanwhile (Suc n) wakes k (w1, c1) = (out1, end_cursor, w', c')" "out = Beat # out1"
      using Cons.prems(3) m Heartbeat by (auto split: prod.splits)
    show ?thesis using Cons.IH [OF ok1 Cons.prems(2) l(1)] l(2) g1 Heartbeat by auto
  next
    case Tick
    obtain res c2 where r: "read k c1 = (res, c2)" by fastforce
    have ok2: "ok c2" and g2: "genuine c1 e \<Longrightarrow> genuine c2 e" for e
      using read_ok [OF ok1, of k] read_keeps [OF ok1, of e k] r by simp_all
    show ?thesis
    proof (cases res)
      case None
      then show ?thesis using Cons.prems(3) m Tick r ok2 g1 g2 by auto
    next
      case (Some x)
      obtain nxt es where x: "x = (nxt, es)" by fastforce
      note ev = read_events [OF ok1 Cons.prems(2) r [unfolded Some x]]
      have cur: "(if es \<noteq> [] then nxt else k) = lastSequence k es" using ev by (simp add: lastSequence_def)
      obtain out1 where l: "stream_loop read meanwhile (Suc n) wakes (lastSequence k es) (w1, c2) = (out1, end_cursor, w', c')"
        "out = map Sse es @ out1"
        using Cons.prems(3) m Tick r Some x cur by (auto split: prod.splits)
      have v: "valid (lastSequence k es)" using ev by blast
      show ?thesis using Cons.IH [OF ok2 v l(1)] ev l g1 g2 Tick by (cases "wakes = []") auto
    qed
  qed
qed auto

end

subsection \<open>The session stream\<close>

definition stream_ok :: "'k api_env \<Rightarrow> 'k coord_env \<Rightarrow> 'k coord \<Rightarrow> bool" where
  "stream_ok ae ce c \<longleftrightarrow> api_calm ae ce \<and> rt_steps True (ce_pg ce) empty_db (co_db c)"

lemma stream_ok_inv: "stream_ok ae ce c \<Longrightarrow> rt_inv (co_db c)"
  unfolding stream_ok_def using reachable_inv by blast

lemma stream_ok_moves:
  assumes "stream_ok ae ce c" "db_moves True ce c c'"
  shows "stream_ok ae ce c'" "rt_steps True (ce_pg ce) (co_db c) (co_db c')"
  using assms unfolding stream_ok_def db_moves_def api_calm_def by (auto intro: rtranclp_trans)

lemma stream_ok_wait:
  assumes "stream_ok ae ce c"
  shows "stream_ok ae ce (snd (ae_meanwhile ae n (w, c)))"
    "rt_steps True (ce_pg ce) (co_db c) (co_db (snd (ae_meanwhile ae n (w, c))))"
  using assms unfolding stream_ok_def api_calm_def by (metis snd_conv rtranclp_trans)+

lemma moves_session_read: "db_moves True ce c (snd (session_read ce sid k c))"
proof -
  obtain res c1 where p: "read_call ce (\<lambda>wr. ListSessionEvents wr sid k) c = (res, c1)" by fastforce
  have "snd (session_read ce sid k c) = c1" by (simp add: session_read_def p Let_def split: sum.split)
  then show ?thesis using moves_read [OF p] by simp
qed

definition in_feed :: "string \<Rightarrow> 'k coord \<Rightarrow> sse_event \<Rightarrow> bool" where
  "in_feed sid c e \<longleftrightarrow> e \<in> session_sse ` set (feed_log (co_db c) sid)"

definition feed_read :: "string \<Rightarrow> 'k coord \<Rightarrow> int \<Rightarrow> bool" where
  "feed_read sid c k \<longleftrightarrow> int (length (feed_log (co_db c) sid)) \<le> k"

lemma in_feed_steps: "rt_steps True pg (co_db c) (co_db c') \<Longrightarrow> in_feed sid c e \<Longrightarrow> in_feed sid c' e"
  using session_feed.steps_prefix [of pg "co_db c" "co_db c'" sid] by (auto simp: in_feed_def prefix_def)

lemma feed_log_numbers: "rt_inv db \<Longrightarrow> map sevent_Sequence (feed_log db sid) = [1..int (length (feed_log db sid))]"
  using session_numbers [of db sid] by (metis feed_log_seqs length_map)

lemma drop_upto: "drop n [i..j] = [i + int n..j]"
proof (induction n arbitrary: i)
  case (Suc n)
  have "tl [i..j] = [i + 1..j]" by (subst upto.simps) simp
  then show ?case using Suc [of "i + 1"] by (simp add: drop_Suc ac_simps)
qed simp

lemma session_read_events:
  assumes "rt_inv (co_db c')" "0 \<le> k" "session_read ce sid k c = (Some (nxt, es), c')"
  shows "nxt = lastSequence k es" "es = map session_sse (drop (nat k) (feed_log (co_db c') sid))" "chained k es" "feed_read sid c' nxt"
proof -
  obtain res c1 where p: "read_call ce (\<lambda>wr. ListSessionEvents wr sid k) c = (res, c1)" by fastforce
  obtain items where i: "res = Inr items" "c' = c1" and es: "es = map session_sse items" and nxt: "nxt = lastSequence k es"
    using assms(3) by (auto simp: session_read_def p Let_def split: sum.splits)
  let ?log = "feed_log (co_db c') sid"
  have items: "items = drop (nat k) ?log"
    using read_callD [OF p] i session_events_after_drop [OF assms(1,2), of sid]
    by (auto simp: ListSessionEvents_def pool_query_def split: if_splits)
  show "nxt = lastSequence k es" by (rule nxt)
  show "es = map session_sse (drop (nat k) ?log)" by (simp add: es items)
  have "map sse_ID es = drop (nat k) (map sevent_Sequence ?log)" by (simp add: es items session_sse_def drop_map comp_def)
  also have "\<dots> = [k + 1..int (length ?log)]"
    using assms(2) by (simp add: feed_log_numbers [OF assms(1)] drop_upto add.commute)
  finally have ids: "map sse_ID es = [k + 1..int (length ?log)]" .
  have len: "length es = length ?log - nat k" by (simp add: es items)
  show ch: "chained k es"
  proof (cases "nat k \<le> length ?log")
    case True
    then show ?thesis using ids len assms(2) by (simp add: chained_numbers)
  next
    case False
    then show ?thesis using len by simp
  qed
  show "feed_read sid c' nxt" using chained_last [OF ch] nxt len assms(2) unfolding feed_read_def by linarith
qed

interpretation session_stream: event_reader "session_read ce sid" "ae_meanwhile ae" "\<lambda>k. 0 \<le> k" "stream_ok ae ce"
  "in_feed sid" "feed_read sid" for ce :: "'k coord_env" and ae sid
proof unfold_locales
  fix c :: "'k coord" and k n w e nxt es c'
  assume ok: "stream_ok ae ce c"
  note moved = stream_ok_moves [OF ok moves_session_read [of ce c sid k]] and waited = stream_ok_wait [OF ok, of n w]
  show "stream_ok ae ce (snd (session_read ce sid k c))" "stream_ok ae ce (snd (ae_meanwhile ae n (w, c)))"
    by (rule moved(1) waited(1))+
  show "in_feed sid c e \<Longrightarrow> in_feed sid (snd (session_read ce sid k c)) e"
    "in_feed sid c e \<Longrightarrow> in_feed sid (snd (ae_meanwhile ae n (w, c))) e"
    using in_feed_steps moved(2) waited(2) by blast+
  assume k: "0 \<le> k" and r: "session_read ce sid k c = (Some (nxt, es), c')"
  have "rt_inv (co_db c')" using stream_ok_inv [OF moved(1)] r by simp
  note ev = session_read_events [OF this k r]
  have "\<forall>e \<in> set es. in_feed sid c' e" using set_drop_subset [of "nat k" "feed_log (co_db c') sid"] by (auto simp: ev(2) in_feed_def)
  then show "nxt = lastSequence k es \<and> 0 \<le> nxt \<and> chained k es \<and> (\<forall>e \<in> set es. in_feed sid c' e) \<and> feed_read sid c' nxt"
    using ev(1,3,4) chained_last [OF ev(3)] k by simp
qed

subsection \<open>The run stream\<close>

definition reads_after :: "'k broker \<Rightarrow> bool" where
  "reads_after br \<longleftrightarrow> (\<forall>rid j k es k'. seq_ok j \<longrightarrow> br_ReadRunEvents br rid j k = (Inr es, k') \<longrightarrow> (\<forall>x \<in> set es. j < revent_Sequence x))"

lemma wrap64_ok: "int64_ok (wrap64 n)" "int64_ok n \<Longrightarrow> wrap64 n = n" "wrap64 (2 ^ 63) = - (2 ^ 63)"
  by (simp_all add: wrap64_def int64_ok_def)

text \<open>Of two events with one number the stored one is delivered.\<close>

lemma stored_map:
  defines "put \<equiv> \<lambda>m e. m(revent_Sequence e \<mapsto> e)"
  shows "dom (foldl put m es) = dom m \<union> revent_Sequence ` set es"
    and "foldl put m es i = Some e \<Longrightarrow> m i = Some e \<or> e \<in> set es \<and> revent_Sequence e = i"
proof -
  show "dom (foldl put m es) = dom m \<union> revent_Sequence ` set es"
    by (induction es arbitrary: m) (auto simp: put_def)
  show "foldl put m es i = Some e \<Longrightarrow> m i = Some e \<or> e \<in> set es \<and> revent_Sequence e = i"
    by (induction es arbitrary: m) (fastforce simp: put_def split: if_splits)+
qed

lemma live_map:
  defines "put \<equiv> \<lambda>m e. if m (revent_Sequence e) = None then m(revent_Sequence e \<mapsto> e) else m"
  shows "dom (foldl put m es) = dom m \<union> revent_Sequence ` set es"
    and "foldl put m es i = Some e \<Longrightarrow> m i = Some e \<or> e \<in> set es \<and> revent_Sequence e = i \<and> i \<notin> dom m"
proof -
  show "dom (foldl put m es) = dom m \<union> revent_Sequence ` set es"
    by (induction es arbitrary: m) (auto simp: put_def)
  show "foldl put m es i = Some e \<Longrightarrow> m i = Some e \<or> e \<in> set es \<and> revent_Sequence e = i \<and> i \<notin> dom m"
    by (induction es arbitrary: m) (fastforce simp: put_def split: if_splits)+
qed

lemma bySequence_dom: "dom (bySequence ps ls) = revent_Sequence ` (set ps \<union> set ls)"
  by (simp add: bySequence_def live_map(1) stored_map(1) image_Un)

lemma bySequence_Some:
  assumes "bySequence ps ls i = Some e"
  shows "revent_Sequence e = i \<and> (e \<in> set ps \<or> e \<in> set ls \<and> i \<notin> revent_Sequence ` set ps)"
  using live_map(2) [OF assms [unfolded bySequence_def Let_def]] stored_map(2) [of Map.empty ps i e] stored_map(1) [of Map.empty ps]
  by auto

lemma contiguous_spec:
  assumes "\<And>i. i \<in> dom m \<Longrightarrow> k0 < i" "int64_ok k0" "finite (dom m)"
  shows "int64_ok k \<Longrightarrow> card (dom m \<inter> {k<..}) < fuel \<Longrightarrow> xs = contiguous fuel m (wrap64 (k + 1)) \<Longrightarrow>
    map fst xs = [k + 1..k + int (length xs)] \<and> (\<forall>(i, e) \<in> set xs. m i = Some e) \<and> int64_ok (k + int (length xs)) \<and>
    (int64_ok (k + int (length xs) + 1) \<longrightarrow> m (k + int (length xs) + 1) = None)"
proof (induction fuel arbitrary: k xs)
  case (Suc fuel)
  show ?case
  proof (cases "m (wrap64 (k + 1))")
    case None
    then show ?thesis using Suc.prems(1,3) by (auto simp: wrap64_ok)
  next
    case (Some e)
    have "int64_ok (k + 1)"
    proof (rule ccontr)
      assume "\<not> int64_ok (k + 1)"
      then have "k + 1 = 2 ^ 63" using Suc.prems(1) by (simp add: int64_ok_def)
      then have "k0 < - (2 ^ 63)" using assms(1) [OF domI, OF Some] by (simp add: wrap64_def)
      then show False using assms(2) by (simp add: int64_ok_def)
    qed
    then have w: "wrap64 (k + 1) = k + 1" by (rule wrap64_ok(2))
    let ?ys = "contiguous fuel m (wrap64 (k + 1 + 1))"
    have xs: "xs = (k + 1, e) # ?ys" using Suc.prems(3) Some w by simp
    have "k + 1 \<in> dom m" using Some w by (simp add: domI)
    then have "dom m \<inter> {k + 1<..} \<subset> dom m \<inter> {k<..}" by (intro psubsetI) (auto simp: set_eq_iff)
    then have "card (dom m \<inter> {k + 1<..}) < card (dom m \<inter> {k<..})" using assms(3) by (intro psubset_card_mono) simp_all
    then have "card (dom m \<inter> {k + 1<..}) < fuel" using Suc.prems(2) by simp
    note IH = Suc.IH [OF \<open>int64_ok (k + 1)\<close> this refl]
    have "[k + 1..k + int (length xs)] = (k + 1) # [k + 1 + 1..k + 1 + int (length ?ys)]"
      using upto_rec1 [of "k + 1" "k + int (length xs)"] by (simp add: xs ac_simps)
    then show ?thesis using IH Some w by (simp add: xs ac_simps)
  qed
qed simp

lemma all_some_iff: "all_some xs = Some ys \<longleftrightarrow> xs = map Some ys"
proof (induction xs arbitrary: ys)
  case (Cons x xs)
  then show ?case by (cases ys) (auto split: option.split)
qed auto

lemma map_Some_eq: "map f xs = map Some es \<Longrightarrow> (\<And>x e. f x = Some e \<Longrightarrow> g e = h x) \<Longrightarrow> map g es = map h xs"
  by (induction xs arbitrary: es) (auto simp: Cons_eq_map_conv)

text \<open>Where an event of a run stream comes from: the store, in this or an earlier state, or a read of the
  broker, in whatever state the broker is.\<close>

definition run_source :: "'k coord_env \<Rightarrow> string \<Rightarrow> 'k coord \<Rightarrow> run_event \<Rightarrow> bool" where
  "run_source ce rid c x \<longleftrightarrow>
     (\<exists>db k. rt_steps True (ce_pg ce) empty_db db \<and> rt_steps True (ce_pg ce) db (co_db c) \<and> x \<in> set (run_events_after rid k db)) \<or>
     (\<exists>j b live b'. br_ReadRunEvents (ce_broker ce) rid j b = (Inr live, b') \<and> x \<in> set live)"

definition run_genuine :: "(json \<Rightarrow> json) \<Rightarrow> 'k coord_env \<Rightarrow> string \<Rightarrow> 'k coord \<Rightarrow> sse_event \<Rightarrow> bool" where
  "run_genuine fmt ce rid c e \<longleftrightarrow>
     (\<exists>x. revent_Sequence x = sse_ID e \<and> run_sse fmt rid (sse_ID e, x) = Some e \<and> run_source ce rid c x)"

definition run_caught :: "string \<Rightarrow> 'k coord \<Rightarrow> int \<Rightarrow> bool" where
  "run_caught rid c k \<longleftrightarrow> (int64_ok (k + 1) \<longrightarrow> \<not> has_event rid (k + 1) (co_db c))"

lemma run_genuine_steps:
  "rt_steps True (ce_pg ce) (co_db c) (co_db c') \<Longrightarrow> run_genuine fmt ce rid c e \<Longrightarrow> run_genuine fmt ce rid c' e"
  unfolding run_genuine_def run_source_def by (meson rtranclp_trans)

lemma moves_run_read: "db_moves True ce c (snd (run_read fmt ce rid k c))"
proof -
  obtain res c1 where p: "read_call ce (\<lambda>wr. ListRunEvents wr rid k) c = (res, c1)" by fastforce
  have "co_db (snd (run_read fmt ce rid k c)) = co_db c1"
    by (auto simp: run_read_def p Let_def split: sum.split prod.split dest: co_db_broker_eq)
  then show ?thesis using moves_read [OF p] by (simp add: db_moves_def)
qed

lemma run_read_events:
  assumes "reads_after (ce_broker ce)" "stream_ok ae ce c'" "seq_ok k" "run_read fmt ce rid k c = (Some (nxt, es), c')"
  shows "nxt = lastSequence k es" "seq_ok nxt" "chained k es" "\<forall>e \<in> set es. run_genuine fmt ce rid c' e" "run_caught rid c' nxt"
proof -
  obtain res c1 where p: "read_call ce (\<lambda>wr. ListRunEvents wr rid k) c = (res, c1)" by fastforce
  obtain res2 c2 where b: "broker_call (br_ReadRunEvents (ce_broker ce) rid k) c1 = (res2, c2)" by fastforce
  obtain ps ls where r: "res = Inr ps" "res2 = Inr ls" "c' = c2"
    and ev: "all_some (map (run_sse fmt rid) (contiguous (Suc (length ps + length ls)) (bySequence ps ls) (wrap64 (k + 1)))) = Some es"
    and nxt: "nxt = lastSequence k es"
    using assms(4) by (auto simp: run_read_def p b Let_def split: sum.splits)
  have db: "co_db c' = co_db c1" using co_db_broker_eq [OF b] r(3) by simp
  have ps: "ps = run_events_after rid k (co_db c')"
    using read_callD [OF p] r(1) db by (auto simp: ListRunEvents_def pool_query_def split: if_splits)
  obtain k1 k2 where live: "br_ReadRunEvents (ce_broker ce) rid k k1 = (Inr ls, k2)"
    using b r(2) by (auto simp: broker_call_def split: prod.splits)
  have k: "int64_ok k" using assms(3) by (simp add: seq_ok_def)
  let ?m = "bySequence ps ls"
  define xs where "xs = contiguous (Suc (length ps + length ls)) ?m (wrap64 (k + 1))"
  have above: "k < i" if "i \<in> dom ?m" for i
  proof -
    have "\<forall>x \<in> set ls. k < revent_Sequence x" using assms(1,3) live unfolding reads_after_def by blast
    moreover have "\<forall>x \<in> set ps. k < revent_Sequence x" using run_pages.events_after_num by (simp add: ps)
    ultimately show ?thesis using that unfolding bySequence_dom by auto
  qed
  have "card (dom ?m \<inter> {k<..}) \<le> card (dom ?m)" by (rule card_mono) (simp_all add: bySequence_dom)
  also have "\<dots> \<le> card (set ps \<union> set ls)" unfolding bySequence_dom by (rule card_image_le) simp
  also have "\<dots> \<le> length ps + length ls" using card_Un_le card_length by (meson add_mono order_trans)
  finally have "card (dom ?m \<inter> {k<..}) < Suc (length ps + length ls)" by simp
  note spec = contiguous_spec [OF above k _ k this xs_def]
  have fin: "finite (dom ?m)" by (simp add: bySequence_dom)
  note xs = spec [OF _ fin]
  have some: "map (run_sse fmt rid) xs = map Some es" using ev by (simp add: all_some_iff xs_def)
  have ids: "map sse_ID es = map fst xs" by (rule map_Some_eq [OF some]) (auto simp: run_sse_def)
  have len: "length es = length xs" using some by (metis length_map)
  show "nxt = lastSequence k es" by (rule nxt)
  show ch: "chained k es" using xs ids len by (simp add: chained_numbers)
  have nxt': "nxt = k + int (length xs)" using chained_last [OF ch] nxt len by simp
  show "seq_ok nxt" using xs nxt' assms(3) by (simp add: seq_ok_def)
  show "run_caught rid c' nxt"
  proof (unfold run_caught_def, intro impI notI)
    assume ok: "int64_ok (nxt + 1)" and "has_event rid (nxt + 1) (co_db c')"
    then obtain e where "e \<in> set (run_events (co_db c'))" "rev_run e = rid" "rev_seq e = nxt + 1" by (auto simp: has_event_iff)
    moreover from this have "run_event_of e \<in> set ps" using nxt' unfolding ps run_events_after_def set_map set_sort
      by (intro imageI) simp
    ultimately have "run_event_of e \<in> set ps" "revent_Sequence (run_event_of e) = nxt + 1" by (simp_all add: run_event_of_def)
    then have "nxt + 1 \<in> dom ?m" unfolding bySequence_dom by (metis UnI1 imageI)
    then show False using xs ok nxt' by auto
  qed
  show "\<forall>e \<in> set es. run_genuine fmt ce rid c' e"
  proof
    fix e assume "e \<in> set es"
    then obtain i x where x: "(i, x) \<in> set xs" "run_sse fmt rid (i, x) = Some e"
      using some by (metis (no_types, opaque_lifting) ex_map_conv image_iff list.set_map surj_pair)
    then have i: "sse_ID e = i" "?m i = Some x" using xs by (auto simp: run_sse_def)
    have "run_source ce rid c' x"
    proof (cases "x \<in> set ps")
      case True
      then show ?thesis
        using assms(2) unfolding run_source_def stream_ok_def ps by (intro disjI1 exI [of _ "co_db c'"] exI [of _ k]) simp
    next
      case False
      then show ?thesis using bySequence_Some [OF i(2)] live unfolding run_source_def by (intro disjI2) blast
    qed
    then show "run_genuine fmt ce rid c' e" unfolding run_genuine_def using bySequence_Some [OF i(2)] x(2) i(1) by (intro exI [of _ x]) simp
  qed
qed

interpretation run_stream: event_reader "run_read fmt ce rid" "ae_meanwhile ae" seq_ok
  "\<lambda>c. reads_after (ce_broker ce) \<and> stream_ok ae ce c" "run_genuine fmt ce rid" "run_caught rid"
  for fmt and ce :: "'k coord_env" and ae rid
proof unfold_locales
  fix c :: "'k coord" and k n w e nxt es c'
  assume ok: "reads_after (ce_broker ce) \<and> stream_ok ae ce c"
  note moved = stream_ok_moves [OF conjunct2 [OF ok] moves_run_read [of ce c fmt rid k]]
    and waited = stream_ok_wait [OF conjunct2 [OF ok], of n w]
  show "reads_after (ce_broker ce) \<and> stream_ok ae ce (snd (run_read fmt ce rid k c))"
    "reads_after (ce_broker ce) \<and> stream_ok ae ce (snd (ae_meanwhile ae n (w, c)))"
    using ok moved(1) waited(1) by blast+
  show "run_genuine fmt ce rid c e \<Longrightarrow> run_genuine fmt ce rid (snd (run_read fmt ce rid k c)) e"
    "run_genuine fmt ce rid c e \<Longrightarrow> run_genuine fmt ce rid (snd (ae_meanwhile ae n (w, c))) e"
    using run_genuine_steps moved(2) waited(2) by blast+
  assume k: "seq_ok k" and r: "run_read fmt ce rid k c = (Some (nxt, es), c')"
  have "stream_ok ae ce c'" using moved(1) r by simp
  from run_read_events [OF conjunct1 [OF ok] this k r]
  show "nxt = lastSequence k es \<and> seq_ok nxt \<and> chained k es \<and> (\<forall>e \<in> set es. run_genuine fmt ce rid c' e) \<and> run_caught rid c' nxt"
    by simp
qed

subsection \<open>No gap, no repetition\<close>

lemma numbered_nth:
  assumes "map g xs = [a + 1..a + int (length xs)]" "i < length xs"
  shows "g (xs ! i) = a + 1 + int i"
proof -
  have "g (xs ! i) = [a + 1..a + int (length xs)] ! i" using assms by (metis nth_map)
  also have "\<dots> = a + 1 + int i" using assms(2) by (intro nth_upto) simp
  finally show ?thesis .
qed

lemma numbered_segment:
  assumes "map num log = [1..int (length log)]" "\<And>x. sse_ID (f x) = num x" "0 \<le> k" "chained k es" "\<forall>e \<in> set es. e \<in> f ` set log"
  shows "es = map f (take (length es) (drop (nat k) log))"
proof -
  have at: "nat k + i < length log \<and> es ! i = f (log ! (nat k + i))" if i: "i < length es" for i
  proof -
    obtain j where j: "j < length log" "es ! i = f (log ! j)" using assms(5) nth_mem [OF i] by (metis imageE in_set_conv_nth)
    have "num (log ! j) = 0 + 1 + int j" using assms(1) by (intro numbered_nth [OF _ j(1)]) simp
    moreover have "sse_ID (es ! i) = k + 1 + int i" using assms(4) unfolding chained_numbers by (rule numbered_nth [OF _ i])
    ultimately have "j = nat k + i" using j(2) assms(2,3) by simp
    then show ?thesis using j by simp
  qed
  have len: "length es \<le> length (drop (nat k) log)"
    using at [of "length es - 1"] by (cases es) auto
  then show ?thesis using at by (intro nth_equalityI) auto
qed

lemma ParseInt_bounded: "int64_ok (fst (ParseInt s))"
  by (simp add: ParseInt_def Let_def int64_ok_def split: prod.split option.split)

text \<open>
  Property C6. Event streams have no gap and no repetition: whatever wakes a stream up, and
  whatever the rest of the relay does in between, imports included, the events a client of a session
  stream has received are the consecutive piece of the session's feed behind its cursor, and
  after a tick, while the stream is open, they are all that the feed then holds; those of a run
  stream are numbered cursor + 1, cursor + 2, ..., each is an event of the run with that number
  that the store or the broker gave, and after a tick the store has no event with the next number.
\<close>

theorem sse_stream_gapless:
  assumes "\<forall>n. calm True (ce_pg ce) (ce_call ce n)" "reads_after (ce_broker ce)"
    and "\<forall>n st. rt_steps True (ce_pg ce) (co_db (snd st)) (co_db (snd (ae_meanwhile ae n st)))"
    and "rt_steps True (ce_pg ce) empty_db (co_db (snd st))" "0 \<le> lastEventID r"
    and "sessionEvents True ae ce sid r wakes st = (resp, out, cursor, w', c')"
    and "runEvents fmt True ae ce rid r wakes st = (resp2, out2, cursor2, w2, c2)"
  shows "(\<exists>n. delivered out = map session_sse (take n (drop (nat (lastEventID r)) (feed_log (co_db c') sid))))
    \<and> (cursor \<noteq> None \<longrightarrow> wakes \<noteq> [] \<longrightarrow> last wakes = Tick \<longrightarrow>
         delivered out = map session_sse (drop (nat (lastEventID r)) (feed_log (co_db c') sid)))
    \<and> map sse_ID (delivered out2) = [lastEventID r + 1..lastEventID r + int (length (delivered out2))]
    \<and> (\<forall>e \<in> set (delivered out2). run_genuine fmt ce rid c2 e)
    \<and> (cursor2 \<noteq> None \<longrightarrow> wakes \<noteq> [] \<longrightarrow> last wakes = Tick \<longrightarrow>
         run_caught rid c2 (lastEventID r + int (length (delivered out2))))"
proof -
  obtain w c where st: "st = (w, c)" by fastforce
  let ?k = "lastEventID r"
  have ok: "stream_ok ae ce c" using assms(1,3,4) by (simp add: stream_ok_def api_calm_def calm_env_def st)
  have loop: "stream_loop (session_read ce sid) (ae_meanwhile ae) 0 wakes ?k (w, c) = (out, cursor, w', c')"
    "stream_loop (run_read fmt ce rid) (ae_meanwhile ae) 0 wakes ?k (w, c) = (out2, cursor2, w2, c2)"
    using assms(6,7) by (simp_all add: sessionEvents_def runEvents_def stream_def st)
  note ses = session_stream.loop_delivers [OF ok assms(5) loop(1)]
  have "seq_ok ?k" using assms(5) by (simp add: seq_ok_def lastEventID_def ParseInt_bounded Let_def)
  note run = run_stream.loop_delivers [OF conjI [OF assms(2) ok] this loop(2)]
  let ?feed = "drop (nat ?k) (feed_log (co_db c') sid)"
  have seg: "delivered out = map session_sse (take (length (delivered out)) ?feed)"
    using ses assms(5)
    by (intro numbered_segment [OF feed_log_numbers [OF stream_ok_inv]]) (auto simp: session_sse_def in_feed_def)
  have all: "delivered out = map session_sse ?feed" if "cursor \<noteq> None" "wakes \<noteq> []" "last wakes = Tick"
  proof -
    have "feed_read sid c' (lastSequence ?k (delivered out))" using ses that by auto
    then have "length ?feed \<le> length (delivered out)"
      using chained_last [of ?k "delivered out"] ses assms(5) by (simp add: feed_read_def)
    then show ?thesis using seg by simp
  qed
  have "map sse_ID (delivered out2) = [?k + 1..?k + int (length (delivered out2))]"
    using run by (simp add: chained_numbers)
  moreover have "run_caught rid c2 (?k + int (length (delivered out2)))" if "cursor2 \<noteq> None" "wakes \<noteq> []" "last wakes = Tick"
    using run that chained_last [of ?k "delivered out2"] by auto
  ultimately show ?thesis using seg all run by blast
qed

lemma mem_redis_reads_after: "reads_after (RedisBroker mem_redis)"
proof (unfold reads_after_def, intro allI impI ballI)
  fix rid j k es k' x
  assume j: "seq_ok j" and r: "br_ReadRunEvents (RedisBroker mem_redis) rid j k = (Inr es, k')" and x: "x \<in> set es"
  define items where "items = filter (\<lambda>e. j < fst (ParseInt (id_part (fst e)))) (k (runStream rid))"
  have "read_items items = Inr es"
    using r j by (simp add: RedisBroker_def redis_ReadRunEvents_def mem_redis_def items_def id_part_stream_id seq_ok_def) blast
  then have "es = map entry_event items" by (induction items arbitrary: es) (auto split: if_splits sum.splits)
  then show "j < revent_Sequence x" using x by (auto simp: items_def entry_event_def)
qed

theorem sse_stream_gapless_witness:
  "\<exists>out cursor w' c'. snd (sessionEvents True demo_api demo_ce ''s'' demo_poll_request [Heartbeat, Tick]
      (demo_world, demo_coord demo_running)) = (out, Some cursor, w', c') \<and>
    delivered out = map session_sse (feed_log (co_db c') ''s'')"
proof -
  let ?st = "(demo_world, demo_coord demo_running)"
  have idle: "\<forall>n st. rt_steps True (ce_pg demo_ce) (co_db (snd st)) (co_db (snd (ae_meanwhile demo_api n st)))"
    by (simp add: demo_api_def)
  have reach: "rt_steps True (ce_pg demo_ce) empty_db (co_db (snd ?st))"
    using demo_running_reachable by (simp add: demo_coord_def)
  have zero: "lastEventID demo_poll_request = 0"
    by (simp add: lastEventID_def demo_poll_request_def header_def query_def get_first_def ParseInt_def split_sign_def parse_digits_def)
  have reads: "reads_after (ce_broker demo_ce)" by (simp add: demo_ce_def mem_redis_reads_after)
  obtain resp out cursor w' c' where s: "sessionEvents True demo_api demo_ce ''s'' demo_poll_request [Heartbeat, Tick] ?st =
    (resp, out, Some cursor, w', c')"
    by (simp add: sessionEvents_def stream_def demo_api_def session_read_def read_call_def store_call_def Let_def
        demo_call_def ListSessionEvents_def pool_query_def no_faults_def)
  obtain resp2 out2 cursor2 w2 c2 where r: "runEvents (\<lambda>j. j) True demo_api demo_ce demo_rid demo_poll_request [Heartbeat, Tick] ?st =
    (resp2, out2, cursor2, w2, c2)"
    by (rule prod_cases5)
  have "delivered out = map session_sse (feed_log (co_db c') ''s'')"
    using sse_stream_gapless [OF demo_calm reads idle reach _ s r] zero by simp
  then show ?thesis using s by simp
qed

end
