(* ===== verification/Runtime_Routes.thy ===== *)
theory Runtime_Routes
  imports Runtime_Stream
begin

section \<open>The Runtime API: routes\<close>

text \<open>
  The table of \<open>API.Register\<close> in \<^verbatim>\<open>internal/runtime/http.go\<close> and the dispatch of \<open>http.ServeMux\<close> over it.
  A pattern is a list of path segments, literals and variables; a variable takes a segment that
  is not empty. The record \<open>api_given\<close> holds what one request is served with: the parameters
  \<open>hash\<close> and \<open>fmt\<close>, whether the response writer flushes, the rounds a poll is given and the wake-ups of
  a stream. What a stream writes after its response head is the first component of the state. The
  response with status 0 stands for none: the connection is cut after a panic, or the poll is still
  going on.
\<close>

datatype segment = Lit string | Var

datatype runtime_route =
    RHealth | RProjects | RExecutionProfiles | RSource | RSessions | RCreateSession | RSession | RRuns | RCreateRun
  | RRun | RCancel | RSessionEvents | RSessionPoll | RRunEvents | RRunPoll | RCreateSync | RSync

definition runtime_Register :: "(string \<times> segment list \<times> runtime_route) list" where
  "runtime_Register =
     [(''GET'', [Lit ''healthz''], RHealth),
      (''GET'', [Lit ''projects''], RProjects),
      (''GET'', [Lit ''projects'', Var, Lit ''execution-profiles''], RExecutionProfiles),
      (''POST'', [Lit ''projects'', Var, Lit ''source:read''], RSource),
      (''GET'', [Lit ''sessions''], RSessions),
      (''POST'', [Lit ''sessions''], RCreateSession),
      (''GET'', [Lit ''sessions'', Var], RSession),
      (''GET'', [Lit ''sessions'', Var, Lit ''runs''], RRuns),
      (''POST'', [Lit ''sessions'', Var, Lit ''runs''], RCreateRun),
      (''GET'', [Lit ''runs'', Var], RRun),
      (''POST'', [Lit ''runs'', Var, Lit ''cancel''], RCancel),
      (''GET'', [Lit ''sessions'', Var, Lit ''events''], RSessionEvents),
      (''GET'', [Lit ''sessions'', Var, Lit ''events:poll''], RSessionPoll),
      (''GET'', [Lit ''runs'', Var, Lit ''events''], RRunEvents),
      (''GET'', [Lit ''runs'', Var, Lit ''events:poll''], RRunPoll),
      (''POST'', [Lit ''bootstrap-syncs''], RCreateSync),
      (''GET'', [Lit ''bootstrap-syncs'', Var], RSync)]"

definition runtime_prefix :: "string list" where
  "runtime_prefix = [[], ''v1'', ''runtime'']"

text \<open>The values of the variables, when the segments match.\<close>

fun match_segments :: "segment list \<Rightarrow> string list \<Rightarrow> string list option" where
  "match_segments [] [] = Some []"
| "match_segments (Lit l # ps) (s # ss) = (if s = l then match_segments ps ss else None)"
| "match_segments (Var # ps) (s # ss) = (if s \<noteq> [] then map_option ((#) s) (match_segments ps ss) else None)"
| "match_segments _ _ = None"

definition path_variables :: "segment list \<Rightarrow> string \<Rightarrow> string list option" where
  "path_variables ps path = match_segments (map Lit runtime_prefix @ ps) (split_on (CHR ''/'') path)"

definition route_runtime :: "http_request \<Rightarrow> (runtime_route \<times> string) option" where
  "route_runtime r =
     (case find (\<lambda>(m, ps, _). method_matches m (rq_method r) \<and> path_variables ps (rq_path r) \<noteq> None) runtime_Register of
        None \<Rightarrow> None
      | Some (_, ps, h) \<Rightarrow> Some (h, case path_variables ps (rq_path r) of Some (v # _) \<Rightarrow> v | _ \<Rightarrow> []))"

record api_given =
  ar_hash :: "json \<Rightarrow> string"
  ar_fmt :: "json \<Rightarrow> json"
  ar_flushes :: bool
  ar_rounds :: nat
  ar_wakes :: "stream_wake list"

type_synonym 'k api_state = "sse_item list \<times> world \<times> 'k coord"

definition no_reply :: http_response where
  "no_reply = \<lparr>re_status = 0, re_headers = [], re_cookies = [], re_body = None\<rparr>"

definition on_coord :: "('k coord \<Rightarrow> http_response \<times> 'k coord) \<Rightarrow> 'k api_state \<Rightarrow> http_response \<times> 'k api_state" where
  "on_coord f st = (let (out, w, c) = st; (resp, c') = f c in (resp, out, w, c'))"

definition on_world :: "(world \<times> 'k coord \<Rightarrow> http_response \<times> world \<times> 'k coord) \<Rightarrow> 'k api_state \<Rightarrow> http_response \<times> 'k api_state" where
  "on_world f st = (let (out, w, c) = st; (resp, w', c') = f (w, c) in (resp, out, w', c'))"

definition on_poll :: "(world \<times> 'k coord \<Rightarrow> (poll_outcome \<times> world \<times> 'k coord) option) \<Rightarrow> 'k api_state \<Rightarrow> http_response \<times> 'k api_state" where
  "on_poll f st =
     (let (out, w, c) = st in
      case f (w, c) of
        None \<Rightarrow> (no_reply, out, w, c)
      | Some (res, w', c') \<Rightarrow> (case poll_response res of Some resp \<Rightarrow> resp | None \<Rightarrow> no_reply, out, w', c'))"

definition on_stream :: "(world \<times> 'k coord \<Rightarrow> http_response \<times> sse_item list \<times> int option \<times> world \<times> 'k coord) \<Rightarrow>
    'k api_state \<Rightarrow> http_response \<times> 'k api_state" where
  "on_stream f st = (let (out, w, c) = st; (resp, items, _, w', c') = f (w, c) in (resp, out @ items, w', c'))"

definition serve_route :: "api_given \<Rightarrow> 'k api_env \<Rightarrow> 'k coord_env \<Rightarrow> registry \<Rightarrow> runtime_route \<Rightarrow> string \<Rightarrow> http_request \<Rightarrow>
    'k api_state \<Rightarrow> http_response \<times> 'k api_state" where
  "serve_route ar ae ce reg h v r =
     (case h of
        RHealth \<Rightarrow> on_coord (health ae ce)
      | RProjects \<Rightarrow> on_coord (api_projects ce)
      | RExecutionProfiles \<Rightarrow> on_world (projectExecutionProfiles ae ce reg v)
      | RSource \<Rightarrow> on_world (projectSource ae ce reg v r)
      | RSessions \<Rightarrow> on_coord (api_sessions ce r)
      | RCreateSession \<Rightarrow> on_world (createSession (ar_hash ar) ce r)
      | RSession \<Rightarrow> on_coord (api_session ce v)
      | RRuns \<Rightarrow> on_coord (api_runs ce v)
      | RCreateRun \<Rightarrow> on_world (createRun (ar_hash ar) ce v r)
      | RRun \<Rightarrow> on_coord (api_run ce v)
      | RCancel \<Rightarrow> on_world (api_cancel ce v)
      | RSessionEvents \<Rightarrow> on_stream (sessionEvents (ar_flushes ar) ae ce v r (ar_wakes ar))
      | RSessionPoll \<Rightarrow> on_poll (sessionEventsPoll (ar_fmt ar) ae ce v r (ar_rounds ar))
      | RRunEvents \<Rightarrow> on_stream (runEvents (ar_fmt ar) (ar_flushes ar) ae ce v r (ar_wakes ar))
      | RRunPoll \<Rightarrow> on_poll (runEventsPoll (ar_fmt ar) ae ce v r (ar_rounds ar))
      | RCreateSync \<Rightarrow> on_world (createSync ce r)
      | RSync \<Rightarrow> on_coord (api_sync ce v))"

definition serve_runtime :: "api_given \<Rightarrow> 'k api_env \<Rightarrow> 'k coord_env \<Rightarrow> registry \<Rightarrow> http_request \<Rightarrow>
    'k api_state \<Rightarrow> http_response \<times> 'k api_state" where
  "serve_runtime ar ae ce reg r st =
     (case route_runtime r of
        Some (h, v) \<Rightarrow> serve_route ar ae ce reg h v r st
      | None \<Rightarrow>
          (respond_empty (if list_ex (\<lambda>(_, ps, _). path_variables ps (rq_path r) \<noteq> None) runtime_Register then 405 else 404), st))"

subsection \<open>Facts about the table\<close>

lemma match_segments_last:
  "match_segments ps ss = Some vs \<Longrightarrow> ps \<noteq> [] \<Longrightarrow> ss \<noteq> [] \<and> (case last ps of Lit l \<Rightarrow> last ss = l | Var \<Rightarrow> vs \<noteq> [] \<and> last ss = last vs)"
proof (induction ps ss arbitrary: vs rule: match_segments.induct)
  case (2 l ps s ss)
  then show ?case by (cases "ps = []"; cases ss) (auto split: if_splits segment.splits)
next
  case (3 ps s ss)
  then show ?case by (cases "ps = []"; cases ss) (auto split: if_splits segment.splits)
qed auto

lemma match_literals: "match_segments (map Lit ls @ ps) ss = Some vs \<Longrightarrow> \<exists>rest. ss = ls @ rest \<and> match_segments ps rest = Some vs"
proof (induction ls arbitrary: ss)
  case (Cons l ls)
  then show ?case by (cases ss) (auto split: if_splits)
qed simp

lemma match_length: "match_segments ps ss = Some vs \<Longrightarrow> length vs = length (filter (\<lambda>p. p = Var) ps)"
  by (induction ps ss arbitrary: vs rule: match_segments.induct) (auto split: if_splits)

lemma match_nonempty: "match_segments ps ss = Some vs \<Longrightarrow> length ss = length ps"
  by (induction ps ss arbitrary: vs rule: match_segments.induct) (auto split: if_splits)

text \<open>A path is its segments, each behind a slash.\<close>

lemma split_on_path:
  assumes "split_on c s = xs @ ys" "ys \<noteq> []"
  shows "\<exists>t. s = concat (map (\<lambda>p. p @ [c]) xs) @ t \<and> t @ [c] = concat (map (\<lambda>p. p @ [c]) ys)"
proof -
  have j: "s @ [c] = concat (map (\<lambda>p. p @ [c]) xs) @ concat (map (\<lambda>p. p @ [c]) ys)"
    using split_on_join [of c s] assms(1) by simp
  obtain ys' y where y: "ys = ys' @ [y]" using assms(2) by (metis rev_exhaust)
  define t where "t = concat (map (\<lambda>p. p @ [c]) ys') @ y"
  have "concat (map (\<lambda>p. p @ [c]) ys) = t @ [c]" by (simp add: y t_def)
  with j show ?thesis by auto
qed

lemma split_on_append_sep: "split_on c (a @ c # b) = split_on c a @ split_on c b"
  by (induction a) (auto split: list.split)

lemma last_segment_suffix:
  assumes "c \<notin> set t"
  shows "has_suffix s (c # t) \<longleftrightarrow> last (split_on c s) = t \<and> length (split_on c s) > 1"
proof
  assume "has_suffix s (c # t)"
  then obtain a where s: "s = a @ c # t" by (auto simp: has_suffix_iff)
  have "split_on c s = split_on c a @ [t]" using assms by (simp add: s split_on_append_sep split_on_free)
  then show "last (split_on c s) = t \<and> length (split_on c s) > 1" by simp
next
  assume a: "last (split_on c s) = t \<and> length (split_on c s) > 1"
  define xs where "xs = butlast (split_on c s)"
  have "split_on c s = xs @ [t]" "xs \<noteq> []" using a append_butlast_last_id [of "split_on c s"] by (auto simp: xs_def simp flip: length_greater_0_conv)
  then obtain u where "s = concat (map (\<lambda>p. p @ [c]) xs) @ u" "u @ [c] = t @ [c]" using split_on_path [of c s xs "[t]"] by auto
  moreover obtain xs' x where "xs = xs' @ [x]" using \<open>xs \<noteq> []\<close> by (metis rev_exhaust)
  ultimately show "has_suffix s (c # t)" by (auto simp: has_suffix_iff)
qed

definition route_scope :: "runtime_route \<Rightarrow> string" where
  "route_scope h =
     (if h = RSource then ScopeSourceRead
      else if h \<in> {RCreateSession, RCreateRun, RCancel, RCreateSync} then ScopeRuntimeWrite
      else ScopeRuntimeRead)"

lemma find_in: "find P xs = Some x \<Longrightarrow> x \<in> set xs \<and> P x"
  by (induction xs) (auto split: if_splits)

lemma route_runtimeE:
  assumes "route_runtime r = Some (h, v)"
  obtains m ps vs where "(m, ps, h) \<in> set runtime_Register" "method_matches m (rq_method r)"
    "path_variables ps (rq_path r) = Some vs" "v = (case vs of x # _ \<Rightarrow> x | [] \<Rightarrow> [])"
proof -
  obtain e where f: "find (\<lambda>(m, ps, _). method_matches m (rq_method r) \<and> path_variables ps (rq_path r) \<noteq> None) runtime_Register = Some e"
    using assms by (auto simp: route_runtime_def split: option.splits)
  obtain m ps h' where e: "e = (m, ps, h')" by (metis prod_cases3)
  obtain vs where vs: "path_variables ps (rq_path r) = Some vs" using find_in [OF f] e by auto
  have "h' = h" "v = (case vs of x # _ \<Rightarrow> x | [] \<Rightarrow> [])" using assms f e vs by (auto simp: route_runtime_def split: list.split)
  then show thesis using that [of m ps vs] find_in [OF f] e vs by auto
qed

lemma route_segments:
  assumes "path_variables ps path = Some vs" "ps \<noteq> []"
  obtains rest where "split_on (CHR ''/'') path = runtime_prefix @ rest" "rest \<noteq> []" "match_segments ps rest = Some vs"
  using assms match_literals [of runtime_prefix ps "split_on (CHR ''/'') path" vs] match_nonempty [of ps _ vs]
  unfolding path_variables_def by (metis length_0_conv)

lemma route_runtime_path: "route_runtime r = Some (h, v) \<Longrightarrow> has_prefix (rq_path r) ''/v1/runtime/''"
proof -
  assume "route_runtime r = Some (h, v)"
  then obtain m ps vs where e: "(m, ps, h) \<in> set runtime_Register" "path_variables ps (rq_path r) = Some vs" by (rule route_runtimeE)
  have "ps \<noteq> []" using e(1) by (auto simp: runtime_Register_def)
  with e(2) obtain rest where "split_on (CHR ''/'') (rq_path r) = runtime_prefix @ rest" "rest \<noteq> []" by (rule route_segments)
  then obtain t where "rq_path r = concat (map (\<lambda>p. p @ ''/'') runtime_prefix) @ t"
    using split_on_path [of "CHR ''/''" "rq_path r" runtime_prefix rest] by auto
  then show ?thesis by (simp add: runtime_prefix_def has_prefix_iff)
qed

text \<open>What the table says of the last segment and the method of each route.\<close>

lemma table_scopes: "list_all (\<lambda>(m, ps, h). ps \<noteq> [] \<and> m \<noteq> ''HEAD'' \<and>
    (case last ps of
       Lit l \<Rightarrow> (l = ''source:read'') = (h = RSource) \<and> h \<notin> {RSession, RRun, RSync}
     | Var \<Rightarrow> h \<in> {RSession, RRun, RSync} \<and> length (filter (\<lambda>p. p = Var) ps) = 1) \<and>
    (m = ''GET'' \<longrightarrow> route_scope h = ScopeRuntimeRead) \<and>
    (m \<noteq> ''GET'' \<longrightarrow> h \<noteq> RSource \<longrightarrow> route_scope h = ScopeRuntimeWrite)) runtime_Register"
  by (simp add: runtime_Register_def route_scope_def)

text \<open>
  The last segment is \<^verbatim>\<open>source:read\<close> for the route that reads sources, and for the three routes whose path ends with an
  identifier when the client sends \<^verbatim>\<open>source:read\<close> as the identifier.
\<close>

lemma route_last:
  assumes "route_runtime r = Some (h, v)"
  shows "has_suffix (rq_path r) ''/source:read'' \<longleftrightarrow> h = RSource \<or> h \<in> {RSession, RRun, RSync} \<and> v = ''source:read''"
proof -
  obtain m ps vs where e: "(m, ps, h) \<in> set runtime_Register" "path_variables ps (rq_path r) = Some vs"
    "v = (case vs of x # _ \<Rightarrow> x | [] \<Rightarrow> [])"
    using route_runtimeE [OF assms] by metis
  have t: "ps \<noteq> []" "case last ps of Lit l \<Rightarrow> (l = ''source:read'') = (h = RSource) \<and> h \<notin> {RSession, RRun, RSync}
     | Var \<Rightarrow> h \<in> {RSession, RRun, RSync} \<and> length (filter (\<lambda>p. p = Var) ps) = 1"
    using table_scopes e(1) by (auto simp: list_all_iff)
  obtain rest where s: "split_on (CHR ''/'') (rq_path r) = runtime_prefix @ rest" "rest \<noteq> []" "match_segments ps rest = Some vs"
    using e(2) t(1) by (rule route_segments)
  have "has_suffix (rq_path r) ''/source:read'' \<longleftrightarrow> last rest = ''source:read''"
    using last_segment_suffix [of "CHR ''/''" "''source:read''" "rq_path r"] s by (simp add: runtime_prefix_def)
  also have "\<dots> \<longleftrightarrow> h = RSource \<or> h \<in> {RSession, RRun, RSync} \<and> v = ''source:read''"
  proof (cases "last ps")
    case (Lit l)
    then show ?thesis using t(2) match_segments_last [OF s(3) t(1)] by simp
  next
    case Var
    then obtain x where "vs = [x]" using t(2) match_length [OF s(3)] by (auto simp: length_Suc_conv)
    then show ?thesis using Var t(2) match_segments_last [OF s(3) t(1)] e(3) by auto
  qed
  finally show ?thesis .
qed

end
