(* ===== verification/Server.thy ===== *)
theory Server
  imports Runtime_Routes Config
begin

section \<open>The server\<close>

text \<open>
  \<^verbatim>\<open>internal/server/server.go\<close>: how the parts are put together. Its state is the relay (registry, connections,
  coordinator), the state of the auth service and what the current request's stream has written;
  the record \<open>server_env\<close> holds everything a request is served with. The handshake of the WebSocket library is the
  parameter \<open>sv_accept\<close>: the response with which it refuses, or none. \<open>ServeMux\<close> redirects a path that is
  not canonical; the target of a redirect is not modelled.
\<close>

record 'k server_env =
  sv_config :: config
  sv_runtime :: bool
  sv_auth :: bool
  sv_ce :: "'k coord_env"
  sv_ae :: "'k api_env"
  sv_given :: api_given
  sv_hash :: "string \<Rightarrow> string"
  sv_faults :: faults
  sv_now :: time
  sv_clock :: time
  sv_accept :: "http_request \<Rightarrow> http_response option"

record 'k server =
  sv_relay :: "'k coord relay"
  sv_tokens :: auth_state
  sv_out :: "sse_item list"

subsection \<open>Middleware\<close>

definition runtimeRequiredScope :: "http_request \<Rightarrow> string" where
  "runtimeRequiredScope r =
     (if has_suffix (rq_path r) ''/source:read'' then ScopeSourceRead
      else if rq_method r = ''GET'' \<or> rq_method r = ''HEAD'' then ScopeRuntimeRead
      else ScopeRuntimeWrite)"

definition origin_items :: "string \<Rightarrow> string list" where
  "origin_items origin = filter (\<lambda>v. v \<noteq> []) (map trim_space (split_on (CHR '','') origin))"

definition cors_headers :: "string \<Rightarrow> http_request \<Rightarrow> (string \<times> string) list" where
  "cors_headers origin r =
     (let allowAny = (''*'' \<in> set (origin_items origin)); requestOrigin = header r ''Origin'';
          named = (if requestOrigin \<noteq> [] \<and> allowAny then [(''Access-Control-Allow-Origin'', ''*'')]
                   else if requestOrigin \<in> set (origin_items origin) \<and> requestOrigin \<noteq> ''*''
                   then [(''Access-Control-Allow-Origin'', requestOrigin), (''Vary'', ''Origin'')]
                   else []) in
      if named = [] then []
      else named @
        [(''Access-Control-Allow-Headers'', ''Authorization, Content-Type, Idempotency-Key, Last-Event-ID, X-Request-Id, X-CodexRemote-Request''),
         (''Access-Control-Allow-Methods'', ''GET, POST, OPTIONS'')] @
        (if allowAny then [] else [(''Access-Control-Allow-Credentials'', ''true'')]))"

definition cors :: "string \<Rightarrow> (http_request \<Rightarrow> 's \<Rightarrow> http_response \<times> 's) \<Rightarrow> http_request \<Rightarrow> 's \<Rightarrow> http_response \<times> 's" where
  "cors origin next_handler r st =
     (if rq_method r = ''OPTIONS'' then (with_headers (cors_headers origin r) (respond_empty 204), st)
      else (let (resp, st') = next_handler r st in (with_headers (cors_headers origin r) resp, st')))"

definition securityHeaders :: "(http_request \<Rightarrow> 's \<Rightarrow> http_response \<times> 's) \<Rightarrow> http_request \<Rightarrow> 's \<Rightarrow> http_response \<times> 's" where
  "securityHeaders next_handler r st =
     (let (resp, st') = next_handler r st in
      (with_headers [(''X-Content-Type-Options'', ''nosniff''), (''Referrer-Policy'', ''no-referrer'')] resp, st'))"

text \<open>The identifier of a request is the client's, or is drawn.\<close>

definition requestID :: "(http_request \<Rightarrow> 'k server \<Rightarrow> http_response \<times> 'k server) \<Rightarrow> http_request \<Rightarrow> 'k server \<Rightarrow>
    http_response \<times> 'k server" where
  "requestID next_handler r sv =
     (let given = trim_space (header r ''X-Request-Id'');
          (i, w) = (if given = [] \<or> 128 < length given then draw_id (rl_world (sv_relay sv)) else (given, rl_world (sv_relay sv)));
          (resp, sv') = next_handler r (sv\<lparr>sv_relay := (sv_relay sv)\<lparr>rl_world := w\<rparr>\<rparr>) in
      (with_headers [(''X-Request-Id'', i)] resp, sv'))"

subsection \<open>Handlers\<close>

definition server_health :: http_response where
  "server_health = respond_json 200 (JObj [(''status'', JStr ''ok'')])"

definition snapshot_json :: "hub_snapshot \<Rightarrow> json" where
  "snapshot_json s = JObj
     (member ''app_connected'' (JBool (sn_app_connected s)) @ member ''agent_connected'' (JBool (sn_agent_connected s))
      @ omit_if (sn_app_connection_id s = 0) ''app_connection_id'' (JNum (uint (sn_app_connection_id s)))
      @ omit_if (sn_last_turn_acknowledged s = []) ''last_turn_acknowledged'' (JStr (sn_last_turn_acknowledged s))
      @ omit_if (sn_last_turn_acknowledged_status s = []) ''last_turn_acknowledged_status'' (JStr (sn_last_turn_acknowledged_status s)))"

definition server_status :: "registry \<Rightarrow> http_response" where
  "server_status reg = respond_json 200 (snapshot_json (registry_Snapshot reg))"

text \<open>\<open>cleanPath\<close> of \<open>ServeMux\<close>: \<open>path.Clean\<close>, with a final slash kept.\<close>

definition clean_segments :: "string list \<Rightarrow> string list" where
  "clean_segments ss =
     foldl (\<lambda>acc s. if s = [] \<or> s = ''.'' then acc else if s = ''..'' then butlast acc else acc @ [s]) [] ss"

definition cleanPath :: "string \<Rightarrow> string" where
  "cleanPath p =
     (let p' = (if p = [] \<or> hd p \<noteq> CHR ''/'' then CHR ''/'' # p else p);
          ss = clean_segments (split_on (CHR ''/'') p');
          np = (if ss = [] then ''/'' else concat (map (\<lambda>s. CHR ''/'' # s) ss)) in
      if last p' = CHR ''/'' \<and> np \<noteq> ''/'' then np @ ''/'' else np)"

definition on_tokens :: "(auth_state \<Rightarrow> http_response \<times> auth_state) \<Rightarrow> 'k server \<Rightarrow> http_response \<times> 'k server" where
  "on_tokens f sv = (let (resp, t) = f (sv_tokens sv) in (resp, sv\<lparr>sv_tokens := t\<rparr>))"

definition observer_of :: "'k server_env \<Rightarrow> 'k coord observer option" where
  "observer_of se = (if sv_runtime se then Some (coordinator (sv_ce se)) else None)"

definition serve_role :: "'k server_env \<Rightarrow> string \<Rightarrow> http_request \<Rightarrow> 'k server \<Rightarrow> http_response \<times> 'k server" where
  "serve_role se role r sv =
     (case sv_accept se r of
        Some refused \<Rightarrow> (refused, sv)
      | None \<Rightarrow>
          (respond_empty 101,
           sv\<lparr>sv_relay := snd (ServeRole_open (ce_env (sv_ce se)) (observer_of se) (nat (cf_WriteQueueSize (sv_config se))) role (sv_relay sv))\<rparr>))"

text \<open>The Runtime API, behind the bearer-token middleware when there is an auth module.\<close>

definition api_state_of :: "'k server \<Rightarrow> 'k api_state" where
  "api_state_of sv = (sv_out sv, rl_world (sv_relay sv), rl_rt (sv_relay sv))"

definition with_api_state :: "'k api_state \<Rightarrow> 'k server \<Rightarrow> 'k server" where
  "with_api_state st sv =
     (let (out, w, c) = st in sv\<lparr>sv_out := out, sv_relay := (sv_relay sv)\<lparr>rl_world := w, rl_rt := c\<rparr>\<rparr>)"

definition runtimeHandler :: "'k server_env \<Rightarrow> http_request \<Rightarrow> 'k server \<Rightarrow> http_response \<times> 'k server" where
  "runtimeHandler se r sv =
     (let serve = serve_runtime (sv_given se) (sv_ae se) (sv_ce se) (rl_reg (sv_relay sv)) in
      if sv_auth se then
        (let (resp, db, st) = Middleware (sv_hash se) (sv_faults se) (sv_now se) runtimeRequiredScope (\<lambda>_. serve) r
               (snd (sv_tokens sv), api_state_of sv) in
         (resp, with_api_state st (sv\<lparr>sv_tokens := (fst (sv_tokens sv), db)\<rparr>)))
      else (let (resp, st) = serve r (api_state_of sv) in (resp, with_api_state st sv)))"

definition auth_config_of :: "config \<Rightarrow> auth_config" where
  "auth_config_of c = NewService \<lparr>AccessTTL = cf_AuthAccessTTL c, RefreshTTL = cf_AuthRefreshTTL c, PairingTTL = cf_AuthPairingTTL c\<rparr>"

definition http_config_of :: "config \<Rightarrow> http_config" where
  "http_config_of c = NewPublicAPI \<lparr>CookieName = cf_AuthCookieName c, CookieSecure = cf_AuthCookieSecure c\<rparr>"

definition server_mux :: "'k server_env \<Rightarrow> http_request \<Rightarrow> 'k server \<Rightarrow> http_response \<times> 'k server" where
  "server_mux se r sv =
     (let path = rq_path r; get = method_matches ''GET'' (rq_method r) in
      if rq_method r \<noteq> ''CONNECT'' \<and> cleanPath path \<noteq> path then (respond_empty 301, sv)
      else if path = ''/healthz'' then (if get then server_health else respond_empty 405, sv)
      else if path = ''/status'' then (if get then server_status (rl_reg (sv_relay sv)) else respond_empty 405, sv)
      else if path = ''/ws/app'' then serve_role se RoleApp r sv
      else if path = ''/ws/agent'' then serve_role se RoleAgent r sv
      else if sv_runtime se \<and> path = ''/v1/runtime'' then (respond_empty 301, sv)
      else if sv_runtime se \<and> has_prefix path ''/v1/runtime/'' then runtimeHandler se r sv
      else if sv_runtime se \<and> sv_auth se then
        on_tokens (serve_public (sv_hash se) (auth_config_of (sv_config se)) (http_config_of (sv_config se))
          (sv_faults se) (sv_now se) (sv_clock se) r) sv
      else (respond_empty 404, sv))"

definition server_Handler :: "'k server_env \<Rightarrow> http_request \<Rightarrow> 'k server \<Rightarrow> http_response \<times> 'k server" where
  "server_Handler se = requestID (cors (cf_AllowedOrigin (sv_config se)) (securityHeaders (server_mux se)))"

text \<open>The control API has a server of its own; there is none without an auth module.\<close>

definition server_ControlHandler :: "'k server_env \<Rightarrow> http_request \<Rightarrow> 'k server \<Rightarrow> (http_response \<times> 'k server) option" where
  "server_ControlHandler se r sv =
     (if sv_runtime se \<and> sv_auth se then
        Some (on_tokens (control_Handler (sv_hash se) (auth_config_of (sv_config se)) (sv_faults se) (sv_now se) r) sv)
      else None)"

definition CloseConnections :: "'k server_env \<Rightarrow> string \<Rightarrow> 'k server \<Rightarrow> 'k server" where
  "CloseConnections se reason sv =
     (let s = close_all reason (sv_relay sv) in
      sv\<lparr>sv_relay := (if sv_runtime se then s\<lparr>rl_rt := coord_Close (sv_ce se) (rl_rt s)\<rparr> else s)\<rparr>)"

definition newServer :: "world \<Rightarrow> rt_db \<Rightarrow> 'k \<Rightarrow> auth_state \<Rightarrow> 'k server" where
  "newServer w db k tokens =
     \<lparr>sv_relay = \<lparr>rl_reg = NewRegistry, rl_world = w,
        rl_rt = \<lparr>co_db = db, co_broker = k, co_source = Some [], co_profiles = Some [], co_runIDs = [], co_calls = 0\<rparr>\<rparr>,
      sv_tokens = tokens, sv_out = []\<rparr>"

subsection \<open>Requests to the Runtime API are authorised\<close>

lemma with_headers_simps [simp]: "re_status (with_headers hs resp) = re_status resp" "re_body (with_headers hs resp) = re_body resp"
  by (simp_all add: with_headers_def)

declare draw_id_conns [simp]

lemma route_method: "route_runtime r = Some (h, v) \<Longrightarrow> rq_method r \<in> {''GET'', ''HEAD'', ''POST''}"
proof -
  assume "route_runtime r = Some (h, v)"
  then obtain m ps where "(m, ps, h) \<in> set runtime_Register" "method_matches m (rq_method r)" by (rule route_runtimeE)
  then show ?thesis by (auto simp: runtime_Register_def method_matches_def)
qed

text \<open>
  The scope a request needs: by route, except that the three routes whose path ends with an identifier need
  \<^verbatim>\<open>source:read\<close> when that identifier is \<^verbatim>\<open>source:read\<close> itself.
\<close>

definition needed_scope :: "runtime_route \<Rightarrow> string \<Rightarrow> string" where
  "needed_scope h v =
     (if h \<in> {RSession, RRun, RSync} \<and> v = ''source:read'' then ''source:read''
      else if h = RSource then ''source:read''
      else if h \<in> {RCreateSession, RCreateRun, RCancel, RCreateSync} then ''runtime:write''
      else ''runtime:read'')"

lemma route_required_scope:
  assumes "route_runtime r = Some (h, v)"
  shows "runtimeRequiredScope r = needed_scope h v"
proof -
  obtain m ps where e: "(m, ps, h) \<in> set runtime_Register" "method_matches m (rq_method r)" using assms by (rule route_runtimeE)
  then have t: "m = ''GET'' \<longrightarrow> route_scope h = ScopeRuntimeRead" "m \<noteq> ''GET'' \<longrightarrow> h \<noteq> RSource \<longrightarrow> route_scope h = ScopeRuntimeWrite"
    "m \<noteq> ''HEAD''"
    using table_scopes by (auto simp: list_all_iff)
  define at_source where "at_source \<longleftrightarrow> h = RSource \<or> h \<in> {RSession, RRun, RSync} \<and> v = ''source:read''"
  have need: "needed_scope h v = (if at_source then ScopeSourceRead else route_scope h)"
    by (simp add: at_source_def needed_scope_def route_scope_def ScopeSourceRead_def ScopeRuntimeWrite_def ScopeRuntimeRead_def)
  have sfx: "has_suffix (rq_path r) ''/source:read'' \<longleftrightarrow> at_source" unfolding at_source_def by (rule route_last [OF assms])
  have "\<not> at_source \<Longrightarrow> h \<noteq> RSource" by (simp add: at_source_def)
  then show ?thesis
    using e(2) t by (cases at_source) (auto simp: runtimeRequiredScope_def method_matches_def sfx need)
qed

text \<open>A request to a route of the API reaches the handler of the API, or is redirected.\<close>

lemma server_mux_runtime:
  assumes "sv_runtime se" "route_runtime r = Some (h, v)"
  shows "server_mux se r sv =
    (if cleanPath (rq_path r) \<noteq> rq_path r then (respond_empty 301, sv) else runtimeHandler se r sv)"
proof -
  have p: "has_prefix (rq_path r) ''/v1/runtime/''" by (rule route_runtime_path [OF assms(2)])
  then have "rq_path r \<noteq> ''/healthz''" "rq_path r \<noteq> ''/status''" "rq_path r \<noteq> ''/ws/app''" "rq_path r \<noteq> ''/ws/agent''"
    "rq_path r \<noteq> ''/v1/runtime''" by (auto simp: has_prefix_iff)
  moreover have "rq_method r \<noteq> ''CONNECT''" using route_method [OF assms(2)] by auto
  ultimately show ?thesis using p assms(1) by (simp add: server_mux_def)
qed

definition api_answer :: "'k server_env \<Rightarrow> runtime_route \<Rightarrow> string \<Rightarrow> http_request \<Rightarrow> 'k server \<Rightarrow> http_response \<Rightarrow> 'k server \<Rightarrow> bool" where
  "api_answer se h v r sv resp sv' \<longleftrightarrow>
     (\<exists>w resp0. wd_conns w = wd_conns (rl_world (sv_relay sv)) \<and>
        serve_route (sv_given se) (sv_ae se) (sv_ce se) (rl_reg (sv_relay sv)) h v r (sv_out sv, w, rl_rt (sv_relay sv)) =
          (resp0, api_state_of sv') \<and>
        re_status resp = re_status resp0 \<and> re_body resp = re_body resp0)"

definition api_untouched :: "'k server \<Rightarrow> 'k server \<Rightarrow> bool" where
  "api_untouched sv sv' \<longleftrightarrow> rl_rt (sv_relay sv') = rl_rt (sv_relay sv) \<and> rl_reg (sv_relay sv') = rl_reg (sv_relay sv) \<and>
     wd_conns (rl_world (sv_relay sv')) = wd_conns (rl_world (sv_relay sv)) \<and> sv_out sv' = sv_out sv"

lemma api_state_simps [simp]: "api_state_of (with_api_state st sv) = st"
  "sv_relay (with_api_state (api_state_of sv) (sv\<lparr>sv_tokens := t\<rparr>)) = sv_relay sv"
  "sv_out (with_api_state (api_state_of sv) (sv\<lparr>sv_tokens := t\<rparr>)) = sv_out sv"
  by (simp_all add: api_state_of_def with_api_state_def split: prod.split)

text \<open>The tables of the auth service differ at most in when a client was last seen.\<close>

definition only_seen :: "auth_db \<Rightarrow> auth_db \<Rightarrow> bool" where
  "only_seen db db' \<longleftrightarrow>
     map (\<lambda>c. c\<lparr>cl_last_seen_at := None\<rparr>) (clients db') = map (\<lambda>c. c\<lparr>cl_last_seen_at := None\<rparr>) (clients db) \<and>
     pairing_grants db' = pairing_grants db \<and> refresh_sessions db' = refresh_sessions db \<and>
     refresh_token_history db' = refresh_token_history db \<and> access_tokens db' = access_tokens db"

lemma Authenticate_writes:
  assumes "Authenticate H flt now bearer db = (res, db')"
  shows "res = Inl err \<Longrightarrow> db' = db" "only_seen db db'"
  using assms
  by (auto simp: Authenticate_def db_AuthenticateAccess_def only_seen_def touch_client_def sql_update_def
      split: sum.splits if_splits option.splits)

lemma runtimeHandler_guarded:
  assumes "runtimeHandler se r sv1 = (resp, sv')" "sv_auth se" "route_runtime r = Some (h, v)"
    and "Authenticate (sv_hash se) (sv_faults se) (sv_now se) (bearerToken (header r ''Authorization'')) (snd (sv_tokens sv1)) = (auth, db)"
  shows "sv_tokens sv' = (fst (sv_tokens sv1), db)"
    and "auth = Inl err \<Longrightarrow> re_status resp = 401 \<and> sv_relay sv' = sv_relay sv1 \<and> sv_out sv' = sv_out sv1"
    and "auth = Inr p \<Longrightarrow> needed_scope h v \<notin> set (pr_scopes p) \<Longrightarrow>
      re_status resp = 403 \<and> sv_relay sv' = sv_relay sv1 \<and> sv_out sv' = sv_out sv1"
    and "auth = Inr p \<Longrightarrow> needed_scope h v \<in> set (pr_scopes p) \<Longrightarrow> rl_reg (sv_relay sv') = rl_reg (sv_relay sv1) \<and>
      serve_route (sv_given se) (sv_ae se) (sv_ce se) (rl_reg (sv_relay sv1)) h v r (api_state_of sv1) = (resp, api_state_of sv')"
proof -
  obtain resp0 st where s: "serve_route (sv_given se) (sv_ae se) (sv_ce se) (rl_reg (sv_relay sv1)) h v r (api_state_of sv1) = (resp0, st)"
    by (rule prod.exhaust)
  note defs = runtimeHandler_def Middleware_def serve_runtime_def assms(3) HasScope_def route_required_scope [OF assms(3)]
    write_defs with_api_state_def Let_def
  show "sv_tokens sv' = (fst (sv_tokens sv1), db)"
    using assms(1,2,4) s by (auto simp: defs split: sum.splits if_splits prod.splits)
  show "auth = Inl err \<Longrightarrow> re_status resp = 401 \<and> sv_relay sv' = sv_relay sv1 \<and> sv_out sv' = sv_out sv1"
    using assms(1,2,4) s by (auto simp: defs api_state_of_def)
  show "auth = Inr p \<Longrightarrow> needed_scope h v \<notin> set (pr_scopes p) \<Longrightarrow>
      re_status resp = 403 \<and> sv_relay sv' = sv_relay sv1 \<and> sv_out sv' = sv_out sv1"
    using assms(1,2,4) s by (auto simp: defs api_state_of_def)
  show "auth = Inr p \<Longrightarrow> needed_scope h v \<in> set (pr_scopes p) \<Longrightarrow> rl_reg (sv_relay sv') = rl_reg (sv_relay sv1) \<and>
      serve_route (sv_given se) (sv_ae se) (sv_ce se) (rl_reg (sv_relay sv1)) h v r (api_state_of sv1) = (resp, api_state_of sv')"
    using assms(1,2,4) s by (auto simp: defs api_state_of_def split: prod.splits)
qed

text \<open>
  Property C1. Every route of the Runtime API is guarded. With authentication enabled, a request to a route, under a
  canonical path, is answered by the route's handler exactly when its bearer token authenticates and carries the scope
  the request needs, and then status, body and effects are the handler's: \<^verbatim>\<open>source:read\<close> for reading
  sources, \<^verbatim>\<open>runtime:write\<close> for creating and cancelling, \<^verbatim>\<open>runtime:read\<close> for everything else, except that
  reading a session, run or sync job whose identifier is the text \<^verbatim>\<open>source:read\<close> needs
  \<^verbatim>\<open>source:read\<close>. Without authentication the answer is 401 and without the scope 403, and the runtime, the
  connections, the registry and the stream are untouched. Of the auth service's tables, a 401 leaves all as
  they are, and an authenticated request writes at most when its client was last seen. A path that is not canonical is
  redirected (301), and nothing changes.
\<close>

theorem runtime_requests_guarded:
  assumes "server_Handler se r sv = (resp, sv')" "sv_runtime se" "sv_auth se" "route_runtime r = Some (h, v)"
  defines "auth \<equiv> fst (Authenticate (sv_hash se) (sv_faults se) (sv_now se) (bearerToken (header r ''Authorization'')) (snd (sv_tokens sv)))"
  shows "if cleanPath (rq_path r) \<noteq> rq_path r then re_status resp = 301 \<and> api_untouched sv sv' \<and> sv_tokens sv' = sv_tokens sv
    else case auth of
      Inl err \<Rightarrow> re_status resp = 401 \<and> api_untouched sv sv' \<and> sv_tokens sv' = sv_tokens sv
    | Inr p \<Rightarrow> fst (sv_tokens sv') = fst (sv_tokens sv) \<and> only_seen (snd (sv_tokens sv)) (snd (sv_tokens sv')) \<and>
        (if needed_scope h v \<in> set (pr_scopes p) then api_answer se h v r sv resp sv'
         else re_status resp = 403 \<and> api_untouched sv sv')"
proof -
  define w where "w = (if trim_space (header r ''X-Request-Id'') = [] \<or> 128 < length (trim_space (header r ''X-Request-Id''))
      then snd (draw_id (rl_world (sv_relay sv))) else rl_world (sv_relay sv))"
  define sv1 where "sv1 = sv\<lparr>sv_relay := (sv_relay sv)\<lparr>rl_world := w\<rparr>\<rparr>"
  have w: "wd_conns w = wd_conns (rl_world (sv_relay sv))" by (simp add: w_def)
  obtain resp1 where m: "server_mux se r sv1 = (resp1, sv')" and st: "re_status resp = re_status resp1" "re_body resp = re_body resp1"
    using assms(1) route_method [OF assms(4)]
    by (auto simp: server_Handler_def requestID_def cors_def securityHeaders_def sv1_def w_def Let_def split: prod.splits if_splits)
  have sv1: "api_state_of sv1 = (sv_out sv, w, rl_rt (sv_relay sv))" "rl_reg (sv_relay sv1) = rl_reg (sv_relay sv)"
    "sv_tokens sv1 = sv_tokens sv" "sv_out sv1 = sv_out sv" "rl_rt (sv_relay sv1) = rl_rt (sv_relay sv)" "rl_world (sv_relay sv1) = w"
    by (simp_all add: sv1_def api_state_of_def)
  show ?thesis
  proof (cases "cleanPath (rq_path r) = rq_path r")
    case False
    then have "resp1 = respond_empty 301" "sv' = sv1" using m server_mux_runtime [OF assms(2,4)] by simp_all
    then show ?thesis using False st sv1 w by (simp add: api_untouched_def respond_empty_def)
  next
    case True
    then have h: "runtimeHandler se r sv1 = (resp1, sv')" using m server_mux_runtime [OF assms(2,4)] by simp
    obtain db where a: "Authenticate (sv_hash se) (sv_faults se) (sv_now se) (bearerToken (header r ''Authorization'')) (snd (sv_tokens sv1)) =
      (auth, db)" unfolding auth_def sv1(3) by (metis prod.collapse)
    note g = runtimeHandler_guarded [OF h assms(3,4) a] Authenticate_writes [OF a]
    show ?thesis
    proof (cases auth)
      case (Inl err)
      then show ?thesis using g(1) g(2) g(5) True st(1) sv1 w by (simp add: api_untouched_def)
    next
      case (Inr p)
      then show ?thesis using g(1) g(3) [OF Inr] g(4) [OF Inr] g(6) True st sv1 w
        by (auto simp: api_untouched_def api_answer_def)
    qed
  qed
qed

definition demo_server_env :: "(string \<Rightarrow> (string \<times> stream_values) list) server_env" where
  "demo_server_env = \<lparr>sv_config = default_config (\<lambda>_. []), sv_runtime = True, sv_auth = True, sv_ce = demo_ce, sv_ae = demo_api,
     sv_given = \<lparr>ar_hash = (\<lambda>_. []), ar_fmt = (\<lambda>j. j), ar_flushes = True, ar_rounds = 1, ar_wakes = []\<rparr>,
     sv_hash = (\<lambda>s. s), sv_faults = no_faults, sv_now = 0, sv_clock = 0, sv_accept = (\<lambda>_. None)\<rparr>"

definition demo_api_request :: http_request where
  "demo_api_request = \<lparr>rq_method = ''POST'', rq_path = ''/v1/runtime/sessions'', rq_query = [], rq_headers = [], rq_cookies = [],
     rq_body = None, rq_body_end = 0\<rparr>"

theorem runtime_requests_guarded_witness:
  "\<exists>resp sv'. server_Handler demo_server_env demo_api_request (newServer demo_world demo_running (\<lambda>_. []) (demo_zeros, empty_auth)) =
      (resp, sv') \<and> re_status resp = 401 \<and>
    api_untouched (newServer demo_world demo_running (\<lambda>_. []) (demo_zeros, empty_auth)) sv' \<and> sv_tokens sv' = (demo_zeros, empty_auth)"
proof -
  let ?sv = "newServer demo_world demo_running (\<lambda>_. []) (demo_zeros, empty_auth)"
  obtain resp sv' where h: "server_Handler demo_server_env demo_api_request ?sv = (resp, sv')" by (rule prod.exhaust)
  have r: "route_runtime demo_api_request = Some (RCreateSession, [])"
    by (simp add: route_runtime_def runtime_Register_def demo_api_request_def path_variables_def runtime_prefix_def method_matches_def)
  have c: "cleanPath (rq_path demo_api_request) = rq_path demo_api_request"
    by (simp add: demo_api_request_def cleanPath_def clean_segments_def)
  have a: "fst (Authenticate H flt now (bearerToken (header demo_api_request ''Authorization'')) db) = Inl ErrInvalidCredential" for H flt now db
    by (simp add: demo_api_request_def header_def get_first_def bearerToken_def str_fields_def Authenticate_def parseToken_def)
  have "sv_tokens ?sv = (demo_zeros, empty_auth)" by (simp add: newServer_def)
  then show ?thesis using runtime_requests_guarded [OF h _ _ r] c a h by (simp add: demo_server_env_def)
qed

end
