(* ===== verification/Relay_Main.thy ===== *)
theory Relay_Main
  imports Go_Flag Server
begin

section \<open>The relay command\<close>

text \<open>
  \<^verbatim>\<open>cmd/relay/main.go\<close>: the exit code of the process and its trace, the actions on the resources it opens, the
  listeners it starts and what it does when it ends, deferred calls included. How the outside behaves is
  the record \<open>startup\<close>: whether the databases open, and how the process is stopped. Printing is not
  modelled.
\<close>

datatype resource = RuntimeStore | RuntimeBroker | AuthStore

datatype relay_action =
    Opened resource
  | Closed resource
  | Serving config
  | Listen string
  | ListenControl string
  | CancelRequests
  | CloseConns string
  | CloseListener
  | CloseControl
  | StopSignals

text \<open>\<open>ListenEnded b\<close>: a listener returned; \<open>b\<close> says that its error is nil or \<open>ErrServerClosed\<close>.\<close>

datatype stop_reason = ListenEnded bool | Signalled

record startup =
  su_store :: bool
  su_broker :: bool
  su_auth_store :: bool
  su_stop :: stop_reason

definition relay_flags :: "string \<Rightarrow> flag_kind option" where
  "relay_flags = [''listen'' \<mapsto> FStr, ''version'' \<mapsto> FBool]"

definition shutdown_reason :: string where "shutdown_reason = ''Relay is shutting down''"

text \<open>The servers run until a listener returns or a signal arrives.\<close>

definition serve_until :: "config \<Rightarrow> stop_reason \<Rightarrow> nat \<times> relay_action list" where
  "serve_until base stop =
     (let control = cf_AuthEnabled base;
          start = [Serving base, Listen (cf_ListenAddr base)] @ (if control then [ListenControl (cf_AuthControlAddr base)] else []);
          deferred = [StopSignals, CancelRequests] in
      case stop of
        ListenEnded ok \<Rightarrow> (if ok then 0 else 1, start @ deferred)
      | Signalled \<Rightarrow>
          (0, start @ [CancelRequests, CloseConns shutdown_reason, CloseListener] @ (if control then [CloseControl] else []) @ deferred))"

text \<open>A resource that opens is closed by its deferred call after the rest of the function.\<close>

definition with_resource :: "resource \<Rightarrow> bool \<Rightarrow> nat \<times> relay_action list \<Rightarrow> nat \<times> relay_action list" where
  "with_resource x opens rest = (if opens then (fst rest, Opened x # snd rest @ [Closed x]) else (1, []))"

definition run_relay :: "config \<Rightarrow> startup \<Rightarrow> nat \<times> relay_action list" where
  "run_relay base su =
     with_resource RuntimeStore (su_store su)
       (with_resource RuntimeBroker (su_broker su)
         (if cf_AuthEnabled base then with_resource AuthStore (su_auth_store su) (serve_until base (su_stop su))
          else serve_until base (su_stop su)))"

definition relay_realMain :: "(int \<Rightarrow> nat \<Rightarrow> int \<Rightarrow> int) \<Rightarrow> (string \<Rightarrow> string) \<Rightarrow> string list \<Rightarrow> startup \<Rightarrow> nat \<times> relay_action list" where
  "relay_realMain frac getenv arguments su =
     (case FromEnv frac getenv of
        Inl _ \<Rightarrow> (2, [])
      | Inr base \<Rightarrow>
          (case flag_Parse relay_flags arguments of
             None \<Rightarrow> (2, [])
           | Some (xs, _) \<Rightarrow>
               if flag_bool xs ''version'' False then (0, [])
               else
                 (let base' = base\<lparr>cf_ListenAddr := flag_str xs ''listen'' (cf_ListenAddr base)\<rparr> in
                  if config_Validate base' \<noteq> None then (2, []) else run_relay base' su)))"

datatype log_level = LevelDebug | LevelInfo | LevelWarn | LevelError

definition newLogger :: "string \<Rightarrow> log_level" where
  "newLogger level =
     (let l = lower_name level in
      if l = ''debug'' then LevelDebug else if l = ''warn'' then LevelWarn else if l = ''error'' then LevelError else LevelInfo)"

text \<open>What the actions mean for the server: Runtime is always on, auth as configured.\<close>

definition process_env :: "config \<Rightarrow> 'k server_env \<Rightarrow> 'k server_env" where
  "process_env base se = se\<lparr>sv_config := base, sv_runtime := True, sv_auth := cf_AuthEnabled base\<rparr>"

fun act :: "'k server_env \<Rightarrow> relay_action \<Rightarrow> 'k server \<Rightarrow> 'k server" where
  "act se (CloseConns reason) sv = CloseConnections se reason sv"
| "act se _ sv = sv"

subsection \<open>The discipline of a trace\<close>

text \<open>
  The stack of resources held after a trace, and \<open>None\<close> where the trace breaks the discipline: a resource
  is closed that is not the last one opened, or a listener starts without the stores it serves from.
\<close>

fun held_after :: "resource list \<Rightarrow> relay_action list \<Rightarrow> resource list option" where
  "held_after stack [] = Some stack"
| "held_after stack (Opened x # as) = (if x \<in> set stack then None else held_after (x # stack) as)"
| "held_after stack (Closed x # as) = (if stack \<noteq> [] \<and> hd stack = x then held_after (tl stack) as else None)"
| "held_after stack (Serving c # as) =
     (if {RuntimeStore, RuntimeBroker} \<subseteq> set stack \<and> (cf_AuthEnabled c \<longleftrightarrow> AuthStore \<in> set stack) then held_after stack as else None)"
| "held_after stack (Listen a # as) = (if {RuntimeStore, RuntimeBroker} \<subseteq> set stack then held_after stack as else None)"
| "held_after stack (ListenControl a # as) = (if AuthStore \<in> set stack then held_after stack as else None)"
| "held_after stack (_ # as) = held_after stack as"

lemma held_append: "held_after stack (as @ bs) = Option.bind (held_after stack as) (\<lambda>s. held_after s bs)"
  by (induction stack as rule: held_after.induct) auto

lemma held_serve:
  assumes "{RuntimeStore, RuntimeBroker} \<subseteq> set stack" "cf_AuthEnabled base \<longleftrightarrow> AuthStore \<in> set stack"
  shows "held_after stack (snd (serve_until base stop)) = Some stack"
  using assms by (auto simp: serve_until_def Let_def split: stop_reason.split)

lemma held_with_resource:
  assumes "x \<notin> set stack" "opens \<Longrightarrow> held_after (x # stack) (snd rest) = Some (x # stack)"
  shows "held_after stack (snd (with_resource x opens rest)) = Some stack"
  using assms by (simp add: with_resource_def held_append)

lemma held_run: "held_after [] (snd (run_relay base su)) = Some []"
  unfolding run_relay_def by (auto intro!: held_with_resource held_serve)

text \<open>The actions of a process between those on its resources.\<close>

lemma serve_until_acts:
  "a \<in> set (snd (serve_until base stop)) \<Longrightarrow>
     (\<forall>c. a = Serving c \<longrightarrow> c = base) \<and> (\<forall>addr. a = Listen addr \<longrightarrow> addr = cf_ListenAddr base)
     \<and> (\<forall>addr. a = ListenControl addr \<longrightarrow> cf_AuthEnabled base \<and> addr = cf_AuthControlAddr base)"
  by (auto simp: serve_until_def Let_def split: stop_reason.splits if_splits)

lemma run_relay_acts:
  assumes "a \<in> set (snd (run_relay base su))" "\<forall>x. a \<noteq> Opened x \<and> a \<noteq> Closed x"
  shows "a \<in> set (snd (serve_until base (su_stop su)))"
  using assms by (auto simp: run_relay_def with_resource_def split: if_splits)

lemma serving_starts:
  "a \<in> set (snd (serve_until base stop)) \<Longrightarrow> Serving base \<in> set (snd (serve_until base stop))"
  by (auto simp: serve_until_def Let_def split: stop_reason.splits)

lemma run_relay_serves:
  assumes "a \<in> set (snd (run_relay base su))" "\<forall>x. a \<noteq> Opened x \<and> a \<noteq> Closed x"
  shows "set (snd (serve_until base (su_stop su))) \<subseteq> set (snd (run_relay base su))"
  using assms by (auto simp: run_relay_def with_resource_def split: if_splits)

lemma run_relay_code: "fst (run_relay base su) \<le> 1"
  by (simp add: run_relay_def with_resource_def serve_until_def Let_def split: stop_reason.split)

lemma realMain_runs:
  assumes "relay_realMain frac getenv arguments su = (code, trace)"
  shows "trace = [] \<and> code \<in> {0, 2} \<or> (\<exists>c. config_Validate c = None \<and> config_typed c \<and> run_relay c su = (code, trace))"
proof (cases "FromEnv frac getenv")
  case (Inr base)
  have "config_typed (base\<lparr>cf_ListenAddr := a\<rparr>)" for a
    using FromEnv_typed [OF Inr] by (simp add: config_typed_def)
  then show ?thesis using assms Inr
    by (auto simp: relay_realMain_def Let_def split: option.splits if_splits)
qed (use assms in \<open>simp add: relay_realMain_def\<close>)

text \<open>
  Property C15. The relay process is safe from start to end. What it opens it closes, in reverse order and
  once, and it serves only while it holds its stores; a rejected configuration or command line
  (exit code 2) opens nothing. It serves with a validated configuration, on its listen address; the
  control API, which needs no token, listens exactly when authentication is on, and on a
  loopback address only; and a process stopped by a signal closes its connections.
\<close>

theorem relay_process_safe:
  assumes "relay_realMain frac getenv arguments su = (code, trace)"
  shows "held_after [] trace = Some [] \<and> code \<le> 2 \<and> (code = 2 \<longrightarrow> trace = [])
    \<and> (\<forall>addr. Listen addr \<in> set trace \<longrightarrow> (\<exists>c. Serving c \<in> set trace \<and> cf_ListenAddr c = addr))
    \<and> (\<forall>c. Serving c \<in> set trace \<longrightarrow> config_Validate c = None \<and> config_typed c
         \<and> (su_stop su = Signalled \<longrightarrow> CloseConns shutdown_reason \<in> set trace)
         \<and> (\<forall>se r sv. server_ControlHandler (process_env c se) r sv \<noteq> None \<longleftrightarrow> ListenControl (cf_AuthControlAddr c) \<in> set trace))
    \<and> (\<forall>addr. ListenControl addr \<in> set trace \<longrightarrow> (\<exists>host port. SplitHostPort addr = Some (host, port) \<and> loopback_host host))"
  using realMain_runs [OF assms]
proof (elim disjE exE conjE)
  fix c assume v: "config_Validate c = None" "config_typed c" and run: "run_relay c su = (code, trace)"
  note serves = run_relay_serves [of _ c su, unfolded run snd_conv]
  have acts: "a \<in> set (snd (serve_until c (su_stop su)))" if "a \<in> set trace" "\<forall>x. a \<noteq> Opened x \<and> a \<noteq> Closed x" for a
    using run_relay_acts [of a c su] that run by simp
  have serving: "d = c" if "Serving d \<in> set trace" for d using serve_until_acts [OF acts [OF that]] by simp
  have listen: "cf_ListenAddr c = addr \<and> Serving c \<in> set trace" if "Listen addr \<in> set trace" for addr
    using serve_until_acts [OF acts [OF that]] serving_starts [OF acts [OF that]] serves [OF that] by auto
  have control: "cf_AuthEnabled c \<and> addr = cf_AuthControlAddr c" if "ListenControl addr \<in> set trace" for addr
    using serve_until_acts [OF acts [OF that]] by simp
  have handler: "server_ControlHandler (process_env c se) r sv \<noteq> None \<longleftrightarrow> cf_AuthEnabled c" for se r and sv :: "'a server"
    by (simp add: server_ControlHandler_def process_env_def)
  have started: "(cf_AuthEnabled c \<longrightarrow> ListenControl (cf_AuthControlAddr c) \<in> set trace)
      \<and> (su_stop su = Signalled \<longrightarrow> CloseConns shutdown_reason \<in> set trace)" if "Serving c \<in> set trace"
    using serves [OF that] by (auto simp: serve_until_def Let_def split: stop_reason.splits)
  have "held_after [] trace = Some []" "code \<le> 1" using held_run [of c su] run_relay_code [of c su] run by simp_all
  moreover have "\<exists>host port. SplitHostPort addr = Some (host, port) \<and> loopback_host host" if "ListenControl addr \<in> set trace" for addr
    using control [OF that] Validate_control [OF v(1)] by blast
  moreover have "server_ControlHandler (process_env d se) r sv \<noteq> None \<longleftrightarrow> ListenControl (cf_AuthControlAddr d) \<in> set trace"
    if "Serving d \<in> set trace" for d se r and sv :: "'a server"
    using control handler started serving that by metis
  moreover have "config_Validate d = None \<and> config_typed d \<and> (su_stop su = Signalled \<longrightarrow> CloseConns shutdown_reason \<in> set trace)"
    if "Serving d \<in> set trace" for d
    using v started serving that by metis
  moreover have "\<exists>d. Serving d \<in> set trace \<and> cf_ListenAddr d = addr" if "Listen addr \<in> set trace" for addr
    using listen [OF that] by blast
  ultimately show ?thesis by (intro conjI allI impI) (blast | simp)+
qed auto

definition demo_startup :: startup where
  "demo_startup = \<lparr>su_store = True, su_broker = True, su_auth_store = True, su_stop = Signalled\<rparr>"

lemma demo_relay_run:
  "relay_realMain (\<lambda>_ _ _. 0) (\<lambda>_. []) [] demo_startup =
     (0, [Opened RuntimeStore, Opened RuntimeBroker, Opened AuthStore, Serving (default_config (\<lambda>_. [])), Listen DefaultListenAddr,
       ListenControl DefaultAuthControlAddr, CancelRequests, CloseConns shutdown_reason, CloseListener, CloseControl,
       StopSignals, CancelRequests, Closed AuthStore, Closed RuntimeBroker, Closed RuntimeStore])"
proof -
  let ?c = "default_config (\<lambda>_. [])"
  have c: "cf_AuthEnabled ?c" "cf_AuthControlAddr ?c = DefaultAuthControlAddr" "cf_ListenAddr ?c = DefaultListenAddr"
    by (simp_all add: default_config_def envOrDefault_def)
  have same: "?c\<lparr>cf_ListenAddr := DefaultListenAddr\<rparr> = ?c" by (simp add: default_config_def envOrDefault_def)
  show ?thesis using default_valid c
    by (simp add: relay_realMain_def empty_env_accepted flag_bool_def flag_str_def run_relay_def with_resource_def serve_until_def
        demo_startup_def Let_def same)
qed

theorem relay_process_safe_witness:
  "held_after [] (snd (relay_realMain (\<lambda>_ _ _. 0) (\<lambda>_. []) [] demo_startup)) = Some []
   \<and> (\<exists>host port. SplitHostPort DefaultAuthControlAddr = Some (host, port) \<and> loopback_host host)"
  using relay_process_safe [OF demo_relay_run] unfolding demo_relay_run snd_conv by (elim conjE) (intro conjI, assumption, simp)

end
