(* ===== verification/Go_Url.thy ===== *)
theory Go_Url
  imports Go_Net
begin

section \<open>The Go library: URLs\<close>

text \<open>
  \<^verbatim>\<open>net/url\<close>: \<open>Parse\<close>, \<open>Hostname\<close>, \<open>QueryEscape\<close> and the text of an origin. A URL is kept with what its readers look at.
\<close>

datatype encoding = EncodePath | EncodeSegment | EncodeUser | EncodeHost | EncodeZone | EncodeQuery | EncodeFragment

record url =
  ur_scheme :: string
  ur_user :: "(string \<times> string option) option"
  ur_host :: string
  ur_path :: string
  ur_force_query :: bool
  ur_raw_query :: string
  ur_fragment :: string

subsection \<open>Escaping\<close>

definition alnum :: "char \<Rightarrow> bool" where
  "alnum c \<longleftrightarrow> (let n = of_char c :: nat in 97 \<le> n \<and> n \<le> 122 \<or> 65 \<le> n \<and> n \<le> 90 \<or> 48 \<le> n \<and> n \<le> 57)"

text \<open>\<open>shouldEscape\<close> for a host, a zone, user information, a path segment and a query component.\<close>

definition shouldEscape :: "encoding \<Rightarrow> char \<Rightarrow> bool" where
  "shouldEscape mode c \<longleftrightarrow>
     \<not> alnum c \<and> c \<notin> set ''-_.~''
     \<and> \<not> (mode \<in> {EncodeHost, EncodeZone} \<and> (c \<in> set ''!$&()*+,;=:[]<>'' \<or> c \<in> {CHR 0x27, CHR 0x22}))
     \<and> \<not> (mode = EncodeUser \<and> c \<in> set ''$&+,;='')
     \<and> \<not> (mode = EncodeSegment \<and> c \<in> set ''$&+:=@'')"

definition url_hex :: "nat \<Rightarrow> char" where
  "url_hex n = ''0123456789ABCDEF'' ! n"

definition escape :: "encoding \<Rightarrow> string \<Rightarrow> string" where
  "escape mode s =
     concat (map (\<lambda>c.
       if mode = EncodeQuery \<and> c = CHR '' '' then ''+''
       else if shouldEscape mode c then [CHR ''%'', url_hex (of_char c div 16), url_hex (of_char c mod 16)]
       else [c]) s)"

definition QueryEscape :: "string \<Rightarrow> string" where
  "QueryEscape = escape EncodeQuery"

definition PathEscape :: "string \<Rightarrow> string" where
  "PathEscape = escape EncodeSegment"

fun unescape :: "encoding \<Rightarrow> string \<Rightarrow> string option" where
  "unescape mode [] = Some []"
| "unescape mode (c # cs) =
     (if c = CHR ''%'' then
        (case cs of
           a # b # rest \<Rightarrow>
             (case (hex_value a, hex_value b) of
                (Some x, Some y) \<Rightarrow>
                  (let v = char_of (16 * x + y) in
                   if mode = EncodeHost \<and> x < 8 \<and> [a, b] \<noteq> ''25'' then None
                   else if mode = EncodeZone \<and> [a, b] \<noteq> ''25'' \<and> v \<noteq> CHR '' '' \<and> shouldEscape EncodeHost v then None
                   else map_option (\<lambda>s. v # s) (unescape mode rest))
              | _ \<Rightarrow> None)
         | _ \<Rightarrow> None)
      else if mode \<in> {EncodeHost, EncodeZone} \<and> of_char c < (0x80 :: nat) \<and> shouldEscape mode c then None
      else map_option (\<lambda>s. (if mode = EncodeQuery \<and> c = CHR ''+'' then CHR '' '' else c) # s) (unescape mode cs))"

subsection \<open>Parsing\<close>

definition cut :: "char \<Rightarrow> string \<Rightarrow> string \<times> string" where
  "cut c s = (takeWhile (\<lambda>x. x \<noteq> c) s, tl (dropWhile (\<lambda>x. x \<noteq> c) s))"

text \<open>The part before the last occurrence of a character, and what follows it.\<close>

definition cut_last :: "char \<Rightarrow> string \<Rightarrow> (string \<times> string) option" where
  "cut_last c s =
     (if c \<in> set s then (let after_last = rev (takeWhile (\<lambda>x. x \<noteq> c) (rev s)) in
        Some (take (length s - length after_last - 1) s, after_last)) else None)"

definition validOptionalPort :: "string \<Rightarrow> bool" where
  "validOptionalPort port \<longleftrightarrow> (case port of [] \<Rightarrow> True | c # ds \<Rightarrow> c = CHR '':'' \<and> list_all is_digit ds)"

text \<open>\<open>getScheme\<close>: the scheme and the rest; \<open>None\<close> where the scheme is missing before a colon.\<close>

fun scheme_from :: "nat \<Rightarrow> string \<Rightarrow> (string \<times> string) option option" where
  "scheme_from i [] = Some None"
| "scheme_from i (c # cs) =
     (if alnum c \<and> \<not> is_digit c then map_option (map_option (\<lambda>(s, r). (c # s, r))) (scheme_from (i + 1) cs)
      else if is_digit c \<or> c \<in> set ''+-.'' then
        (if i = 0 then Some None else map_option (map_option (\<lambda>(s, r). (c # s, r))) (scheme_from (i + 1) cs))
      else if c = CHR '':'' then (if i = 0 then None else Some (Some ([], cs)))
      else Some None)"

definition getScheme :: "string \<Rightarrow> (string \<times> string) option" where
  "getScheme s = map_option (\<lambda>r. case r of None \<Rightarrow> ([], s) | Some p \<Rightarrow> p) (scheme_from 0 s)"

text \<open>The first position of a text, and the part before it.\<close>

fun find_text :: "string \<Rightarrow> string \<Rightarrow> nat option" where
  "find_text t [] = (if t = [] then Some 0 else None)"
| "find_text t (c # cs) = (if has_prefix (c # cs) t then Some 0 else map_option Suc (find_text t cs))"

definition parseHost :: "string \<Rightarrow> string option" where
  "parseHost host =
     (if has_prefix host ''['' then
        (case cut_last (CHR '']'') host of
           None \<Rightarrow> None
         | Some (inner, colonPort) \<Rightarrow>
             if \<not> validOptionalPort colonPort then None
             else
               (case find_text ''%25'' inner of
                  None \<Rightarrow> unescape EncodeHost host
                | Some zone \<Rightarrow>
                    (case (unescape EncodeHost (take zone host), unescape EncodeZone (drop zone inner), unescape EncodeHost (drop (length inner) host)) of
                       (Some h1, Some h2, Some h3) \<Rightarrow> Some (h1 @ h2 @ h3)
                     | _ \<Rightarrow> None)))
      else
        (case cut_last (CHR '':'') host of
           None \<Rightarrow> unescape EncodeHost host
         | Some (_, port) \<Rightarrow> if validOptionalPort (CHR '':'' # port) then unescape EncodeHost host else None))"

definition validUserinfo :: "string \<Rightarrow> bool" where
  "validUserinfo s \<longleftrightarrow> list_all (\<lambda>c. alnum c \<or> c \<in> set ''-._:~!$&()*+,;=%@'' \<or> c = CHR 0x27) s"

text \<open>The host of an authority and its user information, name and password unescaped apart.\<close>

definition parseAuthority :: "string \<Rightarrow> ((string \<times> string option) option \<times> string) option" where
  "parseAuthority authority =
     (case cut_last (CHR ''@'') authority of
        None \<Rightarrow> map_option (\<lambda>h. (None, h)) (parseHost authority)
      | Some (userinfo, host) \<Rightarrow>
          (case parseHost host of
             None \<Rightarrow> None
           | Some h \<Rightarrow>
               if \<not> validUserinfo userinfo then None
               else if CHR '':'' \<notin> set userinfo then map_option (\<lambda>name. (Some (name, None), h)) (unescape EncodeUser userinfo)
               else
                 (case (unescape EncodeUser (fst (cut (CHR '':'') userinfo)), unescape EncodeUser (snd (cut (CHR '':'') userinfo))) of
                    (Some name, Some password) \<Rightarrow> Some (Some (name, Some password), h)
                  | _ \<Rightarrow> None)))"

definition empty_url :: url where
  "empty_url = \<lparr>ur_scheme = [], ur_user = None, ur_host = [], ur_path = [], ur_force_query = False, ur_raw_query = [], ur_fragment = []\<rparr>"

definition split_query :: "string \<Rightarrow> string \<times> bool \<times> string" where
  "split_query rest =
     (if has_suffix rest ''?'' \<and> length (filter (\<lambda>c. c = CHR ''?'') rest) = 1 then (butlast rest, True, [])
      else (let (r, q) = cut (CHR ''?'') rest in (r, False, q)))"

definition url_parse :: "string \<Rightarrow> url option" where
  "url_parse raw =
     (if list_ex (\<lambda>c. of_char c < (32 :: nat) \<or> c = CHR 0x7F) raw then None
      else if raw = ''*'' then Some (empty_url\<lparr>ur_path := ''*''\<rparr>)
      else case getScheme raw of
        None \<Rightarrow> None
      | Some (scheme, rest0) \<Rightarrow>
          (let (rest, force, query) = split_query rest0;
               u = empty_url\<lparr>ur_scheme := to_lower scheme, ur_force_query := force, ur_raw_query := query\<rparr> in
           if \<not> has_prefix rest ''/'' \<and> scheme \<noteq> [] then Some u
           else if \<not> has_prefix rest ''/'' \<and> CHR '':'' \<in> set (fst (cut (CHR ''/'') rest)) then None
           else if (scheme \<noteq> [] \<or> \<not> has_prefix rest ''///'') \<and> has_prefix rest ''//'' then
             (let authority = takeWhile (\<lambda>c. c \<noteq> CHR ''/'') (drop 2 rest); path = dropWhile (\<lambda>c. c \<noteq> CHR ''/'') (drop 2 rest) in
              case parseAuthority authority of
                None \<Rightarrow> None
              | Some (user, host) \<Rightarrow>
                  map_option (\<lambda>p. u\<lparr>ur_user := user, ur_host := host, ur_path := p\<rparr>) (unescape EncodePath path))
           else map_option (\<lambda>p. u\<lparr>ur_path := p\<rparr>) (unescape EncodePath rest)))"

definition url_Parse :: "string \<Rightarrow> url option" where
  "url_Parse raw =
     (let (u, frag) = cut (CHR ''#'') raw in
      case url_parse u of
        None \<Rightarrow> None
      | Some url \<Rightarrow>
          if frag = [] then Some url else map_option (\<lambda>f. url\<lparr>ur_fragment := f\<rparr>) (unescape EncodeFragment frag))"

definition Hostname :: "url \<Rightarrow> string" where
  "Hostname u =
     (let host = (case cut_last (CHR '':'') (ur_host u) of
                    None \<Rightarrow> ur_host u
                  | Some (h, port) \<Rightarrow> if validOptionalPort (CHR '':'' # port) then h else ur_host u) in
      if has_prefix host ''['' \<and> has_suffix host '']'' then butlast (tl host) else host)"

text \<open>\<open>URL.String\<close> of a URL with a scheme and a host that has no path, query or fragment.\<close>

definition userinfo_String :: "string \<times> string option \<Rightarrow> string" where
  "userinfo_String u = escape EncodeUser (fst u) @ (case snd u of None \<Rightarrow> [] | Some p \<Rightarrow> '':'' @ escape EncodeUser p)"

definition origin_String :: "url \<Rightarrow> string" where
  "origin_String u =
     ur_scheme u @ ''://'' @ (case ur_user u of None \<Rightarrow> [] | Some ui \<Rightarrow> userinfo_String ui @ ''@'')
     @ escape EncodeHost (ur_host u) @ (if ur_force_query u then ''?'' else [])"

text \<open>\<open>URL.Query\<close>: the parameters in order; one that cannot be unescaped or contains a semicolon is dropped.\<close>

definition url_Query :: "url \<Rightarrow> (string \<times> string) list" where
  "url_Query u =
     concat (map (\<lambda>kv.
       if kv = [] \<or> CHR '';'' \<in> set kv then []
       else case (unescape EncodeQuery (fst (cut (CHR ''='') kv)), unescape EncodeQuery (snd (cut (CHR ''='') kv))) of
         (Some k, Some v) \<Rightarrow> [(k, v)] | _ \<Rightarrow> []) (split_on (CHR ''&'') (ur_raw_query u)))"

end
