(* ===== verification/Http_Client.thy ===== *)
theory Http_Client
  imports Go_Url Http_Core
begin

section \<open>The Go library: HTTP clients\<close>

text \<open>
  What a client sends for an endpoint and what it reads of a reply. A reply has its status and its body: the JSON value the
  body consists of, if it is one, and the size of the body.
\<close>

record http_reply =
  hr_status :: nat
  hr_body :: "json option"
  hr_body_end :: nat

text \<open>
  \<open>http.NewRequest\<close>: path and query come from the URL. A body is JSON, with its content type; \<open>size_of\<close> is
  the length of its text.
\<close>

definition client_request :: "(json \<Rightarrow> nat) \<Rightarrow> string \<Rightarrow> string \<Rightarrow> json option \<Rightarrow> http_request option" where
  "client_request size_of method endpoint body =
     map_option (\<lambda>u. \<lparr>rq_method = method, rq_path = (if ur_path u = [] then ''/'' else ur_path u), rq_query = url_Query u,
         rq_headers = (case body of None \<Rightarrow> [] | Some _ \<Rightarrow> [(''Content-Type'', ''application/json'')]), rq_cookies = [],
         rq_body = body, rq_body_end = (case body of None \<Rightarrow> 0 | Some j \<Rightarrow> size_of j)\<rparr>) (url_Parse endpoint)"

text \<open>The reply a server's response is on the client's side.\<close>

definition reply_of :: "(json \<Rightarrow> nat) \<Rightarrow> http_response \<Rightarrow> http_reply" where
  "reply_of size_of resp =
     \<lparr>hr_status = re_status resp, hr_body = re_body resp, hr_body_end = (case re_body resp of None \<Rightarrow> 0 | Some j \<Rightarrow> size_of j)\<rparr>"

end
