(* ===== verification/Relay_Ctl.thy ===== *)
theory Relay_Ctl
  imports Http_Client Go_Flag Payloads Config Go_Any
begin

section \<open>The relayctl command\<close>

text \<open>
  \<^verbatim>\<open>cmd/relayctl/main.go\<close>: the commands that ask the agent through the relay, follow a turn or watch, and those that use the
  control API. What a run does is the list of its effects: lines on its two streams, messages it sends,
  requests it makes. A line is a list of pieces; a piece that is a time, a duration, a quoted string or a JSON value stands for its
  printed form. The outside is the record \<open>ctl_env\<close>: the environment variables, whether dialling and writing succeed, what the
  connection delivers until a read fails, and the HTTP client. What the flag package prints itself is not modelled.
\<close>

datatype ctl_error =
    DialFailed | SendFailed | ReadFailed | RejectedBy string string | PayloadError
  | BadEndpoint | ControlFailed | ControlStatus nat | ControlDecode

datatype piece = T string | J json | At time | LocalAt time | Nanos int | Num int | Quoted string | Err ctl_error | Usage

datatype ctl_effect =
    Stdout "piece list"
  | Stderr "piece list"
  | Sent message
  | Called string
  | Killed

text \<open>
  What happens to a command that follows a turn, in order. \<open>Frame\<close> and \<open>ReadEnded\<close>: its \<open>select\<close> receives a
  frame or the end of the connection. \<open>Signal\<close>: the system sends the process an interrupt or a termination signal.
  \<open>Interrupt arrived\<close>: the \<open>select\<close> receives the signal that waits in its channel of one place, and \<open>arrived\<close> says that
  another one came while it was being handled.
\<close>

datatype turn_input = Frame "json option" | ReadEnded | Signal | Interrupt bool

record 's ctl_env =
  cl_getenv :: "string \<Rightarrow> string"
  cl_dial :: "string \<Rightarrow> bool"
  cl_write :: "message \<Rightarrow> bool"
  cl_frames :: "json option list"
  cl_inputs :: "turn_input list"
  cl_watched :: bool
  cl_now :: time
  cl_do :: "string \<Rightarrow> http_request \<Rightarrow> 's \<Rightarrow> http_reply option \<times> 's"
  cl_size :: "json \<Rightarrow> nat"

definition defaultAppURL :: string where "defaultAppURL = ''ws://127.0.0.1:18765/ws/app''"
definition defaultAuthControlURL :: string where "defaultAuthControlURL = ''http://127.0.0.1:18776''"

definition ctl_sender :: sender where
  "ctl_sender = \<lparr>se_kind = ''user'', se_id = ''relayctl''\<rparr>"

definition app_url :: "'s ctl_env \<Rightarrow> (string \<times> flag_value) list \<Rightarrow> string" where
  "app_url ce xs = flag_str xs ''url'' (envOrDefault (cl_getenv ce) ''RELAY_APP_URL'' defaultAppURL)"

definition control_url :: "'s ctl_env \<Rightarrow> (string \<times> flag_value) list \<Rightarrow> string" where
  "control_url ce xs = flag_str xs ''control-url'' (envOrDefault (cl_getenv ce) ''AUTH_CONTROL_URL'' defaultAuthControlURL)"

definition tab :: piece where "tab = T [CHR 0x09]"
definition nl :: piece where "nl = T [CHR 0x0A]"

definition outln :: "piece list \<Rightarrow> ctl_effect" where
  "outln ps = Stdout (ps @ [nl])"

definition errln :: "piece list \<Rightarrow> ctl_effect" where
  "errln ps = Stderr (ps @ [nl])"

definition str_flags :: "string list \<Rightarrow> string \<Rightarrow> flag_kind option" where
  "str_flags names name = (if name \<in> set names then Some FStr else None)"

subsection \<open>Payloads\<close>

record turn_started_payload =
  st_project_id :: string
  st_thread_id :: string
  st_turn_id :: string
  st_started_at :: time

definition turn_started_zero :: turn_started_payload where
  "turn_started_zero = \<lparr>st_project_id = [], st_thread_id = [], st_turn_id = [], st_started_at = 0\<rparr>"

definition turn_started_schema :: "(string \<times> turn_started_payload decoder) list" where
  "turn_started_schema =
     [(''project_id'', dec_str (\<lambda>s v. v\<lparr>st_project_id := s\<rparr>)), (''thread_id'', dec_str (\<lambda>s v. v\<lparr>st_thread_id := s\<rparr>)),
      (''turn_id'', dec_str (\<lambda>s v. v\<lparr>st_turn_id := s\<rparr>)), (''started_at'', dec_time (\<lambda>t v. v\<lparr>st_started_at := t\<rparr>))]"

record turn_output_payload =
  to_project_id :: string
  to_thread_id :: string
  to_turn_id :: string
  to_stream :: string
  to_text :: string

definition turn_output_zero :: turn_output_payload where
  "turn_output_zero = \<lparr>to_project_id = [], to_thread_id = [], to_turn_id = [], to_stream = [], to_text = []\<rparr>"

definition turn_output_schema :: "(string \<times> turn_output_payload decoder) list" where
  "turn_output_schema =
     [(''project_id'', dec_str (\<lambda>s v. v\<lparr>to_project_id := s\<rparr>)), (''thread_id'', dec_str (\<lambda>s v. v\<lparr>to_thread_id := s\<rparr>)),
      (''turn_id'', dec_str (\<lambda>s v. v\<lparr>to_turn_id := s\<rparr>)), (''stream'', dec_str (\<lambda>s v. v\<lparr>to_stream := s\<rparr>)),
      (''text'', dec_str (\<lambda>s v. v\<lparr>to_text := s\<rparr>))]"

text \<open>\<open>TurnItemStartedPayload\<close> and \<open>TurnItemCompletedPayload\<close> have the same fields.\<close>

record turn_item_payload =
  ti_project :: string
  ti_thread :: string
  ti_turn :: string
  ti_sequence :: int
  ti_item :: thread_history_item

definition turn_item_zero :: turn_item_payload where
  "turn_item_zero = \<lparr>ti_project = [], ti_thread = [], ti_turn = [], ti_sequence = 0, ti_item = history_item_zero\<rparr>"

definition turn_item_schema :: "(string \<times> turn_item_payload decoder) list" where
  "turn_item_schema =
     [(''project_id'', dec_str (\<lambda>s v. v\<lparr>ti_project := s\<rparr>)), (''thread_id'', dec_str (\<lambda>s v. v\<lparr>ti_thread := s\<rparr>)),
      (''turn_id'', dec_str (\<lambda>s v. v\<lparr>ti_turn := s\<rparr>)), (''sequence'', dec_int (\<lambda>n v. v\<lparr>ti_sequence := n\<rparr>)),
      (''item'', dec_sub ti_item (\<lambda>i v. v\<lparr>ti_item := i\<rparr>) (dec_struct False history_item_schema))]"

record turn_item_delta_payload =
  td_project_id :: string
  td_thread_id :: string
  td_turn_id :: string
  td_sequence :: int
  td_item_id :: string
  td_field :: string
  td_delta :: string

definition turn_item_delta_zero :: turn_item_delta_payload where
  "turn_item_delta_zero = \<lparr>td_project_id = [], td_thread_id = [], td_turn_id = [], td_sequence = 0, td_item_id = [],
     td_field = [], td_delta = []\<rparr>"

definition turn_item_delta_schema :: "(string \<times> turn_item_delta_payload decoder) list" where
  "turn_item_delta_schema =
     [(''project_id'', dec_str (\<lambda>s v. v\<lparr>td_project_id := s\<rparr>)), (''thread_id'', dec_str (\<lambda>s v. v\<lparr>td_thread_id := s\<rparr>)),
      (''turn_id'', dec_str (\<lambda>s v. v\<lparr>td_turn_id := s\<rparr>)), (''sequence'', dec_int (\<lambda>n v. v\<lparr>td_sequence := n\<rparr>)),
      (''item_id'', dec_str (\<lambda>s v. v\<lparr>td_item_id := s\<rparr>)), (''field'', dec_str (\<lambda>s v. v\<lparr>td_field := s\<rparr>)),
      (''delta'', dec_str (\<lambda>s v. v\<lparr>td_delta := s\<rparr>))]"

record turn_completed_payload =
  tc_project_id :: string
  tc_thread_id :: string
  tc_turn_id :: string
  tc_duration_ms :: int
  tc_summary :: string
  tc_changed_files :: "string list"
  tc_diff :: string
  tc_diff_truncated :: bool

definition turn_completed_zero :: turn_completed_payload where
  "turn_completed_zero = \<lparr>tc_project_id = [], tc_thread_id = [], tc_turn_id = [], tc_duration_ms = 0, tc_summary = [],
     tc_changed_files = [], tc_diff = [], tc_diff_truncated = False\<rparr>"

definition turn_completed_schema :: "(string \<times> turn_completed_payload decoder) list" where
  "turn_completed_schema =
     [(''project_id'', dec_str (\<lambda>s v. v\<lparr>tc_project_id := s\<rparr>)), (''thread_id'', dec_str (\<lambda>s v. v\<lparr>tc_thread_id := s\<rparr>)),
      (''turn_id'', dec_str (\<lambda>s v. v\<lparr>tc_turn_id := s\<rparr>)), (''duration_ms'', dec_int (\<lambda>n v. v\<lparr>tc_duration_ms := n\<rparr>)),
      (''summary'', dec_str (\<lambda>s v. v\<lparr>tc_summary := s\<rparr>)),
      (''changed_files'', dec_arr (\<lambda>l v. v\<lparr>tc_changed_files := l\<rparr>) [] elem_str),
      (''diff'', dec_str (\<lambda>s v. v\<lparr>tc_diff := s\<rparr>)), (''diff_truncated'', dec_bool (\<lambda>b v. v\<lparr>tc_diff_truncated := b\<rparr>))]"

text \<open>Of a rejection only the code and the message are read.\<close>

definition turn_rejected_zero :: turn_rejected_payload where
  "turn_rejected_zero = \<lparr>rj_code = [], rj_message = [], rj_required_capabilities = [], rj_recovery_action = []\<rparr>"

definition turn_rejected_schema :: "(string \<times> turn_rejected_payload decoder) list" where
  "turn_rejected_schema =
     [(''code'', dec_str (\<lambda>s v. v\<lparr>rj_code := s\<rparr>)), (''message'', dec_str (\<lambda>s v. v\<lparr>rj_message := s\<rparr>)),
      (''required_capabilities'', dec_arr (\<lambda>l v. v\<lparr>rj_required_capabilities := l\<rparr>) [] elem_str),
      (''recovery_action'', dec_str (\<lambda>s v. v\<lparr>rj_recovery_action := s\<rparr>))]"

record protocol_thread =
  th_id :: string
  th_project_id :: string
  th_title :: string
  th_preview :: string
  th_latest_message_preview :: string
  th_status :: string
  th_source :: string
  th_updated_at :: time

definition protocol_thread_zero :: protocol_thread where
  "protocol_thread_zero = \<lparr>th_id = [], th_project_id = [], th_title = [], th_preview = [], th_latest_message_preview = [],
     th_status = [], th_source = [], th_updated_at = 0\<rparr>"

definition protocol_thread_schema :: "(string \<times> protocol_thread decoder) list" where
  "protocol_thread_schema =
     [(''id'', dec_str (\<lambda>s v. v\<lparr>th_id := s\<rparr>)), (''project_id'', dec_str (\<lambda>s v. v\<lparr>th_project_id := s\<rparr>)),
      (''title'', dec_str (\<lambda>s v. v\<lparr>th_title := s\<rparr>)), (''preview'', dec_str (\<lambda>s v. v\<lparr>th_preview := s\<rparr>)),
      (''latest_message_preview'', dec_str (\<lambda>s v. v\<lparr>th_latest_message_preview := s\<rparr>)),
      (''status'', dec_str (\<lambda>s v. v\<lparr>th_status := s\<rparr>)), (''source'', dec_str (\<lambda>s v. v\<lparr>th_source := s\<rparr>)),
      (''updated_at'', dec_time (\<lambda>t v. v\<lparr>th_updated_at := t\<rparr>))]"

definition thread_snapshot_schema :: "(string \<times> (string \<times> protocol_thread list) decoder) list" where
  "thread_snapshot_schema =
     [(''project_id'', dec_str (\<lambda>s (_, ts). (s, ts))),
      (''threads'', dec_arr (\<lambda>ts (s, _). (s, ts)) protocol_thread_zero (dec_struct False protocol_thread_schema))]"

subsection \<open>One request and its reply\<close>

text \<open>
  The loop of \<open>request\<close> over the frames that arrive before a read fails, at the latest at the deadline: a frame
  that is no message or belongs to another trace is skipped.
\<close>

fun ctl_await :: "string \<Rightarrow> string \<Rightarrow> json option list \<Rightarrow> ctl_error + message" where
  "ctl_await traceID expectedType [] = Inl ReadFailed"
| "ctl_await traceID expectedType (f # fs) =
     (case Decode f of
        Inl _ \<Rightarrow> ctl_await traceID expectedType fs
      | Inr m \<Rightarrow>
          if m_trace_id m \<noteq> traceID then ctl_await traceID expectedType fs
          else if m_type m = TypeTurnRejected then
            (let p = fst (PayloadAs turn_rejected_schema turn_rejected_zero m) in Inl (RejectedBy (rj_code p) (rj_message p)))
          else if m_type m = expectedType then Inr m
          else ctl_await traceID expectedType fs)"

definition ctl_request :: "'s ctl_env \<Rightarrow> string \<Rightarrow> message \<Rightarrow> string \<Rightarrow> (ctl_error + message) \<times> ctl_effect list" where
  "ctl_request ce url m expectedType =
     (if \<not> cl_dial ce url then (Inl DialFailed, [])
      else if \<not> cl_write ce m then (Inl SendFailed, [])
      else (ctl_await (m_trace_id m) expectedType (cl_frames ce), [Sent m]))"

text \<open>
  The commands that ask and print share their shape: a request of one type, the payload of the reply, its lines. The trace
  and the message get fresh identifiers from \<open>e\<close>; the error of \<open>NewMessage\<close> is dropped, as in the source.
\<close>

definition new_request :: "'s ctl_env \<Rightarrow> string \<Rightarrow> json \<Rightarrow> entropy \<Rightarrow> message" where
  "new_request ce messageType payload e =
     (let (trace, e1) = NewID e in fst (fst (NewMessage (cl_now ce) messageType trace ctl_sender payload e1)))"

definition ask :: "'s ctl_env \<Rightarrow> string \<Rightarrow> string \<Rightarrow> json \<Rightarrow> string \<Rightarrow> (message \<Rightarrow> (piece list) list option) \<Rightarrow> entropy \<Rightarrow> nat \<times> ctl_effect list" where
  "ask ce url messageType payload expectedType show_reply e =
     (case ctl_request ce url (new_request ce messageType payload e) expectedType of
        (Inl err, effs) \<Rightarrow> (1, effs @ [errln [Err err]])
      | (Inr m, effs) \<Rightarrow>
          (case show_reply m of
             None \<Rightarrow> (1, effs @ [errln [Err PayloadError]])
           | Some ls \<Rightarrow> (0, effs @ map outln ls)))"

definition profile_lines :: "message \<Rightarrow> (piece list) list option" where
  "profile_lines m =
     map_option (\<lambda>p. map (\<lambda>profile.
        [T (ep_id profile), tab, T ''allowed='', T (if ep_allowed profile then ''true'' else ''false''),
         T (if ep_id profile = ps_default_profile_id p then CHR 0x09 # ''default'' else []), tab, T (ep_description profile)])
        (case ps_profiles p of None \<Rightarrow> [] | Some ps \<Rightarrow> ps))
      (decoded (PayloadAs profile_snapshot_schema profile_snapshot_zero m))"

definition project_lines :: "message \<Rightarrow> (piece list) list option" where
  "project_lines m =
     map_option (map (\<lambda>p. [T (pj_id p), tab, T (pj_name p), tab, Num (pj_thread_count p), T '' threads'', tab, T (pj_path p)]))
      (decoded (PayloadAs project_snapshot_schema [] m))"

definition thread_lines :: "message \<Rightarrow> (piece list) list option" where
  "thread_lines m =
     map_option (\<lambda>(_, ts). map (\<lambda>t. [T (th_id t), tab, T (th_status t), tab, At (th_updated_at t), tab, T (th_title t)]) ts)
      (decoded (PayloadAs thread_snapshot_schema ([], []) m))"

definition profiles_cmd :: "'s ctl_env \<Rightarrow> string list \<Rightarrow> entropy \<Rightarrow> nat \<times> ctl_effect list" where
  "profiles_cmd ce arguments e =
     (case flag_Parse (str_flags [''url'', ''project'']) arguments of
        None \<Rightarrow> (2, [])
      | Some (xs, _) \<Rightarrow>
          if flag_str xs ''project'' [] = [] then (2, [errln [T ''project is required'']])
          else ask ce (app_url ce xs) TypeExecutionProfileList (execution_profile_list_json (flag_str xs ''project'' []))
            TypeExecutionProfileSnapshot profile_lines e)"

definition projects_cmd :: "'s ctl_env \<Rightarrow> string list \<Rightarrow> entropy \<Rightarrow> nat \<times> ctl_effect list" where
  "projects_cmd ce arguments e =
     (case flag_Parse (str_flags [''url'']) arguments of
        None \<Rightarrow> (2, [])
      | Some (xs, _) \<Rightarrow> ask ce (app_url ce xs) TypeProjectList (JObj []) TypeProjectSnapshot project_lines e)"

definition threads_cmd :: "'s ctl_env \<Rightarrow> string list \<Rightarrow> entropy \<Rightarrow> nat \<times> ctl_effect list" where
  "threads_cmd ce arguments e =
     (case flag_Parse (str_flags [''url'', ''project'']) arguments of
        None \<Rightarrow> (2, [])
      | Some (xs, _) \<Rightarrow>
          if flag_str xs ''project'' [] = [] then (2, [errln [T ''project is required'']])
          else ask ce (app_url ce xs) TypeThreadList (JObj [(''project_id'', JStr (flag_str xs ''project'' []))])
            TypeThreadSnapshot thread_lines e)"

text \<open>The whole reply is printed, so its payload is not decoded.\<close>

definition thread_cmd :: "'s ctl_env \<Rightarrow> string list \<Rightarrow> entropy \<Rightarrow> nat \<times> ctl_effect list" where
  "thread_cmd ce arguments e =
     (case flag_Parse (str_flags [''url'', ''project'', ''thread'']) arguments of
        None \<Rightarrow> (2, [])
      | Some (xs, _) \<Rightarrow>
          (let project = flag_str xs ''project'' []; thread = flag_str xs ''thread'' [] in
           if project = [] \<or> thread = [] then (2, [errln [T ''project and thread are required'']])
           else ask ce (app_url ce xs) TypeThreadRead (JObj [(''project_id'', JStr project), (''thread_id'', JStr thread)])
             TypeThreadDetail (\<lambda>m. Some [[J (message_json m)]]) e))"

subsection \<open>Following a turn\<close>

text \<open>\<open>time.Duration(ms) * time.Millisecond\<close> in 64 bits.\<close>

definition millis :: "int \<Rightarrow> int" where
  "millis ms = (ms * 1000000 + 2 ^ 63) mod 2 ^ 64 - 2 ^ 63"

definition printTurnEvent :: "message \<Rightarrow> ctl_effect list \<times> nat option" where
  "printTurnEvent m =
     (if m_type m = TypeTurnStarted then
        (let p = fst (PayloadAs turn_started_schema turn_started_zero m) in
         ([Stderr [T ''[relayctl] thread='', T (st_thread_id p), T '' turn='', T (st_turn_id p), nl]], None))
      else if m_type m = TypeTurnOutput then
        (let p = fst (PayloadAs turn_output_schema turn_output_zero m) in
         ([if to_stream p = ''stderr'' then Stderr [T (to_text p)] else Stdout [T (to_text p)]], None))
      else if m_type m = TypeTurnItemStarted \<or> m_type m = TypeTurnItemDone then
        (let p = fst (PayloadAs turn_item_schema turn_item_zero m) in
         ([Stderr [T (if m_type m = TypeTurnItemStarted then ''[relayctl] item started sequence='' else ''[relayctl] item completed sequence=''),
             Num (ti_sequence p), T '' id='', T (hit_id (ti_item p)), T '' type='', T (hit_type (ti_item p)), nl]], None))
      else if m_type m = TypeTurnItemDelta then
        (let p = fst (PayloadAs turn_item_delta_schema turn_item_delta_zero m) in
         ([Stderr [T ''[relayctl] item delta sequence='', Num (td_sequence p), T '' id='', T (td_item_id p), T '' field='', T (td_field p),
             T '' bytes='', Num (int (length (td_delta p))), nl]], None))
      else if m_type m = TypeTurnCompleted then
        (let p = fst (PayloadAs turn_completed_schema turn_completed_zero m) in
         ([Stderr [nl, T ''[relayctl] completed in '', Nanos (millis (tc_duration_ms p)), T ''; changed files: '',
             Num (int (length (tc_changed_files p))), nl]]
          @ (if tc_summary p \<noteq> [] then [Stdout [nl, T (tc_summary p), nl]] else [])
          @ (if tc_diff p \<noteq> [] then [Stdout [nl, T ''Git diff:'', nl, T (tc_diff p), nl]] else []), Some 0))
      else if m_type m = TypeTurnFailed \<or> m_type m = TypeTurnRejected then
        ([Stderr [nl, T ''[relayctl] '', T (m_type m), T '': '', J (case m_payload m of Some j \<Rightarrow> j | None \<Rightarrow> JNull), nl]], Some 1)
      else if m_type m = TypeTurnInterrupted then ([errln [nl, T ''[relayctl] turn interrupted'']], Some 130)
      else ([], None))"

text \<open>The thread and the turn that an interrupt names, once the turn has started.\<close>

definition active_turn :: "message \<Rightarrow> string \<times> string \<Rightarrow> string \<times> string" where
  "active_turn m ids =
     (if m_type m = TypeTurnStarted then (let p = fst (PayloadAs turn_started_schema turn_started_zero m) in (st_thread_id p, st_turn_id p))
      else ids)"

text \<open>
  The loop of \<open>turn\<close>; \<open>None\<close> means that it has no exit code: it still waits after the last of its inputs, or it was
  killed. \<open>notified\<close>: signals go to the channel (from \<open>signal.Notify\<close> to \<open>signal.Stop\<close>); \<open>waiting\<close>: one is in it. Without
  notification a signal has its default action, which ends the process. Where no signal waits there is nothing to receive.
  \<open>readMessages\<close> drops frames that are no messages.
\<close>

fun turn_loop :: "'s ctl_env \<Rightarrow> string \<Rightarrow> bool \<times> bool \<Rightarrow> string \<times> string \<Rightarrow> turn_input list \<Rightarrow> entropy \<Rightarrow> nat option \<times> ctl_effect list" where
  "turn_loop ce traceID sig ids [] e = (None, [])"
| "turn_loop ce traceID sig ids (ReadEnded # is) e = (Some 1, [errln [T ''Relay connection ended: '', Err ReadFailed]])"
| "turn_loop ce traceID sig ids (Frame f # is) e =
     (case Decode f of
        Inl _ \<Rightarrow> turn_loop ce traceID sig ids is e
      | Inr m \<Rightarrow>
          if m_trace_id m \<noteq> traceID \<and> m_type m \<noteq> TypeAgentStatus then turn_loop ce traceID sig ids is e
          else
            (case printTurnEvent m of
               (effs, Some code) \<Rightarrow> (Some code, effs)
             | (effs, None) \<Rightarrow> (let (code, effs') = turn_loop ce traceID sig (active_turn m ids) is e in (code, effs @ effs'))))"
| "turn_loop ce traceID (notified, waiting) ids (Signal # is) e =
     (if notified then turn_loop ce traceID (notified, True) ids is e else (None, [Killed]))"
| "turn_loop ce traceID (notified, waiting) (th, tu) (Interrupt arrived # is) e =
     (if \<not> waiting then turn_loop ce traceID (notified, waiting) (th, tu) is e
      else if th = [] \<or> tu = [] then
        (let (code, effs) = turn_loop ce traceID (notified, notified \<and> arrived) (th, tu) is e in
         (code, errln [T ''turn has not started yet''] # effs))
      else
        (let ((m, _), e') = NewMessage (cl_now ce) TypeTurnInterrupt traceID ctl_sender
               (turn_interrupt_json \<lparr>ti_thread_id = th, ti_turn_id = tu\<rparr>) e in
         if \<not> cl_write ce m then (Some 1, [errln [T ''interrupt failed: '', Err SendFailed]])
         else (let (code, effs) = turn_loop ce traceID (False, notified \<and> arrived) (th, tu) is e' in
           (code, [Sent m, errln [T ''[relayctl] interruption requested'']] @ effs))))"

definition join_with :: "string \<Rightarrow> string list \<Rightarrow> string" where
  "join_with sep ss = (case ss of [] \<Rightarrow> [] | s # rest \<Rightarrow> s @ concat (map (\<lambda>t. sep @ t) rest))"

definition turn_cmd :: "'s ctl_env \<Rightarrow> string list \<Rightarrow> entropy \<Rightarrow> nat option \<times> ctl_effect list" where
  "turn_cmd ce arguments e =
     (case flag_Parse (str_flags [''url'', ''project'', ''thread'', ''prompt'', ''profile'']) arguments of
        None \<Rightarrow> (Some 2, [])
      | Some (xs, rest) \<Rightarrow>
          (let project = flag_str xs ''project'' [];
               prompt = (if flag_str xs ''prompt'' [] = [] \<and> rest \<noteq> [] then join_with '' '' rest else flag_str xs ''prompt'' []) in
           if project = [] \<or> trim_space prompt = [] then (Some 2, [errln [T ''project and prompt are required'']])
           else if \<not> cl_dial ce (app_url ce xs) then (Some 1, [errln [Err DialFailed]])
           else
             (let (traceID, e1) = NewID e;
                  ((start, _), e2) = NewMessage (cl_now ce) TypeTurnStart traceID ctl_sender
                    (turn_start_json \<lparr>ts_command_id = [], ts_run_id = [], ts_project_id = project, ts_thread_id = flag_str xs ''thread'' [],
                       ts_prompt = trim_space prompt, ts_permission_profile_id = flag_str xs ''profile'' []\<rparr>) e1 in
              if \<not> cl_write ce start then (Some 1, [errln [Err SendFailed]])
              else (let (code, effs) = turn_loop ce traceID (True, False) ([], []) (cl_inputs ce) e2 in (code, Sent start # effs)))))"

subsection \<open>Watching\<close>

text \<open>Every frame that is JSON is printed. A failed read ends the command, with 0 after a signal.\<close>

definition watch_cmd :: "'s ctl_env \<Rightarrow> string list \<Rightarrow> nat \<times> ctl_effect list" where
  "watch_cmd ce arguments =
     (case flag_Parse (str_flags [''url'']) arguments of
        None \<Rightarrow> (2, [])
      | Some (xs, _) \<Rightarrow>
          if \<not> cl_dial ce (app_url ce xs) then (1, [errln [Err DialFailed]])
          else
            (let printed = concat (map (\<lambda>f. case f of Some j \<Rightarrow> if any_ok j then [outln [J j]] else [] | None \<Rightarrow> []) (cl_frames ce)) in
             if cl_watched ce then (0, printed) else (1, printed @ [errln [T ''Relay connection ended: '', Err ReadFailed]])))"

subsection \<open>The control API\<close>

text \<open>\<open>controlRequest\<close>: the target of the response is its decoder; a response without a body leaves the zero value.\<close>

definition controlRequest :: "'s ctl_env \<Rightarrow> string \<Rightarrow> string \<Rightarrow> json option \<Rightarrow> (json \<Rightarrow> 'a option) option \<Rightarrow> 'a \<Rightarrow> 's \<Rightarrow>
    (ctl_error + 'a) \<times> ctl_effect list \<times> 's" where
  "controlRequest ce method endpoint body target zero s =
     (case client_request (cl_size ce) method endpoint body of
        None \<Rightarrow> (Inl BadEndpoint, [], s)
      | Some r \<Rightarrow>
          (let (reply, s') = cl_do ce endpoint r s; effs = [Called endpoint] in
           case reply of
             None \<Rightarrow> (Inl ControlFailed, effs, s')
           | Some hr \<Rightarrow>
               if hr_status hr < 200 \<or> 300 \<le> hr_status hr then (Inl (ControlStatus (hr_status hr)), effs, s')
               else
                 (case target of
                    None \<Rightarrow> (Inr zero, effs, s')
                  | Some decode \<Rightarrow>
                      if hr_body_end hr = 0 then (Inr zero, effs, s')
                      else if 1024 * 1024 < hr_body_end hr then (Inl ControlDecode, effs, s')
                      else (case Option.bind (hr_body hr) decode of None \<Rightarrow> (Inl ControlDecode, effs, s') | Some v \<Rightarrow> (Inr v, effs, s')))))"

definition ctl_data :: "(string \<times> 'a decoder) list \<Rightarrow> 'a \<Rightarrow> json \<Rightarrow> 'a option" where
  "ctl_data schema zero j = decoded (dec_struct False [(''data'', dec_struct False schema)] j zero)"

definition link_schema :: "(string \<times> (string \<times> time) decoder) list" where
  "link_schema = [(''code'', dec_str (\<lambda>s (_, t). (s, t))), (''expires_at'', dec_time (\<lambda>t (s, _). (s, t)))]"

text \<open>The origin of the link: unlike pairqr, the check lets user information pass.\<close>

definition ctl_origin :: "string \<Rightarrow> url option" where
  "ctl_origin raw =
     (case url_Parse (rev (dropWhile (\<lambda>c. c = CHR ''/'') (rev (trim_space raw)))) of
        None \<Rightarrow> None
      | Some u \<Rightarrow>
          if (ur_scheme u \<noteq> ''http'' \<and> ur_scheme u \<noteq> ''https'') \<or> ur_host u = [] \<or> ur_path u \<noteq> [] \<or> ur_raw_query u \<noteq> [] \<or> ur_fragment u \<noteq> []
          then None else Some u)"

definition pair_cmd :: "'s ctl_env \<Rightarrow> string list \<Rightarrow> 's \<Rightarrow> nat \<times> ctl_effect list \<times> 's" where
  "pair_cmd ce arguments s =
     (case flag_Parse (str_flags [''control-url'', ''origin'', ''name'']) arguments of
        None \<Rightarrow> (2, [], s)
      | Some (xs, _) \<Rightarrow>
          (case ctl_origin (flag_str xs ''origin'' []) of
             None \<Rightarrow> (2, [errln [T ''origin must be an explicit http(s) origin without a path'']], s)
           | Some origin \<Rightarrow>
               (case controlRequest ce ''POST'' (control_url ce xs @ ''/v1/auth-control/pairing-grants'')
                       (Some (JObj [(''name'', JStr (flag_str xs ''name'' ''Mobile Web''))])) (Some (ctl_data link_schema ([], 0))) ([], 0) s of
                  (Inl err, effs, s') \<Rightarrow> (1, effs @ [errln [Err err]], s')
                | (Inr (code, expires), effs, s') \<Rightarrow>
                    (0, effs @ [outln [T (origin_String origin), T ''/pair#code='', T (QueryEscape code)],
                                errln [T ''Pairing link expires at '', LocalAt expires]], s'))))"

record listed_client =
  lc_id :: string
  lc_name :: string
  lc_last_seen :: "time option"
  lc_revoked_at :: "time option"

definition listed_zero :: listed_client where
  "listed_zero = \<lparr>lc_id = [], lc_name = [], lc_last_seen = None, lc_revoked_at = None\<rparr>"

definition listed_schema :: "(string \<times> listed_client decoder) list" where
  "listed_schema =
     [(''client_id'', dec_str (\<lambda>s v. v\<lparr>lc_id := s\<rparr>)), (''name'', dec_str (\<lambda>s v. v\<lparr>lc_name := s\<rparr>)),
      (''last_seen_at'', dec_ptr lc_last_seen (\<lambda>t v. v\<lparr>lc_last_seen := t\<rparr>) 0 (dec_time (\<lambda>t _. t))),
      (''revoked_at'', dec_ptr lc_revoked_at (\<lambda>t v. v\<lparr>lc_revoked_at := t\<rparr>) 0 (dec_time (\<lambda>t _. t)))]"

definition items_schema :: "(string \<times> listed_client list decoder) list" where
  "items_schema = [(''items'', dec_arr (\<lambda>xs _. xs) listed_zero (dec_struct False listed_schema))]"

definition client_line :: "listed_client \<Rightarrow> ctl_effect" where
  "client_line c = outln [T (lc_id c), tab, T (if lc_revoked_at c \<noteq> None then ''revoked'' else ''active''), tab, T (lc_name c), tab,
     T ''last_seen='', (case lc_last_seen c of None \<Rightarrow> T ''never'' | Some t \<Rightarrow> LocalAt t)]"

definition authClients_cmd :: "'s ctl_env \<Rightarrow> string list \<Rightarrow> 's \<Rightarrow> nat \<times> ctl_effect list \<times> 's" where
  "authClients_cmd ce arguments s =
     (case flag_Parse (str_flags [''control-url'']) arguments of
        None \<Rightarrow> (2, [], s)
      | Some (xs, _) \<Rightarrow>
          (case controlRequest ce ''GET'' (control_url ce xs @ ''/v1/auth-control/clients'') None (Some (ctl_data items_schema [])) [] s of
             (Inl err, effs, s') \<Rightarrow> (1, effs @ [errln [Err err]], s')
           | (Inr cs, effs, s') \<Rightarrow> (0, effs @ map client_line cs, s')))"

definition revokeClient_cmd :: "'s ctl_env \<Rightarrow> string list \<Rightarrow> 's \<Rightarrow> nat \<times> ctl_effect list \<times> 's" where
  "revokeClient_cmd ce arguments s =
     (case flag_Parse (str_flags [''control-url'', ''client'']) arguments of
        None \<Rightarrow> (2, [], s)
      | Some (xs, _) \<Rightarrow>
          (let clientID = flag_str xs ''client'' [] in
           if trim_space clientID = [] then (2, [errln [T ''client is required'']], s)
           else case controlRequest ce ''POST'' (control_url ce xs @ ''/v1/auth-control/clients/'' @ PathEscape clientID @ ''/revoke'')
                       (Some (JObj [])) None () s of
             (Inl err, effs, s') \<Rightarrow> (1, effs @ [errln [Err err]], s')
           | (Inr _, effs, s') \<Rightarrow> (0, effs @ [outln [T ''revoked '', T clientID]], s')))"

subsection \<open>Dispatch\<close>

definition relayctl_realMain :: "'s ctl_env \<Rightarrow> string list \<Rightarrow> entropy \<Rightarrow> 's \<Rightarrow> nat option \<times> ctl_effect list \<times> 's" where
  "relayctl_realMain ce arguments e s =
     (let on_relay = (\<lambda>(code, effs). (Some code, effs, s)); on_control = (\<lambda>(code, effs, s'). (Some code, effs, s')) in
      case arguments of
        [] \<Rightarrow> (Some 2, [Stderr [Usage]], s)
      | c # args \<Rightarrow>
          if c = ''projects'' then on_relay (projects_cmd ce args e)
          else if c = ''profiles'' then on_relay (profiles_cmd ce args e)
          else if c = ''threads'' then on_relay (threads_cmd ce args e)
          else if c = ''thread'' then on_relay (thread_cmd ce args e)
          else if c = ''turn'' then (let (code, effs) = turn_cmd ce args e in (code, effs, s))
          else if c = ''watch'' then on_relay (watch_cmd ce args)
          else if c = ''pair'' then on_control (pair_cmd ce args s)
          else if c = ''auth-clients'' then on_control (authClients_cmd ce args s)
          else if c = ''revoke-client'' then on_control (revokeClient_cmd ce args s)
          else if c \<in> set [''help'', ''--help'', ''-h''] then (Some 0, [Stderr [Usage]], s)
          else (Some 2, [Stderr [T ''unknown command '', Quoted c, nl, nl], Stderr [Usage]], s))"

end
