(* ===== verification/Qr_Render.thy ===== *)
theory Qr_Render
  imports Relay_Prelude
begin

section \<open>pairqr: drawing a QR code\<close>

text \<open>
  The drawing half of \<^verbatim>\<open>cmd/pairqr/main.go\<close>: the bitmap of an encoded matrix, the four terminal renderings and
  the pixels of the PNG. The QR encoder is a parameter. A renderer is the sequence of its writes: \<open>None\<close>
  marks an index out of range, where the program panics.
\<close>

subsection \<open>The bitmap\<close>

record qr_matrix =
  qm_width :: nat
  qm_height :: nat
  qm_get :: "nat \<Rightarrow> nat \<Rightarrow> bool"

type_synonym bitmap = "bool list list"

definition qrBitmap :: "(string \<Rightarrow> qr_matrix option) \<Rightarrow> string \<Rightarrow> bitmap option" where
  "qrBitmap encode content =
     map_option (\<lambda>m. map (\<lambda>row. map (\<lambda>column. qm_get m column row) [0..<qm_width m]) [0..<qm_height m]) (encode content)"

definition rectangular :: "bitmap \<Rightarrow> bool" where
  "rectangular bm \<longleftrightarrow> (\<forall>r \<in> set bm. length r = length (hd bm))"

subsection \<open>Writing\<close>

text \<open>A writer takes a string and says whether the write succeeded.\<close>

type_synonym 'w writer = "string \<Rightarrow> 'w \<Rightarrow> bool \<times> 'w"

datatype outcome = Finished | WriteFailed | Panicked

fun write_seq :: "'w writer \<Rightarrow> string option list \<Rightarrow> 'w \<Rightarrow> outcome \<times> 'w" where
  "write_seq wr [] w = (Finished, w)"
| "write_seq wr (None # xs) w = (Panicked, w)"
| "write_seq wr (Some s # xs) w =
     (case wr s w of (ok, w') \<Rightarrow> if ok then write_seq wr xs w' else (WriteFailed, w'))"

definition spaces :: "nat \<Rightarrow> string" where
  "spaces n = replicate n (CHR '' '')"

definition esc :: "string \<Rightarrow> string" where
  "esc params = CHR 0x1B # CHR ''['' # params @ ''m''"

definition newline :: string where
  "newline = [CHR 0x0A]"

text \<open>The UTF-8 form of a rune from U+0800 to U+FFFF.\<close>

definition utf8_wide :: "nat \<Rightarrow> string" where
  "utf8_wide r = [char_of (0xE0 + r div 4096), char_of (0x80 + r div 64 mod 64), char_of (0x80 + r mod 64)]"

text \<open>The values of \<open>for i := 0; i < n; i += k\<close>.\<close>

definition stepping :: "nat \<Rightarrow> nat \<Rightarrow> nat list" where
  "stepping k n = map (\<lambda>i. k * i) [0..<(n + k - 1) div k]"

subsection \<open>The renderings\<close>

definition renderCameraTerminalQR :: "bitmap \<Rightarrow> nat \<Rightarrow> string option list" where
  "renderCameraTerminalQR bm indent =
     (let blackCell = esc ''48;2;0;0;0'' @ ''  ''; whiteCell = esc ''48;2;255;255;255'' @ ''  '' in
      concat (map (\<lambda>r. [Some (spaces indent)] @ map (\<lambda>dark. Some (if dark then blackCell else whiteCell)) r
        @ [Some (esc ''0'' @ newline)]) bm))"

definition framed :: "nat \<Rightarrow> string option list \<Rightarrow> string option list" where
  "framed indent cells = [Some (spaces indent @ esc ''30;107'')] @ cells @ [Some (esc ''0'' @ newline)]"

definition renderLargeTerminalQR :: "bitmap \<Rightarrow> nat \<Rightarrow> string option list" where
  "renderLargeTerminalQR bm indent =
     concat (map (\<lambda>r. framed indent (map (\<lambda>dark. Some (if dark then utf8_wide 0x2588 @ utf8_wide 0x2588 else ''  '')) r)) bm)"

definition dotMask :: "nat list list" where
  "dotMask = [[0x01, 0x08], [0x02, 0x10], [0x04, 0x20], [0x40, 0x80]]"

definition dark_at :: "bitmap \<Rightarrow> nat \<Rightarrow> nat \<Rightarrow> bool" where
  "dark_at bm r c \<longleftrightarrow> r < length bm \<and> c < length (bm ! r) \<and> bm ! r ! c"

definition braille :: "bitmap \<Rightarrow> nat \<Rightarrow> nat \<Rightarrow> nat" where
  "braille bm row column =
     fold (\<lambda>ro. fold (\<lambda>co cell. if dark_at bm (row + ro) (column + co) then cell + dotMask ! ro ! co else cell) [0..<2])
       [0..<4] 0x2800"

definition renderSmallTerminalQR :: "bitmap \<Rightarrow> nat \<Rightarrow> string option list" where
  "renderSmallTerminalQR bm indent =
     concat (map (\<lambda>row. framed indent
        (map (\<lambda>column. Some (utf8_wide (braille bm row column))) (stepping 2 (length (bm ! row))))) (stepping 4 (length bm)))"

definition half_block :: "bool \<Rightarrow> bool \<Rightarrow> string" where
  "half_block topDark bottomDark =
     (if topDark \<and> bottomDark then utf8_wide 0x2588 else if topDark then utf8_wide 0x2580 else if bottomDark then utf8_wide 0x2584 else '' '')"

definition renderCompactTerminalQR :: "bitmap \<Rightarrow> nat \<Rightarrow> string option list" where
  "renderCompactTerminalQR bm indent =
     concat (map (\<lambda>row. framed indent
        (map (\<lambda>(column, topDark).
            if row + 1 < length bm then
              (if column < length (bm ! (row + 1)) then Some (half_block topDark (bm ! (row + 1) ! column)) else None)
            else Some (half_block topDark False)) (enumerate 0 (bm ! row)))) (stepping 2 (length bm)))"

definition render_chunks :: "string \<Rightarrow> bitmap \<Rightarrow> nat \<Rightarrow> string option list" where
  "render_chunks renderMode bm indent =
     (if renderMode = ''small'' then renderSmallTerminalQR bm indent
      else if renderMode = ''camera'' then renderCameraTerminalQR bm indent
      else if renderMode = ''large'' then renderLargeTerminalQR bm indent
      else renderCompactTerminalQR bm indent)"

text \<open>\<open>None\<close> is the error of the encoder.\<close>

definition renderTerminalQR :: "(string \<Rightarrow> qr_matrix option) \<Rightarrow> 'w writer \<Rightarrow> string \<Rightarrow> string \<Rightarrow> nat \<Rightarrow> 'w \<Rightarrow> outcome option \<times> 'w" where
  "renderTerminalQR encode wr content renderMode indent w =
     (case qrBitmap encode content of
        None \<Rightarrow> (None, w)
      | Some bm \<Rightarrow> (let (res, w') = write_seq wr (render_chunks renderMode bm indent) w in (Some res, w')))"

subsection \<open>The PNG\<close>

text \<open>\<open>image.Gray\<close>: one byte per pixel, row by row, black at first. A pixel outside the image is not set.\<close>

record gray_image =
  gi_width :: nat
  gi_height :: nat
  gi_pix :: "nat list"

definition NewGray :: "nat \<Rightarrow> nat \<Rightarrow> gray_image" where
  "NewGray w h = \<lparr>gi_width = w, gi_height = h, gi_pix = replicate (w * h) 0\<rparr>"

definition SetGray :: "nat \<times> nat \<times> nat \<Rightarrow> gray_image \<Rightarrow> gray_image" where
  "SetGray = (\<lambda>(x, y, shade) img.
     if x < gi_width img \<and> y < gi_height img then img\<lparr>gi_pix := (gi_pix img)[y * gi_width img + x := shade]\<rparr> else img)"

definition GrayAt :: "gray_image \<Rightarrow> nat \<Rightarrow> nat \<Rightarrow> nat" where
  "GrayAt img x y = gi_pix img ! (y * gi_width img + x)"

definition modulePixels :: nat where "modulePixels = 5"

text \<open>The pixels that the four nested loops set, in order.\<close>

definition png_pixels :: "bitmap \<Rightarrow> (nat \<times> nat \<times> nat) list" where
  "png_pixels bm =
     concat (map (\<lambda>(row, r). concat (map (\<lambda>(column, dark).
       concat (map (\<lambda>y. map (\<lambda>x. (x, y, if dark then 0 else 255)) [column * modulePixels..<(column + 1) * modulePixels])
         [row * modulePixels..<(row + 1) * modulePixels])) (enumerate 0 r))) (enumerate 0 bm))"

definition png_image :: "bitmap \<Rightarrow> gray_image option" where
  "png_image bm =
     (if bm = [] then None
      else Some (fold SetGray (png_pixels bm) (NewGray (length (hd bm) * modulePixels) (length bm * modulePixels))))"

subsection \<open>What a terminal shows\<close>

text \<open>
  A terminal reads the bytes one by one. Each character cell is four pixels high and two wide; a pixel is
  dark, light or in the terminal's own background colour. The rest of an escape sequence or of
  a UTF-8 sequence is waited for in \<open>tm_pending\<close>. Only what the program prints is interpreted.
\<close>

datatype pixel = Dark | Light | Unset

record screen =
  tm_pending :: string
  tm_fg :: pixel
  tm_bg :: pixel
  tm_row :: "pixel list list list"
  tm_rows :: "pixel list list list list"

definition blank_screen :: screen where
  "blank_screen = \<lparr>tm_pending = [], tm_fg = Unset, tm_bg = Unset, tm_row = [], tm_rows = []\<rparr>"

text \<open>A cell from its dots: \<open>dot y x\<close> is drawn in row \<open>y\<close> (of four) and column \<open>x\<close> (of two).\<close>

definition cell_of :: "pixel \<Rightarrow> pixel \<Rightarrow> (nat \<Rightarrow> nat \<Rightarrow> bool) \<Rightarrow> pixel list list" where
  "cell_of fg bg dot = map (\<lambda>y. map (\<lambda>x. if dot y x then fg else bg) [0..<2]) [0..<4]"

definition put_cell :: "(nat \<Rightarrow> nat \<Rightarrow> bool) \<Rightarrow> screen \<Rightarrow> screen" where
  "put_cell dot t = t\<lparr>tm_pending := [], tm_row := tm_row t @ [cell_of (tm_fg t) (tm_bg t) dot]\<rparr>"

text \<open>
  The characters as the Unicode standard draws them, stated apart from the table of the program: the full block,
  the upper and the lower half block, and the braille patterns from U+2800 on, where bit \<open>n - 1\<close> is
  dot \<open>n\<close>; dots 1, 2 and 3 go down the left column, 4, 5 and 6 down the right one, 7 and 8 are
  the bottom row.
\<close>

definition braille_dot :: "nat \<Rightarrow> nat \<Rightarrow> nat" where
  "braille_dot y x = (if y = 3 then 7 + x else 3 * x + y + 1)"

definition rune_dots :: "nat \<Rightarrow> nat \<Rightarrow> nat \<Rightarrow> bool" where
  "rune_dots r y x \<longleftrightarrow>
     (if r = 0x2588 then True else if r = 0x2580 then y < 2 else if r = 0x2584 then 2 \<le> y
      else (r - 0x2800) div 2 ^ (braille_dot y x - 1) mod 2 = 1)"

definition set_colour :: "string \<Rightarrow> screen \<Rightarrow> screen" where
  "set_colour params t =
     (let t' = t\<lparr>tm_pending := []\<rparr> in
      if params = ''[0'' then t'\<lparr>tm_fg := Unset, tm_bg := Unset\<rparr>
      else if params = ''[30;107'' then t'\<lparr>tm_fg := Dark, tm_bg := Light\<rparr>
      else if params = ''[48;2;0;0;0'' then t'\<lparr>tm_bg := Dark\<rparr>
      else if params = ''[48;2;255;255;255'' then t'\<lparr>tm_bg := Light\<rparr>
      else t')"

definition rune_of :: "char \<Rightarrow> char \<Rightarrow> char \<Rightarrow> nat" where
  "rune_of a b c = (of_char a - 0xE0) * 4096 + (of_char b - 0x80) * 64 + (of_char c - 0x80)"

definition feed :: "char \<Rightarrow> screen \<Rightarrow> screen" where
  "feed c t =
     (case tm_pending t of
        [] \<Rightarrow> if c = CHR '' '' then put_cell (\<lambda>_ _. False) t
              else if c = CHR 0x0A then t\<lparr>tm_row := [], tm_rows := tm_rows t @ [tm_row t]\<rparr>
              else t\<lparr>tm_pending := [c]\<rparr>
      | p # ps \<Rightarrow>
          if p = CHR 0x1B then (if c = CHR ''m'' then set_colour ps t else t\<lparr>tm_pending := p # ps @ [c]\<rparr>)
          else if length ps = 1 then put_cell (rune_dots (rune_of p (hd ps) c)) t
          else t\<lparr>tm_pending := p # ps @ [c]\<rparr>)"

definition type_out :: "string \<Rightarrow> screen \<Rightarrow> screen" where
  "type_out s t = fold feed s t"

lemma typed_append: "type_out (s @ s') t = type_out s' (type_out s t)"
  by (simp add: type_out_def)

lemma typed_Nil [simp]: "type_out [] t = t"
  by (simp add: type_out_def)

text \<open>The pixel of row \<open>y\<close> and column \<open>x\<close>.\<close>

definition pixel_at :: "screen \<Rightarrow> nat \<Rightarrow> nat \<Rightarrow> pixel" where
  "pixel_at t y x = tm_rows t ! (y div 4) ! (x div 2) ! (y mod 4) ! (x mod 2)"

subsection \<open>Each write on the screen\<close>

definition ready :: "screen \<Rightarrow> bool" where
  "ready t \<longleftrightarrow> tm_pending t = []"

definition add_cells :: "pixel list list list \<Rightarrow> screen \<Rightarrow> screen" where
  "add_cells cs t = t\<lparr>tm_row := tm_row t @ cs\<rparr>"

lemma add_cells_simps [simp]:
  "ready (add_cells cs t) = ready t" "tm_fg (add_cells cs t) = tm_fg t" "tm_bg (add_cells cs t) = tm_bg t"
  "tm_rows (add_cells cs t) = tm_rows t" "tm_row (add_cells cs t) = tm_row t @ cs"
  "add_cells cs' (add_cells cs t) = add_cells (cs @ cs') t" "add_cells [] t = t"
  by (simp_all add: add_cells_def ready_def)

definition blank_cell :: "pixel \<Rightarrow> pixel list list" where
  "blank_cell bg = cell_of bg bg (\<lambda>_ _. False)"

lemma cell_of_blank: "cell_of fg bg (\<lambda>_ _. False) = blank_cell bg"
  by (simp add: cell_of_def blank_cell_def)

lemma keep_pending: "tm_pending t = p \<Longrightarrow> t\<lparr>tm_pending := p\<rparr> = t"
    "tm_pending t = p \<Longrightarrow> t\<lparr>tm_pending := p, tm_row := x\<rparr> = t\<lparr>tm_row := x\<rparr>"
  by (cases t; simp)+

lemma typed_space: "ready t \<Longrightarrow> type_out (CHR '' '' # s) t = type_out s (add_cells [blank_cell (tm_bg t)] t)"
  by (simp add: type_out_def feed_def put_cell_def add_cells_def ready_def cell_of_blank keep_pending)

lemma typed_spaces: "ready t \<Longrightarrow> type_out (spaces n @ s) t = type_out s (add_cells (replicate n (blank_cell (tm_bg t))) t)"
  by (induction n arbitrary: t) (simp_all add: spaces_def typed_space)

lemma feed_params:
  assumes "tm_pending t = CHR 0x1B # ps" "CHR ''m'' \<notin> set xs"
  shows "fold feed xs t = t\<lparr>tm_pending := CHR 0x1B # ps @ xs\<rparr>"
  using assms
proof (induction xs arbitrary: t ps)
  case (Cons x xs)
  have step: "feed x t = t\<lparr>tm_pending := CHR 0x1B # ps @ [x]\<rparr>" using Cons.prems by (auto simp: feed_def)
  show ?case using Cons.IH [of "t\<lparr>tm_pending := CHR 0x1B # ps @ [x]\<rparr>" "ps @ [x]"] Cons.prems step by simp
qed (simp add: keep_pending)

lemma typed_esc:
  assumes "ready t" "CHR ''m'' \<notin> set params"
  shows "type_out (esc params @ s) t = type_out s (set_colour (CHR ''['' # params) t)"
proof -
  have "fold feed [CHR 0x1B, CHR ''[''] t = t\<lparr>tm_pending := [CHR 0x1B, CHR ''['']\<rparr>"
    using assms(1) by (simp add: feed_def ready_def)
  then have "fold feed (CHR 0x1B # CHR ''['' # params) t = t\<lparr>tm_pending := CHR 0x1B # CHR ''['' # params\<rparr>"
    using feed_params [of "t\<lparr>tm_pending := [CHR 0x1B, CHR ''['']\<rparr>" "[CHR ''['']" params] assms(2) by simp
  then show ?thesis by (simp add: type_out_def esc_def feed_def set_colour_def Let_def)
qed

lemma utf8_wide_parts:
  assumes "0x800 \<le> r" "r < 0x10000"
  shows "\<exists>a b c. utf8_wide r = [a, b, c] \<and> a \<noteq> CHR '' '' \<and> a \<noteq> CHR 0x0A \<and> a \<noteq> CHR 0x1B \<and> rune_of a b c = r"
proof -
  have "r div 4096 < 16" using assms by (simp add: div_less_iff_less_mult)
  then have v: "of_char (char_of (0xE0 + r div 4096) :: char) = 0xE0 + r div 4096"
      "of_char (char_of (0x80 + r div 64 mod 64) :: char) = 0x80 + r div 64 mod 64"
      "of_char (char_of (0x80 + r mod 64) :: char) = 0x80 + r mod 64"
    by (simp_all add: take_bit_eq_mod)
  have "char_of (0xE0 + r div 4096) \<noteq> c" if "of_char c < (0xE0::nat)" for c using v(1) that by auto
  then have "char_of (0xE0 + r div 4096) \<notin> {CHR '' '', CHR 0x0A, CHR 0x1B}" by simp
  moreover have "r div 64 div 64 = r div 4096" by (simp add: div_mult2_eq [symmetric])
  then have "r div 4096 * 4096 + r div 64 mod 64 * 64 + r mod 64 = r"
    using div_mult_mod_eq [of "r div 64" 64] div_mult_mod_eq [of r 64] by linarith
  then have "rune_of (char_of (0xE0 + r div 4096)) (char_of (0x80 + r div 64 mod 64)) (char_of (0x80 + r mod 64)) = r"
    unfolding rune_of_def v by simp
  ultimately show ?thesis unfolding utf8_wide_def by blast
qed

lemma typed_rune:
  assumes "ready t" "0x800 \<le> r" "r < 0x10000"
  shows "type_out (utf8_wide r @ s) t = type_out s (add_cells [cell_of (tm_fg t) (tm_bg t) (rune_dots r)] t)"
proof -
  obtain a b c where abc: "utf8_wide r = [a, b, c]" "a \<noteq> CHR '' ''" "a \<noteq> CHR 0x0A" "a \<noteq> CHR 0x1B" "rune_of a b c = r"
    using utf8_wide_parts [OF assms(2,3)] by blast
  show ?thesis using assms(1) abc by (simp add: type_out_def feed_def put_cell_def add_cells_def ready_def keep_pending)
qed

lemma typed_newline: "ready t \<Longrightarrow> type_out (newline @ s) t = type_out s (t\<lparr>tm_row := [], tm_rows := tm_rows t @ [tm_row t]\<rparr>)"
  by (simp add: type_out_def feed_def newline_def ready_def)

subsection \<open>Rows on the screen\<close>

definition line_start :: "pixel list list list list \<Rightarrow> screen" where
  "line_start rows = blank_screen\<lparr>tm_rows := rows\<rparr>"

lemma line_start_simps [simp]:
  "ready (line_start rows)" "tm_bg (line_start rows) = Unset" "tm_fg (line_start rows) = Unset" "tm_row (line_start rows) = []"
  "tm_rows (line_start rows) = rows"
  by (simp_all add: line_start_def blank_screen_def ready_def)

definition coloured :: "screen \<Rightarrow> bool" where
  "coloured t \<longleftrightarrow> ready t \<and> tm_fg t = Dark \<and> tm_bg t = Light"

lemma colour_simps [simp]:
  "set_colour ''[0'' t = t\<lparr>tm_pending := [], tm_fg := Unset, tm_bg := Unset\<rparr>"
  "set_colour ''[30;107'' t = t\<lparr>tm_pending := [], tm_fg := Dark, tm_bg := Light\<rparr>"
  "set_colour ''[48;2;0;0;0'' t = t\<lparr>tm_pending := [], tm_bg := Dark\<rparr>"
  "set_colour ''[48;2;255;255;255'' t = t\<lparr>tm_pending := [], tm_bg := Light\<rparr>"
  by (simp_all add: set_colour_def)

lemma type_row_end:
  "ready t \<Longrightarrow> type_out (esc ''0'' @ newline @ s) t = type_out s (line_start (tm_rows t @ [tm_row t]))"
  by (cases t) (simp add: typed_esc typed_newline ready_def line_start_def blank_screen_def)

lemma type_cells:
  assumes "\<And>x t. x \<in> set xs \<Longrightarrow> coloured t \<Longrightarrow> type_out (f x) t = add_cells (g x) t" "coloured t"
  shows "type_out (concat (map f xs)) t = add_cells (concat (map g xs)) t"
  using assms
proof (induction xs arbitrary: t)
  case (Cons x xs)
  have "coloured (add_cells (g x) t)" using Cons.prems(2) by (simp add: coloured_def)
  then show ?case using Cons by (simp add: typed_append)
qed simp

text \<open>A row with its indentation.\<close>

definition indented :: "nat \<Rightarrow> pixel list list list \<Rightarrow> pixel list list list" where
  "indented indent cells = replicate indent (blank_cell Unset) @ cells"

definition bytes_of :: "string option list \<Rightarrow> string" where
  "bytes_of xs = concat (map the xs)"

lemma bytes_of_simps [simp]:
  "bytes_of [] = []" "bytes_of (x # xs) = the x @ bytes_of xs" "bytes_of (xs @ ys) = bytes_of xs @ bytes_of ys"
  "bytes_of (concat xss) = concat (map bytes_of xss)"
  by (simp_all add: bytes_of_def) (induction xss; simp add: bytes_of_def)

lemma bytes_of_map: "bytes_of (map f xs) = concat (map (\<lambda>x. the (f x)) xs)"
  by (simp add: bytes_of_def comp_def)

lemma type_framed:
  assumes "\<And>x t. x \<in> set xs \<Longrightarrow> coloured t \<Longrightarrow> type_out (the (f x)) t = add_cells (g x) t"
  shows "type_out (bytes_of (framed indent (map f xs))) (line_start rows)
    = line_start (rows @ [indented indent (concat (map g xs))])"
proof -
  let ?t = "set_colour ''[30;107'' (add_cells (replicate indent (blank_cell Unset)) (line_start rows))"
  have "coloured ?t" by (simp add: coloured_def ready_def)
  then have "type_out (concat (map (\<lambda>x. the (f x)) xs)) ?t = add_cells (concat (map g xs)) ?t"
    using assms by (intro type_cells) simp_all
  moreover have "ready (add_cells (concat (map g xs)) ?t)" by (simp add: ready_def add_cells_def)
  moreover have "bytes_of (framed indent (map f xs))
      = spaces indent @ esc ''30;107'' @ concat (map (\<lambda>x. the (f x)) xs) @ esc ''0'' @ newline @ []"
    by (simp add: framed_def bytes_of_def comp_def)
  moreover have "type_out (spaces indent @ esc ''30;107'' @ s) (line_start rows) = type_out s ?t" for s
    using typed_spaces [of "line_start rows"] typed_esc [of _ "''30;107''"] by simp
  ultimately show ?thesis using type_row_end [of "add_cells (concat (map g xs)) ?t" "[]"]
    by (simp only: typed_append [of "concat (map (\<lambda>x. the (f x)) xs)"]) (simp add: add_cells_def indented_def)
qed

lemma type_rows:
  assumes "\<And>r rows. r \<in> set rs \<Longrightarrow> type_out (f r) (line_start rows) = line_start (rows @ [g r])"
  shows "type_out (concat (map f rs)) (line_start rows) = line_start (rows @ map g rs)"
  using assms by (induction rs arbitrary: rows) (simp_all add: typed_append)

subsection \<open>The modules on the screen\<close>

text \<open>The screen on which a module of the bitmap is a square of \<open>k\<close> by \<open>k\<close> pixels.\<close>

definition shown_cell :: "nat \<Rightarrow> bitmap \<Rightarrow> nat \<Rightarrow> nat \<Rightarrow> pixel list list" where
  "shown_cell k bm i j = cell_of Dark Light (\<lambda>y x. dark_at bm ((4 * i + y) div k) ((2 * j + x) div k))"

definition shown :: "nat \<Rightarrow> bitmap \<Rightarrow> nat \<Rightarrow> pixel list list list list" where
  "shown k bm indent =
     map (\<lambda>i. indented indent (map (shown_cell k bm i) [0..<(k * length (hd bm) + 1) div 2])) [0..<(k * length bm + 3) div 4]"

lemma cell_of_cong: "(\<And>y x. y < 4 \<Longrightarrow> x < 2 \<Longrightarrow> f y x = g y x) \<Longrightarrow> cell_of fg bg f = cell_of fg bg g"
  by (simp add: cell_of_def)

lemma cell_of_nth: "y < 4 \<Longrightarrow> x < 2 \<Longrightarrow> cell_of fg bg f ! y ! x = (if f y x then fg else bg)"
  by (simp add: cell_of_def)

lemma pixel_shown:
  assumes "y < k * length bm" "x < k * length (hd bm)"
  shows "pixel_at (line_start (shown k bm indent)) y (2 * indent + x) = (if dark_at bm (y div k) (x div k) then Dark else Light)"
proof -
  have i: "y div 4 < (k * length bm + 3) div 4" and j: "x div 2 < (k * length (hd bm) + 1) div 2" using assms by simp_all
  have "pixel_at (line_start (shown k bm indent)) y (2 * indent + x) = shown_cell k bm (y div 4) (x div 2) ! (y mod 4) ! (x mod 2)"
    using i j by (simp add: pixel_at_def shown_def indented_def nth_append)
  then show ?thesis by (simp add: shown_cell_def cell_of_nth)
qed

text \<open>A full cell: all pixels of one colour.\<close>

lemma full_cell: "cell_of Dark Light (\<lambda>_ _. b) = blank_cell (if b then Dark else Light)"
  by (simp add: cell_of_def blank_cell_def)

lemma map_cong_upt: "(\<And>i. i < n \<Longrightarrow> f i = g i) \<Longrightarrow> map f [0..<n] = map g [0..<n]"
  by simp

lemma double_cells: "concat (map (\<lambda>b. [f b, f b]) xs) = map (\<lambda>j. f (xs ! (j div 2))) [0..<2 * length xs]"
proof (induction xs rule: rev_induct)
  case (snoc x xs)
  have "[0..<2 * length (xs @ [x])] = [0..<2 * length xs] @ [2 * length xs, 2 * length xs + 1]" by simp
  then show ?case using snoc by (auto simp: nth_append)
qed simp

lemma shown_large:
  assumes "rectangular bm"
  shows "map (\<lambda>r. indented indent (concat (map (\<lambda>b. let c = blank_cell (if b then Dark else Light) in [c, c]) r))) bm = shown 4 bm indent"
proof (rule nth_equalityI)
  fix i assume "i < length (map (\<lambda>r. indented indent (concat (map (\<lambda>b. let c = blank_cell (if b then Dark else Light) in [c, c]) r))) bm)"
  then have i: "i < length bm" by simp
  have w: "length (bm ! i) = length (hd bm)" using assms i by (simp add: rectangular_def)
  have "shown_cell 4 bm i j = blank_cell (if bm ! i ! (j div 2) then Dark else Light)" if "j < 2 * length (bm ! i)" for j
  proof -
    have "(4 * i + y) div 4 = i \<and> (2 * j + x) div 4 = j div 2" if "y < 4" "x < 2" for x y :: nat using that by auto
    then show ?thesis using i that unfolding shown_cell_def full_cell [symmetric]
      by (intro cell_of_cong) (auto simp: dark_at_def)
  qed
  then show "map (\<lambda>r. indented indent (concat (map (\<lambda>b. let c = blank_cell (if b then Dark else Light) in [c, c]) r))) bm ! i = shown 4 bm indent ! i"
    using i w double_cells [of "\<lambda>b. blank_cell (if b then Dark else Light)" "bm ! i"] by (auto simp: shown_def Let_def intro!: arg_cong [of _ _ "indented indent"] map_cong_upt)
qed (simp add: shown_def)

lemma row_length: "rectangular bm \<Longrightarrow> i < length bm \<Longrightarrow> length (bm ! i) = length (hd bm)"
  by (simp add: rectangular_def)

lemma shown_compact:
  assumes "rectangular bm"
  shows "map (\<lambda>row. indented indent (map (\<lambda>c. cell_of Dark Light (\<lambda>y x. dark_at bm (row + y div 2) c)) [0..<length (bm ! row)]))
    (stepping 2 (length bm)) = shown 2 bm indent"
proof -
  have half: "(4 * i + y) div 2 = 2 * i + y div 2" for i y :: nat by presburger
  have "shown_cell 2 bm i j = cell_of Dark Light (\<lambda>y x. dark_at bm (2 * i + y div 2) j)" for i j
    unfolding shown_cell_def by (intro cell_of_cong) (simp add: half)
  moreover have "(2 * length bm + 3) div 4 = (length bm + 2 - 1) div 2" by presburger
  ultimately show ?thesis unfolding shown_def stepping_def map_map
    by (intro map_cong) (auto simp: row_length [OF assms] intro!: arg_cong [of _ _ "indented indent"])
qed

lemma shown_small:
  assumes "rectangular bm"
  shows "map (\<lambda>row. indented indent (map (\<lambda>c. cell_of Dark Light (\<lambda>y x. dark_at bm (row + y) (c + x))) (stepping 2 (length (bm ! row)))))
    (stepping 4 (length bm)) = shown 1 bm indent"
  unfolding shown_def stepping_def map_map
  by (rule map_cong) (auto simp: row_length [OF assms] shown_cell_def add.commute intro!: arg_cong [of _ _ "indented indent"])

subsection \<open>What each renderer shows\<close>

lemma utf8_space: "ready t \<Longrightarrow> type_out ''  '' t = add_cells [blank_cell (tm_bg t), blank_cell (tm_bg t)] t"
  by (simp add: typed_space)

lemma camera_cell:
  "ready t \<Longrightarrow> type_out (esc (if dark then ''48;2;0;0;0'' else ''48;2;255;255;255'') @ ''  '') t
     = add_cells (let c = blank_cell (if dark then Dark else Light) in [c, c]) (t\<lparr>tm_bg := if dark then Dark else Light\<rparr>)"
  by (cases t) (simp add: typed_esc utf8_space ready_def Let_def)

lemma camera_cells:
  assumes "ready t"
  shows "\<exists>b. type_out (concat (map (\<lambda>dark. esc (if dark then ''48;2;0;0;0'' else ''48;2;255;255;255'') @ ''  '') r)) t
    = add_cells (concat (map (\<lambda>b. let c = blank_cell (if b then Dark else Light) in [c, c]) r)) (t\<lparr>tm_bg := b\<rparr>)"
  using assms
proof (induction r arbitrary: t)
  case Nil
  have "t\<lparr>tm_bg := tm_bg t\<rparr> = t" by simp
  then show ?case by (auto intro: exI [of _ "tm_bg t"])
next
  case (Cons d r)
  let ?t = "add_cells (let c = blank_cell (if d then Dark else Light) in [c, c]) (t\<lparr>tm_bg := if d then Dark else Light\<rparr>)"
  have "ready ?t" using Cons.prems by (simp add: ready_def add_cells_def)
  from Cons.IH [OF this] obtain b where
    "type_out (concat (map (\<lambda>dark. esc (if dark then ''48;2;0;0;0'' else ''48;2;255;255;255'') @ ''  '') r)) ?t
      = add_cells (concat (map (\<lambda>b. let c = blank_cell (if b then Dark else Light) in [c, c]) r)) (?t\<lparr>tm_bg := b\<rparr>)" ..
  then show ?case using camera_cell [OF Cons.prems, of d]
    by (simp only: list.map concat.simps typed_append [of "_ @ _"]) (auto simp: add_cells_def)
qed

lemma camera_shows:
  assumes "rectangular bm"
  shows "type_out (bytes_of (renderCameraTerminalQR bm indent)) blank_screen = line_start (shown 4 bm indent)"
proof -
  let ?cells = "\<lambda>r. concat (map (\<lambda>b. let c = blank_cell (if b then Dark else Light) in [c, c]) r)"
  let ?bytes = "\<lambda>r. concat (map (\<lambda>dark. esc (if dark then ''48;2;0;0;0'' else ''48;2;255;255;255'') @ ''  '') r)"
  have row: "type_out (spaces indent @ ?bytes r @ esc ''0'' @ newline @ []) (line_start rows)
      = line_start (rows @ [indented indent (?cells r)])" for r rows
  proof -
    let ?t = "add_cells (replicate indent (blank_cell Unset)) (line_start rows)"
    obtain b where b: "type_out (?bytes r) ?t = add_cells (?cells r) (?t\<lparr>tm_bg := b\<rparr>)" using camera_cells [of ?t r] by auto
    have "ready (add_cells (?cells r) (?t\<lparr>tm_bg := b\<rparr>))" by (simp add: ready_def add_cells_def line_start_def blank_screen_def)
    from type_row_end [OF this, of "[]"] show ?thesis
      by (simp only: typed_spaces [OF line_start_simps(1)] line_start_simps typed_append [of "?bytes r"] b)
        (simp add: add_cells_def indented_def)
  qed
  have bytes: "bytes_of (renderCameraTerminalQR bm indent) = concat (map (\<lambda>r. spaces indent @ ?bytes r @ esc ''0'' @ newline @ []) bm)"
    by (simp add: renderCameraTerminalQR_def bytes_of_map comp_def if_distrib [of esc] if_distrib [of "\<lambda>x. x @ _"] Let_def)
  have "blank_screen = line_start []" by (simp add: line_start_def blank_screen_def)
  moreover have "type_out (concat (map (\<lambda>r. spaces indent @ ?bytes r @ esc ''0'' @ newline @ []) bm)) (line_start [])
      = line_start ([] @ map (\<lambda>r. indented indent (?cells r)) bm)" by (rule type_rows) (rule row)
  ultimately show ?thesis using shown_large [OF assms] by (simp only: bytes append_Nil)
qed

text \<open>The other renderers, each from what one of its cells shows.\<close>

lemma framed_shows:
  assumes "\<And>r x t. r \<in> set rs \<Longrightarrow> x \<in> set (xs r) \<Longrightarrow> coloured t \<Longrightarrow> type_out (the (f r x)) t = add_cells (g r x) t"
  shows "type_out (bytes_of (concat (map (\<lambda>r. framed indent (map (f r) (xs r))) rs))) blank_screen
    = line_start (map (\<lambda>r. indented indent (concat (map (g r) (xs r)))) rs)"
proof -
  have "blank_screen = line_start []" by (simp add: line_start_def blank_screen_def)
  moreover have "type_out (bytes_of (framed indent (map (f r) (xs r)))) (line_start rows)
      = line_start (rows @ [indented indent (concat (map (g r) (xs r)))])" if "r \<in> set rs" for r rows
    using assms that by (intro type_framed)
  then have "type_out (concat (map (\<lambda>r. bytes_of (framed indent (map (f r) (xs r)))) rs)) (line_start [])
      = line_start ([] @ map (\<lambda>r. indented indent (concat (map (g r) (xs r)))) rs)" by (rule type_rows)
  ultimately show ?thesis by (simp add: comp_def)
qed

lemma block_runes:
  "cell_of Dark Light (rune_dots 0x2588) = cell_of Dark Light (\<lambda>y x. True)"
  "cell_of Dark Light (rune_dots 0x2580) = cell_of Dark Light (\<lambda>y x. y div 2 = 0)"
  "cell_of Dark Light (rune_dots 0x2584) = cell_of Dark Light (\<lambda>y x. y div 2 \<noteq> 0)"
  by (intro cell_of_cong; auto simp: rune_dots_def)+

lemma large_shows:
  assumes "rectangular bm"
  shows "type_out (bytes_of (renderLargeTerminalQR bm indent)) blank_screen = line_start (shown 4 bm indent)"
proof -
  have dark: "type_out (utf8_wide 0x2588 @ utf8_wide 0x2588 @ []) t = add_cells [blank_cell Dark, blank_cell Dark] t" if "coloured t" for t
    using that full_cell [of True] block_runes by (simp add: coloured_def typed_rune del: append_Nil2)
  show ?thesis unfolding renderLargeTerminalQR_def shown_large [OF assms, symmetric]
    by (rule framed_shows) (use dark in \<open>auto simp: utf8_space coloured_def Let_def\<close>)
qed

lemma half_block_shows:
  "coloured t \<Longrightarrow> type_out (half_block a b @ []) t = add_cells [cell_of Dark Light (\<lambda>y x. y div 2 = 0 \<and> a \<or> y div 2 \<noteq> 0 \<and> b)] t"
  using full_cell [of False] block_runes
  by (cases a; cases b) (simp_all add: half_block_def coloured_def typed_rune typed_space del: append_Nil2 neq0_conv)

end
