(* ===== verification/Qr_Faithful.thy ===== *)
theory Qr_Faithful
  imports Qr_Render
begin

section \<open>pairqr: the code is drawn as it was encoded\<close>

text \<open>
  Every rendering shows the modules of the encoded matrix: on the screen of a terminal each module is a
  square of \<open>moduleSize\<close> pixels, in the PNG a square of five.
\<close>

subsection \<open>The half blocks and the braille dots\<close>

lemma stepping_bound: "r \<in> set (stepping k n) \<Longrightarrow> 0 < k \<Longrightarrow> r < n"
proof -
  assume "r \<in> set (stepping k n)" "0 < k"
  then obtain i where i: "r = k * i" "i < (n + k - 1) div k" by (auto simp: stepping_def)
  then have "(i + 1) * k \<le> n + k - 1" using \<open>0 < k\<close> by (simp add: less_eq_div_iff_mult_less_eq Suc_le_eq [symmetric])
  then show "r < n" using i(1) \<open>0 < k\<close> by (simp add: algebra_simps)
qed

lemma map_fst_enumerate: "map (\<lambda>p. f (fst p)) (enumerate 0 xs) = map f [0..<length xs]"
  using map_map [of f fst "enumerate 0 xs"] by (simp add: comp_def enumerate_eq_zip del: map_map)

lemma compact_shows:
  assumes "rectangular bm"
  shows "type_out (bytes_of (renderCompactTerminalQR bm indent)) blank_screen = line_start (shown 2 bm indent)"
proof -
  let ?f = "\<lambda>row (column, topDark). if row + 1 < length bm then
      (if column < length (bm ! (row + 1)) then Some (half_block topDark (bm ! (row + 1) ! column)) else None)
    else Some (half_block topDark False)"
  let ?g = "\<lambda>row (column, topDark :: bool). [cell_of Dark Light (\<lambda>y x. dark_at bm (row + y div 2) column)]"
  have cell: "type_out (the (?f row cx)) t = add_cells (?g row cx) t"
    if row: "row \<in> set (stepping 2 (length bm))" and cx: "cx \<in> set (enumerate 0 (bm ! row))" and t: "coloured t" for row cx t
  proof -
    obtain c d where cd: "cx = (c, d)" "c < length (bm ! row)" "d = bm ! row ! c"
      by (rule that [of "fst cx" "snd cx"]) (use cx in \<open>auto simp: in_set_enumerate_eq\<close>)
    have r: "row < length bm" using stepping_bound [OF row] by simp
    let ?low = "row + 1 < length bm \<and> bm ! (row + 1) ! c"
    have "the (?f row cx) = half_block d ?low" using cd r row_length [OF assms] by auto
    moreover have "cell_of Dark Light (\<lambda>y x. y div 2 = 0 \<and> d \<or> y div 2 \<noteq> 0 \<and> ?low) = cell_of Dark Light (\<lambda>y x. dark_at bm (row + y div 2) c)"
    proof (rule cell_of_cong)
      fix y x :: nat assume "y < 4"
      then have "y div 2 = 0 \<or> y div 2 = 1" by auto
      then show "(y div 2 = 0 \<and> d \<or> y div 2 \<noteq> 0 \<and> ?low) = dark_at bm (row + y div 2) c"
        using cd r row_length [OF assms] by (auto simp: dark_at_def)
    qed
    ultimately show ?thesis using half_block_shows [OF t, of d ?low] cd(1) by simp
  qed
  have "map (\<lambda>row. indented indent (concat (map (?g row) (enumerate 0 (bm ! row))))) (stepping 2 (length bm)) = shown 2 bm indent"
    unfolding shown_compact [OF assms, symmetric] by (simp add: split_def concat_map_singleton
        map_fst_enumerate [of "\<lambda>c. cell_of Dark Light (\<lambda>y x. dark_at bm (row + y div 2) c)" for row])
  then show ?thesis unfolding renderCompactTerminalQR_def
    using framed_shows [of "stepping 2 (length bm)" "\<lambda>row. enumerate 0 (bm ! row)" ?f ?g indent, OF cell] by simp
qed

text \<open>The dots of a rune, as the sum of their masks.\<close>

definition dot_sum :: "bool \<Rightarrow> bool \<Rightarrow> bool \<Rightarrow> bool \<Rightarrow> bool \<Rightarrow> bool \<Rightarrow> bool \<Rightarrow> bool \<Rightarrow> nat" where
  "dot_sum a b c d e f g h = of_bool a * 0x01 + of_bool b * 0x08 + of_bool c * 0x02 + of_bool d * 0x10
     + of_bool e * 0x04 + of_bool f * 0x20 + of_bool g * 0x40 + of_bool h * 0x80"

lemma dot_sum_bits:
  "dot_sum a b c d e f g h < 256"
  "dot_sum a b c d e f g h div 0x01 mod 2 = of_bool a" "dot_sum a b c d e f g h div 0x08 mod 2 = of_bool b"
  "dot_sum a b c d e f g h div 0x02 mod 2 = of_bool c" "dot_sum a b c d e f g h div 0x10 mod 2 = of_bool d"
  "dot_sum a b c d e f g h div 0x04 mod 2 = of_bool e" "dot_sum a b c d e f g h div 0x20 mod 2 = of_bool f"
  "dot_sum a b c d e f g h div 0x40 mod 2 = of_bool g" "dot_sum a b c d e f g h div 0x80 mod 2 = of_bool h"
  by (cases a; cases b; cases c; cases d; cases e; cases f; cases g; cases h; simp add: dot_sum_def)+

lemma braille_sum:
  "braille bm r c = 0x2800 + dot_sum (dark_at bm r c) (dark_at bm r (c + 1)) (dark_at bm (r + 1) c) (dark_at bm (r + 1) (c + 1))
     (dark_at bm (r + 2) c) (dark_at bm (r + 2) (c + 1)) (dark_at bm (r + 3) c) (dark_at bm (r + 3) (c + 1))"
proof -
  have u: "[0..<4] = [0, 1, 2, 3::nat]" "[0..<2] = [0, 1::nat]" by (simp_all add: upt_rec)
  have add: "(if b then n + k else n) = n + of_bool b * k" for b and n k :: nat by simp
  show ?thesis unfolding braille_def u add dot_sum_def by (simp add: dotMask_def)
qed

lemma braille_dots:
  assumes "y < 4" "x < 2"
  shows "rune_dots (braille bm r c) y x = dark_at bm (r + y) (c + x)"
proof -
  have "y = 0 \<or> y = 1 \<or> y = 2 \<or> y = 3" "x = 0 \<or> x = 1" using assms by auto
  moreover have "\<not> braille bm r c < 0x2800" "braille bm r c \<notin> {0x2588, 0x2580, 0x2584}" by (simp_all add: braille_sum)
  ultimately show ?thesis by (elim disjE) (simp_all add: rune_dots_def braille_sum dot_sum_bits dot_sum_bits(2) [simplified] braille_dot_def)
qed

lemma small_shows:
  assumes "rectangular bm"
  shows "type_out (bytes_of (renderSmallTerminalQR bm indent)) blank_screen = line_start (shown 1 bm indent)"
proof -
  have "0x800 \<le> braille bm r c" "braille bm r c < 0x10000" for r c
    using dot_sum_bits(1) by (simp_all add: braille_sum add.commute less_le_trans [OF _ , of _ 256])
  then have "type_out (utf8_wide (braille bm r c)) t = add_cells [cell_of Dark Light (\<lambda>y x. dark_at bm (r + y) (c + x))] t"
    if "coloured t" for r c t
    using that typed_rune [of t "braille bm r c" "[]"] cell_of_cong [of "rune_dots (braille bm r c)", OF braille_dots]
    by (simp add: coloured_def)
  then show ?thesis unfolding renderSmallTerminalQR_def shown_small [OF assms, symmetric]
    using framed_shows [of "stepping 4 (length bm)" "\<lambda>row. stepping 2 (length (bm ! row))"
        "\<lambda>r c. Some (utf8_wide (braille bm r c))" "\<lambda>r c. [cell_of Dark Light (\<lambda>y x. dark_at bm (r + y) (c + x))]" indent]
    by (simp add: concat_map_singleton)
qed

subsection \<open>Terminals\<close>

definition moduleSize :: "string \<Rightarrow> nat" where
  "moduleSize mode = (if mode = ''small'' then 1 else if mode = ''camera'' \<or> mode = ''large'' then 4 else 2)"

text \<open>A writer that never fails.\<close>

definition append_writer :: "string writer" where
  "append_writer s w = (True, w @ s)"

lemma write_seq_append: "None \<notin> set xs \<Longrightarrow> write_seq append_writer xs w = (Finished, w @ bytes_of xs)"
  by (induction append_writer xs w rule: write_seq.induct) (auto simp: append_writer_def)

lemma framed_no_panic: "None \<in> set (framed indent cells) \<longleftrightarrow> None \<in> set cells"
  by (simp add: framed_def)

lemma render_no_panic:
  assumes "rectangular bm"
  shows "None \<notin> set (render_chunks mode bm indent)"
proof -
  have "None \<notin> set (renderCompactTerminalQR bm indent)"
    using row_length [OF assms] stepping_bound [of _ 2 "length bm"]
    by (fastforce simp: renderCompactTerminalQR_def framed_no_panic in_set_enumerate_eq split: if_splits)
  then show ?thesis
    by (auto simp: render_chunks_def renderSmallTerminalQR_def renderCameraTerminalQR_def renderLargeTerminalQR_def framed_no_panic Let_def)
qed

lemma render_shows:
  assumes "rectangular bm"
  shows "type_out (bytes_of (render_chunks mode bm indent)) blank_screen = line_start (shown (moduleSize mode) bm indent)"
  using camera_shows [OF assms] large_shows [OF assms] compact_shows [OF assms] small_shows [OF assms]
  by (simp add: render_chunks_def moduleSize_def)

text \<open>The bitmap of an encoded matrix.\<close>

definition matrix_bitmap :: "qr_matrix \<Rightarrow> bitmap" where
  "matrix_bitmap m = map (\<lambda>row. map (\<lambda>column. qm_get m column row) [0..<qm_width m]) [0..<qm_height m]"

lemma qrBitmap_matrix: "qrBitmap encode content = map_option matrix_bitmap (encode content)"
  by (simp add: qrBitmap_def matrix_bitmap_def [abs_def])

lemma matrix_bitmap_simps:
  "rectangular (matrix_bitmap m)" "length (matrix_bitmap m) = qm_height m"
  "row < qm_height m \<Longrightarrow> length (matrix_bitmap m ! row) = qm_width m"
  "0 < qm_height m \<Longrightarrow> length (hd (matrix_bitmap m)) = qm_width m"
  "row < qm_height m \<Longrightarrow> column < qm_width m \<Longrightarrow> dark_at (matrix_bitmap m) row column = qm_get m column row"
  by (auto simp: matrix_bitmap_def rectangular_def dark_at_def hd_map hd_conv_nth)

lemma square_pixel:
  assumes "a < (n::nat)" "d < k"
  shows "k * a + d < k * n" "(k * a + d) div k = a"
proof -
  have "k * (a + 1) \<le> k * n" using assms(1) by (intro mult_le_mono2) simp
  then show "k * a + d < k * n" using assms(2) by simp
qed (use assms in simp)

subsection \<open>The PNG\<close>

definition image_ok :: "gray_image \<Rightarrow> bool" where
  "image_ok img \<longleftrightarrow> length (gi_pix img) = gi_width img * gi_height img"

lemma pixel_index:
  assumes "x < (w::nat)" "x' < w"
  shows "y * w + x = y' * w + x' \<longleftrightarrow> y = y' \<and> x = x'"
proof
  assume eq: "y * w + x = y' * w + x'"
  have "(y * w + x) div w = y" "(y' * w + x') div w = y'" using assms by simp_all
  then show "y = y' \<and> x = x'" using eq by simp
qed simp

lemma pixel_in_range: "x < (w::nat) \<Longrightarrow> y < h \<Longrightarrow> y * w + x < w * h"
  using square_pixel(1) [of y h x w] by (simp add: mult.commute)

lemma SetGray_ok:
  assumes "image_ok img"
  shows "image_ok (SetGray p img)" "gi_width (SetGray p img) = gi_width img" "gi_height (SetGray p img) = gi_height img"
  using assms by (auto simp: SetGray_def image_ok_def split: prod.split)

lemma GrayAt_SetGray:
  assumes "image_ok img" "x < gi_width img" "y < gi_height img"
  shows "GrayAt (SetGray (x', y', shade) img) x y = (if x' = x \<and> y' = y then shade else GrayAt img x y)"
proof (cases "x' < gi_width img \<and> y' < gi_height img")
  case True
  have "y * gi_width img + x < length (gi_pix img)" using assms pixel_in_range by (simp add: image_ok_def)
  then show ?thesis using True assms pixel_index [of x' "gi_width img" x y' y]
    by (auto simp: GrayAt_def SetGray_def nth_list_update)
next
  case False
  then show ?thesis using assms by (auto simp: SetGray_def)
qed

lemma fold_SetGray:
  assumes "\<And>x y s. (x, y, s) \<in> set ps \<Longrightarrow> s = shade x y" "image_ok img" "x < gi_width img" "y < gi_height img"
  shows "GrayAt (fold SetGray ps img) x y = (if \<exists>s. (x, y, s) \<in> set ps then shade x y else GrayAt img x y)"
  using assms
proof (induction ps arbitrary: img)
  case (Cons p ps)
  obtain x' y' s where p: "p = (x', y', s)" by (rule prod_cases3)
  have "GrayAt (fold SetGray ps (SetGray p img)) x y = (if \<exists>s. (x, y, s) \<in> set ps then shade x y else GrayAt (SetGray p img) x y)"
    using Cons.prems SetGray_ok [OF Cons.prems(2), of p] by (intro Cons.IH) auto
  then show ?case using Cons.prems p GrayAt_SetGray [OF Cons.prems(2-4), of x' y' s] by auto
qed simp

lemma fold_SetGray_size:
  "image_ok img \<Longrightarrow> gi_width (fold SetGray ps img) = gi_width img \<and> gi_height (fold SetGray ps img) = gi_height img"
proof (induction ps arbitrary: img)
  case (Cons p ps)
  then show ?case using Cons.IH [of "SetGray p img"] SetGray_ok [OF Cons.prems, of p] by simp
qed simp

lemma set_enumerate: "set (enumerate 0 xs) = (\<lambda>i. (i, xs ! i)) ` {..<length xs}"
  by (auto simp: in_set_enumerate_eq image_iff prod_eq_iff)

lemma png_pixels_iff:
  "(x, y, s) \<in> set (png_pixels bm) \<longleftrightarrow>
     (\<exists>row column. row < length bm \<and> column < length (bm ! row) \<and> s = (if bm ! row ! column then 0 else 255)
        \<and> y div 5 = row \<and> x div 5 = column)"
proof -
  have "{n * 5..<(n + 1) * 5} = {m. m div 5 = n}" for n :: nat by auto
  then have "set (png_pixels bm) = (\<Union>row<length bm. \<Union>column<length (bm ! row). \<Union>y\<in>{y. y div 5 = row}.
      (\<lambda>x. (x, y, if bm ! row ! column then 0 else 255)) ` {x. x div 5 = column})"
    by (simp only: png_pixels_def modulePixels_def set_enumerate set_concat set_map set_upt image_image split_conv)
  then show ?thesis by (simp only: image_iff UN_iff lessThan_iff mem_Collect_eq prod.inject bex_simps) blast
qed

lemma png_shows:
  assumes "rectangular bm" "bm \<noteq> []" "y < 5 * length bm" "x < 5 * length (hd bm)"
  shows "\<exists>img. png_image bm = Some img \<and> gi_width img = 5 * length (hd bm) \<and> gi_height img = 5 * length bm
    \<and> GrayAt img x y = (if dark_at bm (y div 5) (x div 5) then 0 else 255)"
proof -
  let ?img = "NewGray (length (hd bm) * modulePixels) (length bm * modulePixels)"
  let ?shade = "\<lambda>x y. if dark_at bm (y div 5) (x div 5) then 0 else 255"
  have ok: "image_ok ?img" "gi_width ?img = 5 * length (hd bm)" "gi_height ?img = 5 * length bm"
    by (simp_all add: image_ok_def NewGray_def modulePixels_def)
  have "y div 5 < length bm" "x div 5 < length (bm ! (y div 5))"
    using assms row_length [OF assms(1), of "y div 5"] by auto
  then have set: "\<exists>s. (x, y, s) \<in> set (png_pixels bm)" by (auto simp: png_pixels_iff)
  have shade: "s = ?shade x y" if "(x, y, s) \<in> set (png_pixels bm)" for x y s
    using that by (auto simp: png_pixels_iff dark_at_def)
  have "GrayAt (fold SetGray (png_pixels bm) ?img) x y = ?shade x y"
    using fold_SetGray [of "png_pixels bm" ?shade ?img x y, OF shade ok(1)] set ok assms by simp
  then show ?thesis using assms(2) ok fold_SetGray_size [OF ok(1), of "png_pixels bm"] by (simp add: png_image_def)
qed

subsection \<open>The property\<close>

text \<open>
  Property C19. A drawn QR code is the encoded one. For every rendering mode and every module of the
  encoded matrix: the terminal rendering ends without error or panic and a terminal that reads
  its bytes shows the square of the module in the colour of the module, beside the
  indentation; the PNG has five pixels for a module in each direction, all of the module's shade.
\<close>

theorem qr_rendering_faithful:
  assumes "encode content = Some m" "row < qm_height m" "column < qm_width m"
    and "k = moduleSize mode" "dy < k" "dx < k" "py < 5" "px < 5"
  shows "(\<exists>out. renderTerminalQR encode append_writer content mode indent [] = (Some Finished, out)
      \<and> pixel_at (type_out out blank_screen) (k * row + dy) (2 * indent + (k * column + dx)) = (if qm_get m column row then Dark else Light))
    \<and> (\<exists>bm img. qrBitmap encode content = Some bm \<and> png_image bm = Some img
      \<and> gi_width img = 5 * qm_width m \<and> gi_height img = 5 * qm_height m
      \<and> GrayAt img (5 * column + px) (5 * row + py) = (if qm_get m column row then 0 else 255))"
proof -
  let ?bm = "matrix_bitmap m"
  have size: "length ?bm = qm_height m" "length (hd ?bm) = qm_width m" and ne: "?bm \<noteq> []"
    using matrix_bitmap_simps(2,4) [of m] assms(2) by auto
  have bm: "qrBitmap encode content = Some ?bm" using assms(1) by (simp add: qrBitmap_matrix)
  have dark: "dark_at ?bm row column = qm_get m column row" using matrix_bitmap_simps(5) assms by simp
  have "renderTerminalQR encode append_writer content mode indent [] = (Some Finished, bytes_of (render_chunks mode ?bm indent))"
    using write_seq_append [OF render_no_panic [OF matrix_bitmap_simps(1)], of mode m indent "[]"] bm
    by (simp add: renderTerminalQR_def)
  moreover have "pixel_at (type_out (bytes_of (render_chunks mode ?bm indent)) blank_screen) (k * row + dy) (2 * indent + (k * column + dx))
      = (if qm_get m column row then Dark else Light)"
    using pixel_shown [of "k * row + dy" k ?bm "k * column + dx" indent] render_shows [OF matrix_bitmap_simps(1)] square_pixel assms dark
    by (simp add: size)
  moreover have "\<exists>img. png_image ?bm = Some img \<and> gi_width img = 5 * qm_width m \<and> gi_height img = 5 * qm_height m
      \<and> GrayAt img (5 * column + px) (5 * row + py) = (if qm_get m column row then 0 else 255)"
    using png_shows [OF matrix_bitmap_simps(1) ne, of "5 * row + py" "5 * column + px"] assms dark by (simp add: size)
  ultimately show ?thesis using bm by blast
qed

definition demo_matrix :: qr_matrix where
  "demo_matrix = \<lparr>qm_width = 3, qm_height = 5, qm_get = (\<lambda>column row. row = 4 \<and> column = 2)\<rparr>"

theorem qr_rendering_faithful_witness:
  "(\<exists>out. renderTerminalQR (\<lambda>_. Some demo_matrix) append_writer ''x'' ''small'' 2 [] = (Some Finished, out)
     \<and> pixel_at (type_out out blank_screen) 4 6 = Dark)
   \<and> (\<exists>img. png_image (matrix_bitmap demo_matrix) = Some img \<and> GrayAt img 14 20 = 0)"
proof -
  have "qrBitmap (\<lambda>_. Some demo_matrix) ''x'' = Some (matrix_bitmap demo_matrix)" by (simp add: qrBitmap_matrix)
  then show ?thesis
    using qr_rendering_faithful [of "\<lambda>_. Some demo_matrix" "''x''" demo_matrix 4 2 1 "''small''" 0 0 0 4 2]
    by (auto simp: demo_matrix_def moduleSize_def)
qed

end
