(* ===== verification/Pair_Qr.thy ===== *)
theory Pair_Qr
  imports Qr_Faithful Http_Client Go_Flag Auth_Http
begin

section \<open>The pairqr command\<close>

text \<open>
  \<^verbatim>\<open>cmd/pairqr/main.go\<close>: flags, the address of the gateway, the request to the control API and what is printed. The
  record \<open>pair_env\<close> holds the outside: the two output streams, the network interfaces, the HTTP client,
  the file system calls, the QR encoder, the size of an encoded JSON value, the local
  time format and the text of an error. The state has the
  streams, the files, the state of the service and the endpoints that were called. What the flag
  package prints itself is not modelled.
\<close>

datatype pair_error =
    NoLanAddress | InvalidOrigin | InvalidControl | RequestFailed | DecodeFailed | Refused nat
  | PngFailed | RenderFailed

record net_interface =
  ni_name :: string
  ni_up :: bool
  ni_loopback :: bool
  ni_addrs :: "string list option"

record png_file =
  pf_mode :: nat
  pf_image :: "gray_image option"

record ('w, 's) pair_env =
  pe_stdout :: "'w writer"
  pe_stderr :: "'w writer"
  pe_out_tty :: bool
  pe_err_tty :: bool
  pe_no_color :: string
  pe_interfaces :: "net_interface list option"
  pe_do :: "string \<Rightarrow> http_request \<Rightarrow> 's \<Rightarrow> http_reply option \<times> 's"
  pe_encode :: "string \<Rightarrow> qr_matrix option"
  pe_abs :: "string \<Rightarrow> string option"
  pe_mkdir :: "string \<Rightarrow> bool"
  pe_open :: "string \<Rightarrow> nat option"
  pe_png :: "gray_image \<Rightarrow> bool"
  pe_close :: bool
  pe_chmod :: bool
  pe_size :: "json \<Rightarrow> nat"
  pe_local :: "time \<Rightarrow> string"
  pe_text :: "pair_error \<Rightarrow> string"

record ('w, 's) pair_io =
  pi_out :: 'w
  pi_err :: 'w
  pi_files :: "string \<rightharpoonup> png_file"
  pi_service :: 's
  pi_calls :: "string list"

definition say :: "('w, 's) pair_env \<Rightarrow> string \<Rightarrow> ('w, 's) pair_io \<Rightarrow> ('w, 's) pair_io" where
  "say pe s io = io\<lparr>pi_out := snd (pe_stdout pe s (pi_out io))\<rparr>"

definition complain :: "('w, 's) pair_env \<Rightarrow> string \<Rightarrow> ('w, 's) pair_io \<Rightarrow> ('w, 's) pair_io" where
  "complain pe s io = io\<lparr>pi_err := snd (pe_stderr pe s (pi_err io))\<rparr>"

subsection \<open>Styles\<close>

record outputStyle =
  st_reset :: string
  st_bold :: string
  st_green :: string
  st_cyan :: string
  st_yellow :: string

definition plain_style :: outputStyle where
  "plain_style = \<lparr>st_reset = [], st_bold = [], st_green = [], st_cyan = [], st_yellow = []\<rparr>"

text \<open>\<open>tty\<close>: the writer is a file on a character device.\<close>

definition styleForWriter :: "string \<Rightarrow> bool \<Rightarrow> bool \<Rightarrow> outputStyle" where
  "styleForWriter no_color tty terminalOutput =
     (if \<not> terminalOutput \<or> no_color \<noteq> [] \<or> \<not> tty then plain_style
      else \<lparr>st_reset = esc ''0'', st_bold = esc ''1'', st_green = esc ''32'', st_cyan = esc ''36'', st_yellow = esc ''33''\<rparr>)"

subsection \<open>Origins\<close>

definition trim_slashes :: "string \<Rightarrow> string" where
  "trim_slashes s = rev (dropWhile (\<lambda>c. c = CHR ''/'') (rev s))"

definition parseOrigin :: "string \<Rightarrow> url option" where
  "parseOrigin raw =
     (case url_Parse (trim_slashes (trim_space raw)) of
        None \<Rightarrow> None
      | Some u \<Rightarrow>
          if ur_host u = [] \<or> (ur_scheme u \<noteq> ''http'' \<and> ur_scheme u \<noteq> ''https'') then None
          else if ur_path u \<noteq> [] \<or> ur_raw_query u \<noteq> [] \<or> ur_fragment u \<noteq> [] \<or> ur_user u \<noteq> None then None
          else Some u)"

definition isLoopbackHost :: "string \<Rightarrow> bool" where
  "isLoopbackHost host \<longleftrightarrow>
     (if equal_fold (trim_space host) ''localhost'' then True
      else case ParseIP host of None \<Rightarrow> False | Some ip \<Rightarrow> IsLoopback ip)"

subsection \<open>The address of this machine\<close>

text \<open>\<open>net.ParseCIDR\<close>: the address, in 16 bytes. The mask is a number of at most 32 or 128 bits.\<close>

definition ParseCIDR :: "string \<Rightarrow> nat list option" where
  "ParseCIDR s =
     (if CHR ''/'' \<notin> set s then None
      else
        (let (addr, mask) = cut (CHR ''/'') s; bits = (if CHR '':'' \<in> set addr then 128 else 32) in
         case ParseIP addr of
           None \<Rightarrow> None
         | Some ip \<Rightarrow>
             if mask = [] \<or> \<not> list_all is_digit mask \<or> bits < digits_value mask then None else Some ip))"

definition To4 :: "nat list \<Rightarrow> nat list option" where
  "To4 ip = (if take 12 ip = v4_prefix then Some (drop 12 ip) else None)"

definition private4 :: "nat list \<Rightarrow> bool" where
  "private4 ip \<longleftrightarrow> ip ! 0 = 10 \<or> (ip ! 0 = 172 \<and> ip ! 1 div 16 = 1) \<or> (ip ! 0 = 192 \<and> ip ! 1 = 168)"

text \<open>The conditions of the loop: a private IPv4 address that is neither loopback nor link-local.\<close>

definition lan_address :: "string \<Rightarrow> nat list option" where
  "lan_address address =
     (case ParseCIDR address of
        None \<Rightarrow> None
      | Some ip \<Rightarrow>
          (case To4 ip of
             None \<Rightarrow> None
           | Some ip4 \<Rightarrow>
               if IsLoopback ip \<or> (ip4 ! 0 = 169 \<and> ip4 ! 1 = 254) \<or> \<not> private4 ip4 then None else Some ip4))"

definition lan_score :: "string \<Rightarrow> int" where
  "lan_score name = 100 + (if name = ''en0'' \<or> name = ''en1'' then 100 else 0)
     - (if has_prefix name ''utun'' \<or> has_prefix name ''bridge'' then 50 else 0)"

definition consider_address :: "string \<Rightarrow> string \<Rightarrow> (nat list \<times> int) option \<Rightarrow> (nat list \<times> int) option" where
  "consider_address name address best =
     (case lan_address address of
        None \<Rightarrow> best
      | Some ip \<Rightarrow>
          (case best of
             None \<Rightarrow> Some (ip, lan_score name)
           | Some (_, score) \<Rightarrow> if score < lan_score name then Some (ip, lan_score name) else best))"

definition detectLANIPv4 :: "net_interface list option \<Rightarrow> nat list option" where
  "detectLANIPv4 interfaces =
     (case interfaces of
        None \<Rightarrow> None
      | Some nis \<Rightarrow>
          map_option fst (fold (\<lambda>ni best.
            if \<not> ni_up ni \<or> ni_loopback ni then best
            else case ni_addrs ni of None \<Rightarrow> best | Some as \<Rightarrow> fold (consider_address (ni_name ni)) as best) nis None))"

definition ip4_string :: "nat list \<Rightarrow> string" where
  "ip4_string ip = nat_digits (ip ! 0) @ ''.'' @ nat_digits (ip ! 1) @ ''.'' @ nat_digits (ip ! 2) @ ''.'' @ nat_digits (ip ! 3)"

definition defaultControlURL :: string where "defaultControlURL = ''http://127.0.0.1:18776''"
definition defaultGatewayPort :: string where "defaultGatewayPort = ''18774''"

subsection \<open>The grant\<close>

record grantEnvelope =
  ge_success :: bool
  ge_code :: string
  ge_expires_at :: time

definition grant_zero :: grantEnvelope where
  "grant_zero = \<lparr>ge_success = False, ge_code = [], ge_expires_at = 0\<rparr>"

definition grant_data_schema :: "(string \<times> grantEnvelope decoder) list" where
  "grant_data_schema =
     [(''code'', dec_str (\<lambda>s g. g\<lparr>ge_code := s\<rparr>)), (''expires_at'', dec_time (\<lambda>t g. g\<lparr>ge_expires_at := t\<rparr>))]"

definition grantEnvelope_schema :: "(string \<times> grantEnvelope decoder) list" where
  "grantEnvelope_schema =
     [(''success'', dec_bool (\<lambda>b g. g\<lparr>ge_success := b\<rparr>)), (''data'', dec_struct False grant_data_schema)]"

definition grants_path :: string where
  "grants_path = ''/v1/auth-control/pairing-grants''"

definition grant_request :: "(json \<Rightarrow> nat) \<Rightarrow> string \<Rightarrow> string \<Rightarrow> http_request option" where
  "grant_request size_of endpoint name = client_request size_of ''POST'' endpoint (Some (JObj [(''name'', JStr name)]))"

definition createPairingGrant :: "('w, 's) pair_env \<Rightarrow> url \<Rightarrow> string \<Rightarrow> ('w, 's) pair_io \<Rightarrow> (pair_error + grantEnvelope) \<times> ('w, 's) pair_io" where
  "createPairingGrant pe controlURL name io =
     (let endpoint = trim_slashes (origin_String controlURL) @ grants_path in
      case grant_request (pe_size pe) endpoint name of
        None \<Rightarrow> (Inl RequestFailed, io)
      | Some r \<Rightarrow>
          (let (reply, s') = pe_do pe endpoint r (pi_service io);
               io' = io\<lparr>pi_service := s', pi_calls := pi_calls io @ [endpoint]\<rparr> in
           case reply of
             None \<Rightarrow> (Inl RequestFailed, io')
           | Some hr \<Rightarrow>
               (case (if 64 * 1024 < hr_body_end hr then None
                      else Option.bind (hr_body hr) (\<lambda>j. decoded (dec_struct False grantEnvelope_schema j grant_zero))) of
                  None \<Rightarrow> (Inl DecodeFailed, io')
                | Some g \<Rightarrow>
                    if hr_status hr \<noteq> 201 \<or> \<not> ge_success g \<or> ge_code g = [] then (Inl (Refused (hr_status hr)), io')
                    else (Inr g, io'))))"

subsection \<open>The PNG file\<close>

text \<open>
  \<open>pe_open\<close> gives the permissions of the file once it is open: those it had, or those of a new file. The third
  result says that the program panicked.
\<close>

definition writePNG :: "('w, 's) pair_env \<Rightarrow> string \<Rightarrow> string \<Rightarrow> ('w, 's) pair_io \<Rightarrow> string option \<times> ('w, 's) pair_io \<times> bool" where
  "writePNG pe output content io =
     (case pe_abs pe output of
        None \<Rightarrow> (None, io, False)
      | Some path \<Rightarrow>
          if \<not> pe_mkdir pe path then (None, io, False)
          else case qrBitmap (pe_encode pe) content of
            None \<Rightarrow> (None, io, False)
          | Some bm \<Rightarrow>
              (case png_image bm of
                 None \<Rightarrow> (None, io, True)
               | Some img \<Rightarrow>
                   (case pe_open pe path of
                      None \<Rightarrow> (None, io, False)
                    | Some mode \<Rightarrow>
                        (let written = pe_png pe img;
                             file = \<lparr>pf_mode = mode, pf_image = (if written then Some img else None)\<rparr>;
                             io' = io\<lparr>pi_files := (pi_files io)(path \<mapsto> file)\<rparr> in
                         if \<not> written \<or> \<not> pe_close pe \<or> \<not> pe_chmod pe then (None, io', False)
                         else (Some path, io\<lparr>pi_files := (pi_files io)(path \<mapsto> file\<lparr>pf_mode := 0x180\<rparr>)\<rparr>, False)))))"

subsection \<open>The program\<close>

definition pair_flags :: "string \<Rightarrow> flag_kind option" where
  "pair_flags = [''origin'' \<mapsto> FStr, ''name'' \<mapsto> FStr, ''control-url'' \<mapsto> FStr, ''output'' \<mapsto> FStr, ''terminal'' \<mapsto> FBool,
     ''terminal-render'' \<mapsto> FStr, ''terminal-indent'' \<mapsto> FInt, ''print-link'' \<mapsto> FBool, ''print-metadata'' \<mapsto> FBool]"

definition pairing_link_of :: "url \<Rightarrow> grantEnvelope \<Rightarrow> string" where
  "pairing_link_of origin grant = trim_slashes (origin_String origin) @ ''/pair#code='' @ QueryEscape (ge_code grant)"

definition metadata_lines :: "('w, 's) pair_env \<Rightarrow> outputStyle \<Rightarrow> grantEnvelope \<Rightarrow> string list" where
  "metadata_lines pe st grant =
     (let expires = pe_local pe (ge_expires_at grant) in
      if st_reset st \<noteq> [] then
        [st_bold st @ st_cyan st @ ''Codex Remote Pairing'' @ st_reset st @ newline,
         st_yellow st @ ''Expires'' @ st_reset st @ ''  '' @ st_yellow st @ expires @ st_reset st @ newline,
         st_yellow st @ ''Security'' @ st_reset st @ '' One-time credential; valid for one device'' @ newline]
      else [''Codex Remote pairing QR (expires '' @ expires @ '')'' @ newline])"

definition titled :: "outputStyle \<Rightarrow> string \<Rightarrow> string \<Rightarrow> string \<Rightarrow> string" where
  "titled st title plain value =
     (if st_reset st \<noteq> [] then st_green st @ title @ st_reset st @ newline @ value @ newline else plain @ value @ newline)"

definition warning_line :: "outputStyle \<Rightarrow> string" where
  "warning_line st =
     (if st_reset st \<noteq> [] then st_yellow st @ ''Security'' @ st_reset st @ '' Do not upload or share this one-time credential.'' @ newline
      else ''Security: Do not upload or share this one-time credential.'' @ newline)"

definition qr_lines :: "outputStyle \<Rightarrow> string list" where
  "qr_lines st =
     (if st_reset st \<noteq> [] then [st_bold st @ ''QR'' @ st_cyan st @ ''  Scan with your iPhone camera'' @ newline @ newline]
      else [''QR: Scan with your iPhone camera'' @ newline, newline])"

definition says :: "('w, 's) pair_env \<Rightarrow> string list \<Rightarrow> ('w, 's) pair_io \<Rightarrow> ('w, 's) pair_io" where
  "says pe = fold (say pe)"

definition report :: "('w, 's) pair_env \<Rightarrow> string \<Rightarrow> pair_error \<Rightarrow> ('w, 's) pair_io \<Rightarrow> ('w, 's) pair_io" where
  "report pe what err = complain pe (what @ pe_text pe err @ newline)"

text \<open>The end of the program, once it has a grant. The exit code is \<open>None\<close> where the program panics.\<close>

definition show_terminal :: "('w, 's) pair_env \<Rightarrow> outputStyle \<Rightarrow> string \<Rightarrow> string \<Rightarrow> nat \<Rightarrow> ('w, 's) pair_io \<Rightarrow> nat option \<times> ('w, 's) pair_io" where
  "show_terminal pe st link render indent io =
     (let io1 = says pe (qr_lines st) io;
          (res, w) = renderTerminalQR (pe_encode pe) (pe_stdout pe) link render indent (pi_out io1);
          io2 = io1\<lparr>pi_out := w\<rparr> in
      if res = Some Panicked then (None, io2)
      else if res \<noteq> Some Finished then (Some 1, report pe ''render terminal QR: '' RenderFailed io2)
      else (Some 0, say pe newline io2))"

definition announce :: "('w, 's) pair_env \<Rightarrow> (string \<times> flag_value) list \<Rightarrow> outputStyle \<Rightarrow> grantEnvelope \<Rightarrow> string \<Rightarrow> ('w, 's) pair_io \<Rightarrow> ('w, 's) pair_io" where
  "announce pe xs st grant link io =
     (let io1 = (if flag_bool xs ''print-metadata'' True then says pe (metadata_lines pe st grant) io else io) in
      if flag_bool xs ''print-link'' True then say pe (titled st ''Copyable URL'' (''Pairing link:'' @ newline) link) io1 else io1)"

definition warn :: "('w, 's) pair_env \<Rightarrow> (string \<times> flag_value) list \<Rightarrow> outputStyle \<Rightarrow> outputStyle \<Rightarrow> ('w, 's) pair_io \<Rightarrow> ('w, 's) pair_io" where
  "warn pe xs out_style err_style io =
     (if \<not> flag_bool xs ''print-metadata'' True then io
      else if flag_bool xs ''terminal'' True \<and> st_reset out_style \<noteq> [] then say pe (warning_line out_style) io
      else complain pe (warning_line err_style) io)"

definition show_link :: "('w, 's) pair_env \<Rightarrow> (string \<times> flag_value) list \<Rightarrow> grantEnvelope \<Rightarrow> string \<Rightarrow> ('w, 's) pair_io \<Rightarrow> nat option \<times> ('w, 's) pair_io" where
  "show_link pe xs grant link io =
     (let terminal = flag_bool xs ''terminal'' True; output = flag_str xs ''output'' [];
          out_style = styleForWriter (pe_no_color pe) (pe_out_tty pe) terminal;
          err_style = styleForWriter (pe_no_color pe) (pe_err_tty pe) terminal;
          finish = (\<lambda>io. if terminal
            then show_terminal pe out_style link (flag_str xs ''terminal-render'' ''camera'') (nat (flag_int xs ''terminal-indent'' 2)) io
            else (Some 0, io));
          io2 = announce pe xs out_style grant link io in
      if trim_space output = [] then finish (warn pe xs out_style err_style io2)
      else case writePNG pe output link io2 of
        (None, io3, panic) \<Rightarrow> if panic then (None, io3) else (Some 1, report pe ''write QR PNG: '' PngFailed io3)
      | (Some path, io3, _) \<Rightarrow>
          finish (warn pe xs out_style err_style (say pe (titled out_style ''PNG file'' ''PNG: '' path) io3)))"

definition resolve_origin :: "('w, 's) pair_env \<Rightarrow> string \<Rightarrow> string option" where
  "resolve_origin pe origin =
     (if trim_space origin \<noteq> [] then Some (trim_space origin)
      else map_option (\<lambda>ip. ''http://'' @ ip4_string ip @ '':'' @ defaultGatewayPort) (detectLANIPv4 (pe_interfaces pe)))"

text \<open>The checks before the request: the exit code and the message of the first one that fails.\<close>

definition pair_checks :: "('w, 's) pair_env \<Rightarrow> (string \<times> flag_value) list \<Rightarrow> nat \<times> string + url \<times> url \<times> string" where
  "pair_checks pe xs =
     (let indent = flag_int xs ''terminal-indent'' 2; name = trim_space (flag_str xs ''name'' ''Mobile Web'') in
      if flag_str xs ''terminal-render'' ''camera'' \<notin> set [''camera'', ''large'', ''compact'', ''small'']
      then Inl (2, ''--terminal-render must be camera, large, compact, or small'')
      else if indent < 0 \<or> 40 < indent then Inl (2, ''--terminal-indent must be between 0 and 40'')
      else case resolve_origin pe (flag_str xs ''origin'' []) of
        None \<Rightarrow> Inl (1, ''detect LAN address: '' @ pe_text pe NoLanAddress @ ''; pass --origin explicitly'')
      | Some resolved \<Rightarrow>
          (case parseOrigin resolved of
             None \<Rightarrow> Inl (2, ''invalid --origin: '' @ pe_text pe InvalidOrigin)
           | Some origin \<Rightarrow>
               (case parseOrigin (flag_str xs ''control-url'' defaultControlURL) of
                  None \<Rightarrow> Inl (2, ''invalid --control-url: '' @ pe_text pe InvalidControl)
                | Some control \<Rightarrow>
                    if \<not> isLoopbackHost (Hostname control) then Inl (2, ''invalid --control-url: Auth Control must use a loopback host'')
                    else if name = [] then Inl (2, ''--name must not be empty'')
                    else Inr (origin, control, name))))"

definition pairqr_run :: "('w, 's) pair_env \<Rightarrow> string list \<Rightarrow> ('w, 's) pair_io \<Rightarrow> nat option \<times> ('w, 's) pair_io" where
  "pairqr_run pe arguments io =
     (case flag_Parse pair_flags arguments of
        None \<Rightarrow> (Some 2, io)
      | Some (xs, _) \<Rightarrow>
          (case pair_checks pe xs of
             Inl (code, message) \<Rightarrow> (Some code, complain pe (message @ newline) io)
           | Inr (origin, control, name) \<Rightarrow>
               (case createPairingGrant pe control name io of
                  (Inl err, io') \<Rightarrow> (Some 1, report pe ''create pairing grant: '' err io')
                | (Inr grant, io') \<Rightarrow> show_link pe xs grant (pairing_link_of origin grant) io')))"

end
