(* ===== verification/Pair_Properties.thy ===== *)
theory Pair_Properties
  imports Pair_Qr Config
begin

section \<open>pairqr: what a run does\<close>

text \<open>
  A run of pairqr asks only a control API on this machine, picks the best address of the machine, leaves a
  private file, and, against the relay's own control API, prints a link that opens a session.
\<close>

subsection \<open>What printing leaves alone\<close>

definition same_service :: "('w, 's) pair_io \<Rightarrow> ('w, 's) pair_io \<Rightarrow> bool" where
  "same_service io io' \<longleftrightarrow> pi_service io' = pi_service io \<and> pi_calls io' = pi_calls io"

lemma print_simps [simp]:
  "pi_service (say pe s io) = pi_service io" "pi_calls (say pe s io) = pi_calls io" "pi_files (say pe s io) = pi_files io"
  "pi_err (say pe s io) = pi_err io"
  "pi_service (complain pe s io) = pi_service io" "pi_calls (complain pe s io) = pi_calls io" "pi_files (complain pe s io) = pi_files io"
  "pi_out (complain pe s io) = pi_out io"
  by (simp_all add: say_def complain_def)

lemma report_simps [simp]:
  "pi_service (report pe what err io) = pi_service io" "pi_calls (report pe what err io) = pi_calls io"
  "pi_files (report pe what err io) = pi_files io" "pi_out (report pe what err io) = pi_out io"
  by (simp_all add: report_def)

lemma says_simps [simp]:
  "pi_service (says pe ss io) = pi_service io" "pi_calls (says pe ss io) = pi_calls io" "pi_files (says pe ss io) = pi_files io"
  by (induction ss arbitrary: io) (simp_all add: says_def)

lemma show_terminal_keeps:
  assumes "show_terminal pe st link render indent io = (code, io')"
  shows "pi_service io' = pi_service io" "pi_calls io' = pi_calls io" "pi_files io' = pi_files io" "code \<noteq> Some 2"
  using assms by (auto simp: show_terminal_def Let_def split: prod.splits if_splits)

text \<open>The effect of writing the file, on every path through the function.\<close>

lemma writePNG_effect:
  assumes "writePNG pe output content io = (res, io', panic)"
  shows "pi_service io' = pi_service io" "pi_calls io' = pi_calls io"
    and "res = Some path \<Longrightarrow> \<not> panic \<and> pe_abs pe output = Some path \<and>
      (\<exists>bm img. qrBitmap (pe_encode pe) content = Some bm \<and> png_image bm = Some img
        \<and> pi_files io' = (pi_files io)(path \<mapsto> \<lparr>pf_mode = 0x180, pf_image = Some img\<rparr>))"
  using assms by (auto simp: writePNG_def Let_def split: option.splits if_splits)

lemma announce_simps [simp]:
  "pi_service (announce pe xs st grant link io) = pi_service io" "pi_calls (announce pe xs st grant link io) = pi_calls io"
  "pi_files (announce pe xs st grant link io) = pi_files io"
  by (simp_all add: announce_def Let_def)

lemma warn_simps [simp]:
  "pi_service (warn pe xs st st' io) = pi_service io" "pi_calls (warn pe xs st st' io) = pi_calls io"
  "pi_files (warn pe xs st st' io) = pi_files io"
  by (simp_all add: warn_def)

lemma show_link_keeps:
  assumes "show_link pe xs grant link io = (code, io')"
  shows "pi_service io' = pi_service io \<and> pi_calls io' = pi_calls io \<and> code \<noteq> Some 2"
proof -
  have png: "pi_service io3 = pi_service io2 \<and> pi_calls io3 = pi_calls io2" if "writePNG pe dest link io2 = (res, io3, panic)" for dest io2 res io3 panic
    using writePNG_effect(1,2) [OF that] by simp
  have shown: "pi_service b = pi_service a \<and> pi_calls b = pi_calls a \<and> c \<noteq> Some 2" if "show_terminal pe st link render indent a = (c, b)"
    for st render indent a b c using show_terminal_keeps [OF that] by simp
  show ?thesis using assms unfolding show_link_def Let_def
    by (auto dest!: shown png split: prod.splits option.splits if_splits)
qed

lemma show_link_file:
  assumes "show_link pe xs grant link io = (Some 0, io')" "trim_space (flag_str xs ''output'' []) \<noteq> []"
  shows "\<exists>path bm img. pe_abs pe (flag_str xs ''output'' []) = Some path \<and> qrBitmap (pe_encode pe) link = Some bm
    \<and> png_image bm = Some img \<and> pi_files io' = (pi_files io)(path \<mapsto> \<lparr>pf_mode = 0x180, pf_image = Some img\<rparr>)"
proof -
  obtain res io3 panic where w: "writePNG pe (flag_str xs ''output'' []) link
      (announce pe xs (styleForWriter (pe_no_color pe) (pe_out_tty pe) (flag_bool xs ''terminal'' True)) grant link io) = (res, io3, panic)"
    by (rule prod_cases3)
  obtain path where r: "res = Some path" using assms w unfolding show_link_def Let_def by (auto split: option.splits if_splits)
  then have "pi_files io' = pi_files io3" using assms w unfolding show_link_def Let_def
    by (auto dest!: show_terminal_keeps(3) split: if_splits)
  then show ?thesis using writePNG_effect(3) [OF w, of path] r by auto
qed

subsection \<open>The request for a grant\<close>

lemma createPairingGrant_effect:
  assumes "createPairingGrant pe u name io = (res, io')"
  shows "pi_files io' = pi_files io" "pi_out io' = pi_out io"
    "pi_calls io' = pi_calls io \<and> (\<forall>g. res \<noteq> Inr g) \<or> pi_calls io' = pi_calls io @ [trim_slashes (origin_String u) @ grants_path]"
    "\<And>g. res = Inr g \<Longrightarrow> ge_code g \<noteq> []"
  using assms by (auto simp: createPairingGrant_def Let_def split: option.splits prod.splits if_splits)

lemma parseOrigin_scheme: "parseOrigin raw = Some u \<Longrightarrow> ur_scheme u \<in> {''http'', ''https''} \<and> ur_host u \<noteq> []"
  by (auto simp: parseOrigin_def split: option.splits if_splits)

lemma pair_checks_ok:
  assumes "pair_checks pe xs = Inr (origin, u, name)"
  shows "parseOrigin (flag_str xs ''control-url'' defaultControlURL) = Some u" "isLoopbackHost (Hostname u)"
    "\<exists>raw. resolve_origin pe (flag_str xs ''origin'' []) = Some raw \<and> parseOrigin raw = Some origin"
    "name = trim_space (flag_str xs ''name'' ''Mobile Web'')" "name \<noteq> []"
  using assms by (auto simp: pair_checks_def Let_def split: option.splits if_splits)

lemma pair_checks_code: "pair_checks pe xs = Inl (code, message) \<Longrightarrow> code = 1 \<or> code = 2"
  by (auto simp: pair_checks_def Let_def split: option.splits if_splits)

text \<open>Either a run ends in its checks, or it asks for a grant and, with one, presents it.\<close>

lemma run_cases:
  assumes "pairqr_run pe arguments io = (code, io')"
  obtains (stopped) "code = Some 1 \<or> code = Some 2" "pi_out io' = pi_out io" "pi_files io' = pi_files io" "same_service io io'"
  | (failed) xs rest u name origin err io1 where
      "flag_Parse pair_flags arguments = Some (xs, rest)" "pair_checks pe xs = Inr (origin, u, name)"
      "createPairingGrant pe u name io = (Inl err, io1)" "code = Some 1" "io' = report pe ''create pairing grant: '' err io1"
  | (granted) xs rest u name origin grant io1 where
      "flag_Parse pair_flags arguments = Some (xs, rest)" "pair_checks pe xs = Inr (origin, u, name)"
      "createPairingGrant pe u name io = (Inr grant, io1)" "show_link pe xs grant (pairing_link_of origin grant) io1 = (code, io')"
proof (cases "flag_Parse pair_flags arguments")
  case None
  then show thesis using assms by (intro stopped) (simp_all add: pairqr_run_def same_service_def)
next
  case (Some p)
  obtain xs rest where p: "p = (xs, rest)" by (rule prod.exhaust)
  show thesis
  proof (cases "pair_checks pe xs")
    case (Inl e)
    obtain c m where "e = (c, m)" by (rule prod.exhaust)
    then show thesis using assms Some p Inl pair_checks_code [of pe xs c m]
      by (intro stopped) (auto simp: pairqr_run_def same_service_def)
  next
    case (Inr t)
    obtain origin u name where t: "t = (origin, u, name)" by (rule prod_cases3)
    obtain res io1 where g: "createPairingGrant pe u name io = (res, io1)" by (rule prod.exhaust)
    show thesis
    proof (cases res)
      case (Inl err)
      then show thesis using assms Some p Inr t g by (intro failed [of xs rest origin u name err io1]) (simp_all add: pairqr_run_def)
    next
      case (Inr grant)
      then show thesis using assms Some p \<open>pair_checks pe xs = Inr t\<close> t g
        by (intro granted [of xs rest origin u name grant io1]) (simp_all add: pairqr_run_def)
    qed
  qed
qed

text \<open>
  The hosts of this machine, stated apart from the program's own test: the name localhost in any case (the program
  trims spaces around it, which a URL cannot have), the address ::1 and the block 127.0.0.0/8.
\<close>

definition machine_host :: "string \<Rightarrow> bool" where
  "machine_host host \<longleftrightarrow> equal_fold (trim_space host) ''localhost'' \<or> ParseIP host = Some (replicate 15 0 @ [1])
     \<or> (\<exists>a b c. ParseIP host = Some (v4_prefix @ [127, a, b, c]))"

lemma isLoopbackHost_machine: "isLoopbackHost host \<Longrightarrow> machine_host host"
  using loopback_form by (auto simp: isLoopbackHost_def machine_host_def split: if_splits option.splits)

lemma createPairingGrant_reply:
  assumes "createPairingGrant pe u name io = (Inr g, io')"
  shows "\<exists>r hr j. grant_request (pe_size pe) (trim_slashes (origin_String u) @ grants_path) name = Some r
    \<and> pe_do pe (trim_slashes (origin_String u) @ grants_path) r (pi_service io) = (Some hr, pi_service io')
    \<and> hr_status hr = 201 \<and> hr_body_end hr \<le> 64 * 1024 \<and> hr_body hr = Some j
    \<and> decoded (dec_struct False grantEnvelope_schema j grant_zero) = Some g \<and> ge_success g \<and> ge_code g \<noteq> []"
  using assms by (auto simp: createPairingGrant_def Let_def bind_eq_Some_conv split: option.splits prod.splits if_splits)

lemma grant_request_body:
  "grant_request size_of endpoint name = Some r \<Longrightarrow> rq_method r = ''POST'' \<and> rq_body r = Some (JObj [(''name'', JStr name)])"
  by (auto simp: grant_request_def client_request_def split: option.splits if_splits)

text \<open>
  Property C20. pairqr asks only the control API of this machine, and keeps what it gets private. In a run
  there is at most one request, to an http(s) control URL whose host is localhost, ::1 or in 127.0.0.0/8;
  exit code 2 means that nothing was asked for, printed on the standard output or written. A run that ends with
  0 sent a POST with the name of the command line, was answered 201 with a grant, and, when it was told to write a
  PNG, leaves there the picture of the link that it made of its own origin and of the code of that grant, readable by its
  owner only, and no other file changed. What is shown is the request the program gives to its HTTP client:
  the client follows the redirects that the control API itself answers.
\<close>

theorem pairqr_private:
  assumes "pairqr_run pe arguments io = (code, io')"
  shows "(pi_calls io' = pi_calls io \<or> (\<exists>xs rest u. flag_Parse pair_flags arguments = Some (xs, rest)
        \<and> parseOrigin (flag_str xs ''control-url'' defaultControlURL) = Some u \<and> machine_host (Hostname u)
        \<and> ur_scheme u \<in> {''http'', ''https''} \<and> pi_calls io' = pi_calls io @ [trim_slashes (origin_String u) @ grants_path]))
    \<and> (code = Some 2 \<longrightarrow> pi_calls io' = pi_calls io \<and> pi_service io' = pi_service io \<and> pi_out io' = pi_out io \<and> pi_files io' = pi_files io)
    \<and> (code = Some 0 \<longrightarrow> (\<exists>xs rest u raw origin r hr j grant. flag_Parse pair_flags arguments = Some (xs, rest)
        \<and> parseOrigin (flag_str xs ''control-url'' defaultControlURL) = Some u
        \<and> resolve_origin pe (flag_str xs ''origin'' []) = Some raw \<and> parseOrigin raw = Some origin
        \<and> pi_calls io' = pi_calls io @ [trim_slashes (origin_String u) @ grants_path]
        \<and> rq_method r = ''POST'' \<and> rq_body r = Some (JObj [(''name'', JStr (trim_space (flag_str xs ''name'' ''Mobile Web'')))])
        \<and> pe_do pe (trim_slashes (origin_String u) @ grants_path) r (pi_service io) = (Some hr, pi_service io')
        \<and> hr_status hr = 201 \<and> hr_body hr = Some j
        \<and> decoded (dec_struct False grantEnvelope_schema j grant_zero) = Some grant \<and> ge_code grant \<noteq> []
        \<and> (trim_space (flag_str xs ''output'' []) \<noteq> [] \<longrightarrow>
            (\<exists>path bm img. pe_abs pe (flag_str xs ''output'' []) = Some path
              \<and> qrBitmap (pe_encode pe) (trim_slashes (origin_String origin) @ ''/pair#code='' @ QueryEscape (ge_code grant)) = Some bm
              \<and> png_image bm = Some img
              \<and> pi_files io' = (pi_files io)(path \<mapsto> \<lparr>pf_mode = 0x180, pf_image = Some img\<rparr>)))))"
  using assms
proof (cases rule: run_cases)
  case stopped
  then show ?thesis by (auto simp: same_service_def)
next
  case (failed xs rest u name origin err io1)
  then show ?thesis using pair_checks_ok(1) [OF failed(2)] isLoopbackHost_machine [OF pair_checks_ok(2) [OF failed(2)]]
      parseOrigin_scheme createPairingGrant_effect(3) [OF failed(3)] by auto
next
  case (granted xs rest u name origin grant io1)
  note made = createPairingGrant_effect [OF granted(3)] and checked = pair_checks_ok [OF granted(2)]
  obtain r hr j where reply: "grant_request (pe_size pe) (trim_slashes (origin_String u) @ grants_path) name = Some r"
    "pe_do pe (trim_slashes (origin_String u) @ grants_path) r (pi_service io) = (Some hr, pi_service io1)"
    "hr_status hr = 201" "hr_body hr = Some j" "decoded (dec_struct False grantEnvelope_schema j grant_zero) = Some grant" "ge_code grant \<noteq> []"
    using createPairingGrant_reply [OF granted(3)] by blast
  obtain raw where raw: "resolve_origin pe (flag_str xs ''origin'' []) = Some raw" "parseOrigin raw = Some origin" using checked(3) by blast
  have calls: "pi_calls io' = pi_calls io @ [trim_slashes (origin_String u) @ grants_path]" "code \<noteq> Some 2" "pi_service io' = pi_service io1"
    using made(3) show_link_keeps [OF granted(4)] by auto
  have picture: "\<exists>path bm img. pe_abs pe (flag_str xs ''output'' []) = Some path
        \<and> qrBitmap (pe_encode pe) (trim_slashes (origin_String origin) @ ''/pair#code='' @ QueryEscape (ge_code grant)) = Some bm
        \<and> png_image bm = Some img \<and> pi_files io' = (pi_files io)(path \<mapsto> \<lparr>pf_mode = 0x180, pf_image = Some img\<rparr>)"
    if "code = Some 0" "trim_space (flag_str xs ''output'' []) \<noteq> []"
    using show_link_file [of pe xs grant "pairing_link_of origin grant" io1 io'] granted(4) that made(1)
    by (simp add: pairing_link_of_def)
  have "machine_host (Hostname u)" "ur_scheme u \<in> {''http'', ''https''}"
    using isLoopbackHost_machine [OF checked(2)] parseOrigin_scheme [OF checked(1)] by simp_all
  then show ?thesis using granted(1) calls reply raw checked(1,4) grant_request_body [OF reply(1)] picture by simp blast
qed

subsection \<open>The address a phone can reach\<close>

text \<open>The eligible addresses of the machine, with their scores, in the order of the interfaces.\<close>

definition lan_candidates :: "net_interface list \<Rightarrow> (nat list \<times> int) list" where
  "lan_candidates nis =
     concat (map (\<lambda>ni. if \<not> ni_up ni \<or> ni_loopback ni then []
        else case ni_addrs ni of None \<Rightarrow> [] | Some as \<Rightarrow> map (\<lambda>ip. (ip, lan_score (ni_name ni))) (List.map_filter lan_address as)) nis)"

definition first_best :: "(nat list \<times> int) list \<Rightarrow> (nat list \<times> int) option" where
  "first_best cs = find (\<lambda>c. \<forall>d \<in> set cs. snd d \<le> snd c) cs"

definition better :: "nat list \<times> int \<Rightarrow> (nat list \<times> int) option \<Rightarrow> (nat list \<times> int) option" where
  "better c best = (case best of None \<Rightarrow> Some c | Some b \<Rightarrow> if snd b < snd c then Some c else best)"

lemma consider_addresses:
  "fold (consider_address name) as best = fold better (map (\<lambda>ip. (ip, lan_score name)) (List.map_filter lan_address as)) best"
proof (induction as arbitrary: best)
  case (Cons a as)
  have "consider_address name a best = (case lan_address a of None \<Rightarrow> best | Some ip \<Rightarrow> better (ip, lan_score name) best)"
    by (auto simp: consider_address_def better_def split: option.splits)
  then show ?case using Cons by (simp add: List.map_filter_simps split: option.split)
qed (simp add: List.map_filter_simps)

lemma first_best_Some:
  assumes "first_best cs = Some b"
  shows "b \<in> set cs" "\<forall>d \<in> set cs. snd d \<le> snd b"
  using assms by (auto simp: first_best_def find_Some_iff)

lemma first_best_None: "first_best cs = None \<longleftrightarrow> cs = []"
proof -
  have "\<exists>c \<in> set cs. \<forall>d \<in> set cs. snd d \<le> snd c" if "cs \<noteq> []"
    using Max_in [of "snd ` set cs"] Max_ge [of "snd ` set cs"] that by (metis (no_types, lifting) List.finite_set finite_imageI image_iff image_is_empty set_empty)
  then have "find (\<lambda>c. \<forall>d \<in> set cs. snd d \<le> snd c) cs \<noteq> None" if "cs \<noteq> []" using that unfolding find_None_iff by blast
  then show ?thesis unfolding first_best_def by (cases "cs = []") simp_all
qed

lemma first_best_snoc:
  "first_best (cs @ [c]) = (case first_best cs of None \<Rightarrow> Some c | Some b \<Rightarrow> if snd b < snd c then Some c else Some b)"
proof (cases "first_best cs")
  case None
  then have "cs = []" by (simp only: first_best_None)
  then show ?thesis by (simp add: first_best_def)
next
  case (Some b)
  note b = first_best_Some [OF Some]
  show ?thesis
  proof (cases "snd b < snd c")
    case True
    then have "find (\<lambda>x. \<forall>d \<in> set (cs @ [c]). snd d \<le> snd x) cs = None" using b by (fastforce simp: find_None_iff)
    then show ?thesis using True Some b by (auto simp: first_best_def find_append)
  next
    case False
    have "(\<forall>d \<in> set (cs @ [c]). snd d \<le> snd x) = (\<forall>d \<in> set cs. snd d \<le> snd x)" if "x \<in> set cs" for x
      using False b that by fastforce
    then have "find (\<lambda>x. \<forall>d \<in> set (cs @ [c]). snd d \<le> snd x) cs = first_best cs"
      unfolding first_best_def by (intro find_cong) simp_all
    then show ?thesis using False Some by (simp add: first_best_def [of "cs @ [c]"] find_append)
  qed
qed

lemma fold_better: "fold better cs None = first_best cs"
proof (induction cs rule: rev_induct)
  case (snoc c cs)
  then show ?case by (simp add: first_best_snoc better_def split: option.split)
qed (simp add: first_best_def)

lemma fold_interfaces:
  "fold (\<lambda>ni best. if \<not> ni_up ni \<or> ni_loopback ni then best
      else case ni_addrs ni of None \<Rightarrow> best | Some as \<Rightarrow> fold (consider_address (ni_name ni)) as best) nis best
    = fold better (lan_candidates nis) best"
proof (induction nis arbitrary: best)
  case (Cons ni nis)
  then show ?case by (simp add: lan_candidates_def consider_addresses split: option.split)
qed (simp add: lan_candidates_def)

text \<open>
  The loop over the interfaces finds the first of the best: among the private IPv4 addresses of the interfaces that
  are up, the first with the highest score, and none only if there is none.
\<close>

lemma detectLANIPv4_best: "detectLANIPv4 (Some nis) = map_option fst (first_best (lan_candidates nis))"
  unfolding detectLANIPv4_def option.case fold_interfaces fold_better ..

subsection \<open>The code in the link\<close>

lemma url_hex_value: "n < 16 \<Longrightarrow> hex_value (url_hex n) = Some n"
  by (auto simp: url_hex_def hex_value_def less_Suc_eq numeral_eq_Suc)

lemma unescape_escape_query: "unescape EncodeQuery (QueryEscape s) = Some s"
proof (induction s)
  case (Cons c s)
  have "of_char c < (256::nat)" by (rule nat_of_char_less_256)
  then have "of_char c div 16 < (16::nat)" by (simp add: div_less_iff_less_mult)
  then have hex: "hex_value (url_hex (of_char c div 16)) = Some (of_char c div 16)"
    "hex_value (url_hex (of_char c mod 16)) = Some (of_char c mod 16)" by (simp_all add: url_hex_value)
  have plain: "\<not> shouldEscape EncodeQuery c \<Longrightarrow> c \<noteq> CHR ''%'' \<and> c \<noteq> CHR ''+''"
    by (auto simp: shouldEscape_def alnum_def)
  have "(16 * (of_char c div 16) + of_char c mod 16 :: nat) = of_char c" by (simp add: mult_div_mod_eq)
  then show ?case using Cons plain hex by (auto simp: QueryEscape_def escape_def)
qed (simp add: QueryEscape_def escape_def)

subsection \<open>The link opens a session\<close>

text \<open>The client of a relay on the same machine: a request reaches the control API.\<close>

definition relay_client :: "(string \<Rightarrow> string) \<Rightarrow> auth_config \<Rightarrow> faults \<Rightarrow> time \<Rightarrow> (json \<Rightarrow> nat) \<Rightarrow> string \<Rightarrow> http_request \<Rightarrow> auth_state \<Rightarrow>
    http_reply option \<times> auth_state" where
  "relay_client H conf flt now size_of endpoint r st =
     (let (resp, st') = control_Handler H conf flt now r st in
      (Some (reply_of size_of resp), st'))"

definition default_control :: url where
  "default_control = empty_url\<lparr>ur_scheme := ''http'', ur_host := ''127.0.0.1:18776''\<rparr>"

lemma default_control_parsed: "url_Parse ''http://127.0.0.1:18776'' = Some default_control"
  by code_simp

lemma default_endpoint: "url_Parse ''http://127.0.0.1:18776/v1/auth-control/pairing-grants'' = Some (default_control\<lparr>ur_path := grants_path\<rparr>)"
  by code_simp

lemma default_control_texts: "origin_String default_control = ''http://127.0.0.1:18776''" "Hostname default_control = ''127.0.0.1''"
  by code_simp+

lemma default_control_origin: "parseOrigin defaultControlURL = Some default_control"
proof -
  have "trim_space defaultControlURL = defaultControlURL" by (rule trim_space_plain) (simp add: plain_ends_def defaultControlURL_def)
  then show ?thesis using default_control_parsed
    by (simp add: parseOrigin_def trim_slashes_def defaultControlURL_def) (simp add: default_control_def empty_url_def)
qed

definition grant_body :: "string \<Rightarrow> json" where
  "grant_body name = JObj [(''name'', JStr name)]"

lemma default_request:
  "grant_request size_of (trim_slashes (origin_String default_control) @ grants_path) name =
     Some \<lparr>rq_method = ''POST'', rq_path = grants_path, rq_query = [], rq_headers = [(''Content-Type'', ''application/json'')],
       rq_cookies = [], rq_body = Some (grant_body name), rq_body_end = size_of (grant_body name)\<rparr>"
proof -
  have "trim_slashes (origin_String default_control) @ grants_path = ''http://127.0.0.1:18776/v1/auth-control/pairing-grants''"
    by (simp add: default_control_texts trim_slashes_def grants_path_def)
  then show ?thesis using default_endpoint
    by (simp add: grant_request_def client_request_def url_Query_def grant_body_def default_control_def empty_url_def) (simp add: grants_path_def)
qed

text \<open>The answer of the control API, and what the client reads of it.\<close>

lemma control_grant:
  assumes "size_of (grant_body name) \<le> 64 * 1024"
    and "CreatePairingGrant H conf no_faults now name [] st = (Inr link, st')"
  shows "\<exists>hs. control_Handler H conf no_faults now \<lparr>rq_method = ''POST'', rq_path = grants_path, rq_query = [],
      rq_headers = [(''Content-Type'', ''application/json'')], rq_cookies = [], rq_body = Some (grant_body name),
      rq_body_end = size_of (grant_body name)\<rparr> st
    = (\<lparr>re_status = 201, re_headers = hs, re_cookies = [], re_body = Some (data_envelope (link_json link))\<rparr>, st')"
  using assms
  by (simp add: control_Handler_def grants_path_def createGrant_def decodeRequest_def header_def get_first_def has_prefix_def
      limited_decode_def grant_body_def dec_struct_def grant_schema_def dec_str_def method_matches_def write_defs with_headers_def)

lemma decode_grant:
  assumes "writable_time (pl_expires_at link)"
  shows "decoded (dec_struct False grantEnvelope_schema (data_envelope (link_json link)) grant_zero)
    = Some \<lparr>ge_success = True, ge_code = pl_code link, ge_expires_at = pl_expires_at link\<rparr>"
  using parse_format_rfc3339 [OF assms]
  by (simp add: data_envelope_def link_json_def dec_struct_def grantEnvelope_schema_def grant_data_schema_def grant_zero_def
      dec_str_def dec_bool_def dec_time_def time_json_def schema_meta_def equal_fold_def upper_char_def)

lemma leading_zeroD: "leading rs s = 0 \<Longrightarrow> r \<in> set rs \<Longrightarrow> r \<noteq> [] \<Longrightarrow> \<not> has_prefix s r"
  by (induction rs) (auto split: if_splits)

lemma trim_space_idem [simp]: "trim_space (trim_space s) = trim_space s"
proof -
  let ?l = "trim_left space_runes s"
  obtain p where "rev ?l = p @ trim_left (map rev space_runes) (rev ?l)" using trim_left_suffix by blast
  then have l: "?l = trim_space s @ rev p" unfolding trim_space_def by (metis rev_append rev_rev_ident)
  have "leading space_runes (trim_space s) = 0"
  proof (rule leading_zeroI)
    fix r assume "r \<in> set space_runes" "r \<noteq> []"
    then have "\<not> has_prefix ?l r" using leading_zeroD [OF leading_trim_left] by blast
    then show "\<not> has_prefix (trim_space s) r" unfolding l by (auto simp: has_prefix_iff)
  qed
  then show ?thesis by (simp add: trim_space_def [of "trim_space s"] trim_left_stop) (simp add: trim_space_def trim_left_stop)
qed

lemma grant_obtained:
  assumes "pe_do pe = relay_client H conf no_faults now (pe_size pe)" "pi_service io = st"
    and "CreatePairingGrant H conf no_faults now name [] st = (Inr link, st')" "pl_code link \<noteq> []"
    and "pe_size pe (grant_body name) \<le> 64 * 1024" "pe_size pe (data_envelope (link_json link)) \<le> 64 * 1024"
    and "writable_time (pl_expires_at link)"
  shows "\<exists>g io1. createPairingGrant pe default_control name io = (Inr g, io1) \<and> ge_code g = pl_code link \<and> pi_service io1 = st'"
proof -
  note control = control_grant [of "pe_size pe" name H conf now st link st', OF assms(5,3)]
  show ?thesis using control decode_grant [OF assms(7)] assms(1,2,4,6)
    by (auto simp: createPairingGrant_def Let_def default_request relay_client_def reply_of_def)
qed

text \<open>
  Property C16. The link of pairqr opens a session. A run with valid arguments against the relay of its
  machine (default control URL, encoded bodies within the limits, fresh random identifiers) obtains a grant and goes on to
  print and draw a link with its code; the escaped code reads back as the code; and the phone that
  exchanges it before the grant expires gets an access token that authenticates it, under the name given
  on the command line and with the default scopes.
\<close>

theorem pairing_link_opens_session:
  assumes "flag_Parse pair_flags arguments = Some (xs, rest)" "pair_checks pe xs = Inr (origin, default_control, name)"
    and "pe_do pe = relay_client H conf no_faults now (pe_size pe)" "pi_service io = (e, db)"
    and "length name \<le> 120" "writable_time (now + PairingTTL conf)"
    and "pe_size pe (grant_body name) \<le> 64 * 1024"
    and "pe_size pe (data_envelope (link_json \<lparr>pl_code = fst (randomSecret 32 e), pl_expires_at = now + PairingTTL conf\<rparr>)) \<le> 64 * 1024"
    and "grant_fresh (offered H conf now name DefaultScopes e) db" "material_fresh (issued H conf now' e') db"
    and "now' < pg_time (now + PairingTTL conf)" "t < pg_time (now' + AccessTTL conf)"
  shows "\<exists>grant io1 pair e2 db2.
    pairqr_run pe arguments io = show_link pe xs grant (trim_slashes (origin_String origin) @ ''/pair#code='' @ QueryEscape (ge_code grant)) io1
    \<and> pi_service (snd (pairqr_run pe arguments io)) = pi_service io1
    \<and> unescape EncodeQuery (QueryEscape (ge_code grant)) = Some (ge_code grant)
    \<and> ExchangePairingGrant H conf no_faults now' (ge_code grant) (e', snd (pi_service io1)) = (Inr pair, e2, db2)
    \<and> fst (Authenticate H no_faults t (tp_access_token pair) db2) =
        Inr \<lparr>pr_client_id = ac_id (tp_client pair), pr_client_name = name,
             pr_session_id = cm_session_id (issued H conf now' e'), pr_scopes = DefaultScopes\<rparr>"
proof -
  have name: "trim_space name = name" "name \<noteq> []" using pair_checks_ok(4,5) [OF assms(2)] by simp_all
  have pre: "trim_space name \<noteq> []" "length (trim_space name) \<le> 120" using name assms(5) by simp_all
  obtain link e1 db1 pair e2 db2 where flow: "CreatePairingGrant H conf no_faults now name [] (e, db) = (Inr link, e1, db1)"
    "ExchangePairingGrant H conf no_faults now' (pl_code link) (e', db1) = (Inr pair, e2, db2)"
    "fst (Authenticate H no_faults t (tp_access_token pair) db2) =
       Inr \<lparr>pr_client_id = ac_id (tp_client pair), pr_client_name = name,
            pr_session_id = cm_session_id (issued H conf now' e'), pr_scopes = DefaultScopes\<rparr>"
    using pairing_flow [OF pre demo_scopes assms(9-12)] name by auto
  have link: "link = \<lparr>pl_code = fst (randomSecret 32 e), pl_expires_at = now + PairingTTL conf\<rparr>"
    using CreatePairingGrant_run [OF pre demo_scopes assms(9)] flow(1) by auto
  have code: "pl_code link \<noteq> []" using secret_code(2) [of e] link by simp
  obtain g io1 where g: "createPairingGrant pe default_control name io = (Inr g, io1)" "ge_code g = pl_code link" "pi_service io1 = (e1, db1)"
    using grant_obtained [OF assms(3,4) flow(1) code assms(7)] assms(6,8) link by auto
  have run: "pairqr_run pe arguments io = show_link pe xs g (pairing_link_of origin g) io1"
    using assms(1,2) g(1) by (simp add: pairqr_run_def)
  have "pi_service (snd (pairqr_run pe arguments io)) = pi_service io1"
    using show_link_keeps [of pe xs g "pairing_link_of origin g" io1] run by (metis prod.collapse)
  then show ?thesis using run g flow unescape_escape_query [of "ge_code g"] unfolding pairing_link_of_def
    by (intro exI [where x = g] exI [where x = io1] exI [where x = pair] exI [where x = e2] exI [where x = db2]) simp
qed

subsection \<open>A concrete run of pairqr\<close>

definition demo_pair_env :: "(string, auth_state) pair_env" where
  "demo_pair_env =
     \<lparr>pe_stdout = append_writer, pe_stderr = append_writer, pe_out_tty = False, pe_err_tty = False, pe_no_color = [],
      pe_interfaces = None, pe_do = relay_client id demo_conf no_faults 0 (\<lambda>_. 100), pe_encode = (\<lambda>_. Some demo_matrix), pe_abs = Some,
      pe_mkdir = (\<lambda>_. True), pe_open = (\<lambda>_. Some 0x1A4), pe_png = (\<lambda>_. True), pe_close = True, pe_chmod = True,
      pe_size = (\<lambda>_. 100), pe_local = (\<lambda>_. ''later''), pe_text = (\<lambda>_. ''error'')\<rparr>"

definition demo_pair_io :: "(string, auth_state) pair_io" where
  "demo_pair_io = \<lparr>pi_out = [], pi_err = [], pi_files = Map.empty, pi_service = (zero_entropy, empty_auth), pi_calls = []\<rparr>"

definition demo_arguments :: "string list" where
  "demo_arguments = [''--origin'', ''http://h'', ''-terminal=false'', ''-output=p.png'']"

definition demo_flags :: "(string \<times> flag_value) list" where
  "demo_flags = [(''origin'', VStr ''http://h''), (''terminal'', VBool False), (''output'', VStr ''p.png'')]"

definition demo_origin :: url where
  "demo_origin = empty_url\<lparr>ur_scheme := ''http'', ur_host := ''h''\<rparr>"

lemma demo_flags_parsed: "flag_Parse pair_flags demo_arguments = Some (demo_flags, [])"
  by code_simp

lemma demo_origin_parsed: "url_Parse ''http://h'' = Some demo_origin"
  by code_simp

lemma demo_trims: "trim_space ''http://h'' = ''http://h''" "trim_space ''Mobile Web'' = ''Mobile Web''" "trim_space ''p.png'' = ''p.png''"
    "trim_space ''127.0.0.1'' = ''127.0.0.1''"
  by (simp_all add: trim_space_plain plain_ends_def)

lemma demo_checks: "pair_checks demo_pair_env demo_flags = Inr (demo_origin, default_control, ''Mobile Web'')"
proof -
  have "parseOrigin ''http://h'' = Some demo_origin" using demo_origin_parsed
    by (simp add: parseOrigin_def demo_trims trim_slashes_def) (simp add: demo_origin_def empty_url_def)
  moreover have "isLoopbackHost ''127.0.0.1''" using default_ip default_loopback by (simp add: isLoopbackHost_def)
  ultimately show ?thesis using default_control_origin default_control_texts
    by (simp add: pair_checks_def demo_flags_def flag_str_def flag_int_def resolve_origin_def demo_trims)
qed

theorem pairing_link_opens_session_witness:
  "\<exists>grant io1 pair e2 db2.
    pairqr_run demo_pair_env demo_arguments demo_pair_io
      = show_link demo_pair_env demo_flags grant (trim_slashes (origin_String demo_origin) @ ''/pair#code='' @ QueryEscape (ge_code grant)) io1
    \<and> ExchangePairingGrant id demo_conf no_faults second (ge_code grant) (zero_entropy, snd (pi_service io1)) = (Inr pair, e2, db2)
    \<and> pr_scopes (projr (fst (Authenticate id no_faults minute (tp_access_token pair) db2))) = DefaultScopes"
proof -
  have "writable_time (0 + PairingTTL demo_conf)"
    by (simp add: demo_ttl writable_time_def duration_defs days_before_year_def)
  then show ?thesis
    using pairing_link_opens_session [OF demo_flags_parsed demo_checks, of id demo_conf 0 demo_pair_io zero_entropy empty_auth second zero_entropy minute]
      fresh_empty
    by (fastforce simp: demo_pair_env_def demo_pair_io_def demo_ttl pg_time_def duration_defs)
qed

lemma demo_run_succeeds: "\<exists>io'. pairqr_run demo_pair_env demo_arguments demo_pair_io = (Some 0, io')"
proof -
  let ?link = "\<lparr>pl_code = fst (randomSecret 32 zero_entropy), pl_expires_at = 0 + PairingTTL demo_conf\<rparr>"
  obtain e1 where "CreatePairingGrant id demo_conf no_faults 0 ''Mobile Web'' [] (zero_entropy, empty_auth)
      = (Inr ?link, e1, offer (offered id demo_conf 0 ''Mobile Web'' DefaultScopes zero_entropy) empty_auth)"
    using CreatePairingGrant_run [OF _ _ demo_scopes fresh_empty(1), of "''Mobile Web''" id demo_conf 0 zero_entropy] by (auto simp: demo_trims)
  moreover have "pl_code ?link \<noteq> []" using secret_code(2) [of zero_entropy] by simp
  moreover have "writable_time (pl_expires_at ?link)" by (simp add: demo_ttl writable_time_def duration_defs days_before_year_def)
  ultimately obtain g io1 where "createPairingGrant demo_pair_env default_control ''Mobile Web'' demo_pair_io = (Inr g, io1)"
    using grant_obtained [of demo_pair_env id demo_conf 0 demo_pair_io] by (fastforce simp: demo_pair_env_def demo_pair_io_def)
  then have "pairqr_run demo_pair_env demo_arguments demo_pair_io = show_link demo_pair_env demo_flags g (pairing_link_of demo_origin g) io1"
    by (simp add: pairqr_run_def demo_flags_parsed demo_checks)
  then show ?thesis
    by (simp add: show_link_def Let_def demo_flags_def flag_bool_def flag_str_def demo_trims writePNG_def)
      (simp add: demo_pair_env_def qrBitmap_def png_image_def demo_matrix_def)
qed

theorem pairqr_private_witness:
  "\<exists>io' img. pairqr_run demo_pair_env demo_arguments demo_pair_io = (Some 0, io') \<and> length (pi_calls io') \<le> 1
     \<and> pi_files io' ''p.png'' = Some \<lparr>pf_mode = 0x180, pf_image = Some img\<rparr>"
proof -
  obtain io' where run: "pairqr_run demo_pair_env demo_arguments demo_pair_io = (Some 0, io')" using demo_run_succeeds by blast
  then show ?thesis using pairqr_private [OF run] demo_flags_parsed
    by (auto simp: demo_pair_io_def demo_flags_def flag_str_def demo_trims) (simp_all add: demo_pair_env_def)
qed

text \<open>
  An origin may end with a question mark: \<open>url.Parse\<close> keeps it apart from the (empty) query, which is all that is
  checked, and prints it again. The path of the link then is part of the query.
\<close>

lemma question_mark_origin:
  "map_option (\<lambda>u. pairing_link_of u g) (parseOrigin ''http://h?'') = Some (''http://h?/pair#code='' @ QueryEscape (ge_code g))"
proof -
  let ?u = "empty_url\<lparr>ur_scheme := ''http'', ur_host := ''h'', ur_force_query := True\<rparr>"
  have "url_Parse ''http://h?'' = Some ?u" "origin_String ?u = ''http://h?''" by code_simp+
  moreover have "trim_space ''http://h?'' = ''http://h?''" by (simp add: trim_space_plain plain_ends_def)
  ultimately show ?thesis by (simp add: parseOrigin_def pairing_link_of_def trim_slashes_def) (simp add: empty_url_def)
qed

end
