(* ===== verification/Ctl_Properties.thy ===== *)
theory Ctl_Properties
  imports Relay_Ctl Pair_Properties
begin

section \<open>relayctl: what a command does\<close>

text \<open>
  A command that asks takes the first reply of its own trace; a command that follows a turn ends with its own turn
  and interrupts only that one; and a client revoked from the command line is locked out.
\<close>

subsection \<open>Replies\<close>

text \<open>The messages of a trace among the frames.\<close>

definition own_messages :: "string \<Rightarrow> json option list \<Rightarrow> message list" where
  "own_messages traceID fs = filter (\<lambda>m. m_trace_id m = traceID) (List.map_filter (\<lambda>f. case Decode f of Inl _ \<Rightarrow> None | Inr m \<Rightarrow> Some m) fs)"

lemma own_messages_simps [simp]:
  "own_messages traceID [] = []"
  "own_messages traceID (f # fs) =
     (case Decode f of Inr m \<Rightarrow> if m_trace_id m = traceID then m # own_messages traceID fs else own_messages traceID fs
      | Inl _ \<Rightarrow> own_messages traceID fs)"
  by (simp_all add: own_messages_def List.map_filter_simps split: sum.split)

definition rejection :: "message \<Rightarrow> ctl_error" where
  "rejection m = (let p = fst (PayloadAs turn_rejected_schema turn_rejected_zero m) in RejectedBy (rj_code p) (rj_message p))"

lemma ctl_await_own:
  "ctl_await traceID expectedType fs =
     (case find (\<lambda>m. m_type m = TypeTurnRejected \<or> m_type m = expectedType) (own_messages traceID fs) of
        None \<Rightarrow> Inl ReadFailed
      | Some m \<Rightarrow> if m_type m = TypeTurnRejected then Inl (rejection m) else Inr m)"
  by (induction fs) (auto simp: rejection_def Let_def split: sum.split)

subsection \<open>Turns\<close>

text \<open>The exit code an input of the loop ends it with, if it does.\<close>

definition terminal_code :: "string \<Rightarrow> nat option" where
  "terminal_code t =
     (if t = TypeTurnCompleted then Some 0 else if t = TypeTurnFailed \<or> t = TypeTurnRejected then Some 1
      else if t = TypeTurnInterrupted then Some 130 else None)"

definition ends_turn :: "string \<Rightarrow> turn_input \<Rightarrow> nat option" where
  "ends_turn traceID i =
     (case i of
        ReadEnded \<Rightarrow> Some 1
      | Frame f \<Rightarrow> (case Decode f of Inl _ \<Rightarrow> None | Inr m \<Rightarrow> if m_trace_id m = traceID then terminal_code (m_type m) else None)
      | _ \<Rightarrow> None)"

definition first_end :: "string \<Rightarrow> turn_input list \<Rightarrow> nat option" where
  "first_end traceID is = (case List.map_filter (ends_turn traceID) is of [] \<Rightarrow> None | code # _ \<Rightarrow> Some code)"

lemma first_end_simps [simp]:
  "first_end traceID [] = None"
  "first_end traceID (i # is) = (case ends_turn traceID i of None \<Rightarrow> first_end traceID is | Some code \<Rightarrow> Some code)"
  by (simp_all add: first_end_def List.map_filter_simps split: option.split)

lemma printTurnEvent_code: "snd (printTurnEvent m) = terminal_code (m_type m)"
  by (auto simp: printTurnEvent_def terminal_code_def Let_def type_defs)

lemma status_not_terminal: "terminal_code TypeAgentStatus = None" "TypeAgentStatus \<noteq> TypeTurnStarted"
  by (simp_all add: terminal_code_def type_defs)

text \<open>One step of the loop on a frame.\<close>

lemma turn_loop_frame:
  "turn_loop ce traceID sig ids (Frame f # is) e =
     (case Decode f of
        Inl _ \<Rightarrow> turn_loop ce traceID sig ids is e
      | Inr m \<Rightarrow>
          if m_trace_id m \<noteq> traceID \<and> m_type m \<noteq> TypeAgentStatus then turn_loop ce traceID sig ids is e
          else case terminal_code (m_type m) of
            Some code \<Rightarrow> (Some code, fst (printTurnEvent m))
          | None \<Rightarrow>
              (let rest = turn_loop ce traceID sig (active_turn m ids) is e in (fst rest, fst (printTurnEvent m) @ snd rest)))"
proof (cases "Decode f")
  case (Inr m)
  obtain effs res where p: "printTurnEvent m = (effs, res)" by (rule prod.exhaust)
  then have "res = terminal_code (m_type m)" using printTurnEvent_code [of m] by simp
  then show ?thesis using Inr p by (simp add: Let_def split_beta split: option.split)
qed simp

text \<open>The messages among the effects.\<close>

fun sent_messages :: "ctl_effect list \<Rightarrow> message list" where
  "sent_messages [] = []"
| "sent_messages (eff # effs) = (case eff of Sent m \<Rightarrow> m # sent_messages effs | _ \<Rightarrow> sent_messages effs)"

lemma sent_messages_simps [simp]:
  "sent_messages (effs @ effs') = sent_messages effs @ sent_messages effs'" "sent_messages (errln ps # effs) = sent_messages effs"
  "set (sent_messages effs) = {m. Sent m \<in> set effs}"
  by (induction effs) (auto simp: errln_def split: ctl_effect.splits)

lemma printTurnEvent_quiet [simp]: "sent_messages (fst (printTurnEvent m)) = []" "Killed \<notin> set (fst (printTurnEvent m))"
    "errln [T ''interrupt failed: '', Err SendFailed] \<notin> set (fst (printTurnEvent m))"
  by (auto simp: printTurnEvent_def Let_def errln_def nl_def)

text \<open>
  What the loop sends: interrupts of the turn that a message of its own trace (or the state it starts in) named.
\<close>

definition own_turn :: "string \<Rightarrow> turn_input list \<Rightarrow> string \<times> string \<Rightarrow> bool" where
  "own_turn traceID is ids \<longleftrightarrow>
     (\<exists>f m. Frame f \<in> set is \<and> Decode f = Inr m \<and> m_trace_id m = traceID \<and> m_type m = TypeTurnStarted \<and> active_turn m ([], []) = ids)"

definition own_interrupt :: "time \<Rightarrow> string \<Rightarrow> turn_input list \<Rightarrow> string \<times> string \<Rightarrow> message \<Rightarrow> bool" where
  "own_interrupt now traceID is ids m \<longleftrightarrow>
     m_type m = TypeTurnInterrupt \<and> m_trace_id m = traceID \<and> m_sender m = ctl_sender \<and> m_occurred_at m = now
     \<and> m_spec_version m = SpecVersion \<and> m_message_id m \<noteq> []
     \<and> (\<exists>th tu. ((th, tu) = ids \<or> own_turn traceID is (th, tu)) \<and> th \<noteq> [] \<and> tu \<noteq> []
          \<and> m_payload m = Some (turn_interrupt_json \<lparr>ti_thread_id = th, ti_turn_id = tu\<rparr>))"

lemma own_interrupt_mono: "own_interrupt now traceID is ids m \<Longrightarrow> own_interrupt now traceID (i # is) ids m"
  unfolding own_interrupt_def own_turn_def by (metis list.set_intros(2))

lemma own_interrupt_learnt:
  assumes "own_interrupt now traceID is (active_turn msg ids) m" "Decode f = Inr msg"
    and "m_trace_id msg = traceID \<or> m_type msg = TypeAgentStatus"
  shows "own_interrupt now traceID (Frame f # is) ids m"
proof -
  have "active_turn msg ids = ids \<or> own_turn traceID (Frame f # is) (active_turn msg ids)"
    using assms(2,3) status_not_terminal by (auto simp: active_turn_def own_turn_def)
  then show ?thesis using own_interrupt_mono [OF assms(1), of "Frame f"] unfolding own_interrupt_def by metis
qed

lemma turn_loop_sends:
  assumes "traceID \<noteq> []" "Sent m \<in> set (snd (turn_loop ce traceID sig ids is e))"
  shows "own_interrupt (cl_now ce) traceID is ids m \<and> cl_write ce m"
  using assms
proof (induction ce traceID sig ids "is" e rule: turn_loop.induct)
  case (3 ce traceID sig ids f "is" e)
  show ?case
  proof (cases "Decode f")
    case (Inl err)
    then show ?thesis using 3 own_interrupt_mono by auto
  next
    case (Inr msg)
    show ?thesis
    proof (cases "m_trace_id msg \<noteq> traceID \<and> m_type msg \<noteq> TypeAgentStatus")
      case True
      then show ?thesis using 3 Inr own_interrupt_mono by auto
    next
      case False
      obtain effs res where p: "printTurnEvent msg = (effs, res)" by (rule prod.exhaust)
      have "Sent m \<notin> set effs" using printTurnEvent_quiet(1) [of msg] p sent_messages_simps(3) [of effs] by auto
      then have "res = None" "Sent m \<in> set (snd (turn_loop ce traceID sig (active_turn msg ids) is e))"
        using 3(4,5) False Inr p by (auto simp: split_beta split: option.splits)
      then have "own_interrupt (cl_now ce) traceID is (active_turn msg ids) m \<and> cl_write ce m" using 3(3,4) False Inr p by simp
      then show ?thesis using own_interrupt_learnt [OF _ Inr] False by blast
    qed
  qed
next
  case (5 ce traceID notified waiting th tu arrived "is" e)
  obtain msg err e' where n: "NewMessage (cl_now ce) TypeTurnInterrupt traceID ctl_sender (turn_interrupt_json \<lparr>ti_thread_id = th, ti_turn_id = tu\<rparr>) e = ((msg, err), e')"
    by (metis prod.exhaust)
  consider "\<not> waiting" | "waiting" "th = [] \<or> tu = []" | "waiting" "th \<noteq> []" "tu \<noteq> []" by blast
  then show ?case
  proof cases
    case 3
    then consider "m = msg" "cl_write ce m" | "cl_write ce msg" "Sent m \<in> set (snd (turn_loop ce traceID (False, notified \<and> arrived) (th, tu) is e'))"
      using "5.prems" n by (auto simp: errln_def split_beta split: if_splits)
    then show ?thesis
    proof cases
      case 1
      then show ?thesis using NewMessage_fields [OF n] "5.prems"(1) 3 by (auto simp: own_interrupt_def)
    next
      case 2
      then show ?thesis using "5.IH"(3) n 3 "5.prems"(1) own_interrupt_mono by fastforce
    qed
  qed (use 5 own_interrupt_mono in \<open>auto simp: errln_def split_beta\<close>)
qed (use own_interrupt_mono in \<open>auto simp: errln_def split: if_splits\<close>)

text \<open>How many: with notification off only the one that waits.\<close>

lemma turn_loop_count:
  "length (sent_messages (snd (turn_loop ce traceID (notified, waiting) ids is e))) \<le> (if notified then 2 else of_bool waiting)"
proof (induction "is" arbitrary: notified waiting ids e)
  case (Cons i "is")
  obtain th tu where ids: "ids = (th, tu)" by (rule prod.exhaust)
  show ?case
  proof (cases i)
    case (Frame f)
    define bound where "bound = (if notified then 2 else of_bool waiting :: nat)"
    then have "length (sent_messages (snd (turn_loop ce traceID (notified, waiting) ids' is e'))) \<le> bound" for ids' e'
      using Cons [of notified waiting] by simp
    then have "length (sent_messages (snd (turn_loop ce traceID (notified, waiting) ids (Frame f # is) e))) \<le> bound"
      unfolding turn_loop_frame by (simp add: Let_def split: sum.split option.split)
    then show ?thesis unfolding Frame bound_def .
  next
    case Signal
    then show ?thesis using Cons [of True True] by simp
  next
    case (Interrupt arrived)
    let ?e = "snd (NewMessage (cl_now ce) TypeTurnInterrupt traceID ctl_sender (turn_interrupt_json \<lparr>ti_thread_id = th, ti_turn_id = tu\<rparr>) e)"
    have "length (sent_messages (snd (turn_loop ce traceID (notified, notified \<and> arrived) (th, tu) is e))) \<le> (if notified then 2 else 0)"
      "length (sent_messages (snd (turn_loop ce traceID (False, notified \<and> arrived) (th, tu) is ?e))) \<le> of_bool (notified \<and> arrived)"
      using Cons [of notified "notified \<and> arrived" "(th, tu)" e] Cons [of False "notified \<and> arrived" "(th, tu)" ?e] by auto
    then show ?thesis using Cons [of notified False "(th, tu)" e] unfolding Interrupt ids
      by (cases waiting; cases notified; cases arrived) (simp_all add: split_beta Let_def errln_def split: if_splits)
  qed (simp add: errln_def)
qed simp

text \<open>With which code: that of the first ending input, unless an interrupt could not be sent or a late signal killed the process.\<close>

lemma turn_loop_code:
  fixes ce :: "'s ctl_env" and traceID :: string
  defines "go \<equiv> turn_loop ce traceID"
  shows "fst (go (notified, waiting) ids is e) = first_end traceID is
    \<or> fst (go (notified, waiting) ids is e) = Some 1 \<and> errln [T ''interrupt failed: '', Err SendFailed] \<in> set (snd (go (notified, waiting) ids is e))
    \<or> fst (go (notified, waiting) ids is e) = None \<and> Killed \<in> set (snd (go (notified, waiting) ids is e))
        \<and> (notified \<longrightarrow> sent_messages (snd (go (notified, waiting) ids is e)) \<noteq> [])"
  unfolding go_def
proof (induction "is" arbitrary: notified waiting ids e)
  case (Cons i "is")
  obtain th tu where ids: "ids = (th, tu)" by (rule prod.exhaust)
  show ?case
  proof (cases i)
    case (Frame f)
    show ?thesis using Cons [of notified waiting] unfolding Frame turn_loop_frame
      by (auto simp: ends_turn_def Let_def status_not_terminal split: sum.split option.split)
  next
    case Signal
    then show ?thesis using Cons [of True True] by (simp add: ends_turn_def)
  next
    case (Interrupt arrived)
    let ?e = "snd (NewMessage (cl_now ce) TypeTurnInterrupt traceID ctl_sender (turn_interrupt_json \<lparr>ti_thread_id = th, ti_turn_id = tu\<rparr>) e)"
    consider "\<not> waiting" | "waiting" "th = [] \<or> tu = []" | "waiting" "th \<noteq> []" "tu \<noteq> []" by blast
    then show ?thesis
    proof cases
      case 1
      then show ?thesis using Cons [of notified waiting "(th, tu)" e] Interrupt ids by (simp add: ends_turn_def)
    next
      case 2
      then show ?thesis using Cons [of notified "notified \<and> arrived" "(th, tu)" e] Interrupt ids
        by (simp add: ends_turn_def split_beta) (auto simp: errln_def)
    next
      case 3
      then show ?thesis using Cons [of False "notified \<and> arrived" "(th, tu)" ?e] Interrupt ids
        by (auto simp: ends_turn_def split_beta Let_def)
    qed
  qed (simp add: ends_turn_def)
qed simp

text \<open>With one signal at most, and writes that succeed, there is neither.\<close>

lemma turn_loop_alone:
  assumes "\<forall>m. cl_write ce m" "count_list is Signal = 0 \<or> notified \<and> \<not> waiting \<and> count_list is Signal \<le> 1"
  shows "fst (turn_loop ce traceID (notified, waiting) ids is e) = first_end traceID is"
  using assms(2)
proof (induction "is" arbitrary: notified waiting ids e)
  case (Cons i "is")
  obtain th tu where ids: "ids = (th, tu)" by (rule prod.exhaust)
  show ?case
  proof (cases i)
    case (Frame f)
    show ?thesis using Cons unfolding Frame turn_loop_frame
      by (auto simp: ends_turn_def Let_def status_not_terminal split: sum.split option.split)
  next
    case Signal
    then show ?thesis using Cons by (simp add: ends_turn_def)
  next
    case (Interrupt arrived)
    then show ?thesis using ids Cons assms(1) by (auto simp: ends_turn_def split_beta Let_def)
  qed (simp add: ends_turn_def)
qed simp

lemma NewID_trace: "NewID e = (trace, e1) \<Longrightarrow> trace \<noteq> []"
  using NewID_nonempty [of e] by simp

text \<open>
  Property C18. A relayctl turn follows its own turn and no other. Where the start cannot be written the command ends
  with 1 and has sent nothing. Otherwise it has sent one \<^verbatim>\<open>turn.start\<close> with the project and the trimmed prompt (of the flag, or the
  arguments joined by spaces), and every further message is an interrupt of a turn that a message of
  its own trace reported as started, two at most. Its exit code is that of the first message of its trace that ends a
  turn (0 completed, 1 failed or rejected, 130 interrupted) or 1 for the end of the connection, whatever other turns do, with two
  exceptions: 1 when an interrupt could not be written, and none when a signal that came after an interrupt was sent
  killed the process. Neither happens when every write succeeds and at most one signal comes. All that is sent is
  accepted by the relay from an app.
\<close>

theorem turn_follows_itself:
  assumes "flag_Parse (str_flags [''url'', ''project'', ''thread'', ''prompt'', ''profile'']) arguments = Some (xs, rest)"
    and "prompt = (if flag_str xs ''prompt'' [] \<noteq> [] then flag_str xs ''prompt'' [] else join_with '' '' rest)"
    and "flag_str xs ''project'' [] \<noteq> []" "trim_space prompt \<noteq> []"
    and "cl_dial ce (app_url ce xs)" "cl_now ce \<noteq> 0"
    and "turn_cmd ce arguments e = (code, effs)"
  shows "\<exists>start. m_type start = TypeTurnStart \<and> Validate start = None
    \<and> m_payload start = Some (turn_start_json \<lparr>ts_command_id = [], ts_run_id = [], ts_project_id = flag_str xs ''project'' [],
        ts_thread_id = flag_str xs ''thread'' [], ts_prompt = trim_space prompt, ts_permission_profile_id = flag_str xs ''profile'' []\<rparr>)
    \<and> (if cl_write ce start then
         \<exists>effs'. effs = Sent start # effs' \<and> length (sent_messages effs') \<le> 2
         \<and> (\<forall>m. Sent m \<in> set effs' \<longrightarrow> m_type m = TypeTurnInterrupt \<and> m_trace_id m = m_trace_id start
              \<and> (\<exists>th tu. own_turn (m_trace_id start) (cl_inputs ce) (th, tu)
                   \<and> m_payload m = Some (turn_interrupt_json \<lparr>ti_thread_id = th, ti_turn_id = tu\<rparr>)))
         \<and> (code = first_end (m_trace_id start) (cl_inputs ce)
            \<or> code = Some 1 \<and> errln [T ''interrupt failed: '', Err SendFailed] \<in> set effs'
            \<or> code = None \<and> Killed \<in> set effs' \<and> sent_messages effs' \<noteq> [])
         \<and> ((\<forall>m. cl_write ce m) \<and> count_list (cl_inputs ce) Signal \<le> 1 \<longrightarrow> code = first_end (m_trace_id start) (cl_inputs ce))
       else code = Some 1 \<and> sent_messages effs = [])
    \<and> (\<forall>m. Sent m \<in> set effs \<longrightarrow> Validate m = None \<and> AllowedFrom RoleApp (m_type m))"
proof -
  obtain trace e1 where t: "NewID e = (trace, e1)" by (rule prod.exhaust)
  let ?payload = "turn_start_json \<lparr>ts_command_id = [], ts_run_id = [], ts_project_id = flag_str xs ''project'' [],
      ts_thread_id = flag_str xs ''thread'' [], ts_prompt = trim_space prompt, ts_permission_profile_id = flag_str xs ''profile'' []\<rparr>"
  obtain start err e2 where n: "NewMessage (cl_now ce) TypeTurnStart trace ctl_sender ?payload e1 = ((start, err), e2)"
    by (metis prod.exhaust)
  note f = NewMessage_fields [OF n]
  have trace: "trace \<noteq> []" "m_trace_id start = trace" using NewID_trace [OF t] f(5) by simp_all
  have valid: "Validate start = None" using f trace assms(6) by (simp add: Validate_None ctl_sender_def type_defs)
  have prompt: "(if flag_str xs ''prompt'' [] = [] \<and> rest \<noteq> [] then join_with '' '' rest else flag_str xs ''prompt'' []) = prompt"
    using assms(2) by (simp add: join_with_def)
  let ?run = "turn_loop ce trace (True, False) ([], []) (cl_inputs ce) e2"
  have run: "(code, effs) = (if cl_write ce start then (fst ?run, Sent start # snd ?run) else (Some 1, [errln [Err SendFailed]]))"
    using assms(7) unfolding turn_cmd_def assms(1) option.case prod.case Let_def prompt t n using assms(3-5)
    by (simp add: split_beta split: if_splits)
  have own: "own_interrupt (cl_now ce) trace (cl_inputs ce) ([], []) m" if "Sent m \<in> set (snd ?run)" for m
    using turn_loop_sends [OF trace(1) that] by blast
  have ok: "Validate m = None \<and> AllowedFrom RoleApp (m_type m)" if "Sent m \<in> set (snd ?run)" for m
    using own [OF that] trace(1) assms(6)
    by (auto simp: own_interrupt_def Validate_None ctl_sender_def type_defs AllowedFrom_def app_types_def)
  have named: "m_type m = TypeTurnInterrupt \<and> m_trace_id m = trace \<and> (\<exists>th tu. own_turn trace (cl_inputs ce) (th, tu)
      \<and> m_payload m = Some (turn_interrupt_json \<lparr>ti_thread_id = th, ti_turn_id = tu\<rparr>))" if "Sent m \<in> set (snd ?run)" for m
    using own [OF that] unfolding own_interrupt_def by blast
  have started: "AllowedFrom RoleApp (m_type start)" using f(1) by (simp add: AllowedFrom_def app_types_def)
  show ?thesis
  proof (cases "cl_write ce start")
    case True
    then show ?thesis using run f trace valid started ok named turn_loop_count [of ce trace True False "([], [])" "cl_inputs ce" e2]
        turn_loop_code [of ce trace True False "([], [])" "cl_inputs ce" e2]
        turn_loop_alone [of ce "cl_inputs ce" True False trace "([], [])" e2]
      by (intro exI [where x = start]) simp
  next
    case False
    then show ?thesis using run f valid by (intro exI [where x = start]) (auto simp: errln_def)
  qed
qed

definition demo_ctl_env :: "unit ctl_env" where
  "demo_ctl_env = \<lparr>cl_getenv = (\<lambda>_. []), cl_dial = (\<lambda>_. True), cl_write = (\<lambda>_. True), cl_frames = [], cl_inputs = [Signal, Interrupt False, ReadEnded],
     cl_watched = False, cl_now = 1, cl_do = (\<lambda>_ _ s. (None, s)), cl_size = (\<lambda>_. 0)\<rparr>"

theorem turn_follows_itself_witness:
  "\<exists>start effs'. turn_cmd demo_ctl_env [''--project'', ''p'', ''fix'', ''it''] zero_entropy = (Some 1, Sent start # effs') \<and> m_type start = TypeTurnStart"
proof -
  have parsed: "flag_Parse (str_flags [''url'', ''project'', ''thread'', ''prompt'', ''profile'']) [''--project'', ''p'', ''fix'', ''it'']
      = Some ([(''project'', VStr ''p'')], [''fix'', ''it''])" by code_simp
  have trim: "trim_space ''fix it'' = ''fix it''" by (simp add: trim_space_plain plain_ends_def)
  obtain code effs where run: "turn_cmd demo_ctl_env [''--project'', ''p'', ''fix'', ''it''] zero_entropy = (code, effs)" by (rule prod.exhaust)
  show ?thesis using turn_follows_itself [OF parsed refl _ _ _ _ run] run
    by (auto simp: flag_str_def join_with_def trim demo_ctl_env_def ends_turn_def)
qed

subsection \<open>Revoking from the command line\<close>

definition plain_char :: "char \<Rightarrow> bool" where
  "plain_char c \<longleftrightarrow> alnum c \<or> c \<in> set ''-_.~''"

lemma plain_char_not: "plain_char c \<Longrightarrow> c \<notin> set ''%#?/'' \<and> 32 \<le> (of_char c :: nat) \<and> c \<noteq> CHR 0x7F"
  by (auto simp: plain_char_def alnum_def Let_def)

lemma PathEscape_plain: "list_all plain_char s \<Longrightarrow> PathEscape s = s"
  by (induction s) (auto simp: PathEscape_def escape_def shouldEscape_def plain_char_def)

lemma unescape_plain: "CHR ''%'' \<notin> set s \<Longrightarrow> unescape EncodePath s = Some s"
  by (induction s) auto

lemma cut_free: "c \<notin> set s \<Longrightarrow> cut c s = (s, [])"
proof -
  assume "c \<notin> set s"
  then have "takeWhile (\<lambda>x. x \<noteq> c) s = s" "dropWhile (\<lambda>x. x \<noteq> c) s = []" by (auto simp: takeWhile_eq_all_conv dropWhile_eq_Nil_conv)
  then show ?thesis unfolding cut_def by (simp only: list.sel)
qed

lemma split_query_free: "CHR ''?'' \<notin> set s \<Longrightarrow> split_query s = (s, False, [])"
  by (auto simp: split_query_def cut_free has_suffix_iff)

lemma default_path:
  assumes "\<forall>c \<in> set p. plain_char c \<or> c = CHR ''/''"
  shows "url_Parse (''http://127.0.0.1:18776'' @ CHR ''/'' # p) = Some (default_control\<lparr>ur_path := CHR ''/'' # p\<rparr>)"
proof -
  let ?s = "''http://127.0.0.1:18776'' @ CHR ''/'' # p" and ?r = "''//127.0.0.1:18776'' @ CHR ''/'' # p"
  have p: "c \<notin> set ''%#?'' \<and> \<not> (of_char c < (32 :: nat) \<or> c = CHR 0x7F)" if "c \<in> set p" for c
  proof (cases "c = CHR ''/''")
    case False
    then have "plain_char c" using assms that by blast
    from plain_char_not [OF this] show ?thesis by auto
  qed simp
  then have free: "CHR ''%'' \<notin> set p" "CHR ''#'' \<notin> set p" "CHR ''?'' \<notin> set p" by fastforce+
  have ex: "\<not> list_ex (\<lambda>c. of_char c < (32 :: nat) \<or> c = CHR 0x7F) p" using p unfolding list_ex_iff by blast
  have "cut (CHR ''#'') ?s = (?s, [])" using free by (intro cut_free) simp
  moreover have "\<not> list_ex (\<lambda>c. of_char c < (32 :: nat) \<or> c = CHR 0x7F) ?s"
    using ex by simp
  moreover have "getScheme ?s = Some (''http'', ?r)" by (simp add: getScheme_def alnum_def is_digit_def)
  moreover have "split_query ?r = (?r, False, [])"
    using free by (intro split_query_free) simp
  moreover have "parseAuthority ''127.0.0.1:18776'' = Some (None, ''127.0.0.1:18776'')" by code_simp
  moreover have "unescape EncodePath (CHR ''/'' # p) = Some (CHR ''/'' # p)" using free by (intro unescape_plain) simp
  ultimately show ?thesis
    by (simp add: url_Parse_def url_parse_def Let_def has_prefix_def default_control_def empty_url_def to_lower_def lower_char_def)
qed

definition revoke_path :: "string \<Rightarrow> string" where
  "revoke_path cid = ''/v1/auth-control/clients/'' @ cid @ ''/revoke''"

lemma revoke_request:
  assumes "list_all plain_char cid"
  shows "client_request size_of ''POST'' (defaultAuthControlURL @ ''/v1/auth-control/clients/'' @ PathEscape cid @ ''/revoke'') (Some (JObj [])) =
    Some \<lparr>rq_method = ''POST'', rq_path = revoke_path cid, rq_query = [], rq_headers = [(''Content-Type'', ''application/json'')],
      rq_cookies = [], rq_body = Some (JObj []), rq_body_end = size_of (JObj [])\<rparr>"
proof -
  have "\<forall>c \<in> set (''v1/auth-control/clients/'' @ cid @ ''/revoke''). plain_char c \<or> c = CHR ''/''"
    using assms by (auto simp: list_all_iff plain_char_def alnum_def)
  from default_path [OF this] show ?thesis
    by (simp add: client_request_def PathEscape_plain [OF assms] defaultAuthControlURL_def revoke_path_def url_Query_def
        default_control_def empty_url_def)
qed

lemma control_revoke:
  assumes "list_all plain_char cid" "cid \<noteq> []"
  shows "\<exists>resp. control_Handler H conf flt now \<lparr>rq_method = ''POST'', rq_path = revoke_path cid, rq_query = [], rq_headers = hs,
      rq_cookies = [], rq_body = b, rq_body_end = n\<rparr> st = (resp, snd (revokeClient flt now cid st))
    \<and> re_status resp = re_status (fst (revokeClient flt now cid st))"
proof -
  have "CHR ''/'' \<notin> set cid" using assms(1) plain_char_not by (fastforce simp: list_all_iff)
  then have "split_on (CHR ''/'') (cid @ ''/revoke'') = [cid, ''revoke'']" by (simp add: split_on_append)
  then have "split_on (CHR ''/'') (revoke_path cid) = [[], ''v1'', ''auth-control'', ''clients'', cid, ''revoke'']"
    by (simp add: revoke_path_def)
  then show ?thesis using assms(2)
    by (simp add: control_Handler_def Let_def method_matches_def with_headers_def split_beta)
qed

text \<open>
  Property C17. A client revoked with relayctl is locked out. When \<^verbatim>\<open>relayctl revoke-client\<close>, run against the control API of the relay on its
  machine, exits with 0, then in every state reached afterwards no bearer token authenticates as the client; when it
  exits with 1 it says why, and it never exits with 0 if the service refused.
\<close>

theorem relayctl_revoke_locks_out:
  assumes "flag_Parse (str_flags [''control-url'', ''client'']) arguments = Some (xs, rest)"
    and "control_url ce xs = defaultAuthControlURL" "flag_str xs ''client'' [] = cid"
    and "trim_space cid \<noteq> []" "list_all plain_char cid"
    and "cl_do ce = relay_client H conf flt now (cl_size ce)" "auth_steps H conf empty_auth db"
    and "relayctl_realMain ce (''revoke-client'' # arguments) e (ent, db) = (code, effs, (ent', db1))"
  shows "(code = Some 0 \<longleftrightarrow> fst (RevokeClient flt now cid ''control_revoke'' db) = Inr ())
    \<and> (code = Some 0 \<or> code = Some 1)
    \<and> (code = Some 0 \<longrightarrow> (\<forall>db2. auth_steps H conf db1 db2 \<longrightarrow>
         (\<forall>flt t bearer p. fst (Authenticate H flt t bearer db2) = Inr p \<longrightarrow> pr_client_id p \<noteq> cid)))"
proof -
  have ne: "cid \<noteq> []" using assms(4) by auto
  obtain r db' where rc: "RevokeClient flt now cid ''control_revoke'' db = (r, db')" by (rule prod.exhaust)
  obtain resp where ctl: "control_Handler H conf flt now \<lparr>rq_method = ''POST'', rq_path = revoke_path cid, rq_query = [],
        rq_headers = [(''Content-Type'', ''application/json'')], rq_cookies = [], rq_body = Some (JObj []), rq_body_end = cl_size ce (JObj [])\<rparr> (ent, db)
      = (resp, snd (revokeClient flt now cid (ent, db)))" "re_status resp = re_status (fst (revokeClient flt now cid (ent, db)))"
    using control_revoke [OF assms(5) ne] by blast
  have "re_status (fst (revokeClient flt now cid (ent, db))) = (case r of Inr _ \<Rightarrow> 204 | Inl err \<Rightarrow> re_status (writeServiceError err))"
    "snd (revokeClient flt now cid (ent, db)) = (ent, db')"
    using rc by (auto simp: revokeClient_def write_defs split: sum.split)
  moreover have "re_status (writeServiceError err) \<ge> 300" for err by (simp add: write_defs split: auth_error.split)
  ultimately have "code = (case r of Inr _ \<Rightarrow> Some 0 | Inl _ \<Rightarrow> Some 1)" "db1 = db'"
    using assms revoke_request [OF assms(5), of "cl_size ce"] ctl
    by (auto simp: relayctl_realMain_def revokeClient_cmd_def controlRequest_def Let_def relay_client_def reply_of_def not_less
        split: sum.splits)
  then show ?thesis using rc revoked_client_authenticates [OF assms(7), of flt now cid "''control_revoke''" db1]
    by (auto split: sum.splits)
qed

definition demo_revoke_env :: "auth_state ctl_env" where
  "demo_revoke_env = \<lparr>cl_getenv = (\<lambda>_. []), cl_dial = (\<lambda>_. True), cl_write = (\<lambda>_. True), cl_frames = [], cl_inputs = [],
     cl_watched = False, cl_now = 1, cl_do = relay_client id demo_conf no_faults minute (\<lambda>_. 100), cl_size = (\<lambda>_. 100)\<rparr>"

text \<open>The identifiers that the service gives its clients need no escaping.\<close>

lemma b64_plain: "n < 64 \<Longrightarrow> plain_char (b64_char n)"
  by (auto simp: plain_char_def alnum_def b64_char_def Let_def)

lemma client_id_plain: "list_all plain_char (fst (randomID ''client'' e))"
proof -
  have "list_all plain_char (fst (randomSecret 18 e))"
    using raw_url_encode_chars b64_plain by (fastforce simp: randomSecret_def split_beta list_all_iff)
  then show ?thesis by (simp add: randomID_def split_beta plain_char_def alnum_def)
qed

lemma demo_client_id: "\<exists>e. cm_client_id demo_material = fst (randomID ''client'' e)"
  by (auto simp: demo_material_def issued_def Let_def split_beta)

theorem relayctl_revoke_locks_out_witness:
  "\<exists>effs ent db1. relayctl_realMain demo_revoke_env [''revoke-client'', ''--client'', cm_client_id demo_material] zero_entropy (zero_entropy, demo_paired)
     = (Some 0, effs, (ent, db1))
     \<and> \<not> (\<exists>t bearer p. fst (Authenticate id no_faults t bearer db1) = Inr p \<and> pr_client_id p = cm_client_id demo_material)"
proof -
  let ?cid = "cm_client_id demo_material"
  have parsed: "flag_Parse (str_flags [''control-url'', ''client'']) [''--client'', ?cid] = Some ([(''client'', VStr ?cid)], [])"
    by (simp add: split_flag_def str_flags_def set_flag_def)
  obtain code effs ent db1 where run: "relayctl_realMain demo_revoke_env (''revoke-client'' # [''--client'', ?cid]) zero_entropy (zero_entropy, demo_paired)
      = (code, effs, (ent, db1))" by (metis prod.exhaust)
  have url: "control_url demo_revoke_env [(''client'', VStr ?cid)] = defaultAuthControlURL"
    by (simp add: control_url_def flag_str_def demo_revoke_env_def envOrDefault_def)
  have plain: "list_all plain_char ?cid" using demo_client_id client_id_plain by metis
  obtain db' where rc: "RevokeClient no_faults minute ?cid ''control_revoke'' demo_paired = (Inr (), db')" using demo_revoke by blast
  then have trim: "trim_space ?cid \<noteq> []" by (auto simp: RevokeClient_def)
  have client: "cl_do demo_revoke_env = relay_client id demo_conf no_faults minute (cl_size demo_revoke_env)" by (simp add: demo_revoke_env_def)
  have cid: "flag_str [(''client'', VStr ?cid)] ''client'' [] = ?cid" by (simp add: flag_str_def)
  note locked = relayctl_revoke_locks_out [OF parsed url cid trim plain client demo_paired_reachable run]
  have code: "code = Some 0" using locked rc by simp
  then have "\<forall>flt t bearer p. fst (Authenticate id flt t bearer db1) = Inr p \<longrightarrow> pr_client_id p \<noteq> ?cid"
    using locked auth_steps.none [of id demo_conf db1] by blast
  then show ?thesis using run code by blast
qed

end
