(* ===== verification/Spec2Isabelle.thy ===== *)
theory Spec2Isabelle
  imports Coordinator_Properties Relay_Main Ctl_Properties
begin

text \<open>
  A verification of the Codex Remote relay server (\<^verbatim>\<open>src/\<close>, written in Go).

  \<^bold>\<open>The program.\<close> The relay stands between one agent, which runs Codex on a developer's machine, and its
  clients. Agent and app connect by WebSocket; a router forwards their messages, and the hub's
  registry holds the one connection of each role. The Runtime part makes the agent's work durable: an
  HTTP API creates sessions and runs and puts commands into an outbox, a coordinator sends them to
  the agent, stores the events the agent reports and acknowledges them, and clients read events
  by page, by long poll or as a stream. PostgreSQL keeps the tables, Redis the live streams and
  notifications. The Auth part pairs clients by one-time codes and guards the API with scoped bearer
  tokens and rotating refresh tokens.

  \<^bold>\<open>Theories.\<close>
  \<^item> \<open>Relay_Prelude\<close>, \<open>Relay_Tables\<close>: time, the string functions of Go, random bytes, tables with keys, transactions
    with lost statements and replies, and the rules with which bodies of transactions are verified.
  \<^item> \<open>Go_Time\<close>, \<open>Go_Json\<close>, \<open>Go_Any\<close>, \<open>Go_Strconv\<close>, \<open>Go_Net\<close>, \<open>Http_Core\<close>: what the sources use of the Go library: RFC 3339
    times, JSON decoding into structs and into any, numbers as text, durations, host and port, IP
    addresses, requests and responses.
  \<^item> \<open>Auth_Tokens\<close>, \<open>Auth_Store\<close>, \<open>Auth_Service\<close>, \<open>Auth_Http\<close>: \<^verbatim>\<open>internal/auth\<close>, from tokens and tables to the public
    and control handlers and the middleware; \<open>Auth_Properties\<close> has the theorems: codes and refresh
    tokens work once, a replay revokes the session, revocation is final, an exchange takes effect as a
    whole or not at all, authentication is sound and complete.
  \<^item> \<open>Protocol\<close>, \<open>Payloads\<close>: \<^verbatim>\<open>internal/protocol/message.go\<close>. \<open>Hub\<close>, \<open>Peers\<close>, \<open>Router\<close>: \<^verbatim>\<open>internal/hub\<close>, \<^verbatim>\<open>internal/websocket\<close> and
    \<^verbatim>\<open>internal/router\<close>; a step relation with an invariant, and where each message of an app goes. \<open>Gateways\<close>: the source and
    execution-profile gateways, their bounds and their answers.
  \<^item> \<open>Runtime_Tables\<close>, \<open>Runtime_Store\<close>, \<open>Runtime_Bootstrap\<close>: the schema and every method of
    \<^verbatim>\<open>internal/runtime/postgres.go\<close>. \<open>Runtime_Invariant\<close>, \<open>Runtime_Log\<close>, \<open>Runtime_Steps\<close>: the invariant of the tables (schema,
    feeds, outbox, run logs), kept by every body, and the steps of the store. \<open>Runtime_Properties\<close>,
    \<open>Runtime_Outbox\<close>, \<open>Runtime_Feed\<close>, \<open>Runtime_Sync\<close>: idempotence and effect of the operations, exactly one command per run,
    cancellation and import, the feed as an append-only log, imports in order.
  \<^item> \<open>Redis_Broker\<close>: \<^verbatim>\<open>internal/runtime/redis.go\<close>. \<open>Coordinator\<close>, \<open>Coordinator_Properties\<close>: \<^verbatim>\<open>internal/runtime/coordinator.go\<close> as the
    observer of the router; the invariant of the whole relay, what a durable acknowledgement means, the way of a
    new run to the agent, and that a lost agent releases the requests that wait for it.
  \<^item> \<open>Runtime_Http\<close>, \<open>Runtime_Poll\<close>, \<open>Runtime_Stream\<close>, \<open>Runtime_Routes\<close>: \<^verbatim>\<open>internal/runtime/http.go\<close>; polls end and lose nothing,
    streams have no gap.
  \<^item> \<open>Config\<close>, \<open>Server\<close>: \<^verbatim>\<open>internal/config\<close> and \<^verbatim>\<open>internal/server\<close>; the composition of all parts, with the theorem that each
    route of the API is guarded by the scope it needs.
  \<^item> \<open>Go_Flag\<close>, \<open>Go_Url\<close>, \<open>Http_Client\<close>: command-line flags, URLs and requests of the Go library. \<open>Relay_Main\<close>: \<^verbatim>\<open>cmd/relay\<close>, the trace of a process and that
    it is safe from start to end. \<open>Qr_Render\<close>, \<open>Qr_Faithful\<close>, \<open>Pair_Qr\<close>, \<open>Pair_Properties\<close>: \<^verbatim>\<open>cmd/pairqr\<close>; a terminal, modelled byte by byte,
    shows the encoded code, the program asks only the machine's own control API, and its link opens
    a session in the auth service. \<open>Relay_Ctl\<close>, \<open>Ctl_Properties\<close>: \<^verbatim>\<open>cmd/relayctl\<close>; a followed turn ends with its own turn, interrupts and signals included, and a client
    revoked from the command line is locked out.

  \<^bold>\<open>How code becomes definitions.\<close> A Go struct is a record, an enumeration or set of errors a datatype, a table a list of
  row records with its constraints as a predicate. An operation is a function from its arguments and the
  state to its result and the new state; an error is the left side of a sum. A transaction is a
  program over the tables that commits as a whole; each of its statements may fail and its
  reply may get lost (\<open>faults\<close>), and between the transactions of a call other connections may change the tables in any
  way the store itself allows. What happens elsewhere while a handler waits is an argument
  (\<open>ae_meanwhile\<close>). Concurrency is the interleaving of steps: \<open>auth_steps\<close>, \<open>rt_steps\<close>, \<open>relay_steps\<close>.

  \<^bold>\<open>Interfaces\<close> are locales, interpreted on the model: \<open>append_log\<close> and \<open>event_pages\<close> (feeds and pages), \<open>agent_observer\<close> (router and
  coordinator), \<open>observed_state\<close> (relay and tables), \<open>polling\<close> and \<open>event_reader\<close> (polls and streams), and those of the gateways.

  \<^bold>\<open>Bounds.\<close> Integers that Go keeps in 64 bits are integers with the bound or the wrap-around written out
  where it can be reached: connection numbers are words, sequence numbers of a stream wrap, parsed numbers
  are in range. Fuel bounds three loops. The rounds of a poll: one more round than start before the
  deadline is enough (\<open>polls_answer\<close>). The merge of a run stream: one more round than there are
  entries, as each round uses one. The parts of a duration: each consumes its unit, so its length is
  enough (\<open>duration_fuel\<close>). A stream itself may run for ever; it is given the list of its wake-ups.

  \<^bold>\<open>Parameters\<close> stand for what is not in the repository or not expressible: SHA-256, the go-redis client (with the
  documented laws of XADD and XRANGE as hypothesis \<open>stream_laws\<close>), the handshake of the WebSocket
  library, jsonb normalisation and text collation of PostgreSQL, floating-point numbers, clocks and the
  choice of a \<open>select\<close>, the QR encoder, the file system, the connections and HTTP clients of the commands, and the
  printed form of times and JSON values.

  \<^bold>\<open>Simplifications.\<close> A request has one path, the decoded one; the code matches routes on the escaped path, so an escaped slash
  inside an identifier is not covered. The control API's mux redirects a path that is not canonical, which is not
  modelled there (it is for the public server). The HTTP clients of the commands are one parameter each, which includes the
  redirects they follow, and their JSON bodies keep invalid UTF-8, which Go replaces. A payload in Redis is the tree of its
  text: the code compares the texts, so a re-sent event whose payload differs in white space only is a conflict for the code. Of
  events read from the broker the stream theorem says that the broker returned them, in some state of it.

  \<^bold>\<open>Specifications\<close> of what the code should do are written independently of it where it has a table or predicate of its own:
  \<open>needed_scope\<close> (scopes by route), \<open>status_table\<close> and \<open>after_event\<close> (what an event does to its run), \<open>machine_host\<close> and
  \<open>loopback_host\<close> (loopback addresses), \<open>braille_dot\<close> (the dots of a braille character), and rows written out in full.

  \<^bold>\<open>Not modelled.\<close> How databases are opened and migrated, the sockets below the listeners, logging, what the flag package
  prints itself and the bytes on the wire are I/O. Tests, shell scripts and deployment files are left out.
\<close>

end
